(* ===== verification/Prelude.thy ===== *)
theory Prelude
  imports Main "HOL-Library.Char_ord" "HOL-Library.List_Lexorder" "HOL-Library.Word"
begin

text \<open>
  Shared vocabulary of the development: the collections the component proofs extend, and the
  generic facts on lists, options and tables that several components use.
\<close>

named_theorems go_simps \<open>unfolding rules of small Go library functions\<close>
named_theorems row_simps \<open>how table operations act on rows\<close>
named_theorems world_simps \<open>frame rules: which part of the hub state an operation writes\<close>

type_synonym bytes = string

subsection \<open>Lists\<close>

lemma take_dropWhile_rev [simp]: "rev (dropWhile P (rev [])) = []"
  by simp

lemma set_dropWhile_subset: "set (dropWhile P xs) \<subseteq> set xs"
  by (auto dest: set_dropWhileD)

lemma length_dropWhile_rev_le: "length (rev (dropWhile P (rev xs))) \<le> length xs"
  using length_dropWhile_le [of P "rev xs"] by simp

lemma hd_dropWhile_not: "dropWhile P xs \<noteq> [] \<Longrightarrow> \<not> P (hd (dropWhile P xs))"
  by (induction xs) auto

lemma dropWhile_id: "xs = [] \<or> \<not> P (hd xs) \<Longrightarrow> dropWhile P xs = xs"
  by (cases xs) auto

lemma filter_map_id: "(\<And>x. x \<in> set xs \<Longrightarrow> p x \<Longrightarrow> f x = x) \<Longrightarrow> map (\<lambda>x. if p x then f x else x) xs = xs"
  by (induction xs) auto

lemma distinct_map_append1:
  "distinct (map k (xs @ [x])) \<longleftrightarrow> distinct (map k xs) \<and> (\<forall>y \<in> set xs. k y \<noteq> k x)"
  by (auto simp: image_iff)

lemma find_Some_iff_mem: "List.find p xs = Some x \<Longrightarrow> x \<in> set xs \<and> p x"
  by (auto simp: find_Some_iff)

lemma find_None_all: "List.find p xs = None \<longleftrightarrow> (\<forall>x \<in> set xs. \<not> p x)"
  by (auto simp: find_None_iff)

subsection \<open>Tables of the hub database\<close>

text \<open>
  A table is the list of its rows in rowid order. An \<open>INSERT\<close> appends a row unless a declared
  key (primary key or \<open>UNIQUE\<close> constraint) is already taken; an \<open>UPDATE\<close> rewrites the rows its
  \<open>WHERE\<close> clause selects; a \<open>SELECT\<close> of one row takes the first match.
\<close>

definition sql_insert :: "('r \<Rightarrow> 'r \<Rightarrow> bool) \<Rightarrow> 'r \<Rightarrow> 'r list \<Rightarrow> 'r list option" where
  "sql_insert clash r t = (if \<exists>x \<in> set t. clash x r then None else Some (t @ [r]))"

definition sql_update :: "('r \<Rightarrow> bool) \<Rightarrow> ('r \<Rightarrow> 'r) \<Rightarrow> 'r list \<Rightarrow> 'r list" where
  "sql_update p f t = map (\<lambda>r. if p r then f r else r) t"

definition sql_delete :: "('r \<Rightarrow> bool) \<Rightarrow> 'r list \<Rightarrow> 'r list" where
  "sql_delete p t = filter (\<lambda>r. \<not> p r) t"

definition sql_affected :: "('r \<Rightarrow> bool) \<Rightarrow> 'r list \<Rightarrow> nat" where
  "sql_affected p t = length (filter p t)"

definition sql_row :: "('r \<Rightarrow> bool) \<Rightarrow> 'r list \<Rightarrow> 'r option" where
  "sql_row p t = List.find p t"

text \<open>\<open>INSERT ... ON CONFLICT DO UPDATE\<close>: replace the row with the same key, or append.\<close>

definition sql_upsert :: "('r \<Rightarrow> 'k) \<Rightarrow> ('r \<Rightarrow> 'r \<Rightarrow> 'r) \<Rightarrow> 'r \<Rightarrow> 'r list \<Rightarrow> 'r list" where
  "sql_upsert k merge r t =
     (if \<exists>x \<in> set t. k x = k r then map (\<lambda>x. if k x = k r then merge x r else x) t else t @ [r])"

lemma sql_insert_Some [row_simps]:
  "sql_insert c r t = Some t' \<longleftrightarrow> (\<forall>x \<in> set t. \<not> c x r) \<and> t' = t @ [r]"
  by (auto simp: sql_insert_def)

lemma sql_insert_None [row_simps]: "sql_insert c r t = None \<longleftrightarrow> (\<exists>x \<in> set t. c x r)"
  by (auto simp: sql_insert_def)

lemma sql_update_length [simp]: "length (sql_update p f t) = length t"
  by (simp add: sql_update_def)

lemma sql_update_Nil [simp]: "sql_update p f [] = []"
  by (simp add: sql_update_def)

lemma sql_update_Cons [simp]:
  "sql_update p f (r # t) = (if p r then f r else r) # sql_update p f t"
  by (simp add: sql_update_def)

lemma sql_update_append [simp]: "sql_update p f (s @ t) = sql_update p f s @ sql_update p f t"
  by (simp add: sql_update_def)

lemma set_sql_update: "set (sql_update p f t) = f ` {r \<in> set t. p r} \<union> {r \<in> set t. \<not> p r}"
  by (auto simp: sql_update_def)

lemma sql_update_key [row_simps]:
  "(\<And>r. k (f r) = k r) \<Longrightarrow> map k (sql_update p f t) = map k t"
  by (simp add: sql_update_def comp_def if_distrib cong: if_cong)

lemma sql_update_none: "(\<And>r. r \<in> set t \<Longrightarrow> \<not> p r) \<Longrightarrow> sql_update p f t = t"
  by (simp add: sql_update_def map_idI)

lemma sql_row_Some: "sql_row p t = Some r \<Longrightarrow> r \<in> set t \<and> p r"
  unfolding sql_row_def by (rule find_Some_iff_mem)

lemma sql_row_None: "sql_row p t = None \<longleftrightarrow> (\<forall>r \<in> set t. \<not> p r)"
  by (auto simp: sql_row_def find_None_iff)

lemma sql_row_append:
  "sql_row p (s @ t) = (case sql_row p s of None \<Rightarrow> sql_row p t | Some r \<Rightarrow> Some r)"
  unfolding sql_row_def by (induction s) auto

lemma sql_row_unique:
  "distinct (map k t) \<Longrightarrow> r \<in> set t \<Longrightarrow> k r = a \<Longrightarrow> sql_row (\<lambda>x. k x = a) t = Some r"
  unfolding sql_row_def by (induction t) force+

lemma sql_row_update:
  assumes "\<And>r. k (f r) = k r"
  shows "sql_row (\<lambda>x. k x = a) (sql_update p f t) =
         map_option (\<lambda>r. if p r then f r else r) (sql_row (\<lambda>x. k x = a) t)"
  unfolding sql_row_def using assms by (induction t) auto

lemma sql_affected_0: "sql_affected p t = 0 \<longleftrightarrow> (\<forall>r \<in> set t. \<not> p r)"
  by (simp add: sql_affected_def filter_empty_conv)

lemma sql_affected_key:
  assumes "distinct (map k t)" "\<And>r. p r \<Longrightarrow> k r = a"
  shows "sql_affected p t \<le> 1"
proof -
  have d: "distinct (map k (filter p t))"
    using assms(1) by (simp add: distinct_map_filter)
  have "set (map k (filter p t)) \<subseteq> {a}" using assms(2) by auto
  then have "card (set (map k (filter p t))) \<le> 1"
    using card_mono [of "{a}"] by fastforce
  then show ?thesis using distinct_card [OF d] by (simp add: sql_affected_def)
qed

lemma sql_upsert_keys:
  assumes "\<And>x. k x = k r \<Longrightarrow> k (merge x r) = k r"
  shows "map k (sql_upsert k merge r t) =
         (if \<exists>x \<in> set t. k x = k r then map k t else map k t @ [k r])"
  using assms by (auto simp: sql_upsert_def)

lemma sql_upsert_distinct:
  assumes "distinct (map k t)" "\<And>x. k x = k r \<Longrightarrow> k (merge x r) = k r"
  shows "distinct (map k (sql_upsert k merge r t))"
  using assms by (subst sql_upsert_keys) auto

subsection \<open>Outcomes\<close>

text \<open>Sequencing of fallible steps: a Go function returning \<open>(value, error)\<close> is a sum.\<close>

definition andThen :: "'e + 'a \<Rightarrow> ('a \<Rightarrow> 'e + 'b) \<Rightarrow> 'e + 'b" where
  "andThen x f = (case x of Inl e \<Rightarrow> Inl e | Inr a \<Rightarrow> f a)"

lemma andThen_simps [simp]: "andThen (Inl e) f = Inl e" "andThen (Inr a) f = f a"
  by (simp_all add: andThen_def)

lemma andThen_Inr: "andThen x f = Inr b \<longleftrightarrow> (\<exists>a. x = Inr a \<and> f a = Inr b)"
  by (cases x) simp_all

end
