(* ===== verification/GoStrings.thy ===== *)
theory GoStrings
  imports Prelude
begin

text \<open>
  The functions of Go's \<open>strings\<close>, \<open>strconv\<close> packages that the program uses, on byte strings.
  White space and letter case are those of ASCII: text outside ASCII passes through unchanged.
\<close>

abbreviation ord :: "char \<Rightarrow> nat" where
  "ord c \<equiv> of_char c"

definition nl :: char where "nl = CHR 0x0A"
definition dq :: char where "dq = CHR 0x22"
definition bslash :: char where "bslash = CHR 0x5C"

subsection \<open>Character classes\<close>

definition is_space :: "char \<Rightarrow> bool" where
  "is_space c \<longleftrightarrow> c \<in> {CHR '' '', CHR 0x09, CHR 0x0A, CHR 0x0B, CHR 0x0C, CHR 0x0D}"

definition is_lower :: "char \<Rightarrow> bool" where
  "is_lower c \<longleftrightarrow> 97 \<le> ord c \<and> ord c \<le> 122"

definition is_upper :: "char \<Rightarrow> bool" where
  "is_upper c \<longleftrightarrow> 65 \<le> ord c \<and> ord c \<le> 90"

definition is_digit :: "char \<Rightarrow> bool" where
  "is_digit c \<longleftrightarrow> 48 \<le> ord c \<and> ord c \<le> 57"

definition is_slug_alnum :: "char \<Rightarrow> bool" where
  "is_slug_alnum c \<longleftrightarrow> is_lower c \<or> is_digit c"

definition lower_char :: "char \<Rightarrow> char" where
  "lower_char c = (if is_upper c then char_of (ord c + 32) else c)"

definition to_lower :: "string \<Rightarrow> string" where
  "to_lower s = map lower_char s"

definition equal_fold :: "string \<Rightarrow> string \<Rightarrow> bool" where
  "equal_fold s t \<longleftrightarrow> to_lower s = to_lower t"

subsection \<open>Prefixes, suffixes, searching\<close>

definition has_prefix :: "string \<Rightarrow> string \<Rightarrow> bool" where
  "has_prefix s p \<longleftrightarrow> take (length p) s = p"

definition has_suffix :: "string \<Rightarrow> string \<Rightarrow> bool" where
  "has_suffix s p \<longleftrightarrow> length p \<le> length s \<and> drop (length s - length p) s = p"

definition trim_prefix :: "string \<Rightarrow> string \<Rightarrow> string" where
  "trim_prefix s p = (if has_prefix s p then drop (length p) s else s)"

definition trim_suffix :: "string \<Rightarrow> string \<Rightarrow> string" where
  "trim_suffix s p = (if has_suffix s p then take (length s - length p) s else s)"

fun contains :: "string \<Rightarrow> string \<Rightarrow> bool" where
  "contains [] p = (p = [])"
| "contains (c # s) p = (has_prefix (c # s) p \<or> contains s p)"

definition contains_any :: "string \<Rightarrow> string \<Rightarrow> bool" where
  "contains_any s chars \<longleftrightarrow> (\<exists>c \<in> set s. c \<in> set chars)"

subsection \<open>Trimming\<close>

definition trim_left_of :: "(char \<Rightarrow> bool) \<Rightarrow> string \<Rightarrow> string" where
  "trim_left_of P s = dropWhile P s"

definition trim_right_of :: "(char \<Rightarrow> bool) \<Rightarrow> string \<Rightarrow> string" where
  "trim_right_of P s = rev (dropWhile P (rev s))"

definition trim_of :: "(char \<Rightarrow> bool) \<Rightarrow> string \<Rightarrow> string" where
  "trim_of P s = trim_right_of P (trim_left_of P s)"

definition trim_space :: "string \<Rightarrow> string" where
  "trim_space s = trim_of is_space s"

definition trim_chars :: "string \<Rightarrow> string \<Rightarrow> string" where
  "trim_chars s cutset = trim_of (\<lambda>c. c \<in> set cutset) s"

definition trim_right_chars :: "string \<Rightarrow> string \<Rightarrow> string" where
  "trim_right_chars s cutset = trim_right_of (\<lambda>c. c \<in> set cutset) s"

definition trim_left_chars :: "string \<Rightarrow> string \<Rightarrow> string" where
  "trim_left_chars s cutset = trim_left_of (\<lambda>c. c \<in> set cutset) s"

subsection \<open>Splitting and joining\<close>

fun split_on :: "char \<Rightarrow> string \<Rightarrow> string list" where
  "split_on c [] = [[]]"
| "split_on c (x # s) =
     (if x = c then [] # split_on c s
      else (case split_on c s of [] \<Rightarrow> [[x]] | w # ws \<Rightarrow> (x # w) # ws))"

fun join :: "string \<Rightarrow> string list \<Rightarrow> string" where
  "join sep [] = []"
| "join sep [x] = x"
| "join sep (x # y # zs) = x @ sep @ join sep (y # zs)"

text \<open>\<open>strings.Cut\<close> at a single character.\<close>

fun cut :: "char \<Rightarrow> string \<Rightarrow> (string \<times> string) option" where
  "cut c [] = None"
| "cut c (x # s) =
     (if x = c then Some ([], s) else map_option (\<lambda>(a, b). (x # a, b)) (cut c s))"

fun fields_acc :: "string \<Rightarrow> string \<Rightarrow> string list" where
  "fields_acc acc [] = (if acc = [] then [] else [rev acc])"
| "fields_acc acc (c # s) =
     (if is_space c then (if acc = [] then fields_acc [] s else rev acc # fields_acc [] s)
      else fields_acc (c # acc) s)"

definition fields :: "string \<Rightarrow> string list" where
  "fields s = fields_acc [] s"

definition replace_char :: "char \<Rightarrow> string \<Rightarrow> string \<Rightarrow> string" where
  "replace_char c r s = concat (map (\<lambda>x. if x = c then r else [x]) s)"

definition first_non_empty :: "string list \<Rightarrow> string" where
  "first_non_empty vals =
     (case List.find (\<lambda>v. trim_space v \<noteq> []) vals of None \<Rightarrow> [] | Some v \<Rightarrow> trim_space v)"

text \<open>\<open>if s == "" { s = d }\<close>\<close>

definition or_else :: "string \<Rightarrow> string \<Rightarrow> string" where
  "or_else s d = (if s = [] then d else s)"

subsection \<open>Decimal numbers\<close>

definition digit_char :: "nat \<Rightarrow> char" where
  "digit_char d = char_of (48 + d)"

definition digit_val :: "char \<Rightarrow> nat" where
  "digit_val c = ord c - 48"

fun show_nat :: "nat \<Rightarrow> string" where
  "show_nat n = (if n < 10 then [digit_char n] else show_nat (n div 10) @ [digit_char (n mod 10)])"

declare show_nat.simps [simp del]

definition show_int :: "int \<Rightarrow> string" where
  "show_int i = (if i < 0 then CHR ''-'' # show_nat (nat (- i)) else show_nat (nat i))"

definition read_digits :: "string \<Rightarrow> nat" where
  "read_digits s = foldl (\<lambda>n c. 10 * n + digit_val c) 0 s"

definition read_nat :: "string \<Rightarrow> nat option" where
  "read_nat s = (if s \<noteq> [] \<and> list_all is_digit s then Some (read_digits s) else None)"

definition max_int64 :: int where "max_int64 = 9223372036854775807"
definition min_int64 :: int where "min_int64 = - 9223372036854775808"

text \<open>\<open>strconv.Atoi\<close> and \<open>strconv.ParseInt(s, 10, 64)\<close>: an optional sign, digits, in range.\<close>

definition atoi :: "string \<Rightarrow> int option" where
  "atoi s =
     (let (neg, ds) = (case s of c # r \<Rightarrow> (if c = CHR ''-'' then (True, r)
                                       else if c = CHR ''+'' then (False, r) else (False, s))
                       | [] \<Rightarrow> (False, s))
      in case read_nat ds of None \<Rightarrow> None
         | Some n \<Rightarrow> (let v = (if neg then - int n else int n)
                     in if min_int64 \<le> v \<and> v \<le> max_int64 then Some v else None))"

lemma ord_less_256 [simp]: "ord c < 256"
  by (metis mod_less_divisor of_char_mod_256 zero_less_numeral)

subsection \<open>Facts: searching\<close>

lemma has_prefix_iff: "has_prefix s p \<longleftrightarrow> (\<exists>t. s = p @ t)"
  by (metis append_eq_conv_conj has_prefix_def append_take_drop_id)

lemma has_suffix_iff: "has_suffix s p \<longleftrightarrow> (\<exists>t. s = t @ p)"
  by (auto simp: has_suffix_def) (metis append_take_drop_id)

lemma has_prefix_append [simp]: "has_prefix (p @ t) p"
  by (simp add: has_prefix_def)

lemma trim_prefix_append [simp]: "trim_prefix (p @ t) p = t"
  by (simp add: trim_prefix_def)

lemma trim_suffix_append [simp]: "trim_suffix (t @ p) p = t"
  by (simp add: trim_suffix_def has_suffix_iff)

lemma contains_Nil [simp]: "contains s []"
  by (cases s) (simp_all add: has_prefix_def)

lemma contains_iff: "contains s p \<longleftrightarrow> (\<exists>a b. s = a @ p @ b)"
proof (induction s)
  case Nil
  show ?case by auto
next
  case (Cons c s)
  show ?case
  proof
    assume "contains (c # s) p"
    then consider "has_prefix (c # s) p" | "contains s p" by auto
    then show "\<exists>a b. c # s = a @ p @ b"
    proof cases
      case 1
      then show ?thesis by (metis append_Nil has_prefix_iff)
    next
      case 2
      with Cons.IH obtain a b where "s = a @ p @ b" by blast
      then have "c # s = (c # a) @ p @ b" by simp
      then show ?thesis by blast
    qed
  next
    assume "\<exists>a b. c # s = a @ p @ b"
    then obtain a b where ab: "c # s = a @ p @ b" by blast
    show "contains (c # s) p"
    proof (cases a)
      case Nil
      with ab have "has_prefix (c # s) p" by (metis append_Nil has_prefix_iff)
      then show ?thesis by simp
    next
      case (Cons d a')
      with ab have "s = a' @ p @ b" by simp
      with Cons.IH have "contains s p" by blast
      then show ?thesis by simp
    qed
  qed
qed

lemma contains_append: "contains s p \<Longrightarrow> contains (s @ t) p" "contains t p \<Longrightarrow> contains (s @ t) p"
  by (metis append.assoc contains_iff)+

lemma contains_infix [simp]: "contains (a @ p @ b) p"
  by (auto simp: contains_iff)

subsection \<open>Facts: trimming\<close>

lemma set_trim_of: "set (trim_of P s) \<subseteq> set s"
  by (auto simp: trim_of_def trim_right_of_def trim_left_of_def dest!: set_dropWhileD)

lemma length_trim_of: "length (trim_of P s) \<le> length s"
  unfolding trim_of_def trim_right_of_def trim_left_of_def
  by (metis length_dropWhile_le length_dropWhile_rev_le le_trans)

lemma set_trim_right_of: "set (trim_right_of P s) \<subseteq> set s"
  by (auto simp: trim_right_of_def dest: set_dropWhileD)

lemma trim_right_of_last: "trim_right_of P s \<noteq> [] \<Longrightarrow> \<not> P (last (trim_right_of P s))"
  unfolding trim_right_of_def by (metis hd_dropWhile_not last_rev rev_is_Nil_conv)

lemma trim_right_of_prefix: "\<exists>t. s = trim_right_of P s @ t \<and> (\<forall>c \<in> set t. P c)"
proof -
  have "rev s = takeWhile P (rev s) @ dropWhile P (rev s)" by simp
  then have "s = rev (dropWhile P (rev s)) @ rev (takeWhile P (rev s))"
    by (metis rev_append rev_rev_ident)
  moreover have "\<forall>c \<in> set (rev (takeWhile P (rev s))). P c"
    by (auto dest: set_takeWhileD)
  ultimately show ?thesis unfolding trim_right_of_def by blast
qed

lemma trim_right_of_hd:
  "trim_right_of P s \<noteq> [] \<Longrightarrow> hd (trim_right_of P s) = hd s"
  using trim_right_of_prefix [of s P] by (metis hd_append2)

lemma trim_of_hd: "trim_of P s \<noteq> [] \<Longrightarrow> \<not> P (hd (trim_of P s))"
proof -
  assume ne: "trim_of P s \<noteq> []"
  then have h: "hd (trim_of P s) = hd (trim_left_of P s)"
    unfolding trim_of_def by (rule trim_right_of_hd)
  from ne have "trim_left_of P s \<noteq> []"
    by (auto simp: trim_of_def trim_right_of_def)
  then show ?thesis
    using hd_dropWhile_not [of P s] h by (simp add: trim_left_of_def)
qed

lemma trim_of_last: "trim_of P s \<noteq> [] \<Longrightarrow> \<not> P (last (trim_of P s))"
  unfolding trim_of_def by (rule trim_right_of_last)

lemma trim_of_id: "s = [] \<or> (\<not> P (hd s) \<and> \<not> P (last s)) \<Longrightarrow> trim_of P s = s"
  unfolding trim_of_def trim_left_of_def trim_right_of_def
  by (cases "s = []") (auto simp: dropWhile_id hd_rev)

lemma trim_of_idem [simp]: "trim_of P (trim_of P s) = trim_of P s"
  using trim_of_id [of "trim_of P s" P] trim_of_hd trim_of_last by blast

lemma trim_of_Nil_iff: "trim_of P s = [] \<longleftrightarrow> (\<forall>c \<in> set s. P c)"
proof
  assume "trim_of P s = []"
  then have "\<forall>c \<in> set (dropWhile P s). P c"
    by (auto simp: trim_of_def trim_right_of_def trim_left_of_def dropWhile_eq_Nil_conv)
  then show "\<forall>c \<in> set s. P c"
    by (metis dropWhile_eq_Nil_conv hd_dropWhile_not list.set_sel(1))
next
  assume "\<forall>c \<in> set s. P c"
  then have "dropWhile P s = []" by (induction s) simp_all
  then show "trim_of P s = []"
    unfolding trim_of_def trim_left_of_def trim_right_of_def by (simp only: rev.simps dropWhile.simps)
qed

lemma trim_of_Nil [simp]: "trim_of P [] = []"
  by (simp add: trim_of_Nil_iff)

lemma trim_space_idem [simp]: "trim_space (trim_space s) = trim_space s"
  by (simp add: trim_space_def)

lemma trim_of_infix: "\<exists>a b. s = a @ trim_of P s @ b \<and> (\<forall>c \<in> set a \<union> set b. P c)"
proof -
  have 1: "s = takeWhile P s @ trim_left_of P s" by (simp add: trim_left_of_def)
  obtain t where "trim_left_of P s = trim_of P s @ t" "\<forall>c \<in> set t. P c"
    using trim_right_of_prefix [of "trim_left_of P s" P] unfolding trim_of_def by blast
  with 1 have "s = takeWhile P s @ trim_of P s @ t" by simp
  with \<open>\<forall>c \<in> set t. P c\<close> show ?thesis by (metis Un_iff set_takeWhileD)
qed

subsection \<open>Facts: splitting and joining\<close>

lemma split_on_ne [simp]: "split_on c s \<noteq> []"
  by (induction s) (auto split: list.splits)

lemma join_split [simp]: "join [c] (split_on c s) = s"
proof (induction s)
  case (Cons x s)
  then obtain w ws where "split_on c s = w # ws"
    by (meson neq_Nil_conv split_on_ne)
  with Cons show ?case by (cases ws) auto
qed simp

lemma split_on_pieces: "w \<in> set (split_on c s) \<Longrightarrow> c \<notin> set w"
proof (induction s arbitrary: w)
  case (Cons x s)
  obtain v vs where v: "split_on c s = v # vs" by (meson neq_Nil_conv split_on_ne)
  with Cons show ?case by (auto split: if_splits)
qed simp

lemma split_on_chars: "w \<in> set (split_on c s) \<Longrightarrow> set w \<subseteq> set s"
proof (induction s arbitrary: w)
  case (Cons x s)
  obtain v vs where v: "split_on c s = v # vs" by (meson neq_Nil_conv split_on_ne)
  with Cons show ?case by (fastforce split: if_splits)
qed simp

lemma split_on_no_sep: "c \<notin> set s \<Longrightarrow> split_on c s = [s]"
  by (induction s) auto

lemma split_on_append: "c \<notin> set s \<Longrightarrow> split_on c (s @ c # t) = s # split_on c t"
  by (induction s) auto

lemma split_join:
  "xs \<noteq> [] \<Longrightarrow> (\<And>x. x \<in> set xs \<Longrightarrow> c \<notin> set x) \<Longrightarrow> split_on c (join [c] xs) = xs"
  by (induction "[c]" xs rule: join.induct) (auto simp: split_on_no_sep split_on_append)

lemma cut_Some: "cut c s = Some (a, b) \<Longrightarrow> s = a @ c # b \<and> c \<notin> set a"
  by (induction s arbitrary: a) (auto split: if_splits)

lemma cut_None: "cut c s = None \<longleftrightarrow> c \<notin> set s"
  by (induction s) auto

lemma cut_append: "c \<notin> set a \<Longrightarrow> cut c (a @ c # b) = Some (a, b)"
  by (induction a) auto

lemma fields_acc_no_space:
  "set acc \<subseteq> {c. \<not> is_space c} \<Longrightarrow>
   set (fields_acc acc s) \<subseteq> {w. w \<noteq> [] \<and> set w \<subseteq> {c. \<not> is_space c}}"
  by (induction s arbitrary: acc) simp_all

lemma fields_no_space: "w \<in> set (fields s) \<Longrightarrow> w \<noteq> [] \<and> (\<forall>c \<in> set w. \<not> is_space c)"
  using fields_acc_no_space [of "[]" s] unfolding fields_def by auto

subsection \<open>Facts: decimal numbers\<close>

lemma ord_digit_char: "d < 10 \<Longrightarrow> ord (digit_char d) = 48 + d"
  by (simp add: digit_char_def of_char_of)

lemma digit_chars [simp]:
  "digit_char 0 = CHR ''0''" "digit_char (Suc 0) = CHR ''1''" "digit_char 1 = CHR ''1''"
  "digit_char 2 = CHR ''2''" "digit_char 3 = CHR ''3''" "digit_char 4 = CHR ''4''"
  "digit_char 5 = CHR ''5''" "digit_char 6 = CHR ''6''" "digit_char 7 = CHR ''7''"
  "digit_char 8 = CHR ''8''" "digit_char 9 = CHR ''9''"
  by code_simp+

lemma digit_val_char [simp]: "d < 10 \<Longrightarrow> digit_val (digit_char d) = d"
  by (simp add: digit_val_def ord_digit_char)

lemma is_digit_char [simp]: "d < 10 \<Longrightarrow> is_digit (digit_char d)"
  by (simp add: is_digit_def ord_digit_char)

lemma read_digits_snoc [simp]: "read_digits (s @ [c]) = 10 * read_digits s + digit_val c"
  by (simp add: read_digits_def)

lemma read_digits_Nil [simp]: "read_digits [] = 0"
  by (simp add: read_digits_def)

lemma show_nat_digits: "list_all is_digit (show_nat n) \<and> show_nat n \<noteq> []"
proof (induction n rule: show_nat.induct)
  case (1 n)
  show ?case
  proof (cases "n < 10")
    case True
    then show ?thesis by (simp add: show_nat.simps [of n])
  next
    case False
    with 1 show ?thesis by (simp add: show_nat.simps [of n])
  qed
qed

lemma read_show_nat [simp]: "read_digits (show_nat n) = n"
proof (induction n rule: show_nat.induct)
  case (1 n)
  show ?case
  proof (cases "n < 10")
    case True
    then have "show_nat n = [] @ [digit_char n]" by (subst show_nat.simps) simp
    then show ?thesis using True by (metis digit_val_char mult_0_right plus_nat.add_0
          read_digits_Nil read_digits_snoc)
  next
    case False
    with 1 show ?thesis by (subst show_nat.simps) simp
  qed
qed

lemma read_nat_show [simp]: "read_nat (show_nat n) = Some n"
  using show_nat_digits by (simp add: read_nat_def)

lemma digit_not: "is_digit c \<Longrightarrow> c \<noteq> CHR ''-'' \<and> c \<noteq> CHR ''+'' \<and> \<not> is_space c"
  by (auto simp: is_digit_def is_space_def)

lemma show_nat_hd: "\<exists>c r. show_nat n = c # r \<and> is_digit c"
  using show_nat_digits [of n] by (cases "show_nat n") auto

lemma atoi_show_nat: "int n \<le> max_int64 \<Longrightarrow> atoi (show_nat n) = Some (int n)"
proof -
  assume n: "int n \<le> max_int64"
  obtain c r where c: "show_nat n = c # r" "is_digit c" using show_nat_hd by blast
  then have "read_nat (c # r) = Some n" using read_nat_show [of n] by simp
  with c n digit_not [OF c(2)] show ?thesis
    by (simp add: atoi_def Let_def min_int64_def)
qed

lemma atoi_show_int:
  "min_int64 \<le> i \<Longrightarrow> i \<le> max_int64 \<Longrightarrow> atoi (show_int i) = Some i"
  by (auto simp: show_int_def atoi_show_nat) (simp add: atoi_def Let_def min_int64_def max_int64_def)

end
