(* ===== verification/Json.thy ===== *)
theory Json
  imports GoStrings
begin

text \<open>
  JSON values, as \<open>encoding/json\<close> decodes them into \<open>any\<close>, and the text \<open>json.Marshal\<close> gives them.
  Numbers are integral. An object is an association list with distinct keys; the text lists
  its members in key order, escapes control characters, quotes, back slashes and the HTML
  characters, and leaves other bytes alone (the strings are valid UTF-8).
\<close>

datatype json =
    JNull
  | JBool bool
  | JNum int
  | JStr string
  | JArr "json list"
  | JObj "(string \<times> json) list"

definition obj_get :: "string \<Rightarrow> (string \<times> json) list \<Rightarrow> json option" where
  "obj_get k m = map_of m k"

definition obj_put :: "string \<Rightarrow> json \<Rightarrow> (string \<times> json) list \<Rightarrow> (string \<times> json) list" where
  "obj_put k v m = (if k \<in> fst ` set m then map (\<lambda>(k', v'). (k', if k' = k then v else v')) m
                    else m @ [(k, v)])"

text \<open>\<open>for k, v := range src { dst[k] = v }\<close>\<close>

definition obj_merge :: "(string \<times> json) list \<Rightarrow> (string \<times> json) list \<Rightarrow> (string \<times> json) list" where
  "obj_merge dst src = foldl (\<lambda>m (k, v). obj_put k v m) dst src"

definition json_get :: "string \<Rightarrow> json \<Rightarrow> json option" where
  "json_get k j = (case j of JObj m \<Rightarrow> obj_get k m | _ \<Rightarrow> None)"

text \<open>The type assertions \<open>m[k].(string)\<close> and \<open>m[k].(float64)\<close>.\<close>

definition obj_string :: "string \<Rightarrow> (string \<times> json) list \<Rightarrow> string option" where
  "obj_string k m = (case obj_get k m of Some (JStr s) \<Rightarrow> Some s | _ \<Rightarrow> None)"

definition obj_num :: "string \<Rightarrow> (string \<times> json) list \<Rightarrow> int option" where
  "obj_num k m = (case obj_get k m of Some (JNum n) \<Rightarrow> Some n | _ \<Rightarrow> None)"

subsection \<open>Text\<close>

definition hex_char :: "nat \<Rightarrow> char" where
  "hex_char n = (if n < 10 then digit_char n else char_of (87 + n))"

definition escape_char :: "char \<Rightarrow> string" where
  "escape_char c =
     (if c = dq then [bslash, dq] else if c = bslash then [bslash, bslash]
      else if c = nl then [bslash, CHR ''n''] else if c = CHR 0x0D then [bslash, CHR ''r'']
      else if c = CHR 0x09 then [bslash, CHR ''t''] else if c = CHR 0x08 then [bslash, CHR ''b'']
      else if c = CHR 0x0C then [bslash, CHR ''f'']
      else if ord c < 32 \<or> c = CHR ''<'' \<or> c = CHR ''>'' \<or> c = CHR ''&''
        then [bslash, CHR ''u'', CHR ''0'', CHR ''0'', hex_char (ord c div 16), hex_char (ord c mod 16)]
      else [c])"

definition quote_json :: "string \<Rightarrow> string" where
  "quote_json s = [dq] @ concat (map escape_char s) @ [dq]"

fun marshal :: "json \<Rightarrow> string" where
  "marshal JNull = ''null''"
| "marshal (JBool b) = (if b then ''true'' else ''false'')"
| "marshal (JNum i) = show_int i"
| "marshal (JStr s) = quote_json s"
| "marshal (JArr xs) = ''['' @ join '','' (map marshal xs) @ '']''"
| "marshal (JObj m) = ''{'' @ join '',''
     (map snd (sort_key fst (map (\<lambda>(k, v). (k, quote_json k @ '':'' @ marshal v)) m))) @ ''}''"

fun json_depth :: "json \<Rightarrow> nat" where
  "json_depth (JArr xs) = Suc (foldr max (map json_depth xs) 0)"
| "json_depth (JObj m) = Suc (foldr max (map (\<lambda>(k, v). json_depth v) m) 0)"
| "json_depth v = 0"

subsection \<open>Facts\<close>

lemma obj_get_Cons [simp]: "obj_get k ((a, v) # m) = (if a = k then Some v else obj_get k m)"
  by (simp add: obj_get_def)

lemma obj_get_Nil [simp]: "obj_get k [] = None"
  by (simp add: obj_get_def)

lemma map_of_rewrite:
  "map_of (map (\<lambda>(a, b). (a, if a = k' then v else b)) m) k =
   (if k = k' then map_option (\<lambda>_. v) (map_of m k) else map_of m k)"
  by (induction m) auto

lemma obj_get_put [simp]:
  "obj_get k (obj_put k' v m) = (if k = k' then Some v else obj_get k m)"
proof (cases "k' \<in> fst ` set m")
  case True
  then obtain b where "map_of m k' = Some b" by (metis map_of_eq_None_iff not_Some_eq)
  with True show ?thesis by (simp add: obj_get_def obj_put_def map_of_rewrite)
next
  case False
  then have "map_of m k' = None" by (simp add: map_of_eq_None_iff)
  with False show ?thesis by (auto simp: obj_get_def obj_put_def map_add_def split: option.splits)
qed

lemma obj_put_keys: "fst ` set (obj_put k v m) = insert k (fst ` set m)"
proof -
  have "fst ` set (map (\<lambda>(k', v'). (k', if k' = k then v else v')) m) = fst ` set m"
    by (induction m) auto
  then show ?thesis by (simp add: obj_put_def insert_absorb del: set_map)
qed

lemma obj_put_distinct: "distinct (map fst m) \<Longrightarrow> distinct (map fst (obj_put k v m))"
  by (auto simp: obj_put_def comp_def case_prod_beta)

lemma obj_merge_Nil [simp]: "obj_merge d [] = d"
  by (simp add: obj_merge_def)

lemma obj_merge_Cons [simp]: "obj_merge d ((k, v) # s) = obj_merge (obj_put k v d) s"
  by (simp add: obj_merge_def)

lemma obj_merge_distinct: "distinct (map fst d) \<Longrightarrow> distinct (map fst (obj_merge d s))"
  by (induction s arbitrary: d) (auto simp: obj_put_distinct)

lemma obj_get_merge:
  "distinct (map fst s) \<Longrightarrow>
   obj_get k (obj_merge d s) = (case obj_get k s of Some v \<Rightarrow> Some v | None \<Rightarrow> obj_get k d)"
proof (induction s arbitrary: d)
  case (Cons p s)
  obtain a b where p: "p = (a, b)" by (cases p)
  with Cons.prems have "map_of s a = None" by (auto simp: map_of_eq_None_iff)
  with Cons p show ?case by (auto simp: obj_get_def [of _ s] split: option.splits)
qed simp

lemma json_get_JObj [simp]: "json_get k (JObj m) = obj_get k m"
  by (simp add: json_get_def)

lemma obj_get_append [simp]:
  "obj_get k (m @ n) = (case obj_get k m of None \<Rightarrow> obj_get k n | Some v \<Rightarrow> Some v)"
  unfolding obj_get_def by (simp add: map_add_def split: option.splits)

end
