(* ===== verification/Models.thy ===== *)
theory Models
  imports Json
begin

text \<open>
  \<open>models.go\<close>: the structures the hub stores, reports and exchanges with agents, one record per
  struct, fields in the source's order. A Go pointer with \<open>omitempty\<close> and a nullable column are
  options; \<open>int\<close> and \<open>int64\<close> are unbounded integers (no operation modelled here approaches
  their bounds); raw JSON text is represented by the value it encodes.
\<close>

definition DesiredActive :: string where "DesiredActive = ''active''"
definition DesiredDisabled :: string where "DesiredDisabled = ''disabled''"
definition DesiredRetiring :: string where "DesiredRetiring = ''retiring''"
definition DesiredRetired :: string where "DesiredRetired = ''retired''"
definition ObservedUnknown :: string where "ObservedUnknown = ''unknown''"
definition ObservedOnline :: string where "ObservedOnline = ''online''"
definition ObservedDegraded :: string where "ObservedDegraded = ''degraded''"
definition ObservedOffline :: string where "ObservedOffline = ''offline''"
definition ObservedGone :: string where "ObservedGone = ''gone''"

lemmas desired_defs = DesiredActive_def DesiredDisabled_def DesiredRetiring_def DesiredRetired_def
lemmas observed_defs = ObservedUnknown_def ObservedOnline_def ObservedDegraded_def
  ObservedOffline_def ObservedGone_def

record ProcessTitleConfig =
  pt_title :: string
  pt_titles :: "string list"
  pt_rotate :: string

record Machine =
  m_id :: string
  m_slug :: string
  m_original_slug :: "string option"
  m_display_name :: "string option"
  m_target_user :: "string option"
  m_owner_user_id :: "string option"
  m_status :: string
  m_desired_state :: string
  m_observed_state :: string
  m_desired_generation :: int
  m_update_policy :: string
  m_desired_changed_at :: "string option"
  m_desired_changed_by :: "string option"
  m_cleanup_state :: "string option"
  m_mode :: "string option"
  m_local_port :: int
  m_persistence :: "string option"
  m_distro :: "string option"
  m_arch :: "string option"
  m_provision_error :: "string option"
  m_created_at :: string
  m_updated_at :: "string option"
  m_expires_at :: "string option"
  m_disabled_at :: "string option"
  m_retired_at :: "string option"
  m_process_title_config :: "ProcessTitleConfig option"

record Hub =
  h_id :: string
  h_name :: string
  h_public_host :: string
  h_ssh_port :: int
  h_proxyjump_alias :: string
  h_api_url :: string
  h_port_start :: int
  h_port_end :: int
  h_status :: string
  h_created_at :: string

record Tunnel =
  t_id :: string
  t_machine_id :: string
  t_hub_id :: string
  t_unix_user :: string
  t_original_unix_user :: "string option"
  t_remote_port :: int
  t_original_remote_port :: "int option"
  t_tunnel_pubkey :: string
  t_status :: string
  t_last_seen_at :: "string option"
  t_created_at :: string
  t_expires_at :: "string option"

record AgentComponentStatus =
  cs_state :: string
  cs_host :: string
  cs_port :: int
  cs_mode :: string
  cs_error :: string

record AgentTunnelStatus =
  ts_state :: string
  ts_remote_port :: int
  ts_pid :: int
  ts_transport :: string
  ts_connected_since :: string
  ts_error :: string

record AgentPersistenceStatus =
  ps_backend :: string
  ps_quality :: string
  ps_reboot_safe :: bool
  ps_notes :: "string list"

record AgentKeysStatus =
  ks_fingerprints :: "string list"
  ks_generation :: int

record AgentObservedState =
  os_agent_state :: string
  os_local_ssh :: AgentComponentStatus
  os_tunnel :: AgentTunnelStatus
  os_persistence :: AgentPersistenceStatus
  os_keys :: AgentKeysStatus

record SSHCompatStatus =
  sc_client_version :: string
  sc_tunnel_key_type :: string
  sc_user_sshd_host_key_type :: string
  sc_tunnel_options :: "string list"
  sc_client_options :: "string list"
  sc_authorized_key_types :: "string list"

record AgentCapabilities =
  cap_commands :: "string list"
  cap_transports :: "string list"
  cap_manage_local_sshd :: bool
  cap_self_update :: bool
  cap_ssh :: SSHCompatStatus

record AgentCommandResult =
  cr_command_id :: string
  cr_status :: string
  cr_message :: string

record AgentShutdown =
  sd_reason :: string
  sd_remove_files :: bool

record AgentHeartbeat =
  hb_machine_id :: string
  hb_install_id :: string
  hb_slug :: string
  hb_agent_version :: string
  hb_capabilities :: AgentCapabilities
  hb_applied_generation :: int
  hb_observed :: AgentObservedState
  hb_command_results :: "AgentCommandResult list"
  hb_shutdown :: "AgentShutdown option"
  hb_transport :: string
  hb_transport_state :: string
  hb_local_ssh :: AgentComponentStatus
  hb_tunnel :: AgentTunnelStatus
  hb_last_error :: string
  hb_checked_at :: string

record AgentObservation =
  ao_machine_id :: string
  ao_agent_version :: string
  ao_install_id :: string
  ao_applied_generation :: int
  ao_heartbeat_at :: string
  ao_agent_state :: string
  ao_transport :: string
  ao_transport_state :: string
  ao_local_ssh_state :: string
  ao_local_ssh_error :: string
  ao_tunnel_state :: string
  ao_tunnel_pid :: "int option"
  ao_tunnel_error :: string
  ao_persistence_backend :: string
  ao_persistence_quality :: string
  ao_persistence_reboot_safe :: bool
  ao_fingerprints :: "string list"
  ao_last_error :: string
  ao_raw :: "AgentHeartbeat option"

record HubObservation =
  ho_tunnel_id :: string
  ho_machine_id :: string
  ho_probe_state :: string
  ho_last_probe_at :: string
  ho_last_success_at :: "string option"
  ho_probe_error :: string

record AgentCommandInfo =
  ci_id :: string
  ci_machine_id :: string
  ci_generation :: int
  ci_type :: string
  ci_payload :: "json option"
  ci_status :: string
  ci_created_at :: string
  ci_sent_at :: "string option"
  ci_acked_at :: "string option"
  ci_expires_at :: "string option"
  ci_last_error :: string

record AgentUpdateHint =
  uh_available :: bool
  uh_current :: string
  uh_latest :: string
  uh_url :: string
  uh_sha256 :: string
  uh_required :: bool

record MachineWithTunnels =
  mt_machine :: Machine
  mt_tunnels :: "Tunnel list"
  mt_agent :: "AgentObservation option"
  mt_hub_observation :: "HubObservation option"
  mt_commands :: "AgentCommandInfo list"
  mt_update :: "AgentUpdateHint option"

record DesiredPubkey =
  dp_id :: string
  dp_label :: string
  dp_fingerprint :: string
  dp_public_key :: string

record DesiredAgentConfig =
  dc_tunnel_enabled :: bool
  dc_hub_host :: string
  dc_hub_ssh_port :: int
  dc_remote_port :: int
  dc_tunnel_user :: string
  dc_transport_policy :: string
  dc_admin_keys_generation :: int
  dc_admin_pubkeys :: "DesiredPubkey list"
  dc_process_title_config :: "ProcessTitleConfig option"

record AgentCommandDelivery =
  cd_id :: string
  cd_generation :: int
  cd_type :: string
  cd_payload :: "json option"
  cd_expires_at :: string

record HeartbeatPolicy =
  hp_next_interval_seconds :: int
  hp_offline_after_seconds :: int

record HeartbeatResponse =
  hr_ok :: bool
  hr_server_time :: string
  hr_desired_generation :: int
  hr_desired_state :: string
  hr_heartbeat :: HeartbeatPolicy
  hr_desired_config :: DesiredAgentConfig
  hr_commands :: "AgentCommandDelivery list"
  hr_update :: "AgentUpdateHint option"

text \<open>\<open>config.go\<close>: the configuration the hub's operations read.\<close>

record HubConfig =
  hc_id :: string
  hc_name :: string
  hc_public_host :: string
  hc_ssh_port :: int
  hc_proxyjump_alias :: string
  hc_api_url :: string
  hc_port_start :: int
  hc_port_end :: int

record InitialKey =
  ik_label :: string
  ik_public_key :: string

record InitialAdmin =
  ia_username :: string
  ia_password_hash :: string
  ia_public_keys :: "InitialKey list"

record WebSocketTunnelConfig =
  ws_enabled :: bool
  ws_carrier :: string
  ws_url :: string
  ws_path_prefix :: string
  ws_binaries :: "(string \<times> string \<times> string) list"  \<comment> \<open>platform, url, sha256\<close>

record AgentUpdateConfig =
  au_enabled :: bool
  au_latest_version :: string
  au_manifest_path :: string
  au_api_url :: string

record NotificationConfig =
  nc_enabled :: bool
  nc_webhook_url :: string
  nc_webhook_headers :: "(string \<times> string) list"

record Config =
  cfg_listen_addr :: string
  cfg_db_path :: string
  cfg_allowed_origins :: "string list"
  cfg_god_code_hash :: string
  cfg_jwt_secret :: string
  cfg_admin_jwt_ttl :: int
  cfg_request_ttl :: int
  cfg_setup_token_ttl :: int
  cfg_health_interval :: int
  cfg_maintenance_interval :: int
  cfg_offline_after :: int
  cfg_default_expiry :: int
  cfg_sshd_config_dir :: string
  cfg_tunnel_home_base :: string
  cfg_ssh_service_name :: string
  cfg_hub_host_keys :: "string list"
  cfg_deprecated_host_keys :: "string list"
  cfg_websocket_tunnel :: WebSocketTunnelConfig
  cfg_agent_updates :: AgentUpdateConfig
  cfg_notifications :: NotificationConfig
  cfg_initial_admin :: InitialAdmin
  cfg_default_hub :: HubConfig
  cfg_provisioning_enabled :: bool

end
