(* ===== verification/Base64.thy ===== *)
theory Base64
  imports GoStrings
begin

text \<open>
  \<open>base64.RawStdEncoding\<close> and \<open>base64.RawURLEncoding\<close>: six-bit groups without padding. The
  decoder skips line breaks and refuses other characters outside the alphabet and a final
  group of one character.
\<close>

definition std_alphabet :: string where
  "std_alphabet = ''ABCDEFGHIJKLMNOPQRSTUVWXYZabcdefghijklmnopqrstuvwxyz0123456789+/''"

definition url_alphabet :: string where
  "url_alphabet = ''ABCDEFGHIJKLMNOPQRSTUVWXYZabcdefghijklmnopqrstuvwxyz0123456789-_''"

definition index_of :: "'a \<Rightarrow> 'a list \<Rightarrow> nat option" where
  "index_of x xs = (let n = length (takeWhile (\<lambda>y. y \<noteq> x) xs) in if n < length xs then Some n else None)"

fun sextets :: "nat list \<Rightarrow> nat list" where
  "sextets [] = []"
| "sextets [a] = [a div 4, a mod 4 * 16]"
| "sextets [a, b] = [a div 4, a mod 4 * 16 + b div 16, b mod 16 * 4]"
| "sextets (a # b # c # r) =
     a div 4 # (a mod 4 * 16 + b div 16) # (b mod 16 * 4 + c div 64) # c mod 64 # sextets r"

fun octets :: "nat list \<Rightarrow> nat list option" where
  "octets [] = Some []"
| "octets [p] = None"
| "octets [p, q] = Some [p * 4 + q div 16]"
| "octets [p, q, r] = Some [p * 4 + q div 16, q mod 16 * 16 + r div 4]"
| "octets (p # q # r # t # s) =
     map_option (\<lambda>os. (p * 4 + q div 16) # (q mod 16 * 16 + r div 4) # (r mod 4 * 64 + t) # os) (octets s)"

definition b64_encode :: "string \<Rightarrow> string \<Rightarrow> string" where
  "b64_encode alphabet s = map (\<lambda>n. alphabet ! n) (sextets (map ord s))"

definition b64_decode :: "string \<Rightarrow> string \<Rightarrow> string option" where
  "b64_decode alphabet t =
     (let ns = map (\<lambda>c. index_of c alphabet) (filter (\<lambda>c. c \<noteq> nl \<and> c \<noteq> CHR 0x0D) t)
      in if None \<in> set ns then None else map_option (map char_of) (octets (map the ns)))"

lemma index_of_nth: "distinct xs \<Longrightarrow> n < length xs \<Longrightarrow> index_of (xs ! n) xs = Some n"
proof -
  assume d: "distinct xs" and n: "n < length xs"
  have "takeWhile (\<lambda>y. y \<noteq> xs ! n) xs = take n xs"
    by (rule takeWhile_eq_take_P_nth) (use d n in \<open>auto simp: nth_eq_iff_index_eq\<close>)
  with n show ?thesis by (simp add: index_of_def Let_def)
qed

lemma sextets_less: "\<forall>x \<in> set ns. x < 256 \<Longrightarrow> \<forall>x \<in> set (sextets ns). x < 64"
proof (induction ns rule: sextets.induct)
  case (2 a)
  then show ?case by simp
next
  case (3 a b)
  then show ?case by simp linarith
next
  case (4 a b c r)
  then have "a < 256" "b < 256" "c < 256" "\<forall>x \<in> set (sextets r). x < 64" by simp_all
  then show ?case by simp linarith
qed simp

lemma octets_sextets: "\<forall>x \<in> set ns. x < 256 \<Longrightarrow> octets (sextets ns) = Some ns"
proof (induction ns rule: sextets.induct)
  case (2 a)
  then show ?case by simp
next
  case (3 a b)
  then have "b < 256" by simp
  then have "(a mod 4 * 16 + b div 16) div 16 = a mod 4" "(a mod 4 * 16 + b div 16) mod 16 = b div 16" by simp_all
  then show ?case by simp
next
  case (4 a b c r)
  then have lt: "b < 256" "c < 256" by simp_all
  then have "(a mod 4 * 16 + b div 16) div 16 = a mod 4" "(a mod 4 * 16 + b div 16) mod 16 = b div 16"
    "(b mod 16 * 4 + c div 64) div 4 = b mod 16" "(b mod 16 * 4 + c div 64) mod 4 = c div 64" by simp_all
  moreover have "octets (sextets r) = Some r" using 4 by simp
  ultimately show ?case by simp
qed simp

definition b64_alphabet :: "string \<Rightarrow> bool" where
  "b64_alphabet a \<longleftrightarrow> length a = 64 \<and> distinct a \<and> nl \<notin> set a \<and> CHR 0x0D \<notin> set a \<and> CHR ''$'' \<notin> set a"

lemma b64_alphabets [simp]: "b64_alphabet std_alphabet" "b64_alphabet url_alphabet"
  by (simp_all add: b64_alphabet_def std_alphabet_def url_alphabet_def nl_def)

lemma b64_round_trip:
  assumes "b64_alphabet a"
  shows "b64_decode a (b64_encode a s) = Some s"
proof -
  have a: "length a = 64" "distinct a" "nl \<notin> set a" "CHR 0x0D \<notin> set a"
    using assms by (simp_all add: b64_alphabet_def)
  let ?ns = "sextets (map ord s)"
  have lt: "\<forall>x \<in> set (map ord s). x < 256" by simp
  have lt6: "\<forall>n \<in> set ?ns. n < 64" using sextets_less [OF lt] .
  have f: "filter (\<lambda>c. c \<noteq> nl \<and> c \<noteq> CHR 0x0D) (b64_encode a s) = b64_encode a s"
    unfolding b64_encode_def filter_id_conv using a lt6 by (auto simp: in_set_conv_nth)
  have m: "map (\<lambda>c. index_of c a) (b64_encode a s) = map Some ?ns"
    unfolding b64_encode_def using a lt6 by (simp add: index_of_nth)
  show ?thesis unfolding b64_decode_def f m Let_def
    using octets_sextets [OF lt] by (auto simp: comp_def)
qed

lemma b64_encode_chars: "b64_alphabet a \<Longrightarrow> set (b64_encode a s) \<subseteq> set a"
proof -
  assume a: "b64_alphabet a"
  have "\<forall>x \<in> set (map ord s). x < 256" by simp
  from sextets_less [OF this] a show ?thesis
    by (auto simp: b64_encode_def b64_alphabet_def)
qed

end
