(* ===== verification/GoTime.thy ===== *)
theory GoTime
  imports GoStrings
begin

text \<open>
  Instants and their RFC 3339 text, as Go's \<open>time\<close> package formats and parses them. An instant is
  the number of nanoseconds since 1970-01-01T00:00:00Z. The calendar is the proleptic Gregorian
  one; text is produced for the years 0 to 9999. The hub stores instants as text and compares
  the texts in SQL, so the order of the texts matters: for two UTC texts of second precision it
  is the order of the instants (\<open>fmt_less_iff\<close>).
\<close>

type_synonym instant = int

definition second :: int where "second = 1000000000"
definition minute :: int where "minute = 60 * second"
definition hour :: int where "hour = 3600 * second"
definition day :: int where "day = 86400 * second"

lemmas duration_defs = second_def minute_def hour_def day_def

text \<open>The value that a sum or product of durations has in 64 bits.\<close>

definition wrap64 :: "int \<Rightarrow> int" where
  "wrap64 n = (n + 9223372036854775808) mod 18446744073709551616 - 9223372036854775808"

subsection \<open>Calendar\<close>

definition leap_year :: "int \<Rightarrow> bool" where
  "leap_year y \<longleftrightarrow> (y mod 4 = 0 \<and> y mod 100 \<noteq> 0) \<or> y mod 400 = 0"

text \<open>Days from 0000-01-01 to the first of January of year \<open>y\<close>.\<close>

definition year_start :: "int \<Rightarrow> int" where
  "year_start y = 365 * y + (y + 3) div 4 - (y + 99) div 100 + (y + 399) div 400"

definition year_of :: "int \<Rightarrow> int" where
  "year_of n = (let y = (400 * n) div 146097 in
                if n < year_start y then y - 1 else if n < year_start (y + 1) then y else y + 1)"

definition leap_day :: "int \<Rightarrow> int" where
  "leap_day y = (if leap_year y then 1 else 0)"

definition month_start :: "int \<Rightarrow> int \<Rightarrow> int" where
  "month_start l m =
     (if m \<le> 1 then 0 else if m = 2 then 31 else if m = 3 then 59 + l else if m = 4 then 90 + l
      else if m = 5 then 120 + l else if m = 6 then 151 + l else if m = 7 then 181 + l
      else if m = 8 then 212 + l else if m = 9 then 243 + l else if m = 10 then 273 + l
      else if m = 11 then 304 + l else if m = 12 then 334 + l else 365 + l)"

definition month_of :: "int \<Rightarrow> int \<Rightarrow> int" where
  "month_of l d =
     (if d < 31 then 1 else if d < 59 + l then 2 else if d < 90 + l then 3
      else if d < 120 + l then 4 else if d < 151 + l then 5 else if d < 181 + l then 6
      else if d < 212 + l then 7 else if d < 243 + l then 8 else if d < 273 + l then 9
      else if d < 304 + l then 10 else if d < 334 + l then 11 else 12)"

definition epoch_day :: int where "epoch_day = 719528"

definition civil :: "int \<Rightarrow> int \<times> int \<times> int" where
  "civil n = (let y = year_of n; l = leap_day y; d = n - year_start y; m = month_of l d
              in (y, m, d - month_start l m + 1))"

definition day_number :: "int \<Rightarrow> int \<Rightarrow> int \<Rightarrow> int" where
  "day_number y m d = year_start y + month_start (leap_day y) m + d - 1"

definition month_length :: "int \<Rightarrow> int \<Rightarrow> int" where
  "month_length y m = month_start (leap_day y) (m + 1) - month_start (leap_day y) m"

lemma div_bounds: "(0::int) < k \<Longrightarrow> k * (x div k) \<le> x \<and> x < k * (x div k) + k"
  using mult_div_mod_eq [of k x] pos_mod_bound [of k x] pos_mod_sign [of k x] by linarith
lemma div_ceiling_step:
  assumes k: "(0::int) < k"
  shows "(x + k) div k = (x + (k - 1)) div k + (if x mod k = 0 then 1 else 0)"
proof -
  have x: "x = k * (x div k) + x mod k" by simp
  have r: "0 \<le> x mod k" "x mod k < k" using k by simp_all
  have e: "(x + (k - 1)) div k = x div k + (x mod k + (k - 1)) div k"
  proof -
    have "x + (k - 1) = (x mod k + (k - 1)) + k * (x div k)" using x by linarith
    then show ?thesis using k by (metis div_mult_self2 add.commute less_irrefl)
  qed
  have f: "(x mod k + (k - 1)) div k = (if x mod k = 0 then 0 else 1)"
  proof (cases "x mod k = 0")
    case False
    then have "(x mod k - 1) div k = 0" using r by (intro div_pos_pos_trivial) auto
    moreover have "x mod k + (k - 1) = (x mod k - 1) + k" by simp
    ultimately show ?thesis using False k by (metis div_add_self2 less_irrefl add_0)
  qed (use k in simp)
  show ?thesis unfolding e f using k div_add_self2 [of k x] by simp
qed
lemma ceiling_bounds: "(0::int) < k \<Longrightarrow> x \<le> k * ((x + (k - 1)) div k) \<and> k * ((x + (k - 1)) div k) \<le> x + (k - 1)"
  using div_bounds [of k "x + (k - 1)"] by linarith

lemma leap_day_01: "leap_day y = 0 \<or> leap_day y = 1"
  by (simp add: leap_day_def)

lemma year_start_step: "year_start (y + 1) = year_start y + 365 + leap_day y"
proof -
  have lp: "leap_day y = (if y mod 4 = 0 then 1 else 0) - (if y mod 100 = 0 then 1 else 0)
                         + (if y mod 400 = 0 then 1 else 0)"
    if "y mod 100 = 0 \<longrightarrow> y mod 4 = 0" "y mod 400 = 0 \<longrightarrow> y mod 100 = 0"
    using that by (simp add: leap_day_def leap_year_def)
  note a = div_ceiling_step [of 4 y, simplified] and b = div_ceiling_step [of 100 y, simplified]
    and c = div_ceiling_step [of 400 y, simplified]
  have d: "y mod 100 = 0 \<longrightarrow> y mod 4 = 0" "y mod 400 = 0 \<longrightarrow> y mod 100 = 0"
    using dvd_trans [of 4 100 y] dvd_trans [of 100 400 y] by (simp_all add: mod_eq_0_iff_dvd)
  have "year_start (y + 1) = 365 * y + 365 + (y + 4) div 4 - (y + 100) div 100 + (y + 400) div 400"
    by (simp add: year_start_def add.commute add.left_commute)
  then show ?thesis unfolding lp [OF d] a b c year_start_def by linarith
qed

lemma year_start_bounds:
  "146097 * y - 396 \<le> 400 * year_start y" "400 * year_start y \<le> 146097 * y + 699"
proof -
  have "4 * ((y + 3) div 4) \<le> y + 3 \<and> y \<le> 4 * ((y + 3) div 4)"
    "100 * ((y + 99) div 100) \<le> y + 99 \<and> y \<le> 100 * ((y + 99) div 100)"
    "400 * ((y + 399) div 400) \<le> y + 399 \<and> y \<le> 400 * ((y + 399) div 400)"
    using ceiling_bounds [of 4 y] ceiling_bounds [of 100 y] ceiling_bounds [of 400 y] by simp_all
  then show "146097 * y - 396 \<le> 400 * year_start y" "400 * year_start y \<le> 146097 * y + 699"
    unfolding year_start_def by (simp_all add: algebra_simps)
qed

lemma year_of_bounds: "year_start (year_of n) \<le> n \<and> n < year_start (year_of n + 1)"
proof -
  define y where "y = (400 * n) div 146097"
  have y: "146097 * y \<le> 400 * n" "400 * n < 146097 * y + 146097"
    unfolding y_def by linarith+
  have lo: "year_start (y - 1) \<le> n" using year_start_bounds(2) [of "y - 1"] y by simp
  have hi: "n < year_start (y + 2)" using year_start_bounds(1) [of "y + 2"] y by simp
  have "year_of n = (if n < year_start y then y - 1 else if n < year_start (y + 1) then y else y + 1)"
    unfolding year_of_def y_def Let_def ..
  with lo hi show ?thesis by (simp add: add.assoc split: if_splits)
qed

lemma year_start_less: "y < z \<Longrightarrow> year_start (y + 1) \<le> year_start z"
proof -
  have step: "year_start a \<le> year_start (a + 1)" for a
    using year_start_step [of a] leap_day_01 [of a] by linarith
  have mono: "year_start a \<le> year_start (a + int k)" for a k
  proof (induction k)
    case (Suc k)
    then show ?case using step [of "a + int k"] by (simp add: ac_simps)
  qed simp
  assume "y < z"
  then have "z = (y + 1) + int (nat (z - y - 1))" by simp
  then show ?thesis using mono [of "y + 1" "nat (z - y - 1)"] by simp
qed

lemma year_of_unique:
  assumes "year_start y \<le> n" "n < year_start (y + 1)" shows "year_of n = y"
proof -
  note b = year_of_bounds [of n]
  have "\<not> y < year_of n" using year_start_less [of y "year_of n"] b assms by linarith
  moreover have "\<not> year_of n < y" using year_start_less [of "year_of n" y] b assms by linarith
  ultimately show ?thesis by linarith
qed

lemma year_of_mono: "n \<le> n' \<Longrightarrow> year_of n \<le> year_of n'"
  using year_of_bounds [of n] year_of_bounds [of n'] year_start_less [of "year_of n'" "year_of n"]
  by linarith

lemma month_of_bounds:
  assumes "0 \<le> d" "d < 365 + l" "l = 0 \<or> l = 1"
  shows "1 \<le> month_of l d" "month_of l d \<le> 12"
    "month_start l (month_of l d) \<le> d" "d < month_start l (month_of l d + 1)"
  using assms by (auto simp: month_of_def month_start_def)

lemma month_of_unique:
  assumes "1 \<le> m" "m \<le> 12" "month_start l m \<le> d" "d < month_start l (m + 1)" "l = 0 \<or> l = 1"
  shows "month_of l d = m"
  using assms by (auto simp: month_start_def month_of_def split: if_splits)

lemma civil_props:
  assumes "civil n = (y, m, d)"
  shows "day_number y m d = n" "1 \<le> m" "m \<le> 12" "1 \<le> d" "d \<le> month_length y m" "y = year_of n"
proof -
  let ?l = "leap_day y" and ?d = "n - year_start y"
  have y: "y = year_of n" and m: "m = month_of ?l ?d" and d: "d = ?d - month_start ?l m + 1"
    using assms by (auto simp: civil_def Let_def)
  have "0 \<le> ?d" "?d < 365 + ?l"
    using year_of_bounds [of n] year_start_step [of y] y by auto
  note b = month_of_bounds [OF this leap_day_01]
  show "day_number y m d = n" using d by (simp add: day_number_def)
  show "1 \<le> m" "m \<le> 12" "1 \<le> d" "d \<le> month_length y m"
    using b unfolding m [symmetric] by (auto simp: d month_length_def)
  show "y = year_of n" by (rule y)
qed

lemma month_length_pos: "1 \<le> m \<Longrightarrow> m \<le> 12 \<Longrightarrow> month_length y m \<le> 31"
  using leap_day_01 [of y] by (auto simp: month_length_def month_start_def)

lemma civil_day_number:
  assumes "1 \<le> m" "m \<le> 12" "1 \<le> d" "d \<le> month_length y m"
  shows "civil (day_number y m d) = (y, m, d)"
proof -
  let ?l = "leap_day y"
  define e where "e = month_start ?l m + d - 1"
  have e: "month_start ?l m \<le> e" "e < month_start ?l (m + 1)"
    using assms by (auto simp: e_def month_length_def)
  have "0 \<le> month_start ?l m" using leap_day_01 [of y] by (auto simp: month_start_def)
  moreover have "month_start ?l (m + 1) \<le> 365 + ?l"
    using assms(1,2) leap_day_01 [of y] by (auto simp: month_start_def)
  ultimately have "0 \<le> e" "e < 365 + ?l" using e by linarith+
  then have y: "year_of (year_start y + e) = y"
    using year_start_step [of y] by (intro year_of_unique) linarith+
  have m: "month_of ?l e = m" using assms e leap_day_01 by (intro month_of_unique)
  have "day_number y m d = year_start y + e" by (simp add: day_number_def e_def)
  then show ?thesis by (simp add: civil_def Let_def y m) (simp add: e_def)
qed

end
