(* ===== verification/Rfc3339.thy ===== *)
theory Rfc3339
  imports GoTime
begin

text \<open>
  Text of instants and durations: \<open>Time.Format\<close> and \<open>time.Parse\<close> for \<open>time.RFC3339\<close> and
  \<open>time.RFC3339Nano\<close>, and \<open>time.ParseDuration\<close>. Main facts: parsing a formatted instant gives
  it back to its precision (\<open>parse_fmt\<close>), and UTC texts compare as their instants do
  (\<open>fmt_less_iff\<close>).
\<close>

subsection \<open>Formatting\<close>

definition pad2 :: "int \<Rightarrow> string" where
  "pad2 n = [digit_char (nat (n div 10 mod 10)), digit_char (nat (n mod 10))]"

definition pad4 :: "int \<Rightarrow> string" where
  "pad4 n = pad2 (n div 100) @ pad2 (n mod 100)"

definition date_text :: "int \<times> int \<times> int \<Rightarrow> string" where
  "date_text = (\<lambda>(y, m, d). pad4 y @ ''-'' @ pad2 m @ ''-'' @ pad2 d)"

definition clock_text :: "int \<Rightarrow> string" where
  "clock_text r = pad2 (r div 3600) @ '':'' @ pad2 (r div 60 mod 60) @ '':'' @ pad2 (r mod 60)"

text \<open>\<open>t.UTC().Format(time.RFC3339)\<close>: the fraction of a second is dropped.\<close>

definition fmt_sec :: "int \<Rightarrow> string" where
  "fmt_sec s = date_text (civil (s div 86400 + epoch_day)) @ ''T'' @ clock_text (s mod 86400)"

definition fmt :: "instant \<Rightarrow> string" where
  "fmt t = fmt_sec (t div second) @ ''Z''"

fun frac_digits :: "nat \<Rightarrow> int \<Rightarrow> string" where
  "frac_digits 0 n = []"
| "frac_digits (Suc k) n = digit_char (nat (n div 10 ^ k mod 10)) # frac_digits k n"

text \<open>\<open>t.UTC().Format(time.RFC3339Nano)\<close>: trailing zeros of the fraction are removed.\<close>

definition fmt_nano :: "instant \<Rightarrow> string" where
  "fmt_nano t = (let f = trim_right_chars (frac_digits 9 (t mod second)) ''0''
                 in fmt_sec (t div second) @ (if f = [] then [] else ''.'' @ f) @ ''Z'')"

subsection \<open>Parsing\<close>

definition take_num2 :: "string \<Rightarrow> (int \<times> string) option" where
  "take_num2 s = (case s of a # b # r \<Rightarrow> if is_digit a \<and> is_digit b
                    then Some (int (10 * digit_val a + digit_val b), r) else None | _ \<Rightarrow> None)"

definition take_num4 :: "string \<Rightarrow> (int \<times> string) option" where
  "take_num4 s = (case take_num2 s of None \<Rightarrow> None | Some (a, r) \<Rightarrow>
                  (case take_num2 r of None \<Rightarrow> None | Some (b, r') \<Rightarrow> Some (100 * a + b, r')))"

text \<open>The hour may have one digit only.\<close>

definition take_hour :: "string \<Rightarrow> (int \<times> string) option" where
  "take_hour s = (case take_num2 s of Some x \<Rightarrow> Some x | None \<Rightarrow>
     (case s of a # r \<Rightarrow> if is_digit a then Some (int (digit_val a), r) else None | [] \<Rightarrow> None))"

definition expect :: "char \<Rightarrow> string \<Rightarrow> string option" where
  "expect c s = (case s of a # r \<Rightarrow> if a = c then Some r else None | [] \<Rightarrow> None)"

text \<open>A fraction after the seconds, introduced by a full stop or a comma; nine digits count.\<close>

definition take_frac :: "string \<Rightarrow> int \<times> string" where
  "take_frac s = (case s of
      c # d # r \<Rightarrow> (if (c = CHR ''.'' \<or> c = CHR '','') \<and> is_digit d
                   then (let ds = takeWhile is_digit (d # r)
                         in (int (read_digits (take 9 (ds @ replicate 9 (CHR ''0'')))),
                             dropWhile is_digit (d # r)))
                   else (0, s))
    | _ \<Rightarrow> (0, s))"

definition take_zone :: "string \<Rightarrow> int option" where
  "take_zone s =
     (if s = ''Z'' then Some 0 else case s of [] \<Rightarrow> None | c # r \<Rightarrow>
        if c = CHR ''+'' \<or> c = CHR ''-'' then
          (case take_num2 r of None \<Rightarrow> None | Some (h, r1) \<Rightarrow>
          (case expect (CHR '':'') r1 of None \<Rightarrow> None | Some r2 \<Rightarrow>
          (case take_num2 r2 of None \<Rightarrow> None | Some (m, r3) \<Rightarrow>
             if r3 = [] \<and> h \<le> 24 \<and> m \<le> 60
             then Some ((if c = CHR ''-'' then - 1 else 1) * (3600 * h + 60 * m)) else None)))
        else None)"

definition parse_date :: "string \<Rightarrow> ((int \<times> int \<times> int) \<times> string) option" where
  "parse_date s =
     (case take_num4 s of None \<Rightarrow> None | Some (y, s1) \<Rightarrow>
     (case expect (CHR ''-'') s1 of None \<Rightarrow> None | Some s2 \<Rightarrow>
     (case take_num2 s2 of None \<Rightarrow> None | Some (m, s3) \<Rightarrow>
     (case expect (CHR ''-'') s3 of None \<Rightarrow> None | Some s4 \<Rightarrow>
     (case take_num2 s4 of None \<Rightarrow> None | Some (d, s5) \<Rightarrow>
        if 1 \<le> m \<and> m \<le> 12 \<and> 1 \<le> d \<and> d \<le> month_length y m
        then Some ((y, m, d), s5) else None)))))"

definition parse_clock :: "string \<Rightarrow> (int \<times> string) option" where
  "parse_clock s =
     (case take_hour s of None \<Rightarrow> None | Some (h, s1) \<Rightarrow>
     (case expect (CHR '':'') s1 of None \<Rightarrow> None | Some s2 \<Rightarrow>
     (case take_num2 s2 of None \<Rightarrow> None | Some (m, s3) \<Rightarrow>
     (case expect (CHR '':'') s3 of None \<Rightarrow> None | Some s4 \<Rightarrow>
     (case take_num2 s4 of None \<Rightarrow> None | Some (x, s5) \<Rightarrow>
        if h < 24 \<and> m < 60 \<and> x < 60 then Some (3600 * h + 60 * m + x, s5) else None)))))"

definition parse_time :: "string \<Rightarrow> instant option" where
  "parse_time s =
     (case parse_date s of None \<Rightarrow> None | Some ((y, m, d), s1) \<Rightarrow>
     (case expect (CHR ''T'') s1 of None \<Rightarrow> None | Some s2 \<Rightarrow>
     (case parse_clock s2 of None \<Rightarrow> None | Some (c, s3) \<Rightarrow>
     (let (f, s4) = take_frac s3 in
      case take_zone s4 of None \<Rightarrow> None | Some z \<Rightarrow>
        Some ((86400 * (day_number y m d - epoch_day) + c - z) * second + f)))))"

subsection \<open>Durations\<close>

definition duration_unit :: "string \<Rightarrow> int option" where
  "duration_unit u =
     (if u = ''ns'' then Some 1
      else if u = ''us'' \<or> u = [CHR 0xC2, CHR 0xB5, CHR ''s''] \<or> u = [CHR 0xCE, CHR 0xBC, CHR ''s''] then Some 1000
      else if u = ''ms'' then Some 1000000 else if u = ''s'' then Some second
      else if u = ''m'' then Some minute else if u = ''h'' then Some hour else None)"

text \<open>One \<open>number unit\<close> group: its value in nanoseconds and the rest of the text.\<close>

definition duration_group :: "string \<Rightarrow> (int \<times> string) option" where
  "duration_group s =
     (let ip = takeWhile is_digit s; s1 = dropWhile is_digit s;
          dotted = (case s1 of c # _ \<Rightarrow> c = CHR ''.'' | [] \<Rightarrow> False);
          s2 = (if dotted then tl s1 else s1);
          fp = (if dotted then takeWhile is_digit s2 else []);
          s3 = (if dotted then dropWhile is_digit s2 else s2);
          u = takeWhile (\<lambda>c. c \<noteq> CHR ''.'' \<and> \<not> is_digit c) s3
      in if ip = [] \<and> fp = [] then None
         else case duration_unit u of None \<Rightarrow> None
              | Some k \<Rightarrow> Some (int (read_digits ip) * k + int (read_digits fp) * k div 10 ^ length fp,
                              dropWhile (\<lambda>c. c \<noteq> CHR ''.'' \<and> \<not> is_digit c) s3))"

text \<open>Groups are consumed until the text ends; every group is not empty, so the text's length
  is fuel enough. Sums beyond \<open>2^63\<close> are errors.\<close>

fun duration_groups :: "nat \<Rightarrow> int \<Rightarrow> string \<Rightarrow> int option" where
  "duration_groups 0 acc s = None"
| "duration_groups (Suc n) acc s =
     (if s = [] then Some acc
      else case duration_group s of None \<Rightarrow> None
           | Some (v, s') \<Rightarrow> if acc + v > max_int64 + 1 then None else duration_groups n (acc + v) s')"

definition parse_duration :: "string \<Rightarrow> int option" where
  "parse_duration s =
     (let (neg, r) = (case s of c # r \<Rightarrow> if c = CHR ''-'' then (True, r)
                                     else if c = CHR ''+'' then (False, r) else (False, s)
                      | [] \<Rightarrow> (False, s))
      in if r = ''0'' then Some 0 else if r = [] then None
         else case duration_groups (Suc (length r)) 0 r of None \<Rightarrow> None
              | Some d \<Rightarrow> if neg then Some (- d) else if d > max_int64 then None else Some d)"

subsection \<open>Facts: parsing a formatted instant\<close>

lemma pad2_digits:
  assumes "0 \<le> n" "n < 100"
  obtains p q where "p < 10" "q < 10" "n = int (10 * p + q)" "pad2 n = [digit_char p, digit_char q]"
proof
  show "nat (n div 10) < 10" "nat (n mod 10) < 10" using assms by linarith+
  have "0 \<le> n div 10" "0 \<le> n mod 10" "n = 10 * (n div 10) + n mod 10" using assms by simp_all
  then show "n = int (10 * nat (n div 10) + nat (n mod 10))" by linarith
  have "n div 10 mod 10 = n div 10" using assms by simp
  then show "pad2 n = [digit_char (nat (n div 10)), digit_char (nat (n mod 10))]"
    by (simp add: pad2_def)
qed

lemma take_num2_pad2 [simp]: "0 \<le> n \<Longrightarrow> n < 100 \<Longrightarrow> take_num2 (pad2 n @ s) = Some (n, s)"
  by (erule (1) pad2_digits) (simp add: take_num2_def)

lemma take_num4_pad4 [simp]: "0 \<le> n \<Longrightarrow> n < 10000 \<Longrightarrow> take_num4 (pad4 n @ s) = Some (n, s)"
  by (simp add: take_num4_def pad4_def)

lemma expect_Cons [simp]: "expect c (c # s) = Some s"
  by (simp add: expect_def)

lemma parse_date_text:
  assumes "civil n = (y, m, d)" "0 \<le> y" "y \<le> 9999"
  shows "parse_date (date_text (civil n) @ s) = Some ((y, m, d), s)"
proof -
  note c = civil_props [OF assms(1)]
  have "d < 100" using c(5) month_length_pos [OF c(2,3), of y] by linarith
  then show ?thesis
    using c assms by (simp add: date_text_def parse_date_def)
qed

lemma parse_clock_pads:
  assumes "0 \<le> h" "h < 24" "0 \<le> m" "m < 60" "0 \<le> x" "x < 60"
  shows "parse_clock (pad2 h @ '':'' @ pad2 m @ '':'' @ pad2 x @ s) = Some (3600 * h + 60 * m + x, s)"
proof -
  have 1: "take_hour (pad2 h @ t) = Some (h, t)" for t using assms by (simp add: take_hour_def)
  have 2: "take_num2 (pad2 m @ t) = Some (m, t)" "take_num2 (pad2 x @ t) = Some (x, t)" for t
    using assms by simp_all
  have 3: "'':'' @ t = CHR '':'' # t" for t by simp
  show ?thesis
    unfolding parse_clock_def 1 2 3 expect_Cons option.case prod.case using assms by simp
qed

lemma clock_parts: "3600 * (r div 3600) + 60 * (r div 60 mod 60) + r mod 60 = (r :: int)"
proof -
  have "r div 3600 = r div 60 div 60" using zdiv_zmult2_eq [of 60 r 60] by simp
  moreover have "60 * (r div 60 div 60) + r div 60 mod 60 = r div 60" by simp
  moreover have "60 * (r div 60) + r mod 60 = r" by simp
  ultimately show ?thesis by linarith
qed

lemma parse_clock_text:
  assumes "0 \<le> r" "r < 86400"
  shows "parse_clock (clock_text r @ s) = Some (r, s)"
proof -
  have h: "0 \<le> r div 3600" using assms(1) by (intro pos_imp_zdiv_nonneg_iff [THEN iffD2]) simp_all
  have h': "r div 3600 < 24" using div_bounds [of 3600 r] assms(2) by linarith
  have "parse_clock (clock_text r @ s) = Some (3600 * (r div 3600) + 60 * (r div 60 mod 60) + r mod 60, s)"
    unfolding clock_text_def append_assoc
    by (rule parse_clock_pads [OF h h']) (rule pos_mod_sign pos_mod_bound; simp only: zero_less_numeral)+
  then show ?thesis by (simp only: clock_parts)
qed

lemma take_frac_Z [simp]: "take_frac ''Z'' = (0, ''Z'')" "take_frac (''Z'' @ []) = (0, ''Z'')"
  by (simp_all add: take_frac_def)

lemma take_zone_Z [simp]: "take_zone ''Z'' = Some 0"
  by (simp add: take_zone_def)

definition year_at :: "instant \<Rightarrow> int" where
  "year_at t = year_of (t div second div 86400 + epoch_day)"

definition printable_time :: "instant \<Rightarrow> bool" where
  "printable_time t \<longleftrightarrow> 0 \<le> year_at t \<and> year_at t \<le> 9999"

lemma parse_fmt: "printable_time t \<Longrightarrow> parse_time (fmt t) = Some (t div second * second)"
proof -
  assume p: "printable_time t"
  let ?n = "t div second div 86400 + epoch_day" and ?r = "t div second mod 86400"
  obtain y m d where c: "civil ?n = (y, m, d)" by (cases "civil ?n")
  note cp = civil_props [OF c]
  have y: "0 \<le> y" "y \<le> 9999" using p cp(6) by (auto simp: printable_time_def year_at_def)
  have 1: "parse_date (fmt t) = Some ((y, m, d), CHR ''T'' # clock_text ?r @ ''Z'')"
    using parse_date_text [OF c y, of "''T'' @ clock_text ?r @ ''Z''"] by (simp add: fmt_def fmt_sec_def)
  have 2: "parse_clock (clock_text ?r @ ''Z'') = Some (?r, ''Z'')" by (rule parse_clock_text) simp_all
  have "86400 * (day_number y m d - epoch_day) + ?r = t div second"
    using cp(1) by simp
  then show ?thesis unfolding parse_time_def 1 by (simp add: 2)
qed

lemma parse_fmt_whole: "printable_time t \<Longrightarrow> t mod second = 0 \<Longrightarrow> parse_time (fmt t) = Some t"
  using parse_fmt [of t] by (simp add: mod_eq_0_iff_dvd)

subsection \<open>Facts: the order of texts\<close>

lemma lex_append_eq_length:
  fixes u v :: string
  shows "length u = length v \<Longrightarrow> (u @ s < v @ t) = (u < v \<or> (u = v \<and> s < t))"
  by (induction u v rule: list_induct2) auto

lemma digit_char_less [simp]: "a < 10 \<Longrightarrow> b < 10 \<Longrightarrow> (digit_char a < digit_char b) = (a < b)"
  by (simp add: less_char_def ord_digit_char)

lemma digit_char_inj [simp]: "a < 10 \<Longrightarrow> b < 10 \<Longrightarrow> (digit_char a = digit_char b) = (a = b)"
  using digit_val_char by metis

lemma pad2_less [simp]:
  assumes "0 \<le> a" "a < 100" "0 \<le> b" "b < 100"
  shows "(pad2 a < pad2 b) = (a < b)"
proof -
  obtain p q where a: "p < 10" "q < 10" "a = int (10 * p + q)" "pad2 a = [digit_char p, digit_char q]"
    using pad2_digits [OF assms(1,2)] .
  obtain r t where b: "r < 10" "t < 10" "b = int (10 * r + t)" "pad2 b = [digit_char r, digit_char t]"
    using pad2_digits [OF assms(3,4)] .
  have "(pad2 a < pad2 b) = (p < r \<or> (p = r \<and> q < t))" using a b by simp
  also have "\<dots> = (a < b)" using a b by auto
  finally show ?thesis .
qed

lemma pad2_eq [simp]:
  assumes "0 \<le> a" "a < 100" "0 \<le> b" "b < 100"
  shows "(pad2 a = pad2 b) = (a = b)"
  using pad2_less [OF assms] pad2_less [OF assms(3,4,1,2)] by (metis less_irrefl linorder_less_linear)

lemma length_pad2 [simp]: "length (pad2 a) = 2"
  by (simp add: pad2_def)

lemma pad4_less [simp]:
  assumes "0 \<le> a" "a < 10000" "0 \<le> b" "b < 10000"
  shows "(pad4 a < pad4 b) = (a < b)" "(pad4 a = pad4 b) = (a = b)"
proof -
  have q: "0 \<le> a div 100" "a div 100 < 100" "0 \<le> b div 100" "b div 100 < 100"
    using assms by linarith+
  have r: "0 \<le> a mod 100" "a mod 100 < 100" "0 \<le> b mod 100" "b mod 100 < 100"
    by simp_all
  have e: "100 * (a div 100) + a mod 100 = a" "100 * (b div 100) + b mod 100 = b" by simp_all
  show "(pad4 a < pad4 b) = (a < b)"
    unfolding pad4_def lex_append_eq_length [OF trans [OF length_pad2 length_pad2 [symmetric]]]
      pad2_less [OF q] pad2_eq [OF q] pad2_less [OF r] using e r by linarith
  show "(pad4 a = pad4 b) = (a = b)"
    unfolding pad4_def append_eq_append_conv [OF disjI1, OF trans [OF length_pad2 length_pad2 [symmetric]]]
      pad2_eq [OF q] pad2_eq [OF r] using e by metis
qed

lemma length_pad4 [simp]: "length (pad4 a) = 4"
  by (simp add: pad4_def)

lemma date_text_less:
  assumes "0 \<le> y" "y < 10000" "0 \<le> y'" "y' < 10000" "0 \<le> m" "m < 100" "0 \<le> m'" "m' < 100"
    "0 \<le> d" "d < 100" "0 \<le> d'" "d' < 100"
  shows "(date_text (y, m, d) @ s < date_text (y', m', d') @ s') =
         (y < y' \<or> (y = y' \<and> (m < m' \<or> (m = m' \<and> (d < d' \<or> (d = d' \<and> s < s'))))))"
  using assms by (simp add: date_text_def lex_append_eq_length)

lemma clock_text_less:
  assumes "0 \<le> r" "r < 86400" "0 \<le> r'" "r' < 86400"
  shows "(clock_text r @ s < clock_text r' @ s') = (r < r' \<or> (r = r' \<and> s < s'))"
proof -
  define h m x h' m' x' where v: "h = r div 3600" "m = r div 60 mod 60" "x = r mod 60"
    "h' = r' div 3600" "m' = r' div 60 mod 60" "x' = r' mod 60"
  have b: "0 \<le> h" "h < 100" "0 \<le> h'" "h' < 100"
    using div_bounds [of 3600 r] div_bounds [of 3600 r'] assms unfolding v by linarith+
  have c: "0 \<le> m" "m < 60" "0 \<le> m'" "m' < 60" "0 \<le> x" "x < 60" "0 \<le> x'" "x' < 60"
    unfolding v by simp_all
  have e: "r = 3600 * h + 60 * m + x" "r' = 3600 * h' + 60 * m' + x'"
    unfolding v by (simp_all only: clock_parts)
  have "(clock_text r @ s < clock_text r' @ s') =
        (h < h' \<or> (h = h' \<and> (m < m' \<or> (m = m' \<and> (x < x' \<or> (x = x' \<and> s < s'))))))"
    unfolding clock_text_def v [symmetric] using b c by (simp add: lex_append_eq_length)
  also have "\<dots> = (r < r' \<or> (r = r' \<and> s < s'))"
    unfolding e using c by (cases "h < h'"; cases "h = h'"; cases "m < m'"; cases "m = m'") auto
  finally show ?thesis .
qed

lemma month_of_mono: "d \<le> d' \<Longrightarrow> l = 0 \<or> l = 1 \<Longrightarrow> month_of l d \<le> month_of l d'"
  by (auto simp: month_of_def)

lemma civil_strict_mono:
  assumes "n < n'" "civil n = (y, m, d)" "civil n' = (y', m', d')"
  shows "y < y' \<or> (y = y' \<and> (m < m' \<or> (m = m' \<and> d < d')))"
proof -
  have le: "y \<le> y'"
    using year_of_mono [of n n'] assms civil_props(6) [OF assms(2)] civil_props(6) [OF assms(3)] by simp
  show ?thesis
  proof (cases "y = y'")
    case True
    have "m \<le> m'"
      using assms True month_of_mono [of "n - year_start y" "n' - year_start y" "leap_day y"] leap_day_01
      by (auto simp: civil_def Let_def)
    moreover have "m = m' \<Longrightarrow> d < d'"
      using assms True by (auto simp: civil_def Let_def)
    ultimately show ?thesis using True by auto
  qed (use le in auto)
qed

lemma quotient_order:
  assumes "0 \<le> r" "r < 86400" "0 \<le> r'" "r' < (86400 :: int)"
  shows "(q + epoch_day < q' + epoch_day \<or> (q + epoch_day = q' + epoch_day \<and> (r < r' \<or> (r = r' \<and> X)))) =
         (86400 * q + r < 86400 * q' + r' \<or> (86400 * q + r = 86400 * q' + r' \<and> X))"
  by (rule linorder_cases [of q q']) (use assms in auto)

lemma fmt_sec_less:
  assumes "0 \<le> year_of (s div 86400 + epoch_day)" "year_of (s div 86400 + epoch_day) \<le> 9999"
    "0 \<le> year_of (s' div 86400 + epoch_day)" "year_of (s' div 86400 + epoch_day) \<le> 9999"
  shows "(fmt_sec s @ u < fmt_sec s' @ u') = (s < s' \<or> (s = s' \<and> u < u'))"
proof -
  let ?n = "s div 86400 + epoch_day" and ?n' = "s' div 86400 + epoch_day"
  obtain y m d where c: "civil ?n = (y, m, d)" by (cases "civil ?n")
  obtain y' m' d' where c': "civil ?n' = (y', m', d')" by (cases "civil ?n'")
  note p = civil_props [OF c] and p' = civil_props [OF c']
  have r: "0 \<le> y" "y < 10000" "0 \<le> y'" "y' < 10000" using assms p(6) p'(6) by simp_all
  have md: "0 \<le> m" "m < 100" "0 \<le> m'" "m' < 100" "0 \<le> d" "d < 100" "0 \<le> d'" "d' < 100"
    using p p' month_length_pos [OF p(2,3), of y] month_length_pos [OF p'(2,3), of y'] by simp_all
  have b: "0 \<le> s mod 86400" "s mod 86400 < 86400" "0 \<le> s' mod 86400" "s' mod 86400 < 86400" by simp_all
  have e: "86400 * (s div 86400) + s mod 86400 = s" "86400 * (s' div 86400) + s' mod 86400 = s'" by simp_all
  have D: "(y < y' \<or> (y = y' \<and> (m < m' \<or> (m = m' \<and> (d < d' \<or> (d = d' \<and> X)))))) =
           (?n < ?n' \<or> (?n = ?n' \<and> X))" for X
  proof (rule linorder_cases [of ?n ?n'])
    assume "?n < ?n'"
    then show ?thesis using civil_strict_mono [OF _ c c'] by auto
  next
    assume "?n = ?n'"
    then show ?thesis using c c' by auto
  next
    assume "?n' < ?n"
    then show ?thesis using civil_strict_mono [OF _ c' c] by auto
  qed
  have "(fmt_sec s @ u < fmt_sec s' @ u') =
        (?n < ?n' \<or> (?n = ?n' \<and> (s mod 86400 < s' mod 86400 \<or> (s mod 86400 = s' mod 86400 \<and> u < u'))))"
    unfolding fmt_sec_def c c' append_assoc date_text_less [OF r(1-4) md] D
      append_Cons append_Nil clock_text_less [OF b, symmetric]
    by simp
  also have "\<dots> = (s < s' \<or> (s = s' \<and> u < u'))"
    using quotient_order [OF b, of "s div 86400" "s' div 86400"] unfolding e by simp
  finally show ?thesis .
qed

lemma fmt_less_iff:
  assumes "printable_time t" "printable_time u"
  shows "fmt t < fmt u \<longleftrightarrow> t div second < u div second"
  using assms fmt_sec_less [of "t div second" "u div second" "''Z''" "''Z''"]
  by (simp add: fmt_def printable_time_def year_at_def)

lemma fmt_le_iff:
  assumes "printable_time t" "printable_time u"
  shows "fmt t \<le> fmt u \<longleftrightarrow> t div second \<le> u div second"
  using fmt_less_iff [OF assms(2,1)] by (simp add: not_less [symmetric])

lemma fmt_Z: "\<exists>s. fmt t = s @ ''Z''"
  by (simp add: fmt_def)

lemma fmt_ne [simp]: "fmt t \<noteq> []"
  by (simp add: fmt_def)

subsection \<open>Facts: texts with nanoseconds\<close>

lemma read_digits_Cons: "read_digits (c # s) = digit_val c * 10 ^ length s + read_digits s"
proof (induction s rule: rev_induct)
  case (snoc x s)
  then show ?case by (metis append_Cons read_digits_snoc length_append_singleton power_Suc
        distrib_left add.assoc mult.assoc mult.left_commute)
qed (simp add: read_digits_def)

lemma length_frac_digits [simp]: "length (frac_digits k n) = k"
  by (induction k) simp_all

lemma frac_digit_less: "nat ((n :: int) div 10 ^ k mod 10) < 10"
  by simp

lemma is_digit_frac: "\<forall>c \<in> set (frac_digits k n). is_digit c"
  by (induction k) (simp_all add: is_digit_char [OF frac_digit_less])

lemma mod_power_step: "(n :: int) mod 10 ^ Suc k = n div 10 ^ k mod 10 * 10 ^ k + n mod 10 ^ k"
  using zmod_zmult2_eq [of 10 n "10 ^ k"] by (simp add: mult.commute)

lemma read_frac_digits: "int (read_digits (frac_digits k n)) = n mod 10 ^ k"
proof (induction k)
  case (Suc k)
  have "int (nat (n div 10 ^ k mod 10)) = n div 10 ^ k mod 10" by simp
  then show ?case unfolding mod_power_step
    by (simp add: read_digits_Cons digit_val_char [OF frac_digit_less] Suc)
qed simp

lemma take_frac_text:
  assumes "f \<noteq> []" "\<forall>c \<in> set f. is_digit c"
  shows "take_frac (''.'' @ f @ ''Z'') = (int (read_digits (take 9 (f @ replicate 9 (CHR ''0'')))), ''Z'')"
proof -
  obtain d r where f: "f = d # r" using assms(1) by (cases f) auto
  have Z: "\<not> is_digit (CHR ''Z'')" by (simp add: is_digit_def)
  have "takeWhile is_digit (f @ ''Z'') = f" "dropWhile is_digit (f @ ''Z'') = ''Z''"
    using assms(2) Z by (simp_all add: takeWhile_append dropWhile_append)
  then show ?thesis using assms(2) f by (simp add: take_frac_def Let_def)
qed

lemma trim_zeros_pad:
  assumes "length f = k"
  shows "take k (trim_right_chars f ''0'' @ replicate k (CHR ''0'')) = f"
proof -
  obtain z where z: "f = trim_right_chars f ''0'' @ z" "\<forall>c \<in> set z. c = CHR ''0''"
    using trim_right_of_prefix [of f "\<lambda>c. c \<in> set ''0''"] by (auto simp: trim_right_chars_def)
  from z(2) have "z = replicate (length z) (CHR ''0'')" by (metis replicate_eqI)
  moreover have "length z = k - length (trim_right_chars f ''0'')" "length (trim_right_chars f ''0'') \<le> k"
    using assms arg_cong [OF z(1), of length] by simp_all
  ultimately show ?thesis using z(1) by simp
qed

lemma parse_fmt_nano:
  assumes "printable_time t"
  shows "parse_time (fmt_nano t) = Some t"
proof -
  let ?n = "t div second div 86400 + epoch_day" and ?r = "t div second mod 86400"
  let ?f = "trim_right_chars (frac_digits 9 (t mod second)) ''0''"
  let ?tail = "(if ?f = [] then [] else ''.'' @ ?f) @ ''Z''"
  obtain y m d where c: "civil ?n = (y, m, d)" by (cases "civil ?n")
  note cp = civil_props [OF c]
  have y: "0 \<le> y" "y \<le> 9999" using assms cp(6) by (auto simp: printable_time_def year_at_def)
  have 1: "parse_date (fmt_nano t) = Some ((y, m, d), CHR ''T'' # clock_text ?r @ ?tail)"
    using parse_date_text [OF c y, of "''T'' @ clock_text ?r @ ?tail"]
    by (simp add: fmt_nano_def Let_def fmt_sec_def)
  have 2: "parse_clock (clock_text ?r @ ?tail) = Some (?r, ?tail)" by (rule parse_clock_text) simp_all
  have e: "86400 * (day_number y m d - epoch_day) + ?r = t div second" using cp(1) by simp
  have pad: "take 9 (?f @ replicate 9 (CHR ''0'')) = frac_digits 9 (t mod second)"
    by (rule trim_zeros_pad) simp
  have frac: "int (read_digits (take 9 (?f @ replicate 9 (CHR ''0'')))) = t mod second"
    unfolding pad read_frac_digits by (simp add: second_def)
  have dig: "\<forall>c \<in> set ?f. is_digit c"
    using is_digit_frac set_trim_right_of unfolding trim_right_chars_def by blast
  have 3: "take_frac ?tail = (t mod second, ''Z'')"
  proof (cases "?f = []")
    case True
    have "int (read_digits (replicate 9 (CHR ''0''))) = 0" by (simp add: numeral_eq_Suc read_digits_def digit_val_def)
    then have "t mod second = 0" using frac True by simp
    with True show ?thesis by simp
  next
    case False
    with take_frac_text [OF False dig] frac show ?thesis by simp
  qed
  have total: "(86400 * (day_number y m d - epoch_day) + ?r - 0) * second + t mod second = t"
    by (simp only: e diff_0_right div_mult_mod_eq)
  show ?thesis unfolding parse_time_def 1
    using total by (simp add: 2 3 del: append_assoc split del: if_split)
qed

lemma fmt_nano_le:
  assumes "printable_time t" "printable_time u" "fmt_nano t \<le> fmt_nano u"
  shows "t < u + second"
proof (rule ccontr)
  assume "\<not> t < u + second"
  then have "u div second < t div second"
    using div_bounds [of second u] div_bounds [of second t] by (simp add: second_def)
  then have "fmt_nano u < fmt_nano t"
    unfolding fmt_nano_def Let_def using assms(1,2)
    by (subst fmt_sec_less) (simp_all add: printable_time_def year_at_def)
  with assms(3) show False by simp
qed

end
