(* ===== verification/Security.thy ===== *)
theory Security
  imports Base64 Rfc3339 Json
begin

text \<open>
  \<open>security.go\<close>: validation of names, secrets and their hashes, random identifiers, and admin
  tokens. Cryptography and SSH key parsing are third-party code: a \<open>lib\<close> record of functions
  that every definition using them takes as an argument. Randomness is the list of the values
  the random source will still return; an exhausted list is a failing source.
\<close>

record claims =
  c_user_id :: string
  c_username :: string
  c_role :: string
  c_expires_at :: "instant option"

text \<open>Third-party code the hub calls.\<close>

record lib =
  l_argon2 :: "string \<Rightarrow> string \<Rightarrow> nat \<Rightarrow> nat \<Rightarrow> nat \<Rightarrow> nat \<Rightarrow> string"
      \<comment> \<open>secret, salt, iterations, memory, parallelism, key length\<close>
  l_sha256 :: "string \<Rightarrow> string"
  l_ssh_key_type :: "string \<Rightarrow> string option"  \<comment> \<open>type of a parsed authorized key\<close>
  l_jwt_sign :: "string \<Rightarrow> claims \<Rightarrow> instant \<Rightarrow> string"  \<comment> \<open>HS256 text of claims issued at an instant\<close>
  l_jwt_decode :: "string \<Rightarrow> (string \<times> claims) option"  \<comment> \<open>the algorithm and claims a token names\<close>
  l_jwt_verify :: "string \<Rightarrow> string \<Rightarrow> instant \<Rightarrow> bool"  \<comment> \<open>key, token: signature and expiry are valid\<close>

text \<open>The random source: values of \<open>rand.Int\<close> (reduced into its range) and salts to come.\<close>

record rand =
  r_draws :: "nat list"
  r_salts :: "string list"

subsection \<open>Regular expressions\<close>

text \<open>
  An anchored regular expression is a sequence of character classes, each with the bounds of
  its repetition (no upper bound: \<open>None\<close>).
\<close>

type_synonym rx = "((char \<Rightarrow> bool) \<times> nat \<times> nat option) list"

fun rx_match :: "rx \<Rightarrow> string \<Rightarrow> bool" where
  "rx_match [] s = (s = [])"
| "rx_match ((P, lo, hi) # rs) s =
     list_ex (\<lambda>k. list_all P (take k s) \<and> rx_match rs (drop k s))
       [lo ..< Suc (case hi of None \<Rightarrow> length s | Some h \<Rightarrow> min h (length s))]"

definition slugRE :: rx where
  "slugRE = [(is_slug_alnum, 1, Some 1), (\<lambda>c. is_slug_alnum c \<or> c = CHR ''-'', 1, Some 30),
             (is_slug_alnum, 1, Some 1)]"

definition unixUserRE :: rx where
  "unixUserRE = [(\<lambda>c. c = CHR ''r'', 1, Some 1), (\<lambda>c. c = CHR ''t'', 1, Some 1),
                 (\<lambda>c. c = CHR ''-'', 1, Some 1), (is_slug_alnum, 8, Some 8)]"

definition ssh_token_char :: "char \<Rightarrow> bool" where
  "ssh_token_char c \<longleftrightarrow> is_upper c \<or> is_lower c \<or> is_digit c \<or> c \<in> set ''_.@%+=:,/-'' \<or> c = bslash"

definition sshConfigTokenRE :: rx where
  "sshConfigTokenRE = [(ssh_token_char, 1, None)]"

subsection \<open>Validation\<close>

text \<open>A validator returns its error, or \<open>None\<close>.\<close>

definition go_quote :: "string \<Rightarrow> string" where
  "go_quote s = [dq] @ concat (map (\<lambda>c.
     if c = dq then [bslash, dq] else if c = bslash then [bslash, bslash]
     else if ord c < 32 \<or> ord c = 127
       then [bslash, CHR ''x'', hex_char (ord c div 16), hex_char (ord c mod 16)]
     else [c]) s) @ [dq]"

definition ValidateSlug :: "string \<Rightarrow> string option" where
  "ValidateSlug s =
     (if \<not> rx_match slugRE s
      then Some (''invalid slug '' @ go_quote s @ '': must be lowercase [a-z0-9-], 3-32 chars, no leading/trailing hyphen'')
      else None)"

definition ValidateTargetUser :: "string \<Rightarrow> string option" where
  "ValidateTargetUser s =
     (if s = [] then None
      else if length s > 128 \<or> has_prefix s ''-'' \<or> contains s '':''
              \<or> contains_any s [CHR 0x00, CHR 0x0D, CHR 0x0A, CHR 0x09, CHR '' '']
      then Some (''invalid target_user '' @ go_quote s)
      else None)"

definition ValidateUnixUser :: "string \<Rightarrow> string option" where
  "ValidateUnixUser s =
     (if \<not> rx_match unixUserRE s then Some (''invalid reach unix user '' @ go_quote s) else None)"

definition ValidateSSHConfigToken :: "string \<Rightarrow> string \<Rightarrow> string option" where
  "ValidateSSHConfigToken name s =
     (if s = [] \<or> \<not> rx_match sshConfigTokenRE s \<or> has_prefix s ''-''
         \<or> contains_any s [CHR 0x0D, CHR 0x0A, CHR 0x09, CHR '' '']
      then Some (''invalid '' @ name @ '' for SSH config'') else None)"

text \<open>The loop of \<open>NormalizeSlug\<close>; the flag is \<open>lastHyphen\<close>.\<close>

fun slug_chars :: "bool \<Rightarrow> string \<Rightarrow> string" where
  "slug_chars h [] = []"
| "slug_chars h (c # s) =
     (if is_slug_alnum c then c # slug_chars False s
      else if h then slug_chars True s else CHR ''-'' # slug_chars True s)"

definition NormalizeSlug :: "string \<Rightarrow> string" where
  "NormalizeSlug name =
     (let s = to_lower (trim_space name);
          out = trim_chars (slug_chars False s) ''-'';
          out = (if length out > 32 then trim_chars (take 32 out) ''-'' else out)
      in if length out < 3 then ''box-'' @ out else out)"

definition ValidateSSHPublicKey :: "lib \<Rightarrow> string \<Rightarrow> string + string" where
  "ValidateSSHPublicKey l pub =
     (case l_ssh_key_type l (trim_space pub) of None \<Rightarrow> Inl ''ssh: no key found'' | Some t \<Rightarrow> Inr t)"

subsection \<open>Random identifiers\<close>

definition alphabet :: string where
  "alphabet = ''abcdefghijklmnopqrstuvwxyz0123456789''"

fun randomAlphabet :: "nat \<Rightarrow> rand \<Rightarrow> (string + string) \<times> rand" where
  "randomAlphabet 0 r = (Inr [], r)"
| "randomAlphabet (Suc n) r =
     (case r_draws r of [] \<Rightarrow> (Inl ''random source failed'', r)
      | d # ds \<Rightarrow>
        (case randomAlphabet n (r\<lparr>r_draws := ds\<rparr>) of
           (Inl e, r') \<Rightarrow> (Inl e, r')
         | (Inr s, r') \<Rightarrow> (Inr ((alphabet ! (d mod length alphabet)) # s), r')))"

definition RandomToken :: "string \<Rightarrow> int \<Rightarrow> rand \<Rightarrow> (string + string) \<times> rand" where
  "RandomToken prefix n r =
     (let n = (if n \<le> 0 then 24 else n)
      in case randomAlphabet (nat n) r of
           (Inl e, r') \<Rightarrow> (Inl e, r')
         | (Inr s, r') \<Rightarrow> (Inr (if prefix \<noteq> [] then prefix @ ''_'' @ s else s), r'))"

definition RandomID :: "string \<Rightarrow> rand \<Rightarrow> (string + string) \<times> rand" where
  "RandomID prefix = RandomToken prefix 6"

definition RandomShortID :: "rand \<Rightarrow> (string + string) \<times> rand" where
  "RandomShortID = randomAlphabet 8"

subsection \<open>Secrets\<close>

record argonParams =
  memory :: nat
  iterations :: nat
  parallelism :: nat
  saltLength :: nat
  keyLength :: nat

definition defaultArgon :: argonParams where
  "defaultArgon = \<lparr>memory = 64 * 1024, iterations = 3, parallelism = 2, saltLength = 16, keyLength = 32\<rparr>"

definition encode_secret :: "string \<Rightarrow> string \<Rightarrow> string" where
  "encode_secret salt hash =
     ''$argon2id$v=19$m='' @ show_nat (memory defaultArgon) @ '',t='' @ show_nat (iterations defaultArgon)
       @ '',p='' @ show_nat (parallelism defaultArgon) @ ''$'' @ b64_encode std_alphabet salt
       @ ''$'' @ b64_encode std_alphabet hash"

definition HashSecret :: "lib \<Rightarrow> string \<Rightarrow> rand \<Rightarrow> (string + string) \<times> rand" where
  "HashSecret l secret r =
     (if secret = [] then (Inl ''secret is empty'', r)
      else case r_salts r of [] \<Rightarrow> (Inl ''random source failed'', r)
      | bytes # rest \<Rightarrow>
        (let salt = take (saltLength defaultArgon) bytes;
             hash = l_argon2 l secret salt (iterations defaultArgon) (memory defaultArgon)
                      (parallelism defaultArgon) (keyLength defaultArgon)
         in (Inr (encode_secret salt hash), r\<lparr>r_salts := rest\<rparr>)))"

text \<open>\<open>fmt.Sscanf\<close> on the format \<open>m=%d,t=%d,p=%d\<close> with unsigned targets of given widths.\<close>

definition scan_uint :: "nat \<Rightarrow> string \<Rightarrow> (nat \<times> string) option" where
  "scan_uint bits s =
     (let s = dropWhile (\<lambda>c. c = CHR '' '' \<or> c = CHR 0x09) s; ds = takeWhile is_digit s
      in if ds = [] \<or> read_digits ds \<ge> 2 ^ bits then None
         else Some (read_digits ds, dropWhile is_digit s))"

definition scan_text :: "string \<Rightarrow> string \<Rightarrow> string option" where
  "scan_text p s = (if has_prefix s p then Some (drop (length p) s) else None)"

definition scan_params :: "string \<Rightarrow> (nat \<times> nat \<times> nat) option" where
  "scan_params s =
     (case scan_text ''m='' s of None \<Rightarrow> None | Some s1 \<Rightarrow>
     (case scan_uint 32 s1 of None \<Rightarrow> None | Some (m, s2) \<Rightarrow>
     (case scan_text '',t='' s2 of None \<Rightarrow> None | Some s3 \<Rightarrow>
     (case scan_uint 32 s3 of None \<Rightarrow> None | Some (t, s4) \<Rightarrow>
     (case scan_text '',p='' s4 of None \<Rightarrow> None | Some s5 \<Rightarrow>
     (case scan_uint 8 s5 of None \<Rightarrow> None | Some (p, _) \<Rightarrow> Some (m, t, p)))))))"

definition VerifySecret :: "lib \<Rightarrow> string \<Rightarrow> string \<Rightarrow> bool" where
  "VerifySecret l secret encoded =
     (if secret = [] \<or> encoded = [] then False
      else let parts = split_on (CHR ''$'') encoded
      in if length parts \<noteq> 6 \<or> parts ! 1 \<noteq> ''argon2id'' then False
      else case scan_params (parts ! 3) of None \<Rightarrow> False
      | Some (m, t, p) \<Rightarrow>
        (case b64_decode std_alphabet (parts ! 4) of None \<Rightarrow> False
         | Some salt \<Rightarrow>
           (case b64_decode std_alphabet (parts ! 5) of None \<Rightarrow> False
            | Some expected \<Rightarrow> l_argon2 l secret salt t m p (length expected) = expected)))"

subsection \<open>Admin tokens\<close>

definition SignJWT :: "lib \<Rightarrow> string \<Rightarrow> string \<Rightarrow> string \<Rightarrow> string \<Rightarrow> int \<Rightarrow> instant \<Rightarrow> string + string" where
  "SignJWT l secret userID username role ttl now =
     (if secret = [] then Inl ''jwt secret is empty''
      else if ttl \<le> 0 then Inl ''jwt ttl must be positive''
      else Inr (l_jwt_sign l secret
             \<lparr>c_user_id = userID, c_username = username, c_role = role, c_expires_at = Some (now + ttl)\<rparr> now))"

definition ParseJWT :: "lib \<Rightarrow> string \<Rightarrow> string \<Rightarrow> instant \<Rightarrow> string + claims" where
  "ParseJWT l secret token now =
     (case l_jwt_decode l token of None \<Rightarrow> Inl ''token is malformed''
      | Some (alg, claims) \<Rightarrow>
        if alg \<noteq> ''HS256'' then Inl (''unexpected signing method '' @ alg)
        else if \<not> l_jwt_verify l secret token now then Inl ''invalid token''
        else Inr claims)"

definition Fingerprint :: "lib \<Rightarrow> string \<Rightarrow> string" where
  "Fingerprint l s = take 16 (b64_encode url_alphabet (l_sha256 l s))"

definition TokenHash :: "lib \<Rightarrow> string \<Rightarrow> string" where
  "TokenHash l token = b64_encode url_alphabet (l_sha256 l token)"

subsection \<open>Facts: validation\<close>

definition valid_slug :: "string \<Rightarrow> bool" where
  "valid_slug s \<longleftrightarrow> 3 \<le> length s \<and> length s \<le> 32 \<and>
     (\<forall>c \<in> set s. is_slug_alnum c \<or> c = CHR ''-'') \<and> is_slug_alnum (hd s) \<and> is_slug_alnum (last s)"

lemma rx_match_one [simp]:
  "rx_match ((P, Suc 0, Some (Suc 0)) # rs) s = (case s of [] \<Rightarrow> False | c # r \<Rightarrow> P c \<and> rx_match rs r)"
  by (cases s) auto

lemma upt_Suc_list_ex: "list_ex f [lo ..< Suc hi] = (\<exists>k. lo \<le> k \<and> k \<le> hi \<and> f k)"
  by (auto simp: list_ex_iff simp del: upt_Suc)

lemma rx_match_range:
  "rx_match ((P, lo, Some (numeral w)) # rs) s =
   (\<exists>k. lo \<le> k \<and> k \<le> min (numeral w) (length s) \<and> list_all P (take k s) \<and> rx_match rs (drop k s))"
  by (simp only: rx_match.simps(2) option.case upt_Suc_list_ex)

lemma slug_match_iff: "rx_match slugRE s = valid_slug s"
proof (cases s)
  case Nil
  then show ?thesis by (simp add: slugRE_def valid_slug_def)
next
  case (Cons c r)
  let ?Q = "\<lambda>c. is_slug_alnum c \<or> c = CHR ''-''"
  have "rx_match slugRE s =
        (is_slug_alnum c \<and> (\<exists>k. 1 \<le> k \<and> k \<le> min 30 (length r) \<and> list_all ?Q (take k r) \<and>
           (case drop k r of [] \<Rightarrow> False | d # t \<Rightarrow> is_slug_alnum d \<and> t = [])))"
    unfolding slugRE_def One_nat_def using Cons
    by (simp only: rx_match_one list.case rx_match_range rx_match.simps(1))
  also have "\<dots> = valid_slug s"
  proof
    assume "is_slug_alnum c \<and> (\<exists>k. 1 \<le> k \<and> k \<le> min 30 (length r) \<and> list_all ?Q (take k r) \<and>
              (case drop k r of [] \<Rightarrow> False | d # t \<Rightarrow> is_slug_alnum d \<and> t = []))"
    then obtain k where k0: "is_slug_alnum c" "1 \<le> k" "k \<le> 30" "list_all ?Q (take k r)"
      "case drop k r of [] \<Rightarrow> False | d # t \<Rightarrow> is_slug_alnum d \<and> t = []" by auto
    then obtain d where k: "drop k r = [d]" "is_slug_alnum d" by (cases "drop k r") simp_all
    note k = k0(1-4) k
    then have r: "r = take k r @ [d]" by (metis append_take_drop_id)
    have lr: "length r = Suc k" using arg_cong [OF k(5), of length] by simp
    have "set r = set (take k r) \<union> {d}" by (subst r) auto
    moreover have "last r = d" "r \<noteq> []" by (subst r, simp)+
    ultimately show "valid_slug s" using k lr Cons by (auto simp: valid_slug_def list_all_iff)
  next
    assume v: "valid_slug s"
    then have r: "r \<noteq> []" "length r \<le> 31" "2 \<le> length r" using Cons by (auto simp: valid_slug_def)
    let ?k = "length r - 1"
    have "drop ?k r = [last r]" using r(1) by (metis append_butlast_last_id append_eq_conv_conj length_butlast)
    moreover have "is_slug_alnum c" "is_slug_alnum (last r)" using v r(1) Cons by (simp_all add: valid_slug_def)
    moreover have "list_all ?Q (take ?k r)" using v Cons by (auto simp: valid_slug_def list_all_iff dest: in_set_takeD)
    ultimately show "is_slug_alnum c \<and> (\<exists>k. 1 \<le> k \<and> k \<le> min 30 (length r) \<and> list_all ?Q (take k r) \<and>
              (case drop k r of [] \<Rightarrow> False | d # t \<Rightarrow> is_slug_alnum d \<and> t = []))"
      using r by (intro conjI exI [of _ ?k]) auto
  qed
  finally show ?thesis .
qed

lemma ValidateSlug_iff: "ValidateSlug s = None \<longleftrightarrow> valid_slug s"
  by (simp add: ValidateSlug_def slug_match_iff)

lemma is_slug_alnum_not_hyphen: "is_slug_alnum c \<Longrightarrow> c \<noteq> CHR ''-''"
  by (auto simp: is_slug_alnum_def is_lower_def is_digit_def)

lemma set_slug_chars: "set (slug_chars h s) \<subseteq> {c \<in> set s. is_slug_alnum c} \<union> {CHR ''-''}"
  by (induction h s rule: slug_chars.induct) auto

lemma slug_chars_alnum: "c \<in> set s \<Longrightarrow> is_slug_alnum c \<Longrightarrow> c \<in> set (slug_chars h s)"
  by (induction h s rule: slug_chars.induct) auto

lemma trim_chars_slug:
  assumes "\<forall>c \<in> set s. is_slug_alnum c \<or> c = CHR ''-''" "trim_chars s ''-'' \<noteq> []"
  shows "is_slug_alnum (hd (trim_chars s ''-''))" "is_slug_alnum (last (trim_chars s ''-''))"
    "\<forall>c \<in> set (trim_chars s ''-''). is_slug_alnum c \<or> c = CHR ''-''"
proof -
  let ?t = "trim_chars s ''-''"
  have sub: "set ?t \<subseteq> set s" unfolding trim_chars_def by (rule set_trim_of)
  then show "\<forall>c \<in> set ?t. is_slug_alnum c \<or> c = CHR ''-''" using assms(1) by blast
  have "hd ?t \<in> set s" "last ?t \<in> set s" using sub assms(2) by (auto intro: hd_in_set last_in_set)
  moreover have "hd ?t \<noteq> CHR ''-''" "last ?t \<noteq> CHR ''-''"
    using trim_of_hd [of "\<lambda>c. c \<in> set ''-''" s] trim_of_last [of "\<lambda>c. c \<in> set ''-''" s] assms(2)
    by (simp_all add: trim_chars_def)
  ultimately show "is_slug_alnum (hd ?t)" "is_slug_alnum (last ?t)" using assms(1) by auto
qed

text \<open>A name without a letter or digit normalises to \<open>box-\<close>, which is no valid slug.\<close>

lemma NormalizeSlug_cases:
  "if (\<exists>c \<in> set (to_lower (trim_space name)). is_slug_alnum c)
   then valid_slug (NormalizeSlug name) else NormalizeSlug name = ''box-''"
proof -
  define raw where "raw = slug_chars False (to_lower (trim_space name))"
  define t where "t = trim_chars raw ''-''"
  define u where "u = (if length t > 32 then trim_chars (take 32 t) ''-'' else t)"
  have N: "NormalizeSlug name = (if length u < 3 then ''box-'' @ u else u)"
    by (simp add: NormalizeSlug_def raw_def t_def u_def Let_def)
  have raw: "\<forall>c \<in> set raw. is_slug_alnum c \<or> c = CHR ''-''"
    using set_slug_chars unfolding raw_def by fastforce
  show ?thesis
  proof (cases "\<exists>c \<in> set (to_lower (trim_space name)). is_slug_alnum c")
    case True
    then obtain c where "c \<in> set raw" "is_slug_alnum c" unfolding raw_def using slug_chars_alnum by blast
    then have tn: "t \<noteq> []"
      using is_slug_alnum_not_hyphen by (auto simp: t_def trim_chars_def trim_of_Nil_iff)
    note T = trim_chars_slug [OF raw, folded t_def, OF tn]
    have "u \<noteq> [] \<and> length u \<le> 32 \<and> is_slug_alnum (hd u) \<and> is_slug_alnum (last u) \<and>
          (\<forall>c \<in> set u. is_slug_alnum c \<or> c = CHR ''-'')"
    proof (cases "length t > 32")
      case True
      have tk: "\<forall>c \<in> set (take 32 t). is_slug_alnum c \<or> c = CHR ''-''" using T(3) by (auto dest: in_set_takeD)
      have "hd t \<in> set (take 32 t)" using tn by (cases t) auto
      then have un: "trim_chars (take 32 t) ''-'' \<noteq> []"
        using T(1) is_slug_alnum_not_hyphen by (auto simp: trim_chars_def trim_of_Nil_iff)
      have "length (trim_chars (take 32 t) ''-'') \<le> 32"
        using length_trim_of [of _ "take 32 t"] unfolding trim_chars_def by (rule order_trans) simp
      then show ?thesis using un trim_chars_slug [OF tk un] True by (simp add: u_def)
    next
      case False
      then show ?thesis using T tn by (simp add: u_def)
    qed
    then have "valid_slug (NormalizeSlug name)"
      unfolding N by (auto simp: valid_slug_def is_slug_alnum_def is_lower_def) 
    with True show ?thesis by simp
  next
    case False
    then have "set raw \<subseteq> {CHR ''-''}" using set_slug_chars unfolding raw_def by fastforce
    then have "t = []" by (auto simp: t_def trim_chars_def trim_of_Nil_iff)
    then have "u = []" by (simp add: u_def)
    with False N show ?thesis by simp
  qed
qed

declare rx_match.simps(2) [simp del]

lemma randomAlphabet_ok:
  "randomAlphabet n r = (Inr s, r') \<Longrightarrow>
   length s = n \<and> (\<forall>c \<in> set s. is_slug_alnum c) \<and> r_salts r' = r_salts r
   \<and> r_draws r' = drop n (r_draws r) \<and> n \<le> length (r_draws r)"
proof (induction n arbitrary: r s)
  case (Suc n)
  then obtain d ds where d: "r_draws r = d # ds" by (auto split: list.splits)
  with Suc.prems obtain t where t: "randomAlphabet n (r\<lparr>r_draws := ds\<rparr>) = (Inr t, r')"
      "s = (alphabet ! (d mod length alphabet)) # t"
    by (auto split: prod.splits sum.splits)
  have "\<forall>i < length alphabet. is_slug_alnum (alphabet ! i)"
    by (auto simp: alphabet_def is_slug_alnum_def is_lower_def is_digit_def less_Suc_eq nth_Cons')
  moreover have "d mod length alphabet < length alphabet" by (simp add: alphabet_def)
  ultimately have "is_slug_alnum (alphabet ! (d mod length alphabet))" by blast
  with Suc.IH [OF t(1)] t(2) d show ?case by simp
qed simp

lemma randomAlphabet_total: "n \<le> length (r_draws r) \<Longrightarrow> \<exists>s r'. randomAlphabet n r = (Inr s, r')"
proof (induction n arbitrary: r)
  case (Suc n)
  then obtain d ds where d: "r_draws r = d # ds" by (cases "r_draws r") auto
  with Suc.prems have "n \<le> length (r_draws (r\<lparr>r_draws := ds\<rparr>))" by simp
  from Suc.IH [OF this] d show ?case by auto
qed simp

lemma rx_match_exactly_8:
  "rx_match [(is_slug_alnum, 8, Some 8)] t \<longleftrightarrow> length t = 8 \<and> (\<forall>c \<in> set t. is_slug_alnum c)"
  unfolding rx_match_range by (auto simp: list_all_iff)

lemma unix_user_match_iff:
  "rx_match unixUserRE s \<longleftrightarrow> (\<exists>t. s = ''rt-'' @ t \<and> length t = 8 \<and> (\<forall>c \<in> set t. is_slug_alnum c))"
  unfolding unixUserRE_def One_nat_def rx_match_one rx_match_exactly_8
  by (auto split: list.splits)

lemma RandomShortID_unix_user:
  "RandomShortID r = (Inr s, r') \<Longrightarrow> ValidateUnixUser (''rt-'' @ s) = None"
  using randomAlphabet_ok [of 8 r s r']
  by (simp add: RandomShortID_def ValidateUnixUser_def unix_user_match_iff)

lemma ssh_token_iff:
  "ValidateSSHConfigToken n s = None \<longleftrightarrow>
   s \<noteq> [] \<and> (\<forall>c \<in> set s. ssh_token_char c) \<and> hd s \<noteq> CHR ''-''"
proof -
  have tok: "\<not> ssh_token_char c" if "c \<in> set [CHR 0x0D, CHR 0x0A, CHR 0x09, CHR '' '']" for c
    using that by (auto simp: ssh_token_char_def is_upper_def is_lower_def is_digit_def bslash_def)
  have m: "rx_match sshConfigTokenRE s \<longleftrightarrow> s \<noteq> [] \<and> (\<forall>c \<in> set s. ssh_token_char c)"
  proof -
    have "rx_match sshConfigTokenRE s \<longleftrightarrow>
          (\<exists>k. 1 \<le> k \<and> k \<le> length s \<and> list_all ssh_token_char (take k s) \<and> drop k s = [])"
      by (simp only: sshConfigTokenRE_def rx_match.simps option.case upt_Suc_list_ex)
    also have "\<dots> \<longleftrightarrow> s \<noteq> [] \<and> list_all ssh_token_char s"
      by (cases "s = []") (auto simp: Suc_le_eq intro: exI [of _ "length s"])
    finally show ?thesis by (simp add: list_all_iff)
  qed
  have h: "has_prefix s ''-'' \<longleftrightarrow> s \<noteq> [] \<and> hd s = CHR ''-''"
    by (cases s) (auto simp: has_prefix_def)
  have n: "(\<forall>c \<in> set s. ssh_token_char c) \<Longrightarrow>
                 \<not> contains_any s [CHR 0x0D, CHR 0x0A, CHR 0x09, CHR '' '']"
    unfolding contains_any_def using tok by blast
  show ?thesis
    by (cases "s = []"; cases "\<forall>c \<in> set s. ssh_token_char c")
       (simp_all add: ValidateSSHConfigToken_def m h n)
qed

subsection \<open>Facts: secrets\<close>

text \<open>What the argon2 package documents: the derived key has the requested length.\<close>

definition argon2_key_length :: "lib \<Rightarrow> bool" where
  "argon2_key_length l \<longleftrightarrow> (\<forall>s salt t m p n. length (l_argon2 l s salt t m p n) = n)"

lemma encode_secret_parts:
  "split_on (CHR ''$'') (encode_secret salt hash) =
   [[], ''argon2id'', ''v=19'', ''m=65536,t=3,p=2'', b64_encode std_alphabet salt, b64_encode std_alphabet hash]"
proof -
  have n: "show_nat 65536 = ''65536''" "show_nat 3 = ''3''" "show_nat 2 = ''2''"
    by (simp_all add: show_nat.simps)
  have a: "CHR ''$'' \<notin> set (b64_encode std_alphabet x)" for x
    using b64_encode_chars [OF b64_alphabets(1), of x] by (auto simp: std_alphabet_def)
  have e: "encode_secret salt hash = join ''$'' [[], ''argon2id'', ''v=19'', ''m=65536,t=3,p=2'',
          b64_encode std_alphabet salt, b64_encode std_alphabet hash]"
    by (simp add: encode_secret_def defaultArgon_def n)
  show ?thesis unfolding e
    by (rule split_join) (use a in auto)
qed

lemma VerifySecret_encode:
  assumes "secret \<noteq> []"
  shows "VerifySecret l secret (encode_secret salt hash) \<longleftrightarrow>
         l_argon2 l secret salt 3 65536 2 (length hash) = hash"
proof -
  have p: "scan_params ''m=65536,t=3,p=2'' = Some (65536, 3, 2)"
    by (simp add: scan_params_def scan_text_def scan_uint_def has_prefix_def is_digit_def
        read_digits_def digit_val_def Let_def)
  have "encode_secret salt hash \<noteq> []" by (simp add: encode_secret_def)
  then show ?thesis using assms
    by (simp add: VerifySecret_def encode_secret_parts p b64_round_trip Let_def)
qed

lemma HashSecret_ok:
  "HashSecret l secret r = (Inr h, r') \<Longrightarrow>
   secret \<noteq> [] \<and> r_draws r' = r_draws r \<and>
   (\<exists>bytes. r_salts r = bytes # r_salts r' \<and>
      h = encode_secret (take 16 bytes) (l_argon2 l secret (take 16 bytes) 3 65536 2 32))"
  by (auto simp: HashSecret_def defaultArgon_def Let_def split: if_splits list.splits)

lemma encode_secret_ne [simp]: "encode_secret s h \<noteq> []"
  by (simp add: encode_secret_def)

lemma TokenHash_inj: "TokenHash l a = TokenHash l b \<Longrightarrow> l_sha256 l a = l_sha256 l b"
  unfolding TokenHash_def using b64_round_trip [OF b64_alphabets(2)] by (metis option.inject)

end
