(* ===== verification/Store.thy ===== *)
theory Store
  imports Models Security
begin

text \<open>
  \<open>db.go\<close>: the schema of the hub's SQLite database, its row types, the constraint-checked
  inserts and updates the operations use, and the data migrations.

  One record field per table, rows in insertion order. Columns that the structs of \<open>Models\<close>
  hold exactly (tunnels, hubs, observations, commands) reuse those records as rows, an empty
  text standing for \<open>NULL\<close> where the struct reads one as the empty text. Primary keys,
  \<open>UNIQUE\<close> constraints and foreign keys (enabled by the connection's pragma) are checked by the
  statements below; a violated one makes the statement fail without effect. Failures of the
  disk or of the driver are not modelled, nor are the texts of the driver's errors.
\<close>

subsection \<open>Rows\<close>

record machine_row =
  mr_id :: string
  mr_slug :: string
  mr_original_slug :: "string option"
  mr_display_name :: "string option"
  mr_target_user :: "string option"
  mr_owner_user_id :: "string option"
  mr_status :: string
  mr_desired_state :: "string option"
  mr_desired_generation :: "int option"
  mr_desired_changed_at :: "string option"
  mr_desired_changed_by :: "string option"
  mr_observed_state :: "string option"
  mr_update_policy :: "string option"
  mr_cleanup_state :: "string option"
  mr_mode :: "string option"
  mr_local_port :: int
  mr_persistence :: "string option"
  mr_distro :: "string option"
  mr_arch :: "string option"
  mr_provision_error :: "string option"
  mr_created_at :: string
  mr_updated_at :: "string option"
  mr_expires_at :: "string option"
  mr_disabled_at :: "string option"
  mr_retired_at :: "string option"
  mr_process_title_config :: "ProcessTitleConfig option"
  mr_agent_token_hash :: "string option"

record user_row =
  u_id :: string
  u_username :: string
  u_password_hash :: string
  u_role :: string
  u_created_at :: string

record access_key_row =
  k_id :: string
  k_user_id :: string
  k_label :: string
  k_public_key :: string
  k_kind :: string
  k_created_at :: string
  k_revoked_at :: "string option"

record grant_row =
  g_machine_id :: string
  g_user_id :: string
  g_role :: string
  g_expires_at :: "string option"

record request_row =
  q_id :: string
  q_name :: string
  q_client_secret_hash :: string
  q_status :: string
  q_invite_code_hash :: "string option"
  q_setup_token_hash :: "string option"
  q_setup_token_expires_at :: "string option"
  q_metadata :: "(string \<times> json) list option"
  q_created_at :: string
  q_expires_at :: string
  q_approved_at :: "string option"
  q_denied_at :: "string option"

record invite_row =
  i_code_hash :: string
  i_type :: string
  i_expires_at :: string
  i_used_by :: "string option"
  i_created_at :: string

record audit_row =
  a_action :: string
  a_actor :: string
  a_machine_id :: "string option"
  a_details :: "string option"
  a_created_at :: string

record agent_status_row =
  as_machine_id :: string
  as_agent_version :: string
  as_transport :: string
  as_transport_state :: string
  as_local_ssh_state :: string
  as_local_ssh_error :: "string option"
  as_tunnel_state :: string
  as_tunnel_pid :: "int option"
  as_tunnel_error :: "string option"
  as_last_error :: "string option"
  as_raw :: "AgentHeartbeat option"
  as_updated_at :: string

record event_row =
  e_id :: int
  e_type :: string
  e_machine_id :: "string option"
  e_payload :: "(string \<times> json) list"
  e_created_at :: string

record rate_limit_row =
  rl_bucket :: string
  rl_key :: string
  rl_count :: int
  rl_reset_at :: string
  rl_updated_at :: string

record jwt_blacklist_row =
  jb_token_hash :: string
  jb_expires_at :: string
  jb_created_at :: string

record service_token_row =
  sv_id :: string
  sv_label :: string
  sv_token_hash :: string
  sv_role :: string
  sv_created_by :: string
  sv_created_at :: string
  sv_last_used_at :: "string option"
  sv_revoked_at :: "string option"

record db =
  db_machines :: "machine_row list"
  db_hubs :: "Hub list"
  db_tunnels :: "Tunnel list"
  db_users :: "user_row list"
  db_access_keys :: "access_key_row list"
  db_grants :: "grant_row list"
  db_requests :: "request_row list"
  db_invites :: "invite_row list"
  db_audit :: "audit_row list"
  db_agent_status :: "agent_status_row list"
  db_agent_observations :: "AgentObservation list"
  db_hub_observations :: "HubObservation list"
  db_agent_commands :: "AgentCommandInfo list"
  db_events :: "event_row list"
  db_event_seq :: int  \<comment> \<open>\<open>AUTOINCREMENT\<close>: the largest event id ever used\<close>
  db_rate_limits :: "rate_limit_row list"
  db_jwt_blacklist :: "jwt_blacklist_row list"
  db_service_tokens :: "service_token_row list"

text \<open>\<open>db.SetMaxOpenConns(1)\<close> of \<open>OpenStore\<close>: one connection serves every statement.\<close>

definition max_open_conns :: nat where "max_open_conns = 1"

definition empty_db :: db where
  "empty_db = \<lparr>db_machines = [], db_hubs = [], db_tunnels = [], db_users = [], db_access_keys = [],
     db_grants = [], db_requests = [], db_invites = [], db_audit = [], db_agent_status = [],
     db_agent_observations = [], db_hub_observations = [], db_agent_commands = [], db_events = [],
     db_event_seq = 0, db_rate_limits = [], db_jwt_blacklist = [], db_service_tokens = []\<rparr>"

subsection \<open>Constraints\<close>

definition machine_clash :: "machine_row \<Rightarrow> machine_row \<Rightarrow> bool" where
  "machine_clash a b \<longleftrightarrow> mr_id a = mr_id b \<or> mr_slug a = mr_slug b"

definition tunnel_clash :: "Tunnel \<Rightarrow> Tunnel \<Rightarrow> bool" where
  "tunnel_clash a b \<longleftrightarrow> t_id a = t_id b
     \<or> (t_hub_id a = t_hub_id b \<and> (t_remote_port a = t_remote_port b \<or> t_unix_user a = t_unix_user b))"

definition machine_exists :: "db \<Rightarrow> string \<Rightarrow> bool" where
  "machine_exists d i \<longleftrightarrow> (\<exists>m \<in> set (db_machines d). mr_id m = i)"

definition hub_exists :: "db \<Rightarrow> string \<Rightarrow> bool" where
  "hub_exists d i \<longleftrightarrow> (\<exists>h \<in> set (db_hubs d). h_id h = i)"

definition user_exists :: "db \<Rightarrow> string \<Rightarrow> bool" where
  "user_exists d i \<longleftrightarrow> (\<exists>u \<in> set (db_users d). u_id u = i)"

definition insert_machine :: "machine_row \<Rightarrow> db \<Rightarrow> db option" where
  "insert_machine r d =
     map_option (\<lambda>t. d\<lparr>db_machines := t\<rparr>) (sql_insert machine_clash r (db_machines d))"

definition insert_tunnel :: "Tunnel \<Rightarrow> db \<Rightarrow> db option" where
  "insert_tunnel r d =
     (if machine_exists d (t_machine_id r) \<and> hub_exists d (t_hub_id r)
      then map_option (\<lambda>t. d\<lparr>db_tunnels := t\<rparr>) (sql_insert tunnel_clash r (db_tunnels d)) else None)"

definition insert_command :: "AgentCommandInfo \<Rightarrow> db \<Rightarrow> db option" where
  "insert_command r d =
     (if machine_exists d (ci_machine_id r)
      then map_option (\<lambda>t. d\<lparr>db_agent_commands := t\<rparr>)
             (sql_insert (\<lambda>a b. ci_id a = ci_id b) r (db_agent_commands d)) else None)"

definition insert_request :: "request_row \<Rightarrow> db \<Rightarrow> db option" where
  "insert_request r d =
     map_option (\<lambda>t. d\<lparr>db_requests := t\<rparr>) (sql_insert (\<lambda>a b. q_id a = q_id b) r (db_requests d))"

definition insert_user :: "user_row \<Rightarrow> db \<Rightarrow> db option" where
  "insert_user r d = map_option (\<lambda>t. d\<lparr>db_users := t\<rparr>)
     (sql_insert (\<lambda>a b. u_id a = u_id b \<or> u_username a = u_username b) r (db_users d))"

definition insert_access_key :: "access_key_row \<Rightarrow> db \<Rightarrow> db option" where
  "insert_access_key r d =
     (if user_exists d (k_user_id r)
      then map_option (\<lambda>t. d\<lparr>db_access_keys := t\<rparr>)
             (sql_insert (\<lambda>a b. k_id a = k_id b) r (db_access_keys d)) else None)"

text \<open>\<open>INSERT OR IGNORE INTO machine_grants\<close>; the caller ignores every failure.\<close>

definition insert_grant :: "grant_row \<Rightarrow> db \<Rightarrow> db" where
  "insert_grant r d =
     (if machine_exists d (g_machine_id r) \<and> user_exists d (g_user_id r)
         \<and> (\<forall>g \<in> set (db_grants d). \<not> (g_machine_id g = g_machine_id r \<and> g_user_id g = g_user_id r))
      then d\<lparr>db_grants := db_grants d @ [r]\<rparr> else d)"

definition insert_service_token :: "service_token_row \<Rightarrow> db \<Rightarrow> db option" where
  "insert_service_token r d = map_option (\<lambda>t. d\<lparr>db_service_tokens := t\<rparr>)
     (sql_insert (\<lambda>a b. sv_id a = sv_id b \<or> sv_token_hash a = sv_token_hash b) r (db_service_tokens d))"

text \<open>An \<open>UPDATE\<close> of key columns fails when two rows would share a key afterwards.\<close>

definition slugs_distinct :: "machine_row list \<Rightarrow> bool" where
  "slugs_distinct t \<longleftrightarrow> distinct (map mr_slug t)"

definition tunnel_keys_distinct :: "Tunnel list \<Rightarrow> bool" where
  "tunnel_keys_distinct t \<longleftrightarrow> distinct (map (\<lambda>r. (t_hub_id r, t_remote_port r)) t)
                              \<and> distinct (map (\<lambda>r. (t_hub_id r, t_unix_user r)) t)"

definition update_machines :: "(machine_row \<Rightarrow> bool) \<Rightarrow> (machine_row \<Rightarrow> machine_row) \<Rightarrow> db \<Rightarrow> db" where
  "update_machines p f d = d\<lparr>db_machines := sql_update p f (db_machines d)\<rparr>"

definition update_machine_keys ::
    "(machine_row \<Rightarrow> bool) \<Rightarrow> (machine_row \<Rightarrow> machine_row) \<Rightarrow> db \<Rightarrow> db option" where
  "update_machine_keys p f d =
     (let t = sql_update p f (db_machines d)
      in if slugs_distinct t then Some (d\<lparr>db_machines := t\<rparr>) else None)"

definition update_tunnels :: "(Tunnel \<Rightarrow> bool) \<Rightarrow> (Tunnel \<Rightarrow> Tunnel) \<Rightarrow> db \<Rightarrow> db" where
  "update_tunnels p f d = d\<lparr>db_tunnels := sql_update p f (db_tunnels d)\<rparr>"

definition update_tunnel_keys :: "(Tunnel \<Rightarrow> bool) \<Rightarrow> (Tunnel \<Rightarrow> Tunnel) \<Rightarrow> db \<Rightarrow> db option" where
  "update_tunnel_keys p f d =
     (let t = sql_update p f (db_tunnels d)
      in if tunnel_keys_distinct t then Some (d\<lparr>db_tunnels := t\<rparr>) else None)"

definition update_requests :: "(request_row \<Rightarrow> bool) \<Rightarrow> (request_row \<Rightarrow> request_row) \<Rightarrow> db \<Rightarrow> db" where
  "update_requests p f d = d\<lparr>db_requests := sql_update p f (db_requests d)\<rparr>"

definition update_commands ::
    "(AgentCommandInfo \<Rightarrow> bool) \<Rightarrow> (AgentCommandInfo \<Rightarrow> AgentCommandInfo) \<Rightarrow> db \<Rightarrow> db" where
  "update_commands p f d = d\<lparr>db_agent_commands := sql_update p f (db_agent_commands d)\<rparr>"

subsection \<open>Small functions\<close>

definition nowUTC :: "instant \<Rightarrow> string" where
  "nowUTC now = fmt now"

definition nullable :: "string \<Rightarrow> string option" where
  "nullable s = (if s = [] then None else Some s)"

text \<open>SQL's \<open>NULLIF(c, '')\<close> and \<open>COALESCE\<close>.\<close>

definition nullif_empty :: "string option \<Rightarrow> string option" where
  "nullif_empty c = (if c = Some [] then None else c)"

definition coalesce :: "'a option \<Rightarrow> 'a option \<Rightarrow> 'a option" where
  "coalesce a b = (case a of None \<Rightarrow> b | Some _ \<Rightarrow> a)"

definition null_string :: "string option \<Rightarrow> string" where
  "null_string c = (case c of None \<Rightarrow> [] | Some s \<Rightarrow> s)"

definition Audit :: "string \<Rightarrow> string \<Rightarrow> string \<Rightarrow> string \<Rightarrow> instant \<Rightarrow> db \<Rightarrow> db" where
  "Audit action actor machineID details now d =
     d\<lparr>db_audit := db_audit d @ [\<lparr>a_action = action, a_actor = actor, a_machine_id = nullable machineID,
                                 a_details = nullable details, a_created_at = nowUTC now\<rparr>]\<rparr>"

definition non_empty_or :: "string option \<Rightarrow> string \<Rightarrow> string" where
  "non_empty_or c dflt = (if null_string c = [] then dflt else null_string c)"

definition scanMachine :: "machine_row \<Rightarrow> Machine" where
  "scanMachine r =
     \<lparr>m_id = mr_id r, m_slug = mr_slug r, m_original_slug = mr_original_slug r,
      m_display_name = mr_display_name r, m_target_user = mr_target_user r,
      m_owner_user_id = mr_owner_user_id r, m_status = mr_status r,
      m_desired_state = non_empty_or (mr_desired_state r) DesiredActive,
      m_observed_state = non_empty_or (mr_observed_state r) ObservedUnknown,
      m_desired_generation = (case mr_desired_generation r of None \<Rightarrow> 1 | Some g \<Rightarrow> if g = 0 then 1 else g),
      m_update_policy = non_empty_or (mr_update_policy r) ''manual'',
      m_desired_changed_at = mr_desired_changed_at r, m_desired_changed_by = mr_desired_changed_by r,
      m_cleanup_state = mr_cleanup_state r, m_mode = mr_mode r, m_local_port = mr_local_port r,
      m_persistence = mr_persistence r, m_distro = mr_distro r, m_arch = mr_arch r,
      m_provision_error = mr_provision_error r, m_created_at = mr_created_at r,
      m_updated_at = mr_updated_at r, m_expires_at = mr_expires_at r,
      m_disabled_at = mr_disabled_at r, m_retired_at = mr_retired_at r,
      m_process_title_config = mr_process_title_config r\<rparr>"

subsection \<open>Slugs of retired machines\<close>

definition retired_base :: "string \<Rightarrow> string" where
  "retired_base original =
     (let base = NormalizeSlug original;
          base = (if length base > 32 - (length ''--retired-'' + 8)
                  then trim_chars (take (32 - (length ''--retired-'' + 8)) base) ''-'' else base)
      in if length base < 3 then ''box'' else base)"

definition slug_taken :: "machine_row list \<Rightarrow> string \<Rightarrow> string \<Rightarrow> bool" where
  "slug_taken t slug machineID \<longleftrightarrow> (\<exists>m \<in> set t. mr_slug m = slug \<and> mr_id m \<noteq> machineID)"

text \<open>The loop both copies of \<open>retiredSlug\<close> run; \<open>ok\<close> is the extra check of one of them.\<close>

fun retired_slug_loop ::
    "(string \<Rightarrow> bool) \<Rightarrow> nat \<Rightarrow> string \<Rightarrow> string \<Rightarrow> machine_row list \<Rightarrow> rand \<Rightarrow> (string + string) \<times> rand" where
  "retired_slug_loop ok 0 base i t r = (Inl ''could not generate retired slug'', r)"
| "retired_slug_loop ok (Suc n) base i t r =
     (case RandomShortID r of
        (Inl e, r') \<Rightarrow> (Inl e, r')
      | (Inr short, r') \<Rightarrow>
          (let candidate = base @ ''--retired-'' @ short
           in if \<not> ok candidate then retired_slug_loop ok n base i t r'
              else if slug_taken t candidate i then retired_slug_loop ok n base i t r'
              else (Inr candidate, r')))"

definition store_retiredSlug :: "string \<Rightarrow> string \<Rightarrow> db \<Rightarrow> rand \<Rightarrow> (string + string) \<times> rand" where
  "store_retiredSlug original machineID d r =
     retired_slug_loop (\<lambda>_. True) 20 (retired_base original) machineID (db_machines d) r"

subsection \<open>Migrations\<close>

definition machine_retired :: "machine_row \<Rightarrow> bool" where
  "machine_retired m \<longleftrightarrow> mr_desired_state m = Some ''retired'' \<or> mr_status m = ''retired''"

fun release_slugs :: "(string \<times> string \<times> string) list \<Rightarrow> db \<times> rand \<Rightarrow> string option \<times> db \<times> rand" where
  "release_slugs [] (d, r) = (None, d, r)"
| "release_slugs ((i, slug, original) # rows) (d, r) =
     (if contains slug ''--retired-'' then release_slugs rows (d, r)
      else case store_retiredSlug original i d r of
        (Inl e, r') \<Rightarrow> (Some e, d, r')
      | (Inr next, r') \<Rightarrow>
          (case update_machine_keys (\<lambda>m. mr_id m = i)
                  (\<lambda>m. m\<lparr>mr_slug := next, mr_original_slug := Some original\<rparr>) d of
             None \<Rightarrow> (Some ''UNIQUE constraint failed'', d, r')
           | Some d' \<Rightarrow> release_slugs rows (d', r')))"

definition releaseRetiredSlugs :: "db \<times> rand \<Rightarrow> string option \<times> db \<times> rand" where
  "releaseRetiredSlugs dr =
     release_slugs
       (map (\<lambda>m. (mr_id m, mr_slug m, null_string (coalesce (nullif_empty (mr_original_slug m)) (Some (mr_slug m)))))
            (filter machine_retired (db_machines (fst dr)))) dr"

definition min_negative_port :: "string \<Rightarrow> Tunnel list \<Rightarrow> int option" where
  "min_negative_port hub t =
     (let ps = map t_remote_port (filter (\<lambda>x. t_hub_id x = hub \<and> t_remote_port x < 0) t)
      in if ps = [] then None else Some (foldr min ps (hd ps)))"

definition retired_port :: "string \<Rightarrow> int \<Rightarrow> Tunnel list \<Rightarrow> int" where
  "retired_port hub port t =
     (if port > 0 then (case min_negative_port hub t of None \<Rightarrow> - 1 | Some m \<Rightarrow> m - 1) else port)"

definition retired_user :: "string \<Rightarrow> string \<Rightarrow> string" where
  "retired_user user i = (if \<not> has_prefix user ''retired-'' then ''retired-'' @ i else user)"

fun release_tunnels :: "Tunnel list \<Rightarrow> db \<Rightarrow> string option \<times> db" where
  "release_tunnels [] d = (None, d)"
| "release_tunnels (t # ts) d =
     (let newUser = retired_user (t_unix_user t) (t_id t);
          newPort = retired_port (t_hub_id t) (t_remote_port t) (db_tunnels d)
      in if newUser \<noteq> t_unix_user t \<or> newPort \<noteq> t_remote_port t
         then (case update_tunnel_keys (\<lambda>x. t_id x = t_id t)
                      (\<lambda>x. x\<lparr>t_unix_user := newUser, t_remote_port := newPort\<rparr>) d of
                 None \<Rightarrow> (Some ''UNIQUE constraint failed'', d)
               | Some d' \<Rightarrow> release_tunnels ts d')
         else release_tunnels ts d)"

definition releaseRetiredTunnels :: "db \<Rightarrow> string option \<times> db" where
  "releaseRetiredTunnels d =
     (let d1 = update_tunnels (\<lambda>t. nullif_empty (t_original_unix_user t) = None)
                 (\<lambda>t. t\<lparr>t_original_unix_user := Some (t_unix_user t)\<rparr>) d;
          d2 = update_tunnels (\<lambda>t. t_original_remote_port t = None \<or> t_original_remote_port t = Some 0)
                 (\<lambda>t. t\<lparr>t_original_remote_port := Some (t_remote_port t)\<rparr>) d1
      in release_tunnels (filter (\<lambda>t. t_status t = ''retired'') (db_tunnels d2)) d2)"

text \<open>The four \<open>UPDATE\<close>s that fill columns older versions of the schema lack.\<close>

definition fill_machine_columns :: "db \<Rightarrow> db" where
  "fill_machine_columns d =
     (let d1 = update_machines (\<lambda>m. nullif_empty (mr_original_slug m) = None)
                 (\<lambda>m. m\<lparr>mr_original_slug := Some (mr_slug m)\<rparr>) d;
          d2 = update_machines (\<lambda>m. nullif_empty (mr_desired_state m) = None)
                 (\<lambda>m. m\<lparr>mr_desired_state := Some (if mr_status m = ''disabled'' then ''disabled''
                                else if mr_status m = ''retired'' then ''retired''
                                else null_string (coalesce (nullif_empty (mr_desired_state m)) (Some ''active'')))\<rparr>) d1;
          d3 = update_machines (\<lambda>m. nullif_empty (mr_observed_state m) = None)
                 (\<lambda>m. m\<lparr>mr_observed_state := Some (if mr_status m = ''active'' then ''online''
                                else if mr_status m = ''offline'' then ''offline''
                                else null_string (coalesce (nullif_empty (mr_observed_state m)) (Some ''unknown'')))\<rparr>) d2
      in update_machines (\<lambda>m. nullif_empty (mr_update_policy m) = None)
           (\<lambda>m. m\<lparr>mr_update_policy := Some ''manual''\<rparr>) d3)"

fun seed_keys :: "lib \<Rightarrow> string \<Rightarrow> string \<Rightarrow> InitialKey list \<Rightarrow> db \<times> rand \<Rightarrow> string option \<times> db \<times> rand" where
  "seed_keys l uid now [] (d, r) = (None, d, r)"
| "seed_keys l uid now (k # ks) (d, r) =
     (case ValidateSSHPublicKey l (ik_public_key k) of
        Inl e \<Rightarrow> (Some (''invalid initial admin public key '' @ go_quote (ik_label k) @ '': '' @ e), d, r)
      | Inr kind \<Rightarrow>
        (case RandomID ''ak'' r of
           (Inl e, r') \<Rightarrow> (Some e, d, r')
         | (Inr kid, r') \<Rightarrow>
           (case insert_access_key \<lparr>k_id = kid, k_user_id = uid, k_label = ik_label k,
                    k_public_key = ik_public_key k, k_kind = kind, k_created_at = now, k_revoked_at = None\<rparr> d of
              None \<Rightarrow> (Some ''UNIQUE constraint failed'', d, r')
            | Some d' \<Rightarrow> seed_keys l uid now ks (d', r'))))"

definition seed_hub :: "HubConfig \<Rightarrow> string \<Rightarrow> db \<Rightarrow> db" where
  "seed_hub h now d =
     (if hub_exists d (hc_id h) then d
      else d\<lparr>db_hubs := db_hubs d @ [\<lparr>h_id = hc_id h, h_name = hc_name h, h_public_host = hc_public_host h,
                 h_ssh_port = hc_ssh_port h, h_proxyjump_alias = hc_proxyjump_alias h, h_api_url = hc_api_url h,
                 h_port_start = hc_port_start h, h_port_end = hc_port_end h, h_status = ''active'',
                 h_created_at = now\<rparr>]\<rparr>)"

definition seed :: "lib \<Rightarrow> Config \<Rightarrow> instant \<Rightarrow> db \<times> rand \<Rightarrow> string option \<times> db \<times> rand" where
  "seed l cfg now dr =
     (let now = nowUTC now; d1 = seed_hub (cfg_default_hub cfg) now (fst dr); ia = cfg_initial_admin cfg
      in if db_users d1 \<noteq> [] then (None, d1, snd dr)
         else if ia_password_hash ia = []
         then (Some ''initial_admin.password_hash is required when creating the first user'', d1, snd dr)
         else case RandomID ''u'' (snd dr) of
           (Inl e, r') \<Rightarrow> (Some e, d1, r')
         | (Inr uid, r') \<Rightarrow>
           (case insert_user \<lparr>u_id = uid, u_username = ia_username ia, u_password_hash = ia_password_hash ia,
                              u_role = ''owner'', u_created_at = now\<rparr> d1 of
              None \<Rightarrow> (Some ''UNIQUE constraint failed'', d1, r')
            | Some d2 \<Rightarrow> seed_keys l uid now (ia_public_keys ia) (d2, r')))"

definition Migrate :: "lib \<Rightarrow> Config \<Rightarrow> instant \<Rightarrow> db \<times> rand \<Rightarrow> string option \<times> db \<times> rand" where
  "Migrate l cfg now dr =
     (case releaseRetiredSlugs (fill_machine_columns (fst dr), snd dr) of
        (Some e, d, r) \<Rightarrow> (Some e, d, r)
      | (None, d, r) \<Rightarrow>
          (case releaseRetiredTunnels d of
             (Some e, d') \<Rightarrow> (Some e, d', r)
           | (None, d') \<Rightarrow> seed l cfg now (d', r)))"

end
