(* ===== verification/StoreFacts.thy ===== *)
theory StoreFacts
  imports Store
begin

text \<open>
  Facts on \<open>Store\<close>: the integrity invariant \<open>db_wf\<close> (keys are unique, references resolve, event
  ids increase) and that each statement keeps it; a generated slug of a retired machine is
  always a valid slug that no other machine has, so the extra check in one copy of
  \<open>retiredSlug\<close> never fires.
\<close>

named_theorems wf_intros \<open>statements that keep the integrity invariant\<close>

subsection \<open>Integrity\<close>

definition machines_wf :: "db \<Rightarrow> bool" where
  "machines_wf d \<longleftrightarrow> distinct (map mr_id (db_machines d)) \<and> distinct (map mr_slug (db_machines d))"

definition tunnels_wf :: "db \<Rightarrow> bool" where
  "tunnels_wf d \<longleftrightarrow> distinct (map t_id (db_tunnels d)) \<and> tunnel_keys_distinct (db_tunnels d) \<and>
     t_machine_id ` set (db_tunnels d) \<subseteq> mr_id ` set (db_machines d) \<and>
     t_hub_id ` set (db_tunnels d) \<subseteq> h_id ` set (db_hubs d)"

definition commands_wf :: "db \<Rightarrow> bool" where
  "commands_wf d \<longleftrightarrow> distinct (map ci_id (db_agent_commands d)) \<and>
     ci_machine_id ` set (db_agent_commands d) \<subseteq> mr_id ` set (db_machines d)"

definition users_wf :: "db \<Rightarrow> bool" where
  "users_wf d \<longleftrightarrow> distinct (map u_id (db_users d)) \<and> distinct (map u_username (db_users d)) \<and>
     distinct (map k_id (db_access_keys d)) \<and>
     k_user_id ` set (db_access_keys d) \<subseteq> u_id ` set (db_users d) \<and>
     distinct (map (\<lambda>g. (g_machine_id g, g_user_id g)) (db_grants d)) \<and>
     g_machine_id ` set (db_grants d) \<subseteq> mr_id ` set (db_machines d) \<and>
     g_user_id ` set (db_grants d) \<subseteq> u_id ` set (db_users d)"

definition requests_wf :: "db \<Rightarrow> bool" where
  "requests_wf d \<longleftrightarrow> distinct (map q_id (db_requests d))"

definition tokens_wf :: "db \<Rightarrow> bool" where
  "tokens_wf d \<longleftrightarrow> distinct (map sv_id (db_service_tokens d)) \<and>
     distinct (map sv_token_hash (db_service_tokens d)) \<and>
     distinct (map jb_token_hash (db_jwt_blacklist d))"

definition observations_wf :: "db \<Rightarrow> bool" where
  "observations_wf d \<longleftrightarrow> distinct (map ao_machine_id (db_agent_observations d)) \<and>
     distinct (map as_machine_id (db_agent_status d)) \<and>
     distinct (map ho_tunnel_id (db_hub_observations d))"

definition events_wf :: "db \<Rightarrow> bool" where
  "events_wf d \<longleftrightarrow> sorted_wrt (<) (map e_id (db_events d)) \<and>
     (\<forall>e \<in> set (db_events d). 0 < e_id e \<and> e_id e \<le> db_event_seq d) \<and> 0 \<le> db_event_seq d"

definition db_wf :: "db \<Rightarrow> bool" where
  "db_wf d \<longleftrightarrow> machines_wf d \<and> tunnels_wf d \<and> commands_wf d \<and> users_wf d \<and> requests_wf d
     \<and> tokens_wf d \<and> observations_wf d \<and> events_wf d"

lemmas wf_defs = db_wf_def machines_wf_def tunnels_wf_def commands_wf_def users_wf_def
  requests_wf_def tokens_wf_def observations_wf_def events_wf_def tunnel_keys_distinct_def

lemma empty_db_wf [wf_intros]: "db_wf empty_db"
  by (simp add: wf_defs empty_db_def)

lemma exists_image:
  "machine_exists d i \<longleftrightarrow> i \<in> mr_id ` set (db_machines d)"
  "hub_exists d i \<longleftrightarrow> i \<in> h_id ` set (db_hubs d)"
  "user_exists d i \<longleftrightarrow> i \<in> u_id ` set (db_users d)"
  by (auto simp: machine_exists_def hub_exists_def user_exists_def)

lemma image_sql_update:
  "(\<And>r. k (f r) = k r) \<Longrightarrow> k ` set (sql_update p f t) = k ` set t"
  by (metis list.set_map sql_update_key)

lemma insert_machine_Some:
  "insert_machine r d = Some d' \<longleftrightarrow>
   (\<forall>m \<in> set (db_machines d). mr_id m \<noteq> mr_id r \<and> mr_slug m \<noteq> mr_slug r)
   \<and> d' = d\<lparr>db_machines := db_machines d @ [r]\<rparr>"
  by (auto simp: insert_machine_def sql_insert_Some machine_clash_def)

lemma insert_tunnel_Some:
  "insert_tunnel r d = Some d' \<longleftrightarrow>
   machine_exists d (t_machine_id r) \<and> hub_exists d (t_hub_id r) \<and>
   (\<forall>t \<in> set (db_tunnels d). \<not> tunnel_clash t r) \<and> d' = d\<lparr>db_tunnels := db_tunnels d @ [r]\<rparr>"
  by (auto simp: insert_tunnel_def sql_insert_Some)

lemma insert_command_Some:
  "insert_command r d = Some d' \<longleftrightarrow>
   machine_exists d (ci_machine_id r) \<and> (\<forall>c \<in> set (db_agent_commands d). ci_id c \<noteq> ci_id r)
   \<and> d' = d\<lparr>db_agent_commands := db_agent_commands d @ [r]\<rparr>"
  by (auto simp: insert_command_def sql_insert_Some)

lemma insert_request_Some:
  "insert_request r d = Some d' \<longleftrightarrow>
   (\<forall>q \<in> set (db_requests d). q_id q \<noteq> q_id r) \<and> d' = d\<lparr>db_requests := db_requests d @ [r]\<rparr>"
  by (auto simp: insert_request_def sql_insert_Some)

lemma insert_user_Some:
  "insert_user r d = Some d' \<longleftrightarrow>
   (\<forall>u \<in> set (db_users d). u_id u \<noteq> u_id r \<and> u_username u \<noteq> u_username r)
   \<and> d' = d\<lparr>db_users := db_users d @ [r]\<rparr>"
  by (auto simp: insert_user_def sql_insert_Some)

lemma insert_access_key_Some:
  "insert_access_key r d = Some d' \<longleftrightarrow>
   user_exists d (k_user_id r) \<and> (\<forall>k \<in> set (db_access_keys d). k_id k \<noteq> k_id r)
   \<and> d' = d\<lparr>db_access_keys := db_access_keys d @ [r]\<rparr>"
  by (auto simp: insert_access_key_def sql_insert_Some)

lemma insert_service_token_Some:
  "insert_service_token r d = Some d' \<longleftrightarrow>
   (\<forall>s \<in> set (db_service_tokens d). sv_id s \<noteq> sv_id r \<and> sv_token_hash s \<noteq> sv_token_hash r)
   \<and> d' = d\<lparr>db_service_tokens := db_service_tokens d @ [r]\<rparr>"
  by (auto simp: insert_service_token_def sql_insert_Some)

lemmas insert_Some = insert_user_Some insert_access_key_Some insert_service_token_Some insert_machine_Some insert_tunnel_Some insert_command_Some insert_request_Some

lemma key_fresh: "(\<forall>x \<in> set t. k x \<noteq> k r) \<longleftrightarrow> k r \<notin> k ` set t"
  by (auto simp: image_iff)

lemmas insert_rules = wf_defs exists_image subset_insertI2 key_fresh

lemma insert_machine_wf [wf_intros]: "insert_machine r d = Some d' \<Longrightarrow> db_wf d \<Longrightarrow> db_wf d'"
  by (simp add: insert_machine_Some insert_rules ball_conj_distrib)

lemma tunnel_clash_keys:
  "(\<forall>t \<in> set ts. \<not> tunnel_clash t r) \<longleftrightarrow> t_id r \<notin> t_id ` set ts \<and>
     (t_hub_id r, t_remote_port r) \<notin> (\<lambda>t. (t_hub_id t, t_remote_port t)) ` set ts \<and>
     (t_hub_id r, t_unix_user r) \<notin> (\<lambda>t. (t_hub_id t, t_unix_user t)) ` set ts"
  by (auto simp: tunnel_clash_def image_iff)

lemma insert_tunnel_wf [wf_intros]: "insert_tunnel r d = Some d' \<Longrightarrow> db_wf d \<Longrightarrow> db_wf d'"
  by (simp add: insert_tunnel_Some insert_rules tunnel_clash_keys)

lemma insert_command_wf [wf_intros]: "insert_command r d = Some d' \<Longrightarrow> db_wf d \<Longrightarrow> db_wf d'"
  by (simp add: insert_command_Some insert_rules)

lemma insert_request_wf [wf_intros]: "insert_request r d = Some d' \<Longrightarrow> db_wf d \<Longrightarrow> db_wf d'"
  by (simp add: insert_request_Some insert_rules)

lemma insert_user_wf [wf_intros]: "insert_user r d = Some d' \<Longrightarrow> db_wf d \<Longrightarrow> db_wf d'"
  by (simp add: insert_user_Some insert_rules ball_conj_distrib)

lemma insert_access_key_wf [wf_intros]: "insert_access_key r d = Some d' \<Longrightarrow> db_wf d \<Longrightarrow> db_wf d'"
  by (simp add: insert_access_key_Some insert_rules)

lemma grant_fresh:
  "(\<forall>g \<in> set gs. g_machine_id g = a \<longrightarrow> g_user_id g \<noteq> b) \<Longrightarrow>
   (a, b) \<notin> (\<lambda>g. (g_machine_id g, g_user_id g)) ` set gs"
  by auto

lemma insert_grant_wf [wf_intros]: "db_wf d \<Longrightarrow> db_wf (insert_grant r d)"
  by (simp add: insert_grant_def insert_rules grant_fresh)

lemma insert_service_token_wf [wf_intros]:
  "insert_service_token r d = Some d' \<Longrightarrow> db_wf d \<Longrightarrow> db_wf d'"
  by (simp add: insert_service_token_Some insert_rules ball_conj_distrib)

lemma Audit_wf [wf_intros]: "db_wf d \<Longrightarrow> db_wf (Audit a b c e now d)"
  by (simp add: Audit_def wf_defs exists_image)

subsection \<open>Updates\<close>

lemma update_machines_wf [wf_intros]:
  "(\<And>m. mr_id (f m) = mr_id m) \<Longrightarrow> (\<And>m. mr_slug (f m) = mr_slug m) \<Longrightarrow> db_wf d \<Longrightarrow>
   db_wf (update_machines p f d)"
  by (simp add: update_machines_def wf_defs sql_update_key image_sql_update)

lemma update_machine_keys_Some:
  "update_machine_keys p f d = Some d' \<longleftrightarrow>
   slugs_distinct (sql_update p f (db_machines d)) \<and> d' = update_machines p f d"
  by (auto simp: update_machine_keys_def update_machines_def Let_def)

lemma update_tunnel_keys_Some:
  "update_tunnel_keys p f d = Some d' \<longleftrightarrow>
   tunnel_keys_distinct (sql_update p f (db_tunnels d)) \<and> d' = update_tunnels p f d"
  by (auto simp: update_tunnel_keys_def update_tunnels_def Let_def)

lemma update_machine_keys_wf [wf_intros]:
  "update_machine_keys p f d = Some d' \<Longrightarrow> (\<And>m. mr_id (f m) = mr_id m) \<Longrightarrow> db_wf d \<Longrightarrow> db_wf d'"
  by (simp add: update_machine_keys_Some update_machines_def wf_defs sql_update_key image_sql_update
      slugs_distinct_def)

lemma update_tunnels_wf [wf_intros]:
  "(\<And>t. t_id (f t) = t_id t) \<Longrightarrow> (\<And>t. t_machine_id (f t) = t_machine_id t) \<Longrightarrow>
   (\<And>t. t_hub_id (f t) = t_hub_id t) \<Longrightarrow> (\<And>t. t_remote_port (f t) = t_remote_port t) \<Longrightarrow>
   (\<And>t. t_unix_user (f t) = t_unix_user t) \<Longrightarrow> db_wf d \<Longrightarrow> db_wf (update_tunnels p f d)"
  by (simp add: update_tunnels_def wf_defs sql_update_key image_sql_update)

lemma update_tunnel_keys_wf [wf_intros]:
  "update_tunnel_keys p f d = Some d' \<Longrightarrow> (\<And>t. t_id (f t) = t_id t) \<Longrightarrow>
   (\<And>t. t_machine_id (f t) = t_machine_id t) \<Longrightarrow> (\<And>t. t_hub_id (f t) = t_hub_id t) \<Longrightarrow>
   db_wf d \<Longrightarrow> db_wf d'"
  by (simp add: update_tunnel_keys_Some update_tunnels_def wf_defs sql_update_key image_sql_update)

lemma update_requests_wf [wf_intros]:
  "(\<And>q. q_id (f q) = q_id q) \<Longrightarrow> db_wf d \<Longrightarrow> db_wf (update_requests p f d)"
  by (simp add: update_requests_def wf_defs sql_update_key exists_image)

lemma update_commands_wf [wf_intros]:
  "(\<And>c. ci_id (f c) = ci_id c) \<Longrightarrow> (\<And>c. ci_machine_id (f c) = ci_machine_id c) \<Longrightarrow> db_wf d \<Longrightarrow>
   db_wf (update_commands p f d)"
  by (simp add: update_commands_def wf_defs sql_update_key image_sql_update)

subsection \<open>Slugs of retired machines\<close>

lemma NormalizeSlug_class: "\<forall>c \<in> set (NormalizeSlug n). is_slug_alnum c \<or> c = CHR ''-''"
  using NormalizeSlug_cases [of n]
  by (auto simp: valid_slug_def is_slug_alnum_def is_lower_def split: if_splits)

lemma NormalizeSlug_hd: "NormalizeSlug n \<noteq> [] \<and> is_slug_alnum (hd (NormalizeSlug n))"
  using NormalizeSlug_cases [of n]
  by (auto simp: valid_slug_def is_slug_alnum_def is_lower_def split: if_splits)

lemma retired_base_props:
  "3 \<le> length (retired_base o1)" "length (retired_base o1) \<le> 14"
  "\<forall>c \<in> set (retired_base o1). is_slug_alnum c \<or> c = CHR ''-''" "is_slug_alnum (hd (retired_base o1))"
proof -
  define u where "u = (if length (NormalizeSlug o1) > 14 then trim_chars (take 14 (NormalizeSlug o1)) ''-''
                       else NormalizeSlug o1)"
  have b: "retired_base o1 = (if length u < 3 then ''box'' else u)"
    by (simp add: retired_base_def Let_def u_def)
  have tk: "\<forall>c \<in> set (take 14 (NormalizeSlug o1)). is_slug_alnum c \<or> c = CHR ''-''"
    using NormalizeSlug_class [of o1] by (auto dest: in_set_takeD)
  have "set (trim_chars (take 14 (NormalizeSlug o1)) ''-'') \<subseteq> set (take 14 (NormalizeSlug o1))"
    unfolding trim_chars_def by (rule set_trim_of)
  then have cls: "\<forall>c \<in> set u. is_slug_alnum c \<or> c = CHR ''-''"
    using tk NormalizeSlug_class [of o1] unfolding u_def by auto
  have len: "length u \<le> 14"
    using length_trim_of [of _ "take 14 (NormalizeSlug o1)"]
    unfolding u_def trim_chars_def by (auto intro: order_trans)
  have hd: "u \<noteq> [] \<Longrightarrow> is_slug_alnum (hd u)"
    using trim_chars_slug(1) [OF tk] NormalizeSlug_hd [of o1] by (auto simp: u_def)
  have box: "is_slug_alnum (CHR ''b'')" "is_slug_alnum (CHR ''o'')" "is_slug_alnum (CHR ''x'')"
    by (simp_all add: is_slug_alnum_def is_lower_def)
  show "3 \<le> length (retired_base o1)" "length (retired_base o1) \<le> 14" using len by (simp_all add: b)
  show "\<forall>c \<in> set (retired_base o1). is_slug_alnum c \<or> c = CHR ''-''" using cls box by (simp add: b)
  show "is_slug_alnum (hd (retired_base o1))" using hd box by (cases "u = []") (simp_all add: b)
qed

lemma retired_candidate_valid:
  assumes "RandomShortID r = (Inr s, r')"
  shows "valid_slug (retired_base o1 @ ''--retired-'' @ s)"
proof -
  note s = randomAlphabet_ok [OF assms [unfolded RandomShortID_def]]
  note b = retired_base_props [of o1]
  have r: "\<forall>c \<in> set ''--retired-''. is_slug_alnum c \<or> c = CHR ''-''"
    by (simp add: is_slug_alnum_def is_lower_def)
  have "s \<noteq> []" "last s \<in> set s" using s by (auto intro: last_in_set)
  moreover have "retired_base o1 \<noteq> []" using b(1) by auto
  ultimately show ?thesis using s b r by (auto simp: valid_slug_def)
qed

lemma retired_slug_loop_ok:
  "retired_slug_loop ok n (retired_base o1) i t r = (Inr c, r') \<Longrightarrow>
   ok c \<and> valid_slug c \<and> contains c ''--retired-'' \<and> \<not> slug_taken t c i"
proof (induction n arbitrary: r)
  case (Suc n)
  then obtain s r1 where s: "RandomShortID r = (Inr s, r1)"
    by (auto split: prod.splits sum.splits)
  with Suc show ?case
    using retired_candidate_valid [OF s, of o1] contains_infix [of "retired_base o1" "''--retired-''" s]
    by (auto simp: Let_def split: if_splits)
qed simp

text \<open>The two copies of \<open>retiredSlug\<close> agree: the validity check of the second never fails.\<close>

lemma retired_slug_loop_check:
  "retired_slug_loop (\<lambda>c. ValidateSlug c = None) n (retired_base o1) i t r =
   retired_slug_loop (\<lambda>_. True) n (retired_base o1) i t r"
proof (induction n arbitrary: r)
  case (Suc n)
  obtain x r1 where x: "RandomShortID r = (x, r1)" by (cases "RandomShortID r")
  show ?case
  proof (cases x)
    case (Inr s)
    with x have "RandomShortID r = (Inr s, r1)" by simp
    then have "valid_slug (retired_base o1 @ ''--retired-'' @ s)" by (rule retired_candidate_valid)
    with x Inr Suc show ?thesis by (simp add: ValidateSlug_iff Let_def)
  qed (simp add: x)
qed simp

subsection \<open>Ports of retired tunnels\<close>

lemma foldr_min_le: "p \<in> set ps \<Longrightarrow> foldr min ps (z :: int) \<le> p"
  by (induction ps) (auto simp: min_le_iff_disj)

lemma min_negative_port_le:
  "t \<in> set ts \<Longrightarrow> t_hub_id t = h \<Longrightarrow> t_remote_port t < 0 \<Longrightarrow>
   \<exists>m. min_negative_port h ts = Some m \<and> m \<le> t_remote_port t"
  by (auto simp: min_negative_port_def Let_def filter_empty_conv intro!: foldr_min_le)

lemma foldr_min_neg: "ps \<noteq> [] \<Longrightarrow> \<forall>p \<in> set ps. p < 0 \<Longrightarrow> z < 0 \<Longrightarrow> foldr min ps (z :: int) < 0"
  by (induction ps) (auto simp: min_less_iff_disj)

lemma min_negative_port_neg: "min_negative_port h ts = Some m \<Longrightarrow> m < 0"
proof -
  assume m: "min_negative_port h ts = Some m"
  let ?ps = "map t_remote_port (filter (\<lambda>x. t_hub_id x = h \<and> t_remote_port x < 0) ts)"
  have ne: "?ps \<noteq> []" using m by (auto simp: min_negative_port_def Let_def split: if_splits)
  then have "m = foldr min ?ps (hd ?ps)" using m by (simp add: min_negative_port_def Let_def)
  moreover have neg: "\<forall>p \<in> set ?ps. p < 0" by auto
  moreover have "hd ?ps < 0" using neg hd_in_set [OF ne] by blast
  ultimately show ?thesis using foldr_min_neg [OF ne neg] by blast
qed

text \<open>A tunnel's retired port is negative and no tunnel of the hub uses it.\<close>

lemma retired_port_fresh:
  "port > 0 \<Longrightarrow> retired_port h port ts < 0 \<and>
   (\<forall>t \<in> set ts. t_hub_id t = h \<longrightarrow> t_remote_port t \<noteq> retired_port h port ts)"
proof -
  assume p: "port > 0"
  have neg: "retired_port h port ts < 0"
    using p min_negative_port_neg [of h ts] by (auto simp: retired_port_def split: option.splits)
  have "t_remote_port t \<noteq> retired_port h port ts" if "t \<in> set ts" "t_hub_id t = h" for t
  proof
    assume e: "t_remote_port t = retired_port h port ts"
    with neg min_negative_port_le [OF that] obtain m where
      "min_negative_port h ts = Some m" "m \<le> t_remote_port t" by auto
    with e p show False by (simp add: retired_port_def)
  qed
  with neg show ?thesis by blast
qed

end
