(* ===== verification/SecurityProps.thy ===== *)
theory SecurityProps
  imports StoreFacts
begin

text \<open>
  The properties of \<open>security.go\<close> and of the slugs of retired machines, with witnesses on a
  concrete instance of the third-party functions.
\<close>

text \<open>A concrete instance of the third-party functions, for witnesses.\<close>

definition example_lib :: lib where
  "example_lib = \<lparr>l_argon2 = (\<lambda>s salt t m p n. take n (s @ salt @ replicate n (CHR ''x''))),
     l_sha256 = (\<lambda>s. s), l_ssh_key_type = (\<lambda>s. if has_prefix s ''ssh-'' then Some (fst (the (cut (CHR '' '') (s @ '' '')))) else None),
     l_jwt_sign = (\<lambda>k c t. k @ c_username c),
     l_jwt_decode = (\<lambda>t. if has_prefix t ''jwt:'' then Some (''HS256'', \<lparr>c_user_id = ''u'', c_username = drop 4 t, c_role = ''admin'', c_expires_at = None\<rparr>) else None),
     l_jwt_verify = (\<lambda>k t now. True)\<rparr>"

definition example_rand :: rand where
  "example_rand = \<lparr>r_draws = replicate 100 1, r_salts = [''0123456789abcdef'', ''fedcba9876543210'', ''salt'']\<rparr>"

text \<open>C25: the regular expression of \<open>ValidateSlug\<close> accepts exactly the texts its error message
  describes: 3 to 32 characters, lower-case letters, digits and hyphens, no hyphen at either end.\<close>

theorem ValidateSlug_spec:
  "ValidateSlug s = None \<longleftrightarrow>
   3 \<le> length s \<and> length s \<le> 32 \<and> list_all (\<lambda>c. is_slug_alnum c \<or> c = CHR ''-'') s \<and>
   is_slug_alnum (hd s) \<and> is_slug_alnum (last s)"
  by (simp add: ValidateSlug_iff valid_slug_def list_all_iff conj_ac)

text \<open>C23: \<open>NormalizeSlug\<close> yields a valid slug exactly for the names that have a letter or a digit;
  every other name becomes the invalid slug \<open>box-\<close>.\<close>

theorem NormalizeSlug_valid_iff:
  "(ValidateSlug (NormalizeSlug name) = None \<longleftrightarrow> list_ex is_slug_alnum (to_lower (trim_space name))) \<and>
   (ValidateSlug (NormalizeSlug name) \<noteq> None \<longrightarrow> NormalizeSlug name = ''box-'')"
proof -
  have "\<not> valid_slug ''box-''" by (simp add: valid_slug_def is_slug_alnum_def is_lower_def is_digit_def)
  then show ?thesis
    using NormalizeSlug_cases [of name] by (auto simp: ValidateSlug_iff list_ex_iff split: if_splits)
qed

lemma NormalizeSlug_valid_iff_witness:
  "ValidateSlug (NormalizeSlug ''  Build Box!  '') = None \<and> NormalizeSlug ''  Build Box!  '' = ''build-box''
   \<and> NormalizeSlug ''!!!'' = ''box-'' \<and> ValidateSlug (NormalizeSlug ''!!!'') \<noteq> None"
proof -
  have 1: "NormalizeSlug ''  Build Box!  '' = ''build-box''" by code_simp
  have 2: "NormalizeSlug ''!!!'' = ''box-''" by code_simp
  have 3: "list_ex is_slug_alnum (to_lower (trim_space ''  Build Box!  ''))" by code_simp
  have 4: "\<not> list_ex is_slug_alnum (to_lower (trim_space ''!!!''))" by code_simp
  show ?thesis using 1 2 3 4 NormalizeSlug_valid_iff by metis
qed

text \<open>C20: a secret verifies against the hash \<open>HashSecret\<close> made of any secret exactly when their
  derived keys under the stored salt agree; in particular the hashed secret verifies.\<close>

theorem VerifySecret_HashSecret:
  assumes "argon2_key_length l" "HashSecret l secret r = (Inr h, r')"
  shows "VerifySecret l secret h \<and>
         (\<exists>salt. \<forall>other. VerifySecret l other h \<longleftrightarrow> other \<noteq> [] \<and>
            l_argon2 l other salt 3 65536 2 32 = l_argon2 l secret salt 3 65536 2 32)"
proof -
  obtain bytes where b: "secret \<noteq> []" "h = encode_secret (take 16 bytes) (l_argon2 l secret (take 16 bytes) 3 65536 2 32)"
    using HashSecret_ok [OF assms(2)] by blast
  have "VerifySecret l other h \<longleftrightarrow> other \<noteq> [] \<and>
        l_argon2 l other (take 16 bytes) 3 65536 2 32 = l_argon2 l secret (take 16 bytes) 3 65536 2 32" for other
    using VerifySecret_encode [of other l "take 16 bytes"] assms(1) b(2)
    by (cases "other = []") (auto simp: VerifySecret_def argon2_key_length_def)
  then show ?thesis using b(1) by blast
qed

lemma VerifySecret_HashSecret_witness:
  "VerifySecret example_lib ''hunter2'' (encode_secret ''0123456789abcdef'' ''hunter20123456789abcdefxxxxxxxxx'')"
proof -
  have x: "replicate 9 (CHR ''x'') = ''xxxxxxxxx''" by code_simp
  have "argon2_key_length example_lib" by (auto simp: argon2_key_length_def example_lib_def min_def)
  moreover have "HashSecret example_lib ''hunter2'' example_rand =
        (Inr (encode_secret ''0123456789abcdef'' ''hunter20123456789abcdefxxxxxxxxx''),
         example_rand\<lparr>r_salts := [''fedcba9876543210'', ''salt'']\<rparr>)"
    by (simp add: HashSecret_def example_rand_def example_lib_def defaultArgon_def Let_def x)
  ultimately show ?thesis using VerifySecret_HashSecret by blast
qed

text \<open>the short identifiers that name host accounts always pass the account-name check.\<close>

theorem RandomShortID_account:
  assumes "RandomShortID r = (Inr s, r')"
  shows "ValidateUnixUser (''rt-'' @ s) = None \<and> length s = 8"
  using RandomShortID_unix_user [OF assms] randomAlphabet_ok [of 8 r s r'] assms
  by (simp add: RandomShortID_def)

lemma RandomShortID_account_witness:
  "ValidateUnixUser (''rt-'' @ ''bbbbbbbb'') = None \<and> length ''bbbbbbbb'' = 8"
proof (rule RandomShortID_account)
  show "RandomShortID example_rand = (Inr ''bbbbbbbb'', example_rand\<lparr>r_draws := replicate 92 1\<rparr>)"
    by code_simp
qed

text \<open>C19: a slug generated for a retired machine is a valid slug that no other machine has, and
  the validity check in one of the two copies of \<open>retiredSlug\<close> never rejects a candidate.\<close>

theorem retiredSlug_ok:
  assumes "store_retiredSlug original i d r = (Inr c, r')"
  shows "ValidateSlug c = None \<and> (\<forall>m \<in> set (db_machines d). mr_slug m = c \<longrightarrow> mr_id m = i) \<and>
         retired_slug_loop (\<lambda>c. ValidateSlug c = None) 20 (retired_base original) i (db_machines d) r = (Inr c, r')"
  using retired_slug_loop_ok [OF assms [unfolded store_retiredSlug_def]]
    assms [unfolded store_retiredSlug_def, folded retired_slug_loop_check] ValidateSlug_iff [of c]
  unfolding slug_taken_def by blast

lemma retiredSlug_ok_witness:
  "ValidateSlug ''web--retired-bbbbbbbb'' = None"
proof -
  have "store_retiredSlug ''web'' ''m1'' empty_db example_rand =
        (Inr ''web--retired-bbbbbbbb'', example_rand\<lparr>r_draws := replicate 92 1\<rparr>)"
    by code_simp
  from retiredSlug_ok [OF this] show ?thesis by blast
qed

end
