(* ===== verification/Events.thy ===== *)
theory Events
  imports StoreFacts
begin

text \<open>
  \<open>events.go\<close>: the event log in the database, the in-process subscribers and the server-sent
  event frames. A channel of capacity 32 is the list of the events it holds. Facts: ids grow,
  a replay is exactly the events after the given id, a subscriber misses an event only while
  its channel is full, and event data cannot break out of its frame.
\<close>

record ReachEvent =
  ev_id :: string
  ev_type :: string
  ev_machine_id :: string
  ev_data :: "(string \<times> json) list"
  ev_created_at :: string

record subscriber =
  sb_chan :: nat
  sb_queue :: "ReachEvent list"

record broker =
  br_subs :: "subscriber list"
  br_next :: nat  \<comment> \<open>identity of the next channel\<close>

definition newEventBroker :: broker where
  "newEventBroker = \<lparr>br_subs = [], br_next = 0\<rparr>"

definition chan_capacity :: nat where "chan_capacity = 32"

definition Subscribe :: "broker \<Rightarrow> nat \<times> broker" where
  "Subscribe b = (br_next b, b\<lparr>br_subs := br_subs b @ [\<lparr>sb_chan = br_next b, sb_queue = []\<rparr>],
                              br_next := Suc (br_next b)\<rparr>)"

definition cancel_sub :: "nat \<Rightarrow> broker \<Rightarrow> broker" where
  "cancel_sub ch b = b\<lparr>br_subs := filter (\<lambda>s. sb_chan s \<noteq> ch) (br_subs b)\<rparr>"

definition offer :: "ReachEvent \<Rightarrow> subscriber \<Rightarrow> subscriber" where
  "offer ev s = (if length (sb_queue s) < chan_capacity then s\<lparr>sb_queue := sb_queue s @ [ev]\<rparr> else s)"

definition Publish :: "string \<Rightarrow> string \<Rightarrow> (string \<times> json) list \<Rightarrow> instant \<Rightarrow> db \<times> broker \<Rightarrow> ReachEvent \<times> db \<times> broker" where
  "Publish typ machineID payload now = (\<lambda>(d, b).
     let created = nowUTC now;
         i = db_event_seq d + 1;
         d' = d\<lparr>db_events := db_events d @ [\<lparr>e_id = i, e_type = typ, e_machine_id = nullable machineID,
                  e_payload = payload, e_created_at = created\<rparr>], db_event_seq := i\<rparr>;
         ev = \<lparr>ev_id = show_int i, ev_type = typ, ev_machine_id = machineID, ev_data = payload, ev_created_at = created\<rparr>
     in (ev, d', b\<lparr>br_subs := map (offer ev) (br_subs b)\<rparr>))"

text \<open>A receive on a subscriber's channel.\<close>

definition receive :: "nat \<Rightarrow> broker \<Rightarrow> ReachEvent option \<times> broker" where
  "receive ch b = (case List.find (\<lambda>s. sb_chan s = ch) (br_subs b) of
       None \<Rightarrow> (None, b)
     | Some s \<Rightarrow> (case sb_queue s of [] \<Rightarrow> (None, b)
         | ev # q \<Rightarrow> (Some ev, b\<lparr>br_subs := map (\<lambda>s. if sb_chan s = ch then s\<lparr>sb_queue := q\<rparr> else s) (br_subs b)\<rparr>)))"

definition event_of_row :: "event_row \<Rightarrow> ReachEvent" where
  "event_of_row r = \<lparr>ev_id = show_int (e_id r), ev_type = e_type r, ev_machine_id = null_string (e_machine_id r),
                     ev_data = e_payload r, ev_created_at = e_created_at r\<rparr>"

definition ReplaySince :: "int \<Rightarrow> int \<Rightarrow> db \<Rightarrow> ReachEvent list" where
  "ReplaySince lastID limit d =
     (let limit = (if limit \<le> 0 \<or> limit > 1000 then 500 else limit)
      in map event_of_row (take (nat limit) (sort_key e_id (filter (\<lambda>r. e_id r > lastID) (db_events d)))))"

text \<open>\<open>id, _ := strconv.ParseInt(v, 10, 64)\<close>: 0 for a text that is no number, the nearest bound for one
  out of range.\<close>

definition parse_int64 :: "string \<Rightarrow> int" where
  "parse_int64 s =
     (let neg = has_prefix s ''-'';
          ds = (if neg \<or> has_prefix s ''+'' then tl s else s)
      in case read_nat ds of None \<Rightarrow> 0
         | Some n \<Rightarrow> max min_int64 (min max_int64 (if neg then - int n else int n)))"

definition lastEventID :: "string \<Rightarrow> string \<Rightarrow> int" where
  "lastEventID header query = parse_int64 (if header = [] then query else header)"

definition writeSSE :: "ReachEvent \<Rightarrow> string" where
  "writeSSE ev = ''id: '' @ ev_id ev @ [nl] @ ''event: '' @ ev_type ev @ [nl] @ ''data: ''
                 @ marshal (JObj (ev_data ev)) @ [nl, nl]"

definition writeSSEComment :: "string \<Rightarrow> instant \<Rightarrow> string" where
  "writeSSEComment msg now = '': '' @ msg @ '' '' @ fmt now @ [nl, nl]"

subsection \<open>Integrity\<close>

lemma Publish_db:
  "Publish typ i p now (d, b) = (ev, d', b') \<Longrightarrow>
   d' = d\<lparr>db_events := db_events d @ [\<lparr>e_id = db_event_seq d + 1, e_type = typ, e_machine_id = nullable i,
           e_payload = p, e_created_at = nowUTC now\<rparr>], db_event_seq := db_event_seq d + 1\<rparr>"
  by (auto simp: Publish_def Let_def)

lemma Publish_wf [wf_intros]: "db_wf d \<Longrightarrow> db_wf (fst (snd (Publish typ i p now (d, b))))"
  by (auto simp: Publish_def Let_def wf_defs sorted_wrt_append)

subsection \<open>Replay\<close>

lemma sorted_filter_id: "sorted_wrt (<) (map e_id es) \<Longrightarrow> sort_key e_id (filter p es) = filter p es"
  by (rule sort_key_id_if_sorted) (simp add: sorted_filter strict_sorted_imp_sorted)

text \<open>A run of publications: the events it makes and the state after it.\<close>

type_synonym publication = "string \<times> string \<times> (string \<times> json) list \<times> instant"

fun publish_all :: "publication list \<Rightarrow> db \<times> broker \<Rightarrow> ReachEvent list \<times> db \<times> broker" where
  "publish_all [] s = ([], s)"
| "publish_all ((t, i, p, now) # ps) s =
     (case Publish t i p now s of (ev, s') \<Rightarrow> case publish_all ps s' of (evs, s'') \<Rightarrow> (ev # evs, s''))"

definition new_rows :: "db \<Rightarrow> db \<Rightarrow> event_row list" where
  "new_rows d d' = drop (length (db_events d)) (db_events d')"

lemma publish_all_rows:
  "publish_all ps (d, b) = (evs, d', b') \<Longrightarrow>
   \<exists>rows. db_events d' = db_events d @ rows \<and> map event_of_row rows = evs \<and> length rows = length ps \<and>
     (\<forall>r \<in> set rows. db_event_seq d < e_id r) \<and> db_event_seq d \<le> db_event_seq d'"
proof (induction ps arbitrary: d b evs)
  case (Cons x ps)
  obtain t i p now where x: "x = (t, i, p, now)" by (cases x)
  obtain ev d1 b1 where P: "Publish t i p now (d, b) = (ev, d1, b1)" by (metis prod_cases3)
  obtain evs1 where R: "publish_all ps (d1, b1) = (evs1, d', b')" "evs = ev # evs1"
    using Cons.prems x P by (auto split: prod.splits)
  let ?r = "\<lparr>e_id = db_event_seq d + 1, e_type = t, e_machine_id = nullable i, e_payload = p,
             e_created_at = nowUTC now\<rparr>"
  have d1: "db_events d1 = db_events d @ [?r]" "db_event_seq d1 = db_event_seq d + 1"
    using Publish_db [OF P] by simp_all
  have ev: "event_of_row ?r = ev"
    using P by (auto simp: Publish_def Let_def event_of_row_def nullable_def null_string_def)
  obtain rows where "db_events d' = db_events d1 @ rows" "map event_of_row rows = evs1"
    "length rows = length ps" "\<forall>r \<in> set rows. db_event_seq d1 < e_id r" "db_event_seq d1 \<le> db_event_seq d'"
    using Cons.IH [OF R(1)] by blast
  then show ?case using d1 ev R(2) by (intro exI [of _ "?r # rows"]) auto
qed simp

lemma publish_all_wf: "db_wf d \<Longrightarrow> publish_all ps (d, b) = (evs, d', b') \<Longrightarrow> db_wf d'"
proof (induction ps arbitrary: d b evs)
  case (Cons x ps)
  obtain t i p now where x: "x = (t, i, p, now)" by (cases x)
  obtain ev d1 b1 where P: "Publish t i p now (d, b) = (ev, d1, b1)" by (metis prod_cases3)
  then have "db_wf d1" using Publish_wf [OF Cons.prems(1), of t i p now b] by simp
  with Cons P x show ?case by (auto split: prod.splits)
qed simp

lemma replay_after:
  assumes "db_wf d" "publish_all ps (d, b) = (evs, d', b')" "length ps \<le> 500"
  shows "ReplaySince (db_event_seq d) 500 d' = evs"
proof -
  obtain rows where r: "db_events d' = db_events d @ rows" "map event_of_row rows = evs"
    "length rows = length ps" "\<forall>r \<in> set rows. db_event_seq d < e_id r"
    using publish_all_rows [OF assms(2)] by blast
  have w: "events_wf d" "events_wf d'" using assms(1) publish_all_wf [OF assms(1,2)] by (simp_all add: db_wf_def)
  have "filter (\<lambda>r. e_id r > db_event_seq d) (db_events d') = rows"
    using r w(1) by (auto simp: events_wf_def filter_empty_conv not_less filter_id_conv)
  moreover have "sort_key e_id (filter (\<lambda>r. e_id r > db_event_seq d) (db_events d')) =
                 filter (\<lambda>r. e_id r > db_event_seq d) (db_events d')"
    using w(2) by (simp add: events_wf_def sorted_filter_id)
  ultimately show ?thesis using r assms(3) by (simp add: ReplaySince_def)
qed

text \<open>Every replayed event comes after the given id, and events come in the order of their ids.\<close>

lemma replay_rows:
  assumes "db_wf d"
  shows "ReplaySince lastID limit d =
         map event_of_row (take (nat (if limit \<le> 0 \<or> limit > 1000 then 500 else limit))
           (filter (\<lambda>r. e_id r > lastID) (db_events d)))"
  using assms by (simp add: ReplaySince_def Let_def sorted_filter_id db_wf_def events_wf_def)

subsection \<open>Subscribers\<close>

lemma offer_chan [simp]: "sb_chan (offer ev s) = sb_chan s"
  by (simp add: offer_def)

lemma publish_subs: "br_subs (snd (snd (Publish t i p now (d, b)))) =
  map (offer (fst (Publish t i p now (d, b)))) (br_subs b)"
  by (simp add: Publish_def Let_def)

lemma subscriber_receives:
  assumes "publish_all ps (d, b) = (evs, d', b')" "s \<in> set (br_subs b)"
    "length (sb_queue s) + length ps \<le> chan_capacity"
  shows "s\<lparr>sb_queue := sb_queue s @ evs\<rparr> \<in> set (br_subs b')"
  using assms
proof (induction ps arbitrary: d b evs s)
  case (Cons x ps)
  obtain t i p now where x: "x = (t, i, p, now)" by (cases x)
  obtain ev d1 b1 where P: "Publish t i p now (d, b) = (ev, d1, b1)" by (metis prod_cases3)
  obtain evs1 where R: "publish_all ps (d1, b1) = (evs1, d', b')" "evs = ev # evs1"
    using Cons.prems x P by (auto split: prod.splits)
  have "br_subs b1 = map (offer ev) (br_subs b)" using publish_subs [of t i p now d b] P by simp
  then have "offer ev s \<in> set (br_subs b1)" using Cons.prems(2) by simp
  moreover have "offer ev s = s\<lparr>sb_queue := sb_queue s @ [ev]\<rparr>"
    using Cons.prems(3) by (simp add: offer_def)
  ultimately show ?case using Cons.IH [OF R(1), of "offer ev s"] Cons.prems(3) R(2) by simp
qed simp

lemma queue_bounded:
  "\<forall>s \<in> set (br_subs b). length (sb_queue s) \<le> chan_capacity \<Longrightarrow>
   \<forall>s \<in> set (br_subs (snd (snd (Publish t i p now (d, b))))). length (sb_queue s) \<le> chan_capacity"
  by (auto simp: publish_subs offer_def)

subsection \<open>Frames\<close>

lemma digit_char_no_nl [simp]: "d < 10 \<Longrightarrow> digit_char d \<noteq> nl"
  using is_digit_char [of d] by (auto simp: is_digit_def nl_def)

lemma show_nat_no_nl: "nl \<notin> set (show_nat n)"
  using show_nat_digits [of n] by (auto simp: list_all_iff is_digit_def nl_def)

lemma show_int_no_nl: "nl \<notin> set (show_int i)"
  by (auto simp: show_int_def show_nat_no_nl) (simp add: nl_def)

lemma hex_char_no_nl: "d < 16 \<Longrightarrow> hex_char d \<noteq> nl"
proof -
  assume d: "d < 16"
  show ?thesis
  proof (cases "d < 10")
    case False
    have "ord (hex_char d) = 87 + d" using d False by (simp add: hex_char_def of_char_of)
    then show ?thesis using False by (auto simp: nl_def)
  qed (simp add: hex_char_def)
qed

lemma escape_char_no_nl: "nl \<notin> set (escape_char c)"
proof -
  have "ord c div 16 < 16" using ord_less_256 [of c] by (simp add: div_less_iff_less_mult)
  then have "hex_char (ord c div 16) \<noteq> nl" "hex_char (ord c mod 16) \<noteq> nl"
    using hex_char_no_nl by simp_all
  then show ?thesis by (auto simp: escape_char_def nl_def dq_def bslash_def)
qed

lemma quote_json_no_nl: "nl \<notin> set (quote_json s)"
  using escape_char_no_nl by (auto simp: quote_json_def dq_def nl_def)

lemma join_no_nl: "nl \<notin> set sep \<Longrightarrow> \<forall>x \<in> set xs. nl \<notin> set x \<Longrightarrow> nl \<notin> set (join sep xs)"
  by (induction sep xs rule: join.induct) auto

lemma marshal_no_nl: "nl \<notin> set (marshal j)"
proof (induction j rule: marshal.induct)
  case (5 xs)
  then show ?case using join_no_nl [of "'',''" "map marshal xs"] by (auto simp: nl_def)
next
  case (6 m)
  let ?f = "\<lambda>(k, v). (k, quote_json k @ '':'' @ marshal v)"
  have "\<forall>x \<in> set (map snd (sort_key fst (map ?f m))). nl \<notin> set x"
    using 6 quote_json_no_nl by (fastforce simp: nl_def)
  from join_no_nl [OF _ this, of "'',''"] show ?case by (auto simp: nl_def)
qed (simp_all add: show_int_no_nl quote_json_no_nl, simp_all add: nl_def)

end
