(* ===== verification/RateLimit.thy ===== *)
theory RateLimit
  imports StoreFacts
begin

text \<open>
  \<open>ratelimit.go\<close>: the in-memory limiter and the one that keeps its buckets in the database, both
  fixed-window counters per key. What they promise is the locale \<open>window_limiter\<close>; its theorem
  bounds the calls granted within a window. The persistent limiter compares reset times as
  texts when it cleans up, so its windows are only kept to within a second (\<open>slack\<close>).
\<close>

record limiter =
  lim_window :: int
  lim_limit :: int
  lim_bucket_name :: string

subsection \<open>In memory\<close>

record rateBucket =
  rb_count :: int
  rb_reset :: instant

record mem_state =
  ms_buckets :: "string \<rightharpoonup> rateBucket"
  ms_last_cleanup :: instant

definition newRateLimiter :: "instant \<Rightarrow> mem_state" where
  "newRateLimiter now = \<lparr>ms_buckets = Map.empty, ms_last_cleanup = now\<rparr>"

definition mem_cleanup :: "limiter \<Rightarrow> instant \<Rightarrow> mem_state \<Rightarrow> mem_state" where
  "mem_cleanup lim now s =
     (if now - ms_last_cleanup s > lim_window lim
      then \<lparr>ms_buckets = (\<lambda>k. case ms_buckets s k of None \<Rightarrow> None
                            | Some b \<Rightarrow> if now > rb_reset b then None else Some b),
            ms_last_cleanup = now\<rparr>
      else s)"

definition allow :: "limiter \<Rightarrow> string \<Rightarrow> instant \<Rightarrow> mem_state \<Rightarrow> bool \<times> mem_state" where
  "allow lim key now s =
     (let s = mem_cleanup lim now s;
          fresh = s\<lparr>ms_buckets := (ms_buckets s)(key \<mapsto> \<lparr>rb_count = 1, rb_reset = now + lim_window lim\<rparr>)\<rparr>
      in case ms_buckets s key of
           None \<Rightarrow> (True, fresh)
         | Some b \<Rightarrow>
             if now > rb_reset b then (True, fresh)
             else if rb_count b \<ge> lim_limit lim then (False, s)
             else (True, s\<lparr>ms_buckets := (ms_buckets s)(key \<mapsto> b\<lparr>rb_count := rb_count b + 1\<rparr>)\<rparr>))"

subsection \<open>In the database\<close>

text \<open>The state of the persistent limiter: its table and the time of its last clean-up.\<close>

type_synonym rate_table = "rate_limit_row list"

definition rate_key :: "limiter \<Rightarrow> string \<Rightarrow> rate_limit_row \<Rightarrow> bool" where
  "rate_key lim key r \<longleftrightarrow> rl_bucket r = lim_bucket_name lim \<and> rl_key r = key"

definition rate_cleanup :: "limiter \<Rightarrow> instant \<Rightarrow> rate_table \<times> instant \<Rightarrow> rate_table \<times> instant" where
  "rate_cleanup lim now = (\<lambda>(t, last).
     if now - last > lim_window lim then (sql_delete (\<lambda>r. rl_reset_at r \<le> fmt_nano now) t, now)
     else (t, last))"

definition allowPersistent :: "limiter \<Rightarrow> string \<Rightarrow> instant \<Rightarrow> rate_table \<times> instant \<Rightarrow> bool \<times> rate_table \<times> instant" where
  "allowPersistent lim key now s =
     (let reset = fmt_nano (now + lim_window lim);
          (t, last) = rate_cleanup lim now s
      in case sql_row (rate_key lim key) t of
           None \<Rightarrow> (True, t @ [\<lparr>rl_bucket = lim_bucket_name lim, rl_key = key, rl_count = 1,
                                rl_reset_at = reset, rl_updated_at = fmt_nano now\<rparr>], last)
         | Some row \<Rightarrow>
             if (case parse_time (rl_reset_at row) of None \<Rightarrow> True | Some r \<Rightarrow> now > r)
             then (True, sql_update (rate_key lim key)
                     (\<lambda>r. r\<lparr>rl_count := 1, rl_reset_at := reset, rl_updated_at := fmt_nano now\<rparr>) t, last)
             else if rl_count row \<ge> lim_limit lim then (False, t, last)
             else (True, sql_update (rate_key lim key)
                     (\<lambda>r. r\<lparr>rl_count := rl_count r + 1, rl_updated_at := fmt_nano now\<rparr>) t, last))"

subsection \<open>The contract\<close>

text \<open>
  \<open>view s k\<close> is the count and the reset time of the bucket of \<open>k\<close>. A bucket that has at least
  \<open>slack\<close> to live is neither dropped nor reset.
\<close>

locale window_limiter =
  fixes ask :: "string \<Rightarrow> instant \<Rightarrow> 's \<Rightarrow> bool \<times> 's"
    and view :: "'s \<Rightarrow> string \<Rightarrow> (int \<times> instant) option"
    and inv :: "'s \<Rightarrow> bool"
    and good_time :: "instant \<Rightarrow> bool"
    and window limit slack :: int
  assumes inv_ask: "inv s \<Longrightarrow> good_time now \<Longrightarrow> inv (snd (ask k now s))"
    and live: "inv s \<Longrightarrow> good_time now \<Longrightarrow> view s k = Some (c, r) \<Longrightarrow> now \<le> r - slack \<Longrightarrow>
       fst (ask k now s) = (c < limit) \<and>
       view (snd (ask k now s)) k = Some (if c < limit then c + 1 else c, r)"
    and absent: "inv s \<Longrightarrow> good_time now \<Longrightarrow> view s k = None \<Longrightarrow>
       fst (ask k now s) \<and> view (snd (ask k now s)) k = Some (1, now + window)"
    and expired: "inv s \<Longrightarrow> good_time now \<Longrightarrow> view s k = Some (c, r) \<Longrightarrow> r < now \<Longrightarrow>
       fst (ask k now s) \<and> view (snd (ask k now s)) k = Some (1, now + window)"
    and other: "inv s \<Longrightarrow> good_time now \<Longrightarrow> k' \<noteq> k \<Longrightarrow> view s k' = Some (c, r) \<Longrightarrow> now \<le> r - slack \<Longrightarrow>
       view (snd (ask k now s)) k' = Some (c, r)"
begin

text \<open>The number of calls of a run that key \<open>k\<close> is granted.\<close>

fun grants :: "string \<Rightarrow> (string \<times> instant) list \<Rightarrow> 's \<Rightarrow> nat" where
  "grants k [] s = 0"
| "grants k ((k', t) # cs) s =
     (if k' = k \<and> fst (ask k' t s) then 1 else 0) + grants k cs (snd (ask k' t s))"

lemma grants_live:
  "inv s \<Longrightarrow> view s k = Some (c, r) \<Longrightarrow> \<forall>(k', t) \<in> set cs. good_time t \<and> t \<le> r - slack \<Longrightarrow>
   int (grants k cs s) \<le> max 0 (limit - c)"
proof (induction cs arbitrary: s c)
  case (Cons a cs)
  obtain k' t where a: "a = (k', t)" by (cases a)
  have t: "good_time t" "t \<le> r - slack" using Cons.prems(3) a by auto
  have rest: "\<forall>(k', t) \<in> set cs. good_time t \<and> t \<le> r - slack" using Cons.prems(3) by simp
  have inv: "inv (snd (ask k' t s))" using inv_ask Cons.prems(1) t(1) .
  show ?case
  proof (cases "k' = k")
    case True
    note l = live [OF Cons.prems(1) t(1) Cons.prems(2) t(2)]
    show ?thesis
    proof (cases "c < limit")
      case True
      then have v: "view (snd (ask k' t s)) k = Some (c + 1, r)" and g: "fst (ask k' t s)"
        using l \<open>k' = k\<close> by simp_all
      have "grants k (a # cs) s = Suc (grants k cs (snd (ask k' t s)))" using a g \<open>k' = k\<close> by simp
      then show ?thesis using Cons.IH [OF inv v rest] True by linarith
    next
      case False
      then have v: "view (snd (ask k' t s)) k = Some (c, r)" and g: "\<not> fst (ask k' t s)"
        using l \<open>k' = k\<close> by simp_all
      have "grants k (a # cs) s = grants k cs (snd (ask k' t s))" using a g by simp
      then show ?thesis using Cons.IH [OF inv v rest] by linarith
    qed
  next
    case False
    have "view (snd (ask k' t s)) k = Some (c, r)"
      by (rule other [OF Cons.prems(1) t(1) _ Cons.prems(2) t(2)]) (use False in simp)
    moreover have "grants k (a # cs) s = grants k cs (snd (ask k' t s))" using a False by simp
    ultimately show ?thesis using Cons.IH [OF inv _ rest, of c] by simp
  qed
qed simp

text \<open>A key without a live bucket gets at most \<open>limit\<close> grants in the window its first call opens.\<close>

theorem grants_bound:
  assumes "inv s" "good_time t0" "view s k = None \<or> (\<exists>c r. view s k = Some (c, r) \<and> r < t0)"
    "1 \<le> limit" "\<forall>(k', t) \<in> set cs. good_time t \<and> t \<le> t0 + window - slack"
  shows "int (grants k ((k, t0) # cs) s) \<le> limit"
proof -
  have f: "fst (ask k t0 s)" "view (snd (ask k t0 s)) k = Some (1, t0 + window)"
    using assms(1-3) absent expired by blast+
  have "int (grants k cs (snd (ask k t0 s))) \<le> max 0 (limit - 1)"
    using grants_live [OF inv_ask [OF assms(1,2)] f(2) assms(5)] .
  with f(1) assms(4) show ?thesis by simp
qed

end

subsection \<open>Both limiters keep the contract\<close>

definition mem_view :: "mem_state \<Rightarrow> string \<Rightarrow> (int \<times> instant) option" where
  "mem_view s k = map_option (\<lambda>b. (rb_count b, rb_reset b)) (ms_buckets s k)"

lemma mem_cleanup_bucket:
  "ms_buckets (mem_cleanup lim now s) k =
   (if now - ms_last_cleanup s > lim_window lim
    then (case ms_buckets s k of None \<Rightarrow> None | Some b \<Rightarrow> if now > rb_reset b then None else Some b)
    else ms_buckets s k)"
  by (simp add: mem_cleanup_def)

interpretation mem: window_limiter "allow lim" mem_view "\<lambda>_. True" "\<lambda>_. True" "lim_window lim" "lim_limit lim" 0
  for lim
proof unfold_locales
  fix s now k c r
  assume v: "mem_view s k = Some (c, r)"
  then obtain b where b: "ms_buckets s k = Some b" "c = rb_count b" "r = rb_reset b"
    by (auto simp: mem_view_def)
  show "fst (allow lim k now s) = (c < lim_limit lim) \<and>
        mem_view (snd (allow lim k now s)) k = Some (if c < lim_limit lim then c + 1 else c, r)"
    if "now \<le> r - 0"
    using that b by (auto simp: allow_def Let_def mem_cleanup_bucket mem_view_def split: if_splits option.splits)
  show "fst (allow lim k now s) \<and> mem_view (snd (allow lim k now s)) k = Some (1, now + lim_window lim)"
    if "r < now"
    using that b by (auto simp: allow_def Let_def mem_cleanup_bucket mem_view_def split: if_splits option.splits)
  show "mem_view (snd (allow lim k' now s)) k = Some (c, r)" if "k \<noteq> k'" "now \<le> r - 0" for k'
    using that b by (auto simp: allow_def Let_def mem_cleanup_bucket mem_view_def split: if_splits option.splits)
next
  fix s now k
  assume "mem_view s k = None"
  then show "fst (allow lim k now s) \<and> mem_view (snd (allow lim k now s)) k = Some (1, now + lim_window lim)"
    by (auto simp: allow_def Let_def mem_cleanup_bucket mem_view_def split: if_splits option.splits)
qed simp

definition rate_view :: "limiter \<Rightarrow> rate_table \<times> instant \<Rightarrow> string \<Rightarrow> (int \<times> instant) option" where
  "rate_view lim s k =
     (case sql_row (rate_key lim k) (fst s) of None \<Rightarrow> None
      | Some row \<Rightarrow> map_option (\<lambda>r. (rl_count row, r)) (parse_time (rl_reset_at row)))"

definition rate_inv :: "rate_table \<times> instant \<Rightarrow> bool" where
  "rate_inv s \<longleftrightarrow> distinct (map (\<lambda>r. (rl_bucket r, rl_key r)) (fst s)) \<and>
     (\<forall>row \<in> set (fst s). \<exists>r. printable_time r \<and> rl_reset_at row = fmt_nano r)"

definition rate_time :: "limiter \<Rightarrow> instant \<Rightarrow> bool" where
  "rate_time lim now \<longleftrightarrow> printable_time now \<and> printable_time (now + lim_window lim)"

lemma sql_row_rate_delete:
  assumes "distinct (map (\<lambda>r. (rl_bucket r, rl_key r)) t)"
  shows "sql_row (rate_key lim k) (sql_delete q t) =
         (case sql_row (rate_key lim k) t of None \<Rightarrow> None | Some r \<Rightarrow> if q r then None else Some r)"
  using assms unfolding sql_row_def sql_delete_def
proof (induction t)
  case (Cons a t)
  have "List.find (rate_key lim k) t = None" if "rate_key lim k a"
    using that Cons.prems by (auto simp: find_None_iff rate_key_def image_iff)
  with Cons show ?case by (auto split: option.splits)
qed simp

lemma rate_inv_cleanup: "rate_inv s \<Longrightarrow> rate_inv (rate_cleanup lim now s)"
  by (auto simp: rate_inv_def rate_cleanup_def sql_delete_def distinct_map_filter split: prod.splits)

lemma rate_view_cleanup_live:
  assumes "rate_inv s" "rate_time lim now" "rate_view lim s k = Some (c, r)" "now \<le> r - second"
  shows "sql_row (rate_key lim k) (fst (rate_cleanup lim now s)) = sql_row (rate_key lim k) (fst s)"
proof -
  obtain row where row: "sql_row (rate_key lim k) (fst s) = Some row" "c = rl_count row"
      "parse_time (rl_reset_at row) = Some r"
    using assms(3) by (auto simp: rate_view_def split: option.splits)
  obtain r' where r': "printable_time r'" "rl_reset_at row = fmt_nano r'"
    using assms(1) sql_row_Some [OF row(1)] by (auto simp: rate_inv_def)
  have "r' = r" using row(3) r' parse_fmt_nano by simp
  then have "\<not> rl_reset_at row \<le> fmt_nano now"
    using fmt_nano_le [of r now] r' assms(2,4) by (auto simp: rate_time_def)
  then have "sql_row (rate_key lim k) (sql_delete (\<lambda>r. rl_reset_at r \<le> fmt_nano now) (fst s)) = Some row"
    using assms(1) by (simp add: rate_inv_def sql_row_rate_delete row(1))
  then show ?thesis using row(1) by (simp add: rate_cleanup_def case_prod_beta)
qed

lemma rate_key_frame:
  "rl_bucket (f r) = rl_bucket r \<Longrightarrow> rl_key (f r) = rl_key r \<Longrightarrow> rate_key lim k (f r) = rate_key lim k r"
  by (simp add: rate_key_def)

lemma sql_row_rate_update:
  assumes "\<And>r. rl_bucket (f r) = rl_bucket r" "\<And>r. rl_key (f r) = rl_key r"
  shows "sql_row (rate_key lim k) (sql_update (rate_key lim k') f t) =
         map_option (\<lambda>r. if k = k' then f r else r) (sql_row (rate_key lim k) t)"
  unfolding sql_row_def using assms
  by (induction t) (auto simp: rate_key_def)

lemma rate_inv_update:
  assumes "rate_inv (t, l)" "\<And>r. rl_bucket (f r) = rl_bucket r" "\<And>r. rl_key (f r) = rl_key r"
    "\<And>r. rl_reset_at (f r) = rl_reset_at r \<or> (\<exists>x. printable_time x \<and> rl_reset_at (f r) = fmt_nano x)"
  shows "rate_inv (sql_update p f t, l')"
proof -
  have "\<exists>x. printable_time x \<and> rl_reset_at row = fmt_nano x" if "row \<in> set (sql_update p f t)" for row
  proof -
    from that obtain r where r: "r \<in> set t" "row = r \<or> row = f r" by (auto simp: set_sql_update)
    with assms(1) obtain x where "printable_time x" "rl_reset_at r = fmt_nano x" by (auto simp: rate_inv_def)
    with r(2) assms(4) [of r] show ?thesis by auto
  qed
  then show ?thesis using assms(1-3) by (simp add: rate_inv_def sql_update_key)
qed

lemma rate_inv_append:
  "rate_inv (t, l) \<Longrightarrow> sql_row (rate_key lim k) t = None \<Longrightarrow> printable_time x \<Longrightarrow> rl_bucket r = lim_bucket_name lim \<Longrightarrow>
   rl_key r = k \<Longrightarrow> rl_reset_at r = fmt_nano x \<Longrightarrow> rate_inv (t @ [r], l')"
  by (auto simp: rate_inv_def sql_row_None rate_key_def)

lemma rate_row_printable:
  "rate_inv s \<Longrightarrow> sql_row p (fst s) = Some r \<Longrightarrow> \<exists>x. printable_time x \<and> rl_reset_at r = fmt_nano x"
  by (frule sql_row_Some) (simp add: rate_inv_def)

interpretation persistent: window_limiter "allowPersistent lim" "rate_view lim" rate_inv "rate_time lim"
  "lim_window lim" "lim_limit lim" second for lim
proof unfold_locales
  fix s now k
  assume inv: "rate_inv s" and now: "rate_time lim now"
  note c = rate_inv_cleanup [OF inv, of lim now]
  obtain t l where tl: "rate_cleanup lim now s = (t, l)" by (cases "rate_cleanup lim now s")
  then have ti: "rate_inv (t, l)" using c by simp
  have p: "printable_time (now + lim_window lim)" using now by (simp add: rate_time_def)
  show "rate_inv (snd (allowPersistent lim k now s))"
    unfolding allowPersistent_def Let_def tl
    using ti p by (auto intro!: rate_inv_update [OF ti] rate_inv_append [OF ti] split: option.splits)
  have new: "fst (allowPersistent lim k now s) \<and>
             rate_view lim (snd (allowPersistent lim k now s)) k = Some (1, now + lim_window lim)"
    if "sql_row (rate_key lim k) t = None \<or>
        (\<exists>row r. sql_row (rate_key lim k) t = Some row \<and> parse_time (rl_reset_at row) = Some r \<and> r < now)"
    using that unfolding allowPersistent_def Let_def tl rate_view_def
    by (auto simp: sql_row_append sql_row_rate_update parse_fmt_nano [OF p] sql_row_def [of _ "[_]"] rate_key_def
             split: option.splits)
  have row: "sql_row (rate_key lim k) t = None \<or> sql_row (rate_key lim k) t = sql_row (rate_key lim k) (fst s)"
    using tl inv by (auto simp: rate_cleanup_def case_prod_beta rate_inv_def sql_row_rate_delete
        split: if_splits option.splits)
  show "fst (allowPersistent lim k now s) \<and>
        rate_view lim (snd (allowPersistent lim k now s)) k = Some (1, now + lim_window lim)"
    if "rate_view lim s k = None"
  proof -
    have "sql_row (rate_key lim k) (fst s) = None"
      using that rate_row_printable [OF inv] parse_fmt_nano
      by (fastforce simp: rate_view_def split: option.splits)
    with row new show ?thesis by auto
  qed
  fix cc r
  assume v: "rate_view lim s k = Some (cc, r)"
  then obtain r0 where r0: "sql_row (rate_key lim k) (fst s) = Some r0" "cc = rl_count r0"
      "parse_time (rl_reset_at r0) = Some r"
    by (auto simp: rate_view_def split: option.splits)
  show "fst (allowPersistent lim k now s) = (cc < lim_limit lim) \<and>
        rate_view lim (snd (allowPersistent lim k now s)) k = Some (if cc < lim_limit lim then cc + 1 else cc, r)"
    if "now \<le> r - second"
  proof -
    have "sql_row (rate_key lim k) t = Some r0"
      using rate_view_cleanup_live [OF inv now v that] tl r0 by simp
    moreover have "\<not> now > r" using that by (simp add: second_def)
    ultimately show ?thesis unfolding allowPersistent_def Let_def tl rate_view_def
      using r0 by (auto simp: sql_row_rate_update)
  qed
  show "rate_view lim (snd (allowPersistent lim k' now s)) k = Some (cc, r)" if "k \<noteq> k'" "now \<le> r - second" for k'
  proof -
    have "sql_row (rate_key lim k) t = Some r0"
      using rate_view_cleanup_live [OF inv now v that(2)] tl r0 by simp
    then show ?thesis unfolding allowPersistent_def Let_def tl rate_view_def
      using r0 that(1) by (auto simp: sql_row_rate_update sql_row_append split: option.splits)
  qed
  show "fst (allowPersistent lim k now s) \<and>
        rate_view lim (snd (allowPersistent lim k now s)) k = Some (1, now + lim_window lim)"
    if "r < now"
    using row new r0 that by auto
qed

end
