(* ===== verification/World.thy ===== *)
theory World
  imports Events RateLimit
begin

text \<open>
  What the hub's operations act on: the database, the random source, the event subscribers, the
  clean-up times of the two persistent limiters, the cached health report, and the host. The
  host is its files, the values of those that hold JSON text, a log of the external actions
  taken (programs run, system calls that may fail) and an oracle that answers each action from
  the log before it; the answer is success
  or failure and the action's output. HTTP requests and responses are values; a response body
  is a JSON object, a text or one of the structures of \<open>Models\<close>.
\<close>

subsection \<open>Paths\<close>

fun clean_parts :: "bool \<Rightarrow> string list \<Rightarrow> string list \<Rightarrow> string list" where
  "clean_parts rooted acc [] = rev acc"
| "clean_parts rooted acc (c # cs) =
     (if c = [] \<or> c = ''.'' then clean_parts rooted acc cs
      else if c = ''..'' then
        (case acc of [] \<Rightarrow> if rooted then clean_parts rooted [] cs else clean_parts rooted [''..''] cs
         | a # r \<Rightarrow> if a = ''..'' then clean_parts rooted (''..'' # acc) cs else clean_parts rooted r cs)
      else clean_parts rooted (c # acc) cs)"

definition path_clean :: "string \<Rightarrow> string" where
  "path_clean p =
     (let rooted = has_prefix p ''/'';
          q = (if rooted then ''/'' else []) @ join ''/'' (clean_parts rooted [] (split_on (CHR ''/'') p))
      in if q = [] then ''.'' else q)"

definition path_join :: "string list \<Rightarrow> string" where
  "path_join es = (let ne = filter (\<lambda>e. e \<noteq> []) es in if ne = [] then [] else path_clean (join ''/'' ne))"

definition path_base :: "string \<Rightarrow> string" where
  "path_base p =
     (if p = [] then ''.''
      else let q = trim_right_chars p ''/'' in if q = [] then ''/'' else last (split_on (CHR ''/'') q))"

subsection \<open>The host\<close>

record host =
  ho_files :: "string \<rightharpoonup> string"
  ho_log :: "string list list"
  ho_answer :: "string list list \<Rightarrow> string list \<Rightarrow> bool \<times> string"
  ho_listening :: "int \<Rightarrow> bool"
  ho_json :: "string \<Rightarrow> json option"  \<comment> \<open>the value of a readable file of valid JSON text\<close>

definition host_do :: "string list \<Rightarrow> host \<Rightarrow> (bool \<times> string) \<times> host" where
  "host_do a h = (ho_answer h (ho_log h) a, h\<lparr>ho_log := ho_log h @ [a]\<rparr>)"

text \<open>\<open>run\<close>: a command, its error carrying the command line and the program's output.\<close>

definition run :: "string list \<Rightarrow> host \<Rightarrow> string option \<times> host" where
  "run cmd h =
     (case host_do cmd h of ((ok, out), h') \<Rightarrow>
        (if ok then None
         else Some (join '' '' cmd @ '': exit status 1: '' @ trim_space out), h'))"

text \<open>A system call whose failure is reported.\<close>

definition os_call :: "string list \<Rightarrow> (host \<Rightarrow> host) \<Rightarrow> host \<Rightarrow> string option \<times> host" where
  "os_call a effect h =
     (case host_do a h of ((ok, out), h') \<Rightarrow> if ok then (None, effect h') else (Some out, h'))"

definition write_file :: "string \<Rightarrow> string \<Rightarrow> host \<Rightarrow> string option \<times> host" where
  "write_file path content =
     os_call [''WriteFile'', path] (\<lambda>h. h\<lparr>ho_files := (ho_files h)(path \<mapsto> content)\<rparr>)"

definition rename_file :: "string \<Rightarrow> string \<Rightarrow> host \<Rightarrow> string option \<times> host" where
  "rename_file src dst =
     os_call [''Rename'', src, dst] (\<lambda>h. h\<lparr>ho_files := (ho_files h)(dst := ho_files h src, src := None)\<rparr>)"

definition file_exists :: "string \<Rightarrow> host \<Rightarrow> bool" where
  "file_exists p h \<longleftrightarrow> ho_files h p \<noteq> None"

text \<open>Run the second step only if the first did not fail.\<close>

definition and_then ::
    "(host \<Rightarrow> string option \<times> host) \<Rightarrow> (host \<Rightarrow> string option \<times> host) \<Rightarrow> host \<Rightarrow> string option \<times> host" where
  "and_then f g h = (case f h of (Some e, h') \<Rightarrow> (Some e, h') | (None, h') \<Rightarrow> g h')"

definition fail_with :: "string option \<Rightarrow> host \<Rightarrow> string option \<times> host" where
  "fail_with e h = (e, h)"

subsection \<open>The state of the hub\<close>

type_synonym report = "(string \<times> json) list list"

record world =
  w_db :: db
  w_rand :: rand
  w_host :: host
  w_broker :: broker
  w_register_cleanup :: instant
  w_login_cleanup :: instant
  w_health :: "report option"

definition with_rand :: "(rand \<Rightarrow> 'a \<times> rand) \<Rightarrow> world \<Rightarrow> 'a \<times> world" where
  "with_rand f w = (case f (w_rand w) of (a, r) \<Rightarrow> (a, w\<lparr>w_rand := r\<rparr>))"

definition on_db :: "(db \<Rightarrow> db) \<Rightarrow> world \<Rightarrow> world" where
  "on_db f w = w\<lparr>w_db := f (w_db w)\<rparr>"

definition on_host :: "(host \<Rightarrow> string option \<times> host) \<Rightarrow> world \<Rightarrow> string option \<times> world" where
  "on_host f w = (case f (w_host w) of (e, h) \<Rightarrow> (e, w\<lparr>w_host := h\<rparr>))"

text \<open>Sequencing of operations that return a value or an error and change the state.\<close>

definition bindE :: "(world \<Rightarrow> ('e + 'a) \<times> world) \<Rightarrow> ('a \<Rightarrow> world \<Rightarrow> ('e + 'b) \<times> world) \<Rightarrow> world \<Rightarrow> ('e + 'b) \<times> world" where
  "bindE f g w = (case f w of (Inl e, w') \<Rightarrow> (Inl e, w') | (Inr a, w') \<Rightarrow> g a w')"

definition publishEvent :: "string \<Rightarrow> string \<Rightarrow> (string \<times> json) list \<Rightarrow> instant \<Rightarrow> world \<Rightarrow> world" where
  "publishEvent typ machineID payload now w =
     (case Publish typ machineID payload now (w_db w, w_broker w) of
        (_, d, b) \<Rightarrow> w\<lparr>w_db := d, w_broker := b\<rparr>)"

subsection \<open>HTTP\<close>

record http_req =
  rq_method :: string
  rq_path :: string
  rq_remote_addr :: string
  rq_headers :: "(string \<times> string) list"
  rq_query :: "(string \<times> string) list"

definition header_get :: "string \<Rightarrow> http_req \<Rightarrow> string" where
  "header_get k r = null_string (map_of (rq_headers r) k)"

definition query_get :: "string \<Rightarrow> http_req \<Rightarrow> string" where
  "query_get k r = null_string (map_of (rq_query r) k)"

record provision_body =
  pb_machine :: Machine
  pb_tunnel :: Tunnel
  pb_hub :: Hub
  pb_agent_token :: string
  pb_admin_pubkeys :: "(string \<times> string \<times> string) list"  \<comment> \<open>label, public key, kind\<close>
  pb_hub_host_keys :: "string list"
  pb_websocket :: "WebSocketTunnelConfig option"

datatype body =
    BText string
  | BJson json
  | BMachine Machine
  | BMachines "MachineWithTunnels list"
  | BItem MachineWithTunnels
  | BHeartbeat HeartbeatResponse
  | BProvision provision_body
  | BReport report

record response =
  rs_status :: nat
  rs_body :: body

definition http_error :: "nat \<Rightarrow> string \<Rightarrow> response" where
  "http_error status msg = \<lparr>rs_status = status, rs_body = BText msg\<rparr>"

definition writeJSON :: "nat \<Rightarrow> (string \<times> json) list \<Rightarrow> response" where
  "writeJSON status v = \<lparr>rs_status = status, rs_body = BJson (JObj v)\<rparr>"

definition writeBody :: "nat \<Rightarrow> body \<Rightarrow> response" where
  "writeBody status b = \<lparr>rs_status = status, rs_body = b\<rparr>"

definition writeErr :: "nat \<Rightarrow> string \<Rightarrow> response" where
  "writeErr status msg = writeJSON status [(''error'', JStr msg)]"

definition writeClientAuthErr :: response where
  "writeClientAuthErr = writeErr 401 ''unauthorized''"

definition resp_field :: "string \<Rightarrow> response \<Rightarrow> json option" where
  "resp_field k r = (case rs_body r of BJson j \<Rightarrow> json_get k j | _ \<Rightarrow> None)"

subsection \<open>Client addresses\<close>

text \<open>\<open>net.SplitHostPort\<close>: the host of \<open>host:port\<close> or \<open>[host]:port\<close>.\<close>

definition last_colon :: "string \<Rightarrow> (string \<times> string) option" where
  "last_colon s = map_option (\<lambda>(a, b). (rev b, rev a)) (cut (CHR '':'') (rev s))"

definition split_host :: "string \<Rightarrow> string option" where
  "split_host s =
     (if has_prefix s ''['' then
        (case cut (CHR '']'') (tl s) of None \<Rightarrow> None
         | Some (h, r) \<Rightarrow> if has_prefix r '':'' \<and> CHR '':'' \<notin> set (tl r) \<and> \<not> contains_any h ''['' \<and> \<not> contains_any (tl r) ''[]''
                          then Some h else None)
      else case last_colon s of None \<Rightarrow> None
         | Some (h, p) \<Rightarrow> if contains_any h '':[]'' \<or> contains_any p ''[]'' then None else Some h)"

text \<open>\<open>net.ParseIP(h).IsLoopback()\<close> on the canonical texts that \<open>net\<close> gives remote addresses.\<close>

definition ipv4_octet :: "string \<Rightarrow> nat option" where
  "ipv4_octet s = (case read_nat s of None \<Rightarrow> None
     | Some n \<Rightarrow> if n \<le> 255 \<and> (length s = 1 \<or> hd s \<noteq> CHR ''0'') then Some n else None)"

definition is_loopback :: "string \<Rightarrow> bool" where
  "is_loopback h \<longleftrightarrow> h = ''::1'' \<or>
     (let os = map ipv4_octet (split_on (CHR ''.'') h)
      in length os = 4 \<and> None \<notin> set os \<and> hd os = Some 127)"

definition clientIP :: "http_req \<Rightarrow> string" where
  "clientIP req =
     (let remoteHost = (case split_host (rq_remote_addr req) of None \<Rightarrow> rq_remote_addr req | Some h \<Rightarrow> h)
      in if is_loopback remoteHost then
           (let real = trim_space (header_get ''X-Real-IP'' req);
                xff = header_get ''X-Forwarded-For'' req
            in if real \<noteq> [] then real
               else if xff \<noteq> [] then
                 (case List.find (\<lambda>p. trim_space p \<noteq> []) (rev (split_on (CHR '','') xff)) of
                    Some p \<Rightarrow> trim_space p | None \<Rightarrow> remoteHost)
               else remoteHost)
         else remoteHost)"

text \<open>The two persistent limiters of the server and the calls that use them.\<close>

definition registerL :: limiter where
  "registerL = \<lparr>lim_window = minute, lim_limit = 3, lim_bucket_name = ''client_register''\<rparr>"

definition loginL :: limiter where
  "loginL = \<lparr>lim_window = minute, lim_limit = 8, lim_bucket_name = ''admin_login''\<rparr>"

definition allow_register :: "string \<Rightarrow> instant \<Rightarrow> world \<Rightarrow> bool \<times> world" where
  "allow_register ip now w =
     (case allowPersistent registerL ip now (db_rate_limits (w_db w), w_register_cleanup w) of
        (ok, t, lc) \<Rightarrow> (ok, w\<lparr>w_db := (w_db w)\<lparr>db_rate_limits := t\<rparr>, w_register_cleanup := lc\<rparr>))"

definition allow_login :: "string \<Rightarrow> instant \<Rightarrow> world \<Rightarrow> bool \<times> world" where
  "allow_login ip now w =
     (case allowPersistent loginL ip now (db_rate_limits (w_db w), w_login_cleanup w) of
        (ok, t, lc) \<Rightarrow> (ok, w\<lparr>w_db := (w_db w)\<lparr>db_rate_limits := t\<rparr>, w_login_cleanup := lc\<rparr>))"

subsection \<open>Frame rules\<close>

lemma on_db_simps [world_simps, simp]:
  "w_db (on_db f w) = f (w_db w)" "w_rand (on_db f w) = w_rand w" "w_host (on_db f w) = w_host w"
  "w_broker (on_db f w) = w_broker w" "w_health (on_db f w) = w_health w"
  by (simp_all add: on_db_def)

lemma with_rand_frame [world_simps]:
  "with_rand f w = (a, w') \<Longrightarrow> w' = w\<lparr>w_rand := w_rand w'\<rparr>"
  by (auto simp: with_rand_def split: prod.splits)

lemma with_rand_db [world_simps]: "with_rand f w = (a, w') \<Longrightarrow> w_db w' = w_db w"
  by (auto simp: with_rand_def split: prod.splits)

lemma publishEvent_db:
  "w_db (publishEvent t i p now w) = (w_db w)\<lparr>db_events := db_events (w_db w) @
      [\<lparr>e_id = db_event_seq (w_db w) + 1, e_type = t, e_machine_id = nullable i, e_payload = p,
        e_created_at = nowUTC now\<rparr>], db_event_seq := db_event_seq (w_db w) + 1\<rparr>"
  by (simp add: publishEvent_def Publish_def Let_def)

lemma publishEvent_frame [world_simps, simp]:
  "w_rand (publishEvent t i p now w) = w_rand w" "w_host (publishEvent t i p now w) = w_host w"
  "w_health (publishEvent t i p now w) = w_health w"
  by (simp_all add: publishEvent_def Publish_def Let_def)

lemma publishEvent_tables [world_simps, simp]:
  "db_machines (w_db (publishEvent t i p now w)) = db_machines (w_db w)"
  "db_tunnels (w_db (publishEvent t i p now w)) = db_tunnels (w_db w)"
  "db_requests (w_db (publishEvent t i p now w)) = db_requests (w_db w)"
  "db_agent_commands (w_db (publishEvent t i p now w)) = db_agent_commands (w_db w)"
  "db_agent_observations (w_db (publishEvent t i p now w)) = db_agent_observations (w_db w)"
  "db_service_tokens (w_db (publishEvent t i p now w)) = db_service_tokens (w_db w)"
  "db_jwt_blacklist (w_db (publishEvent t i p now w)) = db_jwt_blacklist (w_db w)"
  "db_invites (w_db (publishEvent t i p now w)) = db_invites (w_db w)"
  by (simp_all add: publishEvent_db)

lemma publishEvent_wf [wf_intros]: "db_wf (w_db w) \<Longrightarrow> db_wf (w_db (publishEvent t i p now w))"
  using Publish_wf [of "w_db w" t i p now "w_broker w"]
  by (auto simp: publishEvent_def split: prod.splits)

lemma bindE_Inr:
  "bindE f g w = (Inr b, w') \<Longrightarrow> \<exists>a w1. f w = (Inr a, w1) \<and> g a w1 = (Inr b, w')"
  by (auto simp: bindE_def split: prod.splits sum.splits)

lemma clientIP_remote:
  "split_host (rq_remote_addr req) = Some h \<Longrightarrow> \<not> is_loopback h \<Longrightarrow> clientIP req = h"
  by (simp add: clientIP_def)

end
