(* ===== verification/Provisioner.thy ===== *)
theory Provisioner
  imports World
begin

text \<open>
  \<open>provisioner.go\<close>: creating machines with their tunnels, host accounts and ports; the desired
  state machine; the process-title configuration; queries; health checks; expiry. Each
  operation takes the clock as \<open>now\<close> and returns its error or value with the state after it.
  A statement's driver error is the fixed text \<open>constraint_error\<close>.
\<close>

definition constraint_error :: string where "constraint_error = ''constraint failed''"
definition no_rows :: string where "no_rows = ''sql: no rows in result set''"

subsection \<open>Reading machines\<close>

definition GetMachine :: "string \<Rightarrow> db \<Rightarrow> string + Machine" where
  "GetMachine idOrSlug d =
     (case sql_row (\<lambda>m. mr_id m = idOrSlug \<or> mr_slug m = idOrSlug) (db_machines d) of
        None \<Rightarrow> Inl no_rows | Some r \<Rightarrow> Inr (scanMachine r))"

definition GetTunnel :: "string \<Rightarrow> db \<Rightarrow> string + Tunnel" where
  "GetTunnel i d = (case sql_row (\<lambda>t. t_id t = i) (db_tunnels d) of None \<Rightarrow> Inl no_rows | Some t \<Rightarrow> Inr t)"

definition getMachineAndTunnels :: "string \<Rightarrow> db \<Rightarrow> string + (Machine \<times> Tunnel list)" where
  "getMachineAndTunnels idOrSlug d =
     (case GetMachine idOrSlug d of Inl e \<Rightarrow> Inl e
      | Inr m \<Rightarrow> Inr (m, filter (\<lambda>t. t_machine_id t = m_id m) (db_tunnels d)))"

subsection \<open>Ports\<close>

definition getHubTx :: "string \<Rightarrow> db \<Rightarrow> string + Hub" where
  "getHubTx i d = (case sql_row (\<lambda>h. h_id h = i) (db_hubs d) of None \<Rightarrow> Inl no_rows | Some h \<Rightarrow> Inr h)"

definition reservedTunnelPort :: "int \<Rightarrow> bool" where
  "reservedTunnelPort port \<longleftrightarrow>
     (if port = 9300 \<or> port = 9401 \<or> port = 9443 then True else port \<ge> 9163 \<and> port \<le> 9171)"

definition used_ports :: "Hub \<Rightarrow> Tunnel list \<Rightarrow> int list" where
  "used_ports h ts = map t_remote_port
     (filter (\<lambda>t. t_hub_id t = h_id h \<and> t_status t \<noteq> ''retired'' \<and>
                  h_port_start h \<le> t_remote_port t \<and> t_remote_port t \<le> h_port_end h) ts)"

definition allocatePortTx :: "(int \<Rightarrow> bool) \<Rightarrow> Hub \<Rightarrow> Tunnel list \<Rightarrow> string + int" where
  "allocatePortTx portListening h ts =
     (case List.find (\<lambda>p. \<not> (p \<in> set (used_ports h ts) \<or> reservedTunnelPort p \<or> portListening p))
             [h_port_start h .. h_port_end h] of
        Some p \<Rightarrow> Inr p
      | None \<Rightarrow> Inl (''no free ports in hub '' @ h_id h @ '' range '' @ show_int (h_port_start h) @ ''-''
                     @ show_int (h_port_end h)))"

subsection \<open>Host accounts\<close>

definition validateHomePath :: "string \<Rightarrow> string option" where
  "validateHomePath path =
     (let c = path_clean path
      in if \<not> has_prefix c ''/var/lib/rt-'' then Some (''refusing unsafe home path '' @ c)
         else ValidateUnixUser (path_base c))"

definition compact_time :: "instant \<Rightarrow> string" where
  "compact_time t = filter is_digit (fmt t) @ ''Z''"

definition authorizedKeyLine :: "int \<Rightarrow> string \<Rightarrow> string \<Rightarrow> string" where
  "authorizedKeyLine port pubkey expiresAt =
     (let opts = [''restrict'', ''port-forwarding'', ''permitlisten='' @ [dq] @ ''127.0.0.1:'' @ show_int port @ [dq]];
          opts = (if expiresAt \<noteq> [] then
                    (case parse_time expiresAt of None \<Rightarrow> opts
                     | Some t \<Rightarrow> opts @ [''expiry-time='' @ [dq] @ compact_time t @ [dq]])
                  else opts)
      in join '','' opts @ '' '' @ trim_space pubkey)"

definition sshdMatchConfig :: "string \<Rightarrow> int \<Rightarrow> string" where
  "sshdMatchConfig unixUser port =
     concat (map (\<lambda>l. l @ [nl])
       [''# Reach managed reverse tunnel. Do not edit by hand.'',
        ''Match User '' @ unixUser,
        ''    AllowTcpForwarding remote'',
        ''    PermitListen 127.0.0.1:'' @ show_int port,
        ''    PermitOpen none'',
        ''    GatewayPorts no'',
        ''    PermitTTY no'',
        ''    PermitTunnel no'',
        ''    AllowAgentForwarding no'',
        ''    X11Forwarding no'',
        ''    PasswordAuthentication no'',
        ''    KbdInteractiveAuthentication no'',
        ''    ForceCommand /bin/false'',
        ''    ClientAliveInterval 30'',
        ''    ClientAliveCountMax 3''])"

definition account_home :: "Config \<Rightarrow> string \<Rightarrow> string" where
  "account_home cfg unixUser = path_join [cfg_tunnel_home_base cfg, unixUser]"

definition account_conf :: "Config \<Rightarrow> string \<Rightarrow> string" where
  "account_conf cfg unixUser = path_join [cfg_sshd_config_dir cfg, ''90-'' @ unixUser @ ''.conf'']"

definition prefix_error :: "string \<Rightarrow> (host \<Rightarrow> string option \<times> host) \<Rightarrow> host \<Rightarrow> string option \<times> host" where
  "prefix_error p f h = (case f h of (e, h') \<Rightarrow> (map_option (\<lambda>x. p @ x) e, h'))"

definition useradd :: "string \<Rightarrow> string \<Rightarrow> host \<Rightarrow> string option \<times> host" where
  "useradd home unixUser h =
     (case run [''useradd'', ''--system'', ''--shell'', ''/usr/sbin/nologin'', ''--home'', home,
                ''--create-home'', unixUser] h of
        (Some e, h') \<Rightarrow> (if contains e ''already exists'' then None else Some e, h')
      | (None, h') \<Rightarrow> (None, h'))"

definition createSystemAccount :: "Config \<Rightarrow> string \<Rightarrow> int \<Rightarrow> string \<Rightarrow> string \<Rightarrow> host \<Rightarrow> string option \<times> host" where
  "createSystemAccount cfg unixUser port pubkey expiresAt =
     (let home = account_home cfg unixUser;
          sshDir = path_join [home, ''.ssh''];
          ak = path_join [sshDir, ''authorized_keys''];
          owner = unixUser @ '':'' @ unixUser
      in and_then (fail_with (ValidateUnixUser unixUser))
        (and_then (fail_with (validateHomePath home))
        (and_then (useradd home unixUser)
        (and_then (os_call [''MkdirAll'', sshDir] id)
        (and_then (run [''chown'', ''-R'', owner, home])
        (and_then (os_call [''Chmod'', sshDir] id)
        (and_then (write_file ak (authorizedKeyLine port pubkey expiresAt @ [nl]))
        (and_then (run [''chown'', owner, ak])
        (and_then (write_file (account_conf cfg unixUser) (sshdMatchConfig unixUser port))
        (and_then (prefix_error ''sshd -t failed: '' (run [''sshd'', ''-t'']))
           (prefix_error ''reload ssh failed: ''
              (run [''systemctl'', ''reload'', cfg_ssh_service_name cfg]))))))))))))"

text \<open>\<open>killUser\<close>: terminate, poll for at most five seconds (20 polls), then kill.\<close>

fun poll_gone :: "nat \<Rightarrow> string \<Rightarrow> host \<Rightarrow> bool \<times> host" where
  "poll_gone 0 u h = (False, h)"
| "poll_gone (Suc n) u h =
     (case host_do [''pgrep'', ''-u'', u] h of ((ok, _), h') \<Rightarrow> if \<not> ok then (True, h') else poll_gone n u h')"

definition killUser :: "string \<Rightarrow> host \<Rightarrow> string option \<times> host" where
  "killUser unixUser h =
     (case ValidateUnixUser unixUser of Some e \<Rightarrow> (Some e, h)
      | None \<Rightarrow>
        (let h1 = snd (host_do [''pkill'', ''-TERM'', ''-u'', unixUser] h)
         in case poll_gone 20 unixUser h1 of
              (True, h2) \<Rightarrow> (None, h2)
            | (False, h2) \<Rightarrow> (None, snd (host_do [''pkill'', ''-KILL'', ''-u'', unixUser] h2))))"

definition authorized_keys_path :: "Config \<Rightarrow> string \<Rightarrow> string" where
  "authorized_keys_path cfg unixUser = path_join [cfg_tunnel_home_base cfg, unixUser, ''.ssh'', ''authorized_keys'']"

definition disableTunnelAuth :: "Config \<Rightarrow> Tunnel \<Rightarrow> host \<Rightarrow> string option \<times> host" where
  "disableTunnelAuth cfg t h =
     (case ValidateUnixUser (t_unix_user t) of Some e \<Rightarrow> (Some e, h)
      | None \<Rightarrow>
        (let ak = authorized_keys_path cfg (t_unix_user t);
             h1 = (if file_exists ak h then snd (rename_file ak (ak @ ''.disabled'') h) else h)
         in (None, snd (killUser (t_unix_user t) h1))))"

definition enableTunnelAuth :: "Config \<Rightarrow> Tunnel \<Rightarrow> host \<Rightarrow> string option \<times> host" where
  "enableTunnelAuth cfg t h =
     (case ValidateUnixUser (t_unix_user t) of Some e \<Rightarrow> (Some e, h)
      | None \<Rightarrow>
        (let ak = authorized_keys_path cfg (t_unix_user t)
         in if \<not> file_exists ak h \<and> file_exists (ak @ ''.disabled'') h
            then (None, snd (rename_file (ak @ ''.disabled'') ak h)) else (None, h)))"

definition remove_file :: "string \<Rightarrow> host \<Rightarrow> string option \<times> host" where
  "remove_file p h =
     (if \<not> file_exists p h then (None, h)
      else os_call [''Remove'', p] (\<lambda>h. h\<lparr>ho_files := (ho_files h)(p := None)\<rparr>) h)"

definition remove_all :: "string \<Rightarrow> host \<Rightarrow> string option \<times> host" where
  "remove_all p =
     os_call [''RemoveAll'', p]
       (\<lambda>h. h\<lparr>ho_files := (\<lambda>q. if q = p \<or> has_prefix q (p @ ''/'') then None else ho_files h q)\<rparr>)"

definition errs_of :: "string option list \<Rightarrow> string list" where
  "errs_of es = concat (map (\<lambda>e. case e of None \<Rightarrow> [] | Some x \<Rightarrow> [x]) es)"

definition removeTunnelSystem :: "Config \<Rightarrow> string \<Rightarrow> host \<Rightarrow> string option \<times> host" where
  "removeTunnelSystem cfg unixUser h =
     (case ValidateUnixUser unixUser of Some e \<Rightarrow> (Some e, h)
      | None \<Rightarrow>
        (let h1 = snd (killUser unixUser h);
             (e2, h2) = run [''userdel'', unixUser] h1;
             e2 = (case e2 of Some x \<Rightarrow> if contains x ''does not exist'' then None else Some x | None \<Rightarrow> None);
             (e3, h3) = remove_file (account_conf cfg unixUser) h2;
             home = account_home cfg unixUser;
             (e4, h4) = (case validateHomePath home of Some e \<Rightarrow> (Some e, h3) | None \<Rightarrow> remove_all home h3);
             errs = errs_of [e2, e3, e4]
         in (if errs \<noteq> [] then Some (join ''; '' errs) else None, h4)))"

subsection \<open>Commands for agents\<close>

definition new_command :: "string \<Rightarrow> int \<Rightarrow> string \<Rightarrow> json option \<Rightarrow> int \<Rightarrow> instant \<Rightarrow> string \<Rightarrow> AgentCommandInfo" where
  "new_command machineID generation typ payload ttl now i =
     \<lparr>ci_id = i, ci_machine_id = machineID, ci_generation = generation, ci_type = typ,
      ci_payload = payload, ci_status = ''pending'', ci_created_at = nowUTC now, ci_sent_at = None,
      ci_acked_at = None, ci_expires_at = (if ttl > 0 then Some (fmt (now + ttl)) else None),
      ci_last_error = []\<rparr>"

definition QueueCommand :: "string \<Rightarrow> int \<Rightarrow> string \<Rightarrow> json option \<Rightarrow> int \<Rightarrow> instant \<Rightarrow> world \<Rightarrow> (string + unit) \<times> world" where
  "QueueCommand machineID generation typ payload ttl now =
     bindE (with_rand (RandomID ''cmd'')) (\<lambda>i w.
       case insert_command (new_command machineID generation typ payload ttl now i) (w_db w) of
         None \<Rightarrow> (Inl constraint_error, w)
       | Some d \<Rightarrow> (Inr (), w\<lparr>w_db := d\<rparr>))"

text \<open>A queued command is one new pending row; nothing else changes but the random source.\<close>

lemma new_command_simps [simp]:
  "ci_id (new_command m g t p ttl now i) = i" "ci_machine_id (new_command m g t p ttl now i) = m"
  "ci_generation (new_command m g t p ttl now i) = g" "ci_type (new_command m g t p ttl now i) = t"
  "ci_status (new_command m g t p ttl now i) = ''pending''" "ci_payload (new_command m g t p ttl now i) = p"
  "ci_sent_at (new_command m g t p ttl now i) = None" "ci_created_at (new_command m g t p ttl now i) = nowUTC now"
  "ci_expires_at (new_command m g t p ttl now i) = (if ttl > 0 then Some (fmt (now + ttl)) else None)"
  by (simp_all add: new_command_def)

lemma QueueCommand_cases:
  assumes "QueueCommand m g t p ttl now w = (res, w')"
  obtains (error) e r where "res = Inl e" "w' = w\<lparr>w_rand := r\<rparr>"
    | (queued) i r d where "res = Inr ()" "insert_command (new_command m g t p ttl now i) (w_db w) = Some d"
        "w' = w\<lparr>w_rand := r, w_db := d\<rparr>"
proof -
  obtain x r where x: "RandomID ''cmd'' (w_rand w) = (x, r)" by fastforce
  then have w: "with_rand (RandomID ''cmd'') w = (x, w\<lparr>w_rand := r\<rparr>)" by (simp add: with_rand_def)
  show thesis
  proof (cases x)
    case (Inl e)
    then show thesis using assms w error [of e r] by (auto simp: QueueCommand_def bindE_def)
  next
    case (Inr i)
    then show thesis using assms w error [of _ r] queued [of i _ r]
      by (cases "insert_command (new_command m g t p ttl now i) (w_db w)") (auto simp: QueueCommand_def bindE_def)
  qed
qed

end
