(* ===== verification/MachineOps.thy ===== *)
theory MachineOps
  imports Provisioner
begin

text \<open>
  \<open>provisioner.go\<close>, continued: the operations that create a machine, change its desired state, its
  update policy or its process titles, probe tunnels, derive the observed state and expire.
\<close>

subsection \<open>Creating a machine\<close>

record CreateMachineInput =
  in_slug :: string
  in_display_name :: string
  in_target_user :: string
  in_mode :: string
  in_local_port :: int
  in_persistence :: string
  in_distro :: string
  in_arch :: string
  in_pubkey :: string
  in_owner_user_id :: string
  in_hub_id :: string
  in_expires_at :: string

record CreateMachineResult =
  cm_machine :: Machine
  cm_tunnel :: Tunnel
  cm_hub :: Hub
  cm_agent_token :: string

definition normalize_input :: "Config \<Rightarrow> instant \<Rightarrow> CreateMachineInput \<Rightarrow> CreateMachineInput" where
  "normalize_input cfg now i =
     i\<lparr>in_local_port := (if in_local_port i = 0 then 22 else in_local_port i),
       in_mode := (if in_mode i = [] then ''system'' else in_mode i),
       in_hub_id := (if in_hub_id i = [] then hc_id (cfg_default_hub cfg) else in_hub_id i),
       in_expires_at := (if in_expires_at i = [] \<and> cfg_default_expiry cfg > 0
                         then fmt (now + cfg_default_expiry cfg) else in_expires_at i)\<rparr>"

definition new_machine_row :: "string \<Rightarrow> string \<Rightarrow> string \<Rightarrow> CreateMachineInput \<Rightarrow> machine_row" where
  "new_machine_row machineID agentHash now i =
     \<lparr>mr_id = machineID, mr_slug = in_slug i, mr_original_slug = Some (in_slug i),
      mr_display_name = nullable (in_display_name i), mr_target_user = nullable (in_target_user i),
      mr_owner_user_id = nullable (in_owner_user_id i), mr_status = ''provisioning'',
      mr_desired_state = Some DesiredActive, mr_desired_generation = Some 1,
      mr_desired_changed_at = Some now, mr_desired_changed_by = Some ''system'',
      mr_observed_state = Some ObservedUnknown, mr_update_policy = Some ''manual'',
      mr_cleanup_state = Some ''pending'', mr_mode = Some (in_mode i), mr_local_port = in_local_port i,
      mr_persistence = nullable (in_persistence i), mr_distro = nullable (in_distro i),
      mr_arch = nullable (in_arch i), mr_provision_error = None, mr_created_at = now,
      mr_updated_at = Some now, mr_expires_at = nullable (in_expires_at i), mr_disabled_at = None,
      mr_retired_at = None, mr_process_title_config = None, mr_agent_token_hash = Some agentHash\<rparr>"

definition new_tunnel_row :: "string \<Rightarrow> string \<Rightarrow> string \<Rightarrow> string \<Rightarrow> int \<Rightarrow> string \<Rightarrow> CreateMachineInput \<Rightarrow> Tunnel" where
  "new_tunnel_row tunnelID machineID hubID unixUser port now i =
     \<lparr>t_id = tunnelID, t_machine_id = machineID, t_hub_id = hubID, t_unix_user = unixUser,
      t_original_unix_user = Some unixUser, t_remote_port = port, t_original_remote_port = Some port,
      t_tunnel_pubkey = in_pubkey i, t_status = ''offline'', t_last_seen_at = None, t_created_at = now,
      t_expires_at = nullable (in_expires_at i)\<rparr>"

text \<open>The transaction: all of it or, on an error, nothing.\<close>

definition create_tx :: "(int \<Rightarrow> bool) \<Rightarrow> string \<Rightarrow> string \<Rightarrow> string \<Rightarrow> string \<Rightarrow> string \<Rightarrow> CreateMachineInput \<Rightarrow> db \<Rightarrow>
    string + (Hub \<times> int \<times> db)" where
  "create_tx portListening machineID tunnelID unixUser agentHash now i d =
     andThen (getHubTx (in_hub_id i) d) (\<lambda>hub.
     andThen (allocatePortTx portListening hub (db_tunnels d)) (\<lambda>port.
       case insert_machine (new_machine_row machineID agentHash now i) d of
         None \<Rightarrow> Inl constraint_error
       | Some d1 \<Rightarrow>
         (case insert_tunnel (new_tunnel_row tunnelID machineID (h_id hub) unixUser port now i) d1 of
            None \<Rightarrow> Inl constraint_error
          | Some d2 \<Rightarrow>
              Inr (hub, port,
                   if in_owner_user_id i \<noteq> []
                   then insert_grant \<lparr>g_machine_id = machineID, g_user_id = in_owner_user_id i, g_role = ''owner'',
                                      g_expires_at = nullable (in_expires_at i)\<rparr> d2
                   else d2))))"

lemma create_tx_Inr:
  assumes "create_tx pl m t u h now i d = Inr (hub, port, d')"
  obtains d1 d2 where "getHubTx (in_hub_id i) d = Inr hub" "allocatePortTx pl hub (db_tunnels d) = Inr port"
    "insert_machine (new_machine_row m h now i) d = Some d1"
    "insert_tunnel (new_tunnel_row t m (h_id hub) u port now i) d1 = Some d2"
    "d' = (if in_owner_user_id i \<noteq> []
           then insert_grant \<lparr>g_machine_id = m, g_user_id = in_owner_user_id i, g_role = ''owner'',
                              g_expires_at = nullable (in_expires_at i)\<rparr> d2 else d2)"
proof -
  from assms obtain hub' port' where
    h: "getHubTx (in_hub_id i) d = Inr hub'" "allocatePortTx pl hub' (db_tunnels d) = Inr port'"
    unfolding create_tx_def by (auto simp: andThen_Inr)
  then obtain d1 where d1: "insert_machine (new_machine_row m h now i) d = Some d1"
    using assms by (cases "insert_machine (new_machine_row m h now i) d") (simp_all add: create_tx_def)
  then obtain d2 where d2: "insert_tunnel (new_tunnel_row t m (h_id hub') u port' now i) d1 = Some d2"
    using assms h by (cases "insert_tunnel (new_tunnel_row t m (h_id hub') u port' now i) d1")
      (simp_all add: create_tx_def)
  show thesis by (rule that [of d1 d2]) (use assms h d1 d2 in \<open>simp_all add: create_tx_def\<close>)
qed

definition markProvisionFailed :: "string \<Rightarrow> string \<Rightarrow> string \<Rightarrow> instant \<Rightarrow> db \<Rightarrow> db" where
  "markProvisionFailed machineID tunnelID msg now d =
     Audit ''machine.provision_failed'' ''system'' machineID msg now
       (update_tunnels (\<lambda>t. t_id t = tunnelID) (\<lambda>t. t\<lparr>t_status := ''failed''\<rparr>)
       (update_machines (\<lambda>m. mr_id m = machineID)
          (\<lambda>m. m\<lparr>mr_status := ''failed'', mr_provision_error := Some msg, mr_updated_at := Some (nowUTC now)\<rparr>) d))"

definition finish_create :: "string \<Rightarrow> string \<Rightarrow> instant \<Rightarrow> db \<Rightarrow> db" where
  "finish_create machineID details now d =
     Audit ''machine.create'' ''system'' machineID details now
       (update_machines (\<lambda>m. mr_id m = machineID)
          (\<lambda>m. m\<lparr>mr_status := ''offline'', mr_observed_state := Some ObservedOffline,
                 mr_cleanup_state := None, mr_updated_at := Some (nowUTC now)\<rparr>) d)"

definition zero_machine :: Machine where
  "zero_machine = \<lparr>m_id = [], m_slug = [], m_original_slug = None, m_display_name = None, m_target_user = None,
     m_owner_user_id = None, m_status = [], m_desired_state = [], m_observed_state = [], m_desired_generation = 0,
     m_update_policy = [], m_desired_changed_at = None, m_desired_changed_by = None, m_cleanup_state = None,
     m_mode = None, m_local_port = 0, m_persistence = None, m_distro = None, m_arch = None,
     m_provision_error = None, m_created_at = [], m_updated_at = None, m_expires_at = None,
     m_disabled_at = None, m_retired_at = None, m_process_title_config = None\<rparr>"

definition zero_tunnel :: Tunnel where
  "zero_tunnel = \<lparr>t_id = [], t_machine_id = [], t_hub_id = [], t_unix_user = [], t_original_unix_user = None,
     t_remote_port = 0, t_original_remote_port = None, t_tunnel_pubkey = [], t_status = [],
     t_last_seen_at = None, t_created_at = [], t_expires_at = None\<rparr>"

text \<open>A value whose error is discarded: the zero value then.\<close>

definition value_or :: "'a \<Rightarrow> 'e + 'a \<Rightarrow> 'a" where
  "value_or z x = (case x of Inl _ \<Rightarrow> z | Inr v \<Rightarrow> v)"

definition create_checks :: "lib \<Rightarrow> CreateMachineInput \<Rightarrow> string option" where
  "create_checks l i =
     (case ValidateSlug (in_slug i) of Some e \<Rightarrow> Some e | None \<Rightarrow>
     (case ValidateTargetUser (in_target_user i) of Some e \<Rightarrow> Some e | None \<Rightarrow>
     (case ValidateSSHPublicKey l (in_pubkey i) of Inl e \<Rightarrow> Some (''invalid tunnel public key: '' @ e) | Inr _ \<Rightarrow> None)))"

definition provision_account :: "Config \<Rightarrow> string \<Rightarrow> string \<Rightarrow> string \<Rightarrow> int \<Rightarrow> CreateMachineInput \<Rightarrow> instant \<Rightarrow> world \<Rightarrow>
    string option \<times> world" where
  "provision_account cfg machineID tunnelID unixUser port i now w =
     (if \<not> cfg_provisioning_enabled cfg then (None, w)
      else case createSystemAccount cfg unixUser port (in_pubkey i) (in_expires_at i) (w_host w) of
        (None, h) \<Rightarrow> (None, w\<lparr>w_host := h\<rparr>)
      | (Some e, h) \<Rightarrow>
          (Some e, w\<lparr>w_db := markProvisionFailed machineID tunnelID e now (w_db w),
                     w_host := snd (removeTunnelSystem cfg unixUser h)\<rparr>))"

text \<open>Creation once the identifiers and the secret are drawn.\<close>

definition create_with :: "Config \<Rightarrow> CreateMachineInput \<Rightarrow> string \<Rightarrow> string \<Rightarrow> string \<Rightarrow> string \<Rightarrow> string \<Rightarrow> instant \<Rightarrow> world \<Rightarrow>
    (string + CreateMachineResult) \<times> world" where
  "create_with cfg i machineID tunnelID short agentToken agentHash now w =
     (let unixUser = ''rt-'' @ short in
      case create_tx (ho_listening (w_host w)) machineID tunnelID unixUser agentHash (nowUTC now) i (w_db w) of
        Inl e \<Rightarrow> (Inl e, w)
      | Inr (hub, port, d) \<Rightarrow>
        (case provision_account cfg machineID tunnelID unixUser port i now (w\<lparr>w_db := d\<rparr>) of
           (Some e, w') \<Rightarrow> (Inl e, w')
         | (None, w') \<Rightarrow>
           (let w2 = on_db (finish_create machineID
                    (''slug='' @ in_slug i @ '' tunnel='' @ unixUser @ '' port='' @ show_int port) now) w'
            in (Inr \<lparr>cm_machine = value_or zero_machine (GetMachine machineID (w_db w2)),
                     cm_tunnel = value_or zero_tunnel (GetTunnel tunnelID (w_db w2)),
                     cm_hub = hub, cm_agent_token = agentToken\<rparr>, w2))))"

definition CreateMachine :: "lib \<Rightarrow> Config \<Rightarrow> CreateMachineInput \<Rightarrow> instant \<Rightarrow> world \<Rightarrow>
    (string + CreateMachineResult) \<times> world" where
  "CreateMachine l cfg input now w =
     (case create_checks l input of Some e \<Rightarrow> (Inl e, w)
      | None \<Rightarrow>
         bindE (with_rand (RandomID ''m'')) (\<lambda>machineID.
         bindE (with_rand (RandomID ''t'')) (\<lambda>tunnelID.
         bindE (with_rand RandomShortID) (\<lambda>short.
         bindE (with_rand (RandomToken ''at'' 32)) (\<lambda>agentToken.
         bindE (with_rand (HashSecret l agentToken)) (\<lambda>agentHash.
           create_with cfg (normalize_input cfg now input) machineID tunnelID short agentToken agentHash now))))) w)"

lemma bindE_with_rand:
  "bindE (with_rand f) g w = (case f (w_rand w) of (Inl e, r) \<Rightarrow> (Inl e, w\<lparr>w_rand := r\<rparr>)
      | (Inr x, r) \<Rightarrow> g x (w\<lparr>w_rand := r\<rparr>))"
  by (simp add: bindE_def with_rand_def split: prod.split)

text \<open>Every run of \<open>CreateMachine\<close> stops before it writes anything, or is \<open>create_with\<close>.\<close>

lemma CreateMachine_cases:
  assumes "CreateMachine l cfg input now w = (res, w')"
  obtains (refused) e where "res = Inl e" "w' = w" "create_checks l input = Some e"
    | (unlucky) e r where "res = Inl e" "w' = w\<lparr>w_rand := r\<rparr>" "create_checks l input = None"
    | (created) machineID tunnelID short tok h r r1 r2 r4 where "create_checks l input = None"
        "RandomShortID r1 = (Inr short, r2)"
        "create_with cfg (normalize_input cfg now input) machineID tunnelID short tok h now (w\<lparr>w_rand := r\<rparr>) = (res, w')"
        "HashSecret l tok r4 = (Inr h, r)"
proof (cases "create_checks l input")
  case (Some e)
  then show thesis using assms refused [of e] by (auto simp: CreateMachine_def)
next
  case None
  note unlucky = unlucky [OF _ _ None] and created = created [OF None]
  obtain x1 r1 where 1: "RandomID ''m'' (w_rand w) = (x1, r1)" by fastforce
  obtain x2 r2 where 2: "RandomID ''t'' r1 = (x2, r2)" by fastforce
  obtain x3 r3 where 3: "RandomShortID r2 = (x3, r3)" by fastforce
  obtain x4 r4 where 4: "RandomToken ''at'' 32 r3 = (x4, r4)" by fastforce
  note run = assms [unfolded CreateMachine_def None option.case bindE_with_rand 1 prod.case]
  show thesis
  proof (cases x1)
    case (Inl e) then show thesis using run unlucky [of e r1] by simp
  next
    case i1: (Inr a1)
    show thesis
    proof (cases x2)
      case (Inl e) then show thesis using run i1 2 unlucky [of e r2] by simp
    next
      case i2: (Inr a2)
      show thesis
      proof (cases x3)
        case (Inl e) then show thesis using run i1 i2 2 3 unlucky [of e r3] by simp
      next
        case i3: (Inr a3)
        show thesis
        proof (cases x4)
          case (Inl e) then show thesis using run i1 i2 i3 2 3 4 unlucky [of e r4] by simp
        next
          case i4: (Inr a4)
          obtain x5 r5 where 5: "HashSecret l a4 r4 = (x5, r5)" by fastforce
          show thesis
          proof (cases x5)
            case (Inl e) then show thesis using run i1 i2 i3 i4 2 3 4 5 unlucky [of e r5] by simp
          next
            case (Inr a5)
            then show thesis using run i1 i2 i3 i4 2 3 4 5 created [of r2 a3 r3 a1 a2 a4 a5 r5 r4] by simp
          qed
        qed
      qed
    qed
  qed
qed

subsection \<open>Desired state\<close>

definition prov_retiredSlug :: "string \<Rightarrow> string \<Rightarrow> db \<Rightarrow> rand \<Rightarrow> (string + string) \<times> rand" where
  "prov_retiredSlug original machineID d r =
     retired_slug_loop (\<lambda>c. ValidateSlug c = None) 20 (retired_base original) machineID (db_machines d) r"

definition nullif_zero :: "int option \<Rightarrow> int option" where
  "nullif_zero c = (if c = Some 0 then None else c)"

definition retireTunnelRow :: "Tunnel \<Rightarrow> db \<Rightarrow> string option \<times> db" where
  "retireTunnelRow t d =
     (let originalUser = null_string (coalesce (nullif_empty (t_original_unix_user t)) (Some (t_unix_user t)));
          originalPort = the (coalesce (nullif_zero (t_original_remote_port t)) (Some (t_remote_port t)));
          retiredUser = retired_user (t_unix_user t) (t_id t);
          retiredPort = retired_port (t_hub_id t) (t_remote_port t) (db_tunnels d)
      in case update_tunnel_keys (\<lambda>x. t_id x = t_id t)
                (\<lambda>x. x\<lparr>t_status := ''retired'',
                       t_original_unix_user := coalesce (nullif_empty (t_original_unix_user x)) (Some originalUser),
                       t_original_remote_port := coalesce (nullif_zero (t_original_remote_port x)) (Some originalPort),
                       t_unix_user := retiredUser, t_remote_port := retiredPort\<rparr>) d of
           None \<Rightarrow> (Some constraint_error, d)
         | Some d' \<Rightarrow> (None, d'))"

text \<open>Results that \<open>_ =\<close> discards: the state after the operation.\<close>

definition each_tunnel :: "(Tunnel \<Rightarrow> host \<Rightarrow> string option \<times> host) \<Rightarrow> Tunnel list \<Rightarrow> world \<Rightarrow> world" where
  "each_tunnel f ts w = w\<lparr>w_host := foldl (\<lambda>h t. snd (f t h)) (w_host w) ts\<rparr>"

definition queueCmd :: "string \<Rightarrow> int \<Rightarrow> string \<Rightarrow> json option \<Rightarrow> int \<Rightarrow> instant \<Rightarrow> world \<Rightarrow> world" where
  "queueCmd machineID gen typ payload ttl now w = snd (QueueCommand machineID gen typ payload ttl now w)"

definition set_desired :: "string \<Rightarrow> int \<Rightarrow> string \<Rightarrow> string \<Rightarrow> machine_row \<Rightarrow> machine_row" where
  "set_desired desired gen now actor m =
     m\<lparr>mr_desired_state := Some desired, mr_desired_generation := Some gen, mr_desired_changed_at := Some now,
       mr_desired_changed_by := Some actor, mr_updated_at := Some now\<rparr>"

definition desired_active :: "Config \<Rightarrow> Machine \<Rightarrow> Tunnel list \<Rightarrow> string \<Rightarrow> instant \<Rightarrow> world \<Rightarrow> world" where
  "desired_active cfg m ts actor now w =
     (let gen = m_desired_generation m + 1;
          w1 = each_tunnel (enableTunnelAuth cfg) ts w;
          w2 = on_db (update_machines (\<lambda>r. mr_id r = m_id m) (\<lambda>r.
                 (set_desired DesiredActive gen (nowUTC now) actor r)
                   \<lparr>mr_status := (if mr_observed_state r = Some ''online'' then ''online'' else ''offline''),
                    mr_disabled_at := None, mr_cleanup_state := None\<rparr>)) w1;
          w3 = on_db (update_tunnels (\<lambda>t. t_machine_id t = m_id m \<and> t_status t = ''disabled'')
                 (\<lambda>t. t\<lparr>t_status := ''offline''\<rparr>)) w2;
          w4 = queueCmd (m_id m) gen ''sync_keys'' (Some (JObj [(''enabled'', JBool True)])) hour now w3
      in queueCmd (m_id m) gen ''start_tunnel'' None hour now w4)"

definition desired_disabled :: "Config \<Rightarrow> Machine \<Rightarrow> Tunnel list \<Rightarrow> string \<Rightarrow> instant \<Rightarrow> world \<Rightarrow> world" where
  "desired_disabled cfg m ts actor now w =
     (let gen = m_desired_generation m + 1;
          w1 = each_tunnel (disableTunnelAuth cfg) ts w;
          w2 = on_db (update_machines (\<lambda>r. mr_id r = m_id m) (\<lambda>r.
                 (set_desired DesiredDisabled gen (nowUTC now) actor r)
                   \<lparr>mr_status := ''disabled'', mr_disabled_at := Some (nowUTC now), mr_cleanup_state := None\<rparr>)) w1;
          w3 = on_db (update_tunnels (\<lambda>t. t_machine_id t = m_id m) (\<lambda>t. t\<lparr>t_status := ''disabled''\<rparr>)) w2;
          w4 = queueCmd (m_id m) gen ''stop_tunnel'' None hour now w3
      in queueCmd (m_id m) gen ''sync_keys'' (Some (JObj [(''enabled'', JBool False)])) hour now w4)"

definition uninstall_payload :: json where
  "uninstall_payload = JObj [(''remove_agent'', JBool True), (''remove_config'', JBool True),
     (''remove_data'', JBool True), (''remove_admin_keys'', JBool True), (''stop_local_user_sshd'', JBool True)]"

definition desired_retiring :: "Config \<Rightarrow> Machine \<Rightarrow> Tunnel list \<Rightarrow> string \<Rightarrow> instant \<Rightarrow> world \<Rightarrow> world" where
  "desired_retiring cfg m ts actor now w =
     (let gen = m_desired_generation m + 1;
          w1 = each_tunnel (disableTunnelAuth cfg) ts w;
          w2 = on_db (update_machines (\<lambda>r. mr_id r = m_id m) (\<lambda>r.
                 (set_desired DesiredRetiring gen (nowUTC now) actor r)
                   \<lparr>mr_status := ''retiring'', mr_cleanup_state := Some ''pending''\<rparr>)) w1;
          w3 = on_db (update_tunnels (\<lambda>t. t_machine_id t = m_id m) (\<lambda>t. t\<lparr>t_status := ''disabled''\<rparr>)) w2
      in queueCmd (m_id m) gen ''uninstall'' (Some uninstall_payload) (24 * hour) now w3)"

fun retire_tunnels :: "Config \<Rightarrow> Tunnel list \<Rightarrow> world \<Rightarrow> world" where
  "retire_tunnels cfg [] w = w"
| "retire_tunnels cfg (t # ts) w =
     (let cleanupUser = null_string (coalesce (nullif_empty (t_original_unix_user t)) (Some (t_unix_user t)));
          w1 = (if t_status t \<noteq> ''retired'' then snd (on_host (removeTunnelSystem cfg cleanupUser) w) else w)
      in retire_tunnels cfg ts (on_db (\<lambda>d. snd (retireTunnelRow t d)) w1))"

definition desired_retired :: "Config \<Rightarrow> Machine \<Rightarrow> Tunnel list \<Rightarrow> string \<Rightarrow> instant \<Rightarrow> world \<Rightarrow> (string + unit) \<times> world" where
  "desired_retired cfg m ts actor now w =
     (let gen = m_desired_generation m + 1;
          original = null_string (coalesce (nullif_empty (m_original_slug m)) (Some (m_slug m)));
          w1 = retire_tunnels cfg ts w
      in bindE (with_rand (prov_retiredSlug original (m_id m) (w_db w1))) (\<lambda>slug w2.
           case update_machine_keys (\<lambda>r. mr_id r = m_id m) (\<lambda>r.
                  (set_desired DesiredRetired gen (nowUTC now) actor r)
                    \<lparr>mr_slug := slug,
                     mr_original_slug := coalesce (nullif_empty (mr_original_slug r)) (Some original),
                     mr_status := ''retired'',
                     mr_cleanup_state := coalesce (mr_cleanup_state r) (Some ''server-only''),
                     mr_retired_at := coalesce (mr_retired_at r) (Some (nowUTC now))\<rparr>) (w_db w2) of
             None \<Rightarrow> (Inl constraint_error, w2)
           | Some d \<Rightarrow> (Inr (), w2\<lparr>w_db := d\<rparr>)) w1)"

definition desired_step :: "Config \<Rightarrow> Machine \<Rightarrow> Tunnel list \<Rightarrow> string \<Rightarrow> string \<Rightarrow> instant \<Rightarrow> world \<Rightarrow> (string + unit) \<times> world" where
  "desired_step cfg m ts desired actor now w =
     (if desired = DesiredActive then (Inr (), desired_active cfg m ts actor now w)
      else if desired = DesiredDisabled then (Inr (), desired_disabled cfg m ts actor now w)
      else if desired = DesiredRetiring then (Inr (), desired_retiring cfg m ts actor now w)
      else if desired = DesiredRetired then desired_retired cfg m ts actor now w
      else (Inl (''invalid desired state '' @ go_quote desired), w))"

definition SetDesiredState :: "Config \<Rightarrow> string \<Rightarrow> string \<Rightarrow> string \<Rightarrow> instant \<Rightarrow> world \<Rightarrow> (string + Machine) \<times> world" where
  "SetDesiredState cfg idOrSlug desired actor now w =
     (case getMachineAndTunnels idOrSlug (w_db w) of Inl e \<Rightarrow> (Inl e, w)
      | Inr (m, ts) \<Rightarrow>
        (case desired_step cfg m ts desired actor now w of
           (Inl e, w') \<Rightarrow> (Inl e, w')
         | (Inr _, w') \<Rightarrow>
             (let w2 = on_db (Audit (''machine.desired.'' @ desired) actor (m_id m) [] now) w'
              in (GetMachine (m_id m) (w_db w2), w2))))"

definition DisableMachine :: "Config \<Rightarrow> string \<Rightarrow> string \<Rightarrow> instant \<Rightarrow> world \<Rightarrow> (string + Machine) \<times> world" where
  "DisableMachine cfg i actor = SetDesiredState cfg i DesiredDisabled actor"

definition EnableMachine :: "Config \<Rightarrow> string \<Rightarrow> string \<Rightarrow> instant \<Rightarrow> world \<Rightarrow> (string + Machine) \<times> world" where
  "EnableMachine cfg i actor = SetDesiredState cfg i DesiredActive actor"

definition RemoveMachine :: "Config \<Rightarrow> string \<Rightarrow> string \<Rightarrow> instant \<Rightarrow> world \<Rightarrow> (string + Machine) \<times> world" where
  "RemoveMachine cfg i actor = SetDesiredState cfg i DesiredRetiring actor"

definition RetireMachineNow :: "Config \<Rightarrow> string \<Rightarrow> string \<Rightarrow> instant \<Rightarrow> world \<Rightarrow> (string + Machine) \<times> world" where
  "RetireMachineNow cfg i actor = SetDesiredState cfg i DesiredRetired actor"

end
