(* ===== verification/Updates.thy ===== *)
theory Updates
  imports MachineOps
begin

text \<open>
  \<open>updates.go\<close>: which agent version is the latest, the hint agents get, and the update commands the
  hub queues on an administrator's request or by a machine's policy.
\<close>

definition UpdatePolicyManual :: string where "UpdatePolicyManual = ''manual''"
definition UpdatePolicyAuto :: string where "UpdatePolicyAuto = ''auto''"
definition UpdatePolicyDisabled :: string where "UpdatePolicyDisabled = ''disabled''"

lemmas policy_defs = UpdatePolicyManual_def UpdatePolicyAuto_def UpdatePolicyDisabled_def

datatype update_error = NoAgentUpdateAvailable | UpdateAlreadyQueued | UpdateFailed string

record agentUpdateRelease =
  ar_version :: string
  ar_api_url :: string

definition normalizeUpdatePolicy :: "string \<Rightarrow> string + string" where
  "normalizeUpdatePolicy policy =
     (let p = to_lower (trim_space policy)
      in if p = [] \<or> p = UpdatePolicyManual then Inr UpdatePolicyManual
         else if p = UpdatePolicyAuto then Inr UpdatePolicyAuto
         else if p = UpdatePolicyDisabled then Inr UpdatePolicyDisabled
         else Inl (''invalid update_policy '' @ go_quote policy))"

text \<open>\<open>json.Unmarshal\<close> into a release: members whose name matches a field in any case and whose
  value is a text are stored, in their order; every other member changes nothing.\<close>

definition unmarshal_release :: "json option \<Rightarrow> agentUpdateRelease \<Rightarrow> agentUpdateRelease" where
  "unmarshal_release j rel =
     (case j of Some (JObj ms) \<Rightarrow>
        foldl (\<lambda>r (k, v). case v of
            JStr s \<Rightarrow> if equal_fold k ''version'' then r\<lparr>ar_version := s\<rparr>
                      else if equal_fold k ''api_url'' then r\<lparr>ar_api_url := s\<rparr> else r
          | _ \<Rightarrow> r) rel ms
      | _ \<Rightarrow> rel)"

definition latestAgentUpdate :: "Config \<Rightarrow> host \<Rightarrow> agentUpdateRelease option" where
  "latestAgentUpdate cfg h =
     (let au = cfg_agent_updates cfg
      in if \<not> au_enabled au then None
         else let rel = \<lparr>ar_version = trim_space (au_latest_version au), ar_api_url = trim_space (au_api_url au)\<rparr>;
                  rel = (if ar_version rel = [] \<and> au_manifest_path au \<noteq> []
                         then (case ho_json h (au_manifest_path au) of
                                 None \<Rightarrow> rel
                               | j \<Rightarrow> (let r = unmarshal_release j rel
                                      in \<lparr>ar_version = trim_space (ar_version r), ar_api_url = trim_space (ar_api_url r)\<rparr>))
                         else rel)
              in if ar_version rel = [] then None
                 else Some (if ar_api_url rel = []
                            then rel\<lparr>ar_api_url := trim_space (hc_api_url (cfg_default_hub cfg))\<rparr> else rel))"

definition agentUpdateHintFor :: "Config \<Rightarrow> host \<Rightarrow> string \<Rightarrow> AgentUpdateHint option" where
  "agentUpdateHintFor cfg h current =
     (case latestAgentUpdate cfg h of None \<Rightarrow> None
      | Some rel \<Rightarrow>
        (let current = trim_space current;
             base = trim_right_chars (ar_api_url rel) ''/'' @ ''/downloads/reach-agent/v'' @ ar_version rel
         in Some \<lparr>uh_available = (current \<noteq> [] \<and> current \<noteq> ar_version rel), uh_current = current,
                  uh_latest = ar_version rel, uh_url = base, uh_sha256 = [], uh_required = False\<rparr>))"

definition updateAgentPayload :: "agentUpdateRelease \<Rightarrow> json" where
  "updateAgentPayload rel =
     JObj ((''version'', JStr (ar_version rel)) #
           (if ar_api_url rel \<noteq> [] then [(''api_url'', JStr (ar_api_url rel))] else []))"

definition not_expired :: "string \<Rightarrow> AgentCommandInfo \<Rightarrow> bool" where
  "not_expired now c \<longleftrightarrow> (case ci_expires_at c of None \<Rightarrow> True | Some e \<Rightarrow> e > now)"

definition open_update :: "string \<Rightarrow> string \<Rightarrow> AgentCommandInfo \<Rightarrow> bool" where
  "open_update machineID now c \<longleftrightarrow> ci_machine_id c = machineID \<and> ci_type c = ''update_agent'' \<and>
     ci_status c \<in> {''pending'', ''sent''} \<and> not_expired now c"

definition hasOpenUpdateCommand :: "string \<Rightarrow> instant \<Rightarrow> db \<Rightarrow> bool" where
  "hasOpenUpdateCommand machineID now d \<longleftrightarrow> (\<exists>c \<in> set (db_agent_commands d). open_update machineID (nowUTC now) c)"

definition hasRecentUpdateCommand :: "string \<Rightarrow> instant \<Rightarrow> db \<Rightarrow> bool" where
  "hasRecentUpdateCommand machineID since d \<longleftrightarrow>
     (\<exists>c \<in> set (db_agent_commands d). ci_machine_id c = machineID \<and> ci_type c = ''update_agent'' \<and>
        ci_created_at c > fmt since)"

definition queueAgentUpdate ::
    "Config \<Rightarrow> Machine \<Rightarrow> string \<Rightarrow> string \<Rightarrow> instant \<Rightarrow> world \<Rightarrow> update_error option \<times> world" where
  "queueAgentUpdate cfg m actor reason now w =
     (if m_update_policy m = UpdatePolicyDisabled
      then (Some (UpdateFailed ''agent updates are disabled for this machine''), w)
      else case latestAgentUpdate cfg (w_host w) of
        None \<Rightarrow> (Some NoAgentUpdateAvailable, w)
      | Some rel \<Rightarrow>
          if hasOpenUpdateCommand (m_id m) now (w_db w) then (Some UpdateAlreadyQueued, w)
          else case QueueCommand (m_id m) (m_desired_generation m) ''update_agent''
                      (Some (updateAgentPayload rel)) (24 * hour) now w of
            (Inl e, w') \<Rightarrow> (Some (UpdateFailed e), w')
          | (Inr _, w') \<Rightarrow>
              (None, publishEvent ''agent.update_queued'' (m_id m)
                 [(''machine_id'', JStr (m_id m)), (''version'', JStr (ar_version rel)), (''reason'', JStr reason)] now
                 (on_db (Audit ''machine.agent_update.queue'' (if actor = [] then ''system'' else actor) (m_id m)
                          (''version='' @ ar_version rel @ '' reason='' @ reason) now) w')))"

definition maybeQueueAutoAgentUpdate :: "Config \<Rightarrow> Machine \<Rightarrow> AgentHeartbeat \<Rightarrow> instant \<Rightarrow> world \<Rightarrow> world" where
  "maybeQueueAutoAgentUpdate cfg m hb now w =
     (if m_update_policy m \<noteq> UpdatePolicyAuto \<or> m_desired_state m = DesiredRetired \<or> m_desired_state m = DesiredRetiring
      then w
      else if \<not> cap_self_update (hb_capabilities hb) then w
      else case latestAgentUpdate cfg (w_host w) of
        None \<Rightarrow> w
      | Some rel \<Rightarrow>
          if trim_space (hb_agent_version hb) = ar_version rel then w
          else if hasRecentUpdateCommand (m_id m) (now - 6 * hour) (w_db w) then w
          else snd (queueAgentUpdate cfg m ''system'' ''auto_policy'' now w))"


end
