(* ===== verification/Utf8.thy ===== *)
theory Utf8
  imports GoStrings
begin

text \<open>
  \<open>unicode/utf8\<close> as the program uses it, and the truncation of process titles at a rune boundary
  (\<open>truncateProcessTitleUTF8Bytes\<close> of \<open>provisioner.go\<close>).
\<close>

definition cont_byte :: "nat \<Rightarrow> bool" where
  "cont_byte b \<longleftrightarrow> 128 \<le> b \<and> b \<le> 191"

text \<open>The length of the rune at the head of the text; \<open>None\<close> if the bytes there encode none.\<close>

definition rune_len :: "nat list \<Rightarrow> nat option" where
  "rune_len s =
     (case s of [] \<Rightarrow> None
      | a # r \<Rightarrow>
        if a < 128 then Some 1
        else if 194 \<le> a \<and> a \<le> 223 then
          (case r of b # _ \<Rightarrow> if cont_byte b then Some 2 else None | _ \<Rightarrow> None)
        else if 224 \<le> a \<and> a \<le> 239 then
          (case r of b # c # _ \<Rightarrow>
             if (if a = 224 then 160 else 128) \<le> b \<and> b \<le> (if a = 237 then 159 else 191) \<and> cont_byte c
             then Some 3 else None | _ \<Rightarrow> None)
        else if 240 \<le> a \<and> a \<le> 244 then
          (case r of b # c # d # _ \<Rightarrow>
             if (if a = 240 then 144 else 128) \<le> b \<and> b \<le> (if a = 244 then 143 else 191) \<and> cont_byte c \<and> cont_byte d
             then Some 4 else None | _ \<Rightarrow> None)
        else None)"

lemma rune_len_bounds: "rune_len s = Some n \<Longrightarrow> 1 \<le> n \<and> n \<le> 4 \<and> n \<le> length s"
  by (auto simp: rune_len_def split: list.splits if_splits)

function valid_bytes :: "nat list \<Rightarrow> bool" where
  "valid_bytes s =
     (if s = [] then True
      else case rune_len s of None \<Rightarrow> False | Some n \<Rightarrow> valid_bytes (drop n s))"
  by auto
termination
proof (relation "measure length")
  fix s :: "nat list" and n
  assume "s \<noteq> []" "rune_len s = Some n"
  then show "(drop n s, s) \<in> measure length" using rune_len_bounds [of s n] by auto
qed simp

declare valid_bytes.simps [simp del]

definition valid_utf8 :: "string \<Rightarrow> bool" where
  "valid_utf8 s = valid_bytes (map ord s)"

text \<open>\<open>utf8.DecodeLastRuneInString\<close>: the size of the last rune, 1 for bytes that end in none.\<close>

definition rune_start :: "nat \<Rightarrow> bool" where
  "rune_start b \<longleftrightarrow> \<not> cont_byte b"

definition last_rune_size :: "nat list \<Rightarrow> nat" where
  "last_rune_size s =
     (if s = [] then 0
      else if last s < 128 then 1
      else case List.find (\<lambda>k. rune_start (s ! (length s - k))) [2 ..< Suc (min 4 (length s))] of
             None \<Rightarrow> 1
           | Some k \<Rightarrow> if rune_len (drop (length s - k) s) = Some k then k else 1)"

function trunc_loop :: "string \<Rightarrow> nat \<Rightarrow> string" where
  "trunc_loop s mx =
     (if mx > 0 \<and> \<not> valid_utf8 (take mx s)
      then (let size = last_rune_size (map ord (take mx s))
            in if size = 0 \<or> size > mx then trunc_loop s (mx - 1) else trunc_loop s (mx - size))
      else take mx s)"
  by auto
termination
  by (relation "measure snd") (auto simp: Let_def)

declare trunc_loop.simps [simp del]

definition truncateProcessTitleUTF8Bytes :: "string \<Rightarrow> nat \<Rightarrow> string" where
  "truncateProcessTitleUTF8Bytes s mx =
     (if mx = 0 then [] else if length s \<le> mx then s else trunc_loop s mx)"

subsection \<open>Facts\<close>

lemma valid_Nil [simp]: "valid_bytes []" "valid_utf8 []"
  by (simp_all add: valid_utf8_def valid_bytes.simps)

lemma trunc_loop_valid: "valid_utf8 (trunc_loop s mx)"
proof (induction s mx rule: trunc_loop.induct)
  case (1 s mx)
  then show ?case by (subst trunc_loop.simps) (auto simp: Let_def)
qed

lemma trunc_loop_prefix: "\<exists>n \<le> mx. trunc_loop s mx = take n s"
proof (induction s mx rule: trunc_loop.induct)
  case (1 s mx)
  show ?case
  proof (cases "mx > 0 \<and> \<not> valid_utf8 (take mx s)")
    case True
    define size where "size = last_rune_size (map ord (take mx s))"
    show ?thesis
    proof (cases "size = 0 \<or> size > mx")
      case bad: True
      then have "trunc_loop s mx = trunc_loop s (mx - 1)"
        using True by (subst trunc_loop.simps) (auto simp: size_def Let_def)
      moreover obtain n where "n \<le> mx - 1" "trunc_loop s (mx - 1) = take n s"
        using 1(1) [OF True size_def bad] by blast
      ultimately show ?thesis by (intro exI [of _ n]) auto
    next
      case good: False
      then have "trunc_loop s mx = trunc_loop s (mx - size)"
        using True by (subst trunc_loop.simps) (auto simp: size_def Let_def)
      moreover obtain n where "n \<le> mx - size" "trunc_loop s (mx - size) = take n s"
        using 1(2) [OF True size_def good] by blast
      ultimately show ?thesis by (intro exI [of _ n]) auto
    qed
  next
    case False
    then have "trunc_loop s mx = take mx s" by (subst trunc_loop.simps) auto
    then show ?thesis by blast
  qed
qed

lemma truncate_length: "length (truncateProcessTitleUTF8Bytes s mx) \<le> mx"
proof -
  obtain n where "n \<le> mx" "trunc_loop s mx = take n s" using trunc_loop_prefix by blast
  then show ?thesis by (simp add: truncateProcessTitleUTF8Bytes_def)
qed

lemma truncate_valid: "mx < length s \<Longrightarrow> valid_utf8 (truncateProcessTitleUTF8Bytes s mx)"
  by (simp add: truncateProcessTitleUTF8Bytes_def trunc_loop_valid)

lemma truncate_prefix: "\<exists>t. s = truncateProcessTitleUTF8Bytes s mx @ t"
proof -
  obtain n where "trunc_loop s mx = take n s" using trunc_loop_prefix by blast
  then show ?thesis by (auto simp: truncateProcessTitleUTF8Bytes_def) (metis append_take_drop_id)
qed

end
