(* ===== verification/Monitoring.thy ===== *)
theory Monitoring
  imports Updates Utf8
begin

text \<open>
  \<open>provisioner.go\<close>, concluded: the update policy and the process titles of a machine, the list of
  all machines, the probes of tunnels, the observed state they and the heartbeats determine,
  and expiry. The loops that run probes and expiry on a ticker are not modelled. The text of an
  error of the duration parser is fixed.
\<close>

subsection \<open>Policy and process titles\<close>

definition SetUpdatePolicy :: "string \<Rightarrow> string \<Rightarrow> string \<Rightarrow> instant \<Rightarrow> world \<Rightarrow> (string + Machine) \<times> world" where
  "SetUpdatePolicy idOrSlug policy actor now w =
     (case normalizeUpdatePolicy policy of Inl e \<Rightarrow> (Inl e, w)
      | Inr p \<Rightarrow>
        (case GetMachine idOrSlug (w_db w) of Inl e \<Rightarrow> (Inl e, w)
         | Inr m \<Rightarrow>
           (let w1 = on_db (update_machines (\<lambda>r. mr_id r = m_id m)
                       (\<lambda>r. r\<lparr>mr_update_policy := Some p, mr_updated_at := Some (nowUTC now)\<rparr>)) w;
                w2 = on_db (Audit ''machine.update_policy.update'' actor (m_id m) (''policy='' @ p) now) w1
            in (GetMachine (m_id m) (w_db w2), w2))))"

definition maxProcessTitleConfigBytes :: nat where "maxProcessTitleConfigBytes = 4096"

definition clean_title :: "string \<Rightarrow> string" where
  "clean_title t = trim_space (replace_char (CHR 0x00) '' '' t)"

definition cap_title :: "string \<Rightarrow> string" where
  "cap_title t = (if length t > maxProcessTitleConfigBytes
                  then truncateProcessTitleUTF8Bytes t maxProcessTitleConfigBytes else t)"

definition normalizeDesiredProcessTitleConfig :: "ProcessTitleConfig \<Rightarrow> string + ProcessTitleConfig option" where
  "normalizeDesiredProcessTitleConfig cfg =
     (let rotate = trim_space (pt_rotate cfg);
          title = (if pt_title cfg \<noteq> [] then cap_title (clean_title (pt_title cfg)) else []);
          titles = map cap_title (filter (\<lambda>t. t \<noteq> []) (map clean_title (pt_titles cfg)));
          out = \<lparr>pt_title = title, pt_titles = titles, pt_rotate = rotate\<rparr>;
          rotate_error = (if rotate = [] then None
                          else case parse_duration rotate of None \<Rightarrow> Some ''rotate_interval: time: invalid duration''
                               | Some d \<Rightarrow> if d < second then Some ''rotate_interval must be at least 1s'' else None)
      in if titles = [] \<and> title = [] then Inr None
         else case rotate_error of Some e \<Rightarrow> Inl e
              | None \<Rightarrow> if length titles > 20 then Inl ''process_titles may contain at most 20 titles''
                        else Inr (Some out))"

definition SetProcessTitleConfig ::
    "string \<Rightarrow> ProcessTitleConfig option \<Rightarrow> string \<Rightarrow> instant \<Rightarrow> world \<Rightarrow> (string + Machine) \<times> world" where
  "SetProcessTitleConfig idOrSlug cfg actor now w =
     (case GetMachine idOrSlug (w_db w) of Inl e \<Rightarrow> (Inl e, w)
      | Inr m \<Rightarrow>
        (case (case cfg of None \<Rightarrow> Inr None | Some c \<Rightarrow> normalizeDesiredProcessTitleConfig c) of
           Inl e \<Rightarrow> (Inl e, w)
         | Inr raw \<Rightarrow>
           (let gen = m_desired_generation m + 1;
                w1 = on_db (update_machines (\<lambda>r. mr_id r = m_id m)
                       (\<lambda>r. r\<lparr>mr_process_title_config := raw, mr_desired_generation := Some gen,
                              mr_desired_changed_at := Some (nowUTC now), mr_desired_changed_by := Some actor,
                              mr_updated_at := Some (nowUTC now)\<rparr>)) w;
                w2 = on_db (Audit ''machine.process_title.update'' actor (m_id m) [] now) w1
            in (GetMachine (m_id m) (w_db w2), w2))))"

subsection \<open>The list of machines\<close>

text \<open>\<open>ORDER BY k DESC\<close>, rows with equal keys in rowid order.\<close>

definition sort_desc :: "('a \<Rightarrow> 'k :: linorder) \<Rightarrow> 'a list \<Rightarrow> 'a list" where
  "sort_desc k xs = rev (sort_key k (rev xs))"

definition loadAgentObservations :: "db \<Rightarrow> string \<rightharpoonup> AgentObservation" where
  "loadAgentObservations d = foldl (\<lambda>m a. m(ao_machine_id a \<mapsto> a)) Map.empty (db_agent_observations d)"

definition loadHubObservations :: "db \<Rightarrow> string \<rightharpoonup> HubObservation" where
  "loadHubObservations d = foldl (\<lambda>m h. m(ho_machine_id h \<mapsto> h)) Map.empty (db_hub_observations d)"

definition loadOpenCommands :: "db \<Rightarrow> string \<Rightarrow> AgentCommandInfo list" where
  "loadOpenCommands d i =
     filter (\<lambda>c. ci_machine_id c = i)
       (sort_key ci_created_at (filter (\<lambda>c. ci_status c \<in> {''pending'', ''sent'', ''failed''}) (db_agent_commands d)))"

definition machine_item :: "Config \<Rightarrow> host \<Rightarrow> db \<Rightarrow> Machine \<Rightarrow> MachineWithTunnels" where
  "machine_item cfg h d m =
     \<lparr>mt_machine = m, mt_tunnels = filter (\<lambda>t. t_machine_id t = m_id m) (sort_key t_created_at (db_tunnels d)),
      mt_agent = loadAgentObservations d (m_id m), mt_hub_observation = loadHubObservations d (m_id m),
      mt_commands = loadOpenCommands d (m_id m),
      mt_update = (case loadAgentObservations d (m_id m) of None \<Rightarrow> None
                   | Some a \<Rightarrow> agentUpdateHintFor cfg h (ao_agent_version a))\<rparr>"

definition ListMachines :: "Config \<Rightarrow> host \<Rightarrow> db \<Rightarrow> MachineWithTunnels list" where
  "ListMachines cfg h d = map (machine_item cfg h d) (map scanMachine (sort_desc mr_created_at (db_machines d)))"

subsection \<open>The observed state\<close>

definition latest_probe :: "string \<Rightarrow> db \<Rightarrow> string" where
  "latest_probe machineID d =
     (case sort_desc ho_last_probe_at (filter (\<lambda>h. ho_machine_id h = machineID) (db_hub_observations d)) of
        [] \<Rightarrow> [] | h # _ \<Rightarrow> ho_probe_state h)"

definition observed_of :: "Config \<Rightarrow> instant \<Rightarrow> AgentObservation option \<Rightarrow> string \<Rightarrow> string" where
  "observed_of cfg now agent probe =
     (let probeReachable = (probe = ''reachable''); probeUnreachable = (probe = ''unreachable'')
      in case agent of
           None \<Rightarrow> if probeReachable then ObservedDegraded else ObservedUnknown
         | Some a \<Rightarrow>
           (let stale = (case parse_time (ao_heartbeat_at a) of None \<Rightarrow> True
                         | Some t \<Rightarrow> now - t > cfg_offline_after cfg * 2)
            in if stale \<and> probeReachable then ObservedDegraded
               else if stale \<and> probeUnreachable then ObservedGone
               else if stale then ObservedOffline
               else if ao_tunnel_state a = ''connected'' \<and> probeReachable \<and> ao_local_ssh_state a = ''healthy''
               then ObservedOnline
               else if ao_tunnel_state a = ''connected'' \<or> probeReachable then ObservedDegraded
               else ObservedOffline))"

definition effective_status :: "string \<Rightarrow> string \<Rightarrow> string" where
  "effective_status desired observed =
     (if desired = DesiredDisabled \<or> desired = DesiredRetiring \<or> desired = DesiredRetired then desired else observed)"

definition recomputeObserved :: "Config \<Rightarrow> string \<Rightarrow> instant \<Rightarrow> db \<Rightarrow> db" where
  "recomputeObserved cfg machineID now d =
     (let desired = (case sql_row (\<lambda>m. mr_id m = machineID) (db_machines d) of None \<Rightarrow> []
                     | Some m \<Rightarrow> null_string (mr_desired_state m));
          observed = observed_of cfg now (sql_row (\<lambda>a. ao_machine_id a = machineID) (db_agent_observations d))
                       (latest_probe machineID d)
      in update_machines (\<lambda>m. mr_id m = machineID)
           (\<lambda>m. m\<lparr>mr_observed_state := Some observed, mr_status := effective_status desired observed,
                  mr_updated_at := Some (nowUTC now)\<rparr>) d)"

subsection \<open>Probes\<close>

definition tunnel_down :: "Tunnel \<Rightarrow> bool" where
  "tunnel_down t \<longleftrightarrow> t_status t \<in> {''disabled'', ''retired'', ''failed''}"

text \<open>\<open>bufio.Scanner\<close> gives up on a first line of 64 KiB.\<close>

definition firstLine :: "string \<Rightarrow> string" where
  "firstLine s =
     (let l = takeWhile (\<lambda>c. c \<noteq> nl) s
      in if s = [] \<or> length l \<ge> 65536 then s
         else if l \<noteq> [] \<and> last l = CHR 0x0D then butlast l else l)"

definition checkTunnelPort :: "int \<Rightarrow> host \<Rightarrow> (bool \<times> string) \<times> host" where
  "checkTunnelPort port h =
     (let portStr = show_int port;
          ((ssOk, ssOut), h1) = host_do [''ss'', ''-H'', ''-tln'', ''sport'', ''='', '':'' @ portStr] h;
          (listening, h2) =
            (if ssOk then (if contains ssOut ('':'' @ portStr) then Inr () else Inl ''ss: port not listening'', h1)
             else case host_do [''dial'', ''127.0.0.1:'' @ portStr] h1 of
               ((True, _), h') \<Rightarrow> (Inr (), h') | ((False, e), h') \<Rightarrow> (Inl e, h'))
      in case listening of Inl e \<Rightarrow> ((False, e), h2)
         | Inr _ \<Rightarrow>
           (case host_do [''ssh-keyscan'', ''-T'', ''3'', ''-p'', portStr, ''127.0.0.1''] h2 of
              ((ok, out), h3) \<Rightarrow>
                (let s = trim_space out
                 in if \<not> ok then ((False, ''listener ok, ssh-keyscan failed: '' @ s), h3)
                    else if \<not> contains s ''ssh-'' \<and> \<not> contains s ''ecdsa-''
                    then ((False, ''no ssh host key in banner''), h3)
                    else ((True, firstLine s), h3))))"

definition upsert_hub_observation :: "HubObservation \<Rightarrow> db \<Rightarrow> db option" where
  "upsert_hub_observation r d =
     (if (\<exists>t \<in> set (db_tunnels d). t_id t = ho_tunnel_id r) \<and> machine_exists d (ho_machine_id r)
      then Some (d\<lparr>db_hub_observations := sql_upsert ho_tunnel_id
             (\<lambda>old new. old\<lparr>ho_probe_state := ho_probe_state new, ho_last_probe_at := ho_last_probe_at new,
                ho_last_success_at := coalesce (ho_last_success_at new) (ho_last_success_at old),
                ho_probe_error := ho_probe_error new\<rparr>) r (db_hub_observations d)\<rparr>)
      else None)"

text \<open>A result that \<open>_ =\<close> discards: the database after the statement.\<close>

definition ignore_error :: "(db \<Rightarrow> db option) \<Rightarrow> db \<Rightarrow> db" where
  "ignore_error f d = (case f d of None \<Rightarrow> d | Some d' \<Rightarrow> d')"

text \<open>One probe, on a tunnel as it was read when the check began.\<close>

definition probe_tunnel :: "Config \<Rightarrow> instant \<Rightarrow> Tunnel \<Rightarrow> world \<Rightarrow> (string \<times> json) list \<times> world" where
  "probe_tunnel cfg now t w =
     (case checkTunnelPort (t_remote_port t) (w_host w) of ((ok, detail), h) \<Rightarrow>
        (let state = (if ok then ''reachable'' else ''unreachable'');
             d1 = update_tunnels (\<lambda>x. t_id x = t_id t \<and> \<not> tunnel_down x)
                    (if ok then (\<lambda>x. x\<lparr>t_status := ''online'', t_last_seen_at := Some (nowUTC now)\<rparr>)
                     else (\<lambda>x. x\<lparr>t_status := ''offline''\<rparr>)) (w_db w);
             d2 = ignore_error (upsert_hub_observation
                    \<lparr>ho_tunnel_id = t_id t, ho_machine_id = t_machine_id t, ho_probe_state = state,
                     ho_last_probe_at = nowUTC now, ho_last_success_at = (if ok then Some (nowUTC now) else None),
                     ho_probe_error = (if ok then [] else detail)\<rparr>) d1;
             d3 = recomputeObserved cfg (t_machine_id t) now d2
         in ([(''tunnel_id'', JStr (t_id t)), (''machine_id'', JStr (t_machine_id t)), (''port'', JNum (t_remote_port t)),
              (''ok'', JBool ok), (''probe_state'', JStr state), (''detail'', JStr detail),
              (''checked_at'', JStr (nowUTC now))], w\<lparr>w_db := d3, w_host := h\<rparr>)))"

fun probe_all :: "Config \<Rightarrow> instant \<Rightarrow> Tunnel list \<Rightarrow> world \<Rightarrow> report \<times> world" where
  "probe_all cfg now [] w = ([], w)"
| "probe_all cfg now (t # ts) w =
     (case probe_tunnel cfg now t w of (entry, w1) \<Rightarrow>
        case probe_all cfg now ts w1 of (rep, w2) \<Rightarrow> (entry # rep, w2))"

text \<open>A check without tunnels leaves the cached report \<open>nil\<close>.\<close>

definition RunHealthCheck :: "Config \<Rightarrow> instant \<Rightarrow> world \<Rightarrow> report \<times> world" where
  "RunHealthCheck cfg now w =
     (case probe_all cfg now (filter (\<lambda>t. \<not> tunnel_down t) (db_tunnels (w_db w))) w of
        (rep, w') \<Rightarrow> (rep, w'\<lparr>w_health := (if rep = [] then None else Some rep)\<rparr>))"

definition CachedHealth :: "world \<Rightarrow> report" where
  "CachedHealth w =
     (case w_health w of Some rep \<Rightarrow> rep
      | None \<Rightarrow> map (\<lambda>h. [(''tunnel_id'', JStr (ho_tunnel_id h)), (''machine_id'', JStr (ho_machine_id h)),
            (''probe_state'', JStr (ho_probe_state h)), (''last_probe_at'', JStr (ho_last_probe_at h)),
            (''last_success_at'', JStr (null_string (ho_last_success_at h))),
            (''probe_error'', JStr (ho_probe_error h))])
          (sort_desc ho_last_probe_at (db_hub_observations (w_db w))))"

subsection \<open>Expiry\<close>

definition expire_requests :: "string \<Rightarrow> db \<Rightarrow> db" where
  "expire_requests now d =
     update_requests (\<lambda>q. q_status q = ''approved'' \<and>
         (case q_setup_token_expires_at q of None \<Rightarrow> False | Some e \<Rightarrow> e < now)) (\<lambda>q. q\<lparr>q_status := ''expired''\<rparr>)
       (update_requests (\<lambda>q. q_status q \<in> {''pending'', ''approved''} \<and> q_expires_at q < now)
          (\<lambda>q. q\<lparr>q_status := ''expired''\<rparr>) d)"

definition expired_machine :: "string \<Rightarrow> machine_row \<Rightarrow> bool" where
  "expired_machine now m \<longleftrightarrow>
     (case mr_desired_state m of None \<Rightarrow> False | Some s \<Rightarrow> s \<notin> {''disabled'', ''retiring'', ''retired''}) \<and>
     (case mr_expires_at m of None \<Rightarrow> False | Some e \<Rightarrow> e < now)"

definition ExpireOnce :: "Config \<Rightarrow> instant \<Rightarrow> world \<Rightarrow> world" where
  "ExpireOnce cfg now w =
     (let w1 = on_db (expire_requests (nowUTC now)) w;
          ids = map mr_id (filter (expired_machine (nowUTC now)) (db_machines (w_db w1)))
      in foldl (\<lambda>w i. snd (DisableMachine cfg i ''system-expire'' now w)) w1 ids)"

end
