(* ===== verification/ApiAuth.thy ===== *)
theory ApiAuth
  imports Monitoring
begin

text \<open>
  \<open>api.go\<close>, authentication: bearer tokens of administrators (signed tokens and service tokens),
  the paths a role may use, the tokens of agents, and the codes that register clients. A handler
  takes the request, its decoded body (\<open>None\<close> for a body that is too long, no JSON or has unknown
  fields) and the state, and returns the response and the state after it.
\<close>

subsection \<open>Wrappers\<close>

type_synonym handler = "http_req \<Rightarrow> instant \<Rightarrow> world \<Rightarrow> response \<times> world"

definition method_only :: "string \<Rightarrow> handler \<Rightarrow> handler" where
  "method_only m h rq now w =
     (if rq_method rq \<noteq> m then (http_error 405 ''method not allowed'', w) else h rq now w)"

definition bearer :: "http_req \<Rightarrow> string option" where
  "bearer rq = (let auth = header_get ''Authorization'' rq
                in if has_prefix auth ''Bearer '' then Some (trim_prefix auth ''Bearer '') else None)"

definition adminRoleAllowed :: "string \<Rightarrow> string \<Rightarrow> bool" where
  "adminRoleAllowed role path \<longleftrightarrow>
     (if role = ''owner'' \<or> role = ''admin'' then True
      else if role = ''mac-agent''
      then path = ''/api/admin/ssh-config'' \<or> path = ''/api/admin/events'' \<or> path = ''/api/admin/logout''
      else False)"

subsection \<open>Signed tokens that were logged out\<close>

definition purge_blacklist :: "instant \<Rightarrow> db \<Rightarrow> db" where
  "purge_blacklist now d = d\<lparr>db_jwt_blacklist := sql_delete (\<lambda>b. jb_expires_at b \<le> fmt now) (db_jwt_blacklist d)\<rparr>"

definition isJWTBlacklisted :: "lib \<Rightarrow> string \<Rightarrow> instant \<Rightarrow> db \<Rightarrow> bool \<times> db" where
  "isJWTBlacklisted l token now d =
     (let d' = purge_blacklist now d
      in (\<exists>b \<in> set (db_jwt_blacklist d'). jb_token_hash b = TokenHash l token \<and> jb_expires_at b > fmt now, d'))"

text \<open>\<open>INSERT OR REPLACE\<close>: a row with the same key is deleted first.\<close>

definition blacklistJWT :: "lib \<Rightarrow> string \<Rightarrow> instant \<Rightarrow> instant \<Rightarrow> db \<Rightarrow> db" where
  "blacklistJWT l token expiresAt now d =
     (let d' = purge_blacklist now d; h = TokenHash l token
      in d'\<lparr>db_jwt_blacklist := sql_delete (\<lambda>b. jb_token_hash b = h) (db_jwt_blacklist d')
              @ [\<lparr>jb_token_hash = h, jb_expires_at = fmt expiresAt, jb_created_at = fmt now\<rparr>]\<rparr>)"

subsection \<open>Service tokens\<close>

definition live_token :: "string \<Rightarrow> service_token_row \<Rightarrow> bool" where
  "live_token h r \<longleftrightarrow> sv_token_hash r = h \<and> sv_revoked_at r = None"

definition update_service_tokens ::
    "(service_token_row \<Rightarrow> bool) \<Rightarrow> (service_token_row \<Rightarrow> service_token_row) \<Rightarrow> db \<Rightarrow> db" where
  "update_service_tokens p f d = d\<lparr>db_service_tokens := sql_update p f (db_service_tokens d)\<rparr>"

definition parseServiceToken :: "lib \<Rightarrow> string \<Rightarrow> instant \<Rightarrow> db \<Rightarrow> (string + claims) \<times> db" where
  "parseServiceToken l token now d =
     (case sql_row (live_token (TokenHash l token)) (db_service_tokens d) of
        None \<Rightarrow> (Inl ''invalid service token'', d)
      | Some r \<Rightarrow>
          (Inr \<lparr>c_user_id = sv_id r, c_username = ''service:'' @ sv_label r, c_role = sv_role r, c_expires_at = None\<rparr>,
           update_service_tokens (\<lambda>x. sv_id x = sv_id r) (\<lambda>x. x\<lparr>sv_last_used_at := Some (nowUTC now)\<rparr>) d))"

definition revokeServiceToken :: "lib \<Rightarrow> string \<Rightarrow> instant \<Rightarrow> db \<Rightarrow> db" where
  "revokeServiceToken l token now d =
     update_service_tokens (live_token (TokenHash l token)) (\<lambda>x. x\<lparr>sv_revoked_at := Some (nowUTC now)\<rparr>) d"

subsection \<open>Administrators\<close>

definition authenticateAdminToken :: "lib \<Rightarrow> Config \<Rightarrow> string \<Rightarrow> instant \<Rightarrow> db \<Rightarrow> (string + (claims \<times> string)) \<times> db" where
  "authenticateAdminToken l cfg token now d =
     (case ParseJWT l (cfg_jwt_secret cfg) token now of
        Inr c \<Rightarrow> (case isJWTBlacklisted l token now d of
                    (True, d') \<Rightarrow> (Inl ''blacklisted token'', d')
                  | (False, d') \<Rightarrow> (Inr (c, ''jwt''), d'))
      | Inl _ \<Rightarrow> (case parseServiceToken l token now d of
                    (Inl e, d') \<Rightarrow> (Inl e, d')
                  | (Inr c, d') \<Rightarrow> (Inr (c, ''service''), d')))"

text \<open>What the wrapper puts into the context: the claims, the token and its kind.\<close>

record session =
  ss_claims :: claims
  ss_token :: string
  ss_kind :: string

definition admin_only :: "lib \<Rightarrow> Config \<Rightarrow> (session \<Rightarrow> handler) \<Rightarrow> handler" where
  "admin_only l cfg h rq now w =
     (case bearer rq of None \<Rightarrow> (http_error 401 ''missing bearer token'', w)
      | Some token \<Rightarrow>
        (case authenticateAdminToken l cfg token now (w_db w) of
           (Inl e, d) \<Rightarrow> (http_error 401 ''invalid token'', w\<lparr>w_db := d\<rparr>)
         | (Inr (c, kind), d) \<Rightarrow>
             if \<not> adminRoleAllowed (c_role c) (rq_path rq) then (http_error 403 ''forbidden'', w\<lparr>w_db := d\<rparr>)
             else h \<lparr>ss_claims = c, ss_token = token, ss_kind = kind\<rparr> rq now (w\<lparr>w_db := d\<rparr>)))"

record login_body =
  lb_username :: string
  lb_password :: string

definition handleAdminLogin :: "lib \<Rightarrow> Config \<Rightarrow> login_body option \<Rightarrow> handler" where
  "handleAdminLogin l cfg body rq now w =
     (case allow_login (clientIP rq) now w of
        (False, w') \<Rightarrow> (writeErr 429 ''rate limit exceeded'', w')
      | (True, w') \<Rightarrow>
        (case body of None \<Rightarrow> (writeErr 400 ''invalid json'', w')
         | Some b \<Rightarrow>
           (let denied = (writeErr 401 ''invalid username or password'', w')
            in case sql_row (\<lambda>u. u_username u = lb_username b) (db_users (w_db w')) of
                 None \<Rightarrow> denied
               | Some u \<Rightarrow>
                   if \<not> VerifySecret l (lb_password b) (u_password_hash u) then denied
                   else (case SignJWT l (cfg_jwt_secret cfg) (u_id u) (u_username u) (u_role u) (cfg_admin_jwt_ttl cfg) now of
                           Inl e \<Rightarrow> (writeErr 500 ''could not sign token'', w')
                         | Inr tok \<Rightarrow> (writeJSON 200 [(''token'', JStr tok),
                              (''expires_in'', JNum (cfg_admin_jwt_ttl cfg div second))], w')))))"

definition handleAdminLogout :: "lib \<Rightarrow> session \<Rightarrow> handler" where
  "handleAdminLogout l s rq now w =
     (if ss_token s = [] then (writeErr 400 ''missing token'', w)
      else if ss_kind s = ''service''
      then (writeJSON 200 [(''ok'', JBool True)], on_db (revokeServiceToken l (ss_token s) now) w)
      else case c_expires_at (ss_claims s) of
             Some e \<Rightarrow> (writeJSON 200 [(''ok'', JBool True)], on_db (blacklistJWT l (ss_token s) e now) w)
           | None \<Rightarrow> (writeErr 400 ''missing token expiry'', w))"

record token_body =
  tb_label :: string
  tb_role :: string

definition handleCreateServiceToken :: "lib \<Rightarrow> token_body option \<Rightarrow> session \<Rightarrow> handler" where
  "handleCreateServiceToken l body s rq now w =
     (if ss_kind s \<noteq> ''jwt''
      then (writeErr 403 ''service tokens must be created with an interactive admin session'', w)
      else case body of None \<Rightarrow> (writeErr 400 ''invalid json'', w)
      | Some b \<Rightarrow>
        (let label = (if trim_space (tb_label b) = [] then ''reach-mac-agent'' else trim_space (tb_label b));
             role = (if trim_space (tb_role b) = [] then ''mac-agent'' else trim_space (tb_role b))
         in if length label > 64 then (writeErr 400 ''label is too long'', w)
            else if role \<noteq> ''mac-agent'' then (writeErr 400 ''unsupported service token role'', w)
            else case with_rand (RandomID ''stkn'') w of
                (Inl _, w1) \<Rightarrow> (writeErr 500 ''could not generate token id'', w1)
              | (Inr i, w1) \<Rightarrow>
                (case with_rand (RandomToken ''sat'' 32) w1 of
                   (Inl _, w2) \<Rightarrow> (writeErr 500 ''could not generate token'', w2)
                 | (Inr tok, w2) \<Rightarrow>
                   (case insert_service_token \<lparr>sv_id = i, sv_label = label, sv_token_hash = TokenHash l tok, sv_role = role,
                            sv_created_by = c_username (ss_claims s), sv_created_at = nowUTC now,
                            sv_last_used_at = None, sv_revoked_at = None\<rparr> (w_db w2) of
                      None \<Rightarrow> (writeErr 500 ''could not persist token'', w2)
                    | Some d \<Rightarrow>
                        (writeJSON 200 [(''id'', JStr i), (''label'', JStr label), (''role'', JStr role), (''token'', JStr tok)],
                         on_db (Audit ''service_token.create'' (c_username (ss_claims s)) []
                                  (''id='' @ i @ '' label='' @ label @ '' role='' @ role) now) (w2\<lparr>w_db := d\<rparr>))))))"

subsection \<open>Agents and clients\<close>

definition verifyAgentToken :: "lib \<Rightarrow> string \<Rightarrow> string \<Rightarrow> bool \<Rightarrow> db \<Rightarrow> string option" where
  "verifyAgentToken l machineID token allowRetired d =
     (case sql_row (\<lambda>m. mr_id m = machineID \<and>
             (allowRetired \<or> (case mr_desired_state m of None \<Rightarrow> False | Some s \<Rightarrow> s \<noteq> ''retired''))) (db_machines d) of
        None \<Rightarrow> Some ''machine not found''
      | Some m \<Rightarrow> (case mr_agent_token_hash m of
            None \<Rightarrow> Some ''invalid token''
          | Some h \<Rightarrow> if VerifySecret l token h then None else Some ''invalid token''))"

definition open_invite :: "instant \<Rightarrow> invite_row \<Rightarrow> bool" where
  "open_invite now i \<longleftrightarrow> i_used_by i = None \<and> (case parse_time (i_expires_at i) of None \<Rightarrow> False | Some t \<Rightarrow> \<not> now > t)"

definition validateClientAuth :: "lib \<Rightarrow> Config \<Rightarrow> string \<Rightarrow> instant \<Rightarrow> db \<Rightarrow> bool \<times> string \<times> string" where
  "validateClientAuth l cfg code now d =
     (if cfg_god_code_hash cfg \<noteq> [] \<and> VerifySecret l code (cfg_god_code_hash cfg) then (True, ''god'', [])
      else case List.find (\<lambda>i. open_invite now i \<and> VerifySecret l code (i_code_hash i)) (db_invites d) of
             Some i \<Rightarrow> (True, i_type i, i_code_hash i)
           | None \<Rightarrow> (False, [], []))"

end
