(* ===== verification/ApiClient.thy ===== *)
theory ApiClient
  imports ApiAuth
begin

text \<open>
  \<open>api.go\<close>, clients: registration, polling for approval, the check of the approved metadata, the
  one-time setup token and provisioning. Go visits the members of a map in a random order; where
  that only picks which of several errors is reported, the model takes the listed order. The
  webhook that tells the administrator of a pending request is not modelled.
\<close>

subsection \<open>Paths\<close>

definition splitAction :: "string \<Rightarrow> string \<Rightarrow> (string \<times> string) option" where
  "splitAction path prefix =
     (let rest = trim_prefix path prefix
      in if rest = path \<or> rest = [] then None
         else case split_on (CHR ''/'') (trim_chars rest ''/'') of
                [a] \<Rightarrow> Some (a, []) | [a, b] \<Rightarrow> Some (a, b) | _ \<Rightarrow> None)"

definition pathAction :: "string \<Rightarrow> string \<Rightarrow> string \<Rightarrow> string option" where
  "pathAction path prefix suffix =
     (if \<not> has_prefix path prefix \<or> \<not> has_suffix path suffix then None
      else let i = trim_chars (trim_suffix (trim_prefix path prefix) suffix) ''/''
           in if i = [] then None else Some i)"

subsection \<open>Limits on metadata\<close>

fun first_some :: "'a option list \<Rightarrow> 'a option" where
  "first_some [] = None"
| "first_some (Some e # r) = Some e"
| "first_some (None # r) = first_some r"

fun validateMetadataValue :: "json \<Rightarrow> nat \<Rightarrow> string option" where
  "validateMetadataValue (JStr x) depth =
     (if depth > 4 then Some ''metadata is too deeply nested''
      else if length x > 256 then Some ''metadata string is too long'' else None)"
| "validateMetadataValue (JObj x) depth =
     (if depth > 4 then Some ''metadata is too deeply nested''
      else if length x > 32 then Some ''metadata has too many keys''
      else first_some (map (\<lambda>(k, v). if length k > 64 then Some ''metadata key is too long''
                                   else validateMetadataValue v (depth + 1)) x))"
| "validateMetadataValue (JArr x) depth =
     (if depth > 4 then Some ''metadata is too deeply nested''
      else if length x > 32 then Some ''metadata array is too long''
      else first_some (map (\<lambda>v. validateMetadataValue v (depth + 1)) x))"
| "validateMetadataValue v depth = (if depth > 4 then Some ''metadata is too deeply nested'' else None)"

definition validateMetadataLimits :: "json \<Rightarrow> string option" where
  "validateMetadataLimits v =
     (case validateMetadataValue v 0 of Some e \<Rightarrow> Some e
      | None \<Rightarrow> if length (marshal v) > 4096 then Some ''metadata is too large'' else None)"

subsection \<open>Registration\<close>

record register_body =
  gb_name :: string
  gb_auth_code :: string
  gb_target_user :: string
  gb_slug :: string
  gb_mode :: string
  gb_distro :: string
  gb_arch :: string
  gb_transport :: string
  gb_local_port :: int
  gb_metadata :: "(string \<times> json) list"

definition register_field_error :: "register_body \<Rightarrow> string option" where
  "register_field_error b =
     map_option (\<lambda>(f, v). f @ '' is too long'')
       (List.find (\<lambda>(f, v). length (trim_space v) > 256)
          [(''target_user'', gb_target_user b), (''slug'', gb_slug b), (''mode'', gb_mode b), (''distro'', gb_distro b),
           (''arch'', gb_arch b), (''transport'', gb_transport b)])"

definition register_checks :: "register_body \<Rightarrow> string option" where
  "register_checks b =
     (let name = trim_space (gb_name b)
      in if name = [] then Some ''name is required''
         else if length name > 64 then Some ''name is too long''
         else case register_field_error b of Some e \<Rightarrow> Some e
              | None \<Rightarrow> validateMetadataLimits (JObj (gb_metadata b)))"

definition register_meta :: "register_body \<Rightarrow> string \<Rightarrow> (string \<times> json) list" where
  "register_meta b ip =
     obj_merge [(''name'', JStr (trim_space (gb_name b))), (''target_user'', JStr (gb_target_user b)),
        (''slug'', JStr (gb_slug b)), (''mode'', JStr (gb_mode b)), (''local_port'', JNum (gb_local_port b)),
        (''distro'', JStr (gb_distro b)), (''arch'', JStr (gb_arch b)), (''transport'', JStr (gb_transport b)),
        (''source_ip'', JStr ip)] (gb_metadata b)"

text \<open>The setup token, its hash and its expiry of a registration with a valid code; the empty token
  without a code. An error carries the response's status and text.\<close>

definition register_auth :: "lib \<Rightarrow> Config \<Rightarrow> string \<Rightarrow> instant \<Rightarrow> world \<Rightarrow>
    ((nat \<times> string) + (string \<times> string \<times> string option \<times> string option)) \<times> world" where
  "register_auth l cfg code now w =
     (if code = [] then (Inr (''pending'', [], None, None), w)
      else case validateClientAuth l cfg code now (w_db w) of
        (ok, kind, matchedHash) \<Rightarrow>
          if \<not> ok then (Inl (401, ''unauthorized''), w)
          else case with_rand (RandomToken ''st'' 24) w of
              (Inl _, w1) \<Rightarrow> (Inl (500, ''could not generate setup token''), w1)
            | (Inr tok, w1) \<Rightarrow>
              (case with_rand (HashSecret l tok) w1 of
                 (Inl _, w2) \<Rightarrow> (Inl (500, ''could not hash setup token''), w2)
               | (Inr h, w2) \<Rightarrow>
                   (Inr (''approved'', tok, Some h, if kind = ''friend'' then Some matchedHash else None), w2)))"

definition handleClientRegister :: "lib \<Rightarrow> Config \<Rightarrow> register_body option \<Rightarrow> handler" where
  "handleClientRegister l cfg body rq now w =
     (let ip = clientIP rq
      in case allow_register ip now w of
        (False, w0) \<Rightarrow> (writeErr 429 ''rate limit exceeded'', w0)
      | (True, w0) \<Rightarrow>
        (case body of None \<Rightarrow> (writeErr 400 ''invalid json'', w0)
         | Some b \<Rightarrow>
        (case register_checks b of Some e \<Rightarrow> (writeErr 400 e, w0)
         | None \<Rightarrow>
        (case with_rand (RandomToken ''cs'' 24) w0 of
           (Inl _, w1) \<Rightarrow> (writeErr 500 ''could not generate client secret'', w1)
         | (Inr clientSecret, w1) \<Rightarrow>
        (case with_rand (HashSecret l clientSecret) w1 of
           (Inl _, w2) \<Rightarrow> (writeErr 500 ''could not hash client secret'', w2)
         | (Inr clientHash, w2) \<Rightarrow>
        (case with_rand (RandomID ''r'') w2 of
           (Inl _, w3) \<Rightarrow> (writeErr 500 ''could not generate request id'', w3)
         | (Inr requestID, w3) \<Rightarrow>
           (let name = trim_space (gb_name b);
                expires = fmt (now + cfg_request_ttl cfg);
                setupExp = fmt (now + cfg_setup_token_ttl cfg);
                meta = register_meta b ip
            in if length (marshal (JObj meta)) > 4096 then (writeErr 400 ''metadata is too large'', w3)
               else case register_auth l cfg (gb_auth_code b) now w3 of
                   (Inl (code, msg), w4) \<Rightarrow> (writeErr code msg, w4)
                 | (Inr (status, setupToken, setupHash, inviteHash), w4) \<Rightarrow>
                   (let approved = (setupHash \<noteq> None)
                    in case insert_request \<lparr>q_id = requestID, q_name = name, q_client_secret_hash = clientHash,
                              q_status = status, q_invite_code_hash = inviteHash, q_setup_token_hash = setupHash,
                              q_setup_token_expires_at = (if approved then Some setupExp else None),
                              q_metadata = Some meta, q_created_at = fmt now, q_expires_at = expires,
                              q_approved_at = (if approved then Some (fmt now) else None), q_denied_at = None\<rparr> (w_db w4) of
                      None \<Rightarrow> (writeErr 500 ''registration failed'', w4)
                    | Some d \<Rightarrow>
                        (writeJSON 200 ([(''request_id'', JStr requestID), (''client_secret'', JStr clientSecret),
                             (''status'', JStr status), (''expires_at'', JStr expires)] @
                             (if setupToken \<noteq> [] then [(''setup_token'', JStr setupToken),
                                (''setup_token_expires_at'', JStr setupExp)] else [])),
                         publishEvent ''request.created'' [] [(''request_id'', JStr requestID), (''name'', JStr name),
                             (''status'', JStr status)] now (w4\<lparr>w_db := d\<rparr>))))))))))"

subsection \<open>Polling\<close>

definition find_request :: "string \<Rightarrow> db \<Rightarrow> request_row option" where
  "find_request i d = sql_row (\<lambda>q. q_id q = i) (db_requests d)"

definition poll_expired :: "instant \<Rightarrow> request_row \<Rightarrow> bool" where
  "poll_expired now q \<longleftrightarrow>
     (case parse_time (q_expires_at q) of None \<Rightarrow> False | Some t \<Rightarrow> now > t) \<and> q_status q = ''pending''"

definition poll_token :: "lib \<Rightarrow> Config \<Rightarrow> string \<Rightarrow> instant \<Rightarrow> world \<Rightarrow> (string + (string \<times> string)) \<times> world" where
  "poll_token l cfg i now w =
     (case with_rand (RandomToken ''st'' 24) w of
        (Inl _, w1) \<Rightarrow> (Inl ''could not generate setup token'', w1)
      | (Inr tok, w1) \<Rightarrow>
        (case with_rand (HashSecret l tok) w1 of
           (Inl _, w2) \<Rightarrow> (Inl ''could not hash setup token'', w2)
         | (Inr h, w2) \<Rightarrow>
           (let e = fmt (now + cfg_setup_token_ttl cfg)
            in (Inr (tok, e),
                on_db (update_requests (\<lambda>q. q_id q = i \<and> q_status q = ''approved'' \<and> q_setup_token_hash q = None)
                         (\<lambda>q. q\<lparr>q_setup_token_hash := Some h, q_setup_token_expires_at := Some e\<rparr>)) w2))))"

text \<open>What \<open>poll\<close> does with the row it read: the row may be stale when it acts.\<close>

definition poll_answer :: "lib \<Rightarrow> Config \<Rightarrow> string \<Rightarrow> request_row \<Rightarrow> instant \<Rightarrow> world \<Rightarrow> response \<times> world" where
  "poll_answer l cfg i q now w =
     (let expired = poll_expired now q;
          status = (if expired then ''expired'' else q_status q);
          w1 = (if expired then publishEvent ''request.expired'' [] [(''request_id'', JStr i)] now
                   (on_db (update_requests (\<lambda>x. q_id x = i) (\<lambda>x. x\<lparr>q_status := ''expired''\<rparr>)) w) else w);
          resp = [(''request_id'', JStr i), (''status'', JStr status)];
          with_expiry = resp @ (case q_setup_token_expires_at q of
                          Some e \<Rightarrow> [(''setup_token_expires_at'', JStr e)] | None \<Rightarrow> [])
      in if status = ''approved'' \<and> \<not> (q_setup_token_hash q \<noteq> None \<and> q_setup_token_expires_at q \<noteq> None)
         then (case poll_token l cfg i now w1 of
                 (Inl e, w2) \<Rightarrow> (writeErr 500 e, w2)
               | (Inr (tok, e), w2) \<Rightarrow>
                   (writeJSON 200 (resp @ [(''setup_token'', JStr tok), (''setup_token_expires_at'', JStr e)]), w2))
         else (writeJSON 200 with_expiry, w1))"

definition handleClientPoll :: "lib \<Rightarrow> Config \<Rightarrow> string option \<Rightarrow> handler" where
  "handleClientPoll l cfg body rq now w =
     (case pathAction (rq_path rq) ''/api/client/register/'' ''/poll'' of
        None \<Rightarrow> (writeErr 404 ''not found'', w)
      | Some i \<Rightarrow>
        (case body of None \<Rightarrow> (writeErr 400 ''invalid json'', w)
         | Some clientSecret \<Rightarrow>
           (case find_request i (w_db w) of None \<Rightarrow> (writeClientAuthErr, w)
            | Some q \<Rightarrow>
                if \<not> VerifySecret l clientSecret (q_client_secret_hash q) then (writeClientAuthErr, w)
                else poll_answer l cfg i q now w)))"

end
