(* ===== verification/ApiProvision.thy ===== *)
theory ApiProvision
  imports ApiClient
begin

text \<open>
  \<open>api.go\<close>, provisioning: the request must match what was approved, its setup token is consumed
  once, and the machine is created; the client gets the machine, its tunnel, the hub, the agent
  token and the administrators' keys.
\<close>

record client_provision =
  cp_setup_token :: string
  cp_request_id :: string
  cp_slug :: string
  cp_display_name :: string
  cp_target_user :: string
  cp_pubkey :: string
  cp_mode :: string
  cp_persistence :: string
  cp_distro :: string
  cp_arch :: string
  cp_local_port :: int

definition provision_got :: "client_provision \<Rightarrow> (string \<times> json) list" where
  "provision_got b = [(''target_user'', JStr (cp_target_user b)), (''slug'', JStr (cp_slug b)),
     (''mode'', JStr (cp_mode b)), (''local_port'', JNum (cp_local_port b)), (''distro'', JStr (cp_distro b)),
     (''arch'', JStr (cp_arch b))]"

definition text_mismatch :: "(string \<times> json) list \<Rightarrow> (string \<times> json) list \<Rightarrow> string \<Rightarrow> bool" where
  "text_mismatch want got key \<longleftrightarrow>
     (case obj_string key want of None \<Rightarrow> False
      | Some wv \<Rightarrow> (let gv = (case obj_string key got of None \<Rightarrow> [] | Some g \<Rightarrow> g)
                   in trim_space wv \<noteq> [] \<and> trim_space gv \<noteq> [] \<and> trim_space wv \<noteq> trim_space gv))"

definition metadata_mismatch :: "(string \<times> json) list \<Rightarrow> (string \<times> json) list \<Rightarrow> string option" where
  "metadata_mismatch want got =
     (case List.find (text_mismatch want got) [''target_user'', ''slug'', ''mode'', ''distro'', ''arch''] of
        Some key \<Rightarrow> Some (''provision '' @ key @ '' does not match approved request'')
      | None \<Rightarrow>
        (case obj_num ''local_port'' want of None \<Rightarrow> None
         | Some wv \<Rightarrow>
             (let gv = (case obj_num ''local_port'' got of None \<Rightarrow> 0 | Some g \<Rightarrow> g)
              in if wv \<noteq> 0 \<and> gv \<noteq> 0 \<and> gv \<noteq> wv then Some ''provision local_port does not match approved request''
                 else None)))"

definition validateApprovedMetadata :: "string \<Rightarrow> (string \<times> json) list \<Rightarrow> db \<Rightarrow> string option" where
  "validateApprovedMetadata requestID got d =
     (case find_request requestID d of None \<Rightarrow> None
      | Some q \<Rightarrow> (case q_metadata q of None \<Rightarrow> None | Some want \<Rightarrow> metadata_mismatch want got))"

text \<open>The two halves of \<open>consumeSetupToken\<close>: checking the row it read, and the guarded update.\<close>

definition setup_token_check :: "lib \<Rightarrow> request_row \<Rightarrow> string \<Rightarrow> instant \<Rightarrow> string + string" where
  "setup_token_check l q token now =
     (case q_setup_token_hash q of None \<Rightarrow> Inl ''invalid setup token''
      | Some h \<Rightarrow>
          if q_status q \<noteq> ''approved'' \<or> \<not> VerifySecret l token h then Inl ''invalid setup token''
          else case q_setup_token_expires_at q of None \<Rightarrow> Inr h
               | Some e \<Rightarrow> (case parse_time e of None \<Rightarrow> Inr h
                           | Some t \<Rightarrow> if now > t then Inl ''setup token expired'' else Inr h))"

definition claims_row :: "string \<Rightarrow> string \<Rightarrow> request_row \<Rightarrow> bool" where
  "claims_row requestID h q \<longleftrightarrow> q_id q = requestID \<and> q_status q = ''approved'' \<and> q_setup_token_hash q = Some h"

definition claim_setup_token :: "string \<Rightarrow> string \<Rightarrow> db \<Rightarrow> nat \<times> db" where
  "claim_setup_token requestID h d =
     (sql_affected (claims_row requestID h) (db_requests d),
      update_requests (claims_row requestID h) (\<lambda>q. q\<lparr>q_status := ''provisioning'', q_setup_token_hash := None\<rparr>) d)"

definition consumeSetupToken :: "lib \<Rightarrow> string \<Rightarrow> string \<Rightarrow> instant \<Rightarrow> db \<Rightarrow> (string + (string \<times> string)) \<times> db" where
  "consumeSetupToken l requestID token now d =
     (case find_request requestID d of None \<Rightarrow> (Inl ''request not found'', d)
      | Some q \<Rightarrow>
        (case setup_token_check l q token now of Inl e \<Rightarrow> (Inl e, d)
         | Inr h \<Rightarrow>
           (case claim_setup_token requestID h d of (n, d') \<Rightarrow>
              if n \<noteq> 1 then (Inl ''setup token already used'', d') else (Inr (q_id q, q_name q), d'))))"

definition firstAdminID :: "db \<Rightarrow> string option" where
  "firstAdminID d = (case sort_key u_created_at (db_users d) of [] \<Rightarrow> None | u # _ \<Rightarrow> Some (u_id u))"

definition live_keys :: "db \<Rightarrow> access_key_row list" where
  "live_keys d = sort_key k_created_at (filter (\<lambda>k. k_revoked_at k = None) (db_access_keys d))"

definition activeAccessKeys :: "db \<Rightarrow> (string \<times> string \<times> string) list" where
  "activeAccessKeys d = map (\<lambda>k. (k_label k, k_public_key k, k_kind k)) (live_keys d)"

definition provision_input :: "client_provision \<Rightarrow> string \<Rightarrow> string \<Rightarrow> string \<Rightarrow> CreateMachineInput" where
  "provision_input b slug name owner =
     \<lparr>in_slug = slug, in_display_name = first_non_empty [cp_display_name b, name],
      in_target_user = cp_target_user b, in_mode = cp_mode b, in_local_port = cp_local_port b,
      in_persistence = cp_persistence b, in_distro = cp_distro b, in_arch = cp_arch b, in_pubkey = cp_pubkey b,
      in_owner_user_id = owner, in_hub_id = [], in_expires_at = []\<rparr>"

text \<open>Back to approved after a failure; provisioned, and the invitation used up, after a success.\<close>

definition provision_failed :: "string \<Rightarrow> db \<Rightarrow> db" where
  "provision_failed requestID =
     update_requests (\<lambda>q. q_id q = requestID \<and> q_status q = ''provisioning'') (\<lambda>q. q\<lparr>q_status := ''approved''\<rparr>)"

definition use_invite :: "string \<Rightarrow> string \<Rightarrow> db \<Rightarrow> db" where
  "use_invite requestID machineID d =
     (let code = (case find_request requestID d of None \<Rightarrow> None | Some q \<Rightarrow> q_invite_code_hash q)
      in d\<lparr>db_invites := sql_update (\<lambda>i. code \<noteq> None \<and> Some (i_code_hash i) = code)
             (\<lambda>i. i\<lparr>i_used_by := Some machineID\<rparr>) (db_invites d)\<rparr>)"

definition provision_done :: "string \<Rightarrow> string \<Rightarrow> db \<Rightarrow> db" where
  "provision_done requestID machineID d =
     use_invite requestID machineID (update_requests (\<lambda>q. q_id q = requestID) (\<lambda>q. q\<lparr>q_status := ''provisioned''\<rparr>) d)"

definition provision_websocket :: "Config \<Rightarrow> WebSocketTunnelConfig option" where
  "provision_websocket cfg =
     (let ws = cfg_websocket_tunnel cfg
      in if ws_enabled ws then Some (ws\<lparr>ws_carrier := (if ws_carrier ws = [] then ''reach'' else ws_carrier ws)\<rparr>)
         else None)"

definition provision_response :: "Config \<Rightarrow> CreateMachineResult \<Rightarrow> db \<Rightarrow> response" where
  "provision_response cfg res d =
     writeBody 200 (BProvision
       \<lparr>pb_machine = cm_machine res, pb_tunnel = cm_tunnel res, pb_hub = cm_hub res,
        pb_agent_token = cm_agent_token res, pb_admin_pubkeys = activeAccessKeys d,
        pb_hub_host_keys = cfg_hub_host_keys cfg, pb_websocket = provision_websocket cfg\<rparr>)"

definition provision_events :: "string \<Rightarrow> Machine \<Rightarrow> instant \<Rightarrow> world \<Rightarrow> world" where
  "provision_events requestID m now w =
     publishEvent ''machine.desired_changed'' (m_id m) [(''machine_id'', JStr (m_id m)),
         (''desired_state'', JStr DesiredActive), (''generation'', JNum (m_desired_generation m))] now
     (publishEvent ''machine.created'' (m_id m) [(''machine_id'', JStr (m_id m)), (''slug'', JStr (m_slug m))] now
     (publishEvent ''request.provisioned'' (m_id m) [(''request_id'', JStr requestID),
         (''machine_id'', JStr (m_id m)), (''slug'', JStr (m_slug m))] now w))"

definition handleClientProvision :: "lib \<Rightarrow> Config \<Rightarrow> client_provision option \<Rightarrow> handler" where
  "handleClientProvision l cfg body rq now w =
     (case body of None \<Rightarrow> (writeErr 400 ''invalid json'', w)
      | Some b \<Rightarrow>
        if length (trim_space (cp_display_name b)) > 256 then (writeErr 400 ''display_name is too long'', w)
        else if cp_request_id b = [] \<or> cp_setup_token b = [] \<or> cp_pubkey b = []
        then (writeErr 400 ''request_id, setup_token and pubkey are required'', w)
        else if validateApprovedMetadata (cp_request_id b) (provision_got b) (w_db w) \<noteq> None
        then (writeClientAuthErr, w)
        else case consumeSetupToken l (cp_request_id b) (cp_setup_token b) now (w_db w) of
            (Inl _, d) \<Rightarrow> (writeClientAuthErr, w\<lparr>w_db := d\<rparr>)
          | (Inr (requestID, name), d) \<Rightarrow>
            (let w1 = w\<lparr>w_db := d\<rparr>; slug = (if cp_slug b = [] then NormalizeSlug name else cp_slug b)
             in case ValidateSlug slug of Some e \<Rightarrow> (writeErr 400 e, w1)
                | None \<Rightarrow>
                  (case firstAdminID d of None \<Rightarrow> (writeErr 500 ''no admin user configured'', w1)
                   | Some owner \<Rightarrow>
                     (case CreateMachine l cfg (provision_input b slug name owner) now w1 of
                        (Inl e, w2) \<Rightarrow> (writeErr 500 e, on_db (provision_failed requestID) w2)
                      | (Inr res, w2) \<Rightarrow>
                        (let w3 = on_db (provision_done requestID (m_id (cm_machine res))) w2
                         in (provision_response cfg res (w_db w3),
                             provision_events requestID (cm_machine res) now w3))))))"

end
