(* ===== verification/ApiAgent.thy ===== *)
theory ApiAgent
  imports ApiProvision
begin

text \<open>
  \<open>api.go\<close>, agents: heartbeats, the delivery of commands, the configuration an agent should have,
  and the two steps of an uninstallation. The text of a heartbeat is represented by its value.
\<close>

subsection \<open>Options for SSH clients\<close>

definition client_option_names :: "string list" where
  "client_option_names = [''KexAlgorithms'', ''HostKeyAlgorithms'', ''PubkeyAcceptedAlgorithms'',
     ''PubkeyAcceptedKeyTypes'', ''Ciphers'', ''MACs'']"

definition client_option :: "string \<Rightarrow> (string \<times> string) option" where
  "client_option opt =
     (case cut (CHR ''='') (trim_space opt) of None \<Rightarrow> None
      | Some (name, value) \<Rightarrow>
          if name \<notin> set client_option_names \<or> value = [] \<or> contains_any value [CHR '' '', CHR 0x09, CHR 0x0D, CHR 0x0A]
          then None else Some (name, value))"

definition sshConfigClientOptions :: "AgentHeartbeat option \<Rightarrow> (string \<times> string) list" where
  "sshConfigClientOptions raw =
     (case raw of None \<Rightarrow> [] | Some hb \<Rightarrow> List.map_filter client_option (sc_client_options (cap_ssh (hb_capabilities hb))))"

definition sshOptionsSignature :: "AgentHeartbeat option \<Rightarrow> string" where
  "sshOptionsSignature raw = join '';'' (map (\<lambda>(n, v). n @ ''='' @ v) (sshConfigClientOptions raw))"

subsection \<open>Heartbeats\<close>

definition normalizeHeartbeat :: "AgentHeartbeat \<Rightarrow> AgentHeartbeat" where
  "normalizeHeartbeat hb =
     (let o1 = hb_observed hb;
          o2 = (if cs_state (os_local_ssh o1) = [] \<and> cs_state (hb_local_ssh hb) \<noteq> []
                then o1\<lparr>os_local_ssh := hb_local_ssh hb\<rparr> else o1);
          o3 = (if ts_state (os_tunnel o2) = [] \<and> ts_state (hb_tunnel hb) \<noteq> []
                then o2\<lparr>os_tunnel := (hb_tunnel hb)\<lparr>ts_transport := hb_transport hb\<rparr>\<rparr> else o2);
          o4 = (if os_agent_state o3 = [] then o3\<lparr>os_agent_state := ''running''\<rparr> else o3)
      in hb\<lparr>hb_observed := o4\<rparr>)"

definition nullableInt :: "int \<Rightarrow> int option" where
  "nullableInt v = (if v = 0 then None else Some v)"

text \<open>A column that the query reads back through \<open>sql.NullString\<close>: \<open>NULL\<close> is the empty text.\<close>

definition heartbeat_observation :: "AgentHeartbeat \<Rightarrow> AgentHeartbeat \<Rightarrow> string \<Rightarrow> AgentObservation" where
  "heartbeat_observation hb raw now =
     (let ob = hb_observed hb in
     \<lparr>ao_machine_id = hb_machine_id hb, ao_agent_version = hb_agent_version hb, ao_install_id = hb_install_id hb,
      ao_applied_generation = hb_applied_generation hb, ao_heartbeat_at = now, ao_agent_state = os_agent_state ob,
      ao_transport = ts_transport (os_tunnel ob), ao_transport_state = [],
      ao_local_ssh_state = cs_state (os_local_ssh ob), ao_local_ssh_error = cs_error (os_local_ssh ob),
      ao_tunnel_state = ts_state (os_tunnel ob), ao_tunnel_pid = nullableInt (ts_pid (os_tunnel ob)),
      ao_tunnel_error = ts_error (os_tunnel ob), ao_persistence_backend = ps_backend (os_persistence ob),
      ao_persistence_quality = ps_quality (os_persistence ob),
      ao_persistence_reboot_safe = ps_reboot_safe (os_persistence ob),
      ao_fingerprints = ks_fingerprints (os_keys ob), ao_last_error = hb_last_error hb, ao_raw = Some raw\<rparr>)"

definition heartbeat_status :: "AgentHeartbeat \<Rightarrow> AgentHeartbeat \<Rightarrow> string \<Rightarrow> agent_status_row" where
  "heartbeat_status hb raw now =
     (let ob = hb_observed hb in
     \<lparr>as_machine_id = hb_machine_id hb, as_agent_version = hb_agent_version hb,
      as_transport = ts_transport (os_tunnel ob), as_transport_state = [],
      as_local_ssh_state = cs_state (os_local_ssh ob), as_local_ssh_error = nullable (cs_error (os_local_ssh ob)),
      as_tunnel_state = ts_state (os_tunnel ob), as_tunnel_pid = nullableInt (ts_pid (os_tunnel ob)),
      as_tunnel_error = nullable (ts_error (os_tunnel ob)), as_last_error = nullable (hb_last_error hb),
      as_raw = Some raw, as_updated_at = now\<rparr>)"

definition upsert_agent_observation :: "AgentObservation \<Rightarrow> db \<Rightarrow> db option" where
  "upsert_agent_observation r d =
     (if machine_exists d (ao_machine_id r)
      then Some (d\<lparr>db_agent_observations := sql_upsert ao_machine_id (\<lambda>_ new. new) r (db_agent_observations d)\<rparr>)
      else None)"

definition upsert_agent_status :: "agent_status_row \<Rightarrow> db \<Rightarrow> db option" where
  "upsert_agent_status r d =
     (if machine_exists d (as_machine_id r)
      then Some (d\<lparr>db_agent_status := sql_upsert as_machine_id (\<lambda>_ new. new) r (db_agent_status d)\<rparr>)
      else None)"

definition authAgentHeartbeat :: "AgentHeartbeat option \<Rightarrow> http_req \<Rightarrow> response + (string \<times> AgentHeartbeat)" where
  "authAgentHeartbeat body rq =
     (case bearer rq of None \<Rightarrow> Inl writeClientAuthErr
      | Some token \<Rightarrow>
        (case body of None \<Rightarrow> Inl (writeErr 400 ''invalid json'')
         | Some hb \<Rightarrow> if hb_machine_id hb = [] then Inl (writeErr 400 ''machine_id is required'') else Inr (token, hb)))"

definition result_status :: "AgentCommandResult \<Rightarrow> string" where
  "result_status r = (if cr_status r = ''failed'' then ''failed'' else ''acked'')"

definition store_result :: "string \<Rightarrow> instant \<Rightarrow> AgentCommandResult \<Rightarrow> world \<Rightarrow> world" where
  "store_result machineID now r w =
     (if cr_command_id r = [] then w
      else publishEvent (''agent.command_'' @ result_status r) machineID
             [(''machine_id'', JStr machineID), (''command_id'', JStr (cr_command_id r)),
              (''status'', JStr (result_status r)), (''message'', JStr (cr_message r))] now
           (on_db (update_commands (\<lambda>c. ci_id c = cr_command_id r \<and> ci_machine_id c = machineID)
              (\<lambda>c. c\<lparr>ci_status := result_status r, ci_acked_at := Some (nowUTC now), ci_last_error := cr_message r\<rparr>)) w))"

definition storeCommandResults :: "AgentHeartbeat \<Rightarrow> instant \<Rightarrow> world \<Rightarrow> world" where
  "storeCommandResults hb now w = foldl (\<lambda>w r. store_result (hb_machine_id hb) now r w) w (hb_command_results hb)"

subsection \<open>Delivery\<close>

definition deliverable :: "string \<Rightarrow> string \<Rightarrow> AgentCommandInfo \<Rightarrow> bool" where
  "deliverable machineID now c \<longleftrightarrow>
     ci_machine_id c = machineID \<and> ci_status c \<in> {''pending'', ''sent''} \<and> not_expired now c"

definition delivery_of :: "AgentCommandInfo \<Rightarrow> AgentCommandDelivery" where
  "delivery_of c = \<lparr>cd_id = ci_id c, cd_generation = ci_generation c, cd_type = ci_type c, cd_payload = ci_payload c,
                    cd_expires_at = null_string (ci_expires_at c)\<rparr>"

definition deliverable_commands :: "string \<Rightarrow> string \<Rightarrow> db \<Rightarrow> AgentCommandInfo list" where
  "deliverable_commands machineID now d =
     take 10 (sort_key ci_created_at (filter (deliverable machineID now) (db_agent_commands d)))"

definition mark_sent :: "string \<Rightarrow> db \<Rightarrow> AgentCommandInfo \<Rightarrow> db" where
  "mark_sent now d c = update_commands (\<lambda>x. ci_id x = ci_id c)
     (\<lambda>x. x\<lparr>ci_status := ''sent'', ci_sent_at := coalesce (ci_sent_at x) (Some now)\<rparr>) d"

text \<open>
  The commands are marked while the query's rows are open, so the statement needs a second
  connection; with a pool of one it waits for the connection that its own caller holds.
  \<open>None\<close>: the call waits until the request is cancelled.
\<close>

definition pendingCommands :: "nat \<Rightarrow> string \<Rightarrow> instant \<Rightarrow> db \<Rightarrow> (AgentCommandDelivery list \<times> db) option" where
  "pendingCommands pool machineID now d =
     (let cs = deliverable_commands machineID (nowUTC now) d
      in if cs \<noteq> [] \<and> pool \<le> 1 then None
         else Some (map delivery_of cs, foldl (mark_sent (nowUTC now)) d cs))"

definition desiredPubkeys :: "lib \<Rightarrow> db \<Rightarrow> DesiredPubkey list" where
  "desiredPubkeys l d =
     map (\<lambda>k. \<lparr>dp_id = k_id k, dp_label = k_label k, dp_fingerprint = Fingerprint l (k_public_key k),
              dp_public_key = k_public_key k\<rparr>) (live_keys d)"

definition desiredConfig :: "lib \<Rightarrow> Machine \<Rightarrow> Tunnel list \<Rightarrow> db \<Rightarrow> DesiredAgentConfig" where
  "desiredConfig l m tunnels d =
     (let c = \<lparr>dc_tunnel_enabled = (m_desired_state m = DesiredActive), dc_hub_host = [], dc_hub_ssh_port = 0,
               dc_remote_port = 0, dc_tunnel_user = [], dc_transport_policy = ''auto'', dc_admin_keys_generation = 1,
               dc_admin_pubkeys = desiredPubkeys l d, dc_process_title_config = m_process_title_config m\<rparr>
      in case tunnels of [] \<Rightarrow> c
         | t # _ \<Rightarrow>
           (let c = c\<lparr>dc_remote_port := t_remote_port t, dc_tunnel_user := t_unix_user t\<rparr>
            in case sql_row (\<lambda>h. h_id h = t_hub_id t) (db_hubs d) of None \<Rightarrow> c
               | Some h \<Rightarrow> c\<lparr>dc_hub_host := h_public_host h, dc_hub_ssh_port := h_ssh_port h\<rparr>))"

definition observed_events :: "string \<Rightarrow> Machine \<Rightarrow> instant \<Rightarrow> world \<Rightarrow> world" where
  "observed_events old m now w =
     (if old = m_observed_state m then w
      else publishEvent (''machine.'' @ m_observed_state m) (m_id m)
             [(''machine_id'', JStr (m_id m)), (''slug'', JStr (m_slug m))] now
          (publishEvent ''machine.observed_changed'' (m_id m) [(''machine_id'', JStr (m_id m)),
             (''observed_state'', JStr (m_observed_state m)), (''status'', JStr (m_status m))] now w))"

text \<open>What a heartbeat writes before the observed state is recomputed.\<close>

definition heartbeat_writes :: "AgentHeartbeat \<Rightarrow> AgentHeartbeat \<Rightarrow> instant \<Rightarrow> db \<Rightarrow> db option" where
  "heartbeat_writes hb raw now d =
     (case upsert_agent_observation (heartbeat_observation hb raw (nowUTC now)) d of None \<Rightarrow> None
      | Some d1 \<Rightarrow>
        (let d2 = ignore_error (upsert_agent_status (heartbeat_status hb raw (nowUTC now))) d1
         in Some (if ts_state (os_tunnel (hb_observed hb)) = ''connected'' \<or> ts_state (os_tunnel (hb_observed hb)) = ''running''
                  then update_tunnels (\<lambda>t. t_machine_id t = hb_machine_id hb \<and> \<not> tunnel_down t)
                         (\<lambda>t. t\<lparr>t_status := ''online'', t_last_seen_at := Some (nowUTC now)\<rparr>) d2
                  else d2)))"

definition heartbeat_response :: "lib \<Rightarrow> Config \<Rightarrow> AgentHeartbeat \<Rightarrow> Machine \<Rightarrow> Tunnel list \<Rightarrow>
    AgentCommandDelivery list \<Rightarrow> instant \<Rightarrow> world \<Rightarrow> response" where
  "heartbeat_response l cfg hb m tunnels cmds now w =
     writeBody 200 (BHeartbeat
       \<lparr>hr_ok = True, hr_server_time = nowUTC now, hr_desired_generation = m_desired_generation m,
        hr_desired_state = m_desired_state m,
        hr_heartbeat = \<lparr>hp_next_interval_seconds = cfg_health_interval cfg div second,
                        hp_offline_after_seconds = cfg_offline_after cfg div second\<rparr>,
        hr_desired_config = desiredConfig l m tunnels (w_db w), hr_commands = cmds,
        hr_update = agentUpdateHintFor cfg (w_host w) (hb_agent_version hb)\<rparr>)"

text \<open>The heartbeat of a machine whose agent proved who it is; no response when the delivery waits.\<close>

definition accept_heartbeat :: "nat \<Rightarrow> lib \<Rightarrow> Config \<Rightarrow> AgentHeartbeat \<Rightarrow> Machine \<Rightarrow> Tunnel list \<Rightarrow> instant \<Rightarrow> world \<Rightarrow>
    response option \<times> world" where
  "accept_heartbeat pool l cfg raw m0 tunnels now w =
     (let hb = normalizeHeartbeat raw;
          w1 = storeCommandResults hb now w;
          previous = (case sql_row (\<lambda>a. ao_machine_id a = hb_machine_id hb) (db_agent_observations (w_db w1)) of
                        None \<Rightarrow> None | Some a \<Rightarrow> ao_raw a)
      in case heartbeat_writes hb raw now (w_db w1) of
           None \<Rightarrow> (Some (writeErr 500 ''could not store heartbeat''), w1)
         | Some d \<Rightarrow>
           (let w2 = w1\<lparr>w_db := recomputeObserved cfg (hb_machine_id hb) now d\<rparr>;
                m = value_or zero_machine (GetMachine (hb_machine_id hb) (w_db w2));
                w3 = observed_events (m_observed_state m0) m now w2;
                w4 = (if sshOptionsSignature previous \<noteq> sshOptionsSignature (Some raw)
                      then publishEvent ''ssh_config.changed'' (m_id m)
                             [(''reason'', JStr ''ssh_compat_changed''), (''machine_id'', JStr (m_id m))] now w3
                      else w3);
                w5 = maybeQueueAutoAgentUpdate cfg m hb now w4
            in case pendingCommands pool (m_id m) now (w_db w5) of
                 None \<Rightarrow> (None, w5)
               | Some (cmds, d5) \<Rightarrow>
                   (let w6 = w5\<lparr>w_db := d5\<rparr> in (Some (heartbeat_response l cfg hb m tunnels cmds now w6), w6))))"

definition handleAgentHeartbeat :: "nat \<Rightarrow> lib \<Rightarrow> Config \<Rightarrow> AgentHeartbeat option \<Rightarrow> http_req \<Rightarrow> instant \<Rightarrow> world \<Rightarrow>
    response option \<times> world" where
  "handleAgentHeartbeat pool l cfg body rq now w =
     (case authAgentHeartbeat body rq of Inl r \<Rightarrow> (Some r, w)
      | Inr (token, hb) \<Rightarrow>
        (case getMachineAndTunnels (hb_machine_id hb) (w_db w) of Inl _ \<Rightarrow> (Some writeClientAuthErr, w)
         | Inr (m, tunnels) \<Rightarrow>
             if verifyAgentToken l (hb_machine_id hb) token True (w_db w) \<noteq> None then (Some writeClientAuthErr, w)
             else accept_heartbeat pool l cfg hb m tunnels now w))"

subsection \<open>Uninstallation\<close>

record uninstall_body =
  ub_machine_id :: string
  ub_reason :: string

definition handleAgentUninstall :: "bool \<Rightarrow> lib \<Rightarrow> Config \<Rightarrow> uninstall_body option \<Rightarrow> handler" where
  "handleAgentUninstall complete l cfg body rq now w =
     (case body of None \<Rightarrow> (writeErr 400 ''invalid json'', w)
      | Some b \<Rightarrow>
        (case bearer rq of None \<Rightarrow> (writeClientAuthErr, w)
         | Some token \<Rightarrow>
             if verifyAgentToken l (ub_machine_id b) token True (w_db w) \<noteq> None then (writeClientAuthErr, w)
             else let i = ub_machine_id b;
                      w1 = (if complete
                            then publishEvent ''machine.retired'' i [(''machine_id'', JStr i)] now
                                 (on_db (update_machines (\<lambda>m. mr_id m = i) (\<lambda>m. m\<lparr>mr_cleanup_state := Some ''complete''\<rparr>))
                                    (snd (RetireMachineNow cfg i ''agent-uninstall'' now w)))
                            else publishEvent ''machine.retiring'' i
                                   [(''machine_id'', JStr i), (''reason'', JStr (ub_reason b))] now
                                 (snd (RemoveMachine cfg i ''agent-uninstall'' now w)))
                  in (writeJSON 200 [(''ok'', JBool True)],
                      publishEvent ''ssh_config.changed'' i [(''machine_id'', JStr i)] now w1)))"

definition handleAgentUninstallIntent :: "lib \<Rightarrow> Config \<Rightarrow> uninstall_body option \<Rightarrow> handler" where
  "handleAgentUninstallIntent = handleAgentUninstall False"

definition handleAgentUninstallComplete :: "lib \<Rightarrow> Config \<Rightarrow> uninstall_body option \<Rightarrow> handler" where
  "handleAgentUninstallComplete = handleAgentUninstall True"

end
