(* ===== verification/ApiAdmin.thy ===== *)
theory ApiAdmin
  imports ApiAgent
begin

text \<open>
  \<open>api.go\<close>, administrators: approving and denying requests, the actions on machines, the generated
  SSH configuration, the health report, and the event stream as a transition system: a stream
  replays, subscribes, and then receives, while other requests publish.
\<close>

subsection \<open>Requests\<close>

definition request_item :: "request_row \<Rightarrow> (string \<times> json) list" where
  "request_item q =
     [(''id'', JStr (q_id q)), (''name'', JStr (q_name q)), (''status'', JStr (q_status q)),
      (''metadata'', case q_metadata q of None \<Rightarrow> JNull | Some m \<Rightarrow> JObj m), (''created_at'', JStr (q_created_at q)),
      (''expires_at'', JStr (q_expires_at q)), (''approved_at'', JStr (null_string (q_approved_at q))),
      (''denied_at'', JStr (null_string (q_denied_at q))),
      (''setup_token_expires_at'', JStr (null_string (q_setup_token_expires_at q)))]"

definition handleAdminRequests :: handler where
  "handleAdminRequests rq now w =
     (writeBody 200 (BReport (map request_item (take 200 (sort_desc q_created_at (db_requests (w_db w)))))), w)"

text \<open>A decision on a pending request: the row's update, its audit entry and its event.\<close>

definition decide_request :: "(request_row \<Rightarrow> request_row) \<Rightarrow> string \<Rightarrow> string \<Rightarrow> string \<Rightarrow> string \<Rightarrow> instant \<Rightarrow> world \<Rightarrow>
    response \<times> world" where
  "decide_request f action status i actor now w =
     (let p = (\<lambda>q. q_id q = i \<and> q_status q = ''pending'')
      in if sql_affected p (db_requests (w_db w)) = 0 then (writeErr 404 ''pending request not found'', w)
         else (writeJSON 200 [(''request_id'', JStr i), (''status'', JStr status)],
               publishEvent (''request.'' @ status) [] [(''request_id'', JStr i)] now
                 (on_db (\<lambda>d. Audit (''request.'' @ action) actor [] (''request='' @ i) now (update_requests p f d)) w)))"

definition handleAdminRequestAction :: "session \<Rightarrow> handler" where
  "handleAdminRequestAction s rq now w =
     (case splitAction (rq_path rq) ''/api/admin/requests/'' of None \<Rightarrow> (writeErr 404 ''not found'', w)
      | Some (i, action) \<Rightarrow>
          if rq_method rq \<noteq> ''POST'' then (writeErr 405 ''method not allowed'', w)
          else if action = ''approve''
          then decide_request (\<lambda>q. q\<lparr>q_status := ''approved'', q_setup_token_hash := None,
                   q_setup_token_expires_at := None, q_approved_at := Some (nowUTC now)\<rparr>)
                 ''approve'' ''approved'' i (c_username (ss_claims s)) now w
          else if action = ''deny''
          then decide_request (\<lambda>q. q\<lparr>q_status := ''denied'', q_denied_at := Some (nowUTC now)\<rparr>)
                 ''deny'' ''denied'' i (c_username (ss_claims s)) now w
          else (writeErr 404 ''not found'', w))"

subsection \<open>Machines\<close>

definition handleAdminMachines :: "Config \<Rightarrow> handler" where
  "handleAdminMachines cfg rq now w = (writeBody 200 (BMachines (ListMachines cfg (w_host w) (w_db w))), w)"

definition machine_view :: "Config \<Rightarrow> string \<Rightarrow> world \<Rightarrow> response" where
  "machine_view cfg i w =
     (case getMachineAndTunnels i (w_db w) of Inl _ \<Rightarrow> writeErr 404 ''machine not found''
      | Inr (m, ts) \<Rightarrow>
        (case List.find (\<lambda>item. m_id (mt_machine item) = m_id m) (ListMachines cfg (w_host w) (w_db w)) of
           Some item \<Rightarrow> writeBody 200 (BItem item)
         | None \<Rightarrow> writeBody 200 (BItem \<lparr>mt_machine = m, mt_tunnels = ts, mt_agent = None, mt_hub_observation = None,
                                        mt_commands = [], mt_update = None\<rparr>)))"

definition handleAdminMachineUpdateAgent :: "Config \<Rightarrow> string \<Rightarrow> string \<Rightarrow> instant \<Rightarrow> world \<Rightarrow> response \<times> world" where
  "handleAdminMachineUpdateAgent cfg i actor now w =
     (case GetMachine i (w_db w) of Inl _ \<Rightarrow> (writeErr 404 ''machine not found'', w)
      | Inr m \<Rightarrow>
        (case queueAgentUpdate cfg m actor ''manual'' now w of
           (None, w') \<Rightarrow> (writeJSON 200 [(''ok'', JBool True)], w')
         | (Some NoAgentUpdateAvailable, w') \<Rightarrow> (writeErr 400 ''no latest agent version configured'', w')
         | (Some UpdateAlreadyQueued, w') \<Rightarrow> (writeErr 409 ''agent update already queued'', w')
         | (Some (UpdateFailed e), w') \<Rightarrow> (writeErr 400 e, w')))"

definition handleAdminMachineUpdatePolicy :: "string option \<Rightarrow> string \<Rightarrow> string \<Rightarrow> instant \<Rightarrow> world \<Rightarrow> response \<times> world" where
  "handleAdminMachineUpdatePolicy body i actor now w =
     (case body of None \<Rightarrow> (writeErr 400 ''invalid json'', w)
      | Some p \<Rightarrow>
        (case normalizeUpdatePolicy p of Inl e \<Rightarrow> (writeErr 400 e, w)
         | Inr policy \<Rightarrow>
           (case SetUpdatePolicy i policy actor now w of
              (Inl e, w') \<Rightarrow> (writeErr 400 e, w')
            | (Inr m, w') \<Rightarrow>
                (writeBody 200 (BMachine m),
                 publishEvent ''machine.update_policy_changed'' (m_id m) [(''machine_id'', JStr (m_id m)),
                   (''slug'', JStr (m_slug m)), (''update_policy'', JStr (m_update_policy m))] now w'))))"

definition handleAdminMachineProcessTitle ::
    "ProcessTitleConfig option option \<Rightarrow> string \<Rightarrow> string \<Rightarrow> instant \<Rightarrow> world \<Rightarrow> response \<times> world" where
  "handleAdminMachineProcessTitle body i actor now w =
     (case body of None \<Rightarrow> (writeErr 400 ''invalid json'', w)
      | Some cfg \<Rightarrow>
        (case SetProcessTitleConfig i cfg actor now w of
           (Inl e, w') \<Rightarrow> (writeErr 400 e, w')
         | (Inr m, w') \<Rightarrow>
             (writeBody 200 (BMachine m),
              publishEvent ''machine.process_title_changed'' (m_id m)
                [(''machine_id'', JStr (m_id m)), (''slug'', JStr (m_slug m))] now
              (publishEvent ''machine.desired_changed'' (m_id m) [(''machine_id'', JStr (m_id m)),
                (''desired_state'', JStr (m_desired_state m)), (''generation'', JNum (m_desired_generation m)),
                (''reason'', JStr ''process_title'')] now w'))))"

definition desired_action :: "string \<Rightarrow> (string \<times> string) option" where
  "desired_action action =
     (if action = ''disable'' then Some (DesiredDisabled, ''machine.disabled'')
      else if action = ''enable'' then Some (DesiredActive, ''machine.enabled'')
      else if action = ''remove'' then Some (DesiredRetiring, ''machine.retiring'')
      else if action = ''retire-now'' then Some (DesiredRetired, ''machine.retired'')
      else None)"

definition change_desired :: "Config \<Rightarrow> string \<Rightarrow> string \<Rightarrow> string \<Rightarrow> string \<Rightarrow> string \<Rightarrow> instant \<Rightarrow> world \<Rightarrow> response \<times> world" where
  "change_desired cfg i action desired ev actor now w =
     (case SetDesiredState cfg i desired actor now w of
        (Inl e, w') \<Rightarrow> (writeErr 500 e, w')
      | (Inr m, w') \<Rightarrow>
          (writeJSON 200 [(''status'', JStr (m_status m)), (''desired_state'', JStr (m_desired_state m))],
           publishEvent ''ssh_config.changed'' (m_id m) [(''reason'', JStr action), (''machine_id'', JStr (m_id m))] now
           (publishEvent ev (m_id m) [(''machine_id'', JStr (m_id m)), (''slug'', JStr (m_slug m))] now
           (publishEvent ''machine.desired_changed'' (m_id m) [(''machine_id'', JStr (m_id m)),
              (''desired_state'', JStr (m_desired_state m)), (''generation'', JNum (m_desired_generation m))] now w'))))"

text \<open>The bodies the actions decode.\<close>

record action_body =
  ab_policy :: "string option"
  ab_title :: "ProcessTitleConfig option option"

definition handleAdminMachineAction :: "Config \<Rightarrow> action_body \<Rightarrow> session \<Rightarrow> handler" where
  "handleAdminMachineAction cfg body s rq now w =
     (case splitAction (rq_path rq) ''/api/admin/machines/'' of None \<Rightarrow> (writeErr 404 ''not found'', w)
      | Some (i, action) \<Rightarrow>
        (let actor = c_username (ss_claims s)
         in if action = [] \<and> rq_method rq = ''GET'' then (machine_view cfg i w, w)
            else if rq_method rq \<noteq> ''POST'' then (writeErr 405 ''method not allowed'', w)
            else if action = ''process-title'' then handleAdminMachineProcessTitle (ab_title body) i actor now w
            else if action = ''update-policy'' then handleAdminMachineUpdatePolicy (ab_policy body) i actor now w
            else if action = ''update-agent'' then handleAdminMachineUpdateAgent cfg i actor now w
            else case desired_action action of None \<Rightarrow> (writeErr 404 ''not found'', w)
                 | Some (desired, ev) \<Rightarrow> change_desired cfg i action desired ev actor now w))"

subsection \<open>SSH configuration\<close>

record ssh_row =
  sr_id :: string
  sr_slug :: string
  sr_target_user :: "string option"
  sr_port :: int
  sr_proxyjump :: "string option"
  sr_raw :: "AgentHeartbeat option"

definition listed_machine :: "machine_row \<Rightarrow> bool" where
  "listed_machine m \<longleftrightarrow> mr_desired_state m = Some ''active'' \<and>
     (mr_observed_state m = Some ''online'' \<or> mr_observed_state m = Some ''degraded'')"

text \<open>The join of machines, tunnels and hubs with the observations, by slug.\<close>

definition ssh_rows :: "db \<Rightarrow> ssh_row list" where
  "ssh_rows d = sort_key sr_slug
     [\<lparr>sr_id = mr_id m, sr_slug = mr_slug m, sr_target_user = mr_target_user m, sr_port = t_remote_port t,
       sr_proxyjump = Some (h_proxyjump_alias h),
       sr_raw = (case sql_row (\<lambda>a. ao_machine_id a = mr_id m) (db_agent_observations d) of
                   None \<Rightarrow> None | Some a \<Rightarrow> ao_raw a)\<rparr>.
      m \<leftarrow> filter listed_machine (db_machines d),
      t \<leftarrow> filter (\<lambda>t. t_machine_id t = mr_id m \<and> \<not> tunnel_down t) (db_tunnels d),
      h \<leftarrow> filter (\<lambda>h. h_id h = t_hub_id t) (db_hubs d)]"

definition or_default :: "string \<Rightarrow> string \<Rightarrow> string" where
  "or_default s dflt = (if s = [] then dflt else s)"

definition ssh_lines :: "string \<Rightarrow> string \<Rightarrow> ssh_row \<Rightarrow> string list" where
  "ssh_lines user jump r =
     [''Host '' @ sr_slug r, ''    HostName localhost'', ''    Port '' @ show_int (sr_port r), ''    User '' @ user,
      ''    ProxyJump '' @ jump, ''    HostKeyAlias reach-'' @ sr_id r, ''    StrictHostKeyChecking accept-new''] @
     map (\<lambda>(n, v). ''    '' @ n @ '' '' @ v) (sshConfigClientOptions (sr_raw r)) @ [[]]"

definition ssh_block :: "Config \<Rightarrow> ssh_row \<Rightarrow> string + string list" where
  "ssh_block cfg r =
     (let user = or_default (null_string (sr_target_user r)) ''root'';
          jump = or_default (null_string (sr_proxyjump r)) (hc_proxyjump_alias (cfg_default_hub cfg))
      in case ValidateSlug (sr_slug r) of Some e \<Rightarrow> Inl e | None \<Rightarrow>
        (case ValidateSSHConfigToken ''target user'' user of Some e \<Rightarrow> Inl e | None \<Rightarrow>
        (case ValidateSSHConfigToken ''proxyjump_alias'' jump of Some e \<Rightarrow> Inl e | None \<Rightarrow>
           Inr (ssh_lines user jump r))))"

definition ssh_header :: "string list" where
  "ssh_header = [''# Generated by Reach. Do not edit by hand.'',
     ''# Includes desired-active machines whose observed state is online/degraded.'', []]"

fun ssh_blocks :: "Config \<Rightarrow> ssh_row list \<Rightarrow> string + string list" where
  "ssh_blocks cfg [] = Inr []"
| "ssh_blocks cfg (r # rs) = andThen (ssh_block cfg r) (\<lambda>b. andThen (ssh_blocks cfg rs) (\<lambda>bs. Inr (b @ bs)))"

definition unlines :: "string list \<Rightarrow> string" where
  "unlines ls = concat (map (\<lambda>l. l @ [nl]) ls)"

definition GenerateSSHConfig :: "Config \<Rightarrow> db \<Rightarrow> string + string" where
  "GenerateSSHConfig cfg d = andThen (ssh_blocks cfg (ssh_rows d)) (\<lambda>ls. Inr (unlines (ssh_header @ ls)))"

definition handleSSHConfig :: "Config \<Rightarrow> handler" where
  "handleSSHConfig cfg rq now w =
     (case GenerateSSHConfig cfg (w_db w) of Inl e \<Rightarrow> (writeErr 500 e, w)
      | Inr text \<Rightarrow> (\<lparr>rs_status = 200, rs_body = BText text\<rparr>, w))"

definition handleHealth :: handler where
  "handleHealth rq now w = (writeBody 200 (BReport (CachedHealth w)), w)"

subsection \<open>The event stream\<close>

text \<open>The text a stream has written and, once it has subscribed, its channel.\<close>

record stream =
  st_out :: string
  st_chan :: "nat option"

definition hello_event :: "instant \<Rightarrow> ReachEvent" where
  "hello_event now = \<lparr>ev_id = ''0'', ev_type = ''hello'', ev_machine_id = [], ev_data = [(''ok'', JBool True)],
                      ev_created_at = nowUTC now\<rparr>"

text \<open>The first write: the retry hint, the replay and the greeting.\<close>

definition stream_open :: "http_req \<Rightarrow> instant \<Rightarrow> world \<Rightarrow> stream" where
  "stream_open rq now w =
     \<lparr>st_out = ''retry: 2000'' @ [nl, nl] @
        concat (map writeSSE (ReplaySince (lastEventID (header_get ''Last-Event-ID'' rq) (query_get ''last_event_id'' rq))
                                500 (w_db w))) @
        writeSSE (hello_event now), st_chan = None\<rparr>"

definition stream_subscribe :: "stream \<times> world \<Rightarrow> stream \<times> world" where
  "stream_subscribe = (\<lambda>(st, w).
     case Subscribe (w_broker w) of (ch, b) \<Rightarrow> (st\<lparr>st_chan := Some ch\<rparr>, w\<lparr>w_broker := b\<rparr>))"

definition stream_receive :: "stream \<times> world \<Rightarrow> stream \<times> world" where
  "stream_receive = (\<lambda>(st, w).
     case st_chan st of None \<Rightarrow> (st, w)
     | Some ch \<Rightarrow> (case receive ch (w_broker w) of
           (None, b) \<Rightarrow> (st, w)
         | (Some ev, b) \<Rightarrow> (st\<lparr>st_out := st_out st @ writeSSE ev\<rparr>, w\<lparr>w_broker := b\<rparr>)))"

definition stream_tick :: "instant \<Rightarrow> stream \<times> world \<Rightarrow> stream \<times> world" where
  "stream_tick now = (\<lambda>(st, w). (st\<lparr>st_out := st_out st @ writeSSEComment ''keepalive'' now\<rparr>, w))"

definition stream_close :: "stream \<times> world \<Rightarrow> world" where
  "stream_close = (\<lambda>(st, w). case st_chan st of None \<Rightarrow> w
     | Some ch \<Rightarrow> w\<lparr>w_broker := cancel_sub ch (w_broker w)\<rparr>)"

end
