(* ===== verification/Server.thy ===== *)
theory Server
  imports ApiAdmin
begin

text \<open>
  \<open>api.go\<close>, composition: which endpoint serves a path, behind which checks, and the answer to a
  whole request. A request body is given by its decoding as each endpoint's structure, with
  \<open>None\<close> where that decoding fails. Cross-origin headers are not modelled.
\<close>

datatype endpoint =
    ERegister | EPoll | EProvision | EHeartbeat | EUninstallIntent | EUninstallComplete
  | ELogin | ELogout | EServiceTokens | ERequests | ERequestAction | EMachines | EMachineAction
  | ESSHConfig | EEvents | EHealth

definition routes :: "(string \<times> endpoint) list" where
  "routes =
     [(''/api/client/register'', ERegister), (''/api/client/register/'', EPoll),
      (''/api/client/provision'', EProvision), (''/api/client/agent/heartbeat'', EHeartbeat),
      (''/api/client/agent/uninstall-intent'', EUninstallIntent),
      (''/api/client/agent/uninstall-complete'', EUninstallComplete),
      (''/api/admin/login'', ELogin), (''/api/admin/logout'', ELogout),
      (''/api/admin/service-tokens'', EServiceTokens), (''/api/admin/requests'', ERequests),
      (''/api/admin/requests/'', ERequestAction), (''/api/admin/machines'', EMachines),
      (''/api/admin/machines/'', EMachineAction), (''/api/admin/ssh-config'', ESSHConfig),
      (''/api/admin/events'', EEvents), (''/api/admin/health'', EHealth)]"

text \<open>\<open>http.ServeMux\<close>: a pattern matches its own path, one that ends in a slash every path below it.
  No two patterns of the table that end in a slash are prefixes of one another. Paths that the
  multiplexer would first clean by a redirect are left out.\<close>

definition route :: "string \<Rightarrow> endpoint option" where
  "route path =
     (case map_of routes path of Some e \<Rightarrow> Some e
      | None \<Rightarrow> map_option snd (List.find (\<lambda>(p, e). has_suffix p ''/'' \<and> has_prefix path p) routes))"

record bodies =
  bo_register :: "register_body option"
  bo_poll :: "string option"
  bo_provision :: "client_provision option"
  bo_heartbeat :: "AgentHeartbeat option"
  bo_uninstall :: "uninstall_body option"
  bo_login :: "login_body option"
  bo_token :: "token_body option"
  bo_action :: action_body

text \<open>A response, an open stream, or no answer before the client gives up.\<close>

datatype answer = Reply response | Stream stream | NoAnswer

definition reply :: "response \<times> world \<Rightarrow> answer \<times> world" where
  "reply = (\<lambda>(r, w). (Reply r, w))"

definition client_endpoint ::
    "nat \<Rightarrow> lib \<Rightarrow> Config \<Rightarrow> bodies \<Rightarrow> endpoint \<Rightarrow> http_req \<Rightarrow> instant \<Rightarrow> world \<Rightarrow> (answer \<times> world) option" where
  "client_endpoint pool l cfg bo e rq now w =
     (case e of
        ERegister \<Rightarrow> Some (reply (handleClientRegister l cfg (bo_register bo) rq now w))
      | EPoll \<Rightarrow> Some (reply (handleClientPoll l cfg (bo_poll bo) rq now w))
      | EProvision \<Rightarrow> Some (reply (handleClientProvision l cfg (bo_provision bo) rq now w))
      | EHeartbeat \<Rightarrow> Some (case handleAgentHeartbeat pool l cfg (bo_heartbeat bo) rq now w of
                        (None, w') \<Rightarrow> (NoAnswer, w') | (Some r, w') \<Rightarrow> (Reply r, w'))
      | EUninstallIntent \<Rightarrow> Some (reply (handleAgentUninstallIntent l cfg (bo_uninstall bo) rq now w))
      | EUninstallComplete \<Rightarrow> Some (reply (handleAgentUninstallComplete l cfg (bo_uninstall bo) rq now w))
      | ELogin \<Rightarrow> Some (reply (handleAdminLogin l cfg (bo_login bo) rq now w))
      | _ \<Rightarrow> None)"

definition admin_endpoint :: "lib \<Rightarrow> Config \<Rightarrow> bodies \<Rightarrow> endpoint \<Rightarrow> session \<Rightarrow> handler" where
  "admin_endpoint l cfg bo e s =
     (case e of
        ELogout \<Rightarrow> method_only ''POST'' (handleAdminLogout l s)
      | EServiceTokens \<Rightarrow> method_only ''POST'' (handleCreateServiceToken l (bo_token bo) s)
      | ERequests \<Rightarrow> method_only ''GET'' handleAdminRequests
      | ERequestAction \<Rightarrow> handleAdminRequestAction s
      | EMachines \<Rightarrow> method_only ''GET'' (handleAdminMachines cfg)
      | EMachineAction \<Rightarrow> handleAdminMachineAction cfg (bo_action bo) s
      | ESSHConfig \<Rightarrow> method_only ''GET'' (handleSSHConfig cfg)
      | EHealth \<Rightarrow> method_only ''GET'' handleHealth
      | _ \<Rightarrow> (\<lambda>rq now w. (http_error 404 ''404 page not found'', w)))"

text \<open>The event stream opens with a first text; what it writes later is its own transitions.\<close>

definition stream_opens :: "response" where
  "stream_opens = \<lparr>rs_status = 200, rs_body = BText []\<rparr>"

definition serve :: "nat \<Rightarrow> lib \<Rightarrow> Config \<Rightarrow> bodies \<Rightarrow> http_req \<Rightarrow> instant \<Rightarrow> world \<Rightarrow> answer \<times> world" where
  "serve pool l cfg bo rq now w =
     (if rq_method rq = ''OPTIONS'' then (Reply \<lparr>rs_status = 204, rs_body = BText []\<rparr>, w)
      else case route (rq_path rq) of
        None \<Rightarrow> (Reply (http_error 404 ''404 page not found''), w)
      | Some e \<Rightarrow>
        (case (if rq_method rq \<noteq> ''POST'' then map_option (\<lambda>_. (Reply (http_error 405 ''method not allowed''), w))
                                               (client_endpoint pool l cfg bo e rq now w)
               else client_endpoint pool l cfg bo e rq now w) of
           Some r \<Rightarrow> r
         | None \<Rightarrow>
             if e = EEvents then
               (case admin_only l cfg (\<lambda>s. method_only ''GET'' (\<lambda>rq now w. (stream_opens, w))) rq now w of
                  (r, w') \<Rightarrow> if r = stream_opens then (Stream (stream_open rq now w'), w') else (Reply r, w'))
             else reply (admin_only l cfg (admin_endpoint l cfg bo e) rq now w)))"

end
