(* ===== verification/HubInvariant.thy ===== *)
theory HubInvariant
  imports Server "HOL-Library.Sublist"
begin

text \<open>
  What every operation of the hub keeps: the integrity of the database, the audit log and the
  event log (they only grow), and the identities of machines (none is ever deleted). The rules
  have the form: if the database reached so far keeps these, so does the one after one more
  operation; proofs about handlers apply them backwards along the handler's text.
\<close>

named_theorems keeps \<open>operations that keep integrity and history\<close>

text \<open>Service tokens only ever carry the restricted role, and a revoked one stays revoked.\<close>

definition roles_restricted :: "db \<Rightarrow> bool" where
  "roles_restricted d \<longleftrightarrow> (\<forall>t \<in> set (db_service_tokens d). sv_role t = ''mac-agent'')"

definition revoked :: "string \<Rightarrow> db \<Rightarrow> bool" where
  "revoked h d \<longleftrightarrow> (\<exists>t \<in> set (db_service_tokens d). sv_token_hash t = h \<and> sv_revoked_at t \<noteq> None)"

definition tokens_keep :: "db \<Rightarrow> db \<Rightarrow> bool" where
  "tokens_keep d d' \<longleftrightarrow> (roles_restricted d \<longrightarrow> roles_restricted d') \<and> (\<forall>h. revoked h d \<longrightarrow> revoked h d')"

lemma tokens_keep_same: "db_service_tokens d' = db_service_tokens d \<Longrightarrow> tokens_keep d d'"
  by (simp add: tokens_keep_def roles_restricted_def revoked_def)

lemma tokens_keep_trans: "tokens_keep a b \<Longrightarrow> tokens_keep b c \<Longrightarrow> tokens_keep a c"
  by (simp add: tokens_keep_def)

definition evolves :: "db \<Rightarrow> db \<Rightarrow> bool" where
  "evolves d d' \<longleftrightarrow> (db_wf d \<longrightarrow> db_wf d') \<and> prefix (db_audit d) (db_audit d') \<and>
     prefix (db_events d) (db_events d') \<and> prefix (map mr_id (db_machines d)) (map mr_id (db_machines d')) \<and>
     tokens_keep d d'"

definition quiet :: "db \<Rightarrow> db \<Rightarrow> bool" where
  "quiet d d' \<longleftrightarrow> evolves d d' \<and> db_requests d' = db_requests d"

lemma quiet_refl [simp]: "quiet d d"
  by (simp add: quiet_def evolves_def tokens_keep_same)

lemma evolves_refl [simp]: "evolves d d"
  by (simp add: evolves_def tokens_keep_same)

lemma evolves_trans: "evolves a b \<Longrightarrow> evolves b c \<Longrightarrow> evolves a c"
  unfolding evolves_def by (blast intro: prefix_order.trans tokens_keep_trans)

lemma quiet_trans: "quiet a b \<Longrightarrow> quiet b c \<Longrightarrow> quiet a c"
  unfolding quiet_def by (metis evolves_trans)

lemma quiet_evolves: "quiet a b \<Longrightarrow> evolves a b"
  by (simp add: quiet_def)

lemma quiet_step: "(\<And>d. quiet d (f d)) \<Longrightarrow> quiet a b \<Longrightarrow> quiet a (f b)"
  by (blast intro: quiet_trans)

subsection \<open>Statements\<close>

lemma quiet_Audit [keeps]: "quiet a d \<Longrightarrow> quiet a (Audit x b c e now d)"
  by (rule quiet_step) (simp_all add: quiet_def evolves_def Audit_wf tokens_keep_same, simp_all add: Audit_def tokens_keep_same)

lemma quiet_update_machines [keeps]:
  assumes "\<And>m. mr_id (f m) = mr_id m" "\<And>m. mr_slug (f m) = mr_slug m" "quiet a d"
  shows "quiet a (update_machines p f d)"
  by (rule quiet_step [OF _ assms(3)])
    (simp add: quiet_def evolves_def update_machines_wf assms, simp add: update_machines_def sql_update_key assms tokens_keep_same)

lemma quiet_update_machine_keys:
  assumes "update_machine_keys p f d = Some d'" "\<And>m. mr_id (f m) = mr_id m" "quiet a d"
  shows "quiet a d'"
proof -
  have "quiet d d'"
    using update_machine_keys_wf [OF assms(1,2)] assms(1)
    by (simp add: quiet_def evolves_def update_machine_keys_Some update_machines_def sql_update_key assms(2) tokens_keep_same)
  then show ?thesis using assms(3) quiet_trans by blast
qed

lemma quiet_update_tunnels [keeps]:
  assumes "\<And>t. t_id (f t) = t_id t" "\<And>t. t_machine_id (f t) = t_machine_id t" "\<And>t. t_hub_id (f t) = t_hub_id t"
    "\<And>t. t_remote_port (f t) = t_remote_port t" "\<And>t. t_unix_user (f t) = t_unix_user t" "quiet a d"
  shows "quiet a (update_tunnels p f d)"
  by (rule quiet_step [OF _ assms(6)])
    (simp add: quiet_def evolves_def update_tunnels_wf assms, simp add: update_tunnels_def tokens_keep_same)

lemma quiet_update_tunnel_keys:
  assumes "update_tunnel_keys p f d = Some d'" "\<And>t. t_id (f t) = t_id t"
    "\<And>t. t_machine_id (f t) = t_machine_id t" "\<And>t. t_hub_id (f t) = t_hub_id t" "quiet a d"
  shows "quiet a d'"
proof -
  have "quiet d d'"
    using update_tunnel_keys_wf [OF assms(1-4)] assms(1)
    by (simp add: quiet_def evolves_def update_tunnel_keys_Some update_tunnels_def tokens_keep_same)
  then show ?thesis using assms(5) quiet_trans by blast
qed

lemma quiet_update_commands [keeps]:
  assumes "\<And>c. ci_id (f c) = ci_id c" "\<And>c. ci_machine_id (f c) = ci_machine_id c" "quiet a d"
  shows "quiet a (update_commands p f d)"
  by (rule quiet_step [OF _ assms(3)])
    (simp add: quiet_def evolves_def update_commands_wf assms, simp add: update_commands_def tokens_keep_same)

lemma quiet_insert_command: "insert_command r d = Some d' \<Longrightarrow> quiet a d \<Longrightarrow> quiet a d'"
  by (rule quiet_trans, assumption)
    (use insert_command_wf [of r d d'] in \<open>auto simp: quiet_def evolves_def insert_command_Some tokens_keep_same\<close>)

lemma quiet_insert_machine: "insert_machine r d = Some d' \<Longrightarrow> quiet a d \<Longrightarrow> quiet a d'"
  by (rule quiet_trans, assumption)
    (use insert_machine_wf [of r d d'] in \<open>auto simp: quiet_def evolves_def insert_machine_Some tokens_keep_same\<close>)

lemma quiet_insert_tunnel: "insert_tunnel r d = Some d' \<Longrightarrow> quiet a d \<Longrightarrow> quiet a d'"
  by (rule quiet_trans, assumption)
    (use insert_tunnel_wf [of r d d'] in \<open>auto simp: quiet_def evolves_def insert_tunnel_Some tokens_keep_same\<close>)

lemma quiet_insert_grant [keeps]: "quiet a d \<Longrightarrow> quiet a (insert_grant r d)"
  by (rule quiet_step) (simp_all add: quiet_def evolves_def insert_grant_wf, simp_all add: insert_grant_def tokens_keep_same)

lemma quiet_insert_service_token:
  assumes "insert_service_token r d = Some d'" "sv_role r = ''mac-agent''" "quiet a d"
  shows "quiet a d'"
proof (rule quiet_trans [OF assms(3)])
  have "tokens_keep d d'" using assms(1,2)
    by (auto simp: tokens_keep_def roles_restricted_def revoked_def insert_service_token_Some)
  then show "quiet d d'" using insert_service_token_wf [OF assms(1)] assms(1)
    by (auto simp: quiet_def evolves_def insert_service_token_Some)
qed

lemma quiet_publishEvent [keeps]: "quiet a (w_db w) \<Longrightarrow> quiet a (w_db (publishEvent t i p now w))"
  by (rule quiet_trans, assumption)
    (simp add: quiet_def evolves_def publishEvent_wf, simp add: publishEvent_db tokens_keep_same)

lemma upsert_wf:
  "db_wf d \<Longrightarrow> db_wf (d\<lparr>db_agent_observations := sql_upsert ao_machine_id (\<lambda>_ new. new) ob (db_agent_observations d)\<rparr>)"
  "db_wf d \<Longrightarrow> db_wf (d\<lparr>db_agent_status := sql_upsert as_machine_id (\<lambda>_ new. new) st (db_agent_status d)\<rparr>)"
  "(\<And>x. ho_tunnel_id (m x h) = ho_tunnel_id x) \<Longrightarrow> db_wf d \<Longrightarrow>
   db_wf (d\<lparr>db_hub_observations := sql_upsert ho_tunnel_id m h (db_hub_observations d)\<rparr>)"
  by (simp_all add: wf_defs sql_upsert_distinct)

lemma quiet_upserts:
  "upsert_agent_observation ob d = Some d' \<Longrightarrow> quiet a d \<Longrightarrow> quiet a d'"
  "upsert_agent_status st d = Some d' \<Longrightarrow> quiet a d \<Longrightarrow> quiet a d'"
  "upsert_hub_observation h d = Some d' \<Longrightarrow> quiet a d \<Longrightarrow> quiet a d'"
proof -
  show "quiet a d'" if "upsert_agent_observation ob d = Some d'" "quiet a d"
  proof (rule quiet_trans [OF that(2)])
    show "quiet d d'" using that(1) upsert_wf(1) [of d ob]
      by (simp add: quiet_def evolves_def upsert_agent_observation_def tokens_keep_same split: if_splits) (drule sym, simp add: tokens_keep_same)
  qed
  show "quiet a d'" if "upsert_agent_status st d = Some d'" "quiet a d"
  proof (rule quiet_trans [OF that(2)])
    show "quiet d d'" using that(1) upsert_wf(2) [of d st]
      by (simp add: quiet_def evolves_def upsert_agent_status_def tokens_keep_same split: if_splits) (drule sym, simp add: tokens_keep_same)
  qed
  show "quiet a d'" if "upsert_hub_observation h d = Some d'" "quiet a d"
  proof (rule quiet_trans [OF that(2)])
    show "quiet d d'"
      using that(1) upsert_wf(3) [of _ h d]
      by (simp add: quiet_def evolves_def upsert_hub_observation_def tokens_keep_same split: if_splits) (drule sym, simp add: tokens_keep_same)
  qed
qed

lemma quiet_ignore_error [keeps]: "quiet a d \<Longrightarrow> (\<And>d'. f d = Some d' \<Longrightarrow> quiet a d') \<Longrightarrow> quiet a (ignore_error f d)"
  by (simp add: ignore_error_def split: option.split)

lemma quiet_purge: "quiet d (purge_blacklist now d)"
  by (simp add: quiet_def evolves_def purge_blacklist_def sql_delete_def wf_defs distinct_map_filter exists_image
      tokens_keep_same)

lemma quiet_replace_blacklist:
  "quiet d (d\<lparr>db_jwt_blacklist := sql_delete (\<lambda>b. jb_token_hash b = h) (db_jwt_blacklist d)
      @ [\<lparr>jb_token_hash = h, jb_expires_at = e, jb_created_at = c\<rparr>]\<rparr>)"
proof -
  have "h \<notin> jb_token_hash ` {x \<in> S. jb_token_hash x \<noteq> h}" for S :: "jwt_blacklist_row set" by auto
  then show ?thesis
    by (simp add: quiet_def evolves_def sql_delete_def wf_defs distinct_map_filter exists_image tokens_keep_same)
qed

lemma quiet_blacklist [keeps]:
  "quiet a d \<Longrightarrow> quiet a (purge_blacklist now d)"
  "quiet a d \<Longrightarrow> quiet a (blacklistJWT l t e now d)"
  unfolding blacklistJWT_def Let_def
  by (erule quiet_trans, rule quiet_purge)
    (erule quiet_trans, rule quiet_trans [OF quiet_purge quiet_replace_blacklist])

lemma quiet_update_service_tokens [keeps]:
  assumes "\<And>t. sv_id (f t) = sv_id t" "\<And>t. sv_token_hash (f t) = sv_token_hash t" "\<And>t. sv_role (f t) = sv_role t"
    "\<And>t. sv_revoked_at t \<noteq> None \<Longrightarrow> sv_revoked_at (f t) \<noteq> None" "quiet a d"
  shows "quiet a (update_service_tokens p f d)"
proof (rule quiet_step [OF _ assms(5)])
  fix d
  have "roles_restricted d \<Longrightarrow> roles_restricted (update_service_tokens p f d)"
    unfolding roles_restricted_def update_service_tokens_def using assms(3) by (auto simp: set_sql_update)
  moreover have "revoked h (update_service_tokens p f d)" if r: "revoked h d" for h
  proof -
    obtain t where t: "t \<in> set (db_service_tokens d)" "sv_token_hash t = h" "sv_revoked_at t \<noteq> None"
      using r unfolding revoked_def by blast
    show ?thesis unfolding revoked_def update_service_tokens_def sql_update_def
      by (rule bexI [of _ "if p t then f t else t"]) (use t assms(2) assms(4) [of t] in auto)
  qed
  ultimately have "tokens_keep d (update_service_tokens p f d)" by (simp add: tokens_keep_def)
  then show "quiet d (update_service_tokens p f d)"
    by (simp add: quiet_def evolves_def update_service_tokens_def wf_defs sql_update_key assms(1,2))
qed

lemma quiet_rate_limits [keeps]: "quiet a d \<Longrightarrow> quiet a (d\<lparr>db_rate_limits := t\<rparr>)"
  by (erule quiet_trans) (simp add: quiet_def evolves_def wf_defs exists_image tokens_keep_same)

lemma quiet_invites [keeps]: "quiet a d \<Longrightarrow> quiet a (d\<lparr>db_invites := t\<rparr>)"
  by (erule quiet_trans) (simp add: quiet_def evolves_def wf_defs exists_image tokens_keep_same)

subsection \<open>Operations of the provisioner\<close>

lemma each_tunnel_frame [simp]:
  "w_db (each_tunnel f ts w) = w_db w" "w_rand (each_tunnel f ts w) = w_rand w"
  by (simp_all add: each_tunnel_def)

lemma on_host_db [simp]: "w_db (snd (on_host f w)) = w_db w"
  by (simp add: on_host_def split: prod.splits)

lemma quiet_on_db [keeps]: "quiet a (f (w_db w)) \<Longrightarrow> quiet a (w_db (on_db f w))"
  by simp

lemma quiet_with_rand: "with_rand f w = (x, w') \<Longrightarrow> quiet a (w_db w) \<Longrightarrow> quiet a (w_db w')"
  by (simp add: with_rand_db)

lemma quiet_bindE:
  assumes "bindE f g w = (r, w')" "quiet a (w_db w)"
    "\<And>x w1. f w = (x, w1) \<Longrightarrow> quiet a (w_db w1)"
    "\<And>x w1 r' w2. g x w1 = (r', w2) \<Longrightarrow> quiet a (w_db w1) \<Longrightarrow> quiet a (w_db w2)"
  shows "quiet a (w_db w')"
proof -
  obtain x w1 where f: "f w = (x, w1)" by (cases "f w")
  show ?thesis
  proof (cases x)
    case (Inl e)
    then show ?thesis using assms(1) f assms(3) [OF f] by (simp add: bindE_def)
  next
    case (Inr y)
    then have "g y w1 = (r, w')" using assms(1) f by (simp add: bindE_def)
    then show ?thesis using assms(4) assms(3) [OF f] by blast
  qed
qed

lemma quiet_QueueCommand:
  assumes "QueueCommand m g t p ttl now w = (r, w')" "quiet a (w_db w)"
  shows "quiet a (w_db w')"
  using assms(1)
proof (cases rule: QueueCommand_cases)
  case (queued i r d)
  then show ?thesis using quiet_insert_command [of _ "w_db w" d] assms(2) by simp
qed (use assms(2) in simp)

lemma quiet_queueCmd [keeps]: "quiet a (w_db w) \<Longrightarrow> quiet a (w_db (queueCmd m g t p ttl now w))"
  unfolding queueCmd_def by (cases "QueueCommand m g t p ttl now w") (simp add: quiet_QueueCommand)

lemma set_desired_keys [simp]:
  "mr_id (set_desired x g n a m) = mr_id m" "mr_slug (set_desired x g n a m) = mr_slug m"
  by (simp_all add: set_desired_def)

lemma quiet_desired [keeps]:
  assumes "quiet a (w_db w)"
  shows "quiet a (w_db (desired_active cfg m ts actor now w))"
    "quiet a (w_db (desired_disabled cfg m ts actor now w))"
    "quiet a (w_db (desired_retiring cfg m ts actor now w))"
  unfolding desired_active_def desired_disabled_def desired_retiring_def Let_def
  by ((intro keeps; simp add: assms), (intro keeps; simp add: assms), (intro keeps; simp add: assms))

lemma quiet_retireTunnelRow [keeps]: "quiet a d \<Longrightarrow> quiet a (snd (retireTunnelRow t d))"
  unfolding retireTunnelRow_def Let_def by (auto split: option.split intro: quiet_update_tunnel_keys)

lemma quiet_retire_tunnels [keeps]: "quiet a (w_db w) \<Longrightarrow> quiet a (w_db (retire_tunnels cfg ts w))"
  by (induction cfg ts w rule: retire_tunnels.induct) (simp_all add: Let_def quiet_retireTunnelRow)

lemma quiet_desired_retired:
  assumes "desired_retired cfg m ts actor now w = (r, w')" "quiet a (w_db w)"
  shows "quiet a (w_db w')"
  using assms(1) unfolding desired_retired_def Let_def
proof (rule quiet_bindE)
  show q: "quiet a (w_db (retire_tunnels cfg ts w))" using assms(2) by (rule keeps)
  show "quiet a (w_db w1)" if "with_rand f (retire_tunnels cfg ts w) = (x, w1)" for f :: "rand \<Rightarrow> (string + string) \<times> rand" and x w1
    using quiet_with_rand [OF that q] .
qed (auto split: option.splits intro: quiet_update_machine_keys)

lemma quiet_desired_step:
  "desired_step cfg m ts desired actor now w = (r, w') \<Longrightarrow> quiet a (w_db w) \<Longrightarrow> quiet a (w_db w')"
  unfolding desired_step_def using quiet_desired [of a w cfg m ts actor now] quiet_desired_retired [of cfg m ts actor now w r w' a]
  by (auto split: if_splits)

lemma quiet_SetDesiredState:
  assumes "SetDesiredState cfg i desired actor now w = (r, w')" "quiet a (w_db w)"
  shows "quiet a (w_db w')"
proof (cases "getMachineAndTunnels i (w_db w)")
  case (Inr mt)
  obtain m ts where mt: "mt = (m, ts)" by (cases mt)
  obtain x w1 where x: "desired_step cfg m ts desired actor now w = (x, w1)" by fastforce
  note q = quiet_desired_step [OF x assms(2)]
  then show ?thesis using assms(1) Inr mt x q by (cases x) (auto simp: SetDesiredState_def Let_def intro: quiet_Audit)
qed (use assms in \<open>simp add: SetDesiredState_def\<close>)

lemma quiet_DisableMachine [keeps]: "quiet a (w_db w) \<Longrightarrow> quiet a (w_db (snd (DisableMachine cfg i actor now w)))"
  unfolding DisableMachine_def by (cases "SetDesiredState cfg i DesiredDisabled actor now w") (simp add: quiet_SetDesiredState)

lemma quiet_RetireMachineNow [keeps]: "quiet a (w_db w) \<Longrightarrow> quiet a (w_db (snd (RetireMachineNow cfg i actor now w)))"
  unfolding RetireMachineNow_def by (cases "SetDesiredState cfg i DesiredRetired actor now w") (simp add: quiet_SetDesiredState)

lemma quiet_RemoveMachine [keeps]: "quiet a (w_db w) \<Longrightarrow> quiet a (w_db (snd (RemoveMachine cfg i actor now w)))"
  unfolding RemoveMachine_def by (cases "SetDesiredState cfg i DesiredRetiring actor now w") (simp add: quiet_SetDesiredState)

lemma quiet_create_tx:
  assumes "create_tx pl m t u h now i d = Inr (hub, port, d')" "quiet a d"
  shows "quiet a d'"
  using assms(1)
proof (cases rule: create_tx_Inr)
  case (1 d1 d2)
  then have "quiet a d2" using quiet_insert_tunnel quiet_insert_machine assms(2) by blast
  then show ?thesis using 1(5) quiet_insert_grant by simp
qed

lemma quiet_markProvisionFailed [keeps]: "quiet a d \<Longrightarrow> quiet a (markProvisionFailed m t msg now d)"
  unfolding markProvisionFailed_def by (intro keeps) simp_all

lemma quiet_finish_create [keeps]: "quiet a d \<Longrightarrow> quiet a (finish_create m det now d)"
  unfolding finish_create_def by (intro keeps) simp_all

lemma quiet_provision_account:
  assumes "provision_account cfg m t u port i now w = (r, w')" "quiet a (w_db w)"
  shows "quiet a (w_db w')"
proof -
  obtain e h where "createSystemAccount cfg u port (in_pubkey i) (in_expires_at i) (w_host w) = (e, h)" by fastforce
  then show ?thesis using assms(1) assms(2) quiet_markProvisionFailed [OF assms(2)]
    by (auto simp: provision_account_def split: if_splits option.splits)
qed

lemma quiet_create_with:
  assumes "create_with cfg i m t short tok h now w = (r, w')" "quiet a (w_db w)"
  shows "quiet a (w_db w')"
proof (cases "create_tx (ho_listening (w_host w)) m t (''rt-'' @ short) h (nowUTC now) i (w_db w)")
  case (Inr x)
  obtain hub port d where x: "x = (hub, port, d)" by (cases x)
  obtain e w1 where p: "provision_account cfg m t (''rt-'' @ short) port i now (w\<lparr>w_db := d\<rparr>) = (e, w1)" by fastforce
  have "quiet a (w_db w1)"
    using quiet_provision_account [OF p] quiet_create_tx [OF Inr [unfolded x] assms(2)] by simp
  then show ?thesis using assms(1) Inr x p quiet_finish_create
    by (cases e) (auto simp: create_with_def Let_def)
qed (use assms in \<open>simp add: create_with_def\<close>)

lemma quiet_CreateMachine:
  assumes "CreateMachine l cfg input now w = (r, w')" "quiet a (w_db w)"
  shows "quiet a (w_db w')"
  using assms(1) by (cases rule: CreateMachine_cases) (use assms(2) in \<open>auto dest: quiet_create_with\<close>)

lemma quiet_SetUpdatePolicy:
  "SetUpdatePolicy i p actor now w = (r, w') \<Longrightarrow> quiet a (w_db w) \<Longrightarrow> quiet a (w_db w')"
  unfolding SetUpdatePolicy_def Let_def
  by (auto split: sum.splits intro!: quiet_Audit quiet_update_machines)

lemma quiet_SetProcessTitleConfig:
  "SetProcessTitleConfig i c actor now w = (r, w') \<Longrightarrow> quiet a (w_db w) \<Longrightarrow> quiet a (w_db w')"
  unfolding SetProcessTitleConfig_def Let_def
  by (auto split: sum.splits intro!: quiet_Audit quiet_update_machines)

lemma quiet_queueAgentUpdate:
  assumes "queueAgentUpdate cfg m actor reason now w = (r, w')" "quiet a (w_db w)"
  shows "quiet a (w_db w')"
proof -
  have "quiet a (w_db w1)" if "QueueCommand i g t p ttl now w = (x, w1)" for i g t p ttl x w1
    using quiet_QueueCommand [OF that assms(2)] .
  then show ?thesis using assms unfolding queueAgentUpdate_def Let_def
    by (auto split: if_splits option.splits prod.splits sum.splits intro!: quiet_publishEvent quiet_Audit)
qed

lemma quiet_maybeQueue [keeps]: "quiet a (w_db w) \<Longrightarrow> quiet a (w_db (maybeQueueAutoAgentUpdate cfg m hb now w))"
  unfolding maybeQueueAutoAgentUpdate_def
  by (cases "queueAgentUpdate cfg m ''system'' ''auto_policy'' now w")
    (simp add: quiet_queueAgentUpdate split: option.split)

subsection \<open>Observation and expiry\<close>

lemma quiet_recomputeObserved [keeps]: "quiet a d \<Longrightarrow> quiet a (recomputeObserved cfg i now d)"
  unfolding recomputeObserved_def Let_def by (intro keeps) simp_all

lemma quiet_probe_tunnel:
  assumes "probe_tunnel cfg now t w = (e, w')" "quiet a (w_db w)"
  shows "quiet a (w_db w')"
proof -
  obtain ok detail h where c: "checkTunnelPort (t_remote_port t) (w_host w) = ((ok, detail), h)"
    by (metis prod.exhaust)
  have k: "quiet a (recomputeObserved cfg i now (ignore_error (upsert_hub_observation ho) d))" if "quiet a d" for i ho d
    by (rule quiet_recomputeObserved, rule quiet_ignore_error [OF that]) (rule quiet_upserts(3) [OF _ that])
  have u: "quiet a (update_tunnels p (\<lambda>x. x\<lparr>t_status := ''online'', t_last_seen_at := s\<rparr>) (w_db w))"
    "quiet a (update_tunnels p (\<lambda>x. x\<lparr>t_status := ''offline''\<rparr>) (w_db w))" for p s
    by (rule quiet_update_tunnels; simp add: assms(2))+
  show ?thesis
  proof (cases ok)
    case True
    then show ?thesis using assms(1) c k [OF u(1)] by (clarsimp simp: probe_tunnel_def Let_def)
  next
    case False
    then show ?thesis using assms(1) c k [OF u(2)] by (clarsimp simp: probe_tunnel_def Let_def)
  qed
qed

lemma quiet_probe_all: "probe_all cfg now ts w = (rep, w') \<Longrightarrow> quiet a (w_db w) \<Longrightarrow> quiet a (w_db w')"
proof (induction ts arbitrary: w rep w')
  case (Cons t ts)
  obtain e w1 where 1: "probe_tunnel cfg now t w = (e, w1)" by fastforce
  obtain r2 w2 where 2: "probe_all cfg now ts w1 = (r2, w2)" by fastforce
  from Cons.prems 1 2 have "w' = w2" by simp
  then show ?case using Cons.IH [OF 2] quiet_probe_tunnel [OF 1] Cons.prems(2) by blast
qed simp

lemma quiet_RunHealthCheck: "RunHealthCheck cfg now w = (rep, w') \<Longrightarrow> quiet a (w_db w) \<Longrightarrow> quiet a (w_db w')"
  unfolding RunHealthCheck_def by (auto split: prod.splits intro: quiet_probe_all)

lemma evolves_update_requests:
  "(\<And>q. q_id (f q) = q_id q) \<Longrightarrow> evolves a d \<Longrightarrow> evolves a (update_requests p f d)"
  by (erule evolves_trans) (simp add: evolves_def update_requests_wf, simp add: update_requests_def tokens_keep_same)

lemma evolves_insert_request: "insert_request r d = Some d' \<Longrightarrow> evolves a d \<Longrightarrow> evolves a d'"
  by (erule evolves_trans) (use insert_request_wf [of r d d'] in \<open>auto simp: evolves_def insert_request_Some tokens_keep_same\<close>)

lemma quiet_fold_Disable:
  "quiet a (w_db w) \<Longrightarrow> quiet a (w_db (foldl (\<lambda>w i. snd (DisableMachine cfg i actor now w)) w ids))"
  by (induction ids arbitrary: w) (simp_all add: quiet_DisableMachine)

lemma evolves_ExpireOnce: "evolves (w_db w) (w_db (ExpireOnce cfg now w))"
proof -
  let ?w1 = "on_db (expire_requests (nowUTC now)) w"
  have "evolves (w_db w) (w_db ?w1)"
    by (simp add: expire_requests_def evolves_update_requests)
  moreover have "evolves (w_db ?w1) (w_db (ExpireOnce cfg now w))"
    unfolding ExpireOnce_def Let_def by (rule quiet_evolves, rule quiet_fold_Disable) simp
  ultimately show ?thesis by (rule evolves_trans)
qed

end
