(* ===== verification/HandlerFacts.thy ===== *)
theory HandlerFacts
  imports HubInvariant
begin

text \<open>
  Every request the hub answers, every probe and every expiry keeps the integrity of the
  database and its history (\<open>serve_evolves\<close>), and a request of a kind that has nothing to do with
  access requests leaves their table alone (the \<open>quiet\<close> lemmas).
\<close>

lemma allow_db:
  "allow_register ip now w = (ok, w') \<Longrightarrow> quiet a (w_db w) \<Longrightarrow> quiet a (w_db w')"
  "allow_login ip now w = (ok, w') \<Longrightarrow> quiet a (w_db w) \<Longrightarrow> quiet a (w_db w')"
  by (auto simp: allow_register_def allow_login_def intro: quiet_rate_limits split: prod.splits)

subsection \<open>Authentication\<close>

lemma quiet_isJWTBlacklisted: "isJWTBlacklisted l t now d = (b, d') \<Longrightarrow> quiet a d \<Longrightarrow> quiet a d'"
  by (auto simp: isJWTBlacklisted_def Let_def quiet_blacklist)

lemma quiet_parseServiceToken: "parseServiceToken l t now d = (r, d') \<Longrightarrow> quiet a d \<Longrightarrow> quiet a d'"
  by (auto simp: parseServiceToken_def split: option.splits intro!: quiet_update_service_tokens)

lemma quiet_authenticate:
  assumes "authenticateAdminToken l cfg t now d = (r, d')" "quiet a d"
  shows "quiet a d'"
proof -
  obtain b d1 where 1: "isJWTBlacklisted l t now d = (b, d1)" by fastforce
  obtain x d2 where 2: "parseServiceToken l t now d = (x, d2)" by fastforce
  have "d' = d1 \<or> d' = d2"
    using assms(1) 1 2 by (auto simp: authenticateAdminToken_def split: sum.splits bool.splits)
  then show ?thesis using quiet_isJWTBlacklisted [OF 1 assms(2)] quiet_parseServiceToken [OF 2 assms(2)] by blast
qed

lemma admin_only_cases:
  assumes "admin_only l cfg h rq now w = (r, w')"
  obtains (denied) d where "quiet (w_db w) d" "w' = w\<lparr>w_db := d\<rparr>" "r \<in> {http_error 401 ''missing bearer token'',
        http_error 401 ''invalid token'', http_error 403 ''forbidden''}"
    | (session) token c kind d where "bearer rq = Some token"
        "authenticateAdminToken l cfg token now (w_db w) = (Inr (c, kind), d)" "quiet (w_db w) d"
        "adminRoleAllowed (c_role c) (rq_path rq)"
        "h \<lparr>ss_claims = c, ss_token = token, ss_kind = kind\<rparr> rq now (w\<lparr>w_db := d\<rparr>) = (r, w')"
proof (cases "bearer rq")
  case None
  show thesis by (rule denied [of "w_db w"]) (use assms None in \<open>auto simp: admin_only_def\<close>)
next
  case (Some token)
  obtain x d where x: "authenticateAdminToken l cfg token now (w_db w) = (x, d)" by fastforce
  note q = quiet_authenticate [OF x quiet_refl]
  show thesis
  proof (cases x)
    case (Inl e)
    show thesis by (rule denied [OF q]) (use assms Some x Inl in \<open>auto simp: admin_only_def\<close>)
  next
    case (Inr ck)
    obtain c kind where ck: "ck = (c, kind)" by (cases ck)
    show thesis
    proof (cases "adminRoleAllowed (c_role c) (rq_path rq)")
      case True
      show thesis by (rule session [OF Some _ q True]) (use assms Some x Inr ck True in \<open>simp_all add: admin_only_def\<close>)
    next
      case False
      show thesis by (rule denied [OF q]) (use assms Some x Inr ck False in \<open>auto simp: admin_only_def\<close>)
    qed
  qed
qed

lemma quiet_Login:
  assumes "handleAdminLogin l cfg b rq now w = (r, w')"
  shows "quiet (w_db w) (w_db w')"
proof -
  obtain ok w1 where 1: "allow_login (clientIP rq) now w = (ok, w1)" by fastforce
  have "w' = w1"
    using assms 1 by (auto simp: handleAdminLogin_def Let_def split: bool.splits option.splits if_splits sum.splits)
  then show ?thesis using allow_db(2) [OF 1 quiet_refl] by simp
qed

lemma quiet_Logout: "handleAdminLogout l s rq now w = (r, w') \<Longrightarrow> quiet (w_db w) (w_db w')"
  unfolding handleAdminLogout_def revokeServiceToken_def
  by (auto split: if_splits option.splits intro!: quiet_update_service_tokens quiet_blacklist)

lemma quiet_CreateServiceToken:
  assumes "handleCreateServiceToken l b s rq now w = (r, w')"
  shows "quiet (w_db w) (w_db w')"
proof -
  obtain x w1 where 1: "with_rand (RandomID ''stkn'') w = (x, w1)" by fastforce
  obtain y w2 where 2: "with_rand (RandomToken ''sat'' 32) w1 = (y, w2)" by fastforce
  have q: "w_db w1 = w_db w" "w_db w2 = w_db w" using with_rand_db [OF 1] with_rand_db [OF 2] by simp_all
  have "quiet (w_db w) (Audit f g h i now d)" if "insert_service_token t (w_db w) = Some d" "sv_role t = ''mac-agent''" for f g h i t d
    using quiet_insert_service_token [OF that quiet_refl] by (rule quiet_Audit)
  then show ?thesis using assms 1 2 q unfolding handleCreateServiceToken_def Let_def
    by (auto split: if_splits option.splits sum.splits)
qed

subsection \<open>Clients\<close>

lemma evolves_register_auth: "register_auth l cfg code now w = (r, w') \<Longrightarrow> w_db w' = w_db w"
  unfolding register_auth_def
  by (auto split: if_splits prod.splits sum.splits dest!: with_rand_db)

text \<open>A registration ends without a new request, or with one that records what the client sent.\<close>

lemma Register_cases:
  assumes "handleClientRegister l cfg body rq now w = (r, w')"
  obtains (none) "quiet (w_db w) (w_db w')"
    | (stored) b d0 q d t p w4 where "body = Some b" "register_checks b = None" "quiet (w_db w) d0"
        "insert_request q d0 = Some d" "q_metadata q = Some (register_meta b (clientIP rq))"
        "q_name q = trim_space (gb_name b)" "w' = publishEvent t [] p now (w4\<lparr>w_db := d\<rparr>)"
proof -
  obtain ok w0 where 0: "allow_register (clientIP rq) now w = (ok, w0)" by fastforce
  obtain x1 w1 where 1: "with_rand (RandomToken ''cs'' 24) w0 = (x1, w1)" by fastforce
  obtain x2 w2 where 2: "with_rand (HashSecret l (projr x1)) w1 = (x2, w2)" by fastforce
  obtain x3 w3 where 3: "with_rand (RandomID ''r'') w2 = (x3, w3)" by fastforce
  have q0: "quiet (w_db w) (w_db w0)" using allow_db(1) [OF 0 quiet_refl] .
  have same: "w_db w1 = w_db w0" "w_db w2 = w_db w0" "w_db w3 = w_db w0"
    using with_rand_db [OF 1] with_rand_db [OF 2] with_rand_db [OF 3] by simp_all
  show thesis
  proof (cases "\<exists>b. ok \<and> body = Some b \<and> register_checks b = None")
    case False
    then have "w' = w0"
      using assms by (cases body) (auto simp: handleClientRegister_def 0 split: bool.splits option.splits)
    then show thesis using none q0 by simp
  next
    case True
    then obtain b where b: "ok" "body = Some b" "register_checks b = None" by blast
    obtain x4 w4 where 4: "register_auth l cfg (gb_auth_code b) now w3 = (x4, w4)" by fastforce
    have d4: "w_db w4 = w_db w0" using evolves_register_auth [OF 4] same by simp
    note run = assms [unfolded handleClientRegister_def Let_def 0 prod.case b option.case, simplified b(1) bool.case 1 prod.case]
    consider "w_db w' = w_db w0" | q t p d where "insert_request q (w_db w4) = Some d"
        "q_metadata q = Some (register_meta b (clientIP rq))" "q_name q = trim_space (gb_name b)"
        "w' = publishEvent t [] p now (w4\<lparr>w_db := d\<rparr>)"
      using run 2 3 4 same d4 by (auto split: option.splits sum.splits if_splits prod.splits)
    then show thesis
    proof cases
      case 1
      then show thesis using none q0 by simp
    next
      case (2 q t p d)
      then show thesis using stored [OF b(2,3) q0] d4 by simp
    qed
  qed
qed

lemma evolves_Register:
  assumes "handleClientRegister l cfg b rq now w = (r, w')"
  shows "evolves (w_db w) (w_db w')"
  using assms
proof (cases rule: Register_cases)
  case (stored b d0 q d t p w4)
  have "evolves (w_db w) d" using evolves_insert_request [OF stored(4) quiet_evolves [OF stored(3)]] .
  then show ?thesis
    unfolding stored(7) using evolves_trans [OF _ quiet_evolves [OF quiet_publishEvent [of d "w4\<lparr>w_db := d\<rparr>"]]] by simp
qed (rule quiet_evolves)

text \<open>A poll either expires the request, or hands out a token, or changes nothing.\<close>

definition poll_expire :: "string \<Rightarrow> request_row \<Rightarrow> instant \<Rightarrow> world \<Rightarrow> world" where
  "poll_expire i q now w =
     (if poll_expired now q
      then publishEvent ''request.expired'' [] [(''request_id'', JStr i)] now
             (on_db (update_requests (\<lambda>x. q_id x = i) (\<lambda>x. x\<lparr>q_status := ''expired''\<rparr>)) w) else w)"

lemma poll_answer_cases:
  assumes "poll_answer l cfg i q now w = (r, w')"
  obtains (plain) "w' = poll_expire i q now w"
    | (token) x where "poll_token l cfg i now (poll_expire i q now w) = (x, w')"
proof -
  obtain x w2 where p: "poll_token l cfg i now (poll_expire i q now w) = (x, w2)" by fastforce
  show thesis
    using assms p plain token unfolding poll_answer_def Let_def poll_expire_def [symmetric]
    by (auto split: if_splits sum.splits)
qed

lemma poll_token_cases:
  assumes "poll_token l cfg i now w = (r, w')"
  obtains (none) "w_db w' = w_db w"
    | (token) h e where "w_db w' = update_requests (\<lambda>q. q_id q = i \<and> q_status q = ''approved'' \<and> q_setup_token_hash q = None)
                         (\<lambda>q. q\<lparr>q_setup_token_hash := Some h, q_setup_token_expires_at := Some e\<rparr>) (w_db w)"
proof -
  obtain x1 w1 where 1: "with_rand (RandomToken ''st'' 24) w = (x1, w1)" by fastforce
  obtain x2 w2 where 2: "with_rand (HashSecret l (projr x1)) w1 = (x2, w2)" by fastforce
  have "w_db w1 = w_db w" "w_db w2 = w_db w" using with_rand_db [OF 1] with_rand_db [OF 2] by simp_all
  then show thesis using assms 1 2 none token by (auto simp: poll_token_def Let_def split: sum.splits)
qed

lemma evolves_on_requests:
  "(\<And>q. q_id (f q) = q_id q) \<Longrightarrow> evolves a (w_db w) \<Longrightarrow> evolves a (w_db (on_db (update_requests p f) w))"
  by (simp add: evolves_update_requests)

lemma evolves_publishEvent: "evolves a (w_db w) \<Longrightarrow> evolves a (w_db (publishEvent t i p now w))"
  by (rule evolves_trans, assumption, rule quiet_evolves, rule quiet_publishEvent) simp

lemma evolves_poll_answer:
  assumes "poll_answer l cfg i q now w = (r, w')"
  shows "evolves (w_db w) (w_db w')"
proof -
  have e: "evolves (w_db w) (w_db (poll_expire i q now w))"
    unfolding poll_expire_def by (simp add: evolves_publishEvent evolves_update_requests)
  show ?thesis
    using assms
  proof (cases rule: poll_answer_cases)
    case (token x)
    then show ?thesis using e by (cases rule: poll_token_cases) (simp_all add: evolves_update_requests)
  qed (use e in simp)
qed

lemma evolves_Poll: "handleClientPoll l cfg b rq now w = (r, w') \<Longrightarrow> evolves (w_db w) (w_db w')"
  unfolding handleClientPoll_def by (auto split: option.splits if_splits dest: evolves_poll_answer)

lemma evolves_consume:
  assumes "consumeSetupToken l i t now d = (r, d')"
  shows "evolves d d'"
  using assms unfolding consumeSetupToken_def claim_setup_token_def
  by (auto simp: evolves_update_requests split: option.splits sum.splits if_splits)

lemma evolves_invites: "evolves a d \<Longrightarrow> evolves a (d\<lparr>db_invites := t\<rparr>)"
  by (erule evolves_trans) (simp add: quiet_evolves quiet_invites)

lemma evolves_provision_done: "evolves a d \<Longrightarrow> evolves a (provision_done i m d)"
  unfolding provision_done_def use_invite_def Let_def
  by (intro evolves_invites evolves_update_requests) simp_all

lemma evolves_provision_events: "evolves a (w_db w) \<Longrightarrow> evolves a (w_db (provision_events i m now w))"
  unfolding provision_events_def by (intro evolves_publishEvent)

text \<open>The two stages of a provisioning request: what happens before the token is consumed changes
  nothing; after it, either the slug or the owner is missing, or the machine is created.\<close>

lemma Provision_cases:
  assumes "handleClientProvision l cfg body rq now w = (r, w')"
  obtains (rejected) "w' = w" "rs_status r \<noteq> 200"
    | (unauthorized) b d e where "body = Some b" "consumeSetupToken l (cp_request_id b) (cp_setup_token b) now (w_db w) = (Inl e, d)"
        "w' = w\<lparr>w_db := d\<rparr>" "r = writeClientAuthErr"
    | (stuck) b d requestID name where "body = Some b"
        "consumeSetupToken l (cp_request_id b) (cp_setup_token b) now (w_db w) = (Inr (requestID, name), d)"
        "w' = w\<lparr>w_db := d\<rparr>" "rs_status r \<noteq> 200"
    | (failed) b d requestID name slug owner e w2 where "body = Some b"
        "consumeSetupToken l (cp_request_id b) (cp_setup_token b) now (w_db w) = (Inr (requestID, name), d)"
        "slug = (if cp_slug b = [] then NormalizeSlug name else cp_slug b)" "ValidateSlug slug = None"
        "CreateMachine l cfg (provision_input b slug name owner) now (w\<lparr>w_db := d\<rparr>) = (Inl e, w2)"
        "r = writeErr 500 e" "w' = on_db (provision_failed requestID) w2"
    | (provisioned) b d requestID name slug owner res w2 where "body = Some b"
        "validateApprovedMetadata (cp_request_id b) (provision_got b) (w_db w) = None"
        "consumeSetupToken l (cp_request_id b) (cp_setup_token b) now (w_db w) = (Inr (requestID, name), d)"
        "slug = (if cp_slug b = [] then NormalizeSlug name else cp_slug b)" "ValidateSlug slug = None"
        "firstAdminID d = Some owner"
        "CreateMachine l cfg (provision_input b slug name owner) now (w\<lparr>w_db := d\<rparr>) = (Inr res, w2)"
        "r = provision_response cfg res (provision_done requestID (m_id (cm_machine res)) (w_db w2))"
        "w' = provision_events requestID (cm_machine res) now (on_db (provision_done requestID (m_id (cm_machine res))) w2)"
proof (cases body)
  case None
  then show thesis using assms rejected
    by (auto simp: handleClientProvision_def writeErr_def writeJSON_def)
next
  case (Some b)
  define pre where "pre \<longleftrightarrow> length (trim_space (cp_display_name b)) > 256 \<or>
     (cp_request_id b = [] \<or> cp_setup_token b = [] \<or> cp_pubkey b = []) \<or>
     validateApprovedMetadata (cp_request_id b) (provision_got b) (w_db w) \<noteq> None"
  show thesis
  proof (cases pre)
    case True
    then have "w' = w \<and> rs_status r \<noteq> 200"
      using assms Some unfolding pre_def handleClientProvision_def
      by (auto simp: writeErr_def writeClientAuthErr_def writeJSON_def split: if_splits)
    then show thesis using rejected by blast
  next
    case False
    obtain x d where c: "consumeSetupToken l (cp_request_id b) (cp_setup_token b) now (w_db w) = (x, d)" by fastforce
    have run: "(case x of Inl _ \<Rightarrow> (writeClientAuthErr, w\<lparr>w_db := d\<rparr>)
          | Inr (requestID, name) \<Rightarrow>
            (let w1 = w\<lparr>w_db := d\<rparr>; slug = (if cp_slug b = [] then NormalizeSlug name else cp_slug b)
             in case ValidateSlug slug of Some e \<Rightarrow> (writeErr 400 e, w1)
                | None \<Rightarrow>
                  (case firstAdminID d of None \<Rightarrow> (writeErr 500 ''no admin user configured'', w1)
                   | Some owner \<Rightarrow>
                     (case CreateMachine l cfg (provision_input b slug name owner) now w1 of
                        (Inl e, w2) \<Rightarrow> (writeErr 500 e, on_db (provision_failed requestID) w2)
                      | (Inr res, w2) \<Rightarrow>
                        (let w3 = on_db (provision_done requestID (m_id (cm_machine res))) w2
                         in (provision_response cfg res (w_db w3),
                             provision_events requestID (cm_machine res) now w3)))))) = (r, w')"
      using assms Some False c unfolding pre_def handleClientProvision_def by (simp split: sum.splits)
    show thesis
    proof (cases x)
      case (Inl e)
      show thesis by (rule unauthorized [OF Some c [unfolded Inl]]) (use run Inl in auto)
    next
      case (Inr p)
      obtain requestID name where p: "p = (requestID, name)" by (cases p)
      define slug where "slug = (if cp_slug b = [] then NormalizeSlug name else cp_slug b)"
      note c' = c [unfolded Inr p]
      note run' = run [unfolded Inr p sum.case prod.case Let_def, folded slug_def]
      show thesis
      proof (cases "ValidateSlug slug")
        case (Some e)
        then show thesis using run' stuck [OF \<open>body = Some b\<close> c'] by (auto simp: writeErr_def writeJSON_def)
      next
        case v: None
        show thesis
        proof (cases "firstAdminID d")
          case None
          then show thesis using run' v stuck [OF \<open>body = Some b\<close> c'] by (auto simp: writeErr_def writeJSON_def)
        next
          case o: (Some owner)
          obtain y w2 where y: "CreateMachine l cfg (provision_input b slug name owner) now (w\<lparr>w_db := d\<rparr>) = (y, w2)"
            by fastforce
          show thesis
          proof (cases y)
            case (Inl e)
            then show thesis using run' v o y failed [OF \<open>body = Some b\<close> c' slug_def v, of owner e w2] by auto
          next
            case res: (Inr res)
            have m: "validateApprovedMetadata (cp_request_id b) (provision_got b) (w_db w) = None"
              using False by (simp add: pre_def)
            show thesis
              by (rule provisioned [OF \<open>body = Some b\<close> m c' slug_def v o y [unfolded res]])
                (use run' v o y res in \<open>auto\<close>)
          qed
        qed
      qed
    qed
  qed
qed

lemma evolves_Provision:
  assumes "handleClientProvision l cfg body rq now w = (r, w')"
  shows "evolves (w_db w) (w_db w')"
  using assms
proof (cases rule: Provision_cases)
  case (unauthorized b d e)
  then show ?thesis using evolves_consume by simp
next
  case (stuck b d requestID name)
  then show ?thesis using evolves_consume by simp
next
  case (failed b d requestID name slug owner e w2)
  have "evolves (w_db w) d" using evolves_consume [OF failed(2)] .
  moreover have "evolves d (w_db w2)" using quiet_CreateMachine [OF failed(5), of d] by (simp add: quiet_evolves)
  ultimately show ?thesis using failed(7) by (simp add: provision_failed_def evolves_update_requests evolves_trans)
next
  case (provisioned b d requestID name slug owner res w2)
  have "evolves (w_db w) d" using evolves_consume [OF provisioned(3)] .
  moreover have "evolves d (w_db w2)" using quiet_CreateMachine [OF provisioned(7), of d] by (simp add: quiet_evolves)
  ultimately have "evolves (w_db w) (w_db w2)" by (rule evolves_trans)
  then show ?thesis unfolding provisioned(9) by (intro evolves_provision_events) (simp add: evolves_provision_done)
qed simp

subsection \<open>Agents\<close>

lemma quiet_storeCommandResults [keeps]: "quiet a (w_db w) \<Longrightarrow> quiet a (w_db (storeCommandResults hb now w))"
proof -
  have step: "quiet a (w_db (store_result m now r w))" if "quiet a (w_db w)" for m r w
    unfolding store_result_def using that by (auto intro!: quiet_publishEvent quiet_update_commands)
  have "quiet a (w_db w) \<Longrightarrow> quiet a (w_db (foldl (\<lambda>w r. store_result m now r w) w rs))" for m rs
    by (induction rs arbitrary: w) (simp_all add: step)
  then show "quiet a (w_db w) \<Longrightarrow> ?thesis" by (simp add: storeCommandResults_def)
qed

lemma quiet_heartbeat_writes:
  assumes "heartbeat_writes hb raw now d = Some d'" "quiet a d"
  shows "quiet a d'"
proof -
  obtain d1 where 1: "upsert_agent_observation (heartbeat_observation hb raw (nowUTC now)) d = Some d1"
    using assms(1) by (auto simp: heartbeat_writes_def split: option.splits)
  define d2 where "d2 = ignore_error (upsert_agent_status (heartbeat_status hb raw (nowUTC now))) d1"
  have q1: "quiet a d1" using quiet_upserts(1) [OF 1 assms(2)] .
  have q2: "quiet a d2" unfolding d2_def by (rule quiet_ignore_error [OF q1]) (rule quiet_upserts(2) [OF _ q1])
  have "quiet a (update_tunnels p (\<lambda>t. t\<lparr>t_status := ''online'', t_last_seen_at := s\<rparr>) d2)" for p s
    by (rule quiet_update_tunnels; simp add: q2)
  then show ?thesis using assms(1) 1 q2 unfolding heartbeat_writes_def Let_def d2_def by (auto split: if_splits)
qed

lemma quiet_observed_events [keeps]: "quiet a (w_db w) \<Longrightarrow> quiet a (w_db (observed_events old m now w))"
  unfolding observed_events_def by (auto intro!: keeps)

lemma quiet_mark_sent: "quiet a d \<Longrightarrow> quiet a (foldl (mark_sent now) d cs)"
  by (induction cs arbitrary: d) (simp_all add: mark_sent_def quiet_update_commands)

lemma quiet_pendingCommands: "pendingCommands pool i now d = Some (cs, d') \<Longrightarrow> quiet a d \<Longrightarrow> quiet a d'"
  unfolding pendingCommands_def Let_def by (auto split: if_splits intro: quiet_mark_sent)

lemma quiet_accept_heartbeat:
  assumes "accept_heartbeat pool l cfg raw m0 ts now w = (r, w')" "quiet a (w_db w)"
  shows "quiet a (w_db w')"
proof -
  define hb where "hb = normalizeHeartbeat raw"
  define w1 where "w1 = storeCommandResults hb now w"
  have q1: "quiet a (w_db w1)" unfolding w1_def using assms(2) by (rule keeps)
  show ?thesis
  proof (cases "heartbeat_writes hb raw now (w_db w1)")
    case None
    then show ?thesis using assms(1) q1 unfolding accept_heartbeat_def Let_def hb_def [symmetric] w1_def [symmetric]
      by auto
  next
    case (Some d)
    define w2 where "w2 = w1\<lparr>w_db := recomputeObserved cfg (hb_machine_id hb) now d\<rparr>"
    have q2: "quiet a (w_db w2)"
      unfolding w2_def using quiet_recomputeObserved [OF quiet_heartbeat_writes [OF Some q1]] by simp
    define m where "m = value_or zero_machine (GetMachine (hb_machine_id hb) (w_db w2))"
    define w3 where "w3 = observed_events (m_observed_state m0) m now w2"
    define w4 where "w4 = (if sshOptionsSignature (case sql_row (\<lambda>a. ao_machine_id a = hb_machine_id hb)
          (db_agent_observations (w_db w1)) of None \<Rightarrow> None | Some a \<Rightarrow> ao_raw a) \<noteq> sshOptionsSignature (Some raw)
                      then publishEvent ''ssh_config.changed'' (m_id m)
                             [(''reason'', JStr ''ssh_compat_changed''), (''machine_id'', JStr (m_id m))] now w3
                      else w3)"
    define w5 where "w5 = maybeQueueAutoAgentUpdate cfg m hb now w4"
    have q5: "quiet a (w_db w5)"
      unfolding w5_def w4_def w3_def by (intro quiet_maybeQueue) (auto intro!: keeps q2)
    note run = assms(1) [unfolded accept_heartbeat_def Let_def, folded hb_def, folded w1_def, unfolded Some option.case,
        folded w2_def, folded m_def, folded w3_def, folded w4_def, folded w5_def]
    from run show ?thesis using q5 quiet_pendingCommands [of pool "m_id m" now "w_db w5" _ _ a]
      by (auto split: option.splits prod.splits)
  qed
qed

lemma quiet_Heartbeat:
  assumes "handleAgentHeartbeat pool l cfg body rq now w = (r, w')"
  shows "quiet (w_db w) (w_db w')"
  using assms quiet_accept_heartbeat [of pool l cfg _ _ _ now w r w' "w_db w"]
  unfolding handleAgentHeartbeat_def by (auto split: sum.splits prod.splits if_splits)

lemma quiet_Uninstall:
  assumes "handleAgentUninstall complete l cfg body rq now w = (r, w')"
  shows "quiet (w_db w) (w_db w')"
proof -
  have "quiet (w_db w) (w_db (publishEvent t i p now (publishEvent t' i p' now
      (on_db (update_machines q (\<lambda>m. m\<lparr>mr_cleanup_state := c\<rparr>)) (snd (RetireMachineNow cfg i a now w))))))"
    for t i p t' p' q c a
    by (intro keeps; simp)
  moreover have "quiet (w_db w) (w_db (publishEvent t i p now (publishEvent t' i p' now (snd (RemoveMachine cfg i a now w)))))"
    for t i p t' p' a
    by (intro keeps; simp)
  ultimately show ?thesis using assms
    unfolding handleAgentUninstall_def Let_def by (auto split: option.splits if_splits)
qed

subsection \<open>Administrators\<close>

lemma evolves_decide:
  assumes "decide_request f action status i actor now w = (r, w')" "\<And>q. q_id (f q) = q_id q"
  shows "evolves (w_db w) (w_db w')"
proof -
  have "evolves (w_db w) (update_requests p f (w_db w))" for p
    using assms(2) by (simp add: evolves_update_requests)
  then have "evolves (w_db w) (w_db (publishEvent t m pl now (on_db (\<lambda>d. Audit a b c e now (update_requests p f d)) w)))"
    for t m pl a b c e p
    by (intro evolves_publishEvent) (simp add: evolves_trans [OF _ quiet_evolves [OF quiet_Audit [OF quiet_refl]]])
  then show ?thesis using assms(1) unfolding decide_request_def Let_def by (auto split: if_splits)
qed

lemma evolves_RequestAction:
  assumes "handleAdminRequestAction s rq now w = (r, w')"
  shows "evolves (w_db w) (w_db w')"
proof -
  have "w' = w \<or> (\<exists>f action status i actor. decide_request f action status i actor now w = (r, w') \<and> (\<forall>q. q_id (f q) = q_id q))"
    using assms unfolding handleAdminRequestAction_def
    by (auto split: option.splits prod.splits if_splits) (force+)
  then show ?thesis using evolves_decide by (metis evolves_refl)
qed

lemma quiet_change_desired:
  assumes "change_desired cfg i action desired ev actor now w = (r, w')"
  shows "quiet (w_db w) (w_db w')"
proof -
  obtain x w1 where 1: "SetDesiredState cfg i desired actor now w = (x, w1)" by fastforce
  note q = quiet_SetDesiredState [OF 1 quiet_refl]
  have "quiet (w_db w) (w_db (publishEvent t m p now (publishEvent t' m p' now (publishEvent t'' m p'' now w1))))"
    for t m p t' p' t'' p''
    by (intro keeps q)
  then show ?thesis using assms 1 q unfolding change_desired_def by (auto split: sum.splits)
qed

lemma quiet_MachineAction:
  assumes "handleAdminMachineAction cfg body s rq now w = (r, w')"
  shows "quiet (w_db w) (w_db w')"
proof -
  have t: "quiet (w_db w) (w_db w2)"
    if r: "handleAdminMachineProcessTitle b i actor now w = (x, w2)" for b i actor x w2
  proof -
    have "quiet (w_db w) (w_db (publishEvent t m p now (publishEvent t' m p' now w1)))"
      if "SetProcessTitleConfig i c actor now w = (y, w1)" for c y w1 t m p t' p'
      using quiet_SetProcessTitleConfig [OF that quiet_refl] by (intro keeps)
    then show ?thesis using r quiet_SetProcessTitleConfig [OF _ quiet_refl]
      unfolding handleAdminMachineProcessTitle_def by (auto split: option.splits sum.splits prod.splits)
  qed
  have p: "quiet (w_db w) (w_db w2)"
    if r: "handleAdminMachineUpdatePolicy b i actor now w = (x, w2)" for b i actor x w2
  proof -
    have "quiet (w_db w) (w_db (publishEvent t m p now w1))"
      if "SetUpdatePolicy i c actor now w = (y, w1)" for c y w1 t m p
      using quiet_SetUpdatePolicy [OF that quiet_refl] by (intro keeps)
    then show ?thesis using r quiet_SetUpdatePolicy [OF _ quiet_refl]
      unfolding handleAdminMachineUpdatePolicy_def by (auto split: option.splits sum.splits prod.splits)
  qed
  have u: "quiet (w_db w) (w_db w2)"
    if "handleAdminMachineUpdateAgent cfg i actor now w = (x, w2)" for i actor x w2
    using that quiet_queueAgentUpdate [OF _ quiet_refl]
    unfolding handleAdminMachineUpdateAgent_def
    by (auto split: sum.splits prod.splits option.splits update_error.splits)
  show ?thesis using assms t p u quiet_change_desired
    unfolding handleAdminMachineAction_def Let_def
    by (auto split: option.splits prod.splits if_splits)
qed

end
