(* ===== verification/HubRuns.thy ===== *)
theory HubRuns
  imports HandlerFacts
begin

text \<open>
  Runs of the hub: its step relation, the invariant of the reachable states, and the life of an
  access request, whose status only moves along \<open>request_edge\<close>.
\<close>

subsection \<open>Whole requests\<close>

lemma evolves_client:
  assumes "client_endpoint pool l cfg bo e rq now w = Some (ans, w')"
  shows "evolves (w_db w) (w_db w')"
proof (cases e)
  case EHeartbeat
  then obtain r where "handleAgentHeartbeat pool l cfg (bo_heartbeat bo) rq now w = (r, w')"
    using assms by (auto simp: client_endpoint_def split: prod.splits option.splits)
  then show ?thesis by (intro quiet_evolves quiet_Heartbeat)
qed (use assms in \<open>auto simp: client_endpoint_def reply_def handleAgentUninstallIntent_def
       handleAgentUninstallComplete_def split: prod.splits
       intro: evolves_Register evolves_Poll evolves_Provision quiet_evolves [OF quiet_Uninstall] quiet_evolves [OF quiet_Login]\<close>)

lemma method_only_db: "method_only m h rq now w = (r, w') \<Longrightarrow> w' = w \<or> h rq now w = (r, w')"
  by (auto simp: method_only_def split: if_splits)

lemma evolves_admin_endpoint:
  assumes "admin_endpoint l cfg bo e s rq now w = (r, w')"
  shows "evolves (w_db w) (w_db w')"
  using assms
  by (cases e) (auto simp: admin_endpoint_def handleAdminRequests_def handleAdminMachines_def handleHealth_def
      handleSSHConfig_def dest!: method_only_db split: sum.splits
      intro: quiet_evolves [OF quiet_Logout] quiet_evolves [OF quiet_CreateServiceToken]
        evolves_RequestAction quiet_evolves [OF quiet_MachineAction])

lemma evolves_admin_only:
  assumes "admin_only l cfg h rq now w = (r, w')"
    "\<And>s w1. h s rq now w1 = (r, w') \<Longrightarrow> evolves (w_db w1) (w_db w')"
  shows "evolves (w_db w) (w_db w')"
  using assms(1)
proof (cases rule: admin_only_cases)
  case (denied d)
  then show ?thesis by (simp add: quiet_evolves)
next
  case (session token c kind d)
  then show ?thesis using assms(2) [OF session(5)] evolves_trans [OF quiet_evolves [OF session(3)]] by simp
qed

lemma serve_evolves:
  assumes "serve pool l cfg bo rq now w = (ans, w')"
  shows "evolves (w_db w) (w_db w')"
proof (cases "rq_method rq = ''OPTIONS'' \<or> route (rq_path rq) = None")
  case True
  then show ?thesis using assms by (auto simp: serve_def split: if_splits)
next
  case False
  then obtain e where e: "route (rq_path rq) = Some e" "rq_method rq \<noteq> ''OPTIONS''" by auto
  show ?thesis
  proof (cases "client_endpoint pool l cfg bo e rq now w")
    case (Some x)
    then show ?thesis using assms e evolves_client [of pool l cfg bo e rq now w] by (cases x) (auto simp: serve_def split: if_splits)
  next
    case None
    obtain r1 w1 where 1: "admin_only l cfg (\<lambda>s. method_only ''GET'' (\<lambda>rq now w. (stream_opens, w))) rq now w = (r1, w1)"
      by fastforce
    obtain r2 w2 where 2: "admin_only l cfg (admin_endpoint l cfg bo e) rq now w = (r2, w2)" by fastforce
    have "evolves (w_db w) (w_db w1)"
      by (rule evolves_admin_only [OF 1]) (auto dest: method_only_db)
    moreover have "evolves (w_db w) (w_db w2)"
      by (rule evolves_admin_only [OF 2]) (rule evolves_admin_endpoint)
    ultimately show ?thesis using assms e None 1 2 by (auto simp: serve_def reply_def split: if_splits)
  qed
qed

subsection \<open>Steps\<close>

inductive hub_step :: "nat \<Rightarrow> lib \<Rightarrow> Config \<Rightarrow> world \<Rightarrow> world \<Rightarrow> bool" for pool l cfg where
  request: "serve pool l cfg bo rq now w = (ans, w') \<Longrightarrow> hub_step pool l cfg w w'"
| stale_poll: "poll_answer l cfg (q_id q) q now w = (r, w') \<Longrightarrow> hub_step pool l cfg w w'"
| check: "RunHealthCheck cfg now w = (rep, w') \<Longrightarrow> hub_step pool l cfg w w'"
| probe: "probe_tunnel cfg now t w = (entry, w') \<Longrightarrow> hub_step pool l cfg w w'"
| expire: "hub_step pool l cfg w (ExpireOnce cfg now w)"
| subscribe: "stream_subscribe (st, w) = (st', w') \<Longrightarrow> hub_step pool l cfg w w'"
| receive: "stream_receive (st, w) = (st', w') \<Longrightarrow> hub_step pool l cfg w w'"
| close: "hub_step pool l cfg w (stream_close (st, w))"

lemma hub_step_evolves: "hub_step pool l cfg w w' \<Longrightarrow> evolves (w_db w) (w_db w')"
proof (induction rule: hub_step.induct)
  case (stale_poll q now w r w')
  then show ?case by (rule evolves_poll_answer)
next
  case (check now w rep w')
  then show ?case by (rule quiet_evolves [OF quiet_RunHealthCheck]) simp
next
  case (probe now t w entry w')
  then show ?case by (rule quiet_evolves [OF quiet_probe_tunnel]) simp
next
  case (receive st w st' w')
  then show ?case by (auto simp: stream_receive_def split: option.splits prod.splits)
qed (auto simp: serve_evolves evolves_ExpireOnce stream_subscribe_def Subscribe_def stream_close_def
       split: option.splits)

lemma hub_run_evolves: "(hub_step pool l cfg)\<^sup>*\<^sup>* w w' \<Longrightarrow> evolves (w_db w) (w_db w')"
  by (induction rule: rtranclp_induct) (auto intro: evolves_trans hub_step_evolves)

subsection \<open>The first state\<close>

lemma seed_keys_wf: "seed_keys l u now ks (d, r) = (e, d', r') \<Longrightarrow> db_wf d \<Longrightarrow> db_wf d'"
proof (induction ks arbitrary: d r)
  case (Cons k ks)
  from Cons.prems(1) consider "d' = d" | kind kid r1 d1 where
      "insert_access_key \<lparr>k_id = kid, k_user_id = u, k_label = ik_label k, k_public_key = ik_public_key k,
         k_kind = kind, k_created_at = now, k_revoked_at = None\<rparr> d = Some d1"
      "seed_keys l u now ks (d1, r1) = (e, d', r')"
    by (auto split: sum.splits prod.splits option.splits)
  then show ?case
  proof cases
    case (2 kind kid r1 d1)
    then show ?thesis using Cons.IH [OF 2(2)] insert_access_key_wf [OF 2(1) Cons.prems(2)] by blast
  qed (use Cons.prems(2) in simp)
qed simp

lemma seed_hub_wf: "db_wf d \<Longrightarrow> db_wf (seed_hub h now d)"
  unfolding seed_hub_def by (simp add: wf_defs subset_insertI2)

lemma seed_wf:
  assumes "seed l cfg now (d, r) = (e, d', r')" "db_wf d"
  shows "db_wf d'"
proof -
  define d1 where "d1 = seed_hub (cfg_default_hub cfg) (nowUTC now) d"
  have w1: "db_wf d1" unfolding d1_def using assms(2) by (rule seed_hub_wf)
  from assms(1) consider "d' = d1" | uid r1 u d2 where "insert_user u d1 = Some d2"
      "seed_keys l uid (nowUTC now) (ia_public_keys (cfg_initial_admin cfg)) (d2, r1) = (e, d', r')"
    unfolding seed_def Let_def d1_def by (auto split: if_splits sum.splits prod.splits option.splits)
  then show ?thesis using w1 insert_user_wf seed_keys_wf by cases blast+
qed

lemma release_slugs_wf: "release_slugs rows (d, r) = (e, d', r') \<Longrightarrow> db_wf d \<Longrightarrow> db_wf d'"
proof (induction rows arbitrary: d r)
  case (Cons row rows)
  obtain i slug original where row: "row = (i, slug, original)" by (cases row)
  from Cons.prems(1) consider "d' = d" | r1 where "release_slugs rows (d, r1) = (e, d', r')"
    | new d1 r1 where "update_machine_keys (\<lambda>m. mr_id m = i)
        (\<lambda>m. m\<lparr>mr_slug := new, mr_original_slug := Some original\<rparr>) d = Some d1"
        "release_slugs rows (d1, r1) = (e, d', r')"
    unfolding row by (auto split: if_splits sum.splits prod.splits option.splits)
  then show ?case
  proof cases
    case (3 new d1 r1)
    then show ?thesis using Cons.IH [OF 3(2)] update_machine_keys_wf [OF 3(1) _ Cons.prems(2)] by simp
  qed (use Cons in auto)
qed simp

lemma release_tunnels_wf: "release_tunnels ts d = (e, d') \<Longrightarrow> db_wf d \<Longrightarrow> db_wf d'"
proof (induction ts arbitrary: d)
  case (Cons t ts)
  from Cons.prems(1) consider "d' = d" | "release_tunnels ts d = (e, d')"
    | u p d1 where "update_tunnel_keys (\<lambda>x. t_id x = t_id t) (\<lambda>x. x\<lparr>t_unix_user := u, t_remote_port := p\<rparr>) d = Some d1"
        "release_tunnels ts d1 = (e, d')"
    by (auto simp: Let_def split: if_splits option.splits)
  then show ?case
  proof cases
    case (3 u p d1)
    then show ?thesis using Cons.IH [OF 3(2)] update_tunnel_keys_wf [OF 3(1) _ _ _ Cons.prems(2)] by simp
  qed (use Cons in auto)
qed simp

lemma fill_columns_wf: "db_wf d \<Longrightarrow> db_wf (fill_machine_columns d)"
  unfolding fill_machine_columns_def Let_def by (intro update_machines_wf) simp_all

lemma Migrate_wf:
  assumes "Migrate l cfg now (d, r) = (e, d', r')" "db_wf d"
  shows "db_wf d'"
proof -
  obtain e1 d1 r1 where 1: "releaseRetiredSlugs (fill_machine_columns d, r) = (e1, d1, r1)" by (metis prod_cases3)
  obtain e2 d2 where 2: "releaseRetiredTunnels d1 = (e2, d2)" by fastforce
  have w1: "db_wf d1" using 1 fill_columns_wf [OF assms(2)] release_slugs_wf by (auto simp: releaseRetiredSlugs_def)
  then have "db_wf (update_tunnels p2 (\<lambda>t. t\<lparr>t_original_remote_port := Some (t_remote_port t)\<rparr>)
     (update_tunnels p1 (\<lambda>t. t\<lparr>t_original_unix_user := Some (t_unix_user t)\<rparr>) d1))" for p1 p2
    by (intro update_tunnels_wf) simp_all
  then have w2: "db_wf d2" using 2 release_tunnels_wf unfolding releaseRetiredTunnels_def Let_def by blast
  show ?thesis using assms(1) 1 2 w1 w2 seed_wf
    by (auto simp: Migrate_def split: option.splits)
qed


text \<open>Migrating leaves the service tokens alone.\<close>

lemma seed_keys_tokens: "seed_keys l u now ks (d, r) = (e, d', r') \<Longrightarrow> db_service_tokens d' = db_service_tokens d"
  by (induction ks arbitrary: d r)
    (auto split: sum.splits prod.splits option.splits simp: insert_access_key_Some)

lemma release_slugs_tokens: "release_slugs rows (d, r) = (e, d', r') \<Longrightarrow> db_service_tokens d' = db_service_tokens d"
  by (induction rows arbitrary: d r)
    (auto split: if_splits sum.splits prod.splits option.splits simp: update_machine_keys_Some update_machines_def)

lemma release_tunnels_tokens: "release_tunnels ts d = (e, d') \<Longrightarrow> db_service_tokens d' = db_service_tokens d"
  by (induction ts arbitrary: d)
    (auto simp: Let_def update_tunnel_keys_Some update_tunnels_def split: if_splits option.splits)

lemma Migrate_no_tokens:
  assumes "Migrate l cfg now (d, r) = (e, d', r')"
  shows "db_service_tokens d' = db_service_tokens d"
proof -
  obtain e1 d1 r1 where 1: "releaseRetiredSlugs (fill_machine_columns d, r) = (e1, d1, r1)" by (metis prod_cases3)
  obtain e2 d2 where 2: "releaseRetiredTunnels d1 = (e2, d2)" by fastforce
  have d1: "db_service_tokens d1 = db_service_tokens d"
    using 1 release_slugs_tokens by (fastforce simp: releaseRetiredSlugs_def fill_machine_columns_def Let_def update_machines_def)
  have d2: "db_service_tokens d2 = db_service_tokens d1"
    using 2 release_tunnels_tokens by (fastforce simp: releaseRetiredTunnels_def Let_def update_tunnels_def)
  have "db_service_tokens d3 = db_service_tokens d2" if "seed l cfg now (d2, r2) = (e3, d3, r3)" for e3 d3 r2 r3
    using that unfolding seed_def seed_hub_def Let_def
    by (auto split: if_splits sum.splits prod.splits option.splits simp: insert_user_Some dest!: seed_keys_tokens)
  then show ?thesis using assms 1 2 d1 d2 by (auto simp: Migrate_def split: option.splits)
qed

end
