(* ===== verification/RequestLife.thy ===== *)
theory RequestLife
  imports HubRuns
begin

text \<open>
  The life of an access request: the edges its status moves along, and that every request the hub
  answers moves the stored requests only along them; the setup token is claimed at most once.
\<close>

inductive request_edge :: "string \<Rightarrow> string \<Rightarrow> bool" where
  approve: "request_edge ''pending'' ''approved''"
| deny: "request_edge ''pending'' ''denied''"
| expire_pending: "request_edge ''pending'' ''expired''"
| expire_approved: "request_edge ''approved'' ''expired''"
| claim: "request_edge ''approved'' ''provisioning''"
| give_back: "request_edge ''provisioning'' ''approved''"
| provision: "request_edge ''provisioning'' ''provisioned''"

code_pred request_edge .

inductive_simps request_edge_from [simp]:
  "request_edge ''denied'' s" "request_edge ''expired'' s" "request_edge ''provisioned'' s"

abbreviation request_path :: "string \<Rightarrow> string \<Rightarrow> bool" where
  "request_path \<equiv> request_edge\<^sup>*\<^sup>*"

lemma request_paths [simp]:
  "request_path ''pending'' ''approved''" "request_path ''pending'' ''denied''" "request_path ''pending'' ''expired''"
  "request_path ''approved'' ''expired''" "request_path ''approved'' ''provisioning''"
  "request_path ''provisioning'' ''approved''" "request_path ''provisioning'' ''provisioned''"
  by (rule r_into_rtranclp, rule request_edge.intros)+

lemma request_path_final:
  "request_path s s' \<Longrightarrow> s \<in> {''denied'', ''expired'', ''provisioned''} \<Longrightarrow> s' = s"
  by (erule converse_rtranclpE) auto

text \<open>What never changes in a stored request.\<close>

definition request_identity :: "request_row \<Rightarrow> string \<times> string \<times> string \<times> (string \<times> json) list option \<times> string \<times> string" where
  "request_identity q = (q_id q, q_name q, q_client_secret_hash q, q_metadata q, q_created_at q, q_expires_at q)"

definition requests_move :: "db \<Rightarrow> db \<Rightarrow> bool" where
  "requests_move d d' \<longleftrightarrow>
     (\<forall>q \<in> set (db_requests d). \<exists>q' \<in> set (db_requests d'). request_identity q' = request_identity q \<and>
        request_path (q_status q) (q_status q'))"

lemma requests_move_same: "db_requests d' = db_requests d \<Longrightarrow> requests_move d d'"
  unfolding requests_move_def by auto

lemma requests_move_refl [simp]: "requests_move d d"
  by (rule requests_move_same) simp

lemma requests_move_trans: "requests_move a b \<Longrightarrow> requests_move b c \<Longrightarrow> requests_move a c"
  unfolding requests_move_def by (metis rtranclp_trans)

lemma quiet_moves: "quiet d d' \<Longrightarrow> requests_move d d'"
  by (simp add: quiet_def requests_move_same)

lemma requests_move_update:
  assumes "\<And>q. request_identity (f q) = request_identity q"
    "\<And>q. q \<in> set (db_requests d) \<Longrightarrow> p q \<Longrightarrow> request_path (q_status q) (q_status (f q))"
  shows "requests_move d (update_requests p f d)"
  unfolding requests_move_def
proof
  fix q assume q: "q \<in> set (db_requests d)"
  show "\<exists>q' \<in> set (db_requests (update_requests p f d)). request_identity q' = request_identity q \<and>
          request_path (q_status q) (q_status q')"
  proof (cases "p q")
    case True
    then show ?thesis using q assms by (intro bexI [of _ "f q"]) (auto simp: update_requests_def set_sql_update)
  next
    case False
    then show ?thesis using q by (intro bexI [of _ q]) (auto simp: update_requests_def set_sql_update)
  qed
qed

lemma in_update_requests:
  "q' \<in> set (db_requests (update_requests p f d)) \<Longrightarrow>
   \<exists>q \<in> set (db_requests d). q' = (if p q then f q else q)"
  by (auto simp: update_requests_def sql_update_def)

lemma requests_move_insert: "insert_request r d = Some d' \<Longrightarrow> requests_move d d'"
  by (auto simp: insert_request_Some requests_move_def)

lemma request_ids: "db_wf d \<Longrightarrow> q \<in> set (db_requests d) \<Longrightarrow> q' \<in> set (db_requests d) \<Longrightarrow> q_id q = q_id q' \<Longrightarrow> q = q'"
  by (auto simp: db_wf_def requests_wf_def distinct_map inj_on_def)

lemma find_request_Some: "find_request i d = Some q \<Longrightarrow> q \<in> set (db_requests d) \<and> q_id q = i"
  unfolding find_request_def by (drule sql_row_Some) simp

subsection \<open>The setup token\<close>

lemma consume_Inr:
  assumes "consumeSetupToken l i token now d = (Inr (j, name), d')"
  obtains q h where "q \<in> set (db_requests d)" "q_id q = i" "j = i" "name = q_name q" "q_status q = ''approved''"
    "q_setup_token_hash q = Some h" "VerifySecret l token h" "setup_token_check l q token now = Inr h"
    "d' = update_requests (claims_row i h) (\<lambda>q. q\<lparr>q_status := ''provisioning'', q_setup_token_hash := None\<rparr>) d"
proof -
  from assms obtain q where q: "find_request i d = Some q" by (auto simp: consumeSetupToken_def split: option.splits)
  then obtain h where h: "setup_token_check l q token now = Inr h"
    using assms by (cases "setup_token_check l q token now") (auto simp: consumeSetupToken_def)
  have f: "q \<in> set (db_requests d)" "q_id q = i" using find_request_Some [OF q] by simp_all
  have v: "q_status q = ''approved''" "q_setup_token_hash q = Some h" "VerifySecret l token h"
    using h by (auto simp: setup_token_check_def split: option.splits if_splits)
  show thesis
    by (rule that [OF f(1,2) _ _ v h])
      (use assms q h f in \<open>auto simp: consumeSetupToken_def claim_setup_token_def split: if_splits\<close>)
qed

lemma consume_moves:
  assumes "consumeSetupToken l i token now d = (r, d')"
  shows "requests_move d d'"
proof -
  have "requests_move d (update_requests (claims_row i h) (\<lambda>q. q\<lparr>q_status := ''provisioning'', q_setup_token_hash := None\<rparr>) d)" for h
    by (rule requests_move_update) (auto simp: request_identity_def claims_row_def)
  then show ?thesis using assms unfolding consumeSetupToken_def claim_setup_token_def
    by (auto split: option.splits sum.splits if_splits)
qed

text \<open>After a successful claim every stored request of that id is being provisioned.\<close>

lemma consume_status:
  assumes "consumeSetupToken l i token now d = (Inr (j, name), d')" "db_wf d" "q' \<in> set (db_requests d')" "q_id q' = i"
  shows "q_status q' = ''provisioning''"
  using assms(1)
proof (rule consume_Inr)
  fix q h assume q: "q \<in> set (db_requests d)" "q_id q = i" "q_status q = ''approved''" "q_setup_token_hash q = Some h"
    and d': "d' = update_requests (claims_row i h) (\<lambda>q. q\<lparr>q_status := ''provisioning'', q_setup_token_hash := None\<rparr>) d"
  then obtain q0 where q0: "q0 \<in> set (db_requests d)" "q_id q0 = i"
      "q' = (if claims_row i h q0 then q0\<lparr>q_status := ''provisioning'', q_setup_token_hash := None\<rparr> else q0)"
    using assms(3,4) unfolding update_requests_def sql_update_def by (auto split: if_splits)
  have "q0 = q" using request_ids [OF assms(2) q0(1) q(1)] q0(2) q(2) by simp
  then show ?thesis using q0(3) q by (simp add: claims_row_def)
qed

subsection \<open>Handlers\<close>

lemma moves_publish: "requests_move a (w_db w) \<Longrightarrow> requests_move a (w_db (publishEvent t i p now w))"
  by (rule requests_move_trans, assumption, rule quiet_moves, rule quiet_publishEvent) simp

lemma moves_Register:
  assumes "handleClientRegister l cfg b rq now w = (r, w')"
  shows "requests_move (w_db w) (w_db w')"
  using assms
proof (cases rule: Register_cases)
  case (stored b d0 q d t p w4)
  have "requests_move (w_db w) d"
    using requests_move_trans [OF quiet_moves [OF stored(3)] requests_move_insert [OF stored(4)]] .
  then show ?thesis unfolding stored(7) by (intro moves_publish) simp
qed (rule quiet_moves)

lemma moves_poll_answer:
  assumes "poll_answer l cfg i q now w = (r, w')" "db_wf (w_db w)" "q \<in> set (db_requests (w_db w))" "q_id q = i"
  shows "requests_move (w_db w) (w_db w')"
proof -
  have e: "requests_move (w_db w) (w_db (poll_expire i q now w))"
  proof (cases "poll_expired now q")
    case True
    have "requests_move (w_db w) (update_requests (\<lambda>x. q_id x = i) (\<lambda>x. x\<lparr>q_status := ''expired''\<rparr>) (w_db w))"
      using True request_ids [OF assms(2) _ assms(3)] assms(4)
      by (intro requests_move_update) (auto simp: request_identity_def poll_expired_def)
    then show ?thesis unfolding poll_expire_def using True by (simp add: moves_publish)
  qed (simp add: poll_expire_def)
  have t: "requests_move d (update_requests p (\<lambda>q. q\<lparr>q_setup_token_hash := h, q_setup_token_expires_at := e\<rparr>) d)"
    for p h e d by (rule requests_move_update) (simp_all add: request_identity_def)
  show ?thesis
    using assms(1)
  proof (cases rule: poll_answer_cases)
    case (token x)
    then show ?thesis using e requests_move_trans [OF e t] by (cases rule: poll_token_cases) simp_all
  qed (use e in simp)
qed

lemma moves_Provision:
  assumes "handleClientProvision l cfg body rq now w = (r, w')" "db_wf (w_db w)"
  shows "requests_move (w_db w) (w_db w')"
  using assms(1)
proof (cases rule: Provision_cases)
  case (unauthorized b d e)
  then show ?thesis using consume_moves by simp
next
  case (stuck b d requestID name)
  then show ?thesis using consume_moves by simp
next
  case (failed b d requestID name slug owner e w2)
  have c: "requests_move (w_db w) d" using consume_moves [OF failed(2)] .
  have same: "db_requests (w_db w2) = db_requests d"
    using quiet_CreateMachine [OF failed(5), of d] by (simp add: quiet_def)
  have "requests_move (w_db w2) (provision_failed requestID (w_db w2))"
    unfolding provision_failed_def
    by (rule requests_move_update) (auto simp: request_identity_def)
  then show ?thesis using failed(7) requests_move_trans [OF c requests_move_trans [OF requests_move_same [OF same]]] by simp
next
  case (provisioned b d requestID name slug owner res w2)
  have c: "requests_move (w_db w) d" using consume_moves [OF provisioned(3)] .
  have same: "db_requests (w_db w2) = db_requests d"
    using quiet_CreateMachine [OF provisioned(7), of d] by (simp add: quiet_def)
  have i: "requestID = cp_request_id b" using provisioned(3) by (rule consume_Inr)
  have "requests_move (w_db w2) (update_requests (\<lambda>q. q_id q = requestID) (\<lambda>q. q\<lparr>q_status := ''provisioned''\<rparr>) (w_db w2))"
    using consume_status [OF provisioned(3) assms(2)] same i
    by (intro requests_move_update) (auto simp: request_identity_def)
  then have "requests_move (w_db w2) (provision_done requestID m (w_db w2))" for m
    by (rule requests_move_trans) (simp add: provision_done_def use_invite_def Let_def requests_move_same)
  then show ?thesis unfolding provisioned(9) provision_events_def
    by (intro moves_publish) (simp add: requests_move_trans [OF c requests_move_trans [OF requests_move_same [OF same]]])
qed simp

lemma moves_decide:
  assumes "decide_request f action status i actor now w = (r, w')" "\<And>q. request_identity (f q) = request_identity q"
    "\<And>q. q_status q = ''pending'' \<Longrightarrow> request_path (q_status q) (q_status (f q))"
  shows "requests_move (w_db w) (w_db w')"
proof -
  have "requests_move (w_db w) (update_requests (\<lambda>q. q_id q = i \<and> q_status q = ''pending'') f (w_db w))"
    using assms(2,3) by (intro requests_move_update) auto
  then have "requests_move (w_db w) (w_db (publishEvent t m pl now (on_db (\<lambda>d. Audit a b c e now
      (update_requests (\<lambda>q. q_id q = i \<and> q_status q = ''pending'') f d)) w)))" for t m pl a b c e
    by (intro moves_publish) (simp add: requests_move_trans [OF _ quiet_moves [OF quiet_Audit [OF quiet_refl]]])
  then show ?thesis using assms(1) unfolding decide_request_def Let_def by (auto split: if_splits)
qed

lemma moves_RequestAction:
  assumes "handleAdminRequestAction s rq now w = (r, w')"
  shows "requests_move (w_db w) (w_db w')"
  using assms unfolding handleAdminRequestAction_def
  by (auto split: option.splits prod.splits if_splits elim!: moves_decide
      simp: request_identity_def)


lemma moves_Poll:
  "handleClientPoll l cfg b rq now w = (r, w') \<Longrightarrow> db_wf (w_db w) \<Longrightarrow> requests_move (w_db w) (w_db w')"
  unfolding handleClientPoll_def
  by (auto split: option.splits if_splits dest: find_request_Some intro: moves_poll_answer)

lemma moves_client:
  assumes "client_endpoint pool l cfg bo e rq now w = Some (ans, w')" "db_wf (w_db w)"
  shows "requests_move (w_db w) (w_db w')"
proof (cases e)
  case EHeartbeat
  then obtain r where "handleAgentHeartbeat pool l cfg (bo_heartbeat bo) rq now w = (r, w')"
    using assms by (auto simp: client_endpoint_def split: prod.splits option.splits)
  then show ?thesis by (intro quiet_moves quiet_Heartbeat)
qed (use assms in \<open>auto simp: client_endpoint_def reply_def handleAgentUninstallIntent_def
       handleAgentUninstallComplete_def split: prod.splits
       intro: moves_Register moves_Poll moves_Provision quiet_moves [OF quiet_Uninstall] quiet_moves [OF quiet_Login]\<close>)

lemma moves_admin_endpoint:
  assumes "admin_endpoint l cfg bo e s rq now w = (r, w')"
  shows "requests_move (w_db w) (w_db w')"
  using assms
  by (cases e) (auto simp: admin_endpoint_def handleAdminRequests_def handleAdminMachines_def handleHealth_def
      handleSSHConfig_def dest!: method_only_db split: sum.splits
      intro: quiet_moves [OF quiet_Logout] quiet_moves [OF quiet_CreateServiceToken]
        moves_RequestAction quiet_moves [OF quiet_MachineAction])

lemma moves_admin_only:
  assumes "admin_only l cfg h rq now w = (r, w')"
    "\<And>s w1. h s rq now w1 = (r, w') \<Longrightarrow> requests_move (w_db w1) (w_db w')"
  shows "requests_move (w_db w) (w_db w')"
  using assms(1)
proof (cases rule: admin_only_cases)
  case (denied d)
  then show ?thesis by (simp add: quiet_moves)
next
  case (session token c kind d)
  then show ?thesis using assms(2) [OF session(5)] requests_move_trans [OF quiet_moves [OF session(3)]] by simp
qed

text \<open>The three ways a request is answered: by a client endpoint, behind the administrator's check,
  or without looking at the state.\<close>

lemma serve_cases:
  assumes "serve pool l cfg bo rq now w = (ans, w')"
  obtains (nothing) "w' = w"
    | (client) e where "rq_method rq = ''POST''" "route (rq_path rq) = Some e" "client_endpoint pool l cfg bo e rq now w = Some (ans, w')"
    | (stream) r where "route (rq_path rq) = Some EEvents"
        "admin_only l cfg (\<lambda>s. method_only ''GET'' (\<lambda>rq now w. (stream_opens, w))) rq now w = (r, w')"
    | (admin) e r where "route (rq_path rq) = Some e" "admin_only l cfg (admin_endpoint l cfg bo e) rq now w = (r, w')" "ans = Reply r"
proof (cases "rq_method rq = ''OPTIONS'' \<or> route (rq_path rq) = None")
  case True
  then have "w' = w" using assms by (auto simp: serve_def split: if_splits)
  then show thesis by (rule nothing)
next
  case False
  then obtain e where e: "route (rq_path rq) = Some e" "rq_method rq \<noteq> ''OPTIONS''" by auto
  obtain r1 w1 where 1: "admin_only l cfg (\<lambda>s. method_only ''GET'' (\<lambda>rq now w. (stream_opens, w))) rq now w = (r1, w1)"
    by fastforce
  obtain r2 w2 where 2: "admin_only l cfg (admin_endpoint l cfg bo e) rq now w = (r2, w2)" by fastforce
  show thesis
  proof (cases "client_endpoint pool l cfg bo e rq now w")
    case (Some x)
    show thesis
    proof (cases "rq_method rq = ''POST''")
      case True
      then show thesis using assms e Some client [OF True e(1)] by (simp add: serve_def)
    next
      case False
      then have "w' = w" using assms e Some by (cases x) (simp add: serve_def)
      then show thesis by (rule nothing)
    qed
  next
    case None
    then show thesis using assms e 1 2 stream [of r1] admin [OF e(1), of r2]
      by (auto simp: serve_def reply_def split: if_splits)
  qed
qed

lemma serve_moves:
  assumes "serve pool l cfg bo rq now w = (ans, w')" "db_wf (w_db w)"
  shows "requests_move (w_db w) (w_db w')"
  using assms(1)
proof (cases rule: serve_cases)
  case (client e)
  then show ?thesis using moves_client assms(2) by blast
next
  case (stream r)
  then show ?thesis by (intro moves_admin_only [OF stream(2)]) (auto dest: method_only_db)
next
  case (admin e r)
  then show ?thesis by (intro moves_admin_only [OF admin(2)] moves_admin_endpoint)
qed simp

lemma moves_ExpireOnce: "requests_move (w_db w) (w_db (ExpireOnce cfg now w))"
proof -
  let ?w1 = "on_db (expire_requests (nowUTC now)) w"
  have "requests_move d (update_requests p (\<lambda>q. q\<lparr>q_status := ''expired''\<rparr>) d)"
    if "\<And>q. p q \<Longrightarrow> q_status q \<in> {''pending'', ''approved''}" for p d
    using that by (intro requests_move_update) (auto simp: request_identity_def dest!: that)
  note e = this
  have "requests_move (w_db w) (w_db ?w1)"
    unfolding expire_requests_def on_db_simps by (rule requests_move_trans [OF e e]) auto
  moreover have "requests_move (w_db ?w1) (w_db (ExpireOnce cfg now w))"
    unfolding ExpireOnce_def Let_def by (rule quiet_moves, rule quiet_fold_Disable) simp
  ultimately show ?thesis by (rule requests_move_trans)
qed

end
