(* ===== verification/Examples.thy ===== *)
theory Examples
  imports RequestLife SecurityProps
begin

text \<open>
  A small hub on which the properties are tried: a configuration, a host where every action
  succeeds, the database right after migration, and an approved request whose setup token is
  \<open>hunter2\<close>.
\<close>

subsection \<open>A small hub\<close>

definition example_cfg :: Config where
  "example_cfg =
     \<lparr>cfg_listen_addr = '':8080'', cfg_db_path = ''reach.db'', cfg_allowed_origins = [], cfg_god_code_hash = [],
      cfg_jwt_secret = ''k'', cfg_admin_jwt_ttl = hour, cfg_request_ttl = day, cfg_setup_token_ttl = hour,
      cfg_health_interval = minute, cfg_maintenance_interval = minute, cfg_offline_after = 5 * minute,
      cfg_default_expiry = 0, cfg_sshd_config_dir = ''/etc/ssh/sshd_config.d'', cfg_tunnel_home_base = ''/var/lib'',
      cfg_ssh_service_name = ''ssh'', cfg_hub_host_keys = [], cfg_deprecated_host_keys = [],
      cfg_websocket_tunnel = \<lparr>ws_enabled = False, ws_carrier = [], ws_url = [], ws_path_prefix = [], ws_binaries = []\<rparr>,
      cfg_agent_updates = \<lparr>au_enabled = True, au_latest_version = ''1.2.0'', au_manifest_path = [], au_api_url = []\<rparr>,
      cfg_notifications = \<lparr>nc_enabled = False, nc_webhook_url = [], nc_webhook_headers = []\<rparr>,
      cfg_initial_admin = \<lparr>ia_username = ''root'', ia_password_hash = ''h'', ia_public_keys = []\<rparr>,
      cfg_default_hub = \<lparr>hc_id = ''primary'', hc_name = ''hub'', hc_public_host = ''hub.example'', hc_ssh_port = 22,
        hc_proxyjump_alias = ''hub'', hc_api_url = ''https://hub.example'', hc_port_start = 9200, hc_port_end = 9210\<rparr>,
      cfg_provisioning_enabled = False\<rparr>"

definition example_host :: host where
  "example_host = \<lparr>ho_files = Map.empty, ho_log = [], ho_answer = (\<lambda>_ _. (True, [])), ho_listening = (\<lambda>_. False),
                   ho_json = (\<lambda>_. None)\<rparr>"

definition example_boot :: "string option \<times> db \<times> rand" where
  "example_boot = Migrate example_lib example_cfg 0 (empty_db, example_rand)"

definition world_of :: "db \<Rightarrow> rand \<Rightarrow> world" where
  "world_of d r = \<lparr>w_db = d, w_rand = r, w_host = example_host, w_broker = newEventBroker, w_register_cleanup = 0,
                   w_login_cleanup = 0, w_health = None\<rparr>"

definition example_world :: world where
  "example_world = world_of (fst (snd example_boot)) example_rand"

lemma example_boot_ok: "example_boot = (None, fst (snd example_boot), snd (snd example_boot))"
proof -
  have "fst example_boot = None" by code_simp
  then show ?thesis by (metis prod.collapse)
qed

lemma example_world_db: "w_db example_world = fst (snd example_boot)"
  by (simp add: example_world_def world_of_def)

lemma example_world_wf: "db_wf (w_db example_world)"
  using Migrate_wf [OF example_boot_ok [unfolded example_boot_def] empty_db_wf]
  by (simp add: example_world_db example_boot_def)

subsection \<open>An approved request\<close>

definition example_hash :: string where
  "example_hash = encode_secret ''0123456789abcdef'' ''hunter20123456789abcdefxxxxxxxxx''"

lemma example_verify [simp]: "VerifySecret example_lib ''hunter2'' example_hash"
proof -
  have x: "replicate 9 (CHR ''x'') = ''xxxxxxxxx''" by code_simp
  have "l_argon2 example_lib ''hunter2'' ''0123456789abcdef'' 3 65536 2 32 = ''hunter20123456789abcdefxxxxxxxxx''"
    by (simp add: example_lib_def x)
  moreover have len: "length ''hunter20123456789abcdefxxxxxxxxx'' = 32" by code_simp
  moreover have "''hunter2'' \<noteq> []" by simp
  ultimately show ?thesis
    unfolding example_hash_def
    using VerifySecret_encode [of "''hunter2''" example_lib "''0123456789abcdef''" "''hunter20123456789abcdefxxxxxxxxx''", unfolded len]
    by blast
qed

definition example_request :: "string \<Rightarrow> request_row" where
  "example_request name = \<lparr>q_id = ''r1'', q_name = name, q_client_secret_hash = example_hash, q_status = ''approved'',
     q_invite_code_hash = None, q_setup_token_hash = Some example_hash, q_setup_token_expires_at = None,
     q_metadata = Some [(''target_user'', JStr ''bob'')], q_created_at = fmt 0, q_expires_at = fmt 0, q_approved_at = None, q_denied_at = None\<rparr>"

definition approved_world :: "string \<Rightarrow> world" where
  "approved_world name = on_db (\<lambda>d. d\<lparr>db_requests := [example_request name]\<rparr>) example_world"

definition example_provision :: client_provision where
  "example_provision = \<lparr>cp_setup_token = ''hunter2'', cp_request_id = ''r1'', cp_slug = [], cp_display_name = [],
     cp_target_user = ''bob'', cp_pubkey = ''ssh-ed25519 AAAA'', cp_mode = [], cp_persistence = [], cp_distro = [],
     cp_arch = [], cp_local_port = 0\<rparr>"

lemma approved_requests [simp]: "db_requests (w_db (approved_world name)) = [example_request name]"
  by (simp add: approved_world_def)

lemma approved_wf: "db_wf (w_db (approved_world name))"
  using example_world_wf by (simp add: approved_world_def wf_defs exists_image)

definition claimed_db :: "string \<Rightarrow> db" where
  "claimed_db name = update_requests (claims_row ''r1'' example_hash)
     (\<lambda>q. q\<lparr>q_status := ''provisioning'', q_setup_token_hash := None\<rparr>) (w_db (approved_world name))"

lemma example_consume:
  "consumeSetupToken example_lib ''r1'' ''hunter2'' now (w_db (approved_world name)) = (Inr (''r1'', name), claimed_db name)"
  by (simp add: consumeSetupToken_def find_request_def sql_row_def example_request_def setup_token_check_def
      claim_setup_token_def claims_row_def sql_affected_def claimed_db_def)

subsection \<open>A machine created on it\<close>

lemma claimed_tables:
  "db_machines (claimed_db name) = []" "db_tunnels (claimed_db name) = []"
  "map h_id (db_hubs (claimed_db name)) = [''primary'']" "firstAdminID (claimed_db name) \<noteq> None"
proof -
  have e: "db_machines (fst (snd example_boot)) = []" "db_tunnels (fst (snd example_boot)) = []"
    "map h_id (db_hubs (fst (snd example_boot))) = [''primary'']" "firstAdminID (fst (snd example_boot)) \<noteq> None"
    by code_simp+
  have f: "db_machines (claimed_db name) = db_machines (fst (snd example_boot))"
    "db_tunnels (claimed_db name) = db_tunnels (fst (snd example_boot))"
    "db_hubs (claimed_db name) = db_hubs (fst (snd example_boot))"
    "firstAdminID (claimed_db name) = firstAdminID (fst (snd example_boot))"
    by (simp_all add: claimed_db_def update_requests_def approved_world_def example_world_db firstAdminID_def)
  show "db_machines (claimed_db name) = []" "db_tunnels (claimed_db name) = []"
    "map h_id (db_hubs (claimed_db name)) = [''primary'']" "firstAdminID (claimed_db name) \<noteq> None"
    using e f by simp_all
qed

lemma claimed_hub:
  "\<exists>hub. db_hubs (claimed_db name) = [hub] \<and> h_id hub = ''primary'' \<and> h_port_start hub = 9200 \<and> h_port_end hub = 9210"
proof -
  have "map h_port_start (db_hubs (fst (snd example_boot))) = [9200]" "map h_port_end (db_hubs (fst (snd example_boot))) = [9210]"
    by code_simp+
  moreover have "db_hubs (claimed_db name) = db_hubs (fst (snd example_boot))"
    by (simp add: claimed_db_def update_requests_def approved_world_def example_world_db)
  ultimately show ?thesis using claimed_tables(3) [of name] by (auto simp: map_eq_Cons_conv)
qed

definition claimed_world :: "string \<Rightarrow> world" where
  "claimed_world name = (approved_world name)\<lparr>w_db := claimed_db name\<rparr>"

lemma example_created:
  "\<exists>res w. CreateMachine example_lib example_cfg (provision_input example_provision ''box'' ''Box'' owner) 0 (claimed_world name)
             = (Inr res, w)"
proof -
  let ?i = "normalize_input example_cfg 0 (provision_input example_provision ''box'' ''Box'' owner)"
  have checks: "create_checks example_lib (provision_input example_provision ''box'' ''Box'' owner) = None"
  proof -
    have "ValidateSlug ''box'' = None" "ValidateTargetUser ''bob'' = None" by code_simp+
    moreover have "ValidateSSHPublicKey example_lib ''ssh-ed25519 AAAA'' = Inr ''ssh-ed25519''" by code_simp
    ultimately show ?thesis by (simp add: create_checks_def provision_input_def example_provision_def)
  qed
  define ids where "ids = (let (m, r1) = RandomID ''m'' example_rand; (t, r2) = RandomID ''t'' r1;
      (s, r3) = RandomShortID r2; (a, r4) = RandomToken ''at'' 32 r3 in (m, t, s, a, r4))"
  have ids_ok: "\<exists>m t s a r4. ids = (Inr m, Inr t, Inr s, Inr a, r4) \<and> r_salts r4 = r_salts example_rand \<and> a \<noteq> []"
  proof -
    have "case ids of (Inr m, Inr t, Inr s, Inr a, r4) \<Rightarrow> r_salts r4 = r_salts example_rand \<and> a \<noteq> [] | _ \<Rightarrow> False"
      unfolding ids_def by code_simp
    then show ?thesis by (auto split: prod.splits sum.splits)
  qed
  then obtain m t s a r1 r2 r3 r4 where r: "RandomID ''m'' example_rand = (Inr m, r1)" "RandomID ''t'' r1 = (Inr t, r2)"
    "RandomShortID r2 = (Inr s, r3)" "RandomToken ''at'' 32 r3 = (Inr a, r4)" "r_salts r4 = r_salts example_rand" "a \<noteq> []"
    unfolding ids_def Let_def by (auto split: prod.splits)
  obtain h r5 where h: "HashSecret example_lib a r4 = (Inr h, r5)"
    using r(5,6) by (auto simp: HashSecret_def example_rand_def Let_def split: list.splits)
  obtain hub where hub: "db_hubs (claimed_db name) = [hub]" "h_id hub = ''primary''" "h_port_start hub = 9200" "h_port_end hub = 9210"
    using claimed_hub by blast
  have port: "\<exists>p. allocatePortTx (\<lambda>_. False) hub [] = Inr p"
  proof -
    have "List.find (\<lambda>p. \<not> (p \<in> set [] \<or> reservedTunnelPort p \<or> False)) [9200 .. 9210] = Some 9200" by code_simp
    then show ?thesis using hub by (simp add: allocatePortTx_def used_ports_def)
  qed
  then obtain p where p: "allocatePortTx (\<lambda>_. False) hub [] = Inr p" by blast
  have hid: "in_hub_id ?i = ''primary''" by (simp add: normalize_input_def provision_input_def example_cfg_def)
  have g: "getHubTx ''primary'' (claimed_db name) = Inr hub"
    using hub by (simp add: getHubTx_def sql_row_def)
  have tx: "\<exists>d. create_tx (\<lambda>_. False) m t u h n ?i (claimed_db name) = Inr (hub, p, d)" for u n
    using g p hub claimed_tables [of name]
    by (auto simp: create_tx_def hid insert_machine_def insert_tunnel_def sql_insert_def machine_exists_def hub_exists_def
        new_machine_row_def new_tunnel_row_def)
  have w: "w_rand (claimed_world name) = example_rand" "w_db (claimed_world name) = claimed_db name"
    "ho_listening (w_host (claimed_world name)) = (\<lambda>_. False)"
    by (simp_all add: claimed_world_def approved_world_def on_db_def example_world_def world_of_def example_host_def)
  have cfg: "\<not> cfg_provisioning_enabled example_cfg" by (simp add: example_cfg_def)
  obtain d where d: "create_tx (\<lambda>_. False) m t (''rt-'' @ s) h (nowUTC 0) ?i (claimed_db name) = Inr (hub, p, d)"
    using tx by blast
  show ?thesis
    using d by (simp add: CreateMachine_def checks bindE_with_rand r h w create_with_def provision_account_def cfg Let_def)
qed

lemma example_provisioned:
  "\<exists>r w. handleClientProvision example_lib example_cfg (Some example_provision) rq 0 (approved_world ''Box'') = (r, w)
          \<and> rs_status r = 200"
proof -
  obtain owner where o: "firstAdminID (claimed_db ''Box'') = Some owner" using claimed_tables(4) by blast
  obtain res w2 where c: "CreateMachine example_lib example_cfg (provision_input example_provision ''box'' ''Box'' owner) 0
      (claimed_world ''Box'') = (Inr res, w2)" using example_created by blast
  have n: "NormalizeSlug ''Box'' = ''box''" "ValidateSlug ''box'' = None" by code_simp+
  have v: "validateApprovedMetadata ''r1'' (provision_got example_provision) (w_db (approved_world ''Box'')) = None"
  proof -
    have "metadata_mismatch [(''target_user'', JStr ''bob'')] (provision_got example_provision) = None" by code_simp
    then show ?thesis by (simp add: validateApprovedMetadata_def find_request_def sql_row_def example_request_def)
  qed
  have t: "trim_space [] = []" by code_simp
  show ?thesis
    using v t example_consume [of 0 "''Box''"] c o n
    by (simp add: handleClientProvision_def example_provision_def claimed_world_def provision_response_def writeBody_def Let_def)
qed

end
