(* ===== verification/RequestProps.thy ===== *)
theory RequestProps
  imports Examples
begin

text \<open>
  The properties of access requests, provisioning and administrator sessions, with witnesses on a
  small hub.
\<close>







text \<open>The counts of affected rows that clients see when several of them claim the same token at once:
  each read the request before any of them claimed it.\<close>

fun claim_counts :: "string \<Rightarrow> string \<Rightarrow> nat \<Rightarrow> db \<Rightarrow> nat list" where
  "claim_counts i h 0 d = []"
| "claim_counts i h (Suc n) d = (case claim_setup_token i h d of (k, d') \<Rightarrow> k # claim_counts i h n d')"

text \<open>C11: however many clients race for one setup token, at most one of their claims succeeds.\<close>

theorem setup_token_claimed_once:
  assumes "db_wf d"
  shows "sum_list (claim_counts i h n d) \<le> 1"
proof -
  have none: "claim_counts i h n d = replicate n 0" if "\<forall>q \<in> set (db_requests d). \<not> claims_row i h q" for n d
    using that
  proof (induction n arbitrary: d)
    case (Suc n)
    have "db_requests (update_requests (claims_row i h) f d) = db_requests d" for f
      using Suc.prems by (simp add: update_requests_def sql_update_none)
    then show ?case using Suc by (simp add: claim_setup_token_def sql_affected_0)
  qed simp
  have one: "sql_affected (claims_row i h) (db_requests d) \<le> 1"
    using sql_affected_key [of q_id "db_requests d" "claims_row i h" i] assms
    by (simp add: db_wf_def requests_wf_def claims_row_def)
  have "\<forall>q \<in> set (db_requests (snd (claim_setup_token i h d))). \<not> claims_row i h q"
    by (auto simp: claim_setup_token_def claims_row_def dest!: in_update_requests split: if_splits)
  then show ?thesis
    using one none [of "snd (claim_setup_token i h d)"] by (cases n) (auto simp: claim_setup_token_def sum_list_replicate)
qed

lemma setup_token_claimed_once_witness:
  "sum_list (claim_counts ''r1'' example_hash 3 (w_db (approved_world ''Box''))) \<le> 1"
  by (rule setup_token_claimed_once [OF approved_wf])

text \<open>a client whose machine name has no letter or digit and that names no slug loses its request:
  the token is consumed, the answer is an error, and the request stays in provisioning, a status
  that no later request of the hub takes it out of.\<close>

theorem provision_stuck:
  assumes "q \<in> set (db_requests (w_db w))" "db_wf (w_db w)" "q_id q = cp_request_id b" "cp_slug b = []"
    "setup_token_check l q (cp_setup_token b) now = Inr h" "\<not> list_ex is_slug_alnum (to_lower (trim_space (q_name q)))"
    "length (trim_space (cp_display_name b)) \<le> 256" "cp_request_id b \<noteq> []" "cp_setup_token b \<noteq> []" "cp_pubkey b \<noteq> []"
    "validateApprovedMetadata (cp_request_id b) (provision_got b) (w_db w) = None"
    "handleClientProvision l cfg (Some b) rq now w = (r, w')"
  shows "rs_status r = 400 \<and> (\<exists>q' \<in> set (db_requests (w_db w')). q_id q' = q_id q \<and> q_status q' = ''provisioning'' \<and>
           q_setup_token_hash q' = None) \<and> db_machines (w_db w') = db_machines (w_db w)"
proof -
  have h: "q_status q = ''approved''" "q_setup_token_hash q = Some h"
    using assms(5) by (auto simp: setup_token_check_def split: option.splits if_splits)
  have found: "find_request (cp_request_id b) (w_db w) = Some q"
    unfolding find_request_def using sql_row_unique [of q_id "db_requests (w_db w)" q] assms(1-3)
    by (simp add: db_wf_def requests_wf_def)
  have "filter (claims_row (cp_request_id b) h) (db_requests (w_db w)) \<noteq> []"
    using assms(1,3) h by (auto simp: filter_empty_conv claims_row_def)
  then have "sql_affected (claims_row (cp_request_id b) h) (db_requests (w_db w)) \<noteq> 0"
    by (simp add: sql_affected_def)
  moreover have "sql_affected (claims_row (cp_request_id b) h) (db_requests (w_db w)) \<le> 1"
    using sql_affected_key [of q_id "db_requests (w_db w)" "claims_row (cp_request_id b) h" "cp_request_id b"] assms(2)
    by (simp add: db_wf_def requests_wf_def claims_row_def)
  ultimately have one: "sql_affected (claims_row (cp_request_id b) h) (db_requests (w_db w)) = 1" by linarith
  define d where "d = update_requests (claims_row (cp_request_id b) h)
     (\<lambda>q. q\<lparr>q_status := ''provisioning'', q_setup_token_hash := None\<rparr>) (w_db w)"
  have c: "consumeSetupToken l (cp_request_id b) (cp_setup_token b) now (w_db w) = (Inr (q_id q, q_name q), d)"
    by (simp add: consumeSetupToken_def found assms(5) claim_setup_token_def one d_def)
  have "ValidateSlug (NormalizeSlug (q_name q)) \<noteq> None"
    using NormalizeSlug_cases [of "q_name q"] assms(6)
    by (auto simp: ValidateSlug_iff list_ex_iff valid_slug_def is_slug_alnum_def is_lower_def is_digit_def split: if_splits)
  then obtain e where e: "ValidateSlug (NormalizeSlug (q_name q)) = Some e" by blast
  have run: "r = writeErr 400 e \<and> w' = w\<lparr>w_db := d\<rparr>"
    using assms(4,7-12) c e by (simp add: handleClientProvision_def)
  have "q\<lparr>q_status := ''provisioning'', q_setup_token_hash := None\<rparr> \<in> set (db_requests d)"
    using assms(1,3) h by (auto simp: d_def update_requests_def set_sql_update claims_row_def)
  then have "\<exists>q' \<in> set (db_requests (w_db w')). q_id q' = q_id q \<and> q_status q' = ''provisioning'' \<and> q_setup_token_hash q' = None"
    using run by (intro bexI [of _ "q\<lparr>q_status := ''provisioning'', q_setup_token_hash := None\<rparr>"]) simp_all
  moreover have "db_machines d = db_machines (w_db w)" by (simp add: d_def update_requests_def)
  ultimately show ?thesis using run by (simp add: writeErr_def writeJSON_def)
qed

lemma provision_stuck_witness:
  "\<forall>rq. \<exists>r w' :: world. handleClientProvision example_lib example_cfg (Some example_provision) rq 0 (approved_world ''!!!'') = (r, w') \<and>
      rs_status r = 400"
proof (intro allI)
  fix rq
  show "\<exists>r w' :: world. handleClientProvision example_lib example_cfg (Some example_provision) rq 0 (approved_world ''!!!'') = (r, w') \<and>
      rs_status r = 400"
  proof -
  obtain r w' where run: "handleClientProvision example_lib example_cfg (Some example_provision) rq 0 (approved_world ''!!!'') = (r, w')"
    by fastforce
  have n: "\<not> list_ex is_slug_alnum (to_lower (trim_space ''!!!''))" by code_simp
  have m: "metadata_mismatch [(''target_user'', JStr ''bob'')] (provision_got example_provision) = None" by code_simp
  have t: "length (trim_space []) \<le> 256" by code_simp
  have "rs_status r = 400"
    using provision_stuck [OF _ approved_wf _ _ _ _ _ _ _ _ _ run, of "example_request ''!!!''" example_hash] n m t
    by (simp add: example_provision_def example_request_def setup_token_check_def validateApprovedMetadata_def find_request_def sql_row_def)
  then show ?thesis using run by blast
  qed
qed

text \<open>the members a client sends as metadata replace the ones the hub records itself, the client's
  address included.\<close>

theorem register_meta_overridden:
  assumes "distinct (map fst (gb_metadata b))"
  shows "obj_get k (register_meta b ip) =
         (case obj_get k (gb_metadata b) of Some v \<Rightarrow> Some v
          | None \<Rightarrow> obj_get k (register_meta (b\<lparr>gb_metadata := []\<rparr>) ip))"
  by (cases "obj_get k (gb_metadata b)") (simp_all add: register_meta_def obj_get_merge [OF assms])

lemma register_meta_overridden_witness:
  "obj_get ''source_ip'' (register_meta \<lparr>gb_name = ''b'', gb_auth_code = [], gb_target_user = [], gb_slug = [], gb_mode = [],
     gb_distro = [], gb_arch = [], gb_transport = [], gb_local_port = 0, gb_metadata = [(''source_ip'', JStr ''10.0.0.1'')]\<rparr> ''8.8.8.8'')
   = Some (JStr ''10.0.0.1'')"
  by (subst register_meta_overridden) simp_all

text \<open>C21: what a client provisions agrees with what was approved in every text field that both name.\<close>

theorem provision_matches_approval:
  assumes "handleClientProvision l cfg (Some b) rq now w = (r, w')" "rs_status r = 200"
    "find_request (cp_request_id b) (w_db w) = Some q" "q_metadata q = Some want"
    "key \<in> {''target_user'', ''slug'', ''mode'', ''distro'', ''arch''}"
    "obj_string key want = Some wv" "obj_string key (provision_got b) = Some gv" "trim_space wv \<noteq> []" "trim_space gv \<noteq> []"
  shows "trim_space gv = trim_space wv"
  using assms(1)
proof (cases rule: Provision_cases)
  case (provisioned b' d requestID name slug owner res w2)
  then have "metadata_mismatch want (provision_got b) = None"
    using assms(3,4) by (simp add: validateApprovedMetadata_def)
  then have "List.find (text_mismatch want (provision_got b)) [''target_user'', ''slug'', ''mode'', ''distro'', ''arch''] = None"
    by (simp only: metadata_mismatch_def split: option.splits) simp_all
  then have "\<not> text_mismatch want (provision_got b) key"
    unfolding find_None_all using assms(5) by auto
  then show ?thesis using assms(6-9) by (simp add: text_mismatch_def)
qed (use assms(2) in \<open>auto simp: writeClientAuthErr_def writeErr_def writeJSON_def\<close>)

lemma provision_matches_approval_witness:
  "trim_space (cp_target_user example_provision) = trim_space ''bob''"
proof -
  obtain r w' where r: "handleClientProvision example_lib example_cfg (Some example_provision) undefined 0 (approved_world ''Box'') = (r, w')"
    "rs_status r = 200" using example_provisioned by blast
  have f: "find_request (cp_request_id example_provision) (w_db (approved_world ''Box'')) = Some (example_request ''Box'')"
    by (simp add: find_request_def sql_row_def example_provision_def example_request_def)
  have s: "trim_space ''bob'' \<noteq> []" "trim_space (cp_target_user example_provision) \<noteq> []" by code_simp+
  show ?thesis
    by (rule provision_matches_approval [OF r f, of "[(''target_user'', JStr ''bob'')]" "''target_user''"])
      (use s in \<open>simp_all add: example_request_def obj_string_def provision_got_def\<close>)
qed

end
