(* ===== verification/SharedLimits.thy ===== *)
theory SharedLimits
  imports World
begin

text \<open>
  The two limiters of the hub keep their buckets in one table, and the clean-up of each deletes the
  expired buckets of both. The locale extends the contract of a limiter by an environment that
  leaves live buckets alone; each limiter of the hub keeps it with the other one as its
  environment.
\<close>

subsection \<open>A limiter beside others\<close>

datatype 'e call = Ask string instant | Env 'e instant

fun call_time :: "'e call \<Rightarrow> instant" where
  "call_time (Ask k t) = t"
| "call_time (Env e t) = t"

locale shared_window_limiter = window_limiter ask view inv good_time window limit slack
  for ask :: "string \<Rightarrow> instant \<Rightarrow> 's \<Rightarrow> bool \<times> 's" and view inv good_time window limit slack +
  fixes env :: "'e \<Rightarrow> instant \<Rightarrow> 's \<Rightarrow> 's"
  assumes inv_env: "inv s \<Longrightarrow> good_time now \<Longrightarrow> inv (env e now s)"
    and live_env: "inv s \<Longrightarrow> good_time now \<Longrightarrow> view s k = Some (c, r) \<Longrightarrow> now \<le> r - slack \<Longrightarrow>
       view (env e now s) k = Some (c, r)"
begin

fun shared_grants :: "string \<Rightarrow> 'e call list \<Rightarrow> 's \<Rightarrow> nat" where
  "shared_grants k [] s = 0"
| "shared_grants k (Ask k' t # cs) s =
     (if k' = k \<and> fst (ask k' t s) then 1 else 0) + shared_grants k cs (snd (ask k' t s))"
| "shared_grants k (Env e t # cs) s = shared_grants k cs (env e t s)"

lemma shared_grants_live:
  "inv s \<Longrightarrow> view s k = Some (c, r) \<Longrightarrow> \<forall>a \<in> set cs. good_time (call_time a) \<and> call_time a \<le> r - slack \<Longrightarrow>
   int (shared_grants k cs s) \<le> max 0 (limit - c)"
proof (induction k cs s arbitrary: c rule: shared_grants.induct)
  case (2 k k' t cs s)
  have t: "good_time t" "t \<le> r - slack" using 2(4) by simp_all
  have inv: "inv (snd (ask k' t s))" using inv_ask 2(2) t(1) .
  show ?case
  proof (cases "k' = k")
    case True
    then have l: "fst (ask k' t s) = (c < limit)" "view (snd (ask k' t s)) k = Some (if c < limit then c + 1 else c, r)"
      using live [OF 2(2) t(1) 2(3) t(2)] by simp_all
    have "int (shared_grants k cs (snd (ask k' t s))) \<le> max 0 (limit - (if c < limit then c + 1 else c))"
      using 2(1) [OF inv l(2)] 2(4) by simp
    then show ?thesis using l(1) True by auto
  next
    case False
    then have "view (snd (ask k' t s)) k = Some (c, r)" using other [OF 2(2) t(1) _ 2(3) t(2), of k'] by simp
    from 2(1) [OF inv this] show ?thesis using 2(4) False by simp
  qed
next
  case (3 k e t cs s)
  have t: "good_time t" "t \<le> r - slack" using 3(4) by simp_all
  show ?case using 3(1) [OF inv_env [OF 3(2) t(1)] live_env [OF 3(2) t(1) 3(3) t(2)]] 3(4) by simp
qed simp

lemma shared_grants_bound:
  assumes "inv s" "good_time t0" "view s k = None \<or> (\<exists>c r. view s k = Some (c, r) \<and> r < t0)" "1 \<le> limit"
    "\<forall>a \<in> set cs. good_time (call_time a) \<and> call_time a \<le> t0 + window - slack"
  shows "int (shared_grants k (Ask k t0 # cs) s) \<le> limit"
proof -
  have f: "fst (ask k t0 s)" "view (snd (ask k t0 s)) k = Some (1, t0 + window)"
    using assms(1-3) absent expired by blast+
  have "int (shared_grants k cs (snd (ask k t0 s))) \<le> max 0 (limit - 1)"
    using shared_grants_live [OF inv_ask [OF assms(1,2)] f(2) assms(5)] .
  with f(1) assms(4) show ?thesis by simp
qed

end

subsection \<open>The limiters of the hub\<close>

lemma rate_inv_table: "rate_inv (t, l) \<longleftrightarrow> rate_inv (t, l')"
  by (simp add: rate_inv_def)

lemma rate_view_table: "rate_view lim (t, l) k = rate_view lim (t, l') k"
  by (simp add: rate_view_def)

lemma allowPersistent_other:
  assumes "lim_bucket_name lim \<noteq> lim_bucket_name lim'" "rate_inv (t, l)" "rate_time lim' now"
    "rate_view lim (t, l0) k = Some (c, r)" "now \<le> r - second"
    "allowPersistent lim' k' now (t, l) = (ok, t', l')"
  shows "rate_view lim (t', l'') k = Some (c, r)"
proof -
  obtain row where row: "sql_row (rate_key lim k) t = Some row" "c = rl_count row"
      "parse_time (rl_reset_at row) = Some r"
    using assms(4) by (auto simp: rate_view_def split: option.splits)
  obtain r' where r': "printable_time r'" "rl_reset_at row = fmt_nano r'"
    using assms(2) sql_row_Some [OF row(1)] by (auto simp: rate_inv_def)
  have "r' = r" using row(3) r' parse_fmt_nano by simp
  then have "\<not> rl_reset_at row \<le> fmt_nano now"
    using fmt_nano_le [of r now] r' assms(3,5) by (auto simp: rate_time_def)
  then have "sql_row (rate_key lim k) (sql_delete (\<lambda>r. rl_reset_at r \<le> fmt_nano now) t) = Some row"
    using assms(2) by (simp add: rate_inv_def sql_row_rate_delete row(1))
  moreover obtain t1 l1 where tl: "rate_cleanup lim' now (t, l) = (t1, l1)" by fastforce
  ultimately have t1: "sql_row (rate_key lim k) t1 = Some row" using row(1) by (auto simp: rate_cleanup_def split: if_splits)
  have no: "rate_key lim' k' x \<Longrightarrow> \<not> rate_key lim k x" for x using assms(1) by (auto simp: rate_key_def)
  have upd: "sql_row (rate_key lim k) (sql_update (rate_key lim' k') f t1) = Some row"
    if "\<And>x. rl_bucket (f x) = rl_bucket x" "\<And>x. rl_key (f x) = rl_key x" for f
    using t1 no that assms(1) unfolding sql_row_def
    by (induction t1) (auto simp: rate_key_def split: if_splits)
  have "sql_row (rate_key lim k) t' = Some row"
    using assms(6) upd t1 unfolding allowPersistent_def Let_def tl prod.case
    by (auto simp: sql_row_append split: option.splits if_splits)
  then show ?thesis using row by (simp add: rate_view_def)
qed

definition limits_inv :: "world \<Rightarrow> bool" where
  "limits_inv w \<longleftrightarrow> rate_inv (db_rate_limits (w_db w), 0)"

lemma limits_invD: "limits_inv w \<Longrightarrow> rate_inv (db_rate_limits (w_db w), l)"
  unfolding limits_inv_def by (subst rate_inv_table)

lemma limits_invI: "rate_inv s \<Longrightarrow> db_rate_limits (w_db w) = fst s \<Longrightarrow> limits_inv w"
  unfolding limits_inv_def using rate_inv_table [of "fst s" 0 "snd s"] by simp

text \<open>A limiter whose table is the one of the database and whose time of the last clean-up is \<open>g\<close>.\<close>

lemma limiter_on_world:
  assumes "\<And>ip now w. ask ip now w =
      (case allowPersistent lim ip now (db_rate_limits (w_db w), g w) of (ok, t, lc) \<Rightarrow> (ok, p t lc w))"
    "\<And>t lc w. db_rate_limits (w_db (p t lc w)) = t" "\<And>t lc w. g (p t lc w) = lc"
  shows "window_limiter ask (\<lambda>w. rate_view lim (db_rate_limits (w_db w), g w)) limits_inv (rate_time lim)
           (lim_window lim) (lim_limit lim) second"
proof
  fix w :: world and now k c r k'
  assume inv: "limits_inv w" and t: "rate_time lim now"
  let ?s = "(db_rate_limits (w_db w), g w)"
  note i = limits_invD [OF inv, of "g w"]
  obtain ok t' lc where run: "allowPersistent lim k now ?s = (ok, t', lc)" by (metis prod_cases3)
  then have a: "ask k now w = (ok, p t' lc w)" by (simp add: assms(1))
  show "limits_inv (snd (ask k now w))"
    using persistent.inv_ask [OF i t, of k] run by (auto simp: a assms(2) intro: limits_invI)
  show "fst (ask k now w) \<and> rate_view lim (db_rate_limits (w_db (snd (ask k now w))), g (snd (ask k now w))) k =
        Some (1, now + lim_window lim)" if "rate_view lim ?s k = None"
    using persistent.absent [OF i t that] run by (simp add: a assms(2,3))
  assume s: "rate_view lim ?s k' = Some (c, r)"
  show "rate_view lim (db_rate_limits (w_db (snd (ask k now w))), g (snd (ask k now w))) k' = Some (c, r)"
    if "k' \<noteq> k" "now \<le> r - second"
    using persistent.other [OF i t that(1) s that(2)] run by (simp add: a assms(2,3))
next
  fix w :: world and now k c r
  assume inv: "limits_inv w" and t: "rate_time lim now"
    and s: "rate_view lim (db_rate_limits (w_db w), g w) k = Some (c, r)"
  note i = limits_invD [OF inv, of "g w"]
  obtain ok t' lc where run: "allowPersistent lim k now (db_rate_limits (w_db w), g w) = (ok, t', lc)"
    by (metis prod_cases3)
  then have a: "ask k now w = (ok, p t' lc w)" by (simp add: assms(1))
  show "fst (ask k now w) = (c < lim_limit lim) \<and>
      rate_view lim (db_rate_limits (w_db (snd (ask k now w))), g (snd (ask k now w))) k =
        Some (if c < lim_limit lim then c + 1 else c, r)" if "now \<le> r - second"
    using persistent.live [OF i t s that] run by (simp add: a assms(2,3))
  show "fst (ask k now w) \<and> rate_view lim (db_rate_limits (w_db (snd (ask k now w))), g (snd (ask k now w))) k =
        Some (1, now + lim_window lim)" if "r < now"
    using persistent.expired [OF i t s that] run by (simp add: a assms(2,3))
qed

definition register_view :: "world \<Rightarrow> string \<Rightarrow> (int \<times> instant) option" where
  "register_view w = rate_view registerL (db_rate_limits (w_db w), w_register_cleanup w)"

definition login_view :: "world \<Rightarrow> string \<Rightarrow> (int \<times> instant) option" where
  "login_view w = rate_view loginL (db_rate_limits (w_db w), w_login_cleanup w)"

lemma limit_windows [simp]: "lim_window registerL = minute" "lim_limit registerL = 3" "lim_window loginL = minute"
  "lim_limit loginL = 8" "lim_bucket_name registerL \<noteq> lim_bucket_name loginL" "rate_time registerL = rate_time loginL"
  by (simp_all add: registerL_def loginL_def rate_time_def fun_eq_iff)

lemma register_limiter: "window_limiter allow_register register_view limits_inv (rate_time registerL) minute 3 second"
  using limiter_on_world [where ask = allow_register and lim = registerL and g = w_register_cleanup and p =
      "\<lambda>t lc w. w\<lparr>w_db := (w_db w)\<lparr>db_rate_limits := t\<rparr>, w_register_cleanup := lc\<rparr>"]
  by (simp add: allow_register_def register_view_def [abs_def])

lemma login_limiter: "window_limiter allow_login login_view limits_inv (rate_time loginL) minute 8 second"
  using limiter_on_world [where ask = allow_login and lim = loginL and g = w_login_cleanup and p =
      "\<lambda>t lc w. w\<lparr>w_db := (w_db w)\<lparr>db_rate_limits := t\<rparr>, w_login_cleanup := lc\<rparr>"]
  by (simp add: allow_login_def login_view_def [abs_def])

interpretation register: shared_window_limiter allow_register register_view limits_inv "rate_time registerL" minute 3 second
  "\<lambda>ip now w. snd (allow_login ip now w)"
proof (intro shared_window_limiter.intro register_limiter shared_window_limiter_axioms.intro)
  fix w :: world and now k c r ip
  assume inv: "limits_inv w" and t: "rate_time registerL now"
  show "limits_inv (snd (allow_login ip now w))"
    using window_limiter.inv_ask [OF login_limiter inv] t by simp
  assume v: "register_view w k = Some (c, r)" "now \<le> r - second"
  obtain ok t' lc where run: "allowPersistent loginL ip now (db_rate_limits (w_db w), w_login_cleanup w) = (ok, t', lc)"
    by (metis prod_cases3)
  have "rate_time loginL now" "lim_bucket_name registerL \<noteq> lim_bucket_name loginL" using t by simp_all
  from allowPersistent_other [OF this(2) limits_invD [OF inv] this(1) v(1) [unfolded register_view_def] v(2) run]
  show "register_view (snd (allow_login ip now w)) k = Some (c, r)" by (simp add: register_view_def allow_login_def run)
qed

interpretation login: shared_window_limiter allow_login login_view limits_inv "rate_time loginL" minute 8 second
  "\<lambda>ip now w. snd (allow_register ip now w)"
proof (intro shared_window_limiter.intro login_limiter shared_window_limiter_axioms.intro)
  fix w :: world and now k c r ip
  assume inv: "limits_inv w" and t: "rate_time loginL now"
  show "limits_inv (snd (allow_register ip now w))"
    using window_limiter.inv_ask [OF register_limiter inv] t by simp
  assume v: "login_view w k = Some (c, r)" "now \<le> r - second"
  obtain ok t' lc where run: "allowPersistent registerL ip now (db_rate_limits (w_db w), w_register_cleanup w) = (ok, t', lc)"
    by (metis prod_cases3)
  have "rate_time registerL now" "lim_bucket_name loginL \<noteq> lim_bucket_name registerL" using t not_sym [OF limit_windows(5)] by simp_all
  from allowPersistent_other [OF this(2) limits_invD [OF inv] this(1) v(1) [unfolded login_view_def] v(2) run]
  show "login_view (snd (allow_register ip now w)) k = Some (c, r)" by (simp add: login_view_def allow_register_def run)
qed

end
