(* ===== verification/AuthProps.thy ===== *)
theory AuthProps
  imports Examples SharedLimits
begin

text \<open>
  The properties of administrator sessions: logging out is final, a service token is confined to
  three paths, nobody without a session changes anything through an administrator's endpoint, a
  login needs the password, and registrations are limited.
\<close>

subsection \<open>Logged-out tokens\<close>




definition logged_out :: "string \<Rightarrow> instant \<Rightarrow> db \<Rightarrow> bool" where
  "logged_out h e d \<longleftrightarrow> (\<exists>b \<in> set (db_jwt_blacklist d). jb_token_hash b = h \<and> fmt e \<le> jb_expires_at b)"


lemma logged_out_service: "logged_out h e (update_service_tokens p f d) \<longleftrightarrow> logged_out h e d"
  by (simp add: logged_out_def update_service_tokens_def)








definition example_session :: session where
  "example_session = \<lparr>ss_claims = \<lparr>c_user_id = ''u'', c_username = ''root'', c_role = ''admin'', c_expires_at = Some hour\<rparr>,
                      ss_token = ''jwt:root'', ss_kind = ''jwt''\<rparr>"


subsection \<open>Administrators only\<close>

definition unanswered :: "response set" where
  "unanswered = {http_error 401 ''missing bearer token'', http_error 401 ''invalid token'', http_error 403 ''forbidden''}"

text \<open>The tables that checking a token writes.\<close>

definition only_logins :: "world \<Rightarrow> world \<Rightarrow> bool" where
  "only_logins w w' \<longleftrightarrow> (\<exists>bl ts. w' = w\<lparr>w_db := (w_db w)\<lparr>db_jwt_blacklist := bl, db_service_tokens := ts\<rparr>\<rparr>)"

lemma only_logins_refl: "only_logins w w"
  unfolding only_logins_def by (rule exI [of _ "db_jwt_blacklist (w_db w)"], rule exI [of _ "db_service_tokens (w_db w)"]) simp

lemma only_logins_authenticate:
  assumes "authenticateAdminToken l cfg t now (w_db w) = (r, d)"
  shows "only_logins w (w\<lparr>w_db := d\<rparr>)"
proof -
  have "\<exists>bl ts. d = (w_db w)\<lparr>db_jwt_blacklist := bl, db_service_tokens := ts\<rparr>"
  proof -
    have x: "x = x\<lparr>db_jwt_blacklist := db_jwt_blacklist x, db_service_tokens := db_service_tokens x\<rparr>" for x :: db by simp
    from assms consider "d = w_db w" | "d = purge_blacklist now (w_db w)" | p f where "d = update_service_tokens p f (w_db w)"
      by (auto simp: authenticateAdminToken_def isJWTBlacklisted_def parseServiceToken_def Let_def
          split: sum.splits bool.splits option.splits)
    then show ?thesis
    proof cases
      case 1 then show ?thesis using x by blast
    next
      case 2
      show ?thesis unfolding 2 purge_blacklist_def by (intro exI [of _ "sql_delete _ _"] exI [of _ "db_service_tokens (w_db w)"]) simp
    next
      case 3
      show ?thesis unfolding 3 update_service_tokens_def by (intro exI [of _ "db_jwt_blacklist (w_db w)"] exI [of _ "sql_update _ _ _"]) simp
    qed
  qed
  then show ?thesis unfolding only_logins_def by blast
qed

text \<open>No token of the request is worth a session on its path.\<close>

definition no_session :: "lib \<Rightarrow> Config \<Rightarrow> http_req \<Rightarrow> instant \<Rightarrow> world \<Rightarrow> bool" where
  "no_session l cfg rq now w \<longleftrightarrow>
     (\<forall>token c kind d. bearer rq = Some token \<longrightarrow> authenticateAdminToken l cfg token now (w_db w) = (Inr (c, kind), d) \<longrightarrow>
        \<not> adminRoleAllowed (c_role c) (rq_path rq))"

lemma admin_only_no_session:
  assumes "no_session l cfg rq now w" "admin_only l cfg h rq now w = (r, w')"
  shows "r \<in> unanswered \<and> only_logins w w'"
proof (cases "bearer rq")
  case (Some token)
  obtain x d where x: "authenticateAdminToken l cfg token now (w_db w) = (x, d)" by fastforce
  show ?thesis
    using assms Some x only_logins_authenticate [OF x]
    by (auto simp: admin_only_def no_session_def unanswered_def split: sum.splits prod.splits if_splits)
qed (use assms in \<open>auto simp: admin_only_def unanswered_def only_logins_refl\<close>)

definition admin_endpoints :: "endpoint set" where
  "admin_endpoints = {ELogout, EServiceTokens, ERequests, ERequestAction, EMachines, EMachineAction, ESSHConfig, EEvents, EHealth}"

lemma serve_no_session:
  assumes "serve pool l cfg bo rq now w = (ans, w')" "no_session l cfg rq now w"
    "route (rq_path rq) = Some e" "e \<in> admin_endpoints" "rq_method rq \<noteq> ''OPTIONS''"
  shows "ans \<in> Reply ` unanswered \<and> only_logins w w'"
proof -
  have c: "client_endpoint pool l cfg bo e rq now w = None"
    using assms(4) by (auto simp: admin_endpoints_def client_endpoint_def)
  obtain r1 w1 where 1: "admin_only l cfg (\<lambda>s. method_only ''GET'' (\<lambda>rq now w. (stream_opens, w))) rq now w = (r1, w1)"
    by fastforce
  obtain r2 w2 where 2: "admin_only l cfg (admin_endpoint l cfg bo e) rq now w = (r2, w2)" by fastforce
  have "r1 \<noteq> stream_opens"
    using admin_only_no_session [OF assms(2) 1] by (auto simp: unanswered_def stream_opens_def http_error_def)
  then show ?thesis
    using admin_only_no_session [OF assms(2) 1] admin_only_no_session [OF assms(2) 2] assms(1,3,5) c 1 2
    by (auto simp: serve_def reply_def split: if_splits)
qed

text \<open>C2: a request to an administrator's endpoint whose token is no valid session for that path gets a
  refusal, and of the hub's state it changes at most the two tables the check itself writes:
  expired rows of logged-out tokens and the time a service token was last used.\<close>

theorem admin_needs_session:
  assumes "serve pool l cfg bo rq now w = (ans, w')" "no_session l cfg rq now w"
    "route (rq_path rq) = Some e" "e \<in> admin_endpoints" "rq_method rq \<noteq> ''OPTIONS''"
  shows "(\<exists>r. ans = Reply r \<and> rs_status r \<in> {401, 403}) \<and> only_logins w w'"
  using serve_no_session [OF assms] by (auto simp: unanswered_def http_error_def)

definition example_rq :: "string \<Rightarrow> string \<Rightarrow> string \<Rightarrow> http_req" where
  "example_rq m path auth = \<lparr>rq_method = m, rq_path = path, rq_remote_addr = ''8.8.8.8:1000'',
     rq_headers = [(''Authorization'', auth)], rq_query = []\<rparr>"

lemma admin_needs_session_witness:
  "\<forall>bo. \<exists>ans w'. serve 1 example_lib example_cfg bo (example_rq ''POST'' ''/api/admin/requests/r1/approve'' ''Bearer x'') 0
     (approved_world ''Box'') = (ans, w') \<and> w_host w' = w_host (approved_world ''Box'') \<and>
     db_requests (w_db w') = db_requests (w_db (approved_world ''Box''))"
proof (intro allI)
  fix bo
  show "\<exists>ans w'. serve 1 example_lib example_cfg bo (example_rq ''POST'' ''/api/admin/requests/r1/approve'' ''Bearer x'') 0
     (approved_world ''Box'') = (ans, w') \<and> w_host w' = w_host (approved_world ''Box'') \<and>
     db_requests (w_db w') = db_requests (w_db (approved_world ''Box''))"
  proof -
  let ?rq = "example_rq ''POST'' ''/api/admin/requests/r1/approve'' ''Bearer x''"
  obtain ans w' where run: "serve 1 example_lib example_cfg bo ?rq 0 (approved_world ''Box'') = (ans, w')" by fastforce
  have b: "bearer ?rq = Some ''x''" by code_simp
  have j: "ParseJWT example_lib (cfg_jwt_secret example_cfg) ''x'' 0 = Inl ''token is malformed''" by code_simp
  have "db_service_tokens (fst (snd example_boot)) = []" by code_simp
  then have t: "db_service_tokens (w_db (approved_world ''Box'')) = []"
    by (simp add: approved_world_def example_world_db)
  have n: "no_session example_lib example_cfg ?rq 0 (approved_world ''Box'')"
    unfolding no_session_def using b j t by (auto simp: authenticateAdminToken_def parseServiceToken_def sql_row_def)
  have e: "route (rq_path ?rq) = Some ERequestAction" "rq_method ?rq \<noteq> ''OPTIONS''" by code_simp+
  have "only_logins (approved_world ''Box'') w'"
    using admin_needs_session [OF run n e(1) _ e(2)] by (simp add: admin_endpoints_def)
  then show ?thesis using run unfolding only_logins_def by force
  qed
qed

text \<open>C12: with a service token, whatever its label, every administrator's endpoint outside the three
  paths of its role refuses the request.\<close>

theorem service_token_confined:
  assumes "serve pool l cfg bo rq now w = (ans, w')" "roles_restricted (w_db w)"
    "bearer rq = Some token" "ParseJWT l (cfg_jwt_secret cfg) token now = Inl err"
    "route (rq_path rq) = Some e" "e \<in> admin_endpoints" "rq_method rq \<noteq> ''OPTIONS''"
    "rq_path rq \<notin> {''/api/admin/ssh-config'', ''/api/admin/events'', ''/api/admin/logout''}"
  shows "(\<exists>r. ans = Reply r \<and> rs_status r \<in> {401, 403}) \<and> only_logins w w'"
proof -
  have "c_role c = ''mac-agent''" if "authenticateAdminToken l cfg token now (w_db w) = (Inr (c, kind), d)" for c kind d
    using that assms(2,4)
    by (auto simp: authenticateAdminToken_def parseServiceToken_def roles_restricted_def split: option.splits dest!: sql_row_Some)
  then have "no_session l cfg rq now w"
    using assms(3,8) by (auto simp: no_session_def adminRoleAllowed_def)
  then show ?thesis using serve_no_session [OF assms(1) _ assms(5-7)] by (auto simp: unanswered_def http_error_def)
qed

definition service_world :: world where
  "service_world = on_db (\<lambda>d. d\<lparr>db_service_tokens := [\<lparr>sv_id = ''s1'', sv_label = ''mac'', sv_token_hash = TokenHash example_lib ''sat'',
     sv_role = ''mac-agent'', sv_created_by = ''root'', sv_created_at = [], sv_last_used_at = None, sv_revoked_at = None\<rparr>]\<rparr>) example_world"

lemma service_token_confined_witness:
  "\<forall>bo. \<exists>ans w'. serve 1 example_lib example_cfg bo (example_rq ''POST'' ''/api/admin/machines/m1/retire'' ''Bearer sat'') 0 service_world
     = (ans, w') \<and> (\<exists>r. ans = Reply r \<and> rs_status r \<in> {401, 403})"
proof (intro allI)
  fix bo
  show "\<exists>ans w'. serve 1 example_lib example_cfg bo (example_rq ''POST'' ''/api/admin/machines/m1/retire'' ''Bearer sat'') 0 service_world
     = (ans, w') \<and> (\<exists>r. ans = Reply r \<and> rs_status r \<in> {401, 403})"
  proof -
  let ?rq = "example_rq ''POST'' ''/api/admin/machines/m1/retire'' ''Bearer sat''"
  obtain ans w' where run: "serve 1 example_lib example_cfg bo ?rq 0 service_world = (ans, w')" by fastforce
  have b: "bearer ?rq = Some ''sat''" by code_simp
  have j: "ParseJWT example_lib (cfg_jwt_secret example_cfg) ''sat'' 0 = Inl ''token is malformed''" by code_simp
  have r: "roles_restricted (w_db service_world)" by (simp add: roles_restricted_def service_world_def)
  have e: "route (rq_path ?rq) = Some EMachineAction" "rq_method ?rq \<noteq> ''OPTIONS''" by code_simp+
  have p: "rq_path ?rq \<notin> {''/api/admin/ssh-config'', ''/api/admin/events'', ''/api/admin/logout''}"
    by (simp add: example_rq_def)
  show ?thesis
    using run service_token_confined [OF run r b j e(1) _ e(2) p] by (auto simp: admin_endpoints_def)
  qed
qed

subsection \<open>Service tokens\<close>

lemma revoke_revokes:
  assumes "\<exists>t \<in> set (db_service_tokens d). sv_token_hash t = TokenHash l token"
  shows "revoked (TokenHash l token) (revokeServiceToken l token now d)"
proof -
  obtain t where t: "t \<in> set (db_service_tokens d)" "sv_token_hash t = TokenHash l token" using assms by blast
  let ?f = "\<lambda>x. x\<lparr>sv_revoked_at := Some (nowUTC now)\<rparr>"
  have "(if live_token (TokenHash l token) t then ?f t else t) \<in> set (db_service_tokens (revokeServiceToken l token now d))"
    using t(1) by (auto simp: revokeServiceToken_def update_service_tokens_def set_sql_update)
  then show ?thesis unfolding revoked_def
    by (rule bexI [rotated]) (use t(2) in \<open>simp add: live_token_def\<close>)
qed

lemma revoked_not_live:
  assumes "revoked h d" "db_wf d" "t \<in> set (db_service_tokens d)"
  shows "\<not> live_token h t"
proof
  assume "live_token h t"
  then have t: "sv_token_hash t = h" "sv_revoked_at t = None" by (simp_all add: live_token_def)
  obtain u where u: "u \<in> set (db_service_tokens d)" "sv_token_hash u = h" "sv_revoked_at u \<noteq> None"
    using assms(1) by (auto simp: revoked_def)
  have "inj_on sv_token_hash (set (db_service_tokens d))"
    using assms(2) by (simp add: db_wf_def tokens_wf_def distinct_map)
  then have "t = u" using inj_onD [of sv_token_hash "set (db_service_tokens d)" t u] t u assms(3) by simp
  then show False using t u by simp
qed

text \<open>C13: logging a service token out is final for the whole hub: in every state it reaches from there,
  by any requests, probes, expiries and stream steps, the token is refused.\<close>

theorem service_logout_final:
  assumes "handleAdminLogout l s rq t0 w = (r, w0)" "rs_status r = 200" "ss_kind s = ''service''" "db_wf (w_db w)"
    "\<exists>t \<in> set (db_service_tokens (w_db w)). sv_token_hash t = TokenHash l (ss_token s)"
    "(hub_step pool l cfg)\<^sup>*\<^sup>* w0 w'" "ParseJWT l (cfg_jwt_secret cfg) (ss_token s) now = Inl err"
  shows "authenticateAdminToken l cfg (ss_token s) now (w_db w') = (Inl ''invalid service token'', w_db w')"
proof -
  let ?h = "TokenHash l (ss_token s)"
  have w0: "w0 = on_db (revokeServiceToken l (ss_token s) t0) w"
    using assms(1-3) by (auto simp: handleAdminLogout_def writeErr_def writeJSON_def split: if_splits)
  have "revoked ?h (w_db w0)" using revoke_revokes [OF assms(5)] by (simp add: w0)
  then have "revoked ?h (w_db w')" using hub_run_evolves [OF assms(6)] by (simp add: evolves_def tokens_keep_def)
  moreover have "db_wf (w_db w')"
  proof -
    have "evolves (w_db w) (w_db w0)" using quiet_Logout [OF assms(1)] by (rule quiet_evolves)
    then show ?thesis using hub_run_evolves [OF assms(6)] assms(4) by (simp add: evolves_def)
  qed
  ultimately have "\<forall>t \<in> set (db_service_tokens (w_db w')). \<not> live_token ?h t"
    using revoked_not_live by blast
  then have "sql_row (live_token ?h) (db_service_tokens (w_db w')) = None" by (simp add: sql_row_None)
  then show ?thesis using assms(7) by (simp add: authenticateAdminToken_def parseServiceToken_def)
qed

lemma service_world_wf: "db_wf (w_db service_world)"
  using example_world_wf by (simp add: service_world_def wf_defs exists_image)

lemma service_logout_final_witness:
  "\<exists>w0 :: world. authenticateAdminToken example_lib example_cfg ''sat'' 9 (w_db (ExpireOnce example_cfg 5 w0)) =
     (Inl ''invalid service token'', w_db (ExpireOnce example_cfg 5 w0))"
proof -
  define s where "s = example_session\<lparr>ss_token := ''sat'', ss_kind := ''service''\<rparr>"
  obtain r w0 where run: "handleAdminLogout example_lib s undefined 0 service_world = (r, w0)" by fastforce
  have ok: "rs_status r = 200" using run by (auto simp: handleAdminLogout_def s_def writeJSON_def)
  have step: "(hub_step 1 example_lib example_cfg)\<^sup>*\<^sup>* w0 (ExpireOnce example_cfg 5 w0)"
    by (rule r_into_rtranclp [of "hub_step 1 example_lib example_cfg", OF hub_step.expire])
  have j: "ParseJWT example_lib (cfg_jwt_secret example_cfg) (ss_token s) 9 = Inl ''token is malformed''"
    unfolding s_def by code_simp
  have "authenticateAdminToken example_lib example_cfg (ss_token s) 9 (w_db (ExpireOnce example_cfg 5 w0)) =
     (Inl ''invalid service token'', w_db (ExpireOnce example_cfg 5 w0))"
    by (rule service_logout_final [OF run ok _ service_world_wf _ step j]) (simp_all add: s_def service_world_def)
  then show ?thesis by (intro exI [of _ w0]) (simp add: s_def)
qed

subsection \<open>Logging in\<close>

text \<open>C14: a login succeeds exactly when the address has attempts left, the user exists, the password
  verifies against its stored hash and a token can be signed; the token then names that user
  and its role and expires after the configured time.\<close>

theorem login_grants:
  assumes "handleAdminLogin l cfg (Some b) rq now w = (r, w')"
  shows "(rs_status r = 200 \<longleftrightarrow> fst (allow_login (clientIP rq) now w) \<and> cfg_jwt_secret cfg \<noteq> [] \<and> cfg_admin_jwt_ttl cfg > 0 \<and>
     (\<exists>u. sql_row (\<lambda>u. u_username u = lb_username b) (db_users (w_db w)) = Some u \<and>
        VerifySecret l (lb_password b) (u_password_hash u))) \<and>
    (\<forall>u. rs_status r = 200 \<longrightarrow> sql_row (\<lambda>u. u_username u = lb_username b) (db_users (w_db w)) = Some u \<longrightarrow>
        resp_field ''token'' r = Some (JStr (l_jwt_sign l (cfg_jwt_secret cfg)
           \<lparr>c_user_id = u_id u, c_username = u_username u, c_role = u_role u,
            c_expires_at = Some (now + cfg_admin_jwt_ttl cfg)\<rparr> now)))"
proof -
  obtain ok w1 where 1: "allow_login (clientIP rq) now w = (ok, w1)" by fastforce
  have u: "db_users (w_db w1) = db_users (w_db w)" using 1 by (auto simp: allow_login_def split: prod.splits)
  show ?thesis
    using assms 1 u
    by (auto simp: handleAdminLogin_def Let_def writeErr_def writeJSON_def SignJWT_def resp_field_def json_get_def obj_get_def
        split: bool.splits option.splits if_splits sum.splits)
qed

lemma login_grants_witness:
  "\<exists>r w'. handleAdminLogin example_lib example_cfg (Some \<lparr>lb_username = ''root'', lb_password = ''hunter2''\<rparr>)
       (example_rq ''POST'' ''/api/admin/login'' []) 0 (on_db (\<lambda>d. d\<lparr>db_users := map (\<lambda>u. u\<lparr>u_password_hash := example_hash\<rparr>) (db_users d)\<rparr>) example_world)
       = (r, w') \<and> rs_status r = 200"
proof -
  let ?w = "on_db (\<lambda>d. d\<lparr>db_users := map (\<lambda>u. u\<lparr>u_password_hash := example_hash\<rparr>) (db_users d)\<rparr>) example_world"
  let ?b = "\<lparr>lb_username = ''root'', lb_password = ''hunter2''\<rparr>"
  let ?rq = "example_rq ''POST'' ''/api/admin/login'' []"
  obtain r w' where run: "handleAdminLogin example_lib example_cfg (Some ?b) ?rq 0 ?w = (r, w')" by fastforce
  have "map u_username (db_users (fst (snd example_boot))) = [''root'']" "db_rate_limits (fst (snd example_boot)) = []" by code_simp+
  then obtain u where u: "db_users (w_db ?w) = [u\<lparr>u_password_hash := example_hash\<rparr>]" "u_username u = ''root''"
    and t: "db_rate_limits (w_db ?w) = []" by (auto simp: example_world_db map_eq_Cons_conv)
  have "fst (allow_login (clientIP ?rq) 0 ?w)"
    using t by (simp add: allow_login_def allowPersistent_def rate_cleanup_def sql_delete_def sql_row_def split: prod.split)
  moreover have "cfg_jwt_secret example_cfg \<noteq> []" "cfg_admin_jwt_ttl example_cfg > 0" by code_simp+
  moreover have "\<exists>v. sql_row (\<lambda>u. u_username u = lb_username ?b) (db_users (w_db ?w)) = Some v \<and>
      VerifySecret example_lib (lb_password ?b) (u_password_hash v)"
    unfolding u(1) by (simp add: sql_row_def u(2))
  ultimately have "rs_status r = 200" using login_grants [OF run] by blast
  then show ?thesis using run by blast
qed



end
