(* ===== verification/MachineProps.thy ===== *)
theory MachineProps
  imports Examples
begin

text \<open>
  The properties of the machines' life: ports, creation, the desired state, retirement, and what the
  hub does on its own host for them.
\<close>

subsection \<open>Ports\<close>

text \<open>A port that a new tunnel of the hub may take.\<close>

definition free_port :: "(int \<Rightarrow> bool) \<Rightarrow> Hub \<Rightarrow> Tunnel list \<Rightarrow> int \<Rightarrow> bool" where
  "free_port portListening h ts p \<longleftrightarrow>
     p \<in> {h_port_start h .. h_port_end h} \<and> p \<notin> {9163 .. 9171} \<and> p \<notin> {9300, 9401, 9443} \<and> \<not> portListening p \<and>
     (\<forall>t \<in> set ts. t_hub_id t = h_id h \<longrightarrow> t_status t = ''retired'' \<or> t_remote_port t \<noteq> p)"

lemma find_upto:
  "List.find P [i..j] = Some p \<longleftrightarrow> i \<le> p \<and> p \<le> j \<and> P p \<and> (\<forall>q. i \<le> q \<and> q < p \<longrightarrow> \<not> P q)"
proof (induction i j rule: upto.induct)
  case (1 i j)
  show ?case
  proof (cases "i \<le> j")
    case True
    then have f: "List.find P [i..j] = (if P i then Some i else List.find P [i + 1..j])" by (simp add: upto_rec1)
    show ?thesis
    proof (cases "P i")
      case yes: True
      have "p = i" if "i \<le> p" "\<forall>q. i \<le> q \<and> q < p \<longrightarrow> \<not> P q" using that yes by (metis order_refl not_less order_antisym)
      then show ?thesis using f yes True by auto
    next
      case no: False
      have "(i + 1 \<le> p \<and> P p) = (i \<le> p \<and> P p)" using no by (auto simp: add1_zle_eq order_le_less)
      moreover have "(i + 1 \<le> q \<and> q < p \<longrightarrow> \<not> P q) = (i \<le> q \<and> q < p \<longrightarrow> \<not> P q)" for q
        using no by (auto simp: add1_zle_eq order_le_less)
      ultimately show ?thesis using 1 [OF True] f no by auto
    qed
  qed simp
qed

lemma allocation_test:
  "(h_port_start h \<le> p \<and> p \<le> h_port_end h \<and> \<not> (p \<in> set (used_ports h ts) \<or> reservedTunnelPort p \<or> pl p)) = free_port pl h ts p"
  by (auto simp: free_port_def used_ports_def reservedTunnelPort_def)

lemma least_port:
  "allocatePortTx pl h ts = Inr p \<longleftrightarrow> free_port pl h ts p \<and> (\<forall>q < p. \<not> free_port pl h ts q)"
  "(\<exists>e. allocatePortTx pl h ts = Inl e) \<longleftrightarrow> (\<forall>q. \<not> free_port pl h ts q)"
proof -
  let ?P = "\<lambda>p. \<not> (p \<in> set (used_ports h ts) \<or> reservedTunnelPort p \<or> pl p)"
  have f: "List.find ?P [h_port_start h..h_port_end h] = Some p \<longleftrightarrow> free_port pl h ts p \<and> (\<forall>q < p. \<not> free_port pl h ts q)" for p
    unfolding find_upto allocation_test [symmetric] by auto
  have n: "List.find ?P [h_port_start h..h_port_end h] = None \<longleftrightarrow> (\<forall>q. \<not> free_port pl h ts q)"
    unfolding find_None_all allocation_test [symmetric] by auto
  show "allocatePortTx pl h ts = Inr p \<longleftrightarrow> free_port pl h ts p \<and> (\<forall>q < p. \<not> free_port pl h ts q)"
    "(\<exists>e. allocatePortTx pl h ts = Inl e) \<longleftrightarrow> (\<forall>q. \<not> free_port pl h ts q)"
    using f [of p] n unfolding allocatePortTx_def by (auto split: option.split)
qed

text \<open>C10: a port is allocated exactly if it is the least one of the hub's range that is not reserved, not
  listening on the host, and not the port of a tunnel of the hub that is not retired; allocation
  fails exactly if there is none.\<close>

theorem allocatePort_least:
  "(allocatePortTx pl h ts = Inr p \<longleftrightarrow> free_port pl h ts p \<and> (\<forall>q < p. \<not> free_port pl h ts q)) \<and>
   ((\<exists>e. allocatePortTx pl h ts = Inl e) \<longleftrightarrow> (\<forall>q. \<not> free_port pl h ts q))"
  using least_port by simp

lemma allocatePort_least_witness:
  "allocatePortTx (\<lambda>p. p = 9300) \<lparr>h_id = ''h'', h_name = [], h_public_host = [], h_ssh_port = 22, h_proxyjump_alias = [],
     h_api_url = [], h_port_start = 9300, h_port_end = 9310, h_status = [], h_created_at = []\<rparr> [] = Inr 9301"
proof -
  let ?h = "\<lparr>h_id = ''h'', h_name = [], h_public_host = [], h_ssh_port = 22, h_proxyjump_alias = [],
     h_api_url = [], h_port_start = 9300, h_port_end = 9310, h_status = [], h_created_at = []\<rparr>"
  have "free_port (\<lambda>p. p = 9300) ?h [] 9301 \<and> (\<forall>q < 9301. \<not> free_port (\<lambda>p. p = 9300) ?h [] q)"
    by (auto simp: free_port_def)
  then show ?thesis using allocatePort_least [of "\<lambda>p. p = 9300" ?h "[]" 9301] by blast
qed

subsection \<open>Creation\<close>

lemma create_tx_rows:
  assumes "create_tx pl m t u h now i d = Inr (hub, port, d')"
  shows "db_machines d' = db_machines d @ [new_machine_row m h now i]"
    "db_tunnels d' = db_tunnels d @ [new_tunnel_row t m (h_id hub) u port now i]"
    "\<forall>x \<in> set (db_machines d). mr_id x \<noteq> m" "\<forall>x \<in> set (db_tunnels d). t_id x \<noteq> t" "hub \<in> set (db_hubs d)"
    "allocatePortTx pl hub (db_tunnels d) = Inr port"
  by (rule create_tx_Inr [OF assms],
      auto simp: insert_machine_Some insert_tunnel_Some insert_grant_def new_machine_row_def new_tunnel_row_def
        tunnel_clash_def getHubTx_def split: option.splits dest!: sql_row_Some)+

text \<open>C8: a failed creation leaves the database as it was, or, when the account on the host could not be
  made, with the rows of the new machine marked as failed; they keep the slug.\<close>

theorem create_failure:
  assumes "CreateMachine l cfg input now w = (Inl e, w')"
  shows "w_db w' = w_db w \<or>
     cfg_provisioning_enabled cfg \<and>
     (\<exists>m t. db_machines (w_db w') = db_machines (w_db w) @ [m] \<and> db_tunnels (w_db w') = db_tunnels (w_db w) @ [t] \<and>
        mr_slug m = in_slug input \<and> mr_status m = ''failed'' \<and> mr_provision_error m = Some e \<and>
        t_machine_id t = mr_id m \<and> t_status t = ''failed'')"
  using assms
proof (cases rule: CreateMachine_cases)
  case (created machineID tunnelID short tok h r r1 r2 r4)
  let ?i = "normalize_input cfg now input"
  let ?w = "w\<lparr>w_rand := r\<rparr>"
  show ?thesis
  proof (cases "create_tx (ho_listening (w_host ?w)) machineID tunnelID (''rt-'' @ short) h (nowUTC now) ?i (w_db ?w)")
    case (Inr p)
    obtain hub port d where p: "p = (hub, port, d)" by (metis prod_cases3)
    obtain x w2 where x: "provision_account cfg machineID tunnelID (''rt-'' @ short) port ?i now (?w\<lparr>w_db := d\<rparr>) = (x, w2)" by fastforce
    then obtain e' where e: "x = Some e'" "e' = e" "w' = w2" using created(3) Inr p
      by (cases x) (auto simp: create_with_def)
    note rows = create_tx_rows [OF Inr [unfolded p], simplified]
    have on: "cfg_provisioning_enabled cfg" using x e by (auto simp: provision_account_def split: if_splits)
    obtain y hh where y: "createSystemAccount cfg (''rt-'' @ short) port (in_pubkey ?i) (in_expires_at ?i) (w_host w) = (y, hh)"
      by fastforce
    have w: "w_db w' = markProvisionFailed machineID tunnelID e now d"
      using x e on y by (cases y) (auto simp: provision_account_def)
    have "db_machines (w_db w') = db_machines (w_db w) @ [(new_machine_row machineID h (nowUTC now) ?i)
             \<lparr>mr_status := ''failed'', mr_provision_error := Some e, mr_updated_at := Some (nowUTC now)\<rparr>]"
      "db_tunnels (w_db w') = db_tunnels (w_db w) @ [(new_tunnel_row tunnelID machineID (h_id hub) (''rt-'' @ short) port (nowUTC now) ?i)
             \<lparr>t_status := ''failed''\<rparr>]"
      using rows(3,4) by (simp_all add: w Audit_def markProvisionFailed_def update_machines_def update_tunnels_def rows(1,2) sql_update_none
          new_machine_row_def new_tunnel_row_def)
    then show ?thesis using on by (simp add: new_machine_row_def new_tunnel_row_def normalize_input_def)
  qed (use created(3) in \<open>auto simp: create_with_def\<close>)
qed simp_all

lemma create_failure_witness:
  "\<forall>owner. \<exists>e w'. CreateMachine example_lib example_cfg (provision_input example_provision ''no slug'' ''Box'' owner) 0 example_world = (Inl e, w') \<and>
     w_db w' = w_db example_world"
proof (intro allI)
  fix owner
  show "\<exists>e w'. CreateMachine example_lib example_cfg (provision_input example_provision ''no slug'' ''Box'' owner) 0 example_world = (Inl e, w') \<and>
     w_db w' = w_db example_world"
  proof -
  have "ValidateSlug ''no slug'' \<noteq> None" by code_simp
  then obtain e where e: "CreateMachine example_lib example_cfg (provision_input example_provision ''no slug'' ''Box'' owner) 0 example_world
      = (Inl e, example_world)"
    by (auto simp: CreateMachine_def create_checks_def provision_input_def)
  moreover have "\<not> cfg_provisioning_enabled example_cfg" by (simp add: example_cfg_def)
  ultimately show ?thesis using create_failure [OF e] by blast
  qed
qed




end
