(* ===== verification/DesiredState.thy ===== *)
theory DesiredState
  imports Examples
begin

text \<open>
  The desired state of machines: what each transition writes, that none of the first three is ever
  refused, and what a retirement gives back: the machine's slug, its ports and its accounts.
\<close>

subsection \<open>What the transitions write\<close>

lemma queueCmd_tables [simp]:
  "db_machines (w_db (queueCmd m g t p ttl now w)) = db_machines (w_db w)"
  "db_tunnels (w_db (queueCmd m g t p ttl now w)) = db_tunnels (w_db w)"
proof -
  obtain res w' where q: "QueueCommand m g t p ttl now w = (res, w')" by fastforce
  have "db_machines (w_db w') = db_machines (w_db w) \<and> db_tunnels (w_db w') = db_tunnels (w_db w)"
    by (rule QueueCommand_cases [OF q]) (auto simp: insert_command_Some)
  then show "db_machines (w_db (queueCmd m g t p ttl now w)) = db_machines (w_db w)"
    "db_tunnels (w_db (queueCmd m g t p ttl now w)) = db_tunnels (w_db w)"
    by (simp_all add: queueCmd_def q)
qed

lemma update_tables [simp]:
  "db_machines (update_machines p f d) = sql_update p f (db_machines d)" "db_tunnels (update_machines p f d) = db_tunnels d"
  "db_machines (update_tunnels q g d) = db_machines d" "db_tunnels (update_tunnels q g d) = sql_update q g (db_tunnels d)"
  "db_machines (Audit a b c e now d) = db_machines d" "db_tunnels (Audit a b c e now d) = db_tunnels d"
  by (simp_all add: update_machines_def update_tunnels_def Audit_def)

text \<open>The row of a machine and the rows of its tunnels after a transition other than to retired.\<close>

definition transition_row :: "string \<Rightarrow> int \<Rightarrow> instant \<Rightarrow> string \<Rightarrow> machine_row \<Rightarrow> machine_row" where
  "transition_row desired gen now actor r =
     (let s = set_desired desired gen (nowUTC now) actor r
      in if desired = DesiredActive
         then s\<lparr>mr_status := (if mr_observed_state r = Some ''online'' then ''online'' else ''offline''),
                mr_disabled_at := None, mr_cleanup_state := None\<rparr>
         else if desired = DesiredDisabled
         then s\<lparr>mr_status := ''disabled'', mr_disabled_at := Some (nowUTC now), mr_cleanup_state := None\<rparr>
         else s\<lparr>mr_status := ''retiring'', mr_cleanup_state := Some ''pending''\<rparr>)"

definition transition_tunnel :: "string \<Rightarrow> Tunnel \<Rightarrow> Tunnel" where
  "transition_tunnel desired t =
     (if desired = DesiredActive then (if t_status t = ''disabled'' then t\<lparr>t_status := ''offline''\<rparr> else t)
      else t\<lparr>t_status := ''disabled''\<rparr>)"

definition simple_states :: "string set" where
  "simple_states = {DesiredActive, DesiredDisabled, DesiredRetiring}"

lemma sql_update_conj: "sql_update (\<lambda>x. p x \<and> q x) f t = sql_update p (\<lambda>x. if q x then f x else x) t"
  by (auto simp: sql_update_def)

lemma desired_step_simple:
  assumes "desired \<in> simple_states"
  shows "\<exists>w'. desired_step cfg m ts desired actor now w = (Inr (), w') \<and>
     db_machines (w_db w') = sql_update (\<lambda>r. mr_id r = m_id m)
        (transition_row desired (m_desired_generation m + 1) now actor) (db_machines (w_db w)) \<and>
     db_tunnels (w_db w') = sql_update (\<lambda>t. t_machine_id t = m_id m) (transition_tunnel desired) (db_tunnels (w_db w))"
  using assms unfolding simple_states_def
  by (auto simp: desired_step_def desired_active_def desired_disabled_def desired_retiring_def Let_def desired_defs
      transition_row_def [abs_def] transition_tunnel_def [abs_def] sql_update_conj)

subsection \<open>Retirement\<close>

text \<open>Accounts keep their name until the tunnel is retired and carry the tunnel's identifier then.\<close>

definition accounts_ok :: "Tunnel list \<Rightarrow> bool" where
  "accounts_ok ts \<longleftrightarrow> (\<forall>t \<in> set ts. has_prefix (t_unix_user t) ''retired-'' \<longrightarrow> t_unix_user t = ''retired-'' @ t_id t)"

lemma split_row:
  assumes "distinct (map k ts)" "t \<in> set ts"
  obtains as bs where "ts = as @ t # bs" "\<forall>x \<in> set as \<union> set bs. k x \<noteq> k t"
proof -
  obtain as bs where s: "ts = as @ t # bs" using assms(2) by (auto simp: in_set_conv_decomp)
  show thesis by (rule that [OF s]) (use assms(1) s in \<open>auto simp: image_iff\<close>)
qed

lemma distinct_update1:
  assumes "distinct (map k ts)" "t \<in> set ts" "distinct (map g ts)" "\<forall>x \<in> set ts. k x \<noteq> k t \<longrightarrow> g x \<noteq> g (f t)"
  shows "distinct (map g (sql_update (\<lambda>x. k x = k t) f ts))"
proof -
  obtain as bs where s: "ts = as @ t # bs" "\<forall>x \<in> set as \<union> set bs. k x \<noteq> k t" using split_row [OF assms(1,2)] .
  then have "sql_update (\<lambda>x. k x = k t) f ts = as @ f t # bs" by (simp add: sql_update_none)
  then show ?thesis using assms(3,4) s by auto
qed

definition retired_tunnel :: "Tunnel \<Rightarrow> Tunnel list \<Rightarrow> Tunnel \<Rightarrow> Tunnel" where
  "retired_tunnel t ts x = x\<lparr>t_status := ''retired'',
     t_original_unix_user := coalesce (nullif_empty (t_original_unix_user x))
       (Some (null_string (coalesce (nullif_empty (t_original_unix_user t)) (Some (t_unix_user t))))),
     t_original_remote_port := coalesce (nullif_zero (t_original_remote_port x))
       (Some (the (coalesce (nullif_zero (t_original_remote_port t)) (Some (t_remote_port t))))),
     t_unix_user := retired_user (t_unix_user t) (t_id t),
     t_remote_port := retired_port (t_hub_id t) (t_remote_port t) ts\<rparr>"

lemma retired_tunnel_keys [simp]:
  "t_id (retired_tunnel t ts x) = t_id x" "t_hub_id (retired_tunnel t ts x) = t_hub_id x"
  "t_machine_id (retired_tunnel t ts x) = t_machine_id x" "t_status (retired_tunnel t ts x) = ''retired''"
  "t_unix_user (retired_tunnel t ts x) = retired_user (t_unix_user t) (t_id t)"
  "t_remote_port (retired_tunnel t ts x) = retired_port (t_hub_id t) (t_remote_port t) ts"
  by (simp_all add: retired_tunnel_def)

lemma retired_user_cases: "retired_user u i = ''retired-'' @ i \<or> retired_user u i = u"
  by (simp add: retired_user_def)

lemma retireTunnelRow_ok:
  assumes "tunnel_keys_distinct (db_tunnels d)" "distinct (map t_id (db_tunnels d))" "t \<in> set (db_tunnels d)"
    "accounts_ok (db_tunnels d)"
  shows "retireTunnelRow t d = (None, update_tunnels (\<lambda>x. t_id x = t_id t) (retired_tunnel t (db_tunnels d)) d)"
    "accounts_ok (sql_update (\<lambda>x. t_id x = t_id t) (retired_tunnel t (db_tunnels d)) (db_tunnels d))"
    "tunnel_keys_distinct (sql_update (\<lambda>x. t_id x = t_id t) (retired_tunnel t (db_tunnels d)) (db_tunnels d))"
proof -
  let ?ts = "db_tunnels d" and ?f = "retired_tunnel t (db_tunnels d)"
  have port: "t_remote_port x \<noteq> retired_port (t_hub_id t) (t_remote_port t) ?ts"
    if "x \<in> set ?ts" "t_id x \<noteq> t_id t" "t_hub_id x = t_hub_id t" for x
  proof (cases "t_remote_port t > 0")
    case True
    then show ?thesis using retired_port_fresh that by blast
  next
    case False
    have "(t_hub_id x, t_remote_port x) \<noteq> (t_hub_id t, t_remote_port t)"
      using assms(1,3) that by (auto simp: tunnel_keys_distinct_def distinct_map dest: inj_onD)
    then show ?thesis using False that(3) by (simp add: retired_port_def)
  qed
  have user: "t_unix_user x \<noteq> retired_user (t_unix_user t) (t_id t)"
    if "x \<in> set ?ts" "t_id x \<noteq> t_id t" "t_hub_id x = t_hub_id t" for x
  proof (cases "has_prefix (t_unix_user t) ''retired-''")
    case True
    have "(t_hub_id x, t_unix_user x) \<noteq> (t_hub_id t, t_unix_user t)"
      using assms(1,3) that by (auto simp: tunnel_keys_distinct_def distinct_map dest: inj_onD)
    then show ?thesis using True that(3) by (simp add: retired_user_def)
  next
    case False
    have "has_prefix (''retired-'' @ y) ''retired-''" for y by (simp add: has_prefix_def)
    then show ?thesis using False assms(4) that(1,2) by (auto simp: retired_user_def accounts_ok_def)
  qed
  show k: "tunnel_keys_distinct (sql_update (\<lambda>x. t_id x = t_id t) ?f ?ts)"
    unfolding tunnel_keys_distinct_def
    using distinct_update1 [OF assms(2,3), of "\<lambda>t. (t_hub_id t, t_remote_port t)" ?f]
      distinct_update1 [OF assms(2,3), of "\<lambda>t. (t_hub_id t, t_unix_user t)" ?f] assms(1) port user
    by (auto simp: tunnel_keys_distinct_def)
  show "retireTunnelRow t d = (None, update_tunnels (\<lambda>x. t_id x = t_id t) ?f d)"
    using k by (simp add: retireTunnelRow_def Let_def update_tunnel_keys_def update_tunnels_def retired_tunnel_def [abs_def])
  show "accounts_ok (sql_update (\<lambda>x. t_id x = t_id t) ?f ?ts)"
    using assms(3,4) by (auto simp: accounts_ok_def set_sql_update retired_user_def)
qed

text \<open>A tunnel that gave its port and its account back.\<close>

definition released :: "Tunnel \<Rightarrow> bool" where
  "released t \<longleftrightarrow> t_status t = ''retired'' \<and> t_remote_port t \<le> 0 \<and> has_prefix (t_unix_user t) ''retired-''"

lemma released_retired: "released (retired_tunnel t ts x)"
  using retired_port_fresh [of "t_remote_port t" "t_hub_id t" ts]
  by (cases "t_remote_port t > 0")
    (auto simp: released_def retired_user_def has_prefix_def retired_port_def split: option.splits)

lemma retire_tunnels_rows:
  assumes "distinct (map t_id ts)" "set ts \<subseteq> set (db_tunnels (w_db w))" "tunnel_keys_distinct (db_tunnels (w_db w))"
    "distinct (map t_id (db_tunnels (w_db w)))" "accounts_ok (db_tunnels (w_db w))"
  shows "db_machines (w_db (retire_tunnels cfg ts w)) = db_machines (w_db w) \<and>
    (\<forall>x \<in> set (db_tunnels (w_db (retire_tunnels cfg ts w))).
       if t_id x \<in> t_id ` set ts then released x else x \<in> set (db_tunnels (w_db w)))"
  using assms
proof (induction ts arbitrary: w)
  case (Cons t ts)
  let ?ts = "db_tunnels (w_db w)"
  let ?f = "retired_tunnel t ?ts"
  let ?p = "\<lambda>x. t_id x = t_id t"
  define w2 where "w2 = on_db (\<lambda>d. snd (retireTunnelRow t d))
     (if t_status t \<noteq> ''retired'' then snd (on_host (removeTunnelSystem cfg
        (null_string (coalesce (nullif_empty (t_original_unix_user t)) (Some (t_unix_user t))))) w) else w)"
  have r: "retire_tunnels cfg (t # ts) w = retire_tunnels cfg ts w2" by (simp add: w2_def Let_def)
  have t: "t \<in> set ?ts" using Cons.prems(2) by simp
  note row = retireTunnelRow_ok [OF Cons.prems(3,4) t Cons.prems(5)]
  have d2: "w_db w2 = update_tunnels ?p ?f (w_db w)" using row(1) by (simp add: w2_def)
  have ts2: "db_tunnels (w_db w2) = sql_update ?p ?f ?ts" by (simp add: d2)
  have new: "x \<in> set (db_tunnels (w_db w2)) \<Longrightarrow> if t_id x = t_id t then released x else x \<in> set ?ts" for x
    unfolding ts2 set_sql_update using released_retired [of t ?ts] by auto
  have sub: "set ts \<subseteq> set (db_tunnels (w_db w2))"
  proof
    fix x assume x: "x \<in> set ts"
    then have "t_id x \<noteq> t_id t" using Cons.prems(1) by (auto simp: image_iff)
    then show "x \<in> set (db_tunnels (w_db w2))" using Cons.prems(2) x by (auto simp: ts2 set_sql_update)
  qed
  have ids: "map t_id (db_tunnels (w_db w2)) = map t_id ?ts" by (simp add: ts2 sql_update_key)
  have IH: "db_machines (w_db (retire_tunnels cfg ts w2)) = db_machines (w_db w2) \<and>
    (\<forall>x \<in> set (db_tunnels (w_db (retire_tunnels cfg ts w2))).
       if t_id x \<in> t_id ` set ts then released x else x \<in> set (db_tunnels (w_db w2)))"
    by (rule Cons.IH) (use Cons.prems(1,4) row(2,3) sub ids ts2 in \<open>simp_all\<close>)
  have "if t_id x \<in> t_id ` set (t # ts) then released x else x \<in> set ?ts"
    if x: "x \<in> set (db_tunnels (w_db (retire_tunnels cfg ts w2)))" for x
    using IH x new [of x] by (cases "t_id x \<in> t_id ` set ts") auto
  then have "\<forall>x \<in> set (db_tunnels (w_db (retire_tunnels cfg ts w2))).
      if t_id x \<in> t_id ` set (t # ts) then released x else x \<in> set ?ts" by blast
  moreover have "db_machines (w_db (retire_tunnels cfg ts w2)) = db_machines (w_db w)" using IH by (simp add: d2)
  ultimately show ?case unfolding r by (rule conjI [rotated])
qed simp

text \<open>A machine's own rows.\<close>

lemma GetMachine_row: "GetMachine i d = Inr m \<Longrightarrow> \<exists>r \<in> set (db_machines d). m = scanMachine r"
  by (auto simp: GetMachine_def split: option.splits dest!: sql_row_Some)

lemma desired_retired_Inr:
  assumes "desired_retired cfg m ts actor now w = (Inr u, w')"
  obtains slug f where "db_machines (w_db w') = sql_update (\<lambda>r. mr_id r = m_id m) f (db_machines (w_db (retire_tunnels cfg ts w)))"
    "db_tunnels (w_db w') = db_tunnels (w_db (retire_tunnels cfg ts w))" "contains slug ''--retired-''"
    "\<And>r. mr_slug (f r) = slug" "\<And>r. mr_id (f r) = mr_id r" "\<And>r. mr_status (f r) = ''retired''"
    "\<And>r. mr_desired_state (f r) = Some DesiredRetired" "\<And>r. mr_desired_generation (f r) = Some (m_desired_generation m + 1)"
proof -
  define w1 where "w1 = retire_tunnels cfg ts w"
  obtain x r where x: "prov_retiredSlug (null_string (coalesce (nullif_empty (m_original_slug m)) (Some (m_slug m)))) (m_id m) (w_db w1) (w_rand w1)
      = (x, r)" by fastforce
  obtain slug where s: "x = Inr slug"
    using assms x unfolding desired_retired_def Let_def w1_def [symmetric] bindE_def with_rand_def by (cases x) auto
  have c: "contains slug ''--retired-''"
    using retired_slug_loop_ok x [unfolded s prov_retiredSlug_def] by blast
  let ?f = "\<lambda>r. (set_desired DesiredRetired (m_desired_generation m + 1) (nowUTC now) actor r)
      \<lparr>mr_slug := slug, mr_original_slug := coalesce (nullif_empty (mr_original_slug r))
         (Some (null_string (coalesce (nullif_empty (m_original_slug m)) (Some (m_slug m))))),
       mr_status := ''retired'', mr_cleanup_state := coalesce (mr_cleanup_state r) (Some ''server-only''),
       mr_retired_at := coalesce (mr_retired_at r) (Some (nowUTC now))\<rparr>"
  obtain d where d: "update_machine_keys (\<lambda>r. mr_id r = m_id m) ?f (w_db w1) = Some d" "w_db w' = d"
    using assms x s unfolding desired_retired_def Let_def w1_def [symmetric] bindE_def with_rand_def
    by (auto split: option.splits)
  have "db_machines d = sql_update (\<lambda>r. mr_id r = m_id m) ?f (db_machines (w_db w1)) \<and> db_tunnels d = db_tunnels (w_db w1)"
    using d(1) by (simp only: update_machine_keys_Some update_tables)
  then show thesis
    by (intro that [of ?f slug]) (use d(2) c in \<open>simp_all add: w1_def set_desired_def\<close>)
qed

text \<open>C9: when a machine retires, the database gives back what it held: no machine has its slug, and
  each of its tunnels is retired, without a usable port, and under an account name that no new
  tunnel gets.\<close>

theorem retirement_releases:
  assumes "RetireMachineNow cfg i actor now w = (Inr m', w')" "GetMachine i (w_db w) = Inr m" "db_wf (w_db w)"
    "accounts_ok (db_tunnels (w_db w))" "\<not> contains (m_slug m) ''--retired-''"
  shows "m_slug m \<notin> mr_slug ` set (db_machines (w_db w')) \<and>
     (\<forall>t \<in> set (db_tunnels (w_db w')). t_machine_id t = m_id m \<longrightarrow>
        t_status t = ''retired'' \<and> t_remote_port t \<le> 0 \<and> has_prefix (t_unix_user t) ''retired-'')"
proof -
  let ?ts = "filter (\<lambda>t. t_machine_id t = m_id m) (db_tunnels (w_db w))"
  have g: "getMachineAndTunnels i (w_db w) = Inr (m, ?ts)" using assms(2) by (simp add: getMachineAndTunnels_def)
  have nd: "DesiredRetired \<noteq> DesiredActive" "DesiredRetired \<noteq> DesiredDisabled" "DesiredRetired \<noteq> DesiredRetiring"
    by (simp_all add: desired_defs)
  obtain x w1 where x: "desired_retired cfg m ?ts actor now w = (x, w1)" by fastforce
  have step: "desired_step cfg m ?ts DesiredRetired actor now w = (x, w1)" using x nd by (simp add: desired_step_def)
  note run = assms(1) [unfolded RetireMachineNow_def SetDesiredState_def g sum.case prod.case step]
  have x': "x = Inr ()" using run by (cases x) auto
  have "w' = on_db (Audit (''machine.desired.'' @ DesiredRetired) actor (m_id m) [] now) w1"
    using run by (simp add: x' Let_def)
  then have w1: "db_machines (w_db w') = db_machines (w_db w1)" "db_tunnels (w_db w') = db_tunnels (w_db w1)"
    by simp_all
  obtain slug f where f: "db_machines (w_db w1) = sql_update (\<lambda>r. mr_id r = m_id m) f (db_machines (w_db (retire_tunnels cfg ?ts w)))"
    "db_tunnels (w_db w1) = db_tunnels (w_db (retire_tunnels cfg ?ts w))" "contains slug ''--retired-''"
    "\<And>r. mr_slug (f r) = slug"
    by (rule desired_retired_Inr [OF x [unfolded x']]) (rule that)
  have wf: "tunnel_keys_distinct (db_tunnels (w_db w))" "distinct (map t_id (db_tunnels (w_db w)))"
    "distinct (map mr_slug (db_machines (w_db w)))" "distinct (map mr_id (db_machines (w_db w)))"
    using assms(3) by (simp_all add: wf_defs)
  have dt: "distinct (map t_id ?ts)" using wf(2) by (rule distinct_map_filter)
  have sub: "set ?ts \<subseteq> set (db_tunnels (w_db w))" by auto
  note rows = retire_tunnels_rows [OF dt sub wf(1,2) assms(4), THEN conjunct1, of cfg]
    retire_tunnels_rows [OF dt sub wf(1,2) assms(4), THEN conjunct2, of cfg]
  obtain r0 where r0: "r0 \<in> set (db_machines (w_db w))" "m = scanMachine r0" using GetMachine_row [OF assms(2)] by blast
  have id0: "m_slug m = mr_slug r0" "m_id m = mr_id r0" by (simp_all add: r0 scanMachine_def)
  have "mr_slug r \<noteq> m_slug m" if r: "r \<in> set (db_machines (w_db w1))" for r
  proof -
    consider a where "r = f a" | "r \<in> set (db_machines (w_db w))" "mr_id r \<noteq> m_id m"
      using r unfolding f(1) rows(1) set_sql_update by auto
    then show ?thesis
    proof cases
      case 1
      then show ?thesis using f(3,4) assms(5) by auto
    next
      case 2
      then show ?thesis using wf(3) r0(1) id0 by (auto simp: distinct_map dest: inj_onD)
    qed
  qed
  then have slugs: "m_slug m \<notin> mr_slug ` set (db_machines (w_db w'))" unfolding w1(1) image_iff by metis
  have "released t" if t: "t \<in> set (db_tunnels (w_db w'))" "t_machine_id t = m_id m" for t
  proof (cases "t_id t \<in> t_id ` set ?ts")
    case True
    have "if t_id t \<in> t_id ` set ?ts then released t else t \<in> set (db_tunnels (w_db w))"
      using rows(2) t(1) [unfolded w1(2) f(2)] by (rule bspec)
    then show ?thesis by (rule iffD1 [OF if_P [OF True]])
  next
    case False
    have "if t_id t \<in> t_id ` set ?ts then released t else t \<in> set (db_tunnels (w_db w))"
      using rows(2) t(1) [unfolded w1(2) f(2)] by (rule bspec)
    then have "t \<in> set (db_tunnels (w_db w))" by (rule iffD1 [OF if_not_P [OF False]])
    then have "t \<in> set ?ts" using t(2) by simp
    then show ?thesis using False by blast
  qed
  then show ?thesis using slugs by (auto simp: released_def)
qed

text \<open>A machine that holds port 9200 under account \<open>rt-a\<close>.\<close>

definition one_row :: machine_row where
  "one_row = (new_machine_row ''m_1'' ''h'' [] (provision_input example_provision ''box'' ''Box'' []))
     \<lparr>mr_status := ''online'', mr_observed_state := Some ''online''\<rparr>"

definition one_tunnel :: Tunnel where
  "one_tunnel = new_tunnel_row ''t_1'' ''m_1'' ''primary'' ''rt-a'' 9200 [] (provision_input example_provision ''box'' ''Box'' [])"

definition one_machine :: world where
  "one_machine = on_db (\<lambda>d. d\<lparr>db_machines := [one_row], db_tunnels := [one_tunnel]\<rparr>) example_world"

lemma one_machine_tables [simp]:
  "db_machines (w_db one_machine) = [one_row]" "db_tunnels (w_db one_machine) = [one_tunnel]"
  "mr_id one_row = ''m_1''" "mr_slug one_row = ''box''" "mr_desired_state one_row = Some DesiredActive"
  "mr_desired_generation one_row = Some 1" "mr_observed_state one_row = Some ''online''" "mr_original_slug one_row = Some ''box''"
  "t_machine_id one_tunnel = ''m_1''" "t_id one_tunnel = ''t_1''" "t_unix_user one_tunnel = ''rt-a''"
  "t_remote_port one_tunnel = 9200" "t_hub_id one_tunnel = ''primary''"
  by (simp_all add: one_machine_def one_row_def one_tunnel_def new_machine_row_def new_tunnel_row_def provision_input_def)

lemma one_machine_wf: "db_wf (w_db one_machine)"
proof -
  have "map h_id (db_hubs (fst (snd example_boot))) = [''primary'']" by code_simp
  then have h: "''primary'' \<in> h_id ` set (db_hubs (fst (snd example_boot)))" by (metis list.set_intros(1) list.set_map)
  have e: "db_grants (fst (snd example_boot)) = []" "db_agent_commands (fst (snd example_boot)) = []"
    "db_agent_observations (fst (snd example_boot)) = []" "db_hub_observations (fst (snd example_boot)) = []"
    "db_agent_status (fst (snd example_boot)) = []" by code_simp+
  show ?thesis
    using example_world_wf h e
    by (simp add: one_machine_def example_world_db wf_defs exists_image)
qed

lemma retirement_releases_witness:
  "\<exists>m' w'. RetireMachineNow example_cfg ''box'' ''root'' 0 one_machine = (Inr m', w') \<and>
     ''box'' \<notin> mr_slug ` set (db_machines (w_db w'))"
proof -
  have "case fst (RetireMachineNow example_cfg ''box'' ''root'' 0 one_machine) of Inr _ \<Rightarrow> True | Inl _ \<Rightarrow> False" by code_simp
  then obtain m' w' where r: "RetireMachineNow example_cfg ''box'' ''root'' 0 one_machine = (Inr m', w')"
    by (cases "RetireMachineNow example_cfg ''box'' ''root'' 0 one_machine") (auto split: sum.splits)
  have g: "GetMachine ''box'' (w_db one_machine) = Inr (scanMachine one_row)"
    by (simp add: GetMachine_def sql_row_def)
  have a: "accounts_ok (db_tunnels (w_db one_machine))" by (simp add: accounts_ok_def has_prefix_def)
  have m: "m_slug (scanMachine one_row) = ''box''" by (simp add: scanMachine_def)
  have c: "\<not> contains (m_slug (scanMachine one_row)) ''--retired-''" unfolding m by code_simp
  show ?thesis using r retirement_releases [OF r g one_machine_wf a c] m by auto
qed

subsection \<open>The life of a machine\<close>




lemma scan_life:
  "m_desired_state (scanMachine r) = non_empty_or (mr_desired_state r) DesiredActive"
  "m_desired_generation (scanMachine r) = (case mr_desired_generation r of None \<Rightarrow> 1 | Some g \<Rightarrow> if g = 0 then 1 else g)"
  "m_id (scanMachine r) = mr_id r" "m_slug (scanMachine r) = mr_slug r"
  by (simp_all add: scanMachine_def)




text \<open>retirement is not final: disabling a retired machine and enabling it again makes the tunnels
  that had given back their ports count as offline tunnels in use, still with those ports.\<close>

theorem retired_tunnel_revived:
  assumes "SetDesiredState cfg i DesiredDisabled actor now w = (res1, w1)" "SetDesiredState cfg i DesiredActive actor now' w1 = (res2, w2)"
    "GetMachine i (w_db w) = Inr m" "GetMachine i (w_db w1) = Inr m1" "m_id m1 = m_id m"
    "t \<in> set (db_tunnels (w_db w))" "t_machine_id t = m_id m" "t_status t = ''retired''"
  shows "\<exists>t' \<in> set (db_tunnels (w_db w2)). t_id t' = t_id t \<and> t_status t' = ''offline'' \<and> t_remote_port t' = t_remote_port t"
proof -
  have step: "db_tunnels (w_db w') = sql_update (\<lambda>t. t_machine_id t = m_id m) (transition_tunnel desired) (db_tunnels (w_db w))"
    if s: "SetDesiredState cfg i desired actor now w = (res, w')" "GetMachine i (w_db w) = Inr m" "desired \<in> simple_states"
    for desired w w' res m now
  proof -
    let ?ts = "filter (\<lambda>t. t_machine_id t = m_id m) (db_tunnels (w_db w))"
    have g: "getMachineAndTunnels i (w_db w) = Inr (m, ?ts)" using s(2) by (simp add: getMachineAndTunnels_def)
    obtain w1 where w1: "desired_step cfg m ?ts desired actor now w = (Inr (), w1)"
      "db_tunnels (w_db w1) = sql_update (\<lambda>t. t_machine_id t = m_id m) (transition_tunnel desired) (db_tunnels (w_db w))"
      using desired_step_simple [OF s(3)] by blast
    show ?thesis using s(1) w1 by (auto simp: SetDesiredState_def g Let_def)
  qed
  have "transition_tunnel DesiredDisabled t \<in> set (db_tunnels (w_db w1))"
    unfolding step [OF assms(1,3), unfolded simple_states_def, simplified] set_sql_update using assms(6,7) by auto
  then have "transition_tunnel DesiredActive (transition_tunnel DesiredDisabled t) \<in> set (db_tunnels (w_db w2))"
    unfolding step [OF assms(2,4), unfolded simple_states_def, simplified] set_sql_update
    using assms(5,7) by (auto simp: transition_tunnel_def)
  then show ?thesis by (rule bexI [rotated]) (simp add: transition_tunnel_def desired_defs)
qed

definition retired_machine :: world where
  "retired_machine = on_db (\<lambda>d. d\<lparr>db_tunnels := [one_tunnel\<lparr>t_status := ''retired'', t_remote_port := -1\<rparr>]\<rparr>) one_machine"

lemma retired_tunnel_revived_witness:
  "\<exists>w2. \<exists>t' \<in> set (db_tunnels (w_db (w2 :: world))). t_status t' = ''offline'' \<and> t_remote_port t' = -1"
proof -
  obtain res1 w1 where 1: "SetDesiredState example_cfg ''m_1'' DesiredDisabled ''root'' 0 retired_machine = (res1, w1)" by fastforce
  obtain res2 w2 where 2: "SetDesiredState example_cfg ''m_1'' DesiredActive ''root'' 1 w1 = (res2, w2)" by fastforce
  have t: "db_machines (w_db retired_machine) = [one_row]" "db_tunnels (w_db retired_machine) = [one_tunnel\<lparr>t_status := ''retired'', t_remote_port := -1\<rparr>]"
    by (simp_all add: retired_machine_def)
  have g: "GetMachine ''m_1'' (w_db retired_machine) = Inr (scanMachine one_row)" by (simp add: GetMachine_def sql_row_def t)
  obtain w' where "desired_step example_cfg (scanMachine one_row) [one_tunnel\<lparr>t_status := ''retired'', t_remote_port := -1\<rparr>] DesiredDisabled ''root'' 0 retired_machine
      = (Inr (), w')" "db_machines (w_db w') = [transition_row DesiredDisabled (m_desired_generation (scanMachine one_row) + 1) 0 ''root'' one_row]"
    using desired_step_simple [of DesiredDisabled example_cfg "scanMachine one_row" _ "''root''" 0 retired_machine]
    by (auto simp: simple_states_def t scan_life)
  then have m1: "db_machines (w_db w1) = [transition_row DesiredDisabled (m_desired_generation (scanMachine one_row) + 1) 0 ''root'' one_row]"
    using 1 by (auto simp: SetDesiredState_def getMachineAndTunnels_def g t scan_life Let_def)
  then have g1: "GetMachine ''m_1'' (w_db w1) = Inr (scanMachine (transition_row DesiredDisabled (m_desired_generation (scanMachine one_row) + 1) 0 ''root'' one_row))"
    by (simp add: GetMachine_def sql_row_def transition_row_def Let_def)
  show ?thesis
    using retired_tunnel_revived [OF 1 2 g g1, of "one_tunnel\<lparr>t_status := ''retired'', t_remote_port := -1\<rparr>"] t
    by (auto simp: scan_life transition_row_def Let_def desired_defs)
qed

end
