(* ===== verification/HostProps.thy ===== *)
theory HostProps
  imports Examples
begin

text \<open>
  What the hub does on its own host: it deletes no directory but the homes of tunnel accounts,
  stopping an account's processes takes a bounded number of steps, and what it writes into an
  account's list of keys.
\<close>

subsection \<open>The log of actions\<close>

text \<open>The actions that an operation took.\<close>

definition actions :: "host \<Rightarrow> host \<Rightarrow> string list list" where
  "actions h h' = drop (length (ho_log h)) (ho_log h')"

definition extends_log :: "host \<Rightarrow> host \<Rightarrow> bool" where
  "extends_log h h' \<longleftrightarrow> (\<exists>as. ho_log h' = ho_log h @ as)"

lemma log_actions: "ho_log h' = ho_log h @ as \<Longrightarrow> actions h h' = as"
  by (simp add: actions_def)

lemma host_do_log: "host_do a h = (r, h') \<Longrightarrow> ho_log h' = ho_log h @ [a]"
  by (auto simp: host_do_def)

lemma run_log: "run cmd h = (e, h') \<Longrightarrow> ho_log h' = ho_log h @ [cmd]"
  by (auto simp: run_def dest: host_do_log split: prod.splits)

lemma os_call_log: "os_call a f h = (e, h') \<Longrightarrow> (\<And>x. ho_log (f x) = ho_log x) \<Longrightarrow> ho_log h' = ho_log h @ [a]"
  by (auto simp: os_call_def dest: host_do_log split: prod.splits if_splits)

lemma poll_gone_log:
  "poll_gone n u h = (b, h') \<Longrightarrow> \<exists>k \<le> n. ho_log h' = ho_log h @ replicate k [''pgrep'', ''-u'', u] \<and> (\<not> b \<longrightarrow> k = n)"
proof (induction n arbitrary: h)
  case 0
  then show ?case by (intro exI [of _ 0]) simp
next
  case (Suc n)
  obtain ok out h1 where d: "host_do [''pgrep'', ''-u'', u] h = ((ok, out), h1)" by (cases "host_do [''pgrep'', ''-u'', u] h") auto
  note l = host_do_log [OF d]
  show ?case
  proof (cases ok)
    case True
    then have "poll_gone n u h1 = (b, h')" using Suc.prems d by simp
    from Suc.IH [OF this] obtain k where "k \<le> n" "ho_log h' = ho_log h1 @ replicate k [''pgrep'', ''-u'', u]" "\<not> b \<longrightarrow> k = n"
      by blast
    then show ?thesis using l by (intro exI [of _ "Suc k"]) simp
  next
    case False
    then have "h' = h1" "b" using Suc.prems d by simp_all
    then show ?thesis using l by (intro exI [of _ "Suc 0"]) simp
  qed
qed



subsection \<open>Deleted directories\<close>

definition removals :: "string list list \<Rightarrow> string list" where
  "removals as = map (\<lambda>a. a ! 1) (filter (\<lambda>a. length a = 2 \<and> hd a = ''RemoveAll'') as)"

lemma removals_simps [simp]:
  "removals [] = []" "removals (a # as) = (if length a = 2 \<and> hd a = ''RemoveAll'' then a ! 1 # removals as else removals as)"
  "removals (as @ bs) = removals as @ removals bs"
  by (simp_all add: removals_def)

lemma removals_replicate [simp]: "removals (replicate k [''pgrep'', ''-u'', u]) = []"
  by (simp add: removals_def)

lemma killUser_removals: "\<exists>as. ho_log (snd (killUser u h)) = ho_log h @ as \<and> removals as = []"
proof (cases "ValidateUnixUser u")
  case None
  let ?h1 = "snd (host_do [''pkill'', ''-TERM'', ''-u'', u] h)"
  obtain b h2 where p: "poll_gone 20 u ?h1 = (b, h2)" by fastforce
  then obtain k where "ho_log h2 = ho_log ?h1 @ replicate k [''pgrep'', ''-u'', u]" using poll_gone_log by blast
  then have l: "ho_log h2 = ho_log h @ [''pkill'', ''-TERM'', ''-u'', u] # replicate k [''pgrep'', ''-u'', u]"
    by (simp add: host_do_def)
  have "snd (killUser u h) = (if b then h2 else snd (host_do [''pkill'', ''-KILL'', ''-u'', u] h2))"
    using None p by (simp add: killUser_def)
  then show ?thesis using l by (cases b) (auto simp: host_do_def)
qed (simp add: killUser_def)

text \<open>C16: removing a tunnel's account deletes at most one directory, and only one that lies below
  \<open>/var/lib\<close> and bears the valid name of a tunnel account.\<close>

theorem removal_confined:
  assumes "removeTunnelSystem cfg u h = (e, h')"
  shows "length (removals (actions h h')) \<le> 1 \<and>
     (\<forall>p \<in> set (removals (actions h h')). p = account_home cfg u \<and> has_prefix (path_clean p) ''/var/lib/rt-'' \<and>
        ValidateUnixUser (path_base (path_clean p)) = None)"
proof (cases "ValidateUnixUser u")
  case None
  define h1 where "h1 = snd (killUser u h)"
  obtain as1 where 1: "ho_log h1 = ho_log h @ as1" "removals as1 = []" using killUser_removals h1_def by blast
  obtain e2 h2 where 2: "run [''userdel'', u] h1 = (e2, h2)" by fastforce
  obtain e3 h3 where 3: "remove_file (account_conf cfg u) h2 = (e3, h3)" by fastforce
  have l3: "\<exists>as. ho_log h3 = ho_log h2 @ as \<and> removals as = []"
    using 3 os_call_log [of "[''Remove'', account_conf cfg u]" _ h2] by (auto simp: remove_file_def split: if_splits)
  then obtain as3 where as3: "ho_log h3 = ho_log h @ as3" "removals as3 = []"
    using 1 run_log [OF 2] by auto
  show ?thesis
  proof (cases "validateHomePath (account_home cfg u)")
    case (Some x)
    then have "h' = h3" using assms None 2 3 by (auto simp: removeTunnelSystem_def h1_def Let_def split: prod.splits)
    then show ?thesis using as3 by (simp add: log_actions)
  next
    case ok: None
    obtain e4 h4 where 4: "remove_all (account_home cfg u) h3 = (e4, h4)" by fastforce
    then have "ho_log h4 = ho_log h3 @ [[''RemoveAll'', account_home cfg u]]"
      using os_call_log [of "[''RemoveAll'', account_home cfg u]" _ h3] by (simp add: remove_all_def)
    moreover have "h' = h4" using assms None 2 3 4 ok by (auto simp: removeTunnelSystem_def h1_def Let_def split: prod.splits)
    ultimately have "removals (actions h h') = [account_home cfg u]" using as3 by (simp add: actions_def)
    then show ?thesis using ok by (auto simp: validateHomePath_def Let_def split: if_splits)
  qed
qed (use assms in \<open>simp add: removeTunnelSystem_def actions_def\<close>)

lemma removal_confined_witness:
  "removals (actions example_host (snd (removeTunnelSystem (example_cfg\<lparr>cfg_tunnel_home_base := ''/var/lib/rt-x/../../../etc''\<rparr>) ''rt-abcdefgh'' example_host))) = []"
proof -
  let ?c = "example_cfg\<lparr>cfg_tunnel_home_base := ''/var/lib/rt-x/../../../etc''\<rparr>"
  obtain e h' where r: "removeTunnelSystem ?c ''rt-abcdefgh'' example_host = (e, h')" by fastforce
  have "\<not> has_prefix (path_clean (account_home ?c ''rt-abcdefgh'')) ''/var/lib/rt-''" by code_simp
  then have "p \<notin> set (removals (actions example_host h'))" for p
  proof (rule contrapos_nn)
    assume "p \<in> set (removals (actions example_host h'))"
    from removal_confined [OF r, THEN conjunct2, THEN bspec, OF this]
    show "has_prefix (path_clean (account_home ?c ''rt-abcdefgh'')) ''/var/lib/rt-''" by (elim conjE) (simp only:)
  qed
  then have "set (removals (actions example_host h')) = {}" by (simp add: set_eq_iff del: set_empty)
  then show ?thesis unfolding r by (simp only: snd_conv set_empty)
qed

subsection \<open>Lists of authorized keys\<close>

lemma split_on_prefix: "c \<notin> set a \<Longrightarrow> split_on c (a @ s) = (a @ hd (split_on c s)) # tl (split_on c s)"
proof (induction a)
  case Nil
  show ?case by (cases "split_on c s") simp_all
qed auto

definition key_options :: "int \<Rightarrow> string \<Rightarrow> string" where
  "key_options port expiresAt =
     join '','' ([''restrict'', ''port-forwarding'', ''permitlisten='' @ [dq] @ ''127.0.0.1:'' @ show_int port @ [dq]]
       @ (if expiresAt = [] then []
          else case parse_time expiresAt of None \<Rightarrow> [] | Some t \<Rightarrow> [''expiry-time='' @ [dq] @ compact_time t @ [dq]]))"

lemma authorizedKeyLine_options: "authorizedKeyLine port pubkey e = key_options port e @ '' '' @ trim_space pubkey"
  by (simp add: authorizedKeyLine_def key_options_def Let_def split: option.split)

lemma nl_literals: "nl \<notin> set ''restrict''" "nl \<notin> set ''port-forwarding''" "nl \<notin> set ''permitlisten=''" "nl \<notin> set ''127.0.0.1:''"
  "nl \<notin> set ''expiry-time=''" "nl \<notin> set ''Z''" "nl \<notin> set '',''" "nl \<notin> set '' ''" "nl \<noteq> dq"
  by (simp_all add: nl_def dq_def)

lemma compact_no_nl: "nl \<notin> set (compact_time t)"
  using nl_literals(6) by (auto simp: compact_time_def is_digit_def nl_def)

lemma key_options_no_nl: "nl \<notin> set (key_options port e)"
  unfolding key_options_def
proof (rule join_no_nl)
  have "nl \<notin> set (''permitlisten='' @ [dq] @ ''127.0.0.1:'' @ show_int port @ [dq])"
    "nl \<notin> set (''expiry-time='' @ [dq] @ compact_time t @ [dq])" for t
    using nl_literals show_int_no_nl [of port] compact_no_nl [of t] by (simp_all only: set_append Un_iff list.set insert_iff empty_iff) auto
  then show "\<forall>x \<in> set ([''restrict'', ''port-forwarding'', ''permitlisten='' @ [dq] @ ''127.0.0.1:'' @ show_int port @ [dq]]
       @ (if e = [] then [] else case parse_time e of None \<Rightarrow> []
          | Some t \<Rightarrow> [''expiry-time='' @ [dq] @ compact_time t @ [dq]])). nl \<notin> set x"
    using nl_literals(1,2) by (cases "parse_time e") simp_all
qed (rule nl_literals)

text \<open>the account's list of keys restricts the first line of the public key it is given and nothing
  else: a second line of the key, which the check of public keys never looks at, stands in the
  list as a key of its own, without any restriction.\<close>

theorem second_key_unrestricted:
  assumes "trim_space pubkey = line1 @ nl # line2" "nl \<notin> set line1"
    "l_ssh_key_type l (line1 @ nl # line2) = l_ssh_key_type l line1" "l_ssh_key_type l line1 = Some kind"
  shows "ValidateSSHPublicKey l pubkey = Inr kind \<and>
     split_on nl (authorizedKeyLine port pubkey e) = (key_options port e @ '' '' @ line1) # split_on nl line2"
proof -
  have "nl \<notin> set (key_options port e @ '' '')" using key_options_no_nl nl_literals(8) by auto
  then have "split_on nl (authorizedKeyLine port pubkey e) =
      (key_options port e @ '' '' @ hd (split_on nl (trim_space pubkey))) # tl (split_on nl (trim_space pubkey))"
    using split_on_prefix [of nl "key_options port e @ '' ''" "trim_space pubkey"] by (simp add: authorizedKeyLine_options)
  then show ?thesis using assms by (simp add: ValidateSSHPublicKey_def split_on_append)
qed

lemma second_key_unrestricted_witness:
  "split_on nl (authorizedKeyLine 9200 (''ssh-ed25519 AAAA'' @ nl # ''ssh-ed25519 BBBB'') []) ! 1 = ''ssh-ed25519 BBBB''"
proof -
  have t: "trim_space (''ssh-ed25519 AAAA'' @ nl # ''ssh-ed25519 BBBB'') = ''ssh-ed25519 AAAA'' @ nl # ''ssh-ed25519 BBBB''" by code_simp
  have n: "nl \<notin> set ''ssh-ed25519 AAAA''" "nl \<notin> set ''ssh-ed25519 BBBB''" by (simp_all add: nl_def)
  have k: "l_ssh_key_type example_lib (''ssh-ed25519 AAAA'' @ nl # ''ssh-ed25519 BBBB'') = l_ssh_key_type example_lib ''ssh-ed25519 AAAA''"
    "l_ssh_key_type example_lib ''ssh-ed25519 AAAA'' = Some ''ssh-ed25519''" by code_simp+
  from second_key_unrestricted [OF t n(1) k, of 9200 "[]", THEN conjunct2] show ?thesis
    unfolding split_on_no_sep [OF n(2)] by (simp only: nth_Cons_0 One_nat_def nth_Cons_Suc)
qed

end
