(* ===== verification/WsFrames.thy ===== *)
theory WsFrames
  imports GoStrings
begin

text \<open>
  The framing layer of the WebSocket carrier (\<open>internal/wscarrier/wscarrier.go\<close>): \<open>writeFrame\<close>,
  \<open>readFrame\<close> and the connection they run on. A byte is an 8-bit word. A connection keeps what was
  put on the wire, how many more bytes the peer takes before writes fail (\<open>None\<close>: no limit), and
  the random source its masking keys come from. A reader is the list of the bytes that arrive
  before the stream ends.
\<close>

type_synonym byte = "8 word"
type_synonym mask_key = "byte \<times> byte \<times> byte \<times> byte"

datatype io_error =
    EOF | UnexpectedEOF | WriteFailed | NoEntropy
  | ExpectedMasked | FrameTooLarge nat | ReadFailed | Cancelled

record sink =
  wo_sent :: "byte list"
  wo_room :: "nat option"

record ws_out = sink +
  wo_entropy :: "nat \<Rightarrow> mask_key option"
  wo_drawn :: nat

subsection \<open>Big-endian integers\<close>

primrec be_bytes :: "nat \<Rightarrow> nat \<Rightarrow> byte list" where
  "be_bytes 0 l = []"
| "be_bytes (Suc n) l = word_of_nat (l div 256 ^ n) # be_bytes n l"

definition be_value :: "byte list \<Rightarrow> nat" where
  "be_value bs = foldl (\<lambda>a b. 256 * a + unat b) 0 bs"

subsection \<open>Masking\<close>

definition key_byte :: "mask_key \<Rightarrow> nat \<Rightarrow> byte" where
  "key_byte k i =
     (case k of (a, b, c, d) \<Rightarrow>
        if i mod 4 = 0 then a else if i mod 4 = 1 then b else if i mod 4 = 2 then c else d)"

definition key_bytes :: "mask_key \<Rightarrow> byte list" where
  "key_bytes k = (case k of (a, b, c, d) \<Rightarrow> [a, b, c, d])"

text \<open>\<open>payload[i] ^ key[i % 4]\<close> for every index.\<close>

primrec mask_from :: "nat \<Rightarrow> mask_key \<Rightarrow> byte list \<Rightarrow> byte list" where
  "mask_from i k [] = []"
| "mask_from i k (b # bs) = Bit_Operations.xor b (key_byte k i) # mask_from (Suc i) k bs"

subsection \<open>Writing\<close>

text \<open>\<open>w.Write\<close>: all of the bytes, or as many as the peer still takes and an error.\<close>

definition out_write :: "byte list \<Rightarrow> 'a sink_scheme \<Rightarrow> io_error option \<times> 'a sink_scheme" where
  "out_write bs c =
     (case wo_room c of
        None \<Rightarrow> (None, c\<lparr>wo_sent := wo_sent c @ bs\<rparr>)
      | Some n \<Rightarrow>
          if length bs \<le> n then (None, c\<lparr>wo_sent := wo_sent c @ bs, wo_room := Some (n - length bs)\<rparr>)
          else (Some WriteFailed, c\<lparr>wo_sent := wo_sent c @ take n bs, wo_room := Some 0\<rparr>))"

text \<open>The first bytes of a frame: final bit and opcode, mask bit and length in 7, 16 or 64 bits.\<close>

definition frame_length :: "nat \<Rightarrow> bool \<Rightarrow> byte list" where
  "frame_length l masked =
     (let maskBit = (if masked then 0x80 else 0 :: byte)
      in if l < 126 then [Bit_Operations.or maskBit (word_of_nat l)]
         else if l \<le> 0xffff then Bit_Operations.or maskBit 126 # be_bytes 2 l
         else Bit_Operations.or maskBit 127 # be_bytes 8 l)"

definition frame_header :: "byte \<Rightarrow> nat \<Rightarrow> bool \<Rightarrow> byte list" where
  "frame_header opcode l masked =
     Bit_Operations.or 0x80 (Bit_Operations.and opcode 0x0f) # frame_length l masked"

definition writeFrame :: "byte \<Rightarrow> byte list \<Rightarrow> bool \<Rightarrow> ws_out \<Rightarrow> io_error option \<times> ws_out" where
  "writeFrame opcode payload masked c =
     (let hdr = frame_header opcode (length payload) masked;
          send = (\<lambda>h out c. case out_write h c of
                     (Some e, c') \<Rightarrow> (Some e, c')
                   | (None, c') \<Rightarrow> out_write out c')
      in if masked then
           (case wo_entropy c (wo_drawn c) of
              None \<Rightarrow> (Some NoEntropy, c\<lparr>wo_drawn := Suc (wo_drawn c)\<rparr>)
            | Some key \<Rightarrow>
                send (hdr @ key_bytes key) (mask_from 0 key payload) (c\<lparr>wo_drawn := Suc (wo_drawn c)\<rparr>))
         else send hdr payload c)"

subsection \<open>Reading\<close>

text \<open>
  \<open>io.ReadFull\<close> of \<open>n\<close> bytes: \<open>EOF\<close> when nothing is left, \<open>ErrUnexpectedEOF\<close> when too little is.
\<close>

definition read_full :: "nat \<Rightarrow> byte list \<Rightarrow> (io_error + byte list) \<times> byte list" where
  "read_full n s =
     (if n \<le> length s then (Inr (take n s), drop n s)
      else (Inl (if s = [] then EOF else UnexpectedEOF), []))"

definition read_then ::
  "nat \<Rightarrow> (byte list \<Rightarrow> byte list \<Rightarrow> (io_error + 'a) \<times> byte list) \<Rightarrow> byte list \<Rightarrow> (io_error + 'a) \<times> byte list" where
  "read_then n f s =
     (case read_full n s of (Inl e, s') \<Rightarrow> (Inl e, s') | (Inr bs, s') \<Rightarrow> f bs s')"

definition max_frame :: nat where "max_frame = 16 * 1024 * 1024"

definition read_length :: "byte \<Rightarrow> (nat \<Rightarrow> byte list \<Rightarrow> (io_error + 'a) \<times> byte list) \<Rightarrow> byte list \<Rightarrow> (io_error + 'a) \<times> byte list" where
  "read_length b2 f =
     (let l = Bit_Operations.and b2 0x7f
      in if l = 126 then read_then 2 (\<lambda>x. f (be_value x))
         else if l = 127 then read_then 8 (\<lambda>x. f (be_value x))
         else f (unat l))"

definition read_payload :: "byte \<Rightarrow> mask_key option \<Rightarrow> nat \<Rightarrow> byte list \<Rightarrow> (io_error + byte \<times> byte list) \<times> byte list" where
  "read_payload opcode key l =
     (\<lambda>s. if max_frame < l then (Inl (FrameTooLarge l), s)
          else read_then l (\<lambda>p s. (Inr (opcode, case key of None \<Rightarrow> p | Some k \<Rightarrow> mask_from 0 k p), s)) s)"

definition readFrame :: "bool \<Rightarrow> byte list \<Rightarrow> (io_error + byte \<times> byte list) \<times> byte list" where
  "readFrame expectMasked =
     read_then 1 (\<lambda>b1. read_then 1 (\<lambda>b2.
       let opcode = Bit_Operations.and (hd b1) 0x0f;
           masked = (Bit_Operations.and (hd b2) 0x80 \<noteq> 0)
       in if expectMasked \<and> \<not> masked then (\<lambda>s. (Inl ExpectedMasked, s))
          else read_length (hd b2) (\<lambda>l.
            if masked then
              read_then 4 (\<lambda>k. read_payload opcode (Some (k ! 0, k ! 1, k ! 2, k ! 3)) l)
            else read_payload opcode None l)))"

subsection \<open>Facts about bytes\<close>

lemma byte_low:
  fixes w :: byte
  assumes "unat w < 128"
  shows "Bit_Operations.and w 0x7f = w" and "Bit_Operations.and w 0x80 = 0"
proof -
  have m: "(0x7f :: byte) = Bit_Operations.mask 7" by (simp add: mask_eq_exp_minus_1)
  show low: "Bit_Operations.and w 0x7f = w"
    unfolding m take_bit_eq_mask [symmetric] word_unat_eq_iff
    using assms by (simp only: unsigned_take_bit_eq) (simp add: take_bit_eq_mod)
  have "Bit_Operations.and w 0x80 = Bit_Operations.and (Bit_Operations.and w 0x7f) 0x80" by (simp add: low)
  also have "\<dots> = 0" by (simp add: and.assoc)
  finally show "Bit_Operations.and w 0x80 = 0" .
qed

lemma byte_mask_bit:
  fixes w :: byte
  assumes "unat w < 128"
  shows "Bit_Operations.and (Bit_Operations.or 0x80 w) 0x7f = w"
    and "Bit_Operations.and (Bit_Operations.or 0x80 w) 0x80 \<noteq> 0"
  by (simp_all add: bit.conj_disj_distrib2 byte_low [OF assms])

lemma opcode_bits:
  fixes b :: byte
  shows "Bit_Operations.and (Bit_Operations.or 0x80 (Bit_Operations.and b 0x0f)) 0x0f = Bit_Operations.and b 0x0f"
  by (simp add: bit.conj_disj_distrib2 and.assoc)

lemma length_be_bytes [simp]: "length (be_bytes n l) = n"
  by (induction n) auto

lemma foldl_be: "foldl (\<lambda>a b. 256 * a + unat b) a (bs :: byte list)
    = a * 256 ^ length bs + foldl (\<lambda>a b. 256 * a + unat b) 0 bs"
proof (induction bs arbitrary: a)
  case (Cons b bs)
  show ?case
    unfolding foldl_Cons Cons.IH [of "256 * a + unat b"] Cons.IH [of "256 * 0 + unat b"]
    by (simp add: algebra_simps)
qed simp

lemma be_value_bytes: "be_value (be_bytes n l) = l mod 256 ^ n"
proof (induction n)
  case (Suc n)
  have "be_value (be_bytes (Suc n) l) = (l div 256 ^ n) mod 256 * 256 ^ n + be_value (be_bytes n l)"
    unfolding be_value_def be_bytes.simps foldl_Cons
    by (subst foldl_be) (simp add: unat_of_nat)
  also have "\<dots> = l mod 256 ^ Suc n"
    unfolding Suc.IH using mod_mult2_eq [of l "256 ^ n" 256] by (simp add: algebra_simps)
  finally show ?case .
qed (simp add: be_value_def)

lemma length_mask_from [simp]: "length (mask_from i k bs) = length bs"
  by (induction bs arbitrary: i) auto

lemma mask_from_invol [simp]: "mask_from i k (mask_from i k bs) = bs"
  by (induction bs arbitrary: i) (auto simp: xor.assoc)

lemma length_key_bytes [simp]: "length (key_bytes k) = 4"
  by (simp add: key_bytes_def split: prod.split)

lemma key_bytes_nth: "(key_bytes k ! 0, key_bytes k ! Suc 0, key_bytes k ! 2, key_bytes k ! 3) = k"
  by (simp add: key_bytes_def split: prod.split)

subsection \<open>What the writer puts on the wire is what the reader takes off it\<close>

text \<open>The bytes of one frame, masked with a key or not.\<close>

definition frame :: "byte \<Rightarrow> byte list \<Rightarrow> mask_key option \<Rightarrow> byte list" where
  "frame opcode payload key =
     frame_header opcode (length payload) (key \<noteq> None) @
     (case key of None \<Rightarrow> payload | Some k \<Rightarrow> key_bytes k @ mask_from 0 k payload)"

lemma read_then_append: "length bs = n \<Longrightarrow> read_then n f (bs @ s) = f bs s"
  by (simp add: read_then_def read_full_def)

lemma read_then_one: "read_then 1 f (b # s) = f [b] s"
  by (simp add: read_then_def read_full_def)

lemma read_length_frame:
  assumes "l < 2 ^ 64" and "frame_length l masked = b2 # r"
  shows "read_length b2 f (r @ s) = f l s" and "(Bit_Operations.and b2 0x80 \<noteq> 0) = masked"
proof -
  have small: "Bit_Operations.and (Bit_Operations.or (if masked then 0x80 else 0) w) 0x7f = w
      \<and> (Bit_Operations.and (Bit_Operations.or (if masked then 0x80 else 0) w) 0x80 \<noteq> 0) = masked"
    if "unat w < 128" for w :: byte
    using byte_low [OF that] byte_mask_bit [OF that] by simp
  have u: "unat (word_of_nat l :: byte) = l" if "l < 126" using that by (simp add: unat_of_nat)
  have w126: "(word_of_nat l :: byte) \<noteq> 126 \<and> (word_of_nat l :: byte) \<noteq> 127" if "l < 126"
  proof -
    have "unat (word_of_nat l :: byte) \<noteq> unat (126 :: byte)" "unat (word_of_nat l :: byte) \<noteq> unat (127 :: byte)"
      using u [OF that] that by auto
    then show ?thesis by metis
  qed
  have two: "be_value (be_bytes 2 l) = l" if "l \<le> 0xffff"
    using that unfolding be_value_bytes by simp
  have eight: "be_value (be_bytes 8 l) = l"
    using assms(1) unfolding be_value_bytes by simp
  consider "l < 126" "b2 = Bit_Operations.or (if masked then 0x80 else 0) (word_of_nat l)" "r = []"
    | "126 \<le> l" "l \<le> 0xffff" "b2 = Bit_Operations.or (if masked then 0x80 else 0) 126" "r = be_bytes 2 l"
    | "0xffff < l" "b2 = Bit_Operations.or (if masked then 0x80 else 0) 127" "r = be_bytes 8 l"
    using assms(2) by (auto simp: frame_length_def Let_def split: if_splits)
  then have "read_length b2 f (r @ s) = f l s \<and> (Bit_Operations.and b2 0x80 \<noteq> 0) = masked"
  proof cases
    case 1
    with small [of "word_of_nat l"] u w126 show ?thesis by (simp add: read_length_def)
  next
    case 2
    with small [of 126] two show ?thesis by (simp add: read_length_def read_then_append)
  next
    case 3
    with small [of 127] eight show ?thesis by (simp add: read_length_def read_then_append)
  qed
  then show "read_length b2 f (r @ s) = f l s" and "(Bit_Operations.and b2 0x80 \<noteq> 0) = masked" by auto
qed

lemma frame_length_Cons: "\<exists>b2 r. frame_length l masked = b2 # r"
  by (simp add: frame_length_def Let_def)

lemma readFrame_header:
  assumes "l < 2 ^ 64"
  shows "readFrame expectMasked (frame_header opcode l masked @ s) =
     (if expectMasked \<and> \<not> masked then (Inl ExpectedMasked, drop 1 (frame_length l masked) @ s)
      else if masked then
        read_then 4 (\<lambda>k. read_payload (Bit_Operations.and opcode 0x0f) (Some (k ! 0, k ! 1, k ! 2, k ! 3)) l) s
      else read_payload (Bit_Operations.and opcode 0x0f) None l s)"
proof -
  obtain b2 r where h: "frame_length l masked = b2 # r" using frame_length_Cons by blast
  note b = read_length_frame [OF assms h]
  have m: "Bit_Operations.and b2 0x80 = 0 \<longleftrightarrow> \<not> masked" using b(2) by auto
  show ?thesis
    unfolding readFrame_def frame_header_def h append_Cons read_then_one list.sel Let_def opcode_bits m b(1)
    by (simp add: b(1))
qed

lemma readFrame_frame:
  assumes "length payload \<le> max_frame" and "expectMasked \<longrightarrow> key \<noteq> None"
  shows "readFrame expectMasked (frame opcode payload key @ rest) =
    (Inr (Bit_Operations.and opcode 0x0f, payload), rest)"
proof -
  have l: "length payload < 2 ^ 64" using assms(1) by (simp add: max_frame_def)
  have p: "read_payload b key' (length payload) (body @ rest) =
      (Inr (b, case key' of None \<Rightarrow> body | Some k \<Rightarrow> mask_from 0 k body), rest)"
    if "length body = length payload" for b key' body
    using assms(1) that by (simp add: read_payload_def read_then_append)
  show ?thesis
  proof (cases key)
    case None
    then show ?thesis using assms(2) by (simp add: frame_def readFrame_header [OF l] p)
  next
    case (Some k)
    then show ?thesis
      by (simp add: frame_def readFrame_header [OF l] p read_then_append key_bytes_nth)
  qed
qed

lemma readFrame_too_large:
  assumes "max_frame < length payload" and "length payload < 2 ^ 64" and "expectMasked \<longrightarrow> key \<noteq> None"
  shows "fst (readFrame expectMasked (frame opcode payload key @ rest)) = Inl (FrameTooLarge (length payload))"
proof (cases key)
  case None
  then show ?thesis
    using assms by (simp add: frame_def readFrame_header [OF assms(2)] read_payload_def)
next
  case (Some k)
  then show ?thesis
    using assms(1) by (simp add: frame_def readFrame_header [OF assms(2)] read_payload_def read_then_append)
qed

subsection \<open>Reading on a longer or shorter stream\<close>

text \<open>A reader that succeeds on a stream does the same on every longer one.\<close>

definition extends :: "(byte list \<Rightarrow> (io_error + 'a) \<times> byte list) \<Rightarrow> bool" where
  "extends f \<longleftrightarrow> (\<forall>s t x r. f s = (Inr x, r) \<longrightarrow> f (s @ t) = (Inr x, r @ t))"

lemma extendsD: "extends f \<Longrightarrow> f s = (Inr x, r) \<Longrightarrow> f (s @ t) = (Inr x, r @ t)"
  by (simp add: extends_def)

lemma extends_if: "extends f \<Longrightarrow> extends g \<Longrightarrow> extends (if b then f else g)"
  by simp

lemma extends_read_then: "(\<And>bs. extends (f bs)) \<Longrightarrow> extends (read_then n f)"
  by (auto simp: extends_def read_then_def read_full_def)

lemma extends_fail: "extends (\<lambda>s. (Inl e, s))"
  by (simp add: extends_def)

lemma extends_done: "extends (\<lambda>s. (Inr x, s))"
  by (simp add: extends_def)

lemma extends_read_payload: "extends (read_payload b key l)"
  unfolding read_payload_def
  by (cases "max_frame < l") (simp_all add: extends_fail extends_read_then extends_done)

lemma extends_read_length: "(\<And>l. extends (f l)) \<Longrightarrow> extends (read_length b f)"
  by (auto simp: read_length_def Let_def intro: extends_read_then)

lemma readFrame_extends: "extends (readFrame e)"
  unfolding readFrame_def Let_def
  by (intro extends_read_then extends_if extends_fail extends_read_length extends_read_payload)

lemma readFrame_cut:
  assumes "length payload \<le> max_frame" and "expectMasked \<longrightarrow> key \<noteq> None"
    and "frame opcode payload key = p @ q" and "q \<noteq> []"
  shows "\<exists>e. fst (readFrame expectMasked p) = Inl e"
proof (cases "readFrame expectMasked p")
  case (Pair v r)
  show ?thesis
  proof (cases v)
    case (Inr x)
    then have "readFrame expectMasked (p @ q) = (Inr x, r @ q)"
      using Pair by (intro extendsD [OF readFrame_extends]) simp
    moreover have "readFrame expectMasked (p @ q) = (Inr (Bit_Operations.and opcode 0x0f, payload), [])"
      using readFrame_frame [OF assms(1,2), of opcode "[]"] assms(3) by simp
    ultimately show ?thesis using assms(4) by simp
  qed (simp add: Pair)
qed

text \<open>Every frame read takes bytes off the stream.\<close>

lemma read_then_shorter:
  assumes "\<And>bs s. length (snd (f bs s)) \<le> length s"
  shows "length (snd (read_then n f s)) \<le> length s - n"
  using assms [of "take n s" "drop n s"]
  by (auto simp: read_then_def read_full_def split: prod.split)

lemma read_then_le:
  assumes "\<And>bs s. length (snd (f bs s)) \<le> length s"
  shows "length (snd (read_then n f s)) \<le> length s"
  using read_then_shorter [of f n s, OF assms] by simp

lemma read_payload_le: "length (snd (read_payload b key l s)) \<le> length s"
proof (cases "max_frame < l")
  case False
  then show ?thesis unfolding read_payload_def if_not_P [OF False] by (intro read_then_le) simp
qed (simp add: read_payload_def)

lemma read_length_le:
  assumes "\<And>l s. length (snd (f l s)) \<le> length s"
  shows "length (snd (read_length b f s)) \<le> length s"
  unfolding read_length_def Let_def by (auto intro!: read_then_le assms)

lemma readFrame_shorter:
  assumes "s \<noteq> []"
  shows "length (snd (readFrame e s)) < length s"
proof -
  define body :: "byte list \<Rightarrow> byte list \<Rightarrow> byte list \<Rightarrow> (io_error + byte \<times> byte list) \<times> byte list"
    where "body = (\<lambda>b1 b2. let opcode = Bit_Operations.and (hd b1) 0x0f;
           masked = (Bit_Operations.and (hd b2) 0x80 \<noteq> 0)
       in if e \<and> \<not> masked then (\<lambda>s. (Inl ExpectedMasked, s))
          else read_length (hd b2) (\<lambda>l.
            if masked then
              read_then 4 (\<lambda>k. read_payload opcode (Some (k ! 0, k ! 1, k ! 2, k ! 3)) l)
            else read_payload opcode None l))"
  have b: "length (snd (body b1 b2 s)) \<le> length s" for b1 b2 s
    unfolding body_def Let_def by (auto intro!: read_length_le read_payload_le read_then_le)
  have "length (snd (read_then 1 (body b1) s)) \<le> length s" for b1 s
    using read_then_shorter [of "body b1" 1 s, OF b] by simp
  then have "length (snd (read_then 1 (\<lambda>b1. read_then 1 (body b1)) s)) \<le> length s - 1"
    by (rule read_then_shorter)
  moreover have "readFrame e = read_then 1 (\<lambda>b1. read_then 1 (body b1))"
    unfolding readFrame_def body_def ..
  moreover have "length s - 1 < length s" using assms by simp
  ultimately show ?thesis by (simp only: order.strict_trans1)
qed

text \<open>A frame read has a four-bit opcode and at most 16 MiB.\<close>

definition yields :: "('a \<Rightarrow> bool) \<Rightarrow> (byte list \<Rightarrow> (io_error + 'a) \<times> byte list) \<Rightarrow> bool" where
  "yields P f \<longleftrightarrow> (\<forall>s x r. f s = (Inr x, r) \<longrightarrow> P x)"

lemma yields_read_then:
  assumes "\<And>bs. length bs = n \<Longrightarrow> yields P (f bs)"
  shows "yields P (read_then n f)"
  unfolding yields_def
proof (intro allI impI)
  fix s x r assume "read_then n f s = (Inr x, r)"
  then have "n \<le> length s \<and> f (take n s) (drop n s) = (Inr x, r)"
    by (auto simp: read_then_def read_full_def split: if_splits)
  then show "P x" using assms [of "take n s"] by (auto simp: yields_def)
qed

lemma yields_read_length: "(\<And>l. yields P (f l)) \<Longrightarrow> yields P (read_length b f)"
  by (auto simp: read_length_def Let_def intro: yields_read_then)

lemma yields_if: "yields P f \<Longrightarrow> yields P g \<Longrightarrow> yields P (if b then f else g)"
  by simp

lemma yields_fail: "yields P (\<lambda>s. (Inl e, s))"
  by (simp add: yields_def)

definition well_formed :: "byte \<times> byte list \<Rightarrow> bool" where
  "well_formed x \<longleftrightarrow> Bit_Operations.and (fst x) 0x0f = fst x \<and> length (snd x) \<le> max_frame"

lemma yields_read_payload:
  "Bit_Operations.and b 0x0f = b \<Longrightarrow> yields well_formed (read_payload b key l)"
proof (cases "max_frame < l")
  case False
  assume "Bit_Operations.and b 0x0f = b"
  then show ?thesis
    unfolding read_payload_def if_not_P [OF False]
    by (intro yields_read_then) (use False in \<open>auto simp: yields_def well_formed_def split: option.split\<close>)
qed (simp add: read_payload_def yields_fail)

lemma readFrame_yields: "yields well_formed (readFrame e)"
  unfolding readFrame_def Let_def
  by (intro yields_read_then yields_if yields_fail yields_read_length yields_read_payload) (simp_all add: and.assoc)

lemma readFrame_well_formed:
  "readFrame e s = (Inr (op, p), r) \<Longrightarrow> length p \<le> max_frame"
  using readFrame_yields [of e] by (auto simp: yields_def well_formed_def)

subsection \<open>How a write ends\<close>

definition may_frame :: "bool \<Rightarrow> byte \<times> byte list \<times> mask_key option \<Rightarrow> bool" where
  "may_frame client f = (case f of (op, p, k) \<Rightarrow> op < 16 \<and> length p \<le> max_frame \<and> (k \<noteq> None) = client)"

definition steady :: "ws_out \<Rightarrow> bool" where
  "steady c \<longleftrightarrow> wo_room c = None \<and> (\<forall>n. wo_entropy c n \<noteq> None)"

lemma out_write_frame [simp]:
  "wo_entropy (snd (out_write bs c)) = wo_entropy c" "wo_drawn (snd (out_write bs c)) = wo_drawn c"
  by (simp_all add: out_write_def split: option.split)

lemma out_write_two:
  fixes c :: "'a sink_scheme"
  assumes "h \<noteq> []" and "(case out_write h c of (Some e, c') \<Rightarrow> (Some e, c') | (None, c') \<Rightarrow> out_write b c') = (r, c')"
  shows "r = None \<and> wo_sent c' = wo_sent c @ h @ b \<and> (wo_room c' = None \<longleftrightarrow> wo_room c = None)
       \<and> wo_room c \<noteq> Some 0
     \<or> (\<exists>e p q. r = Some e \<and> q \<noteq> [] \<and> h @ b = p @ q \<and> wo_sent c' = wo_sent c @ p \<and> wo_room c' = Some 0
          \<and> wo_room c = Some (length p))"
proof (cases "wo_room c")
  case None
  then show ?thesis using assms by (auto simp: out_write_def)
next
  case (Some n)
  show ?thesis
  proof (cases "length (h @ b) \<le> n")
    case True
    then have n: "length h \<le> n" "length b \<le> n - length h" "0 < n"
      using assms(1) by (auto intro: gr0I)
    show ?thesis using assms Some by (simp add: out_write_def n) auto
  next
    case False
    then have "take n (h @ b) @ drop n (h @ b) = h @ b \<and> drop n (h @ b) \<noteq> []
        \<and> (\<exists>e. r = Some e) \<and> wo_sent c' = wo_sent c @ take n (h @ b) \<and> wo_room c' = Some 0"
      using assms Some by (auto simp: out_write_def split: if_splits)
    then show ?thesis using Some False
      by (metis length_take min.absorb2 nat_le_linear)
  qed
qed

end
