(* ===== verification/WsCarrier.thy ===== *)
theory WsCarrier
  imports WsFrames
begin

text \<open>
  The two ends of the WebSocket carrier (\<open>internal/wscarrier/wscarrier.go\<close>): the connection
  \<open>wsConn\<close> that the agent's SSH client reads and writes, and \<open>pump\<close>, whose two goroutines copy
  between a plain stream and the framed connection. What a reader delivers is compared with
  \<open>stream_data\<close>, the data a stream of frames carries. The goroutines of \<open>pump\<close> are a step relation:
  a frame is written under the lock \<open>writeMu\<close>, so a step writes a whole frame or fails in it.
\<close>

subsection \<open>wsConn\<close>

record ws_conn =
  wc_out :: ws_out
  wc_in :: "byte list"
  wc_client :: bool
  wc_buf :: "byte list"

lemma readFrame_Nil: "readFrame e [] = (Inl EOF, [])"
  by (simp add: readFrame_def read_then_def read_full_def)

lemma readFrame_Inr_shorter: "readFrame e s = (Inr x, r) \<Longrightarrow> length r < length s"
  using readFrame_shorter [of s e] readFrame_Nil [of e] by (cases s) auto

text \<open>The loop of \<open>Read\<close> on an empty buffer; \<open>n\<close> is \<open>len(p)\<close>.\<close>

function ws_read_loop :: "nat \<Rightarrow> ws_conn \<Rightarrow> (io_error + byte list) \<times> ws_conn" where
  "ws_read_loop n c =
     (case readFrame (\<not> wc_client c) (wc_in c) of
        (Inl e, s) \<Rightarrow> (Inl e, c\<lparr>wc_in := s\<rparr>)
      | (Inr (op, payload), s) \<Rightarrow>
          let c' = c\<lparr>wc_in := s\<rparr>
          in if op = 1 \<or> op = 2 then
               if payload = [] then ws_read_loop n c'
               else (Inr (take n payload), c'\<lparr>wc_buf := drop n payload\<rparr>)
             else if op = 8 then (Inl EOF, c')
             else if op = 9 then
               ws_read_loop n (c'\<lparr>wc_out := snd (writeFrame 10 payload (wc_client c) (wc_out c))\<rparr>)
             else ws_read_loop n c')"
  by pat_completeness auto
termination
  by (relation "measure (\<lambda>(n, c). length (wc_in c))") (auto dest!: readFrame_Inr_shorter [OF sym])

declare ws_read_loop.simps [simp del]

definition ws_read :: "nat \<Rightarrow> ws_conn \<Rightarrow> (io_error + byte list) \<times> ws_conn" where
  "ws_read n c =
     (if wc_buf c \<noteq> [] then (Inr (take n (wc_buf c)), c\<lparr>wc_buf := drop n (wc_buf c)\<rparr>)
      else ws_read_loop n c)"

definition ws_write :: "byte list \<Rightarrow> ws_conn \<Rightarrow> (io_error + nat) \<times> ws_conn" where
  "ws_write p c =
     (case writeFrame 2 p (wc_client c) (wc_out c) of
        (Some e, o') \<Rightarrow> (Inl e, c\<lparr>wc_out := o'\<rparr>)
      | (None, o') \<Rightarrow> (Inr (length p), c\<lparr>wc_out := o'\<rparr>))"

text \<open>\<open>Close\<close>: a close frame, whatever becomes of it, and no more writes.\<close>

definition ws_close :: "ws_conn \<Rightarrow> ws_conn" where
  "ws_close c = c\<lparr>wc_out := (snd (writeFrame 8 [] (wc_client c) (wc_out c)))\<lparr>wo_room := Some 0\<rparr>\<rparr>"

subsection \<open>pump\<close>

datatype copier = Copying | Closing io_error | Finished

record pump_state =
  pu_plain :: "(byte list \<times> io_error option) list"  \<comment> \<open>what the calls of \<open>plainIn.Read\<close> return\<close>
  pu_conn :: ws_out
  pu_stream :: "byte list"                         \<comment> \<open>what arrives on the connection\<close>
  pu_target :: sink                                \<comment> \<open>\<open>plainOut\<close>\<close>
  pu_up :: copier
  pu_down :: copier
  pu_done :: "io_error list"                       \<comment> \<open>the channel \<open>done\<close>, of capacity 2\<close>

text \<open>The first goroutine: read the plain stream, write a data frame, at the end a close frame.\<close>

definition pump_up :: "bool \<Rightarrow> pump_state \<Rightarrow> pump_state option" where
  "pump_up client s =
     (case pu_up s of
        Finished \<Rightarrow> None
      | Closing e \<Rightarrow>
          Some (s\<lparr>pu_conn := snd (writeFrame 8 [] client (pu_conn s)), pu_done := pu_done s @ [e], pu_up := Finished\<rparr>)
      | Copying \<Rightarrow>
          (case pu_plain s of
             [] \<Rightarrow> None
           | (bs, err) # rest \<Rightarrow>
               let (werr, c) = (if bs = [] then (None, pu_conn s) else writeFrame 2 bs client (pu_conn s));
                   s' = s\<lparr>pu_plain := rest, pu_conn := c\<rparr>
               in case werr of
                    Some we \<Rightarrow> Some (s'\<lparr>pu_done := pu_done s @ [we], pu_up := Finished\<rparr>)
                  | None \<Rightarrow> Some (case err of None \<Rightarrow> s' | Some e \<Rightarrow> s'\<lparr>pu_up := Closing e\<rparr>)))"

text \<open>The second goroutine: read a frame, write its data to the plain side, answer a ping.\<close>

definition pump_down :: "bool \<Rightarrow> pump_state \<Rightarrow> pump_state option" where
  "pump_down client s =
     (case pu_down s of
        Finished \<Rightarrow> None
      | Closing e \<Rightarrow> None
      | Copying \<Rightarrow>
          Some (case readFrame (\<not> client) (pu_stream s) of
             (Inl e, r) \<Rightarrow> s\<lparr>pu_stream := r, pu_done := pu_done s @ [e], pu_down := Finished\<rparr>
           | (Inr (op, payload), r) \<Rightarrow>
               let s' = s\<lparr>pu_stream := r\<rparr>
               in if op = 1 \<or> op = 2 then
                    if payload = [] then s'
                    else (case out_write payload (pu_target s) of
                            (Some e, t) \<Rightarrow> s'\<lparr>pu_target := t, pu_done := pu_done s @ [e], pu_down := Finished\<rparr>
                          | (None, t) \<Rightarrow> s'\<lparr>pu_target := t\<rparr>)
                  else if op = 8 then s'\<lparr>pu_done := pu_done s @ [EOF], pu_down := Finished\<rparr>
                  else if op = 9 then s'\<lparr>pu_conn := snd (writeFrame 10 payload client (pu_conn s))\<rparr>
                  else s'))"

inductive pump_step :: "bool \<Rightarrow> pump_state \<Rightarrow> pump_state \<Rightarrow> bool" for client :: bool where
  up: "pump_up client s = Some s' \<Longrightarrow> pump_step client s s'"
| down: "pump_down client s = Some s' \<Longrightarrow> pump_step client s s'"

definition pump_run :: "bool \<Rightarrow> pump_state \<Rightarrow> pump_state \<Rightarrow> bool" where
  "pump_run client = (pump_step client)\<^sup>*\<^sup>*"

text \<open>The value \<open>pump\<close> returns: the first on the channel, or the cancellation of its context.\<close>

definition pump_result :: "bool \<Rightarrow> pump_state \<Rightarrow> io_error option" where
  "pump_result cancelled s =
     (if cancelled then Some Cancelled else case pu_done s of [] \<Rightarrow> None | e # _ \<Rightarrow> Some e)"

definition pump_init ::
  "(byte list \<times> io_error option) list \<Rightarrow> ws_out \<Rightarrow> byte list \<Rightarrow> sink \<Rightarrow> pump_state" where
  "pump_init plain conn stream target =
     \<lparr>pu_plain = plain, pu_conn = conn, pu_stream = stream, pu_target = target,
      pu_up = Copying, pu_down = Copying, pu_done = []\<rparr>"

subsection \<open>The data of a stream of frames\<close>

function stream_data :: "bool \<Rightarrow> byte list \<Rightarrow> byte list \<times> io_error" where
  "stream_data e s =
     (case readFrame e s of
        (Inl er, _) \<Rightarrow> ([], er)
      | (Inr (op, p), r) \<Rightarrow>
          if op = 8 then ([], EOF)
          else (case stream_data e r of (d, er) \<Rightarrow> ((if op = 1 \<or> op = 2 then p else []) @ d, er)))"
  by pat_completeness auto
termination
  by (relation "measure (\<lambda>(e, s). length s)") (auto dest!: readFrame_Inr_shorter [OF sym])

declare stream_data.simps [simp del]

end
