(* ===== verification/WsLink.thy ===== *)
theory WsLink
  imports WsCarrier
begin

text \<open>
  What travels over a carrier connection. \<open>on_wire\<close> says the bytes sent are whole frames, followed
  at most by the beginning of one on which the connection broke; \<open>stream_data\<close> on them is the data
  the frames before the first close frame carry. \<open>up_inv\<close> and \<open>down_inv\<close> are the invariants of the
  two goroutines of \<open>pump\<close>.
\<close>

type_synonym frame_spec = "byte \<times> byte list \<times> mask_key option"

definition wire :: "frame_spec list \<Rightarrow> byte list" where
  "wire fs = concat (map (\<lambda>(op, p, k). frame op p k) fs)"

fun carried :: "frame_spec list \<Rightarrow> byte list" where
  "carried [] = []"
| "carried ((op, p, k) # fs) =
     (if op = 8 then [] else (if op = 1 \<or> op = 2 then p else []) @ carried fs)"

definition open_wire :: "frame_spec list \<Rightarrow> bool" where
  "open_wire fs \<longleftrightarrow> (\<forall>f \<in> set fs. fst f \<noteq> 8)"

definition torn :: "bool \<Rightarrow> byte list \<Rightarrow> ws_out \<Rightarrow> bool" where
  "torn client tail c \<longleftrightarrow> tail = [] \<or> wo_room c = Some 0 \<and>
     (\<exists>op p k q. may_frame client (op, p, k) \<and> q \<noteq> [] \<and> frame op p k = tail @ q)"

definition on_wire :: "bool \<Rightarrow> frame_spec list \<Rightarrow> byte list \<Rightarrow> ws_out \<Rightarrow> bool" where
  "on_wire client fs tail c \<longleftrightarrow>
     wo_sent c = wire fs @ tail \<and> (\<forall>f \<in> set fs. may_frame client f) \<and> torn client tail c"

lemma opcode_low: "(op :: byte) < 16 \<Longrightarrow> Bit_Operations.and op 0x0f = op"
proof -
  assume "op < 16"
  then have "unat op < 16" by (simp add: word_less_nat_alt)
  moreover have m: "(0x0f :: byte) = Bit_Operations.mask 4" by (simp add: mask_eq_exp_minus_1)
  ultimately show ?thesis
    unfolding m take_bit_eq_mask [symmetric] word_unat_eq_iff
    by (simp only: unsigned_take_bit_eq) (simp add: take_bit_eq_mod)
qed

lemma stream_data_frame:
  assumes "may_frame client (op, p, k)"
  shows "stream_data client (frame op p k @ r) =
    (if op = 8 then ([], EOF)
     else (case stream_data client r of (d, er) \<Rightarrow> ((if op = 1 \<or> op = 2 then p else []) @ d, er)))"
  using assms
  by (subst stream_data.simps) (simp add: readFrame_frame may_frame_def opcode_low)

lemma stream_data_cut:
  assumes "torn client tail c"
  shows "fst (stream_data client tail) = []"
proof -
  have "\<exists>e. fst (readFrame client tail) = Inl e"
  proof (cases "tail = []")
    case False
    with assms obtain op p k q where "may_frame client (op, p, k)" "q \<noteq> []" "frame op p k = tail @ q"
      by (auto simp: torn_def)
    then show ?thesis by (intro readFrame_cut [of p client k op tail q]) (auto simp: may_frame_def)
  qed (simp add: readFrame_Nil)
  then show ?thesis by (subst stream_data.simps) (auto split: prod.split sum.split)
qed

lemma stream_data_wire:
  assumes "\<forall>f \<in> set fs. may_frame client f" and "torn client tail c"
  shows "fst (stream_data client (wire fs @ tail)) = carried fs
    \<and> (\<not> open_wire fs \<longrightarrow> snd (stream_data client (wire fs @ tail)) = EOF)"
  using assms(1)
proof (induction fs)
  case Nil
  then show ?case using stream_data_cut [OF assms(2)] by (simp add: wire_def open_wire_def)
next
  case (Cons f fs)
  obtain op p k where f: "f = (op, p, k)" by (cases f) auto
  have w: "wire (f # fs) @ tail = frame op p k @ (wire fs @ tail)" by (simp add: wire_def f)
  have m: "may_frame client (op, p, k)" using Cons.prems f by simp
  show ?case
    using Cons.IH Cons.prems unfolding w stream_data_frame [OF m]
    by (auto simp: f open_wire_def split: prod.split)
qed

lemma carried_append: "open_wire fs \<Longrightarrow> carried (fs @ gs) = carried fs @ carried gs"
  by (induction fs rule: carried.induct) (auto simp: open_wire_def)

lemma out_write_entropy: "out_write bs c = (r, c') \<Longrightarrow> wo_entropy c' = wo_entropy c"
  using out_write_frame(1) [of bs c] by (simp del: out_write_frame)

lemma carried_closed: "\<not> open_wire fs \<Longrightarrow> carried (fs @ gs) = carried fs"
  by (induction fs rule: carried.induct) (auto simp: open_wire_def)

text \<open>A write adds a whole frame or fails, leaving at most a broken one behind.\<close>

lemma writeFrame_ends:
  assumes "writeFrame op p client c = (r, c')"
  shows "(\<exists>k. (k \<noteq> None) = client \<and>
       (r = None \<and> wo_sent c' = wo_sent c @ frame op p k \<and> (wo_room c' = None \<longleftrightarrow> wo_room c = None)
          \<and> wo_room c \<noteq> Some 0
      \<or> (\<exists>e tail q. r = Some e \<and> q \<noteq> [] \<and> frame op p k = tail @ q \<and> wo_sent c' = wo_sent c @ tail \<and> wo_room c' = Some 0
            \<and> wo_room c = Some (length tail))))
    \<or> (\<exists>e. r = Some e \<and> wo_sent c' = wo_sent c \<and> wo_room c' = wo_room c \<and> wo_entropy c (wo_drawn c) = None)"
    and "wo_entropy c' = wo_entropy c"
proof -
  have two: "wo_entropy c2 = wo_entropy c1"
    if "(case out_write h c1 of (Some e, c') \<Rightarrow> (Some e, c') | (None, c') \<Rightarrow> out_write b c') = (r2, c2)"
    for h b r2 and c1 c2 :: ws_out
    using that by (auto split: prod.splits option.splits dest!: out_write_entropy)
  show "wo_entropy c' = wo_entropy c"
    using assms two by (fastforce simp: writeFrame_def Let_def split: if_splits option.splits)
  show "(\<exists>k. (k \<noteq> None) = client \<and>
       (r = None \<and> wo_sent c' = wo_sent c @ frame op p k \<and> (wo_room c' = None \<longleftrightarrow> wo_room c = None)
          \<and> wo_room c \<noteq> Some 0
      \<or> (\<exists>e tail q. r = Some e \<and> q \<noteq> [] \<and> frame op p k = tail @ q \<and> wo_sent c' = wo_sent c @ tail \<and> wo_room c' = Some 0
            \<and> wo_room c = Some (length tail))))
    \<or> (\<exists>e. r = Some e \<and> wo_sent c' = wo_sent c \<and> wo_room c' = wo_room c \<and> wo_entropy c (wo_drawn c) = None)"
  proof (cases client)
    case False
    then have "(case out_write (frame_header op (length p) False) c of
        (Some e, c') \<Rightarrow> (Some e, c') | (None, c') \<Rightarrow> out_write p c') = (r, c')"
      using assms by (simp add: writeFrame_def Let_def)
    from out_write_two [OF _ this] False show ?thesis
      by (intro disjI1 exI [of _ None]) (auto simp: frame_def frame_header_def)
  next
    case True
    show ?thesis
    proof (cases "wo_entropy c (wo_drawn c)")
      case None
      then show ?thesis using assms True by (auto simp: writeFrame_def Let_def)
    next
      case (Some key)
      then have "(case out_write (frame_header op (length p) True @ key_bytes key) (c\<lparr>wo_drawn := Suc (wo_drawn c)\<rparr>) of
          (Some e, c') \<Rightarrow> (Some e, c') | (None, c') \<Rightarrow> out_write (mask_from 0 key p) c') = (r, c')"
        using assms True by (simp add: writeFrame_def Let_def)
      from out_write_two [OF _ this] True show ?thesis
        by (intro disjI1 exI [of _ "Some key"]) (auto simp: frame_def frame_header_def)
    qed
  qed
qed

lemma writeFrame_on_wire:
  assumes w: "on_wire client fs tail c" and f: "op < 16" "length p \<le> max_frame"
    and e: "writeFrame op p client c = (r, c')"
  shows "(r = None \<and> (\<exists>k. on_wire client (fs @ [(op, p, k)]) [] c')) \<or> (\<exists>er tail'. r = Some er \<and> on_wire client fs tail' c')"
    and "steady c \<Longrightarrow> r = None \<and> steady c'"
proof -
  note ends = writeFrame_ends [OF e]
  have m: "may_frame client (op, p, k)" if "(k \<noteq> None) = client" for k
    using f that by (simp add: may_frame_def)
  show "(r = None \<and> (\<exists>k. on_wire client (fs @ [(op, p, k)]) [] c')) \<or> (\<exists>er tail'. r = Some er \<and> on_wire client fs tail' c')"
    using ends(1)
  proof (elim disjE exE conjE)
    fix k assume k: "(k \<noteq> None) = client" and r: "r = None" "wo_sent c' = wo_sent c @ frame op p k"
      and room: "wo_room c \<noteq> Some 0"
    have "tail = []" using w room by (auto simp: on_wire_def torn_def)
    then have "on_wire client (fs @ [(op, p, k)]) [] c'"
      using w r(2) m [OF k] by (auto simp: on_wire_def wire_def torn_def)
    with r(1) show ?thesis by auto
  next
    fix k er tail' q
    assume k: "(k \<noteq> None) = client" and r: "r = Some er" "q \<noteq> []" "frame op p k = tail' @ q"
      "wo_sent c' = wo_sent c @ tail'" "wo_room c' = Some 0" "wo_room c = Some (length tail')"
    have "on_wire client fs (tail @ tail') c'"
    proof (cases "tail = []")
      case True
      have "torn client tail' c'" unfolding torn_def using r(2,3,5) m [OF k] by blast
      then show ?thesis using True w r(4) by (simp add: on_wire_def)
    next
      case False
      then have "tail' = []" using w r(6) by (auto simp: on_wire_def torn_def)
      then show ?thesis using w r(4,5) False by (auto simp: on_wire_def torn_def)
    qed
    with r(1) show ?thesis by auto
  next
    fix er assume "r = Some er" "wo_sent c' = wo_sent c" "wo_room c' = wo_room c"
    then show ?thesis using w by (auto simp: on_wire_def torn_def)
  qed
  show "r = None \<and> steady c'" if "steady c"
    using that ends by (auto simp: steady_def simp del: not_None_eq)
qed

subsection \<open>The two goroutines\<close>

text \<open>What the plain side hands over: the chunks up to the first error.\<close>

fun plain_data :: "(byte list \<times> io_error option) list \<Rightarrow> byte list" where
  "plain_data [] = []"
| "plain_data ((bs, err) # r) = bs @ (if err = None then plain_data r else [])"

definition up_inv :: "bool \<Rightarrow> byte list \<Rightarrow> pump_state \<Rightarrow> bool" where
  "up_inv client whole s \<longleftrightarrow> (\<exists>fs tail. on_wire client fs tail (pu_conn s) \<and>
     (\<forall>c \<in> set (pu_plain s). length (fst c) \<le> 32 * 1024) \<and>
     (case pu_up s of
        Copying \<Rightarrow> open_wire fs \<and> carried fs @ plain_data (pu_plain s) = whole
      | Closing e \<Rightarrow> open_wire fs \<and> carried fs = whole
      | Finished \<Rightarrow> (\<exists>rest. carried fs @ rest = whole) \<and>
          (steady (pu_conn s) \<longrightarrow> carried fs = whole \<and> \<not> open_wire fs)))"

text \<open>Only the second goroutine writes to the plain side, what the stream carries, in order.\<close>

definition down_inv :: "bool \<Rightarrow> byte list \<Rightarrow> pump_state \<Rightarrow> bool" where
  "down_inv client arriving s \<longleftrightarrow>
     (\<exists>rest. wo_sent (pu_target s) @ rest = fst (stream_data (\<not> client) arriving) \<and>
       (pu_down s = Copying \<longrightarrow> rest = fst (stream_data (\<not> client) (pu_stream s))) \<and>
       (wo_room (pu_target s) = None \<longrightarrow> pu_down s \<noteq> Copying \<longrightarrow> rest = []))"

lemma open_wire_append: "open_wire (fs @ gs) \<longleftrightarrow> open_wire fs \<and> open_wire gs"
  by (auto simp: open_wire_def)

lemma steady_Some: "steady c \<Longrightarrow> writeFrame op p client c = (r, c') \<Longrightarrow> r = None \<and> steady c'"
  by (cases "r") (use writeFrame_ends [of op p client c r c'] in \<open>auto simp: steady_def simp del: not_None_eq\<close>)

lemma steady_back: "\<not> steady c \<Longrightarrow> writeFrame op p client c = (r, c') \<Longrightarrow> \<not> steady c'"
  using writeFrame_ends [of op p client c r c'] by (auto simp: steady_def simp del: not_None_eq)

lemma up_invI:
  "on_wire client fs tail (pu_conn s) \<Longrightarrow> \<forall>c \<in> set (pu_plain s). length (fst c) \<le> 32 * 1024 \<Longrightarrow>
   (case pu_up s of
        Copying \<Rightarrow> open_wire fs \<and> carried fs @ plain_data (pu_plain s) = whole
      | Closing e \<Rightarrow> open_wire fs \<and> carried fs = whole
      | Finished \<Rightarrow> (\<exists>rest. carried fs @ rest = whole) \<and>
          (steady (pu_conn s) \<longrightarrow> carried fs = whole \<and> \<not> open_wire fs)) \<Longrightarrow> up_inv client whole s"
  unfolding up_inv_def by blast

text \<open>A frame of the first goroutine on an open wire: there in full, or the connection is lost.\<close>

lemma add_frame:
  assumes "on_wire client fs tail c" and "open_wire fs" and "length p \<le> max_frame" and "op = 2 \<or> op = 8"
    and e: "writeFrame op p client c = (r, c')"
  shows "(r = None \<and> (\<exists>gs. on_wire client gs [] c' \<and> (open_wire gs \<longleftrightarrow> op = 2)
            \<and> carried gs = carried fs @ (if op = 2 then p else [])))
       \<or> (\<exists>er tl. r = Some er \<and> on_wire client fs tl c' \<and> \<not> steady c')"
proof -
  have op: "op < 16" using assms(4) by auto
  from writeFrame_on_wire(1) [OF assms(1) op assms(3) e] show ?thesis
  proof (elim disjE exE conjE)
    fix k assume "r = None" "on_wire client (fs @ [(op, p, k)]) [] c'"
    moreover have "open_wire (fs @ [(op, p, k)]) \<longleftrightarrow> op = 2"
      "carried (fs @ [(op, p, k)]) = carried fs @ (if op = 2 then p else [])"
      using assms(2,4) by (auto simp: carried_append open_wire_append open_wire_def [of "[_]"])
    ultimately show ?thesis by blast
  next
    fix er tl assume "r = Some er" "on_wire client fs tl c'"
    moreover have "\<not> steady c'" using \<open>r = Some er\<close> steady_Some [OF _ e] steady_back [OF _ e] by auto
    ultimately show ?thesis by blast
  qed
qed

lemma pump_up_closing:
  assumes w: "on_wire client fs tail (pu_conn s)" "open_wire fs" "carried fs = whole"
    and small: "\<forall>c \<in> set (pu_plain s). length (fst c) \<le> 32 * 1024"
    and st: "pu_up s = Closing e" "pump_up client s = Some s'"
  shows "up_inv client whole s'"
proof -
  obtain r c where e: "writeFrame 8 [] client (pu_conn s) = (r, c)"
    by (cases "writeFrame 8 [] client (pu_conn s)")
  have s': "s' = s\<lparr>pu_conn := c, pu_done := pu_done s @ [e], pu_up := Finished\<rparr>"
    using st e by (simp add: pump_up_def)
  from add_frame [OF w(1,2) _ _ e] obtain gs tl where "on_wire client gs tl c" "carried gs = whole"
    "steady c \<longrightarrow> \<not> open_wire gs"
    using w(3) by auto
  then show ?thesis unfolding s' using small by (intro up_invI [of client gs tl]) auto
qed

lemma pump_up_copying:
  assumes w: "on_wire client fs tail (pu_conn s)" "open_wire fs" "carried fs @ plain_data (pu_plain s) = whole"
    and small: "\<forall>c \<in> set (pu_plain s). length (fst c) \<le> 32 * 1024"
    and st: "pu_up s = Copying" "pump_up client s = Some s'"
  shows "up_inv client whole s'"
proof -
  obtain bs err rest where pl: "pu_plain s = (bs, err) # rest"
    using st by (cases "pu_plain s") (auto simp: pump_up_def)
  have ph: "carried fs @ bs @ (if err = None then plain_data rest else []) = whole" using w(3) pl by simp
  have small': "\<forall>c \<in> set rest. length (fst c) \<le> 32 * 1024" using small pl by simp
  obtain r c where e: "(if bs = [] then (None, pu_conn s) else writeFrame 2 bs client (pu_conn s)) = (r, c)"
    by (cases "if bs = [] then (None, pu_conn s) else writeFrame 2 bs client (pu_conn s)")
  have b: "length bs \<le> max_frame" using small pl by (simp add: max_frame_def)
  have "(r = None \<and> (\<exists>gs tl. on_wire client gs tl c \<and> open_wire gs \<and> carried gs = carried fs @ bs))
      \<or> (\<exists>er tl. r = Some er \<and> on_wire client fs tl c \<and> \<not> steady c)"
  proof (cases "bs = []")
    case False
    then show ?thesis using add_frame [OF w(1,2) b, of 2 r c] e by auto
  qed (use e w in auto)
  then show ?thesis
  proof (elim disjE exE conjE)
    fix gs tl assume g: "r = None" "on_wire client gs tl c" "open_wire gs" "carried gs = carried fs @ bs"
    have "s' = (let t = s\<lparr>pu_plain := rest, pu_conn := c\<rparr>
        in case err of None \<Rightarrow> t | Some e \<Rightarrow> t\<lparr>pu_up := Closing e\<rparr>)"
      using st pl e g(1) by (simp add: pump_up_def Let_def split: option.splits)
    then show ?thesis using g(2-4) small' ph st(1) by (intro up_invI [of client gs tl]) (cases err; simp)+
  next
    fix er tl assume g: "r = Some er" "on_wire client fs tl c" "\<not> steady c"
    have "s' = s\<lparr>pu_plain := rest, pu_conn := c, pu_done := pu_done s @ [er], pu_up := Finished\<rparr>"
      using st pl e g(1) by (simp add: pump_up_def Let_def)
    then show ?thesis using g(2,3) small' ph by (intro up_invI [of client fs tl]) auto
  qed
qed

lemma pump_up_inv:
  assumes i: "up_inv client whole s" and st: "pump_up client s = Some s'"
  shows "up_inv client whole s'"
proof (cases "pu_up s")
  case Copying
  with i obtain fs tail where "on_wire client fs tail (pu_conn s)" "open_wire fs"
    "carried fs @ plain_data (pu_plain s) = whole" "\<forall>c \<in> set (pu_plain s). length (fst c) \<le> 32 * 1024"
    by (auto simp: up_inv_def)
  then show ?thesis by (rule pump_up_copying [OF _ _ _ _ Copying st])
next
  case (Closing e)
  with i obtain fs tail where "on_wire client fs tail (pu_conn s)" "open_wire fs" "carried fs = whole"
    "\<forall>c \<in> set (pu_plain s). length (fst c) \<le> 32 * 1024"
    by (auto simp: up_inv_def)
  then show ?thesis by (rule pump_up_closing [OF _ _ _ _ Closing st])
next
  case Finished
  then show ?thesis using st by (simp add: pump_up_def)
qed

text \<open>A step of the second goroutine writes at most a pong, which carries no data.\<close>

lemma carried_pong: "carried (fs @ [(10, p, k)]) = carried fs"
  by (cases "open_wire fs") (simp_all add: carried_append carried_closed)

lemma pump_down_conn:
  assumes "pump_down client s = Some s'"
  shows "pu_up s' = pu_up s \<and> pu_plain s' = pu_plain s \<and>
    (pu_conn s' = pu_conn s \<or>
      (\<exists>p r. readFrame (\<not> client) (pu_stream s) = (Inr (9, p), r) \<and> pu_conn s' = snd (writeFrame 10 p client (pu_conn s))))"
proof (cases "pu_down s")
  case Copying
  obtain v r where rd: "readFrame (\<not> client) (pu_stream s) = (v, r)" by (cases "readFrame (\<not> client) (pu_stream s)")
  show ?thesis
  proof (cases v)
    case (Inr x)
    then show ?thesis using assms Copying rd
      by (cases x) (auto simp: pump_down_def Let_def split: option.splits if_splits prod.splits)
  qed (use assms Copying rd in \<open>auto simp: pump_down_def\<close>)
qed (use assms in \<open>auto simp: pump_down_def\<close>)

lemma pump_down_up_inv:
  assumes i: "up_inv client whole s" and st: "pump_down client s = Some s'"
  shows "up_inv client whole s'"
proof (cases "pu_conn s' = pu_conn s")
  case True
  then have "up_inv client whole s' = up_inv client whole s"
    using pump_down_conn [OF st] unfolding up_inv_def by (simp only:)
  with i show ?thesis by simp
next
  case False
  with pump_down_conn [OF st] obtain p r where rd: "readFrame (\<not> client) (pu_stream s) = (Inr (9, p), r)"
    and same: "pu_up s' = pu_up s" "pu_plain s' = pu_plain s" and pong: "pu_conn s' = snd (writeFrame 10 p client (pu_conn s))"
    by auto
  obtain x c where e: "writeFrame 10 p client (pu_conn s) = (x, c)" by (cases "writeFrame 10 p client (pu_conn s)")
  have c: "pu_conn s' = c" using pong by (simp add: e)
  from i obtain fs tail where w: "on_wire client fs tail (pu_conn s)"
    and small: "\<forall>c \<in> set (pu_plain s). length (fst c) \<le> 32 * 1024"
    and ph: "case pu_up s of
        Copying \<Rightarrow> open_wire fs \<and> carried fs @ plain_data (pu_plain s) = whole
      | Closing e \<Rightarrow> open_wire fs \<and> carried fs = whole
      | Finished \<Rightarrow> (\<exists>rest. carried fs @ rest = whole) \<and>
          (steady (pu_conn s) \<longrightarrow> carried fs = whole \<and> \<not> open_wire fs)"
    by (auto simp: up_inv_def)
  have keeps: "steady c \<Longrightarrow> steady (pu_conn s)" using steady_back [OF _ e] by blast
  have op: "(10 :: byte) < 16" by simp
  have "open_wire (fs @ [(10, p, k)]) = open_wire fs" for k
    by (simp add: open_wire_append open_wire_def [of "[_]"])
  then obtain gs tl where "on_wire client gs tl c" "carried gs = carried fs" "open_wire gs = open_wire fs"
    using writeFrame_on_wire(1) [OF w op readFrame_well_formed [OF rd] e] carried_pong by blast
  then show ?thesis using ph small keeps
    by (intro up_invI [of client gs tl]) (cases "pu_up s"; simp add: same c)+
qed

lemma pump_run_up_inv: "pump_run client s s' \<Longrightarrow> up_inv client whole s \<Longrightarrow> up_inv client whole s'"
  unfolding pump_run_def
  by (induction rule: rtranclp_induct) (auto elim!: pump_step.cases intro: pump_up_inv pump_down_up_inv)

lemma pump_up_conn:
  assumes "pump_up client s = Some s'"
  shows "pu_conn s' = pu_conn s \<or> (\<exists>op p. pu_conn s' = snd (writeFrame op p client (pu_conn s)))"
  using assms
  by (auto simp: pump_up_def Let_def split: copier.splits list.splits prod.splits option.splits if_splits) (metis snd_conv)+

lemma pump_run_steady: "pump_run client s s' \<Longrightarrow> steady (pu_conn s) \<Longrightarrow> steady (pu_conn s')"
  unfolding pump_run_def
proof (induction rule: rtranclp_induct)
  case (step t u)
  then have t: "steady (pu_conn t)" by simp
  then have wr: "steady (snd (writeFrame op p client (pu_conn t)))" for op p
    using steady_Some [OF t, of op p client "fst (writeFrame op p client (pu_conn t))"] by simp
  show ?case
    using step.hyps(2)
  proof cases
    case up
    then show ?thesis using pump_up_conn [OF up] t wr by auto
  next
    case down
    then show ?thesis using pump_down_conn [OF down] t wr by auto
  qed
qed simp

lemma out_write_all: "wo_room c = None \<Longrightarrow> out_write bs c = (None, c\<lparr>wo_sent := wo_sent c @ bs\<rparr>)"
  by (simp add: out_write_def)

lemma out_write_prefix:
  "out_write bs c = (r, c') \<Longrightarrow> \<exists>p q. bs = p @ q \<and> wo_sent c' = wo_sent c @ p \<and> (r = None \<longrightarrow> q = [])
     \<and> (wo_room c = None \<longrightarrow> r = None) \<and> (wo_room c' = None \<longleftrightarrow> wo_room c = None)"
  by (auto simp: out_write_def split: option.splits if_splits)
    (metis append_take_drop_id)

lemma pump_down_inv:
  assumes i: "down_inv client arriving s" and st: "pump_down client s = Some s'"
  shows "down_inv client arriving s'"
proof -
  from st have run: "pu_down s = Copying" by (auto simp: pump_down_def split: copier.splits)
  define d where "d = fst (stream_data (\<not> client) (pu_stream s))"
  from i run have have_d: "wo_sent (pu_target s) @ d = fst (stream_data (\<not> client) arriving)"
    by (auto simp: down_inv_def d_def)
  obtain v r where rd: "readFrame (\<not> client) (pu_stream s) = (v, r)" by (cases "readFrame (\<not> client) (pu_stream s)")
  have d: "d = (case v of Inl _ \<Rightarrow> [] | Inr (op, p) \<Rightarrow> if op = 8 then []
      else (if op = 1 \<or> op = 2 then p else []) @ fst (stream_data (\<not> client) r))"
    unfolding d_def by (subst stream_data.simps) (auto simp: rd split: sum.split prod.split)
  show ?thesis
  proof (cases v)
    case (Inl e)
    then show ?thesis using st run rd have_d d by (auto simp: pump_down_def down_inv_def)
  next
    case (Inr x)
    obtain op p where x: "x = (op, p)" by (cases x)
    consider (data) "op = 1 \<or> op = 2" "p \<noteq> []" | (close) "op = 8" | (other) "\<not> (op = 1 \<or> op = 2) \<or> p = []" "op \<noteq> 8"
      by auto
    then show ?thesis
    proof cases
      case data
      obtain w t where wr: "out_write p (pu_target s) = (w, t)" by (cases "out_write p (pu_target s)")
      from out_write_prefix [OF wr] obtain a b where ab: "p = a @ b" "wo_sent t = wo_sent (pu_target s) @ a"
        "w = None \<longrightarrow> b = []" "wo_room (pu_target s) = None \<longrightarrow> w = None" "wo_room t = None \<longleftrightarrow> wo_room (pu_target s) = None"
        by (elim exE conjE) (rule that)
      have "op \<noteq> 8" using data(1) by auto
      then have d': "d = a @ b @ fst (stream_data (\<not> client) r)" using data(1) by (simp add: d Inr x ab(1))
      have s': "s' = (let t' = s\<lparr>pu_stream := r, pu_target := t\<rparr>
          in case w of None \<Rightarrow> t' | Some e \<Rightarrow> t'\<lparr>pu_done := pu_done s @ [e], pu_down := Finished\<rparr>)"
        using st data by (simp add: pump_down_def run rd Inr x wr Let_def split: option.splits)
      have "wo_sent t @ b @ fst (stream_data (\<not> client) r) = fst (stream_data (\<not> client) arriving)"
        using have_d d' ab(2) by simp
      then show ?thesis using ab(3-5) run unfolding s' down_inv_def
        by (intro exI [of _ "b @ fst (stream_data (\<not> client) r)"]) (cases w; auto)
    next
      case close
      then show ?thesis using st run rd Inr x have_d d by (auto simp: pump_down_def down_inv_def Let_def)
    next
      case other
      then have "d = fst (stream_data (\<not> client) r)" using d Inr x by auto
      then show ?thesis using st run rd Inr x have_d other
        by (auto simp: pump_down_def down_inv_def Let_def split: if_splits)
    qed
  qed
qed

lemma pump_up_target:
  "pump_up client s = Some s' \<Longrightarrow> pu_target s' = pu_target s \<and> pu_stream s' = pu_stream s \<and> pu_down s' = pu_down s"
  by (auto simp: pump_up_def Let_def split: copier.splits list.splits prod.splits option.splits if_splits)

lemma pump_step_down_inv: "pump_step client s s' \<Longrightarrow> down_inv client arriving s \<Longrightarrow> down_inv client arriving s'"
proof (erule pump_step.cases)
  fix t t' assume "s = t" "s' = t'" and u: "pump_up client t = Some t'" and "down_inv client arriving s"
  then show "down_inv client arriving s'" using pump_up_target [OF u] by (simp add: down_inv_def)
qed (simp add: pump_down_inv)

lemma pump_run_down_inv: "pump_run client s s' \<Longrightarrow> down_inv client arriving s \<Longrightarrow> down_inv client arriving s'"
  unfolding pump_run_def by (induction rule: rtranclp_induct) (auto intro: pump_step_down_inv)

lemma pump_down_room:
  assumes "pump_down client s = Some s'"
  shows "wo_room (pu_target s') = None \<longleftrightarrow> wo_room (pu_target s) = None"
proof (cases "pu_target s' = pu_target s")
  case False
  obtain v r where rd: "readFrame (\<not> client) (pu_stream s) = (v, r)" by (cases "readFrame (\<not> client) (pu_stream s)")
  from False assms obtain p where "pu_target s' = snd (out_write p (pu_target s))"
    by (auto simp: pump_down_def rd Let_def split: copier.splits sum.splits prod.splits option.splits if_splits)
      (metis snd_conv)+
  then show ?thesis
    using out_write_prefix [of p "pu_target s" "fst (out_write p (pu_target s))" "pu_target s'"] by auto
qed simp

lemma pump_run_room:
  "pump_run client s s' \<Longrightarrow> wo_room (pu_target s') = None \<longleftrightarrow> wo_room (pu_target s) = None"
  unfolding pump_run_def
proof (induction rule: rtranclp_induct)
  case (step t u)
  from step.hyps(2) show ?case
    using step.IH pump_up_target pump_down_room by cases fastforce+
qed simp

end
