(* ===== verification/WsHandshake.thy ===== *)
theory WsHandshake
  imports WsFrames Base64
begin

text \<open>
  How a carrier connection is opened (\<open>internal/wscarrier/wscarrier.go\<close>): the address and path the
  client derives from its URL, the request it writes, what \<open>upgrade\<close> asks of a request and answers,
  and how the client reads that answer. Text on the wire is a string of bytes. A parsed URL is a
  record; \<open>url.Parse\<close> and \<open>URL.RequestURI\<close> are parameters, and so is SHA-1.
\<close>

record url =
  u_scheme :: string
  u_host :: string
  u_hostname :: string
  u_path :: string

datatype carrier_error = BadURL string | BadScheme string | UpgradeRefused string | StreamEnded | AcceptMismatch

subsection \<open>The URL\<close>

definition carrier_path :: "string \<Rightarrow> string \<Rightarrow> string" where
  "carrier_path path pathPrefix =
     (let p = trim_space pathPrefix;
          prefix = (if p \<noteq> [] then ''/'' @ trim_chars p ''/'' @ ''/'' else p);
          base = trim_right_chars path ''/'';
          path' = (if base = [] then prefix
                   else if prefix \<noteq> [] \<and> \<not> has_suffix base prefix then base @ prefix
                   else path)
      in if path' = [] then ''/'' else path')"

definition carrierURL :: "(string \<Rightarrow> string + url) \<Rightarrow> string \<Rightarrow> string \<Rightarrow> carrier_error + url" where
  "carrierURL parse rawURL pathPrefix =
     (case parse rawURL of
        Inl e \<Rightarrow> Inl (BadURL e)
      | Inr u \<Rightarrow>
          if u_scheme u \<noteq> ''ws'' \<and> u_scheme u \<noteq> ''wss'' then Inl (BadScheme (u_scheme u))
          else Inr (u\<lparr>u_path := carrier_path (u_path u) pathPrefix\<rparr>))"

definition dial_addr :: "url \<Rightarrow> string" where
  "dial_addr u =
     (if contains (u_host u) '':'' then u_host u
      else if u_scheme u = ''wss'' then u_host u @ '':443'' else u_host u @ '':80'')"

subsection \<open>The request\<close>

definition crlf :: string where "crlf = [CHR 0x0D, nl]"

definition header_line :: "string \<Rightarrow> string \<Rightarrow> string" where
  "header_line name v = name @ '': '' @ v @ crlf"

definition dial_headers :: "string \<Rightarrow> string \<Rightarrow> (string \<times> string) list" where
  "dial_headers host key =
     [(''Host'', host), (''Upgrade'', ''websocket''), (''Connection'', ''Upgrade''),
      (''Sec-WebSocket-Key'', key), (''Sec-WebSocket-Version'', ''13''), (''User-Agent'', ''reach-ws-carrier'')]"

text \<open>\<open>dialWebSocket\<close> encodes sixteen random bytes as the key, with padding.\<close>

definition b64_padded :: "string \<Rightarrow> string" where
  "b64_padded s = b64_encode std_alphabet s @ replicate ((3 - length s mod 3) mod 3) (CHR ''='')"

definition dial_request :: "(url \<Rightarrow> string) \<Rightarrow> url \<Rightarrow> string \<Rightarrow> string" where
  "dial_request request_uri u keyBytes =
     (let path = (if request_uri u = [] then ''/'' else request_uri u)
      in ''GET '' @ path @ '' HTTP/1.1'' @ crlf @
         concat (map (\<lambda>(n, v). header_line n v) (dial_headers (u_host u) (b64_padded keyBytes))) @ crlf)"

subsection \<open>Headers\<close>

text \<open>
  \<open>strings.EqualFold\<close> against ASCII text: besides the case of letters it identifies \<open>k\<close> with the
  Kelvin sign (bytes E2 84 AA) and \<open>s\<close> with the long s (bytes C5 BF).
\<close>

fun fold_special :: "string \<Rightarrow> string" where
  "fold_special (a # b # c # s) =
     (if [a, b, c] = [CHR 0xE2, CHR 0x84, CHR 0xAA] then CHR ''k'' # fold_special s
      else if [a, b] = [CHR 0xC5, CHR 0xBF] then CHR ''s'' # fold_special (c # s)
      else a # fold_special (b # c # s))"
| "fold_special [a, b] = (if [a, b] = [CHR 0xC5, CHR 0xBF] then ''s'' else [a, b])"
| "fold_special s = s"

definition fold_equal :: "string \<Rightarrow> string \<Rightarrow> bool" where
  "fold_equal s ascii \<longleftrightarrow> equal_fold (fold_special s) ascii"

definition headerHasToken :: "string \<Rightarrow> string \<Rightarrow> bool" where
  "headerHasToken v token \<longleftrightarrow> (\<exists>part \<in> set (split_on (CHR '','') v). fold_equal (trim_space part) token)"

text \<open>\<open>Header.Get\<close>: the first value under the name, whose letter case does not matter.\<close>

definition http_header :: "(string \<times> string) list \<Rightarrow> string \<Rightarrow> string" where
  "http_header hs name =
     (case List.find (\<lambda>(n, v). equal_fold n name) hs of None \<Rightarrow> [] | Some (n, v) \<Rightarrow> v)"

subsection \<open>The server's answer\<close>

definition websocketGUID :: string where "websocketGUID = ''258EAFA5-E914-47DA-95CA-C5AB0DC85B11''"

definition acceptKey :: "(string \<Rightarrow> string) \<Rightarrow> string \<Rightarrow> string" where
  "acceptKey sha1 key = b64_padded (sha1 (key @ websocketGUID))"

datatype hijack = Unsupported | HijackFailed string | Hijacked

datatype upgrade_result =
    HttpError nat string        \<comment> \<open>an HTTP error answer\<close>
  | UpgradeFailed string        \<comment> \<open>the connection was taken over but is lost\<close>
  | Upgraded string             \<comment> \<open>the bytes written before the frames\<close>

definition upgrade_response :: "string \<Rightarrow> string" where
  "upgrade_response accept =
     ''HTTP/1.1 101 Switching Protocols'' @ crlf @ header_line ''Upgrade'' ''websocket'' @
     header_line ''Connection'' ''Upgrade'' @ header_line ''Sec-WebSocket-Accept'' accept @ crlf"

definition upgrade :: "(string \<Rightarrow> string) \<Rightarrow> hijack \<Rightarrow> string option \<Rightarrow> (string \<times> string) list \<Rightarrow> upgrade_result" where
  "upgrade sha1 hj write_error hs =
     (if \<not> headerHasToken (http_header hs ''Connection'') ''upgrade''
          \<or> \<not> fold_equal (http_header hs ''Upgrade'') ''websocket''
      then HttpError 400 ''not a websocket upgrade''
      else let key = http_header hs ''Sec-WebSocket-Key'' in
        if key = [] \<or> http_header hs ''Sec-WebSocket-Version'' \<noteq> ''13''
        then HttpError 400 ''bad websocket handshake''
        else case hj of
            Unsupported \<Rightarrow> HttpError 500 ''hijacking unsupported''
          | HijackFailed e \<Rightarrow> UpgradeFailed e
          | Hijacked \<Rightarrow>
              (case write_error of
                 Some e \<Rightarrow> UpgradeFailed e
               | None \<Rightarrow> Upgraded (upgrade_response (acceptKey sha1 key))))"

subsection \<open>The client reads it\<close>

text \<open>\<open>ReadString('\n')\<close>: the line without its end and what follows, or the end of the stream.\<close>

definition read_line :: "string \<Rightarrow> (string \<times> string) option" where
  "read_line s = cut nl s"

lemma cut_shorter: "cut c s = Some (a, b) \<Longrightarrow> length b < length s"
  using cut_Some [of c s a b] by auto

function read_headers :: "string \<Rightarrow> (string \<times> string) list \<Rightarrow> ((string \<times> string) list \<times> string) option" where
  "read_headers s hs =
     (case read_line s of
        None \<Rightarrow> None
      | Some (raw, rest) \<Rightarrow>
          let line = trim_right_chars raw [CHR 0x0D, nl] in
          if line = [] then Some (hs, rest)
          else read_headers rest
                 (case cut (CHR '':'') line of
                    None \<Rightarrow> hs
                  | Some (name, v) \<Rightarrow> hs @ [(trim_space name, trim_space v)]))"
  by pat_completeness auto
termination
  by (relation "measure (\<lambda>(s, hs). length s)") (auto simp: read_line_def dest: cut_shorter)

declare read_headers.simps [simp del]

definition dial_response :: "(string \<Rightarrow> string) \<Rightarrow> string \<Rightarrow> string \<Rightarrow> carrier_error + string" where
  "dial_response sha1 key s =
     (case read_line s of
        None \<Rightarrow> Inl StreamEnded
      | Some (status0, rest) \<Rightarrow>
          let status = status0 @ [nl] in
          if \<not> contains status '' 101 '' \<and> \<not> has_prefix status ''HTTP/1.1 101'' then
            Inl (UpgradeRefused (''websocket upgrade failed: '' @ trim_space status @ '' '' @ trim_space (take 4096 rest)))
          else (case read_headers rest [] of
                  None \<Rightarrow> Inl StreamEnded
                | Some (headers, rest') \<Rightarrow>
                    if http_header headers ''Sec-WebSocket-Accept'' \<noteq> acceptKey sha1 key then Inl AcceptMismatch
                    else Inr rest'))"

subsection \<open>What the logs show of a path\<close>

definition redactPath :: "string \<Rightarrow> string" where
  "redactPath p =
     (let path = trim_space p in
      if path = [] \<or> path = ''/'' then path
      else let parts = split_on (CHR ''/'') (trim_chars path ''/'') in
        if 3 \<le> length parts \<and> parts ! 0 = ''ws'' \<and> parts ! 1 = ''tunnel''
        then ''/ws/tunnel/<redacted>/'' else ''<redacted>'')"

subsection \<open>The request handler of \<open>Serve\<close>\<close>

text \<open>
  The target is dialled first; then the request is upgraded. The result is the answer and the line
  logged; after \<open>Upgraded\<close> the handler runs \<open>pump\<close> between the connection and the target.
\<close>

definition serve_carrier ::
  "(string \<Rightarrow> string) \<Rightarrow> bool \<Rightarrow> hijack \<Rightarrow> string option \<Rightarrow> string \<Rightarrow> string \<Rightarrow> string \<Rightarrow> (string \<times> string) list
   \<Rightarrow> upgrade_result \<times> string list" where
  "serve_carrier sha1 target_up hj write_error remote targetAddr path hs =
     (if \<not> target_up then (HttpError 502 ''target unavailable'', [])
      else let r = upgrade sha1 hj write_error hs in
        (r, [case r of
               HttpError c m \<Rightarrow> ''websocket upgrade failed: '' @ m
             | UpgradeFailed m \<Rightarrow> ''websocket upgrade failed: '' @ m
             | Upgraded b \<Rightarrow> ''carrier connected remote='' @ remote @ '' target='' @ targetAddr @ '' path='' @ redactPath path]))"

subsection \<open>Reading back what was written\<close>

definition header_text :: "string \<Rightarrow> bool" where
  "header_text v \<longleftrightarrow> nl \<notin> set v \<and> CHR 0x0D \<notin> set v \<and> trim_space v = v"

lemma trim_right_line:
  assumes "CHR 0x0D \<notin> set l" "nl \<notin> set l"
  shows "trim_right_chars (l @ [CHR 0x0D]) [CHR 0x0D, nl] = l"
  using assms by (cases l rule: rev_cases) (auto simp: trim_right_chars_def trim_right_of_def)

lemma trim_space_Cons: "is_space c \<Longrightarrow> trim_space (c # s) = trim_space s"
  by (simp add: trim_space_def trim_of_def trim_left_of_def)

lemma read_headers_line:
  assumes n: "header_text n" "CHR '':'' \<notin> set n" and v: "header_text v"
  shows "read_headers (header_line n v @ s) hs = read_headers s (hs @ [(n, v)])"
proof -
  let ?l = "n @ CHR '':'' # CHR '' '' # v"
  have "header_line n v @ s = (?l @ [CHR 0x0D]) @ nl # s" by (simp add: header_line_def crlf_def)
  moreover have "nl \<notin> set (?l @ [CHR 0x0D])" using n v by (simp add: header_text_def nl_def)
  ultimately have line: "read_line (header_line n v @ s) = Some (?l @ [CHR 0x0D], s)"
    unfolding read_line_def by (metis cut_append)
  have "trim_right_chars (?l @ [CHR 0x0D]) [CHR 0x0D, nl] = ?l"
    by (rule trim_right_line) (use n v in \<open>auto simp: header_text_def nl_def\<close>)
  moreover have "cut (CHR '':'') ?l = Some (n, CHR '' '' # v)" using n(2) by (rule cut_append)
  moreover have "trim_space (CHR '' '' # v) = v" "trim_space n = n"
    using n v by (simp_all add: trim_space_Cons is_space_def header_text_def)
  ultimately show ?thesis by (subst read_headers.simps) (simp add: line)
qed

lemma read_headers_end: "read_headers (crlf @ s) hs = Some (hs, s)"
  by (subst read_headers.simps)
    (simp add: read_line_def crlf_def nl_def trim_right_chars_def trim_right_of_def)

lemma header_text_b64: "header_text (b64_padded s)"
proof -
  have c: "set (b64_padded s) \<subseteq> insert (CHR ''='') (set std_alphabet)"
    using b64_encode_chars [of std_alphabet s] by (auto simp: b64_padded_def)
  have "\<not> is_space x" if "x \<in> insert (CHR ''='') (set std_alphabet)" for x
    using that unfolding std_alphabet_def is_space_def by auto
  with c have ns: "\<not> is_space x" if "x \<in> set (b64_padded s)" for x using that by blast
  have "trim_space (b64_padded s) = b64_padded s"
    unfolding trim_space_def by (rule trim_of_id) (use ns in \<open>auto intro!: ns hd_in_set last_in_set\<close>)
  moreover have "nl \<notin> set (b64_padded s)" "CHR 0x0D \<notin> set (b64_padded s)"
    using ns [of nl] ns [of "CHR 0x0D"] by (auto simp: is_space_def nl_def)
  ultimately show ?thesis by (simp add: header_text_def)
qed

lemma b64_padded_ne: "s \<noteq> [] \<Longrightarrow> b64_padded s \<noteq> []"
  by (cases "map ord s" rule: sextets.cases) (auto simp: b64_padded_def b64_encode_def)

lemma header_text_names:
  "header_text ''Upgrade''" "header_text ''Connection''" "header_text ''Sec-WebSocket-Accept''" "header_text ''websocket''"
  by (simp_all add: header_text_def nl_def trim_space_def trim_of_def trim_left_of_def trim_right_of_def is_space_def)

lemma dial_response_upgrade:
  "dial_response sha1 key (upgrade_response (acceptKey sha1 key) @ s) = Inr s"
proof -
  let ?st = "''HTTP/1.1 101 Switching Protocols'' @ [CHR 0x0D]"
  let ?hs = "[(''Upgrade'', ''websocket''), (''Connection'', ''Upgrade''), (''Sec-WebSocket-Accept'', acceptKey sha1 key)]"
  let ?rest = "header_line ''Upgrade'' ''websocket'' @ header_line ''Connection'' ''Upgrade'' @
      header_line ''Sec-WebSocket-Accept'' (acceptKey sha1 key) @ crlf @ s"
  have a: "header_text (acceptKey sha1 key)" by (simp add: acceptKey_def header_text_b64)
  have nl: "nl \<notin> set ?st" by (simp add: nl_def)
  have "upgrade_response (acceptKey sha1 key) @ s = ?st @ nl # ?rest"
    unfolding upgrade_response_def crlf_def by (simp only: append_assoc append_Cons append_Nil)
  then have line: "read_line (upgrade_response (acceptKey sha1 key) @ s) = Some (?st, ?rest)"
    unfolding read_line_def using cut_append [OF nl] by (simp only:)
  have pre: "has_prefix (?st @ [nl]) ''HTTP/1.1 101''" by (simp add: has_prefix_def)
  have c: "CHR '':'' \<notin> set ''Upgrade''" "CHR '':'' \<notin> set ''Connection''" "CHR '':'' \<notin> set ''Sec-WebSocket-Accept''"
    by simp_all
  have hdrs: "read_headers ?rest [] = Some (?hs, s)"
    by (simp only: read_headers_line [OF header_text_names(1) c(1) header_text_names(4)]
        read_headers_line [OF header_text_names(2) c(2) header_text_names(1)]
        read_headers_line [OF header_text_names(3) c(3) a] read_headers_end append_Nil append_Cons)
  have get: "http_header ?hs ''Sec-WebSocket-Accept'' = acceptKey sha1 key"
    by (simp add: http_header_def equal_fold_def to_lower_def lower_char_def is_upper_def)
  show ?thesis
    unfolding dial_response_def line option.case prod.case Let_def hdrs get using pre by simp
qed

lemma upgrade_dial:
  assumes "b64_padded k \<noteq> []"
  shows "upgrade sha1 Hijacked None (dial_headers host (b64_padded k)) =
    Upgraded (upgrade_response (acceptKey sha1 (b64_padded k)))"
proof -
  have g: "http_header (dial_headers host key) ''Connection'' = ''Upgrade''"
    "http_header (dial_headers host key) ''Upgrade'' = ''websocket''"
    "http_header (dial_headers host key) ''Sec-WebSocket-Key'' = key"
    "http_header (dial_headers host key) ''Sec-WebSocket-Version'' = ''13''" for key
    by (simp_all add: http_header_def dial_headers_def equal_fold_def to_lower_def lower_char_def is_upper_def)
  have t: "headerHasToken ''Upgrade'' ''upgrade''" "fold_equal ''websocket'' ''websocket''"
    by code_simp+
  show ?thesis unfolding upgrade_def g Let_def using t assms by simp
qed

subsection \<open>The path of the URL\<close>

lemma has_suffix_last: "has_suffix s p \<Longrightarrow> p \<noteq> [] \<Longrightarrow> s \<noteq> [] \<and> last s = last p"
  by (auto simp: has_suffix_iff)

lemma carrier_path_appends:
  assumes "trim_right_chars path ''/'' \<noteq> []" and "trim_space pathPrefix \<noteq> []"
  shows "carrier_path path pathPrefix =
    trim_right_chars path ''/'' @ ''/'' @ trim_chars (trim_space pathPrefix) ''/'' @ ''/''"
proof -
  have "last (trim_right_chars path ''/'') \<noteq> CHR ''/''"
    using trim_right_of_last [of "\<lambda>c. c \<in> set ''/''" path] assms(1) by (simp add: trim_right_chars_def)
  then have "\<not> has_suffix (trim_right_chars path ''/'') (''/'' @ trim_chars (trim_space pathPrefix) ''/'' @ ''/'')"
    using has_suffix_last [of "trim_right_chars path ''/''" "''/'' @ trim_chars (trim_space pathPrefix) ''/'' @ ''/''"]
    by auto
  then show ?thesis using assms by (simp add: carrier_path_def Let_def)
qed

end
