(* ===== verification/CarrierProps.thy ===== *)
theory CarrierProps
  imports WsLink WsHandshake
begin




text \<open>C28: A frame that \<open>writeFrame\<close> wrote, masked or not, of at most 16 MiB, is read back by the
  other end's \<open>readFrame\<close> with its opcode and payload, whatever follows it on the stream; a larger
  one is refused with its size.\<close>

theorem frame_round_trip:
  assumes "writeFrame op p masked c = (None, c')" and "expectMasked \<longrightarrow> masked" and "length p < 2 ^ 64"
  shows "\<exists>f. wo_sent c' = wo_sent c @ f \<and> (\<forall>rest.
    if length p \<le> max_frame
    then readFrame expectMasked (f @ rest) = (Inr (Bit_Operations.and op 0x0f, p), rest)
    else fst (readFrame expectMasked (f @ rest)) = Inl (FrameTooLarge (length p)))"
proof -
  obtain k where k: "(k \<noteq> None) = masked" and f: "wo_sent c' = wo_sent c @ frame op p k"
    using writeFrame_ends(1) [OF assms(1)] by auto
  have e: "expectMasked \<longrightarrow> k \<noteq> None" using assms(2) k by simp
  show ?thesis
    using readFrame_frame [OF _ e, of p op] readFrame_too_large [OF _ assms(3) e, of op] f by auto
qed

definition example_out :: "nat option \<Rightarrow> ws_out" where
  "example_out room = \<lparr>wo_sent = [], wo_room = room, wo_entropy = (\<lambda>n. Some (word_of_nat n, 0xff, 3, 4)), wo_drawn = 7\<rparr>"

theorem frame_round_trip_witness:
  "\<exists>f. wo_sent (snd (writeFrame 2 [1, 2, 0xfe] True (example_out None))) = f
     \<and> readFrame True (f @ [9]) = (Inr (2, [1, 2, 0xfe]), [9])"
proof -
  have w: "writeFrame 2 [1, 2, 0xfe] True (example_out None) =
      (None, snd (writeFrame 2 [1, 2, 0xfe] True (example_out None)))"
    by (simp add: writeFrame_def example_out_def out_write_def)
  show ?thesis
    using frame_round_trip [OF w, of True] by (auto simp: example_out_def max_frame_def)
qed

text \<open>C2: What the agent reads from its carrier connection is exactly the data of the frames that
  arrive: a read returns some bytes, at most as many as it asked for, which are the next of the
  data still to come, and fails only when all of them have been delivered, with the stream's own
  error.\<close>

definition ws_pending :: "ws_conn \<Rightarrow> byte list" where
  "ws_pending c = wc_buf c @ fst (stream_data (\<not> wc_client c) (wc_in c))"

lemma ws_read_loop_exact:
  assumes "0 < n" and "wc_buf c = []"
  shows "case ws_read_loop n c of
      (Inl e, c') \<Rightarrow> ws_pending c = [] \<and> e = snd (stream_data (\<not> wc_client c) (wc_in c))
    | (Inr bs, c') \<Rightarrow> bs \<noteq> [] \<and> length bs \<le> n \<and> ws_pending c = bs @ ws_pending c'"
  using assms(2)
proof (induction "length (wc_in c)" arbitrary: c rule: less_induct)
  case less
  obtain v r where rd: "readFrame (\<not> wc_client c) (wc_in c) = (v, r)" by (cases "readFrame (\<not> wc_client c) (wc_in c)")
  have sd: "stream_data (\<not> wc_client c) (wc_in c) = (case v of
        Inl er \<Rightarrow> ([], er)
      | Inr (op, p) \<Rightarrow> if op = 8 then ([], EOF)
          else (case stream_data (\<not> wc_client c) r of (d, er) \<Rightarrow> ((if op = 1 \<or> op = 2 then p else []) @ d, er)))"
    by (subst stream_data.simps) (simp add: rd split: sum.split prod.split)
  show ?case
  proof (cases v)
    case (Inl e)
    then show ?thesis by (subst ws_read_loop.simps) (simp add: rd sd less.prems ws_pending_def)
  next
    case (Inr x)
    obtain op p where x: "x = (op, p)" by (cases x)
    define d where "d = c\<lparr>wc_in := r\<rparr>"
    define d' where "d' = d\<lparr>wc_out := snd (writeFrame 10 p (wc_client c) (wc_out c))\<rparr>"
    have sh: "length r < length (wc_in c)" using readFrame_Inr_shorter rd Inr by blast
    have loop: "ws_read_loop n c =
       (if op = 1 \<or> op = 2 then
          if p = [] then ws_read_loop n d else (Inr (take n p), d\<lparr>wc_buf := drop n p\<rparr>)
        else if op = 8 then (Inl EOF, d) else if op = 9 then ws_read_loop n d' else ws_read_loop n d)"
      by (subst ws_read_loop.simps) (simp add: rd Inr x d_def d'_def Let_def)
    show ?thesis
    proof (cases "op = 8 \<or> (op = 1 \<or> op = 2) \<and> p \<noteq> []")
      case True
      then show ?thesis unfolding loop
        by (auto simp: sd Inr x less.prems ws_pending_def d_def assms(1) split: prod.split)
    next
      case False
      define e where "e = (if op = 9 then d' else d)"
      have e: "ws_read_loop n c = ws_read_loop n e" "wc_buf e = []" "wc_in e = r" "wc_client e = wc_client c"
        using False less.prems unfolding loop e_def by (auto simp: d_def d'_def)
      have pe: "ws_pending e = ws_pending c" "snd (stream_data (\<not> wc_client c) r) = snd (stream_data (\<not> wc_client c) (wc_in c))"
        using False e(2-4) by (auto simp: ws_pending_def sd Inr x less.prems split: prod.split)
      have "case ws_read_loop n e of
          (Inl er, c') \<Rightarrow> ws_pending e = [] \<and> er = snd (stream_data (\<not> wc_client e) (wc_in e))
        | (Inr bs, c') \<Rightarrow> bs \<noteq> [] \<and> length bs \<le> n \<and> ws_pending e = bs @ ws_pending c'"
        using less.hyps [of e] sh e(2,3) by simp
      then show ?thesis by (simp only: e(1,3,4) pe)
    qed
  qed
qed

theorem ws_read_exact:
  assumes "0 < n"
  shows "case ws_read n c of
      (Inl e, c') \<Rightarrow> ws_pending c = [] \<and> e = snd (stream_data (\<not> wc_client c) (wc_in c))
    | (Inr bs, c') \<Rightarrow> bs \<noteq> [] \<and> length bs \<le> n \<and> ws_pending c = bs @ ws_pending c'"
proof (cases "wc_buf c = []")
  case True
  then show ?thesis using ws_read_loop_exact [OF assms True] by (simp add: ws_read_def)
next
  case False
  then show ?thesis using assms by (simp add: ws_read_def ws_pending_def flip: append_assoc)
qed

theorem ws_read_exact_witness:
  "\<exists>c' :: ws_conn. ws_read 2 \<lparr>wc_out = example_out None, wc_in = frame 2 [5, 6, 7] None, wc_client = True, wc_buf = []\<rparr> = (Inr [5, 6], c')
     \<and> ws_pending c' = [7]"
proof -
  define c where "c = \<lparr>wc_out = example_out None, wc_in = frame 2 [5, 6, 7] None, wc_client = True, wc_buf = []\<rparr>"
  have rd: "readFrame False (frame 2 [5, 6, 7] None) = (Inr (2, [5, 6, 7]), [])"
    using readFrame_frame [of "[5, 6, 7]" False None 2 "[]"] by (simp add: max_frame_def)
  have r: "ws_read 2 c = (Inr [5, 6], c\<lparr>wc_in := [], wc_buf := [7]\<rparr>)"
    unfolding ws_read_def c_def by (subst ws_read_loop.simps) (simp add: rd)
  have p: "ws_pending c = [5, 6, 7]"
    unfolding ws_pending_def c_def
    by (subst stream_data.simps) (simp add: rd stream_data.simps [of False "[]"] readFrame_Nil)
  from ws_read_exact [of 2 c] show ?thesis unfolding r p by (simp add: r [unfolded c_def] c_def)
qed












text \<open>C29: The handshake between the two ends completes: a server that receives the headers the
  client writes, and can take the connection over, answers with bytes the client accepts, and the
  client goes on reading exactly where the server's frames begin.\<close>

theorem handshake_completes:
  assumes "length keyBytes = 16"
  shows "\<exists>r. upgrade sha1 Hijacked None (dial_headers host (b64_padded keyBytes)) = Upgraded r \<and>
    (\<forall>frames. dial_response sha1 (b64_padded keyBytes) (r @ frames) = Inr frames)"
proof -
  have "b64_padded keyBytes \<noteq> []" using assms by (intro b64_padded_ne) auto
  from upgrade_dial [OF this] show ?thesis by (simp add: dial_response_upgrade)
qed

theorem handshake_completes_witness:
  "\<forall>sha1. dial_response sha1 (b64_padded (replicate 16 (CHR ''k'')))
     (upgrade_response (acceptKey sha1 (b64_padded (replicate 16 (CHR ''k'')))) @ ''frames'') = Inr ''frames''"
proof
  fix sha1 :: "string \<Rightarrow> string"
  have l: "length (replicate 16 (CHR ''k'')) = 16" by simp
  have "b64_padded (replicate 16 (CHR ''k'')) \<noteq> []" by (intro b64_padded_ne) simp
  from upgrade_dial [OF this] handshake_completes [OF l, of sha1 "''h''"]
  show "dial_response sha1 (b64_padded (replicate 16 (CHR ''k'')))
     (upgrade_response (acceptKey sha1 (b64_padded (replicate 16 (CHR ''k'')))) @ ''frames'') = Inr ''frames''"
    by (elim exE conjE) (simp only: upgrade_result.inject)
qed

text \<open>The test that should keep the path prefix from being added twice never succeeds: to a
  URL with a path the prefix is always appended, so to one that already carries it, a second time.\<close>

theorem carrier_prefix_doubled:
  assumes "trim_right_chars path ''/'' \<noteq> []" and "trim_chars (trim_space prefix) ''/'' \<noteq> []"
  shows "carrier_path path prefix = trim_right_chars path ''/'' @ ''/'' @ trim_chars (trim_space prefix) ''/'' @ ''/'' \<and>
    carrier_path (carrier_path path prefix) prefix =
      trim_right_chars path ''/'' @ ''/'' @ trim_chars (trim_space prefix) ''/'' @ ''/'' @ trim_chars (trim_space prefix) ''/'' @ ''/''"
proof -
  let ?q = "trim_chars (trim_space prefix) ''/''"
  let ?b = "trim_right_chars path ''/''"
  have ne: "trim_space prefix \<noteq> []" using assms(2) by (auto simp: trim_chars_def)
  note once = carrier_path_appends [OF assms(1) ne]
  have "last ?q \<noteq> CHR ''/''" using trim_of_last [of "\<lambda>c. c \<in> set ''/''" "trim_space prefix"] assms(2)
    by (simp add: trim_chars_def)
  then have t: "trim_right_chars (?b @ ''/'' @ ?q @ ''/'') ''/'' = ?b @ ''/'' @ ?q"
    using assms(2) by (cases ?q rule: rev_cases) (simp_all add: trim_right_chars_def trim_right_of_def)
  then have "carrier_path (carrier_path path prefix) prefix = (?b @ ''/'' @ ?q) @ ''/'' @ ?q @ ''/''"
    unfolding once using carrier_path_appends [of "?b @ ''/'' @ ?q @ ''/''", OF _ ne] t by simp
  with once show ?thesis by simp
qed

theorem carrier_prefix_doubled_witness:
  "carrier_path (carrier_path ''/ws/tunnel/'' '' /t7/ '') '' /t7/ '' = ''/ws/tunnel/t7/t7/''"
proof -
  have t: "trim_right_chars ''/ws/tunnel/'' ''/'' = ''/ws/tunnel''" "trim_chars (trim_space '' /t7/ '') ''/'' = ''t7''"
    by code_simp+
  have "trim_right_chars ''/ws/tunnel/'' ''/'' \<noteq> []" "trim_chars (trim_space '' /t7/ '') ''/'' \<noteq> []"
    unfolding t by simp_all
  from carrier_prefix_doubled [OF this, THEN conjunct2] show ?thesis unfolding t by simp
qed

end
