(* ===== verification/GoNet.thy ===== *)
theory GoNet
  imports Utf8 Security
begin

text \<open>
  The functions of Go's \<open>net\<close>, \<open>path\<close> and \<open>bufio\<close> packages that the agent's SSH support uses:
  splitting and joining \<open>host:port\<close>, glob patterns (\<open>path.Match\<close>) and the lines of a file.
\<close>

subsection \<open>host:port\<close>

definition last_cut :: "char \<Rightarrow> string \<Rightarrow> (string \<times> string) option" where
  "last_cut c s = map_option (\<lambda>(a, b). (rev b, rev a)) (cut c (rev s))"

definition quoted :: "string \<Rightarrow> string" where
  "quoted s = [CHR 0x27] @ s @ [CHR 0x27]"

text \<open>\<open>net.SplitHostPort\<close>, with the text of its error.\<close>

definition split_host_port :: "string \<Rightarrow> string + string \<times> string" where
  "split_host_port s =
     (let err = (\<lambda>why. Inl (''address '' @ s @ '': '' @ why));
          finish = (\<lambda>host pre post port.
            if CHR ''['' \<in> set pre then err (''unexpected '' @ quoted ''['' @ '' in address'')
            else if CHR '']'' \<in> set post then err (''unexpected '' @ quoted '']'' @ '' in address'')
            else Inr (host, port))
      in case last_cut (CHR '':'') s of
           None \<Rightarrow> err ''missing port in address''
         | Some (h, port) \<Rightarrow>
             if has_prefix s ''['' then
               (case cut (CHR '']'') s of
                  None \<Rightarrow> err (''missing '' @ quoted '']'' @ '' in address'')
                | Some (inner, r) \<Rightarrow>
                    if r = [] then err ''missing port in address''
                    else if length r = length port + 1 then finish (tl inner) (drop 1 s) r port
                    else if has_prefix r '':'' then err ''too many colons in address''
                    else err ''missing port in address'')
             else if CHR '':'' \<in> set h then err ''too many colons in address''
             else finish h s s port)"

definition join_host_port :: "string \<Rightarrow> string \<Rightarrow> string" where
  "join_host_port host port =
     (if CHR '':'' \<in> set host then ''['' @ host @ '']:'' @ port else host @ '':'' @ port)"

subsection \<open>Runes\<close>

text \<open>\<open>utf8.DecodeRuneInString\<close> on a non-empty text: the rune and its length in bytes.\<close>

definition rune_error :: nat where "rune_error = 65533"

definition decode_rune :: "string \<Rightarrow> nat \<times> nat" where
  "decode_rune s =
     (let bs = map ord s in
      case rune_len bs of
        None \<Rightarrow> (rune_error, 1)
      | Some n \<Rightarrow>
          (if n = 1 then bs ! 0
           else if n = 2 then (bs ! 0 - 192) * 64 + (bs ! 1 - 128)
           else if n = 3 then (bs ! 0 - 224) * 4096 + (bs ! 1 - 128) * 64 + (bs ! 2 - 128)
           else (bs ! 0 - 240) * 262144 + (bs ! 1 - 128) * 4096 + (bs ! 2 - 128) * 64 + (bs ! 3 - 128), n))"

subsection \<open>Patterns\<close>

text \<open>\<open>getEsc\<close>: one character of a class, perhaps escaped; \<open>None\<close> is \<open>ErrBadPattern\<close>.\<close>

definition get_esc :: "string \<Rightarrow> (nat \<times> string) option" where
  "get_esc chunk =
     (if chunk = [] \<or> hd chunk = CHR ''-'' \<or> hd chunk = CHR '']'' then None
      else let c = (if hd chunk = bslash then tl chunk else chunk) in
        if c = [] then None
        else let (r, n) = decode_rune c in
          if r = rune_error \<and> n = 1 \<or> drop n c = [] then None else Some (r, drop n c))"

lemma get_esc_shorter: "get_esc chunk = Some (r, rest) \<Longrightarrow> length rest < length chunk \<and> rest \<noteq> []"
proof -
  assume e: "get_esc chunk = Some (r, rest)"
  define c where "c = (if hd chunk = bslash then tl chunk else chunk)"
  obtain q n where q: "decode_rune c = (q, n)" by (cases "decode_rune c")
  have "1 \<le> n" using q rune_len_bounds [of "map ord c"]
    by (auto simp: decode_rune_def Let_def split: option.splits)
  moreover have "rest = drop n c" "c \<noteq> []" "rest \<noteq> []" "chunk \<noteq> []"
    using e unfolding get_esc_def c_def [symmetric] by (auto simp: q Let_def split: if_splits)
  moreover have "length c \<le> length chunk" by (simp add: c_def)
  ultimately show ?thesis by (cases c) auto
qed

text \<open>The ranges of a class up to its \<open>]\<close>: whether one holds the rune, and what follows.\<close>

function match_ranges :: "nat \<Rightarrow> string \<Rightarrow> bool \<Rightarrow> bool \<Rightarrow> (bool \<times> string) option" where
  "match_ranges r chunk some found =
     (if chunk \<noteq> [] \<and> hd chunk = CHR '']'' \<and> some then Some (found, tl chunk)
      else case get_esc chunk of
          None \<Rightarrow> None
        | Some (lo, c1) \<Rightarrow>
            if hd c1 = CHR ''-'' then
              (case get_esc (tl c1) of
                 None \<Rightarrow> None
               | Some (hi, c2) \<Rightarrow> match_ranges r c2 True (found \<or> lo \<le> r \<and> r \<le> hi))
            else match_ranges r c1 True (found \<or> lo \<le> r \<and> r \<le> lo))"
  by pat_completeness auto
termination
  by (relation "measure (\<lambda>(r, c, s, f). length c)") (auto dest!: get_esc_shorter)

declare match_ranges.simps [simp del]

lemma match_ranges_shorter: "match_ranges r chunk some found = Some (f, rest) \<Longrightarrow> length rest < length chunk"
proof (induction r chunk some found rule: match_ranges.induct)
  case (1 r chunk some found)
  show ?case
  proof (cases "chunk \<noteq> [] \<and> hd chunk = CHR '']'' \<and> some")
    case True
    then show ?thesis using 1(3) by (simp add: match_ranges.simps [of r chunk] split: if_splits) (cases chunk; auto)
  next
    case False
    then obtain lo c1 where c1: "get_esc chunk = Some (lo, c1)"
      using 1(3) by (subst (asm) match_ranges.simps) (auto split: option.splits)
    have eq: "match_ranges r chunk some found =
       (if hd c1 = CHR ''-'' then (case get_esc (tl c1) of None \<Rightarrow> None
               | Some (hi, c2) \<Rightarrow> match_ranges r c2 True (found \<or> lo \<le> r \<and> r \<le> hi))
            else match_ranges r c1 True (found \<or> lo \<le> r \<and> r \<le> lo))"
      by (subst match_ranges.simps) (simp only: False if_False c1 option.case prod.case)
    show ?thesis
    proof (cases "hd c1 = CHR ''-''")
      case True
      then obtain hi c2 where c2: "get_esc (tl c1) = Some (hi, c2)"
        using 1(3) unfolding eq by (auto split: option.splits)
      have "match_ranges r c2 True (found \<or> lo \<le> r \<and> r \<le> hi) = Some (f, rest)"
        using 1(3) unfolding eq by (simp add: True c2)
      from 1(1) [OF False c1 refl True c2 refl this] show ?thesis
        using get_esc_shorter [OF c1] get_esc_shorter [OF c2] by auto
    next
      case no: False
      have "match_ranges r c1 True (found \<or> lo \<le> r \<and> r \<le> lo) = Some (f, rest)"
        using 1(3) unfolding eq by (simp add: no)
      from 1(2) [OF False c1 refl no this] show ?thesis using get_esc_shorter [OF c1] by simp
    qed
  qed
qed

text \<open>\<open>matchChunk\<close>: \<open>None\<close> is a bad pattern, \<open>Some None\<close> no match, else the rest of the name.\<close>

function match_chunk :: "bool \<Rightarrow> string \<Rightarrow> string \<Rightarrow> string option option" where
  "match_chunk failed [] s = Some (if failed then None else Some s)"
| "match_chunk failed (c # cs) s =
     (let failed = (failed \<or> s = []) in
      if c = CHR ''['' then
        (let (r, s') = (if failed then (0, s) else (let (r, n) = decode_rune s in (r, drop n s)));
             negated = (cs \<noteq> [] \<and> hd cs = CHR ''^'');
             body = (if negated then tl cs else cs)
         in case match_ranges r body False False of
              None \<Rightarrow> None
            | Some (found, rest) \<Rightarrow> match_chunk (failed \<or> found = negated) rest s')
      else if c = CHR ''?'' then
        (if failed then match_chunk True cs s
         else match_chunk (hd s = CHR ''/'') cs (drop (snd (decode_rune s)) s))
      else if c = bslash then
        (case cs of
           [] \<Rightarrow> None
         | d # ds \<Rightarrow> if failed then match_chunk True ds s else match_chunk (d \<noteq> hd s) ds (tl s))
      else if failed then match_chunk True cs s else match_chunk (c \<noteq> hd s) cs (tl s))"
  by pat_completeness auto
termination
  by (relation "measure (\<lambda>(f, c, s). length c)")
    (auto dest!: match_ranges_shorter split: if_splits intro: less_imp_le_nat order.strict_trans2)

declare match_chunk.simps [simp del]

text \<open>\<open>scanChunk\<close>: whether the pattern starts with stars, the piece up to the next one, the rest.\<close>

fun scan_body :: "bool \<Rightarrow> string \<Rightarrow> string \<times> string" where
  "scan_body inrange [] = ([], [])"
| "scan_body inrange [c] = (if c = CHR ''*'' \<and> \<not> inrange then ([], [c]) else ([c], []))"
| "scan_body inrange (c # d # s) =
     (if c = bslash then (let (a, b) = scan_body inrange s in (c # d # a, b))
      else if c = CHR ''*'' \<and> \<not> inrange then ([], c # d # s)
      else let (a, b) = scan_body (if c = CHR ''['' then True else if c = CHR '']'' then False else inrange) (d # s)
           in (c # a, b))"

definition scan_chunk :: "string \<Rightarrow> bool \<times> string \<times> string" where
  "scan_chunk p = (has_prefix p ''*'', scan_body False (dropWhile (\<lambda>c. c = CHR ''*'') p))"

lemma scan_body_append: "scan_body inrange p = (a, b) \<Longrightarrow> p = a @ b"
  by (induction inrange p arbitrary: a b rule: scan_body.induct) (auto split: if_splits prod.splits)

lemma scan_body_ne: "scan_body False p = (a, b) \<Longrightarrow> p \<noteq> [] \<Longrightarrow> hd p \<noteq> CHR ''*'' \<Longrightarrow> a \<noteq> []"
  by (cases "(False, p)" rule: scan_body.cases) (auto split: if_splits prod.splits)

lemma scan_chunk_shorter:
  assumes "scan_chunk p = (star, chunk, rest)" and "p \<noteq> []"
  shows "length rest < length p"
proof -
  define q where "q = dropWhile (\<lambda>c. c = CHR ''*'') p"
  have s: "scan_body False q = (chunk, rest)" using assms(1) by (simp add: scan_chunk_def q_def)
  have q: "q = chunk @ rest" using scan_body_append [OF s] .
  have le: "length q \<le> length p" unfolding q_def by (rule length_dropWhile_le)
  show ?thesis
  proof (cases "q = p")
    case True
    then have "hd p \<noteq> CHR ''*''" using assms(2) hd_dropWhile_not [of "\<lambda>c. c = CHR ''*''" p] by (simp add: q_def)
    then have "chunk \<noteq> []" using scan_body_ne [OF s] True assms(2) by simp
    then show ?thesis using q True by simp
  next
    case False
    then have "length q < length p"
      unfolding q_def using assms(2) by (cases p) (auto simp: le_imp_less_Suc length_dropWhile_le split: if_splits)
    then show ?thesis using q by simp
  qed
qed

text \<open>The rest of a pattern that failed to match must still be well formed.\<close>

function rest_valid :: "string \<Rightarrow> bool" where
  "rest_valid p =
     (if p = [] then True
      else case scan_chunk p of (star, chunk, rest) \<Rightarrow>
        if match_chunk False chunk [] = None then False else rest_valid rest)"
  by pat_completeness auto
termination
  by (relation "measure length") (auto dest: scan_chunk_shorter [OF sym])

declare rest_valid.simps [simp del]

text \<open>After a star: skip characters other than a slash until the chunk matches.\<close>

fun star_search :: "string \<Rightarrow> bool \<Rightarrow> string \<Rightarrow> string option option" where
  "star_search chunk final [] = Some None"
| "star_search chunk final (c # cs) =
     (if c = CHR ''/'' then Some None
      else case match_chunk False chunk cs of
          None \<Rightarrow> None
        | Some (Some t) \<Rightarrow> if final \<and> t \<noteq> [] then star_search chunk final cs else Some (Some t)
        | Some None \<Rightarrow> star_search chunk final cs)"

text \<open>\<open>path.Match\<close>; \<open>None\<close> is a bad pattern.\<close>

function path_match :: "string \<Rightarrow> string \<Rightarrow> bool option" where
  "path_match p name =
     (if p = [] then Some (name = [])
      else case scan_chunk p of (star, chunk, rest) \<Rightarrow>
        if star \<and> chunk = [] then Some (CHR ''/'' \<notin> set name)
        else let fails = (if rest_valid rest then Some False else None) in
          (case match_chunk False chunk name of
             None \<Rightarrow> None
           | Some m \<Rightarrow>
               (case m of
                  Some t \<Rightarrow> if t = [] \<or> rest \<noteq> [] then path_match rest t
                    else if star then
                      (case star_search chunk (rest = []) name of
                         None \<Rightarrow> None | Some None \<Rightarrow> fails | Some (Some t') \<Rightarrow> path_match rest t')
                    else fails
                | None \<Rightarrow>
                    if star then
                      (case star_search chunk (rest = []) name of
                         None \<Rightarrow> None | Some None \<Rightarrow> fails | Some (Some t') \<Rightarrow> path_match rest t')
                    else fails)))"
  by pat_completeness auto
termination
  by (relation "measure (\<lambda>(p, n). length p)") (auto dest: scan_chunk_shorter [OF sym])

declare path_match.simps [simp del]

subsection \<open>Lines of a file\<close>

text \<open>
  \<open>bufio.Scanner\<close> with its default buffer: the lines without their ends, and whether it stopped
  at a line of 64 KiB or more.
\<close>

definition drop_cr :: "string \<Rightarrow> string" where
  "drop_cr l = (if l \<noteq> [] \<and> last l = CHR 0x0D then butlast l else l)"

definition scan_lines :: "string \<Rightarrow> string list \<times> bool" where
  "scan_lines content =
     (let ls = split_on nl content;
          ls = (if last ls = [] then butlast ls else ls);
          ok = takeWhile (\<lambda>l. length l < 65536) ls
      in (map drop_cr ok, length ok < length ls))"

lemma split_on_length: "w \<in> set (split_on c s) \<Longrightarrow> length w \<le> length s"
proof (induction s arbitrary: w)
  case (Cons x s)
  obtain v vs where "split_on c s = v # vs" by (meson neq_Nil_conv split_on_ne)
  then show ?case using Cons by (fastforce split: if_splits)
qed simp

lemma split_ended_lines:
  "\<forall>l \<in> set ls. nl \<notin> set l \<Longrightarrow> split_on nl (concat (map (\<lambda>l. l @ [nl]) ls)) = ls @ [[]]"
  by (induction ls) (simp_all add: split_on_append)

lemma scan_lines_short:
  assumes "length content < 65536"
  shows "scan_lines content =
    (map drop_cr (if last (split_on nl content) = [] then butlast (split_on nl content) else split_on nl content), False)"
proof -
  let ?ls = "if last (split_on nl content) = [] then butlast (split_on nl content) else split_on nl content"
  have "length l < 65536" if "l \<in> set ?ls" for l
  proof -
    have "l \<in> set (split_on nl content)" using that by (auto split: if_splits dest: in_set_butlastD)
    from split_on_length [OF this] assms show ?thesis by simp
  qed
  then have "takeWhile (\<lambda>l. length l < 65536) ?ls = ?ls" unfolding takeWhile_eq_all_conv by blast
  then show ?thesis unfolding scan_lines_def Let_def by (simp only:) simp
qed

end
