(* ===== verification/HostKeys.thy ===== *)
theory HostKeys
  imports GoNet
begin

text \<open>
  The host keys the agent's SSH client accepts (\<open>cmd/reach-agent/hostkey_algorithms.go\<close>) and the
  client's configuration (\<open>sshClientConfig\<close>, \<open>applySSHCompatOptions\<close>, \<open>parseSSHOption\<close> and
  \<open>transportDialer\<close> of \<open>cmd/reach-agent/embedded_ssh.go\<close>). A known_hosts file is its text; the
  parsers of \<open>golang.org/x/crypto/ssh\<close> are parameters: \<open>parse_key\<close> gives the type of a public key.
\<close>

subsection \<open>Lines of known_hosts\<close>

definition splitKnownHostsLine :: "string \<Rightarrow> (string \<times> string \<times> string) option" where
  "splitKnownHostsLine line =
     (let fs = GoStrings.fields line in
      if length fs < 3 then None
      else let marked = has_prefix (hd fs) ''@'';
               marker = (if marked then hd fs else []);
               idx = (if marked then 1 else 0)
           in if length fs < idx + 3 then None
              else Some (marker, fs ! idx, join '' '' (drop (idx + 1) fs)))"

definition splitKnownHostsPattern :: "string \<Rightarrow> string + string \<times> string" where
  "splitKnownHostsPattern pattern =
     (if has_prefix pattern ''['' then split_host_port pattern
      else case split_host_port pattern of Inr (h, p) \<Rightarrow> Inr (h, p) | Inl _ \<Rightarrow> Inr (pattern, ''22''))"

definition knownHostsPatternMatches :: "string \<Rightarrow> string \<Rightarrow> string \<Rightarrow> string + bool" where
  "knownHostsPatternMatches pattern targetHost targetPort =
     (case splitKnownHostsPattern pattern of
        Inl e \<Rightarrow> Inl e
      | Inr (patternHost, patternPort) \<Rightarrow>
          if patternPort \<noteq> targetPort then Inr False
          else if patternHost = targetHost then Inr True
          else case path_match patternHost targetHost of
              None \<Rightarrow> Inl (''invalid host pattern '' @ go_quote pattern @ '': syntax error in pattern'')
            | Some ok \<Rightarrow> Inr ok)"

text \<open>The loop of \<open>knownHostsFieldMatches\<close> over the comma-separated patterns.\<close>

fun field_matches :: "(string \<Rightarrow> string + bool) \<Rightarrow> bool \<Rightarrow> string list \<Rightarrow> string + bool" where
  "field_matches test matched [] = Inr matched"
| "field_matches test matched (raw # rest) =
     (let pattern = trim_space raw;
          negate = has_prefix pattern ''!'';
          p = (if negate then trim_prefix pattern ''!'' else pattern)
      in if pattern = [] then field_matches test matched rest
         else if has_prefix p ''|'' then field_matches test matched rest
         else case test p of
             Inl e \<Rightarrow> Inl e
           | Inr ok \<Rightarrow> if \<not> ok then field_matches test matched rest
                      else if negate then Inr False
                      else field_matches test True rest)"

definition knownHostsFieldMatches :: "string \<Rightarrow> string \<Rightarrow> string \<Rightarrow> string + bool" where
  "knownHostsFieldMatches hostsField targetHost targetPort =
     field_matches (\<lambda>p. knownHostsPatternMatches p targetHost targetPort) False (split_on (CHR '','') hostsField)"

subsection \<open>The pinned algorithms\<close>

definition intersectAlgorithms :: "string list \<Rightarrow> string list \<Rightarrow> string list" where
  "intersectAlgorithms requested pinned =
     rev (fold (\<lambda>alg out. if alg \<in> set pinned \<and> alg \<notin> set out then alg # out else out) requested [])"

text \<open>The body of the scanner loop on one line; \<open>out\<close> is also the set \<open>seen\<close>.\<close>

definition pinned_line ::
  "(string \<Rightarrow> string + string) \<Rightarrow> string \<Rightarrow> string \<Rightarrow> string \<Rightarrow> nat \<Rightarrow> string \<Rightarrow> string list \<Rightarrow> string + string list" where
  "pinned_line parse_key filename host port lineNum raw out =
     (let line = trim_space raw;
          at = filename @ '':'' @ show_nat lineNum @ '': ''
      in if line = [] \<or> has_prefix line ''#'' then Inr out
         else case splitKnownHostsLine line of
             None \<Rightarrow> Inl (at @ ''invalid known_hosts line'')
           | Some (marker, hostsField, keyFields) \<Rightarrow>
               if marker = ''@revoked'' \<or> marker = ''@cert-authority'' then Inr out
               else case knownHostsFieldMatches hostsField host port of
                   Inl e \<Rightarrow> Inl (at @ e)
                 | Inr matched \<Rightarrow>
                     if \<not> matched then Inr out
                     else case parse_key keyFields of
                         Inl e \<Rightarrow> Inl (at @ ''parse host key: '' @ e)
                       | Inr alg \<Rightarrow> Inr (if alg \<in> set out then out else out @ [alg]))"

fun pinned_lines ::
  "(string \<Rightarrow> string + string) \<Rightarrow> string \<Rightarrow> string \<Rightarrow> string \<Rightarrow> nat \<Rightarrow> string list \<Rightarrow> string list \<Rightarrow> string + string list" where
  "pinned_lines parse_key filename host port n [] out = Inr out"
| "pinned_lines parse_key filename host port n (l # ls) out =
     (case pinned_line parse_key filename host port (n + 1) l out of
        Inl e \<Rightarrow> Inl e
      | Inr out' \<Rightarrow> pinned_lines parse_key filename host port (n + 1) ls out')"

definition pinnedHostKeyAlgorithmsFromKnownHosts ::
  "(string \<Rightarrow> string + string) \<Rightarrow> string \<Rightarrow> string \<Rightarrow> string \<Rightarrow> string + string list" where
  "pinnedHostKeyAlgorithmsFromKnownHosts parse_key content filename targetHostPort =
     (case split_host_port targetHostPort of
        Inl e \<Rightarrow> Inl (''target host must include port: '' @ e)
      | Inr (host, port) \<Rightarrow>
          let (ls, too_long) = scan_lines content in
          case pinned_lines parse_key filename host port 0 ls [] of
            Inl e \<Rightarrow> Inl e
          | Inr out \<Rightarrow>
              if too_long then Inl ''bufio.Scanner: token too long''
              else if out = [] then Inl (''no pinned host keys for '' @ targetHostPort @ '' in '' @ filename)
              else Inr out)"

definition pinnedHostKeyAlgorithms ::
  "(string \<rightharpoonup> string) \<Rightarrow> (string \<Rightarrow> string + string) \<Rightarrow> string \<Rightarrow> string \<Rightarrow> string + string list" where
  "pinnedHostKeyAlgorithms files parse_key knownHostsPath targetHostPort =
     (case files knownHostsPath of
        None \<Rightarrow> Inl (''open '' @ knownHostsPath @ '': no such file or directory'')
      | Some content \<Rightarrow> pinnedHostKeyAlgorithmsFromKnownHosts parse_key content knownHostsPath targetHostPort)"

subsection \<open>The configuration of the SSH client\<close>

record ssh_client_config =
  cc_user :: string
  cc_host_key_algorithms :: "string list"
  cc_kex :: "string list"
  cc_ciphers :: "string list"
  cc_macs :: "string list"

definition option_value :: "string \<Rightarrow> string" where
  "option_value v = trim_prefix (trim_left_chars (trim_space v) ''+^'') ''-''"

definition parseSSHOption :: "string \<Rightarrow> (string \<times> string list) option" where
  "parseSSHOption raw =
     (case cut (CHR ''='') (trim_space raw) of
        None \<Rightarrow> None
      | Some (key, v) \<Rightarrow>
          let k = trim_space key;
              vals = filter (\<lambda>v. v \<noteq> []) (map option_value (split_on (CHR '','') v))
          in if k \<noteq> [] \<and> vals \<noteq> [] then Some (k, vals) else None)"

definition apply_option :: "string \<Rightarrow> ssh_client_config \<Rightarrow> string + ssh_client_config" where
  "apply_option raw cfg =
     (case parseSSHOption raw of
        None \<Rightarrow> Inr cfg
      | Some (key, vals) \<Rightarrow>
          let k = to_lower key in
          if k = ''kexalgorithms'' then Inr (cfg\<lparr>cc_kex := vals\<rparr>)
          else if k = ''hostkeyalgorithms'' then
            (if cc_host_key_algorithms cfg = [] then Inr (cfg\<lparr>cc_host_key_algorithms := vals\<rparr>)
             else let both = intersectAlgorithms vals (cc_host_key_algorithms cfg) in
               if both = [] then
                 Inl (''HostKeyAlgorithms='' @ join '','' vals @ '' has no overlap with pinned known_hosts key types ''
                      @ join '','' (cc_host_key_algorithms cfg))
               else Inr (cfg\<lparr>cc_host_key_algorithms := both\<rparr>))
          else if k = ''ciphers'' then Inr (cfg\<lparr>cc_ciphers := vals\<rparr>)
          else if k = ''macs'' then Inr (cfg\<lparr>cc_macs := vals\<rparr>)
          else Inr cfg)"

fun applySSHCompatOptions :: "string list \<Rightarrow> ssh_client_config \<Rightarrow> string + ssh_client_config" where
  "applySSHCompatOptions [] cfg = Inr cfg"
| "applySSHCompatOptions (raw # opts) cfg =
     (case apply_option raw cfg of Inl e \<Rightarrow> Inl e | Inr cfg' \<Rightarrow> applySSHCompatOptions opts cfg')"

text \<open>What the tunnel's part of the agent's configuration says, as far as the client uses it.\<close>

record tunnel_target =
  tt_hub_host :: string
  tt_hub_ssh_port :: int
  tt_user :: string
  tt_key_path :: string
  tt_known_hosts :: string
  tt_options :: "string list"

definition host_key_name :: "tunnel_target \<Rightarrow> string" where
  "host_key_name t = join_host_port (tt_hub_host t) (show_int (tt_hub_ssh_port t))"

text \<open>
  \<open>sshClientConfig\<close>; \<open>parse_private\<close> is \<open>parseTunnelPrivateKey\<close>, \<open>load_hosts\<close> \<open>knownhosts.New\<close>, each
  with the text of its error.
\<close>

definition sshClientConfig ::
  "(string \<rightharpoonup> string) \<Rightarrow> (string \<Rightarrow> string option) \<Rightarrow> (string \<Rightarrow> string option) \<Rightarrow> (string \<Rightarrow> string + string)
   \<Rightarrow> tunnel_target \<Rightarrow> string + ssh_client_config" where
  "sshClientConfig files parse_private load_hosts parse_key t =
     (case files (tt_key_path t) of
        None \<Rightarrow> Inl (''read tunnel key: open '' @ tt_key_path t @ '': no such file or directory'')
      | Some key \<Rightarrow>
          (case parse_private key of
             Some e \<Rightarrow> Inl (''parse tunnel key: '' @ e)
           | None \<Rightarrow>
               (case load_hosts (tt_known_hosts t) of
                  Some e \<Rightarrow> Inl (''load known_hosts: '' @ e)
                | None \<Rightarrow>
                    (case pinnedHostKeyAlgorithms files parse_key (tt_known_hosts t) (host_key_name t) of
                       Inl e \<Rightarrow> Inl (''load pinned host key algorithms: '' @ e)
                     | Inr algs \<Rightarrow>
                         applySSHCompatOptions (tt_options t)
                           \<lparr>cc_user = tt_user t, cc_host_key_algorithms = algs, cc_kex = [], cc_ciphers = [], cc_macs = []\<rparr>))))"

subsection \<open>Transports\<close>

record ws_settings =
  ws_enabled :: bool
  ws_carrier :: string
  ws_url :: string
  ws_path_prefix :: string

datatype dial_plan = DialTCP string | DialCarrier string string

definition normalizeWSURL :: "string \<Rightarrow> string" where
  "normalizeWSURL u =
     (if has_prefix u ''https://'' then ''wss://'' @ trim_prefix u ''https://''
      else if has_prefix u ''http://'' then ''ws://'' @ trim_prefix u ''http://''
      else u)"

text \<open>\<open>transportDialer\<close>: what the returned function dials.\<close>

definition transportDialer :: "tunnel_target \<Rightarrow> ws_settings \<Rightarrow> string \<Rightarrow> string + dial_plan" where
  "transportDialer t ws transport =
     (if transport = ''direct'' then Inr (DialTCP (host_key_name t))
      else if transport = ''websocket'' then
        (let carrier = first_non_empty [ws_carrier ws, ''reach''] in
         if \<not> ws_enabled ws then Inl ''websocket transport is not enabled''
         else if carrier \<noteq> ''reach'' then Inl (''embedded websocket transport supports reach carrier, got '' @ go_quote carrier)
         else if ws_url ws = [] \<or> ws_path_prefix ws = [] then Inl ''websocket url and path_prefix are required''
         else Inr (DialCarrier (normalizeWSURL (ws_url ws)) (ws_path_prefix ws)))
      else Inl (''unknown transport '' @ go_quote transport))"

subsection \<open>Facts\<close>

lemma fold_intersect:
  "set (fold (\<lambda>alg out. if alg \<in> P \<and> alg \<notin> set out then alg # out else out) xs acc) = set acc \<union> (set xs \<inter> P)
   \<and> (distinct acc \<longrightarrow> distinct (fold (\<lambda>alg out. if alg \<in> P \<and> alg \<notin> set out then alg # out else out) xs acc))"
  by (induction xs arbitrary: acc) auto

lemma intersect_set [simp]: "set (intersectAlgorithms r p) = set r \<inter> set p"
  using fold_intersect [of "set p" r "[]"] by (simp add: intersectAlgorithms_def)

lemma intersect_distinct: "distinct (intersectAlgorithms r p)"
  using fold_intersect [of "set p" r "[]"] by (simp add: intersectAlgorithms_def)

text \<open>The entries of a host field that count: whether negated, and the pattern.\<close>

definition host_entries :: "string list \<Rightarrow> (bool \<times> string) list" where
  "host_entries raws =
     filter (\<lambda>(n, p). \<not> has_prefix p ''|'')
       (map (\<lambda>t. (has_prefix t ''!'', trim_prefix t ''!'')) (filter (\<lambda>t. t \<noteq> []) (map trim_space raws)))"

lemma host_entries_Cons:
  "host_entries (raw # rest) =
     (let t = trim_space raw in
      if t = [] \<or> has_prefix (trim_prefix t ''!'') ''|'' then host_entries rest
      else (has_prefix t ''!'', trim_prefix t ''!'') # host_entries rest)"
  by (simp add: host_entries_def Let_def)

lemma field_matches_entries:
  assumes "\<forall>e \<in> set (host_entries raws). \<exists>ok. test (snd e) = Inr ok"
  shows "field_matches test m raws =
    Inr ((m \<or> (\<exists>e \<in> set (host_entries raws). \<not> fst e \<and> test (snd e) = Inr True))
         \<and> (\<forall>e \<in> set (host_entries raws). fst e \<longrightarrow> test (snd e) \<noteq> Inr True))"
  using assms
proof (induction raws arbitrary: m)
  case Nil
  then show ?case by (simp add: host_entries_def)
next
  case (Cons raw rest)
  define t where "t = trim_space raw"
  have p: "(if has_prefix t ''!'' then trim_prefix t ''!'' else t) = trim_prefix t ''!''"
    by (simp add: trim_prefix_def)
  show ?case
  proof (cases "t = [] \<or> has_prefix (trim_prefix t ''!'') ''|''")
    case True
    then have "host_entries (raw # rest) = host_entries rest"
      by (simp add: host_entries_Cons t_def [symmetric] Let_def)
    moreover have "field_matches test m (raw # rest) = field_matches test m rest"
      using True by (auto simp: t_def [symmetric] Let_def p)
    ultimately show ?thesis using Cons by simp
  next
    case False
    then have e: "host_entries (raw # rest) = (has_prefix t ''!'', trim_prefix t ''!'') # host_entries rest"
      by (simp add: host_entries_Cons t_def [symmetric] Let_def)
    then obtain ok where ok: "test (trim_prefix t ''!'') = Inr ok" using Cons.prems by auto
    have "field_matches test m (raw # rest) =
        (if \<not> ok then field_matches test m rest
         else if has_prefix t ''!'' then Inr False else field_matches test True rest)"
      using False by (simp add: t_def [symmetric] Let_def p ok del: has_prefix_iff)
    then show ?thesis using Cons e ok by auto
  qed
qed

lemma apply_option_algs:
  "apply_option raw cfg = Inr cfg' \<Longrightarrow> cc_host_key_algorithms cfg \<noteq> [] \<Longrightarrow>
   cc_host_key_algorithms cfg' \<noteq> [] \<and> set (cc_host_key_algorithms cfg') \<subseteq> set (cc_host_key_algorithms cfg)
   \<and> (distinct (cc_host_key_algorithms cfg) \<longrightarrow> distinct (cc_host_key_algorithms cfg'))"
  by (auto simp: apply_option_def Let_def intersect_distinct split: option.splits if_splits)

lemma apply_options_algs:
  "applySSHCompatOptions opts cfg = Inr cfg' \<Longrightarrow> cc_host_key_algorithms cfg \<noteq> [] \<Longrightarrow>
   cc_host_key_algorithms cfg' \<noteq> [] \<and> set (cc_host_key_algorithms cfg') \<subseteq> set (cc_host_key_algorithms cfg)
   \<and> (distinct (cc_host_key_algorithms cfg) \<longrightarrow> distinct (cc_host_key_algorithms cfg'))"
proof (induction opts cfg rule: applySSHCompatOptions.induct)
  case (2 raw opts cfg)
  then obtain c where c: "apply_option raw cfg = Inr c" "applySSHCompatOptions opts c = Inr cfg'"
    by (auto split: sum.splits)
  from apply_option_algs [OF c(1) 2(3)] 2(1) [OF c(1) c(2)] show ?case by auto
qed simp

text \<open>The key type a line contributes, if any.\<close>

definition line_pins :: "(string \<Rightarrow> string + string) \<Rightarrow> string \<Rightarrow> string \<Rightarrow> string \<Rightarrow> string \<Rightarrow> bool" where
  "line_pins parse_key host port raw alg \<longleftrightarrow>
     \<not> has_prefix (trim_space raw) ''#'' \<and>
     (\<exists>marker hosts key. splitKnownHostsLine (trim_space raw) = Some (marker, hosts, key) \<and>
        marker \<notin> {''@revoked'', ''@cert-authority''} \<and>
        knownHostsFieldMatches hosts host port = Inr True \<and> parse_key key = Inr alg)"

lemma splitKnownHostsLine_Nil [simp]: "splitKnownHostsLine [] = None"
  by (simp add: splitKnownHostsLine_def GoStrings.fields_def)

lemma pinned_line_adds:
  assumes "pinned_line parse_key f host port n raw out = Inr out'"
  shows "set out' = set out \<union> {alg. line_pins parse_key host port raw alg} \<and> (distinct out \<longrightarrow> distinct out')"
  using assms
  by (cases "trim_space raw = []")
    (auto simp: pinned_line_def line_pins_def Let_def split: if_splits option.splits sum.splits prod.splits)

lemma pinned_lines_adds:
  assumes "pinned_lines parse_key f host port n ls out = Inr out'"
  shows "set out' = set out \<union> {alg. \<exists>l \<in> set ls. line_pins parse_key host port l alg} \<and> (distinct out \<longrightarrow> distinct out')"
  using assms
proof (induction ls arbitrary: n out)
  case (Cons l ls)
  then obtain o1 where o1: "pinned_line parse_key f host port (n + 1) l out = Inr o1"
    "pinned_lines parse_key f host port (n + 1) ls o1 = Inr out'"
    by (auto split: sum.splits)
  from pinned_line_adds [OF o1(1)] Cons.IH [OF o1(2)] show ?case by auto
qed simp

lemma pinned_file:
  assumes "pinnedHostKeyAlgorithmsFromKnownHosts parse_key content f hp = Inr out"
  shows "\<exists>host port. split_host_port hp = Inr (host, port) \<and> out \<noteq> [] \<and> distinct out \<and>
    set out = {alg. \<exists>l \<in> set (fst (scan_lines content)). line_pins parse_key host port l alg}"
proof -
  from assms obtain host port where hp: "split_host_port hp = Inr (host, port)"
    by (auto simp: pinnedHostKeyAlgorithmsFromKnownHosts_def split: sum.splits)
  with assms have "pinned_lines parse_key f host port 0 (fst (scan_lines content)) [] = Inr out" "out \<noteq> []"
    by (auto simp: pinnedHostKeyAlgorithmsFromKnownHosts_def Let_def split: sum.splits prod.splits if_splits)
  from pinned_lines_adds [OF this(1)] this(2) hp show ?thesis by auto
qed

end
