(* ===== verification/SshCompat.thy ===== *)
theory SshCompat
  imports HostKeys
begin

text \<open>
  What the agent finds out about the local OpenSSH and the key types it uses
  (\<open>cmd/reach-agent/ssh_compat.go\<close>), and which PEM keys with explicit curve parameters it accepts
  (\<open>cmd/reach-agent/ssh_key_parse.go\<close>). The outputs of \<open>ssh -V\<close> and of the \<open>ssh-keygen\<close> probes,
  the PEM and ASN.1 decoders and the elliptic curves are parameters.
\<close>

subsection \<open>The version of OpenSSH\<close>

record sshVersionInfo =
  sv_Raw :: string
  sv_Major :: int
  sv_Minor :: int
  sv_Patch :: int
  sv_Recognized :: bool
  sv_HasED25519 :: bool
  sv_HasECDSA :: bool
  sv_LikelyOld53 :: bool

definition no_version :: "string \<Rightarrow> sshVersionInfo" where
  "no_version raw = \<lparr>sv_Raw = raw, sv_Major = 0, sv_Minor = 0, sv_Patch = 0, sv_Recognized = False,
     sv_HasED25519 = False, sv_HasECDSA = False, sv_LikelyOld53 = False\<rparr>"

text \<open>\<open>opensshVersionRE\<close> at the start of a text: the digits of its three groups.\<close>

definition version_here :: "string \<Rightarrow> (string \<times> string \<times> string) option" where
  "version_here s =
     (if \<not> has_prefix s ''OpenSSH_'' then None
      else let r = drop 8 s;
               major = takeWhile is_digit r;
               r1 = dropWhile is_digit r
           in if major = [] \<or> \<not> has_prefix r1 ''.'' then None
              else let minor = takeWhile is_digit (tl r1);
                       r2 = dropWhile is_digit (tl r1)
                   in if minor = [] then None
                      else Some (major, minor, if has_prefix r2 ''p'' then takeWhile is_digit (tl r2) else []))"

fun find_version :: "string \<Rightarrow> (string \<times> string \<times> string) option" where
  "find_version [] = None"
| "find_version (c # s) = (case version_here (c # s) of None \<Rightarrow> find_version s | Some v \<Rightarrow> Some v)"

text \<open>\<open>strconv.Atoi\<close> on digits, its error ignored: a number out of range becomes the largest.\<close>

definition atoi_digits :: "string \<Rightarrow> int" where
  "atoi_digits ds = min (int (read_digits ds)) max_int64"

definition versionAtLeast :: "sshVersionInfo \<Rightarrow> int \<Rightarrow> int \<Rightarrow> bool" where
  "versionAtLeast v major minor \<longleftrightarrow>
     sv_Recognized v \<and> (sv_Major v > major \<or> sv_Major v = major \<and> sv_Minor v \<ge> minor)"

definition parseOpenSSHVersion :: "string \<Rightarrow> sshVersionInfo" where
  "parseOpenSSHVersion raw =
     (case find_version raw of
        None \<Rightarrow> no_version raw
      | Some (maj, mi, pa) \<Rightarrow>
          let v = (no_version raw)\<lparr>sv_Recognized := True, sv_Major := atoi_digits maj, sv_Minor := atoi_digits mi,
                     sv_Patch := (if pa = [] then 0 else atoi_digits pa)\<rparr>
          in v\<lparr>sv_HasED25519 := versionAtLeast v 6 5, sv_HasECDSA := versionAtLeast v 5 7,
               sv_LikelyOld53 := sv_Major v < 6 \<or> sv_Major v = 6 \<and> sv_Minor v \<le> 2\<rparr>)"

text \<open>\<open>localSSHVersion\<close>: the output of \<open>ssh -V\<close> and whether the program failed.\<close>

definition localSSHVersion :: "string \<times> bool \<Rightarrow> sshVersionInfo" where
  "localSSHVersion out =
     (if snd out \<and> fst out = [] then no_version [] else parseOpenSSHVersion (trim_space (fst out)))"

subsection \<open>Key types\<close>

text \<open>\<open>keygen args\<close> tells whether \<open>ssh-keygen\<close> is installed and a run with these arguments succeeds.\<close>

definition keygen_candidates :: "(string \<times> string list) list" where
  "keygen_candidates =
     [(''ssh-ed25519'', [''-t'', ''ed25519'']), (''ecdsa-sha2-nistp256'', [''-t'', ''ecdsa'', ''-b'', ''256'']),
      (''ssh-rsa'', [''-t'', ''rsa'', ''-b'', ''4096''])]"

definition supportedKeygenTypes :: "(string list \<Rightarrow> bool) option \<Rightarrow> string list" where
  "supportedKeygenTypes keygen =
     (case keygen of None \<Rightarrow> [] | Some works \<Rightarrow> map fst (filter (\<lambda>(t, args). works args) keygen_candidates))"

definition chooseKeyType :: "string list \<Rightarrow> string" where
  "chooseKeyType types =
     (case List.find (\<lambda>want. want \<in> set types) [''ssh-ed25519'', ''ecdsa-sha2-nistp256'', ''ssh-rsa''] of
        Some t \<Rightarrow> t | None \<Rightarrow> ''ssh-rsa'')"

definition needsLegacyClientOptions :: "sshVersionInfo \<Rightarrow> string \<Rightarrow> bool" where
  "needsLegacyClientOptions v keyType \<longleftrightarrow>
     (keyType = ''ssh-rsa'' \<and> (\<not> sv_Recognized v \<or> \<not> sv_HasED25519 v)) \<or> sv_Recognized v \<and> sv_LikelyOld53 v"

definition clientOptionsForServerBanner :: "string \<Rightarrow> string \<Rightarrow> string list" where
  "clientOptionsForServerBanner banner hostKeyType =
     (let v = parseOpenSSHVersion banner in
      if sv_Recognized v \<and> sv_LikelyOld53 v \<or> hostKeyType = ''ssh-rsa'' then
        [''KexAlgorithms=diffie-hellman-group14-sha1'', ''HostKeyAlgorithms=ssh-rsa'',
         ''PubkeyAcceptedAlgorithms=+ssh-rsa'', ''Ciphers=aes128-ctr'', ''MACs=hmac-sha1'']
      else [])"

record SSHCompatConfig =
  sc_ClientVersion :: string
  sc_TunnelKeyType :: string
  sc_UserSSHDHostKeyType :: string
  sc_TunnelOptions :: "string list"
  sc_ClientOptions :: "string list"
  sc_SupportedAuthorizedKeyTypes :: "string list"

definition detectSSHCompatibility :: "string \<times> bool \<Rightarrow> (string list \<Rightarrow> bool) option \<Rightarrow> SSHCompatConfig" where
  "detectSSHCompatibility ssh_v keygen =
     (let v = localSSHVersion ssh_v;
          types = supportedKeygenTypes keygen;
          userKeyTypes = (if types = [] then [''ssh-rsa''] else types);
          userKeyType = chooseKeyType userKeyTypes
      in \<lparr>sc_ClientVersion = sv_Raw v, sc_TunnelKeyType = ''ssh-ed25519'', sc_UserSSHDHostKeyType = userKeyType,
          sc_TunnelOptions =
            (if needsLegacyClientOptions v userKeyType then
               [''KexAlgorithms=diffie-hellman-group-exchange-sha256,diffie-hellman-group14-sha1'',
                ''HostKeyAlgorithms=ssh-rsa'', ''Ciphers=aes128-ctr,aes192-ctr,aes256-ctr'', ''MACs=hmac-sha1'']
             else []),
          sc_ClientOptions = [], sc_SupportedAuthorizedKeyTypes = userKeyTypes\<rparr>)"

definition keyTypeSupported :: "string \<Rightarrow> string list \<Rightarrow> bool" where
  "keyTypeSupported keyType supported \<longleftrightarrow> keyType \<in> set supported"

definition publicKeyType :: "(string \<rightharpoonup> string) \<Rightarrow> string \<Rightarrow> string" where
  "publicKeyType files path =
     (case files path of None \<Rightarrow> []
      | Some b \<Rightarrow> (case GoStrings.fields b of [] \<Rightarrow> [] | f # _ \<Rightarrow> f))"

subsection \<open>Keys\<close>

text \<open>
  The key material of a type: \<open>generate\<close> stands for the key generators, the PEM encoder and
  \<open>ssh.MarshalAuthorizedKey\<close>; its result is the private PEM text and the public line, or an error.
\<close>

definition generateSSHKeyMaterial ::
  "(string \<Rightarrow> string + string \<times> string) \<Rightarrow> string \<Rightarrow> string \<Rightarrow> string + string \<times> string" where
  "generateSSHKeyMaterial generate keyType comment =
     (if keyType \<notin> {''ssh-ed25519'', ''ecdsa-sha2-nistp256'', ''ssh-rsa'', ''rsa''} then
        Inl (''unsupported ssh key type '' @ go_quote keyType)
      else case generate (if keyType = ''rsa'' then ''ssh-rsa'' else keyType) of
          Inl e \<Rightarrow> Inl e
        | Inr (privatePEM, line) \<Rightarrow>
            if privatePEM = [] then Inl (''encode '' @ keyType @ '' private key failed'')
            else let pub = trim_space line in
              Inr (privatePEM, (if comment \<noteq> [] then pub @ '' '' @ comment else pub) @ [nl]))"

text \<open>
  \<open>parseExplicitECPrivateKey\<close> after the PEM and ASN.1 decoders: curves are given by their
  parameters and the base-point multiplication, big-endian byte strings by their values.
\<close>

record curve =
  cu_name :: string
  cu_P :: nat
  cu_N :: nat
  cu_B :: nat
  cu_Gx :: nat
  cu_Gy :: nat
  cu_BitSize :: nat

definition big_bytes :: "nat list \<Rightarrow> nat" where
  "big_bytes bs = foldl (\<lambda>a b. 256 * a + b) 0 bs"

record ec_domain =
  ed_Version :: int
  ed_FieldType :: "nat list"
  ed_FieldParameters :: "nat list"
  ed_CurveA :: "nat list"
  ed_CurveB :: "nat list"
  ed_Base :: "nat list"
  ed_Order :: "int option"
  ed_Cofactor :: int

definition oidPrimeField :: "nat list" where "oidPrimeField = [1, 2, 840, 10045, 1, 1]"

definition explicitDomainMatchesCurve :: "ec_domain \<Rightarrow> curve \<Rightarrow> bool" where
  "explicitDomainMatchesCurve d c \<longleftrightarrow>
     (case ed_Order d of
        None \<Rightarrow> False
      | Some order \<Rightarrow>
          ed_Version d = 1 \<and> ed_FieldType d = oidPrimeField \<and>
          big_bytes (ed_FieldParameters d) = cu_P c \<and> order = int (cu_N c) \<and>
          (ed_Cofactor d = 0 \<or> ed_Cofactor d = 1) \<and>
          int (big_bytes (ed_CurveA d)) = int (cu_P c) - 3 \<and> big_bytes (ed_CurveB d) = cu_B c \<and>
          (let pointLen = (cu_BitSize c + 7) div 8
           in length (ed_Base d) = 1 + 2 * pointLen \<and> ed_Base d ! 0 = 4 \<and>
              big_bytes (take pointLen (drop 1 (ed_Base d))) = cu_Gx c \<and>
              big_bytes (drop (1 + pointLen) (ed_Base d)) = cu_Gy c))"

definition parseExplicitCurve ::
  "curve list \<Rightarrow> (nat list \<Rightarrow> string + ec_domain \<times> nat list) \<Rightarrow> nat list \<Rightarrow> string + curve" where
  "parseExplicitCurve curves unmarshal der =
     (case unmarshal der of
        Inl e \<Rightarrow> Inl e
      | Inr (domain, rest) \<Rightarrow>
          if rest \<noteq> [] then Inl ''trailing data after EC domain parameters''
          else case List.find (explicitDomainMatchesCurve domain) curves of
              Some c \<Rightarrow> Inr c
            | None \<Rightarrow> Inl ''unsupported explicit EC domain'')"

record ec_private_key =
  ek_PrivateKey :: "nat list"
  ek_Parameters :: "nat list"
  ek_PublicKey :: "nat list"

text \<open>
  The blocks of a PEM text are pairs of their type and bytes; the loop stops at the first of type
  \<open>EC PRIVATE KEY\<close>, and without one at the last block, unless text that is no block follows it.
\<close>

definition pem_ec_block :: "(string \<times> nat list) list \<Rightarrow> bool \<Rightarrow> string + nat list" where
  "pem_ec_block blocks trailing =
     (case List.find (\<lambda>b. fst b = ''EC PRIVATE KEY'') blocks of
        Some b \<Rightarrow> Inr (snd b)
      | None \<Rightarrow> if blocks = [] \<or> trailing then Inl ''not PEM'' else Inl ''PEM does not contain EC PRIVATE KEY'')"

definition parseExplicitECPrivateKey ::
  "curve list \<Rightarrow> (curve \<Rightarrow> nat \<Rightarrow> (nat \<times> nat) option) \<Rightarrow> (curve \<Rightarrow> nat list \<Rightarrow> (nat \<times> nat) option)
   \<Rightarrow> (nat list \<Rightarrow> string + ec_private_key \<times> nat list) \<Rightarrow> (nat list \<Rightarrow> string + ec_domain \<times> nat list)
   \<Rightarrow> (string \<times> nat list) list \<Rightarrow> bool \<Rightarrow> string + curve \<times> nat \<times> nat \<times> nat" where
  "parseExplicitECPrivateKey curves base_mult unmarshal_point unmarshal_key unmarshal_domain blocks trailing =
     (case pem_ec_block blocks trailing of
        Inl e \<Rightarrow> Inl e
      | Inr bytes \<Rightarrow>
          (case unmarshal_key bytes of
             Inl e \<Rightarrow> Inl e
           | Inr (k, rest) \<Rightarrow>
               if rest \<noteq> [] then Inl ''trailing data after EC private key''
               else if ek_PrivateKey k = [] then Inl ''missing EC private scalar''
               else if ek_Parameters k = [] then Inl ''missing EC parameters''
               else case parseExplicitCurve curves unmarshal_domain (ek_Parameters k) of
                   Inl e \<Rightarrow> Inl e
                 | Inr c \<Rightarrow>
                     let d = big_bytes (ek_PrivateKey k) in
                     if d = 0 \<or> cu_N c \<le> d then Inl ''invalid EC private scalar''
                     else case base_mult c d of
                         None \<Rightarrow> Inl ''failed to derive EC public key''
                       | Some (x, y) \<Rightarrow>
                           if ek_PublicKey k = [] then Inr (c, d, x, y)
                           else case unmarshal_point c (ek_PublicKey k) of
                               None \<Rightarrow> Inl ''invalid EC public key point''
                             | Some p \<Rightarrow>
                                 if p \<noteq> (x, y) then Inl ''EC public key does not match private scalar''
                                 else Inr (c, d, x, y)))"

definition parseTunnelPrivateKey :: "(string + 'signer) \<Rightarrow> (string + 'signer) \<Rightarrow> string + 'signer" where
  "parseTunnelPrivateKey parsed fallback =
     (case parsed of
        Inr s \<Rightarrow> Inr s
      | Inl e \<Rightarrow> (case fallback of Inr s \<Rightarrow> Inr s | Inl f \<Rightarrow> Inl (e @ ''; explicit EC fallback failed: '' @ f)))"

end
