(* ===== verification/LocalSshd.thy ===== *)
theory LocalSshd
  imports SshCompat World
begin

text \<open>
  The SSH server the agent runs on the loopback interface when no system \<open>sshd\<close> can be used
  (\<open>cmd/reach-agent/internal_sshd.go\<close>), and the files the agent writes for its keys
  (\<open>generateSSHKey\<close>, \<open>writeFileAtomic\<close>, \<open>ensurePublicKeyForPrivateKey\<close> of \<open>ssh_compat.go\<close>). The host
  is the one of \<open>World\<close>. The SSH protocol itself and the terminal are the libraries'.
\<close>

subsection \<open>Files\<close>

definition path_dir :: "string \<Rightarrow> string" where
  "path_dir p = path_clean (rev (dropWhile (\<lambda>c. c \<noteq> CHR ''/'') (rev p)))"

text \<open>\<open>writeFileAtomic\<close>: a temporary file beside the target, named by the time, then a rename.\<close>

definition writeFileAtomic :: "nat \<Rightarrow> string \<Rightarrow> string \<Rightarrow> string \<Rightarrow> host \<Rightarrow> string option \<times> host" where
  "writeFileAtomic nanos path data perm h =
     (let tmp = path @ ''.tmp-'' @ show_nat nanos in
      case write_file tmp data h of
        (Some e, h1) \<Rightarrow> (Some e, h1)
      | (None, h1) \<Rightarrow>
          (case rename_file tmp path h1 of
             (Some e, h2) \<Rightarrow>
               (Some e, snd (os_call [''Remove'', tmp] (\<lambda>h. h\<lparr>ho_files := (ho_files h)(tmp := None)\<rparr>) h2))
           | (None, h2) \<Rightarrow> os_call [''Chmod'', path, perm] id h2))"

definition generateSSHKey ::
  "(string \<Rightarrow> string + string \<times> string) \<Rightarrow> nat \<times> nat \<Rightarrow> string \<Rightarrow> string \<Rightarrow> string \<Rightarrow> host \<Rightarrow> string option \<times> host" where
  "generateSSHKey generate nanos keyPath keyType comment =
     and_then (os_call [''MkdirAll'', path_dir keyPath] id)
       (\<lambda>h. case generateSSHKeyMaterial generate keyType comment of
              Inl e \<Rightarrow> (Some e, h)
            | Inr (privatePEM, publicKey) \<Rightarrow>
                and_then (writeFileAtomic (fst nanos) keyPath privatePEM ''0600'')
                  (writeFileAtomic (snd nanos) (keyPath @ ''.pub'') publicKey ''0644'') h)"

text \<open>\<open>signer_line\<close> parses the private key and writes its public line, or is an error.\<close>

definition ensurePublicKeyForPrivateKey ::
  "(string \<Rightarrow> string + string) \<Rightarrow> nat \<Rightarrow> string \<Rightarrow> string \<Rightarrow> host \<Rightarrow> string option \<times> host" where
  "ensurePublicKeyForPrivateKey signer_line nanos privatePath comment h =
     (case ho_files h privatePath of
        None \<Rightarrow> (Some (''open '' @ privatePath @ '': no such file or directory''), h)
      | Some b \<Rightarrow>
          (case signer_line b of
             Inl e \<Rightarrow> (Some e, h)
           | Inr line \<Rightarrow>
               let pub = trim_space line in
               writeFileAtomic nanos (privatePath @ ''.pub'')
                 ((if comment \<noteq> [] then pub @ '' '' @ comment else pub) @ [nl]) ''0644'' h))"

text \<open>\<open>ensureInternalHostKey\<close>; the new key is \<open>encode\<close>'s, or its error.\<close>

definition ensureInternalHostKey ::
  "(string \<Rightarrow> bool) \<Rightarrow> string + string \<Rightarrow> nat \<Rightarrow> string \<Rightarrow> host \<Rightarrow> string option \<times> host" where
  "ensureInternalHostKey is_dir new_key nanos path h =
     (if file_exists path h \<and> \<not> is_dir path then (None, h)
      else and_then (os_call [''MkdirAll'', path_dir path] id)
        (\<lambda>h. case new_key of
               Inl e \<Rightarrow> (Some e, h)
             | Inr data \<Rightarrow>
                 if data = [] then (Some ''encode internal sshd host key failed'', h)
                 else let tmp = path @ ''.tmp-'' @ show_nat nanos in
                   case write_file tmp data h of
                     (Some e, h1) \<Rightarrow> (Some e, h1)
                   | (None, h1) \<Rightarrow>
                       (case rename_file tmp path h1 of
                          (Some e, h2) \<Rightarrow>
                            (Some e, snd (os_call [''Remove'', tmp] (\<lambda>h. h\<lparr>ho_files := (ho_files h)(tmp := None)\<rparr>) h2))
                        | (None, h2) \<Rightarrow> (None, snd (os_call [''Chmod'', path, ''0600''] id h2)))) h)"

subsection \<open>The command\<close>

record internalSSHDOptions =
  so_Port :: int
  so_AuthFile :: string
  so_HostKeyPath :: string
  so_Shell :: string

definition internalSSHDSupportedKeyTypes :: "string list" where
  "internalSSHDSupportedKeyTypes = [''ssh-ed25519'', ''ecdsa-sha2-nistp256'', ''ssh-rsa'']"

text \<open>\<open>internalSSHDCommand\<close> after its flags are parsed; \<open>stat\<close> says whether a path is a directory.\<close>

definition internalSSHDCommand ::
  "(string \<Rightarrow> string + bool) \<Rightarrow> internalSSHDOptions \<Rightarrow> string list \<Rightarrow> string + internalSSHDOptions" where
  "internalSSHDCommand stat opt args =
     (if args \<noteq> [] then Inl (''unexpected internal-sshd arguments: '' @ join '' '' args)
      else if so_Port opt < 1024 \<or> 65535 < so_Port opt then Inl ''--port must be in range 1024-65535''
      else if trim_space (so_AuthFile opt) = [] then Inl ''--auth-file is required''
      else if trim_space (so_HostKeyPath opt) = [] then Inl ''--host-key is required''
      else case stat (so_AuthFile opt) of
          Inl e \<Rightarrow> Inl e
        | Inr dir \<Rightarrow>
            if dir then Inl (so_AuthFile opt @ '' is a directory'')
            else (case stat (so_HostKeyPath opt) of
                Inl e \<Rightarrow> Inl e
              | Inr dir' \<Rightarrow> if dir' then Inl (so_HostKeyPath opt @ '' is a directory'') else Inr opt))"

subsection \<open>Authorized keys\<close>

fun authorized_lines :: "(string \<Rightarrow> string + 'key) \<Rightarrow> string \<Rightarrow> nat \<Rightarrow> string list \<Rightarrow> string + 'key list" where
  "authorized_lines parse path n [] = Inr []"
| "authorized_lines parse path n (raw # rest) =
     (let line = trim_space raw in
      if line = [] \<or> has_prefix line ''#'' then authorized_lines parse path (n + 1) rest
      else case parse line of
          Inl e \<Rightarrow> Inl (path @ '':'' @ show_nat (n + 1) @ '': '' @ e)
        | Inr k \<Rightarrow> (case authorized_lines parse path (n + 1) rest of Inl e \<Rightarrow> Inl e | Inr ks \<Rightarrow> Inr (k # ks)))"

definition loadAuthorizedKeys ::
  "(string \<rightharpoonup> string) \<Rightarrow> (string \<Rightarrow> string + 'key) \<Rightarrow> string \<Rightarrow> string + 'key list" where
  "loadAuthorizedKeys files parse path =
     (case files path of
        None \<Rightarrow> Inl (''open '' @ path @ '': no such file or directory'')
      | Some content \<Rightarrow>
          let (ls, too_long) = scan_lines content in
          case authorized_lines parse path 0 ls of
            Inl e \<Rightarrow> Inl e
          | Inr ks \<Rightarrow> if too_long then Inl ''bufio.Scanner: token too long'' else Inr ks)"

definition publicKeyAuthorized :: "'key \<Rightarrow> 'key list \<Rightarrow> bool" where
  "publicKeyAuthorized key authorized \<longleftrightarrow> key \<in> set authorized"

text \<open>The \<open>PublicKeyHandler\<close>: the file is read again for every attempt.\<close>

definition public_key_handler :: "(string \<Rightarrow> string + 'key) \<Rightarrow> string \<Rightarrow> (string \<rightharpoonup> string) \<Rightarrow> 'key \<Rightarrow> bool" where
  "public_key_handler parse authFile files key =
     (case loadAuthorizedKeys files parse authFile of
        Inl e \<Rightarrow> False | Inr authorized \<Rightarrow> publicKeyAuthorized key authorized)"

text \<open>\<open>runInternalSSHD\<close> up to listening: the address it binds.\<close>

definition runInternalSSHD ::
  "(string \<Rightarrow> string option) \<Rightarrow> (string \<Rightarrow> string + 'key) \<Rightarrow> (string \<rightharpoonup> string) \<Rightarrow> internalSSHDOptions \<Rightarrow> string + string" where
  "runInternalSSHD parse_private parse files opt =
     (case files (so_HostKeyPath opt) of
        None \<Rightarrow> Inl (''open '' @ so_HostKeyPath opt @ '': no such file or directory'')
      | Some b \<Rightarrow>
          (case parse_private b of
             Some e \<Rightarrow> Inl (''parse internal sshd host key '' @ so_HostKeyPath opt @ '': '' @ e)
           | None \<Rightarrow>
               (case loadAuthorizedKeys files parse (so_AuthFile opt) of
                  Inl e \<Rightarrow> Inl e
                | Inr ks \<Rightarrow>
                    if ks = [] then Inl (''no authorized public keys in '' @ so_AuthFile opt)
                    else Inr (''127.0.0.1:'' @ show_int (so_Port opt)))))"

subsection \<open>Sessions\<close>

definition resolveShell :: "(string \<Rightarrow> bool) \<Rightarrow> string \<Rightarrow> string \<Rightarrow> string" where
  "resolveShell executable shellOverride env_shell =
     (case List.find (\<lambda>c. c \<noteq> [] \<and> executable c)
             (map trim_space [shellOverride, env_shell, ''/bin/bash'', ''/bin/sh'']) of
        Some c \<Rightarrow> c | None \<Rightarrow> ''/bin/sh'')"

definition minimalShellEnv :: "string \<Rightarrow> string \<Rightarrow> string \<Rightarrow> string \<Rightarrow> string list" where
  "minimalShellEnv shell home user path =
     [''SHELL='' @ shell] @
     (if home \<noteq> [] then [''HOME='' @ home] else []) @
     (if user \<noteq> [] then [''USER='' @ user, ''LOGNAME='' @ user] else []) @
     [if trim_space path \<noteq> [] then ''PATH='' @ path else ''PATH=/usr/local/bin:/usr/bin:/bin'']"

text \<open>The program of a session and its environment, in \<open>handleShellSession\<close>.\<close>

definition session_command :: "string \<Rightarrow> string \<Rightarrow> string list" where
  "session_command shell rawCommand =
     (let raw = trim_space rawCommand in if raw \<noteq> [] then [shell, ''-c'', raw] else [shell])"

definition session_env :: "string list \<Rightarrow> string list \<Rightarrow> string option \<Rightarrow> string list" where
  "session_env minimal client pty_term =
     minimal @ client @ (case pty_term of None \<Rightarrow> [] | Some t \<Rightarrow> if t = [] then [] else [''TERM='' @ t])"

text \<open>\<open>setPTYWindow\<close>: the rows and columns set on the terminal, as 16-bit words.\<close>

definition setPTYWindow :: "int \<Rightarrow> int \<Rightarrow> (16 word \<times> 16 word) option" where
  "setPTYWindow width height = (if width \<le> 0 \<or> height \<le> 0 then None else Some (word_of_int height, word_of_int width))"

datatype process_state = NotStarted | Exited int | Signalled int | OtherState

definition commandExitCode :: "process_state \<Rightarrow> int" where
  "commandExitCode st =
     (case st of NotStarted \<Rightarrow> 1 | Exited code \<Rightarrow> if 0 \<le> code then code else 1
      | Signalled sig \<Rightarrow> 128 + sig | OtherState \<Rightarrow> 1)"

end
