(* ===== verification/SshProps.thy ===== *)
theory SshProps
  imports LocalSshd
begin

text \<open>Properties of the agent's SSH client and of its loopback SSH server.\<close>

text \<open>C30: The embedded client negotiates only host key types that are pinned for the hub: the list
  it configures is not empty, has no repetition, and every type on it comes from an unmarked line of
  the known_hosts file whose host field matches the hub, whatever the compatibility options ask.\<close>

theorem client_host_keys_pinned:
  assumes "sshClientConfig files parse_private load_hosts parse_key t = Inr cfg"
  shows "\<exists>content host port. files (tt_known_hosts t) = Some content \<and>
    split_host_port (host_key_name t) = Inr (host, port) \<and>
    cc_host_key_algorithms cfg \<noteq> [] \<and> distinct (cc_host_key_algorithms cfg) \<and>
    (\<forall>alg \<in> set (cc_host_key_algorithms cfg). \<exists>l \<in> set (fst (scan_lines content)). line_pins parse_key host port l alg)"
proof -
  from assms obtain content algs where c: "files (tt_known_hosts t) = Some content"
    and p: "pinnedHostKeyAlgorithmsFromKnownHosts parse_key content (tt_known_hosts t) (host_key_name t) = Inr algs"
    and o: "applySSHCompatOptions (tt_options t)
        \<lparr>cc_user = tt_user t, cc_host_key_algorithms = algs, cc_kex = [], cc_ciphers = [], cc_macs = []\<rparr> = Inr cfg"
    by (auto simp: sshClientConfig_def pinnedHostKeyAlgorithms_def split: option.splits sum.splits)
  from pinned_file [OF p] obtain host port where h: "split_host_port (host_key_name t) = Inr (host, port)"
    "algs \<noteq> []" "distinct algs" "set algs = {alg. \<exists>l \<in> set (fst (scan_lines content)). line_pins parse_key host port l alg}"
    by blast
  from apply_options_algs [OF o] h(2-4) show ?thesis using c h(1) by auto
qed

definition example_hosts :: string where
  "example_hosts = ''hub.example ssh-ed25519 AAAA1'' @ [nl] @ ''@revoked hub.example ssh-rsa AAAA2'' @ [nl]"

definition example_target :: tunnel_target where
  "example_target = \<lparr>tt_hub_host = ''hub.example'', tt_hub_ssh_port = 22, tt_user = ''rt-abcd1234'', tt_key_path = ''/k'',
     tt_known_hosts = ''/kh'', tt_options = [''HostKeyAlgorithms=ssh-rsa,ssh-ed25519'']\<rparr>"

definition example_parse_key :: "string \<Rightarrow> string + string" where
  "example_parse_key s = (case GoStrings.fields s of [] \<Rightarrow> Inl ''no key'' | f # _ \<Rightarrow> Inr f)"

theorem client_host_keys_pinned_witness:
  "\<exists>cfg :: ssh_client_config.
     sshClientConfig [''/k'' \<mapsto> ''key'', ''/kh'' \<mapsto> example_hosts] (\<lambda>_. None) (\<lambda>_. None) example_parse_key example_target = Inr cfg \<and>
     cc_host_key_algorithms cfg = [''ssh-ed25519''] \<and> distinct (cc_host_key_algorithms cfg)"
proof -
  have p: "pinnedHostKeyAlgorithmsFromKnownHosts example_parse_key example_hosts ''/kh'' ''hub.example:22'' = Inr [''ssh-ed25519'']"
  proof -
    let ?l1 = "''hub.example ssh-ed25519 AAAA1''"
    let ?l2 = "''@revoked hub.example ssh-rsa AAAA2''"
    have "split_on nl example_hosts = [?l1, ?l2, []]" by code_simp
    moreover have "length example_hosts < 65536" by (simp add: example_hosts_def)
    ultimately have ls: "scan_lines example_hosts = ([?l1, ?l2], False)"
      by (simp add: scan_lines_short drop_cr_def)
    have h: "split_host_port ''hub.example:22'' = Inr (''hub.example'', ''22'')" by code_simp
    have l1: "pinned_line example_parse_key ''/kh'' ''hub.example'' ''22'' 1 ?l1 [] = Inr [''ssh-ed25519'']" by code_simp
    have l2: "pinned_line example_parse_key ''/kh'' ''hub.example'' ''22'' 2 ?l2 [''ssh-ed25519''] = Inr [''ssh-ed25519'']"
      by code_simp
    show ?thesis unfolding pinnedHostKeyAlgorithmsFromKnownHosts_def h ls using l1 l2 by (simp add: numeral_2_eq_2)
  qed
  have n: "host_key_name example_target = ''hub.example:22''" by code_simp
  have o: "apply_option ''HostKeyAlgorithms=ssh-rsa,ssh-ed25519''
      \<lparr>cc_user = u, cc_host_key_algorithms = [''ssh-ed25519''], cc_kex = [], cc_ciphers = [], cc_macs = []\<rparr> =
      Inr \<lparr>cc_user = u, cc_host_key_algorithms = [''ssh-ed25519''], cc_kex = [], cc_ciphers = [], cc_macs = []\<rparr>" for u
  proof -
    have "parseSSHOption ''HostKeyAlgorithms=ssh-rsa,ssh-ed25519'' = Some (''HostKeyAlgorithms'', [''ssh-rsa'', ''ssh-ed25519''])"
      by code_simp
    moreover have "to_lower ''HostKeyAlgorithms'' = ''hostkeyalgorithms''" by code_simp
    moreover have "intersectAlgorithms [''ssh-rsa'', ''ssh-ed25519''] [''ssh-ed25519''] = [''ssh-ed25519'']" by code_simp
    ultimately show ?thesis by (simp add: apply_option_def Let_def)
  qed
  have s: "sshClientConfig [''/k'' \<mapsto> ''key'', ''/kh'' \<mapsto> example_hosts] (\<lambda>_. None) (\<lambda>_. None) example_parse_key example_target =
      Inr \<lparr>cc_user = ''rt-abcd1234'', cc_host_key_algorithms = [''ssh-ed25519''], cc_kex = [], cc_ciphers = [], cc_macs = []\<rparr>"
    by (simp add: sshClientConfig_def pinnedHostKeyAlgorithms_def n [unfolded example_target_def] example_target_def p o)
  from client_host_keys_pinned [OF s] s show ?thesis by auto
qed

text \<open>A host field of known_hosts matches exactly when one of its entries matches the host and
  none of its negated entries does, in whatever order they stand; hashed and empty entries do not
  count.\<close>

theorem host_field_spec:
  assumes "\<forall>e \<in> set (host_entries (split_on (CHR '','') field)).
    \<exists>ok. knownHostsPatternMatches (snd e) host port = Inr ok"
  shows "knownHostsFieldMatches field host port = Inr
    ((\<exists>e \<in> set (host_entries (split_on (CHR '','') field)). \<not> fst e \<and> knownHostsPatternMatches (snd e) host port = Inr True) \<and>
     (\<forall>e \<in> set (host_entries (split_on (CHR '','') field)). fst e \<longrightarrow> knownHostsPatternMatches (snd e) host port \<noteq> Inr True))"
  unfolding knownHostsFieldMatches_def by (subst field_matches_entries [OF assms]) simp

theorem host_field_spec_witness:
  "knownHostsFieldMatches ''*.example.org,!evil.example.org,|1|x'' ''evil.example.org'' ''22'' = Inr False"
proof -
  have e: "host_entries (split_on (CHR '','') ''*.example.org,!evil.example.org,|1|x'') =
      [(False, ''*.example.org''), (True, ''evil.example.org'')]"
    by code_simp
  have m: "knownHostsPatternMatches ''*.example.org'' ''evil.example.org'' ''22'' = Inr True"
    "knownHostsPatternMatches ''evil.example.org'' ''evil.example.org'' ''22'' = Inr True"
    by code_simp+
  have ok: "\<forall>e \<in> set (host_entries (split_on (CHR '','') ''*.example.org,!evil.example.org,|1|x'')).
      \<exists>ok. knownHostsPatternMatches (snd e) ''evil.example.org'' ''22'' = Inr ok"
    unfolding e by (auto simp: m)
  show ?thesis using host_field_spec [OF ok] unfolding e by (simp add: m)
qed

definition key_lines :: "string list \<Rightarrow> string list" where
  "key_lines ls = filter (\<lambda>l. l \<noteq> [] \<and> \<not> has_prefix l ''#'') (map trim_space ls)"

lemma authorized_lines_ok:
  "(authorized_lines parse path n ls = Inr ks) = (map parse (key_lines ls) = map Inr ks)"
proof (induction ls arbitrary: n ks)
  case (Cons l ls)
  show ?case
  proof (cases "trim_space l = [] \<or> has_prefix (trim_space l) ''#''")
    case True
    then have "key_lines (l # ls) = key_lines ls" by (auto simp: key_lines_def)
    moreover have "authorized_lines parse path n (l # ls) = authorized_lines parse path (n + 1) ls"
      using True by (auto simp: Let_def)
    ultimately show ?thesis using Cons.IH by simp
  next
    case False
    then have k: "key_lines (l # ls) = trim_space l # key_lines ls" by (simp add: key_lines_def)
    have a: "authorized_lines parse path n (l # ls) =
        (case parse (trim_space l) of Inl e \<Rightarrow> Inl (path @ '':'' @ show_nat (n + 1) @ '': '' @ e)
         | Inr k \<Rightarrow> (case authorized_lines parse path (n + 1) ls of Inl e \<Rightarrow> Inl e | Inr ks \<Rightarrow> Inr (k # ks)))"
      using False by (simp add: Let_def del: has_prefix_iff)
    show ?thesis
    proof (cases ks)
      case Nil
      then show ?thesis unfolding a k by (simp split: sum.split)
    next
      case (Cons k' ks')
      then show ?thesis unfolding a k using Cons.IH [of "n + 1" ks'] \<open>ks = k' # ks'\<close>
        by (auto split: sum.split)
    qed
  qed
qed (auto simp: key_lines_def)

text \<open>A login on the loopback server succeeds exactly with a key of the file as it stands at
  that moment; one line that does not parse shuts every key out.\<close>

theorem login_only_with_current_key:
  "public_key_handler parse authFile files key \<longleftrightarrow>
     (\<exists>content keys. files authFile = Some content \<and> \<not> snd (scan_lines content) \<and>
        map parse (key_lines (fst (scan_lines content))) = map Inr keys \<and> key \<in> set keys)"
proof (cases "files authFile")
  case (Some content)
  obtain ls long where sl: "scan_lines content = (ls, long)" by (cases "scan_lines content")
  show ?thesis
  proof (cases "authorized_lines parse authFile 0 ls")
    case (Inl e)
    then have "map parse (key_lines ls) \<noteq> map Inr keys" for keys
      using authorized_lines_ok [of parse authFile 0 ls keys] by auto
    then show ?thesis using Inl Some sl by (simp add: public_key_handler_def loadAuthorizedKeys_def)
  next
    case (Inr ks)
    then have "map parse (key_lines ls) = map Inr ks" using authorized_lines_ok by blast
    moreover have "map (Inr :: 'a \<Rightarrow> string + 'a) ks = map Inr keys \<Longrightarrow> ks = keys" for keys
      by (simp add: inj_map_eq_map inj_def)
    ultimately show ?thesis using Inr Some sl
      by (auto simp: public_key_handler_def loadAuthorizedKeys_def publicKeyAuthorized_def)
  qed
qed (simp add: public_key_handler_def loadAuthorizedKeys_def)

lemma not_space_trim: "\<forall>c \<in> set s. \<not> is_space c \<Longrightarrow> trim_space s = s"
  unfolding trim_space_def by (rule trim_of_id) (auto intro: hd_in_set last_in_set)

text \<open>An option that in OpenSSH's syntax takes an algorithm off the list (a leading minus) makes
  the client offer exactly that algorithm.\<close>

theorem minus_option_selects:
  assumes alg: "alg \<noteq> []" "\<forall>c \<in> set alg. is_slug_alnum c \<or> c \<in> set ''@.-''"
    and pinned: "alg \<in> set (cc_host_key_algorithms cfg)"
  shows "apply_option (''HostKeyAlgorithms=-'' @ alg) cfg = Inr (cfg\<lparr>cc_host_key_algorithms := [alg]\<rparr>)"
proof -
  have plain: "\<not> is_space c \<and> c \<noteq> CHR '',''" if "c \<in> set alg" for c
    using alg(2) that by (auto simp: is_slug_alnum_def is_lower_def is_digit_def is_space_def)
  have raw: "trim_space (''HostKeyAlgorithms=-'' @ alg) = ''HostKeyAlgorithms='' @ CHR ''-'' # alg"
    by (subst not_space_trim) (use plain in \<open>auto simp: is_space_def\<close>)
  have "CHR ''='' \<notin> set ''HostKeyAlgorithms''" by simp
  from cut_append [OF this, of "CHR ''-'' # alg"]
  have c: "cut (CHR ''='') (''HostKeyAlgorithms='' @ CHR ''-'' # alg) = Some (''HostKeyAlgorithms'', CHR ''-'' # alg)"
    by simp
  have sp: "split_on (CHR '','') (CHR ''-'' # alg) = [CHR ''-'' # alg]"
    by (rule split_on_no_sep) (use plain in auto)
  have t: "trim_space (CHR ''-'' # alg) = CHR ''-'' # alg"
    by (rule not_space_trim) (use plain in \<open>auto simp: is_space_def\<close>)
  have v: "option_value (CHR ''-'' # alg) = alg"
    unfolding option_value_def t by (simp add: trim_left_chars_def trim_left_of_def trim_prefix_def has_prefix_def)
  have k: "trim_space ''HostKeyAlgorithms'' = ''HostKeyAlgorithms''" by (rule not_space_trim) (simp add: is_space_def)
  have p: "parseSSHOption (''HostKeyAlgorithms=-'' @ alg) = Some (''HostKeyAlgorithms'', [alg])"
    unfolding parseSSHOption_def raw c option.case prod.case sp Let_def list.map v k using alg(1) by simp
  have l: "to_lower ''HostKeyAlgorithms'' = ''hostkeyalgorithms''" by code_simp
  have i: "intersectAlgorithms [alg] (cc_host_key_algorithms cfg) = [alg]"
    using pinned by (simp add: intersectAlgorithms_def)
  show ?thesis unfolding apply_option_def p using pinned by (auto simp: l i Let_def)
qed

theorem minus_option_selects_witness:
  "apply_option ''HostKeyAlgorithms=-ssh-rsa''
     \<lparr>cc_user = ''u'', cc_host_key_algorithms = [''ssh-ed25519'', ''ssh-rsa''], cc_kex = [], cc_ciphers = [], cc_macs = []\<rparr> =
   Inr \<lparr>cc_user = ''u'', cc_host_key_algorithms = [''ssh-rsa''], cc_kex = [], cc_ciphers = [], cc_macs = []\<rparr>"
proof -
  have "\<forall>c \<in> set ''ssh-rsa''. is_slug_alnum c \<or> c \<in> set ''@.-''" by code_simp
  from minus_option_selects [OF _ this, of "\<lparr>cc_user = ''u'', cc_host_key_algorithms = [''ssh-ed25519'', ''ssh-rsa''],
      cc_kex = [], cc_ciphers = [], cc_macs = []\<rparr>"]
  show ?thesis by simp
qed

end
