(* ===== verification/ProcessTitle.thy ===== *)
theory ProcessTitle
  imports Utf8 World
begin

text \<open>
  The titles under which the agent runs (\<open>cmd/reach-agent/process_title.go\<close>,
  \<open>process_title_linux.go\<close>): cleaning, truncation to the kernel's limits, the settings and the
  controller, which a daemon loop updates while a goroutine rotates the titles. \<open>Update\<close> and
  \<open>advance\<close> change the controller under its lock and set the process title after releasing it;
  the step relation keeps these two apart. Durations are nanoseconds.
\<close>

subsection \<open>Titles\<close>

definition defaultProcessTitle :: string where "defaultProcessTitle = ''Reach-Agent''"

definition cleanProcessTitle :: "string \<Rightarrow> string" where
  "cleanProcessTitle t = trim_space (replace_char (CHR 0x00) '' '' t)"

definition truncateUTF8Bytes :: "string \<Rightarrow> int \<Rightarrow> string" where
  "truncateUTF8Bytes s mx =
     (if mx \<le> 0 then [] else if int (length s) \<le> mx then s else trunc_loop s (nat mx))"

text \<open>\<open>setThreadComm\<close>: the name given to the kernel, without its final NUL.\<close>

definition setThreadComm :: "string \<Rightarrow> string" where
  "setThreadComm title =
     (let t = truncateUTF8Bytes title 15 in if t = [] then defaultProcessTitle else t)"

text \<open>\<open>writeProcessTitleBuffer\<close>: the buffer afterwards.\<close>

definition writeProcessTitleBuffer :: "nat \<Rightarrow> string \<Rightarrow> string" where
  "writeProcessTitleBuffer cap title =
     (let t = truncateUTF8Bytes (cleanProcessTitle title) (int cap)
      in take cap t @ replicate (cap - length t) (CHR 0x00))"

text \<open>\<open>setProcessTitle\<close>: the thread name and the argument buffer it leaves.\<close>

definition setProcessTitle :: "nat \<Rightarrow> string \<Rightarrow> string \<times> string" where
  "setProcessTitle cap title =
     (let c = cleanProcessTitle title;
          t = (if c = [] then defaultProcessTitle else c)
      in (setThreadComm t, writeProcessTitleBuffer cap t))"

definition paddedProcessArgv0 :: "string \<Rightarrow> nat \<Rightarrow> string" where
  "paddedProcessArgv0 title width =
     (let c = cleanProcessTitle title;
          t = truncateUTF8Bytes (if c = [] then defaultProcessTitle else c) (int width)
      in if width \<le> length t then t else t @ replicate (width - length t) (CHR '' ''))"

subsection \<open>Settings\<close>

record title_settings =
  ts_titles :: "string list"
  ts_interval :: int

definition normalizeProcessTitleSettings :: "string list \<Rightarrow> int \<Rightarrow> title_settings" where
  "normalizeProcessTitleSettings titles interval =
     (let clean = filter (\<lambda>t. t \<noteq> []) (map cleanProcessTitle titles)
      in \<lparr>ts_titles = (if clean = [] then [defaultProcessTitle] else clean),
          ts_interval = (if interval \<le> 0 then 5000000000 else interval)\<rparr>)"

definition configured_titles :: "string \<Rightarrow> string list \<Rightarrow> string list" where
  "configured_titles title titles = (if titles = [] \<and> title \<noteq> [] then [title] else titles)"

definition settingsFromAgentConfig :: "string \<Rightarrow> string list \<Rightarrow> int \<Rightarrow> title_settings" where
  "settingsFromAgentConfig title titles rotateDur =
     normalizeProcessTitleSettings (configured_titles title titles) rotateDur"

definition settingsFromDesiredProcessTitleConfig ::
  "ProcessTitleConfig option \<Rightarrow> string \<Rightarrow> string list \<Rightarrow> int \<Rightarrow> title_settings" where
  "settingsFromDesiredProcessTitleConfig cfg title titles rotateDur =
     (case cfg of
        None \<Rightarrow> settingsFromAgentConfig title titles rotateDur
      | Some c \<Rightarrow>
          normalizeProcessTitleSettings (configured_titles (pt_title c) (pt_titles c))
            (if trim_space (pt_rotate c) = [] then rotateDur
             else case parse_duration (trim_space (pt_rotate c)) of None \<Rightarrow> rotateDur | Some d \<Rightarrow> d))"

subsection \<open>The controller\<close>

datatype updater = UpIdle | UpSetting string | UpNotify
datatype rotor = Head | Waiting | Timing int | Showing string | Stopped

record title_state =
  tc_titles :: "string list"
  tc_interval :: int
  tc_index :: nat
  tc_notified :: bool              \<comment> \<open>the channel \<open>updateCh\<close>, of capacity 1\<close>
  tc_updater :: updater
  tc_rotor :: rotor
  tc_shown :: "string list"        \<comment> \<open>the calls of \<open>setProcessTitle\<close>\<close>

definition new_controller :: title_state where
  "new_controller = \<lparr>tc_titles = [], tc_interval = 0, tc_index = 0, tc_notified = False,
     tc_updater = UpIdle, tc_rotor = Head, tc_shown = []\<rparr>"

definition sameTitleSettings :: "string list \<Rightarrow> int \<Rightarrow> title_settings \<Rightarrow> bool" where
  "sameTitleSettings titles interval s \<longleftrightarrow> interval = ts_interval s \<and> titles = ts_titles s"

text \<open>\<open>Update\<close> under the lock; then the title is set and the goroutine notified.\<close>

definition update_locked :: "title_settings \<Rightarrow> title_state \<Rightarrow> title_state" where
  "update_locked settings c =
     (let s = normalizeProcessTitleSettings (ts_titles settings) (ts_interval settings)
      in if sameTitleSettings (tc_titles c) (tc_interval c) s then c
         else c\<lparr>tc_titles := ts_titles s, tc_interval := ts_interval s, tc_index := 0,
                tc_updater := UpSetting (hd (ts_titles s))\<rparr>)"

definition Update :: "title_settings \<Rightarrow> title_state \<Rightarrow> title_state" where
  "Update settings c =
     (let c' = update_locked settings c in
      case tc_updater c' of
        UpSetting t \<Rightarrow> c'\<lparr>tc_shown := tc_shown c' @ [t], tc_notified := True, tc_updater := UpIdle\<rparr>
      | _ \<Rightarrow> c')"

text \<open>\<open>applyProcessTitles\<close>: the first update is made before the goroutine starts.\<close>

definition applyProcessTitles :: "title_settings \<Rightarrow> title_state" where
  "applyProcessTitles settings = Update settings new_controller"

text \<open>\<open>advance\<close> under the lock.\<close>

definition advance_locked :: "title_state \<Rightarrow> title_state" where
  "advance_locked c =
     (if length (tc_titles c) < 2 then c\<lparr>tc_rotor := Head\<rparr>
      else let i = (tc_index c + 1) mod length (tc_titles c)
           in c\<lparr>tc_index := i, tc_rotor := Showing (tc_titles c ! i)\<rparr>)"

inductive title_step :: "title_state \<Rightarrow> title_state \<Rightarrow> bool" where
  update: "tc_updater c = UpIdle \<Longrightarrow> title_step c (update_locked s c)"
| update_set: "tc_updater c = UpSetting t \<Longrightarrow>
    title_step c (c\<lparr>tc_shown := tc_shown c @ [t], tc_updater := UpNotify\<rparr>)"
| update_notify: "tc_updater c = UpNotify \<Longrightarrow> title_step c (c\<lparr>tc_notified := True, tc_updater := UpIdle\<rparr>)"
| head: "tc_rotor c = Head \<Longrightarrow>
    title_step c (c\<lparr>tc_rotor := (if 1 < length (tc_titles c) then Timing (tc_interval c) else Waiting)\<rparr>)"
| wake: "tc_rotor c = Waiting \<or> tc_rotor c = Timing d \<Longrightarrow> tc_notified c \<Longrightarrow>
    title_step c (c\<lparr>tc_notified := False, tc_rotor := Head\<rparr>)"
| tick: "tc_rotor c = Timing d \<Longrightarrow> title_step c (advance_locked c)"
| shown: "tc_rotor c = Showing t \<Longrightarrow> title_step c (c\<lparr>tc_shown := tc_shown c @ [t], tc_rotor := Head\<rparr>)"
| cancel: "tc_rotor c = Waiting \<or> tc_rotor c = Timing d \<Longrightarrow> title_step c (c\<lparr>tc_rotor := Stopped\<rparr>)"

inductive_cases title_stepE: "title_step c c'"

definition title_run :: "title_state \<Rightarrow> title_state \<Rightarrow> bool" where
  "title_run = title_step\<^sup>*\<^sup>*"

subsection \<open>The configuration file and the first argument\<close>

record agent_env =
  ae_config :: string          \<comment> \<open>\<open>REACH_AGENT_CONFIG\<close>\<close>
  ae_home :: string
  ae_root :: bool
  ae_cwd :: string
  ae_is_file :: "string \<Rightarrow> bool"

definition etc_config :: string where "etc_config = ''/etc/reach/agent.yaml''"

definition home_configs :: "string \<Rightarrow> string list" where
  "home_configs home = [path_join [home, ''.config'', ''reach'', ''agent.yaml''], path_join [home, ''.reach'', ''agent.yaml'']]"

definition defaultAgentConfigPath :: "agent_env \<Rightarrow> string" where
  "defaultAgentConfigPath e =
     (if ae_config e \<noteq> [] then ae_config e
      else let candidates =
             (if ae_home e = [] then [etc_config]
              else if ae_root e then etc_config # home_configs (ae_home e)
              else home_configs (ae_home e) @ [etc_config])
           in case List.find (ae_is_file e) candidates of
                Some p \<Rightarrow> p
              | None \<Rightarrow> if ae_root e \<or> ae_home e = [] then etc_config else hd (home_configs (ae_home e)))"

definition path_abs :: "string \<Rightarrow> string \<Rightarrow> string" where
  "path_abs cwd p = (if has_prefix p ''/'' then path_clean p else path_join [cwd, p])"

definition isDiscoverableAgentConfig :: "agent_env \<Rightarrow> string \<Rightarrow> bool" where
  "isDiscoverableAgentConfig e path \<longleftrightarrow>
     path = [] \<or>
     path_abs (ae_cwd e) path \<in>
       set (map (path_abs (ae_cwd e))
              ((if ae_config e \<noteq> [] then [ae_config e] else []) @ [etc_config] @
               (if ae_home e = [] then [] else home_configs (ae_home e))))"

definition processTitlePadBytes :: nat where "processTitlePadBytes = 4096"

text \<open>\<open>upsertEnv\<close>: the first variable of that name is replaced, or one is appended.\<close>

fun upsertEnv :: "string list \<Rightarrow> string \<Rightarrow> string \<Rightarrow> string list" where
  "upsertEnv [] key v = [key @ ''='' @ v]"
| "upsertEnv (kv # env) key v =
     (if has_prefix kv (key @ ''='') then (key @ ''='' @ v) # env else kv # upsertEnv env key v)"

text \<open>\<open>processTitleReexecConfigPath\<close>; \<open>parse_run\<close> parses the flags of \<open>run\<close>: the path and the rest.\<close>

definition processTitleReexecConfigPath ::
  "(string list \<Rightarrow> (string \<times> string list) option) \<Rightarrow> string list \<Rightarrow> string option" where
  "processTitleReexecConfigPath parse_run args =
     (case args of
        [] \<Rightarrow> Some []
      | a # rest \<Rightarrow>
          if a = ''daemon'' then (if rest = [] then Some [] else None)
          else if a = ''run'' then
            (case parse_run rest of None \<Rightarrow> None | Some (path, extra) \<Rightarrow> if extra \<noteq> [] then None else Some path)
          else None)"

datatype reexec = InitBuffer nat | Exec string "string list"

text \<open>\<open>maybeReexecForProcessTitle\<close> with a known executable: start again with a padded first argument.\<close>

definition maybeReexecForProcessTitle ::
  "(string list \<Rightarrow> (string \<times> string list) option) \<Rightarrow> agent_env \<Rightarrow> bool \<Rightarrow> string list \<Rightarrow> string list \<Rightarrow> reexec" where
  "maybeReexecForProcessTitle parse_run e marked environ args =
     (if marked then InitBuffer processTitlePadBytes
      else case processTitleReexecConfigPath parse_run args of
          None \<Rightarrow> InitBuffer 0
        | Some configPath \<Rightarrow>
            let env = upsertEnv environ ''REACH_AGENT_PROCESS_TITLE_PADDED'' ''1'';
                env' = (if configPath \<noteq> [] \<and> \<not> isDiscoverableAgentConfig e configPath
                        then upsertEnv env ''REACH_AGENT_CONFIG'' configPath else env)
            in Exec (paddedProcessArgv0 defaultProcessTitle processTitlePadBytes) env')"

text \<open>\<open>initArgvTitleBuffer\<close>: how much of the first argument is written over.\<close>

definition initArgvTitleBuffer :: "nat \<Rightarrow> string \<Rightarrow> nat" where
  "initArgvTitleBuffer wantCap arg0 =
     (if 0 < wantCap \<and> wantCap < length arg0 then wantCap else length arg0)"

subsection \<open>Facts\<close>

lemma clean_no_nul: "CHR 0x00 \<notin> set (cleanProcessTitle t)"
proof -
  have "set (cleanProcessTitle t) \<subseteq> set (replace_char (CHR 0x00) '' '' t)"
    unfolding cleanProcessTitle_def trim_space_def by (rule set_trim_of)
  moreover have "CHR 0x00 \<notin> set (replace_char (CHR 0x00) '' '' t)"
    by (auto simp: replace_char_def)
  ultimately show ?thesis by blast
qed

lemma replace_char_none: "c \<notin> set t \<Longrightarrow> replace_char c r t = t"
  by (induction t) (auto simp: replace_char_def)

lemma clean_clean [simp]: "cleanProcessTitle (cleanProcessTitle t) = cleanProcessTitle t"
  using replace_char_none [OF clean_no_nul [of t]] by (simp add: cleanProcessTitle_def)

lemma clean_default [simp]: "cleanProcessTitle defaultProcessTitle = defaultProcessTitle"
  by code_simp

definition good_title :: "string \<Rightarrow> bool" where
  "good_title t \<longleftrightarrow> t \<noteq> [] \<and> cleanProcessTitle t = t"

lemma normalize_good:
  "ts_titles (normalizeProcessTitleSettings ts i) \<noteq> []
   \<and> (\<forall>t \<in> set (ts_titles (normalizeProcessTitleSettings ts i)). good_title t)
   \<and> 0 < ts_interval (normalizeProcessTitleSettings ts i)"
proof -
  have "good_title defaultProcessTitle" unfolding good_title_def clean_default by (simp add: defaultProcessTitle_def)
  then show ?thesis by (auto simp: normalizeProcessTitleSettings_def Let_def good_title_def)
qed

lemma truncate_int: "truncateUTF8Bytes s mx = truncateProcessTitleUTF8Bytes s (nat mx)"
  by (auto simp: truncateUTF8Bytes_def truncateProcessTitleUTF8Bytes_def nat_le_iff le_nat_iff)

lemma comm_bounds:
  "length (setThreadComm t) \<le> 15 \<and> setThreadComm t \<noteq> [] \<and> set (setThreadComm t) \<subseteq> set t \<union> set defaultProcessTitle"
proof -
  have "length (truncateUTF8Bytes t 15) \<le> 15" using truncate_length [of t 15] by (simp add: truncate_int)
  moreover obtain r where "t = truncateUTF8Bytes t 15 @ r" using truncate_prefix [of t 15] by (auto simp: truncate_int)
  then have "set (truncateUTF8Bytes t 15) \<subseteq> set t" by (metis set_append sup_ge1)
  ultimately show ?thesis by (auto simp: setThreadComm_def Let_def defaultProcessTitle_def)
qed

lemma buffer_length: "length (writeProcessTitleBuffer cap t) = cap"
proof -
  have "length (truncateUTF8Bytes (cleanProcessTitle t) (int cap)) \<le> cap"
    using truncate_length [of "cleanProcessTitle t" cap] by (simp add: truncate_int)
  then show ?thesis by (simp add: writeProcessTitleBuffer_def Let_def)
qed

definition title_inv :: "title_state \<Rightarrow> bool" where
  "title_inv c \<longleftrightarrow>
     tc_index c < length (tc_titles c) \<and> (\<forall>t \<in> set (tc_titles c). good_title t) \<and> 0 < tc_interval c \<and>
     (\<forall>t \<in> set (tc_shown c). good_title t) \<and>
     (\<forall>t. tc_updater c = UpSetting t \<longrightarrow> good_title t) \<and> (\<forall>t. tc_rotor c = Showing t \<longrightarrow> good_title t)"

lemma update_locked_inv:
  assumes "title_inv c"
  shows "title_inv (update_locked s c)"
  using assms normalize_good [of "ts_titles s" "ts_interval s"]
  by (auto simp: title_inv_def update_locked_def Let_def)

lemma advance_locked_inv: "title_inv c \<Longrightarrow> title_inv (advance_locked c)"
proof -
  assume i: "title_inv c"
  then have "(tc_index c + 1) mod length (tc_titles c) < length (tc_titles c)"
    by (intro mod_less_divisor) (auto simp: title_inv_def)
  moreover have "tc_titles c ! ((tc_index c + 1) mod length (tc_titles c)) \<in> set (tc_titles c)"
    using calculation by (rule nth_mem)
  ultimately show ?thesis using i by (simp add: title_inv_def advance_locked_def Let_def)
qed

lemma title_step_inv: "title_step c c' \<Longrightarrow> title_inv c \<Longrightarrow> title_inv c'"
proof (induction rule: title_step.induct)
  case (update c s)
  then show ?case by (intro update_locked_inv)
next
  case (tick c d)
  then show ?case by (intro advance_locked_inv)
qed (auto simp: title_inv_def)

lemma title_run_inv: "title_run c c' \<Longrightarrow> title_inv c \<Longrightarrow> title_inv c'"
  unfolding title_run_def by (induction rule: rtranclp_induct) (auto intro: title_step_inv)

lemma apply_titles_inv: "title_inv (applyProcessTitles s)"
proof -
  note g = normalize_good [of "ts_titles s" "ts_interval s"]
  have "\<not> sameTitleSettings [] 0 (normalizeProcessTitleSettings (ts_titles s) (ts_interval s))"
    using g by (auto simp: sameTitleSettings_def)
  then show ?thesis using g
    by (auto simp: applyProcessTitles_def Update_def update_locked_def new_controller_def Let_def title_inv_def)
qed

text \<open>One period of the rotation with no update in between.\<close>

definition rotation :: "title_state \<Rightarrow> title_state" where
  "rotation c =
     (let c' = advance_locked c in
      case tc_rotor c' of
        Showing t \<Rightarrow> c'\<lparr>tc_shown := tc_shown c' @ [t], tc_rotor := Timing (tc_interval c')\<rparr>
      | _ \<Rightarrow> c')"

lemma rotation_run:
  assumes "tc_rotor c = Timing d" and "1 < length (tc_titles c)"
  shows "title_run c (rotation c)"
proof -
  let ?i = "(tc_index c + 1) mod length (tc_titles c)"
  let ?t = "tc_titles c ! ?i"
  have a: "advance_locked c = c\<lparr>tc_index := ?i, tc_rotor := Showing ?t\<rparr>"
    using assms(2) by (simp add: advance_locked_def Let_def)
  have 1: "title_step c (advance_locked c)" using assms(1) by (rule title_step.tick)
  have 2: "title_step (advance_locked c) ((advance_locked c)\<lparr>tc_shown := tc_shown c @ [?t], tc_rotor := Head\<rparr>)"
    using title_step.shown [of "advance_locked c" ?t] by (simp add: a)
  have 3: "title_step ((advance_locked c)\<lparr>tc_shown := tc_shown c @ [?t], tc_rotor := Head\<rparr>) (rotation c)"
    using title_step.head [of "(advance_locked c)\<lparr>tc_shown := tc_shown c @ [?t], tc_rotor := Head\<rparr>"] assms(2)
    by (simp add: rotation_def a)
  from 1 2 3 show ?thesis unfolding title_run_def by (meson rtranclp.rtrancl_into_rtrancl rtranclp.rtrancl_refl)
qed

lemma rotation_eq:
  "1 < length (tc_titles c) \<Longrightarrow> rotation c = c\<lparr>tc_index := (tc_index c + 1) mod length (tc_titles c),
     tc_shown := tc_shown c @ [tc_titles c ! ((tc_index c + 1) mod length (tc_titles c))],
     tc_rotor := Timing (tc_interval c)\<rparr>"
  by (simp add: rotation_def advance_locked_def Let_def)

lemma rotations:
  assumes "tc_rotor c = Timing (tc_interval c)" and "1 < length (tc_titles c)" and "tc_index c < length (tc_titles c)"
  shows "(rotation ^^ n) c = c\<lparr>tc_index := (tc_index c + n) mod length (tc_titles c),
      tc_shown := tc_shown c @ map (\<lambda>k. tc_titles c ! ((tc_index c + k) mod length (tc_titles c))) [1 ..< Suc n]\<rparr>"
proof (induction n)
  case 0
  then show ?case using assms by simp
next
  case (Suc n)
  define t where "t = (rotation ^^ n) c"
  have "(rotation ^^ Suc n) c = rotation t" by (simp add: t_def)
  also have "1 < length (tc_titles t)" using assms(2) by (simp add: t_def Suc)
  note rotation_eq [OF this]
  finally show ?case unfolding t_def Suc using assms(1) by (simp add: mod_Suc_eq)
qed

lemma rotations_run:
  assumes "tc_rotor c = Timing (tc_interval c)" and "1 < length (tc_titles c)" and "tc_index c < length (tc_titles c)"
  shows "title_run c ((rotation ^^ n) c)"
proof (induction n)
  case (Suc n)
  have "title_run ((rotation ^^ n) c) (rotation ((rotation ^^ n) c))"
    by (rule rotation_run [of _ "tc_interval c"]) (use assms(2) in \<open>simp_all add: rotations [OF assms] assms(1)\<close>)
  with Suc show ?case by (simp add: title_run_def)
qed (simp add: title_run_def)

end
