(* ===== verification/TitleProps.thy ===== *)
theory TitleProps
  imports ProcessTitle
begin

text \<open>Properties of the agent's process titles.\<close>

text \<open>C40: However updates, ticks and cancellations interleave, the controller's index stays inside
  its titles, its interval is positive, and every title it sets is clean: the thread name has
  between 1 and 15 bytes and no NUL, and exactly the argument buffer is overwritten.\<close>

theorem titles_safe:
  assumes "title_run (applyProcessTitles s) c"
  shows "tc_index c < length (tc_titles c) \<and> 0 < tc_interval c \<and>
    (\<forall>t \<in> set (tc_shown c). case setProcessTitle cap t of (comm, buf) \<Rightarrow>
       comm = setThreadComm t \<and> 1 \<le> length comm \<and> length comm \<le> 15 \<and> CHR 0x00 \<notin> set comm \<and> length buf = cap)"
proof -
  have i: "title_inv c" using title_run_inv [OF assms apply_titles_inv] .
  have "case setProcessTitle cap t of (comm, buf) \<Rightarrow>
       comm = setThreadComm t \<and> 1 \<le> length comm \<and> length comm \<le> 15 \<and> CHR 0x00 \<notin> set comm \<and> length buf = cap"
    if "t \<in> set (tc_shown c)" for t
  proof -
    have t: "t \<noteq> []" "cleanProcessTitle t = t" using i that by (auto simp: title_inv_def good_title_def)
    have "CHR 0x00 \<notin> set t" using clean_no_nul [of t] t(2) by simp
    moreover have "CHR 0x00 \<notin> set defaultProcessTitle" by (simp add: defaultProcessTitle_def)
    ultimately show ?thesis using comm_bounds [of t] t
      by (auto simp: setProcessTitle_def Let_def buffer_length Suc_le_eq)
  qed
  with i show ?thesis by (auto simp: title_inv_def)
qed

definition example_titles :: "string list \<Rightarrow> title_settings" where
  "example_titles ts = \<lparr>ts_titles = ts, ts_interval = 1000000000\<rparr>"

theorem titles_safe_witness:
  "\<exists>c. title_run (applyProcessTitles (example_titles [''a'', '' b ''])) c \<and> tc_rotor c = Showing ''b'' \<and>
     tc_index c < length (tc_titles c) \<and> ''a'' \<in> set (tc_shown c) \<and>
     length (fst (setProcessTitle 4 ''a'')) \<le> 15 \<and> length (snd (setProcessTitle 4 ''a'')) = 4"
proof -
  define c0 where "c0 = applyProcessTitles (example_titles [''a'', '' b ''])"
  have c0: "c0 = \<lparr>tc_titles = [''a'', ''b''], tc_interval = 1000000000, tc_index = 0, tc_notified = True,
     tc_updater = UpIdle, tc_rotor = Head, tc_shown = [''a'']\<rparr>"
    unfolding c0_def by code_simp
  define c1 where "c1 = c0\<lparr>tc_rotor := Timing 1000000000\<rparr>"
  define c2 where "c2 = advance_locked c1"
  have c2: "c2 = c1\<lparr>tc_index := 1, tc_rotor := Showing ''b''\<rparr>"
    by (simp add: c2_def c1_def c0 advance_locked_def)
  have "title_step c0 c1" "title_step c1 c2"
    using title_step.head [of c0] title_step.tick [of c1 1000000000]
    unfolding c2_def [symmetric] by (simp_all add: c2 c1_def c0)
  then have run: "title_run (applyProcessTitles (example_titles [''a'', '' b ''])) c2"
    unfolding c0_def [symmetric] title_run_def by (meson rtranclp.rtrancl_into_rtrancl rtranclp.rtrancl_refl)
  have "''a'' \<in> set (tc_shown c2)" by (simp add: c2 c1_def c0)
  with titles_safe [OF run, of 4] run show ?thesis
    by (cases "setProcessTitle 4 ''a''", intro exI [of _ c2]) (auto simp: c2)
qed

text \<open>While no update arrives every configured title comes round: after one period per title
  the index is back where it was and the titles were set once each, in their cyclic order.\<close>

theorem titles_come_round:
  assumes "tc_rotor c = Timing (tc_interval c)" and "1 < length (tc_titles c)" and "tc_index c < length (tc_titles c)"
  shows "title_run c ((rotation ^^ length (tc_titles c)) c) \<and>
    (rotation ^^ length (tc_titles c)) c =
      c\<lparr>tc_shown := tc_shown c @ rotate (Suc (tc_index c)) (tc_titles c)\<rparr>"
proof -
  let ?n = "length (tc_titles c)"
  have "map (\<lambda>k. tc_titles c ! ((tc_index c + k) mod ?n)) [1 ..< Suc ?n] = rotate (Suc (tc_index c)) (tc_titles c)"
    by (rule nth_equalityI) (simp_all add: nth_rotate del: upt_Suc rotate_Suc)
  then show ?thesis using rotations [OF assms, of ?n] rotations_run [OF assms, of ?n] assms(3)
    by (simp del: upt_Suc)
qed

theorem titles_come_round_witness:
  "\<exists>c :: title_state. tc_titles c = [''a'', ''b'', ''c''] \<and>
     tc_shown ((rotation ^^ 3) c) = [''c'', ''a'', ''b'']"
proof -
  define c where "c = \<lparr>tc_titles = [''a'', ''b'', ''c''], tc_interval = 7, tc_index = 1, tc_notified = False,
     tc_updater = UpIdle, tc_rotor = Timing 7, tc_shown = []\<rparr>"
  have "tc_shown ((rotation ^^ 3) c) = [''c'', ''a'', ''b'']"
    using titles_come_round [of c] by (simp add: c_def eval_nat_numeral rotate1_def)
  then show ?thesis by (intro exI [of _ c]) (simp add: c_def)
qed

text \<open>A title that a tick picked just before an update can be set after the update's own: when
  the update leaves a single title nothing rotates any more, and the process keeps running under a
  title that is no longer configured, also when the same settings are sent again.\<close>

theorem stale_title_stays:
  "\<exists>c. title_run (applyProcessTitles (example_titles [''a'', ''b''])) c \<and>
     tc_titles c = [''new''] \<and> last (tc_shown c) = ''b'' \<and>
     tc_updater c = UpIdle \<and> tc_rotor c = Waiting \<and> \<not> tc_notified c \<and>
     Update (example_titles [''new'']) c = c"
proof -
  define c0 where "c0 = applyProcessTitles (example_titles [''a'', ''b''])"
  have c0: "c0 = \<lparr>tc_titles = [''a'', ''b''], tc_interval = 1000000000, tc_index = 0, tc_notified = True,
     tc_updater = UpIdle, tc_rotor = Head, tc_shown = [''a'']\<rparr>"
    unfolding c0_def by code_simp
  have new: "normalizeProcessTitleSettings [''new''] 1000000000 = example_titles [''new'']" by code_simp
  define c1 where "c1 = c0\<lparr>tc_rotor := Timing 1000000000\<rparr>"
  define c2 where "c2 = advance_locked c1"
  define c3 where "c3 = update_locked (example_titles [''new'']) c2"
  define c4 where "c4 = c3\<lparr>tc_shown := tc_shown c3 @ [''new''], tc_updater := UpNotify\<rparr>"
  define c5 where "c5 = c4\<lparr>tc_notified := True, tc_updater := UpIdle\<rparr>"
  define c6 where "c6 = c5\<lparr>tc_shown := tc_shown c5 @ [''b''], tc_rotor := Head\<rparr>"
  define c7 where "c7 = c6\<lparr>tc_rotor := Waiting\<rparr>"
  define c8 where "c8 = c7\<lparr>tc_notified := False, tc_rotor := Head\<rparr>"
  define c9 where "c9 = c8\<lparr>tc_rotor := Waiting\<rparr>"
  have c2: "c2 = c1\<lparr>tc_index := 1, tc_rotor := Showing ''b''\<rparr>"
    by (simp add: c2_def c1_def c0 advance_locked_def)
  have c3: "c3 = c2\<lparr>tc_titles := [''new''], tc_index := 0, tc_updater := UpSetting ''new''\<rparr>"
    using new by (simp add: c3_def c2 c1_def c0 update_locked_def example_titles_def sameTitleSettings_def)
  note defs = c9_def c8_def c7_def c6_def c5_def c4_def c3 c2 c1_def c0
  have steps: "title_step c0 c1" "title_step c1 c2" "title_step c2 c3" "title_step c3 c4" "title_step c4 c5"
    "title_step c5 c6" "title_step c6 c7" "title_step c7 c8" "title_step c8 c9"
    using title_step.head [of c0] title_step.tick [of c1 1000000000] title_step.update [of c2 "example_titles [''new'']"]
      title_step.update_set [of c3 "''new''"] title_step.update_notify [of c4] title_step.shown [of c5 "''b''"]
      title_step.head [of c6] title_step.wake [of c7 0] title_step.head [of c8]
    unfolding c2_def [symmetric] c3_def [symmetric] by (simp_all add: defs)
  have "title_run c0 c9" unfolding title_run_def
    using steps by (meson rtranclp.rtrancl_into_rtrancl rtranclp.rtrancl_refl)
  moreover have "Update (example_titles [''new'']) c9 = c9"
    using new by (simp add: Update_def update_locked_def example_titles_def sameTitleSettings_def defs)
  ultimately show ?thesis unfolding c0_def [symmetric]
    by (intro exI [of _ c9]) (simp add: defs)
qed

end
