(* ===== verification/UpdateBinary.thy ===== *)
theory UpdateBinary
  imports LocalSshd ProcessTitle
begin

text \<open>
  How the agent replaces its own binary (\<open>cmd/reach-agent/update_binary.go\<close>): the signed release
  manifest, the download, the checks, the installation with a backup, and the watcher that puts the
  backup back unless the update is confirmed. The host is the one of \<open>World\<close>: files hold their
  content, every external action is logged and may fail. The network, the signature check, the
  hash, the JSON decoder and the version a binary prints are parameters, gathered in \<open>update_env\<close>.
\<close>

subsection \<open>The release manifest\<close>

record releaseAsset =
  ra_SHA256 :: string
  ra_Size :: int

record releaseManifest =
  rm_Schema :: int
  rm_Project :: string
  rm_Version :: string
  rm_CreatedAt :: string
  rm_Assets :: "string \<rightharpoonup> releaseAsset"

record update_env =
  ue_fetch :: "string \<Rightarrow> string + nat \<times> string"        \<comment> \<open>the answer to a GET: status and body\<close>
  ue_verify :: "string \<Rightarrow> string \<Rightarrow> string \<Rightarrow> bool"      \<comment> \<open>\<open>minisign.Verify\<close>: key, message, signature\<close>
  ue_key_error :: "string \<Rightarrow> string option"             \<comment> \<open>\<open>PublicKey.UnmarshalText\<close>\<close>
  ue_decode :: "string \<Rightarrow> string + releaseManifest"      \<comment> \<open>\<open>json.Unmarshal\<close>\<close>
  ue_sha256_hex :: "string \<Rightarrow> string"
  ue_version :: "string \<Rightarrow> string + string"             \<comment> \<open>what a binary of this content prints as its version\<close>
  ue_fresh :: string                                   \<comment> \<open>the random part of temporary names\<close>
  ue_id :: string                                      \<comment> \<open>the time of the update, as in file names\<close>
  ue_now :: string                                     \<comment> \<open>the same time, RFC 3339\<close>
  ue_root :: bool
  ue_goos :: string
  ue_arch :: string

definition releaseManifestPublicKeys :: "string list" where
  "releaseManifestPublicKeys = [''RWQ+MT09E8yd1V1tf3J3NI3Eb7L9DgMgNrN4SiqdrTs1Y2C61++bpyYY'']"

definition releaseManifestProject :: string where "releaseManifestProject = ''reach-agent''"

fun verify_keys :: "update_env \<Rightarrow> string \<Rightarrow> string \<Rightarrow> string list \<Rightarrow> string list \<Rightarrow> string list option" where
  "verify_keys e msg sig [] errs = Some errs"
| "verify_keys e msg sig (k # ks) errs =
     (let key = trim_space k in
      if key = [] then verify_keys e msg sig ks errs
      else case ue_key_error e key of
          Some err \<Rightarrow> verify_keys e msg sig ks (errs @ [err])
        | None \<Rightarrow> if ue_verify e key msg sig then None else verify_keys e msg sig ks errs)"

definition verifyReleaseManifestSignature :: "update_env \<Rightarrow> string list \<Rightarrow> string \<Rightarrow> string \<Rightarrow> string option" where
  "verifyReleaseManifestSignature e keys msg sig =
     (case verify_keys e msg sig keys [] of
        None \<Rightarrow> None
      | Some [] \<Rightarrow> Some ''release manifest signature verification failed''
      | Some errs \<Rightarrow> Some (''release manifest signature verification failed (public key parse errors: '' @
                        join ''; '' errs @ '')''))"

definition is_hex :: "char \<Rightarrow> bool" where
  "is_hex c \<longleftrightarrow> is_digit c \<or> 97 \<le> ord c \<and> ord c \<le> 102 \<or> 65 \<le> ord c \<and> ord c \<le> 70"

text \<open>The text of the error for a bad hexadecimal digit leaves out which digit it was.\<close>

definition validateReleaseAsset :: "string \<Rightarrow> releaseAsset \<Rightarrow> string option" where
  "validateReleaseAsset asset a =
     (if length (ra_SHA256 a) \<noteq> 64 then Some (''invalid sha256 length for '' @ asset)
      else if \<not> list_all is_hex (ra_SHA256 a) then Some (''invalid sha256 for '' @ asset @ '': encoding/hex: invalid byte'')
      else if ra_Size a \<le> 0 then Some (''invalid size for '' @ asset @ '': '' @ show_int (ra_Size a))
      else None)"

definition parseReleaseManifest :: "update_env \<Rightarrow> string \<Rightarrow> string \<Rightarrow> string \<Rightarrow> string + releaseManifest \<times> releaseAsset" where
  "parseReleaseManifest e manifestBytes version asset =
     (case ue_decode e manifestBytes of
        Inl err \<Rightarrow> Inl (''parse release manifest: '' @ err)
      | Inr m \<Rightarrow>
          if rm_Schema m \<noteq> 1 then Inl (''unsupported release manifest schema '' @ show_int (rm_Schema m))
          else if rm_Project m \<noteq> releaseManifestProject then
            Inl (''release manifest project '' @ go_quote (rm_Project m) @ '' does not match '' @ go_quote releaseManifestProject)
          else if rm_Version m \<noteq> version then
            Inl (''release manifest version '' @ go_quote (rm_Version m) @ '' does not match requested '' @ go_quote version)
          else case rm_Assets m asset of
              None \<Rightarrow> Inl (''release manifest has no asset '' @ asset)
            | Some a \<Rightarrow> (case validateReleaseAsset asset a of Some err \<Rightarrow> Inl err | None \<Rightarrow> Inr (m, a)))"

fun checksum_lines :: "string \<Rightarrow> string list \<Rightarrow> string + string option" where
  "checksum_lines asset [] = Inr None"
| "checksum_lines asset (l # ls) =
     (case GoStrings.fields l of
        digest # entry # _ \<Rightarrow>
          if path_base (trim_prefix entry ''*'') \<noteq> asset then checksum_lines asset ls
          else if length digest \<noteq> 64 then Inl (''invalid sha256 length for '' @ asset)
          else if \<not> list_all is_hex digest then Inl (''invalid sha256 for '' @ asset @ '': encoding/hex: invalid byte'')
          else Inr (Some (to_lower digest))
      | _ \<Rightarrow> checksum_lines asset ls)"

definition checksumForAsset :: "string \<Rightarrow> string \<Rightarrow> string + string" where
  "checksumForAsset checksums asset =
     (let (ls, too_long) = scan_lines checksums in
      case checksum_lines asset ls of
        Inl e \<Rightarrow> Inl e
      | Inr (Some s) \<Rightarrow> Inr s
      | Inr None \<Rightarrow> if too_long then Inl ''bufio.Scanner: token too long'' else Inl (''no checksum found for '' @ asset))"

subsection \<open>The asset for this machine\<close>

definition agentAssetForOSArch :: "string \<Rightarrow> string \<Rightarrow> string + string" where
  "agentAssetForOSArch goos arch =
     (let a = to_lower (trim_space arch) in
      if goos = ''linux'' \<and> a \<in> {''x86_64'', ''amd64''} then Inr ''reach-agent_linux_amd64''
      else if goos = ''linux'' \<and> a \<in> {''aarch64'', ''arm64''} then Inr ''reach-agent_linux_arm64''
      else if goos = ''linux'' \<and> a \<in> {''armv7l'', ''armv7'', ''armv7hl''} then Inr ''reach-agent_linux_armv7''
      else if goos = ''linux'' \<and> a \<in> {''armv6l'', ''armv6''} then Inr ''reach-agent_linux_armv6''
      else if goos = ''linux'' \<and> a \<in> {''i386'', ''i686'', ''386''} then Inr ''reach-agent_linux_386''
      else if goos = ''darwin'' \<and> a \<in> {''x86_64'', ''amd64''} then Inr ''reach-agent_darwin_amd64''
      else if goos = ''darwin'' \<and> a \<in> {''aarch64'', ''arm64''} then Inr ''reach-agent_darwin_arm64''
      else Inl (''unsupported platform '' @ goos @ ''/'' @ arch))"

definition agentAssetForArch :: "string \<Rightarrow> string + string" where
  "agentAssetForArch arch = agentAssetForOSArch ''linux'' arch"

text \<open>\<open>detectAgentAsset\<close>: the output of \<open>uname -m\<close> if it ran, else the architecture built for.\<close>

definition detectAgentAsset :: "string \<Rightarrow> string \<Rightarrow> string option \<Rightarrow> string + string" where
  "detectAgentAsset goos goarch uname =
     (let arch = (case uname of None \<Rightarrow> [] | Some out \<Rightarrow> trim_space out)
      in agentAssetForOSArch goos (if arch = [] then goarch else arch))"

definition stripUpdateWorkerOnlyArgs :: "string list \<Rightarrow> string list" where
  "stripUpdateWorkerOnlyArgs args =
     (let step = (\<lambda>a (skip, out).
        if skip then (False, out)
        else if a \<in> {''--foreground'', ''--confirm'', ''--rollback-watcher''} then (False, out)
        else if a = ''--install-env'' then (True, out)
        else if has_prefix a ''--install-env='' then (False, out)
        else (False, out @ [a]))
      in snd (fold step args (False, [])))"

subsection \<open>Host actions that return a value\<close>

type_synonym 'a hosted = "host \<Rightarrow> (string + 'a) \<times> host"

definition hbind :: "'a hosted \<Rightarrow> ('a \<Rightarrow> 'b hosted) \<Rightarrow> 'b hosted" where
  "hbind f g h = (case f h of (Inl e, h') \<Rightarrow> (Inl e, h') | (Inr a, h') \<Rightarrow> g a h')"

definition hret :: "'a \<Rightarrow> 'a hosted" where "hret a h = (Inr a, h)"
definition hfail :: "string \<Rightarrow> 'a hosted" where "hfail e h = (Inl e, h)"

definition lift_host :: "(host \<Rightarrow> string option \<times> host) \<Rightarrow> unit hosted" where
  "lift_host f h = (case f h of (Some e, h') \<Rightarrow> (Inl e, h') | (None, h') \<Rightarrow> (Inr (), h'))"

definition on_error :: "(string \<Rightarrow> string) \<Rightarrow> 'a hosted \<Rightarrow> 'a hosted" where
  "on_error g f h = (case f h of (Inl e, h') \<Rightarrow> (Inl (g e), h') | (Inr a, h') \<Rightarrow> (Inr a, h'))"

text \<open>An action whose error is ignored.\<close>

definition silently :: "(host \<Rightarrow> string option \<times> host) \<Rightarrow> host \<Rightarrow> host" where
  "silently f h = snd (f h)"

definition not_found :: "string \<Rightarrow> string \<Rightarrow> string" where
  "not_found op path = op @ '' '' @ path @ '': no such file or directory''"

definition read_file :: "string \<Rightarrow> string hosted" where
  "read_file path h = (case ho_files h path of None \<Rightarrow> (Inl (not_found ''open'' path), h) | Some c \<Rightarrow> (Inr c, h))"

definition unlink_file :: "string \<Rightarrow> host \<Rightarrow> string option \<times> host" where
  "unlink_file path h =
     (if ho_files h path = None then (Some (not_found ''remove'' path), h)
      else os_call [''Remove'', path] (\<lambda>h. h\<lparr>ho_files := (ho_files h)(path := None)\<rparr>) h)"

subsection \<open>Downloads\<close>

definition maxDownloadBytes :: "int \<Rightarrow> int" where
  "maxDownloadBytes sz = (let defaultMax = 134217728 in if sz \<le> 0 \<or> defaultMax < sz then defaultMax else sz)"

definition downloadFile :: "update_env \<Rightarrow> string \<Rightarrow> string \<Rightarrow> int \<Rightarrow> host \<Rightarrow> string option \<times> host" where
  "downloadFile e url path maxBytes h =
     (case ue_fetch e url of
        Inl err \<Rightarrow> (Some err, h)
      | Inr (status, body) \<Rightarrow>
          if status div 100 \<noteq> 2 then
            (Some (''download '' @ url @ '' returned '' @ show_nat status @ '': '' @ trim_space (take 4096 body)), h)
          else case write_file path (take (nat (maxBytes + 1)) body) h of
              (Some err, h') \<Rightarrow> (Some err, h')
            | (None, h') \<Rightarrow>
                if maxBytes < int (length (take (nat (maxBytes + 1)) body)) then
                  (Some (''download '' @ url @ '' exceeded '' @ show_int maxBytes @ '' bytes''), h')
                else os_call [''Sync'', path] id h')"

definition base_url :: "string \<Rightarrow> string \<Rightarrow> string" where
  "base_url apiURL version = trim_right_chars apiURL ''/'' @ ''/downloads/reach-agent/v'' @ version"

text \<open>A temporary directory is left out of the file system; its files are removed afterwards.\<close>

definition drop_files :: "(string \<Rightarrow> bool) \<Rightarrow> host \<Rightarrow> host" where
  "drop_files p h = h\<lparr>ho_files := (\<lambda>f. if p f then None else ho_files h f)\<rparr>"

definition manifest_path :: "update_env \<Rightarrow> string" where
  "manifest_path e = ''/tmp/reach-agent-manifest-'' @ ue_fresh e @ ''/manifest.json''"

definition signature_path :: "update_env \<Rightarrow> string" where
  "signature_path e = ''/tmp/reach-agent-manifest-'' @ ue_fresh e @ ''/manifest.json.minisig''"

definition download_path :: "update_env \<Rightarrow> string" where
  "download_path e = ''/tmp/reach-agent-update-'' @ ue_fresh e @ ''/reach-agent''"

definition fetch_manifest ::
  "update_env \<Rightarrow> string list \<Rightarrow> string \<Rightarrow> string \<Rightarrow> string \<Rightarrow> (releaseManifest \<times> releaseAsset) hosted" where
  "fetch_manifest e keys baseURL version asset =
     hbind (lift_host (os_call [''MkdirTemp'', ''reach-agent-manifest''] id)) (\<lambda>_.
     hbind (lift_host (downloadFile e (baseURL @ ''/manifest.json'') (manifest_path e) 1048576)) (\<lambda>_.
     hbind (lift_host (downloadFile e (baseURL @ ''/manifest.json.minisig'') (signature_path e) 16384)) (\<lambda>_.
     hbind (read_file (manifest_path e)) (\<lambda>m.
     hbind (read_file (signature_path e)) (\<lambda>s h.
       (case verifyReleaseManifestSignature e keys m s of
          Some err \<Rightarrow> (Inl err, h)
        | None \<Rightarrow> (parseReleaseManifest e m version asset, h)))))))"

definition downloadAndVerifyReleaseManifest ::
  "update_env \<Rightarrow> string list \<Rightarrow> string \<Rightarrow> string \<Rightarrow> string \<Rightarrow> (releaseManifest \<times> releaseAsset) hosted" where
  "downloadAndVerifyReleaseManifest e keys baseURL version asset h =
     (case fetch_manifest e keys baseURL version asset h of
        (r, h') \<Rightarrow> (r, drop_files (\<lambda>f. f = manifest_path e \<or> f = signature_path e) h'))"

definition verifyFileSHA256 :: "update_env \<Rightarrow> string \<Rightarrow> releaseAsset \<Rightarrow> string hosted" where
  "verifyFileSHA256 e path a h =
     (case ho_files h path of
        None \<Rightarrow> (Inl (not_found ''stat'' path), h)
      | Some c \<Rightarrow>
          if int (length c) \<noteq> ra_Size a then
            (Inl (''size mismatch: got '' @ show_nat (length c) @ '' expected '' @ show_int (ra_Size a)), h)
          else if \<not> equal_fold (ue_sha256_hex e c) (ra_SHA256 a) then
            (Inl (''checksum mismatch: got '' @ ue_sha256_hex e c @ '' expected '' @ ra_SHA256 a), h)
          else (Inr (ue_sha256_hex e c), h))"

definition verifyCandidateManifest ::
  "update_env \<Rightarrow> string list \<Rightarrow> string \<Rightarrow> string \<Rightarrow> string \<Rightarrow> string \<Rightarrow> unit hosted" where
  "verifyCandidateManifest e keys apiURL version asset candidatePath =
     (if apiURL = [] then hfail ''--api-url is required to verify --candidate''
      else hbind (downloadAndVerifyReleaseManifest e keys (base_url apiURL version) version asset) (\<lambda>ma.
           hbind (on_error (\<lambda>err. ''candidate verification failed for '' @ asset @ '': '' @ err)
                    (verifyFileSHA256 e candidatePath (snd ma))) (\<lambda>_. hret ())))"

definition fetch_candidate ::
  "update_env \<Rightarrow> string list \<Rightarrow> string \<Rightarrow> string \<Rightarrow> string \<Rightarrow> string hosted" where
  "fetch_candidate e keys apiURL version asset =
     hbind (lift_host (os_call [''MkdirTemp'', ''reach-agent-update''] id)) (\<lambda>_.
     hbind (downloadAndVerifyReleaseManifest e keys (base_url apiURL version) version asset) (\<lambda>ma.
     hbind (lift_host (downloadFile e (base_url apiURL version @ ''/'' @ asset) (download_path e)
                         (maxDownloadBytes (ra_Size (snd ma))))) (\<lambda>_.
     hbind (on_error (\<lambda>err. ''download verification failed for '' @ asset @ '': '' @ err)
              (verifyFileSHA256 e (download_path e) (snd ma))) (\<lambda>_.
     hbind (lift_host (os_call [''Chmod'', download_path e, ''0755''] id)) (\<lambda>_. hret (download_path e))))))"

definition downloadAgentCandidate ::
  "update_env \<Rightarrow> string list \<Rightarrow> string \<Rightarrow> string \<Rightarrow> string \<Rightarrow> string hosted" where
  "downloadAgentCandidate e keys apiURL version asset h =
     (case fetch_candidate e keys apiURL version asset h of
        (Inl err, h') \<Rightarrow> (Inl err, drop_files (\<lambda>f. f = download_path e) h')
      | (Inr p, h') \<Rightarrow> (Inr p, h'))"

end
