(* ===== verification/UpdateRun.thy ===== *)
theory UpdateRun
  imports UpdateBinary
begin

text \<open>
  The update itself and what follows it (\<open>cmd/reach-agent/update_binary.go\<close>): finding the existing
  installation, backing up, installing, arming the rollback watcher, restarting; the watcher; the
  confirmation. The names of the environment files come from \<open>readInstallEnv\<close> of \<open>install.go\<close>.
\<close>

subsection \<open>The existing installation\<close>

record reachInstallState =
  is_EnvPath :: string
  is_AgentPath :: string
  is_DataDir :: string
  is_InstallMode :: string
  is_ConfigPath :: string
  is_PIDFile :: string
  is_LogPath :: string

text \<open>\<open>readInstallEnv\<close>: the variables of the file, a later line replacing an earlier one.\<close>

definition readInstallEnv :: "(string \<rightharpoonup> string) \<Rightarrow> string \<Rightarrow> string \<rightharpoonup> string" where
  "readInstallEnv files path =
     (case files path of
        None \<Rightarrow> (\<lambda>_. None)
      | Some b \<Rightarrow>
          fold (\<lambda>raw out.
            let line = trim_space raw in
            if line = [] \<or> has_prefix line ''#'' then out
            else case cut (CHR ''='') line of
                None \<Rightarrow> out
              | Some (k, v) \<Rightarrow> out(k \<mapsto> trim_chars (trim_space v) [CHR 0x27]))
            (split_on nl b) (\<lambda>_. None))"

definition env_value :: "(string \<rightharpoonup> string) \<Rightarrow> string \<Rightarrow> string" where
  "env_value env k = (case env k of None \<Rightarrow> [] | Some v \<Rightarrow> v)"

definition install_state :: "string \<Rightarrow> string \<Rightarrow> (string \<rightharpoonup> string) \<Rightarrow> reachInstallState" where
  "install_state home p env =
     (let mode = or_else (env_value env ''INSTALL_MODE'') ''user'';
          cfg = or_else (env_value env ''AGENT_CONFIG'') (path_join [path_dir p, ''agent.yaml'']);
          data = or_else (env_value env ''DATA_DIR'')
                   (if mode = ''system'' then ''/var/lib/reach''
                    else if home \<noteq> [] then path_join [home, ''.local'', ''share'', ''reach''] else []);
          agent = or_else (env_value env ''AGENT_PATH'')
                   (if mode = ''system'' then ''/opt/reach/reach-agent''
                    else if home \<noteq> [] then path_join [home, ''.local'', ''bin'', ''reach-agent''] else []);
          pid = or_else (env_value env ''PID_FILE'') (if data \<noteq> [] then path_join [data, ''reach-agent.pid''] else []);
          log = (if data \<noteq> [] then path_join [data, ''agent.log''] else [])
      in \<lparr>is_EnvPath = p, is_AgentPath = agent, is_DataDir = data, is_InstallMode = mode, is_ConfigPath = cfg,
          is_PIDFile = pid, is_LogPath = log\<rparr>)"

definition loadReachInstallState :: "string \<Rightarrow> (string \<rightharpoonup> string) \<Rightarrow> string \<Rightarrow> string + reachInstallState" where
  "loadReachInstallState home files explicit =
     (let candidates = (if explicit \<noteq> [] then [explicit]
                        else ''/etc/reach/install.env'' #
                          (if home \<noteq> [] then [path_join [home, ''.config'', ''reach'', ''install.env'']] else []))
      in case List.find (\<lambda>p. files p \<noteq> None) candidates of
           None \<Rightarrow> Inl ''no existing Reach install found; refusing to register, provision, or uninstall during binary update''
         | Some p \<Rightarrow>
             let st = install_state home p (readInstallEnv files p) in
             if is_AgentPath st = [] \<or> is_DataDir st = [] \<or> is_ConfigPath st = [] then
               Inl (''existing Reach install is missing AGENT_PATH, DATA_DIR, or AGENT_CONFIG in '' @ p)
             else if files (is_AgentPath st) = None then
               Inl (''installed reach-agent not found at '' @ is_AgentPath st @ '': '' @ not_found ''stat'' (is_AgentPath st))
             else if files (is_ConfigPath st) = None then
               Inl (''agent config not found at '' @ is_ConfigPath st @ '': '' @ not_found ''stat'' (is_ConfigPath st))
             else Inr st)"

subsection \<open>Copying and installing files\<close>

definition copyFile :: "string \<Rightarrow> string \<Rightarrow> unit hosted" where
  "copyFile src dst =
     hbind (read_file src) (\<lambda>content.
     hbind (lift_host (os_call [''MkdirAll'', path_dir dst] id)) (\<lambda>_.
     hbind (lift_host (os_call [''OpenTruncated'', dst] (\<lambda>h. h\<lparr>ho_files := (ho_files h)(dst \<mapsto> [])\<rparr>))) (\<lambda>_.
     hbind (lift_host (os_call [''Copy'', src, dst] (\<lambda>h. h\<lparr>ho_files := (ho_files h)(dst \<mapsto> content)\<rparr>))) (\<lambda>_.
     hbind (lift_host (os_call [''Chmod'', dst] id)) (\<lambda>_.
     lift_host (os_call [''Sync'', dst] id))))))"

text \<open>
  \<open>atomicInstallBinary\<close>: a new file in the directory of the target, then a rename; a directory that
  cannot be synced is an error, although the rename has been made.
\<close>

definition install_temp :: "string \<Rightarrow> string \<Rightarrow> string" where
  "install_temp fresh dst = path_join [path_dir dst, ''.'' @ path_base dst @ ''.new-'' @ fresh]"

definition install_steps :: "string \<Rightarrow> string \<Rightarrow> string \<Rightarrow> unit hosted" where
  "install_steps tmp src dst =
     hbind (lift_host (os_call [''CreateTemp'', tmp] (\<lambda>h. h\<lparr>ho_files := (ho_files h)(tmp \<mapsto> [])\<rparr>))) (\<lambda>_.
     hbind (read_file src) (\<lambda>content.
     hbind (lift_host (os_call [''Copy'', src, tmp] (\<lambda>h. h\<lparr>ho_files := (ho_files h)(tmp \<mapsto> content)\<rparr>))) (\<lambda>_.
     hbind (lift_host (os_call [''Chmod'', tmp] id)) (\<lambda>_.
     hbind (lift_host (os_call [''Sync'', tmp] id)) (\<lambda>_.
     hbind (lift_host (os_call [''Close'', tmp] id)) (\<lambda>_.
     lift_host (rename_file tmp dst)))))))"

definition atomicInstallBinary :: "string \<Rightarrow> string \<Rightarrow> string \<Rightarrow> unit hosted" where
  "atomicInstallBinary fresh src dst h =
     (if ho_files h dst = None then (Inl (not_found ''stat'' dst), h)
      else case install_steps (install_temp fresh dst) src dst h of
          (Inl e, h1) \<Rightarrow> (Inl e, silently (unlink_file (install_temp fresh dst)) h1)
        | (Inr _, h1) \<Rightarrow> lift_host (os_call [''SyncDir'', path_dir dst] id) h1)"

definition restoreBinary :: "string \<Rightarrow> string \<Rightarrow> string \<Rightarrow> unit hosted" where
  "restoreBinary fresh backupPath agentPath = atomicInstallBinary fresh backupPath agentPath"

subsection \<open>Restarting\<close>

definition readPID :: "(string \<rightharpoonup> string) \<Rightarrow> string \<Rightarrow> int option" where
  "readPID files path =
     (case files path of None \<Rightarrow> None
      | Some b \<Rightarrow> (case atoi (trim_space b) of None \<Rightarrow> None | Some pid \<Rightarrow> if 0 < pid then Some pid else None))"

definition processAlive :: "int \<Rightarrow> host \<Rightarrow> bool \<times> host" where
  "processAlive pid h = (case host_do [''signal'', show_int pid, ''0''] h of ((ok, _), h') \<Rightarrow> (ok, h'))"

text \<open>The wait for a process to end: at most \<open>n\<close> looks, a quarter of a second apart.\<close>

fun wait_gone :: "nat \<Rightarrow> int \<Rightarrow> host \<Rightarrow> host" where
  "wait_gone 0 pid h = h"
| "wait_gone (Suc n) pid h = (case processAlive pid h of (alive, h') \<Rightarrow> if alive then wait_gone n pid h' else h')"

definition agentCommandArgs :: "agent_env \<Rightarrow> string \<Rightarrow> string list" where
  "agentCommandArgs env cfgPath = (if isDiscoverableAgentConfig env cfgPath then [] else [''run'', ''--config'', cfgPath])"

definition startDetached :: "agent_env \<Rightarrow> string \<Rightarrow> string \<Rightarrow> string \<Rightarrow> string \<Rightarrow> unit hosted" where
  "startDetached env agentPath cfgPath logPath pidPath =
     hbind (lift_host (os_call [''MkdirAll'', path_dir logPath] id)) (\<lambda>_ h.
       let (running, h1) =
         (case (if pidPath = [] then None else readPID (ho_files h) pidPath) of
            None \<Rightarrow> (False, h) | Some pid \<Rightarrow> processAlive pid h)
       in if running then (Inr (), h1)
          else hbind (lift_host (os_call [''OpenAppend'', logPath] id)) (\<lambda>_ h2.
            (case host_do ([''Start'', agentPath] @ agentCommandArgs env cfgPath) h2 of
               ((False, out), h3) \<Rightarrow> (Inl out, h3)
             | ((True, pid), h3) \<Rightarrow>
                 (Inr (), if pidPath = [] then h3 else silently (write_file pidPath (pid @ [nl])) h3))) h1)"

definition restartDetachedAgent :: "agent_env \<Rightarrow> reachInstallState \<Rightarrow> unit hosted" where
  "restartDetachedAgent env st h =
     (let pidFile = or_else (is_PIDFile st) (path_join [is_DataDir st, ''reach-agent.pid'']);
          logPath = or_else (is_LogPath st) (path_join [is_DataDir st, ''agent.log'']);
          h1 = (case readPID (ho_files h) pidFile of
                  None \<Rightarrow> h
                | Some pid \<Rightarrow>
                    (case processAlive pid h of
                       (False, h1) \<Rightarrow> h1
                     | (True, h1) \<Rightarrow>
                         let h2 = wait_gone 40 pid (snd (host_do [''signal'', show_int pid, ''TERM''] h1)) in
                         (case processAlive pid h2 of
                            (False, h3) \<Rightarrow> h3
                          | (True, h3) \<Rightarrow> snd (host_do [''signal'', show_int pid, ''KILL''] h3))))
      in startDetached env (is_AgentPath st) (is_ConfigPath st) logPath pidFile (silently (unlink_file pidFile) h1))"

text \<open>A service manager that is installed is asked first; if it refuses, the process is restarted.\<close>

definition restart_with :: "string \<Rightarrow> string list \<Rightarrow> unit hosted \<Rightarrow> unit hosted" where
  "restart_with program args fallback h =
     (case host_do [''LookPath'', program] h of
        ((False, _), h1) \<Rightarrow> fallback h1
      | ((True, _), h1) \<Rightarrow>
          (case host_do (program # args) h1 of ((True, _), h2) \<Rightarrow> (Inr (), h2) | ((False, _), h2) \<Rightarrow> fallback h2))"

definition launchdLabel :: string where "launchdLabel = ''dev.arthurlin.reach-agent''"

definition restartLaunchdAgent :: "agent_env \<Rightarrow> string \<Rightarrow> reachInstallState \<Rightarrow> unit hosted" where
  "restartLaunchdAgent env uid st =
     restart_with ''launchctl''
       [''kickstart'', ''-k'', if is_InstallMode st = ''system'' then ''system/'' @ launchdLabel
                               else ''gui/'' @ uid @ ''/'' @ launchdLabel]
       (restartDetachedAgent env st)"

definition restartReachAgent :: "agent_env \<Rightarrow> string \<Rightarrow> string \<Rightarrow> reachInstallState \<Rightarrow> unit hosted" where
  "restartReachAgent env goos uid st =
     (if goos = ''darwin'' then restartLaunchdAgent env uid st
      else restart_with ''systemctl''
             ((if is_InstallMode st = ''system'' then [] else [''--user'']) @ [''restart'', ''reach-agent.service''])
             (restartDetachedAgent env st))"

subsection \<open>The watcher and the confirmation\<close>

definition confirm_flag :: "reachInstallState \<Rightarrow> string" where
  "confirm_flag st = path_join [is_DataDir st, ''update-confirm-required'']"

definition backup_path :: "string \<Rightarrow> reachInstallState \<Rightarrow> string" where
  "backup_path stamp st = path_join [is_DataDir st, ''update-backups'', ''reach-agent.backup.'' @ stamp]"

definition startRollbackWatcher :: "reachInstallState \<Rightarrow> string \<Rightarrow> string \<Rightarrow> string \<Rightarrow> string \<Rightarrow> unit hosted" where
  "startRollbackWatcher st confirmFlag backupPath logPath after =
     hbind (lift_host (os_call [''OpenAppend'', logPath] id)) (\<lambda>_.
     lift_host (os_call
       [''Start'', is_AgentPath st, ''update-binary'', ''--rollback-watcher'', ''--confirm-flag'', confirmFlag,
        ''--backup'', backupPath, ''--agent-path'', is_AgentPath st, ''--install-mode'', is_InstallMode st,
        ''--config'', is_ConfigPath st, ''--data-dir'', is_DataDir st, ''--rollback-after'', after, ''--log'', logPath] id))"

text \<open>\<open>runUpdateRollbackWatcher\<close> after its wait; \<open>restart\<close> is the restart of the service.\<close>

definition rollback_watcher_fires ::
  "(reachInstallState \<Rightarrow> unit hosted) \<Rightarrow> string \<Rightarrow> string \<Rightarrow> string \<Rightarrow> reachInstallState \<Rightarrow> unit hosted" where
  "rollback_watcher_fires restart fresh confirmFlag backupPath st h =
     (if confirmFlag = [] \<or> backupPath = [] \<or> is_AgentPath st = [] then
        (Inl ''rollback watcher missing required paths'', h)
      else if ho_files h confirmFlag = None then (Inr (), h)
      else hbind (restoreBinary fresh backupPath (is_AgentPath st)) (\<lambda>_ h1.
             on_error (\<lambda>e. ''rollback restored binary but restart failed: '' @ e)
               (restart (st\<lparr>is_PIDFile := path_join [is_DataDir st, ''reach-agent.pid''],
                            is_LogPath := path_join [is_DataDir st, ''agent.log'']\<rparr>))
               (silently (unlink_file confirmFlag) h1)) h)"

definition confirmUpdate :: "reachInstallState \<Rightarrow> unit hosted" where
  "confirmUpdate st h =
     (if ho_files h (confirm_flag st) = None then (Inr (), h)
      else lift_host (unlink_file (confirm_flag st)) h)"

subsection \<open>The update\<close>

record update_options =
  uo_Version :: string
  uo_APIURL :: string
  uo_CandidatePath :: string
  uo_RollbackAfter :: string

definition preflightAgentBinary :: "update_env \<Rightarrow> string \<Rightarrow> string hosted" where
  "preflightAgentBinary e path =
     hbind (read_file path) (\<lambda>content h.
       case ue_version e content of
         Inl err \<Rightarrow> (Inl (''candidate preflight failed: '' @ err), h)
       | Inr out \<Rightarrow> if trim_space out = [] then (Inl ''candidate preflight failed: version output was empty'', h)
                    else (Inr (trim_space out), h))"

text \<open>The candidate: downloaded, or given and checked; the first is removed at the end.\<close>

definition obtain_candidate ::
  "update_env \<Rightarrow> string list \<Rightarrow> string \<Rightarrow> update_options \<Rightarrow> string \<Rightarrow> string hosted" where
  "obtain_candidate e keys apiURL opt asset =
     (if uo_CandidatePath opt = [] then downloadAgentCandidate e keys apiURL (uo_Version opt) asset
      else hbind (verifyCandidateManifest e keys apiURL (uo_Version opt) asset (uo_CandidatePath opt))
             (\<lambda>_. hret (uo_CandidatePath opt)))"

text \<open>The binary is swapped in, the watcher armed and the agent restarted; a failure undoes it.\<close>

definition swap_in ::
  "(reachInstallState \<Rightarrow> unit hosted) \<Rightarrow> update_env \<Rightarrow> reachInstallState \<Rightarrow> update_options \<Rightarrow> string \<Rightarrow> unit hosted" where
  "swap_in restart e st opt candidatePath h =
     (let backup = backup_path (ue_id e) st;
          flag = confirm_flag st;
          log = path_join [is_DataDir st, ''update-rollback-'' @ ue_id e @ ''.log'']
      in case atomicInstallBinary (ue_fresh e) candidatePath (is_AgentPath st) h of
           (Inl err, h1) \<Rightarrow> (Inl err, silently (unlink_file flag) h1)
         | (Inr _, h1) \<Rightarrow>
             (case startRollbackWatcher st flag backup log (uo_RollbackAfter opt) h1 of
                (Inl err, h2) \<Rightarrow>
                  (Inl (''start rollback watcher failed; restored backup: '' @ err),
                   silently (unlink_file flag) (snd (restoreBinary (ue_fresh e) backup (is_AgentPath st) h2)))
              | (Inr _, h2) \<Rightarrow>
                  on_error (\<lambda>err. ''restart after update failed; rollback watcher remains armed: '' @ err) (restart st) h2))"

text \<open>The installation of a candidate that passed its checks, with the backup and the flag.\<close>

definition install_candidate ::
  "(reachInstallState \<Rightarrow> unit hosted) \<Rightarrow> update_env \<Rightarrow> reachInstallState \<Rightarrow> update_options \<Rightarrow> string \<Rightarrow> string \<Rightarrow> unit hosted" where
  "install_candidate restart e st opt candidatePath candidateVersion =
     (let backup = backup_path (ue_id e) st;
          text = ''backup='' @ backup @ [nl] @ ''installed_at='' @ ue_now e @ [nl] @ ''candidate_version='' @ candidateVersion @ [nl]
      in hbind (lift_host (os_call [''MkdirAll'', path_join [is_DataDir st, ''update-backups'']] id)) (\<lambda>_.
         hbind (on_error (\<lambda>err. ''backup current binary: '' @ err) (copyFile (is_AgentPath st) backup)) (\<lambda>_.
         hbind (on_error (\<lambda>err. ''write confirmation flag: '' @ err) (lift_host (write_file (confirm_flag st) text))) (\<lambda>_.
         swap_in restart e st opt candidatePath))))"

text \<open>\<open>cfg_url\<close> is \<open>heartbeat.api_url\<close> of the agent's configuration, if it can be read.\<close>

definition performBinaryUpdate ::
  "(reachInstallState \<Rightarrow> unit hosted) \<Rightarrow> update_env \<Rightarrow> string list \<Rightarrow> string option \<Rightarrow> string option \<Rightarrow> reachInstallState
   \<Rightarrow> update_options \<Rightarrow> unit hosted" where
  "performBinaryUpdate restart e keys uname cfg_url st opt h =
     (let apiURL = (if uo_APIURL opt \<noteq> [] then uo_APIURL opt else case cfg_url of None \<Rightarrow> [] | Some u \<Rightarrow> u) in
      if ue_goos e \<noteq> ''linux'' \<and> ue_goos e \<noteq> ''darwin'' then
        (Inl (''reach-agent update-binary currently supports Linux and macOS only (got '' @ ue_goos e @ '')''), h)
      else if is_InstallMode st = ''system'' \<and> \<not> ue_root e then
        (Inl (''system Reach install at '' @ is_AgentPath st @ '' requires root to update; rerun with sudo''), h)
      else if apiURL = [] \<and> uo_CandidatePath opt = [] then
        (Inl ''--api-url is required when the existing config does not provide heartbeat.api_url'', h)
      else if uo_Version opt = [] then (Inl ''--version is required'', h)
      else case detectAgentAsset (ue_goos e) (ue_arch e) uname of
          Inl err \<Rightarrow> (Inl err, h)
        | Inr asset \<Rightarrow>
            (case obtain_candidate e keys apiURL opt asset h of
               (Inl err, h1) \<Rightarrow> (Inl err, h1)
             | (Inr candidate, h1) \<Rightarrow>
                 let (r, h2) =
                   hbind (preflightAgentBinary e candidate) (\<lambda>v.
                     if v \<noteq> uo_Version opt then
                       hfail (''candidate version mismatch: binary reports '' @ go_quote v @ '' but requested '' @ go_quote (uo_Version opt))
                     else install_candidate restart e st opt candidate v) h1
                 in (r, if uo_CandidatePath opt = [] then drop_files (\<lambda>f. f = candidate) h2 else h2)))"

subsection \<open>The command\<close>

record update_command =
  uc_rollback_watcher :: bool
  uc_confirm :: bool
  uc_foreground :: bool

datatype update_action = Watch | Confirm | Detach "string list" | Perform

text \<open>What \<open>updateBinaryCommand\<close> does with its parsed flags, and the arguments of a detached worker.\<close>

definition update_dispatch :: "update_command \<Rightarrow> (string + reachInstallState) \<Rightarrow> string list \<Rightarrow> string + update_action" where
  "update_dispatch c state args =
     (if uc_rollback_watcher c then Inr Watch
      else case state of
          Inl e \<Rightarrow> Inl e
        | Inr st \<Rightarrow>
            if uc_confirm c then Inr Confirm
            else if \<not> uc_foreground c then
              Inr (Detach ([''update-binary'', ''--foreground'', ''--install-env'', is_EnvPath st] @ stripUpdateWorkerOnlyArgs args))
            else Inr Perform)"

definition startDetachedUpdateWorker :: "string \<Rightarrow> string \<Rightarrow> reachInstallState \<Rightarrow> string list \<Rightarrow> unit hosted" where
  "startDetachedUpdateWorker exe stamp st args =
     (if exe = [] then hfail ''could not find current executable for detached update''
      else hbind (lift_host (os_call [''MkdirAll'', is_DataDir st] id)) (\<lambda>_.
           hbind (lift_host (os_call [''OpenAppend'', path_join [is_DataDir st, ''update-binary-'' @ stamp @ ''.log'']] id)) (\<lambda>_.
           lift_host (os_call ([''Start'', exe, ''update-binary'', ''--foreground'', ''--install-env'', is_EnvPath st]
                               @ stripUpdateWorkerOnlyArgs args) id))))"

subsection \<open>Which files an operation writes\<close>

definition only_files :: "(string \<Rightarrow> bool) \<Rightarrow> (host \<Rightarrow> 'r \<times> host) \<Rightarrow> bool" where
  "only_files p f \<longleftrightarrow> (\<forall>h x. \<not> p x \<longrightarrow> ho_files (snd (f h)) x = ho_files h x)"

named_theorems file_frames \<open>which files the host operations write\<close>

lemma only_filesD: "only_files p f \<Longrightarrow> f h = (r, h') \<Longrightarrow> \<not> p x \<Longrightarrow> ho_files h' x = ho_files h x"
  unfolding only_files_def by (metis snd_conv)

lemma only_files_mono: "only_files p f \<Longrightarrow> (\<And>x. p x \<Longrightarrow> q x) \<Longrightarrow> only_files q f"
  unfolding only_files_def by blast

lemma host_do_files [simp]: "ho_files (snd (host_do a h)) = ho_files h"
  by (simp add: host_do_def)

lemma host_do_files_eq: "host_do a h = (x, h') \<Longrightarrow> ho_files h' = ho_files h"
  by (metis host_do_files snd_conv)

lemma only_os_call [file_frames]:
  "(\<And>h x. \<not> p x \<Longrightarrow> ho_files (g h) x = ho_files h x) \<Longrightarrow> only_files p (os_call a g)"
  by (auto simp: only_files_def os_call_def split: prod.splits dest: host_do_files_eq)

lemma only_lift [file_frames]: "only_files p f \<Longrightarrow> only_files p (lift_host f)"
  by (auto simp: only_files_def lift_host_def split: prod.splits option.splits) (metis snd_conv)+

lemma only_bind [file_frames]: "only_files p f \<Longrightarrow> (\<And>a. only_files p (g a)) \<Longrightarrow> only_files p (hbind f g)"
  by (auto simp: only_files_def hbind_def split: prod.splits sum.splits) (metis snd_conv)+

lemma only_and_then [file_frames]: "only_files p f \<Longrightarrow> only_files p g \<Longrightarrow> only_files p (and_then f g)"
  by (auto simp: only_files_def and_then_def split: prod.splits option.splits) (metis snd_conv)+

lemma only_on_error [file_frames]: "only_files p f \<Longrightarrow> only_files p (on_error g f)"
  by (auto simp: only_files_def on_error_def split: prod.splits sum.splits) (metis snd_conv)+

lemma only_read [file_frames]: "only_files p (read_file path)"
  by (auto simp: only_files_def read_file_def split: option.splits)

lemma only_pure [file_frames]: "only_files p (hret a)" "only_files p (hfail e)"
  by (auto simp: only_files_def hret_def hfail_def)

lemma only_write [file_frames]: "p path \<Longrightarrow> only_files p (write_file path c)"
  unfolding write_file_def by (rule only_os_call) auto

lemma only_rename [file_frames]: "p src \<Longrightarrow> p dst \<Longrightarrow> only_files p (rename_file src dst)"
  unfolding rename_file_def by (rule only_os_call) auto

lemma only_remove [file_frames]: "p path \<Longrightarrow> only_files p (unlink_file path)"
proof -
  assume "p path"
  then have "only_files p (os_call [''Remove'', path] (\<lambda>h. h\<lparr>ho_files := (ho_files h)(path := None)\<rparr>))"
    by (intro only_os_call) auto
  then show ?thesis by (simp add: only_files_def unlink_file_def)
qed

lemma silently_files: "only_files p f \<Longrightarrow> \<not> p x \<Longrightarrow> ho_files (silently f h) x = ho_files h x"
  by (simp add: silently_def only_files_def)

lemma only_download [file_frames]: "p path \<Longrightarrow> only_files p (downloadFile e url path n)"
proof -
  assume p: "p path"
  show ?thesis unfolding only_files_def
  proof (intro allI impI)
    fix h x assume x: "\<not> p x"
    show "ho_files (snd (downloadFile e url path n h)) x = ho_files h x"
    proof (cases "ue_fetch e url")
      case (Inr sb)
      obtain st b where sb: "sb = (st, b)" by (cases sb)
      obtain r h1 where w: "write_file path (take (nat (n + 1)) b) h = (r, h1)"
        by (cases "write_file path (take (nat (n + 1)) b) h")
      have h1: "ho_files h1 x = ho_files h x" using only_write [of p path, OF p] w x by (rule only_filesD)
      have "only_files p (os_call [''Sync'', path] id)" by (intro only_os_call) simp
      then have s: "ho_files (snd (os_call [''Sync'', path] id h1)) x = ho_files h1 x" using x by (simp add: only_files_def)
      show ?thesis using h1 s by (simp add: downloadFile_def Inr sb w split: option.split)
    qed (simp add: downloadFile_def)
  qed
qed

end
