(* ===== verification/UpdateFacts.thy ===== *)
theory UpdateFacts
  imports UpdateRun
begin

text \<open>
  What the steps of an update do to the files: the candidate holds content that passed the checks,
  the agent's binary is replaced by the candidate or not at all, the backup holds the old binary.
\<close>

subsection \<open>Verified content\<close>

text \<open>Content that a signed manifest lists under this version for this asset.\<close>

definition verified :: "update_env \<Rightarrow> string list \<Rightarrow> string \<Rightarrow> string \<Rightarrow> string \<Rightarrow> bool" where
  "verified e keys version asset content \<longleftrightarrow>
     (\<exists>msg sig key m a. key \<in> set keys \<and> ue_verify e (trim_space key) msg sig \<and> ue_decode e msg = Inr m \<and>
        rm_Schema m = 1 \<and> rm_Project m = releaseManifestProject \<and> rm_Version m = version \<and> rm_Assets m asset = Some a \<and>
        int (length content) = ra_Size a \<and> equal_fold (ue_sha256_hex e content) (ra_SHA256 a))"

lemma verify_keys_None: "verify_keys e msg sig keys errs = None \<Longrightarrow> \<exists>k \<in> set keys. ue_verify e (trim_space k) msg sig"
  by (induction keys arbitrary: errs) (auto simp: Let_def split: if_splits option.splits)

lemma hbind_Inr: "hbind f g h = (Inr b, h') \<longleftrightarrow> (\<exists>a h1. f h = (Inr a, h1) \<and> g a h1 = (Inr b, h'))"
  by (auto simp: hbind_def split: prod.splits sum.splits)

lemma hbindE:
  assumes "hbind f g h = (Inr b, h')"
  obtains a h1 where "f h = (Inr a, h1)" "g a h1 = (Inr b, h')"
  using assms unfolding hbind_Inr by blast

lemma lift_host_Inr: "lift_host f h = (Inr u, h') \<longleftrightarrow> f h = (None, h')"
  by (auto simp: lift_host_def split: prod.splits option.splits)

lemma on_error_Inr: "on_error g f h = (Inr a, h') \<longleftrightarrow> f h = (Inr a, h')"
  by (auto simp: on_error_def split: prod.splits sum.splits)

lemma read_file_Inr: "read_file p h = (Inr c, h') \<longleftrightarrow> ho_files h p = Some c \<and> h' = h"
  by (auto simp: read_file_def split: option.splits)

lemma os_call_ok: "os_call a f h = (None, h') \<Longrightarrow> \<exists>h1. ho_files h1 = ho_files h \<and> h' = f h1"
  by (auto simp: os_call_def split: prod.splits if_splits dest: host_do_files_eq)

lemma write_file_ok: "write_file p c h = (None, h') \<Longrightarrow> ho_files h' = (ho_files h)(p \<mapsto> c)"
  unfolding write_file_def by (auto dest!: os_call_ok)

lemma drop_files_other: "\<not> p x \<Longrightarrow> ho_files (drop_files p h) x = ho_files h x"
  by (simp add: drop_files_def)

lemma manifest_frame:
  assumes "x \<noteq> manifest_path e" and "x \<noteq> signature_path e"
    and "downloadAndVerifyReleaseManifest e keys base version asset h = (r, h')"
  shows "ho_files h' x = ho_files h x"
proof -
  let ?p = "\<lambda>f. f = manifest_path e \<or> f = signature_path e"
  have "only_files ?p (fetch_manifest e keys base version asset)"
    unfolding fetch_manifest_def
    by (intro file_frames) (auto simp: only_files_def split: option.split)
  moreover obtain r1 h1 where h1: "fetch_manifest e keys base version asset h = (r1, h1)"
    by (cases "fetch_manifest e keys base version asset h")
  ultimately have "ho_files h1 x = ho_files h x" by (rule only_filesD) (use assms in simp)
  moreover have "h' = drop_files ?p h1" using assms(3) h1 by (simp add: downloadAndVerifyReleaseManifest_def)
  ultimately show ?thesis using assms(1,2) by (simp add: drop_files_def)
qed

lemma parse_manifest_Inr:
  "parseReleaseManifest e msg version asset = Inr (m, a) \<Longrightarrow>
   ue_decode e msg = Inr m \<and> rm_Schema m = 1 \<and> rm_Project m = releaseManifestProject \<and> rm_Version m = version
   \<and> rm_Assets m asset = Some a"
  by (auto simp: parseReleaseManifest_def split: sum.splits if_splits option.splits)

lemma manifest_Inr:
  assumes "downloadAndVerifyReleaseManifest e keys base version asset h = (Inr (m, a), h')"
    and "int (length content) = ra_Size a" and "equal_fold (ue_sha256_hex e content) (ra_SHA256 a)"
  shows "verified e keys version asset content"
proof -
  from assms(1) obtain msg sig h1 where v: "verifyReleaseManifestSignature e keys msg sig = None"
    and p: "parseReleaseManifest e msg version asset = Inr (m, a)"
    by (auto simp: downloadAndVerifyReleaseManifest_def fetch_manifest_def hbind_Inr split: prod.splits option.splits)
  from v obtain k where "k \<in> set keys" "ue_verify e (trim_space k) msg sig"
    using verify_keys_None [of e msg sig keys "[]"]
    by (auto simp: verifyReleaseManifestSignature_def split: option.splits list.splits)
  with parse_manifest_Inr [OF p] assms(2,3) show ?thesis unfolding verified_def by blast
qed

lemma verify_file_Inr:
  "verifyFileSHA256 e path a h = (Inr d, h') \<Longrightarrow>
   \<exists>c. ho_files h path = Some c \<and> int (length c) = ra_Size a \<and> equal_fold (ue_sha256_hex e c) (ra_SHA256 a) \<and> h' = h"
  by (auto simp: verifyFileSHA256_def split: option.splits if_splits)

text \<open>The candidate of an update, given or downloaded.\<close>

definition candidate_path :: "update_env \<Rightarrow> update_options \<Rightarrow> string" where
  "candidate_path e opt = (if uo_CandidatePath opt = [] then download_path e else uo_CandidatePath opt)"

lemma hbind_cases:
  assumes "hbind f g h = (r, h')"
  obtains (fails) er where "f h = (Inl er, h')" "r = Inl er" | (goes) a h1 where "f h = (Inr a, h1)" "g a h1 = (r, h')"
  using assms by (auto simp: hbind_def split: prod.splits sum.splits)

lemma only_manifest [file_frames]:
  "p (manifest_path e) \<Longrightarrow> p (signature_path e) \<Longrightarrow>
   only_files p (downloadAndVerifyReleaseManifest e keys base version asset)"
  unfolding only_files_def
  by (intro allI impI) (metis manifest_frame surjective_pairing)

lemma only_case_prod [file_frames]: "(\<And>a b. only_files p (f a b)) \<Longrightarrow> only_files p (case x of (a, b) \<Rightarrow> f a b)"
  by (cases x) simp

lemma only_verify [file_frames]: "only_files p (verifyFileSHA256 e path a)"
  by (auto simp: only_files_def verifyFileSHA256_def split: option.split)

definition update_files :: "update_env \<Rightarrow> string list" where
  "update_files e = [manifest_path e, signature_path e, download_path e]"

lemma only_fetch [file_frames]:
  "(\<And>x. x \<in> set (update_files e) \<Longrightarrow> p x) \<Longrightarrow> only_files p (downloadAgentCandidate e keys url version asset)"
proof -
  assume p: "\<And>x. x \<in> set (update_files e) \<Longrightarrow> p x"
  have f: "only_files p (fetch_candidate e keys url version asset)"
    unfolding fetch_candidate_def
    by (intro file_frames) (use p in \<open>auto simp: update_files_def\<close>)
  show ?thesis unfolding only_files_def
  proof (intro allI impI)
    fix h x assume x: "\<not> p x"
    obtain r h1 where r: "fetch_candidate e keys url version asset h = (r, h1)"
      by (cases "fetch_candidate e keys url version asset h")
    have "ho_files h1 x = ho_files h x" using f r x by (rule only_filesD)
    moreover have "x \<noteq> download_path e" using p [of "download_path e"] x by (auto simp: update_files_def)
    ultimately show "ho_files (snd (downloadAgentCandidate e keys url version asset h)) x = ho_files h x"
      by (simp add: downloadAgentCandidate_def r drop_files_def split: sum.split)
  qed
qed

lemma only_if [file_frames]: "only_files p f \<Longrightarrow> only_files p g \<Longrightarrow> only_files p (if b then f else g)"
  by simp

lemma only_verify_candidate [file_frames]:
  "p (manifest_path e) \<Longrightarrow> p (signature_path e) \<Longrightarrow> only_files p (verifyCandidateManifest e keys url version asset c)"
  unfolding verifyCandidateManifest_def by (intro file_frames) simp_all

lemma only_obtain:
  assumes "\<And>x. x \<in> set (update_files e) \<Longrightarrow> p x"
  shows "only_files p (obtain_candidate e keys url opt asset)"
  unfolding obtain_candidate_def
  by (intro only_if only_fetch only_bind only_verify_candidate only_pure assms) (simp_all add: update_files_def)

lemma fetch_Inr:
  assumes "fetch_candidate e keys url version asset h = (Inr c, h')"
  shows "c = download_path e \<and> (\<exists>content. ho_files h' c = Some content \<and> verified e keys version asset content)"
  using assms unfolding fetch_candidate_def
proof (elim hbindE)
  fix u1 k1 ma k2 u3 k3 d k4 u5 k5
  assume m: "downloadAndVerifyReleaseManifest e keys (base_url url version) version asset k1 = (Inr ma, k2)"
    and v: "on_error (\<lambda>err. ''download verification failed for '' @ asset @ '': '' @ err)
              (verifyFileSHA256 e (download_path e) (snd ma)) k3 = (Inr d, k4)"
    and chm: "lift_host (os_call [''Chmod'', download_path e, ''0755''] id) k4 = (Inr u5, k5)"
    and ret: "hret (download_path e) k5 = (Inr c, h')"
  obtain content where co: "ho_files k3 (download_path e) = Some content" "int (length content) = ra_Size (snd ma)"
    "equal_fold (ue_sha256_hex e content) (ra_SHA256 (snd ma))" "k4 = k3"
    using verify_file_Inr [OF v [unfolded on_error_Inr]] by auto
  have m': "downloadAndVerifyReleaseManifest e keys (base_url url version) version asset k1 = (Inr (fst ma, snd ma), k2)"
    using m by simp
  from os_call_ok [OF chm [unfolded lift_host_Inr]] have "ho_files k5 = ho_files k4" by auto
  moreover have "c = download_path e" "h' = k5" using ret by (simp_all add: hret_def)
  ultimately show ?thesis using co(1,4) manifest_Inr [OF m' co(2,3)] by simp
qed

lemma obtain_Inr:
  assumes "obtain_candidate e keys url opt asset h = (Inr c, h')"
  shows "c = candidate_path e opt \<and> (\<exists>content. ho_files h' c = Some content \<and> verified e keys (uo_Version opt) asset content)"
proof (cases "uo_CandidatePath opt = []")
  case True
  with assms have "fetch_candidate e keys url (uo_Version opt) asset h = (Inr c, h')"
    by (auto simp: obtain_candidate_def downloadAgentCandidate_def split: prod.splits sum.splits)
  from fetch_Inr [OF this] True show ?thesis by (auto simp: candidate_path_def)
next
  case False
  with assms have "hbind (verifyCandidateManifest e keys url (uo_Version opt) asset (uo_CandidatePath opt))
      (\<lambda>_. hret (uo_CandidatePath opt)) h = (Inr c, h')"
    by (simp add: obtain_candidate_def)
  then obtain u k where vc: "verifyCandidateManifest e keys url (uo_Version opt) asset (uo_CandidatePath opt) h = (Inr u, k)"
    and c: "c = uo_CandidatePath opt" "h' = k"
    by (elim hbindE) (simp add: hret_def)
  then have "url \<noteq> []" by (auto simp: verifyCandidateManifest_def hfail_def)
  with vc obtain ma k2 d k3 where
    m: "downloadAndVerifyReleaseManifest e keys (base_url url (uo_Version opt)) (uo_Version opt) asset h = (Inr ma, k2)"
    and v: "verifyFileSHA256 e (uo_CandidatePath opt) (snd ma) k2 = (Inr d, k3)" and k: "k = k3"
    unfolding verifyCandidateManifest_def by (simp only: if_False) (elim hbindE, simp add: on_error_Inr hret_def)
  have m': "downloadAndVerifyReleaseManifest e keys (base_url url (uo_Version opt)) (uo_Version opt) asset h
      = (Inr (fst ma, snd ma), k2)"
    using m by simp
  from verify_file_Inr [OF v] manifest_Inr [OF m'] c k False show ?thesis by (auto simp: candidate_path_def)
qed

subsection \<open>Installing\<close>

lemma os_call_id: "ho_files (snd (os_call a id h)) = ho_files h"
  by (auto simp: os_call_def split: prod.split dest: host_do_files_eq)

lemma os_call_cases:
  assumes "os_call a f h = (r, h')"
  obtains (ok) h1 where "r = None" "ho_files h1 = ho_files h" "h' = f h1" | (bad) e where "r = Some e" "ho_files h' = ho_files h"
  using assms by (auto simp: os_call_def split: prod.splits if_splits dest: host_do_files_eq)

text \<open>The steps leave the target alone until the final rename, which puts the source's content there.\<close>

definition ends_with :: "string \<Rightarrow> string \<Rightarrow> string \<Rightarrow> unit hosted \<Rightarrow> bool" where
  "ends_with dst tmp c f \<longleftrightarrow> (\<forall>h r h'. ho_files h tmp = Some c \<longrightarrow> f h = (r, h') \<longrightarrow>
     (r = Inr () \<and> ho_files h' dst = Some c) \<or> ((\<exists>e. r = Inl e) \<and> ho_files h' dst = ho_files h dst))"

lemma ends_with_rename: "tmp \<noteq> dst \<Longrightarrow> ends_with dst tmp c (lift_host (rename_file tmp dst))"
  unfolding ends_with_def
proof (intro allI impI)
  fix h r h' assume ne: "tmp \<noteq> dst" and t: "ho_files h tmp = Some c" and r: "lift_host (rename_file tmp dst) h = (r, h')"
  obtain q k where q: "rename_file tmp dst h = (q, k)" by (cases "rename_file tmp dst h")
  from q have "os_call [''Rename'', tmp, dst] (\<lambda>h. h\<lparr>ho_files := (ho_files h)(dst := ho_files h tmp, tmp := None)\<rparr>) h = (q, k)"
    by (simp add: rename_file_def)
  then show "(r = Inr () \<and> ho_files h' dst = Some c) \<or> ((\<exists>e. r = Inl e) \<and> ho_files h' dst = ho_files h dst)"
    by (cases rule: os_call_cases) (use r q t ne in \<open>auto simp: lift_host_def\<close>)
qed

lemma ends_with_step: "ends_with dst tmp c f \<Longrightarrow> ends_with dst tmp c (hbind (lift_host (os_call a id)) (\<lambda>_. f))"
  unfolding ends_with_def
proof (intro allI impI)
  fix h r h'
  assume f: "\<forall>h r h'. ho_files h tmp = Some c \<longrightarrow> f h = (r, h') \<longrightarrow>
     (r = Inr () \<and> ho_files h' dst = Some c) \<or> ((\<exists>e. r = Inl e) \<and> ho_files h' dst = ho_files h dst)"
    and t: "ho_files h tmp = Some c" and r: "hbind (lift_host (os_call a id)) (\<lambda>_. f) h = (r, h')"
  obtain q k where q: "os_call a id h = (q, k)" by (cases "os_call a id h")
  have k: "ho_files k = ho_files h" using os_call_id [of a h] q by simp
  show "(r = Inr () \<and> ho_files h' dst = Some c) \<or> ((\<exists>e. r = Inl e) \<and> ho_files h' dst = ho_files h dst)"
  proof (cases q)
    case None
    then have "f k = (r, h')" using r q by (simp add: hbind_def lift_host_def)
    moreover have "ho_files k tmp = Some c" using k t by simp
    ultimately have "(r = Inr () \<and> ho_files h' dst = Some c) \<or> ((\<exists>e. r = Inl e) \<and> ho_files h' dst = ho_files k dst)"
      using f [rule_format, of k r h'] by simp
    then show ?thesis unfolding k .
  qed (use r q k in \<open>auto simp: hbind_def lift_host_def\<close>)
qed

lemma install_steps_target:
  assumes run: "install_steps tmp src dst h = (r, h')" and ne: "tmp \<noteq> src" "tmp \<noteq> dst"
  shows "(r = Inr () \<and> ho_files h src \<noteq> None \<and> ho_files h' dst = ho_files h src)
       \<or> ((\<exists>e. r = Inl e) \<and> ho_files h' dst = ho_files h dst)"
proof -
  let ?copy = "\<lambda>content. os_call [''Copy'', src, tmp] (\<lambda>h. h\<lparr>ho_files := (ho_files h)(tmp \<mapsto> content)\<rparr>)"
  let ?rest = "hbind (lift_host (os_call [''Chmod'', tmp] id)) (\<lambda>_.
     hbind (lift_host (os_call [''Sync'', tmp] id)) (\<lambda>_.
     hbind (lift_host (os_call [''Close'', tmp] id)) (\<lambda>_. lift_host (rename_file tmp dst))))"
  have ends: "ends_with dst tmp c ?rest" for c by (intro ends_with_step ends_with_rename ne(2))
  obtain q1 k1 where c1: "os_call [''CreateTemp'', tmp] (\<lambda>h. h\<lparr>ho_files := (ho_files h)(tmp \<mapsto> [])\<rparr>) h = (q1, k1)"
    by (cases "os_call [''CreateTemp'', tmp] (\<lambda>h. h\<lparr>ho_files := (ho_files h)(tmp \<mapsto> [])\<rparr>) h")
  have k1: "ho_files k1 src = ho_files h src" "ho_files k1 dst = ho_files h dst"
    using c1 ne by (auto elim!: os_call_cases)
  show ?thesis
  proof (cases q1)
    case (Some e)
    then show ?thesis using run c1 k1 by (auto simp: install_steps_def hbind_def lift_host_def)
  next
    case None
    show ?thesis
    proof (cases "ho_files h src")
      case no: None
      then show ?thesis using run c1 None k1 by (auto simp: install_steps_def hbind_def lift_host_def read_file_def)
    next
      case (Some content)
      obtain q2 k2 where c2: "?copy content k1 = (q2, k2)" by (cases "?copy content k1")
      have k2: "ho_files k2 dst = ho_files h dst" "q2 = None \<Longrightarrow> ho_files k2 tmp = Some content"
        using c2 k1 ne by (auto elim!: os_call_cases)
      have go: "install_steps tmp src dst h = (case q2 of Some e \<Rightarrow> (Inl e, k2) | None \<Rightarrow> ?rest k2)"
        unfolding install_steps_def using c1 None Some k1 c2
        by (simp add: hbind_def [of "lift_host _" "\<lambda>_. hbind (read_file src) _"] hbind_def [of "read_file src"]
            hbind_def [of "lift_host (?copy content)"] lift_host_def read_file_def split: option.split)
      show ?thesis
      proof (cases q2)
        case (Some e)
        then show ?thesis using go run k2 by simp
      next
        case None
        then have "?rest k2 = (r, h')" using go run by simp
        with ends [of content] k2 None Some show ?thesis unfolding ends_with_def by auto
      qed
    qed
  qed
qed

lemma install_target:
  assumes run: "atomicInstallBinary fresh src dst h = (r, h')"
    and ne: "install_temp fresh dst \<noteq> src" "install_temp fresh dst \<noteq> dst"
  shows "ho_files h' dst = ho_files h dst \<or> ho_files h src \<noteq> None \<and> ho_files h' dst = ho_files h src"
    and "r = Inr () \<Longrightarrow> ho_files h src \<noteq> None \<and> ho_files h' dst = ho_files h src"
proof -
  obtain q k where s: "install_steps (install_temp fresh dst) src dst h = (q, k)"
    by (cases "install_steps (install_temp fresh dst) src dst h")
  note t = install_steps_target [OF s ne]
  have rem: "ho_files (silently (unlink_file (install_temp fresh dst)) k) dst = ho_files k dst"
    by (rule silently_files [where p = "\<lambda>x. x = install_temp fresh dst"]) (use ne in \<open>auto intro: only_remove\<close>)
  have sync: "ho_files (snd (lift_host (os_call a id) k)) = ho_files k" for a
    using os_call_id [of a k] by (auto simp: lift_host_def split: prod.split option.split)
  have "(\<exists>e. q = Inl e) \<or> q = Inr ()" using t by auto
  then show "ho_files h' dst = ho_files h dst \<or> ho_files h src \<noteq> None \<and> ho_files h' dst = ho_files h src"
    and "r = Inr () \<Longrightarrow> ho_files h src \<noteq> None \<and> ho_files h' dst = ho_files h src"
    using run t rem sync [of "[''SyncDir'', path_dir dst]"]
    by (auto simp: atomicInstallBinary_def s split: if_splits)
qed

lemma only_install [file_frames]:
  "p (install_temp fresh dst) \<Longrightarrow> p dst \<Longrightarrow> only_files p (atomicInstallBinary fresh src dst)"
proof -
  assume p: "p (install_temp fresh dst)" "p dst"
  have st: "only_files p (install_steps (install_temp fresh dst) src dst)"
    unfolding install_steps_def by (intro file_frames) (use p in auto)
  have sync: "only_files p (lift_host (os_call a id))" for a by (intro file_frames) simp
  show ?thesis unfolding only_files_def
  proof (intro allI impI)
    fix h x assume x: "\<not> p x"
    obtain q k where s: "install_steps (install_temp fresh dst) src dst h = (q, k)"
      by (cases "install_steps (install_temp fresh dst) src dst h")
    have k: "ho_files k x = ho_files h x" using st s x by (rule only_filesD)
    have "ho_files (silently (unlink_file (install_temp fresh dst)) k) x = ho_files k x"
      by (rule silently_files [OF only_remove [of p, OF p(1)] x])
    moreover have "ho_files (snd (lift_host (os_call a id) k)) x = ho_files k x" for a
      using sync [of a] x by (simp add: only_files_def)
    ultimately show "ho_files (snd (atomicInstallBinary fresh src dst h)) x = ho_files h x"
      using k by (simp add: atomicInstallBinary_def s split: sum.split)
  qed
qed

lemma only_copy [file_frames]: "p dst \<Longrightarrow> only_files p (copyFile src dst)"
  unfolding copyFile_def by (intro file_frames) auto

end
