(* ===== verification/UpdateInstall.thy ===== *)
theory UpdateInstall
  imports UpdateFacts
begin

text \<open>
  The restart, the installation of a candidate and what they leave in the agent's file, the backup
  and the confirmation flag, on success and after a failure of any of their steps.
\<close>

subsection \<open>Restarting writes only the PID file\<close>

definition pid_file :: "reachInstallState \<Rightarrow> string" where
  "pid_file st = or_else (is_PIDFile st) (path_join [is_DataDir st, ''reach-agent.pid''])"

lemma processAlive_files: "processAlive pid h = (b, h') \<Longrightarrow> ho_files h' = ho_files h"
  by (auto simp: processAlive_def split: prod.splits dest: host_do_files_eq)

lemma wait_gone_files: "ho_files (wait_gone n pid h) = ho_files h"
  by (induction n pid h rule: wait_gone.induct) (auto split: prod.split dest: processAlive_files)

lemma only_action: "only_files p (\<lambda>h. case host_do a h of (r, h') \<Rightarrow> (f r, h'))"
  by (auto simp: only_files_def split: prod.split dest: host_do_files_eq)

lemma only_startDetached [file_frames]: "p pidPath \<Longrightarrow> only_files p (startDetached env agent cfg log pidPath)"
proof -
  assume p: "p pidPath"
  define run where "run = (\<lambda>h2. case host_do ([''Start'', agent] @ agentCommandArgs env cfg) h2 of
               ((False, out), h3) \<Rightarrow> (Inl out, h3)
             | ((True, pid), h3) \<Rightarrow>
                 (Inr (), if pidPath = [] then h3 else silently (write_file pidPath (pid @ [nl])) h3))"
  have r: "only_files p run"
    unfolding only_files_def run_def
  proof (intro allI impI)
    fix h x assume x: "\<not> p x"
    obtain ok out k where k: "host_do ([''Start'', agent] @ agentCommandArgs env cfg) h = ((ok, out), k)"
      by (metis surj_pair)
    have "ho_files k = ho_files h" using host_do_files_eq [OF k] .
    then show "ho_files (snd (case host_do ([''Start'', agent] @ agentCommandArgs env cfg) h of
               ((False, out), h3) \<Rightarrow> (Inl out, h3)
             | ((True, pid), h3) \<Rightarrow>
                 (Inr (), if pidPath = [] then h3 else silently (write_file pidPath (pid @ [nl])) h3))) x = ho_files h x"
      using silently_files [OF only_write [of p, OF p] x] k by (cases ok) simp_all
  qed
  have body: "only_files p (\<lambda>h. let (running, h1) =
         (case (if pidPath = [] then None else readPID (ho_files h) pidPath) of
            None \<Rightarrow> (False, h) | Some pid \<Rightarrow> processAlive pid h)
       in if running then (Inr (), h1) else hbind (lift_host (os_call [''OpenAppend'', log] id)) (\<lambda>_. run) h1)"
    unfolding only_files_def
  proof (intro allI impI)
    fix h x assume x: "\<not> p x"
    define t where "t = (case (if pidPath = [] then None else readPID (ho_files h) pidPath) of
            None \<Rightarrow> (False, h) | Some pid \<Rightarrow> processAlive pid h)"
    have t: "ho_files (snd t) = ho_files h"
      unfolding t_def by (auto split: option.split) (metis prod.collapse processAlive_files)
    have "only_files p (hbind (lift_host (os_call [''OpenAppend'', log] id)) (\<lambda>_. run))"
      by (intro file_frames r) simp
    then have "ho_files (snd (hbind (lift_host (os_call [''OpenAppend'', log] id)) (\<lambda>_. run) (snd t))) x = ho_files h x"
      using x t by (simp add: only_files_def)
    then show "ho_files (snd (let (running, h1) = t in if running then (Inr (), h1)
         else hbind (lift_host (os_call [''OpenAppend'', log] id)) (\<lambda>_. run) h1)) x = ho_files h x"
      using t by (cases t) auto
  qed
  show ?thesis unfolding startDetached_def run_def [symmetric]
    by (intro only_bind only_lift only_os_call body) simp
qed

lemma only_restartDetached [file_frames]: "p (pid_file st) \<Longrightarrow> only_files p (restartDetachedAgent env st)"
proof -
  assume p: "p (pid_file st)"
  show ?thesis unfolding only_files_def
  proof (intro allI impI)
    fix h x assume x: "\<not> p x"
    define h1 where "h1 = (case readPID (ho_files h) (pid_file st) of
                  None \<Rightarrow> h
                | Some pid \<Rightarrow>
                    (case processAlive pid h of
                       (False, h1) \<Rightarrow> h1
                     | (True, h1) \<Rightarrow>
                         let h2 = wait_gone 40 pid (snd (host_do [''signal'', show_int pid, ''TERM''] h1)) in
                         (case processAlive pid h2 of
                            (False, h3) \<Rightarrow> h3
                          | (True, h3) \<Rightarrow> snd (host_do [''signal'', show_int pid, ''KILL''] h3))))"
    have "ho_files h1 = ho_files h"
      unfolding h1_def
      by (auto simp: Let_def wait_gone_files split: option.split prod.split bool.split dest!: processAlive_files)
    moreover have "ho_files (silently (unlink_file (pid_file st)) h1) x = ho_files h1 x"
      by (rule silently_files [OF only_remove [of p, OF p] x])
    moreover have "restartDetachedAgent env st h = startDetached env (is_AgentPath st) (is_ConfigPath st)
        (or_else (is_LogPath st) (path_join [is_DataDir st, ''agent.log''])) (pid_file st)
        (silently (unlink_file (pid_file st)) h1)"
      by (simp add: restartDetachedAgent_def h1_def pid_file_def Let_def)
    moreover have "only_files p (startDetached env a c l (pid_file st))" for a c l
      using p by (rule only_startDetached)
    ultimately show "ho_files (snd (restartDetachedAgent env st h)) x = ho_files h x"
      using x by (simp add: only_files_def)
  qed
qed

lemma only_restart_with [file_frames]: "only_files p f \<Longrightarrow> only_files p (restart_with program args f)"
  unfolding only_files_def restart_with_def
  by (auto split: prod.split bool.split dest!: host_do_files_eq)

lemma only_restart: "p (pid_file st) \<Longrightarrow> only_files p (restartReachAgent env goos uid st)"
  unfolding restartReachAgent_def restartLaunchdAgent_def
  by (intro only_if only_restart_with only_restartDetached)

subsection \<open>Installing a candidate\<close>

lemma copy_Inr:
  "copyFile src dst h = (Inr u, h') \<Longrightarrow> \<exists>c. ho_files h src = Some c \<and> ho_files h' dst = Some c"
  unfolding copyFile_def
proof (elim hbindE)
  fix c k1 u2 k2 u0 k0 u3 k3 u4 k4
  assume r: "read_file src h = (Inr c, k1)" and m: "lift_host (os_call [''MkdirAll'', path_dir dst] id) k1 = (Inr u2, k2)"
    and cp: "lift_host (os_call [''Copy'', src, dst] (\<lambda>h. h\<lparr>ho_files := (ho_files h)(dst \<mapsto> c)\<rparr>)) k0 = (Inr u3, k3)"
    and ch: "lift_host (os_call [''Chmod'', dst] id) k3 = (Inr u4, k4)"
    and sy: "lift_host (os_call [''Sync'', dst] id) k4 = (Inr u, h')"
  have "ho_files h' = ho_files k4" "ho_files k4 = ho_files k3"
    using os_call_ok [OF sy [unfolded lift_host_Inr]] os_call_ok [OF ch [unfolded lift_host_Inr]] by auto
  moreover have "ho_files k3 dst = Some c" using os_call_ok [OF cp [unfolded lift_host_Inr]] by auto
  ultimately show ?thesis using r by (auto simp: read_file_Inr)
qed

definition update_paths :: "update_env \<Rightarrow> reachInstallState \<Rightarrow> update_options \<Rightarrow> string list" where
  "update_paths e st opt =
     [is_AgentPath st, candidate_path e opt, backup_path (ue_id e) st, confirm_flag st,
      install_temp (ue_fresh e) (is_AgentPath st), pid_file st]"

lemma watcher_files: "only_files p (startRollbackWatcher st flag backup log after)"
  unfolding startRollbackWatcher_def by (intro file_frames) simp_all

lemma swap_in_files:
  assumes run: "swap_in (restartReachAgent env goos uid) e st opt (candidate_path e opt) h = (r, h')"
    and d: "distinct (update_paths e st opt)"
    and files: "ho_files h (is_AgentPath st) = Some old" "ho_files h (candidate_path e opt) = Some new"
      "ho_files h (backup_path (ue_id e) st) = Some old" "ho_files h (confirm_flag st) \<noteq> None"
  shows "ho_files h' (is_AgentPath st) \<in> {Some old, Some new}"
    and "r = Inr () \<Longrightarrow> ho_files h' (is_AgentPath st) = Some new \<and>
           ho_files h' (backup_path (ue_id e) st) = Some old \<and> ho_files h' (confirm_flag st) \<noteq> None"
proof -
  let ?A = "is_AgentPath st" let ?B = "backup_path (ue_id e) st" let ?F = "confirm_flag st"
  let ?C = "candidate_path e opt" let ?T = "install_temp (ue_fresh e) ?A"
  have ne: "?A \<noteq> ?B" "?A \<noteq> ?F" "?A \<noteq> ?C" "?A \<noteq> ?T" "?B \<noteq> ?F" "?B \<noteq> ?T" "?F \<noteq> ?T" "?C \<noteq> ?T"
    "?A \<noteq> pid_file st" "?B \<noteq> pid_file st" "?F \<noteq> pid_file st"
    using d by (auto simp: update_paths_def)
  have rem: "ho_files (silently (unlink_file ?F) k) ?A = ho_files k ?A" for k
    by (rule silently_files [where p = "\<lambda>x. x = ?F"]) (use ne in \<open>auto intro: only_remove\<close>)
  obtain q1 h1 where i: "atomicInstallBinary (ue_fresh e) ?C ?A h = (q1, h1)"
    by (cases "atomicInstallBinary (ue_fresh e) ?C ?A h")
  note target = install_target [OF i ne(8) [symmetric] ne(4) [symmetric]]
  have keep1: "ho_files h1 x = ho_files h x" if "x \<noteq> ?A" "x \<noteq> ?T" for x
    by (rule only_filesD [OF only_install [where p = "\<lambda>x. x = ?A \<or> x = ?T"] i]) (use that in auto)
  define log where "log = path_join [is_DataDir st, ''update-rollback-'' @ ue_id e @ ''.log'']"
  obtain q2 h2 where w: "startRollbackWatcher st ?F ?B log (uo_RollbackAfter opt) h1 = (q2, h2)"
    by (cases "startRollbackWatcher st ?F ?B log (uo_RollbackAfter opt) h1")
  have h2: "ho_files h2 x = ho_files h1 x" for x
    by (rule only_filesD [OF watcher_files [where p = "\<lambda>_. False"] w]) simp
  obtain q3 h3 where b: "restoreBinary (ue_fresh e) ?B ?A h2 = (q3, h3)" by (cases "restoreBinary (ue_fresh e) ?B ?A h2")
  obtain q4 h4 where rs: "restartReachAgent env goos uid st h2 = (q4, h4)" by (cases "restartReachAgent env goos uid st h2")
  have h4: "ho_files h4 x = ho_files h2 x" if "x \<noteq> pid_file st" for x
    by (rule only_filesD [OF only_restart [where p = "\<lambda>x. x = pid_file st"] rs]) (use that in auto)
  have restored: "ho_files h3 ?A = ho_files h2 ?A \<or> ho_files h3 ?A = Some old"
    using install_target(1) [OF b [unfolded restoreBinary_def] ne(6) [symmetric] ne(4) [symmetric]]
      files(3) h2 keep1 [of ?B] ne by auto
  have res: "(r, h') = (case q1 of Inl err \<Rightarrow> (Inl err, silently (unlink_file ?F) h1)
      | Inr _ \<Rightarrow> (case q2 of
          Inl err \<Rightarrow> (Inl (''start rollback watcher failed; restored backup: '' @ err), silently (unlink_file ?F) h3)
        | Inr _ \<Rightarrow> on_error (\<lambda>err. ''restart after update failed; rollback watcher remains armed: '' @ err)
            (restartReachAgent env goos uid st) h2))"
    unfolding run [symmetric] swap_in_def Let_def log_def [symmetric] i prod.case
    by (cases q1; cases q2; simp only: sum.case prod.case w b snd_conv)
  show "ho_files h' ?A \<in> {Some old, Some new}"
    using res target(1) files(1,2) h2 restored h4 [of ?A] ne(9) rem rs
    by (auto simp: on_error_def split: sum.splits)
  assume "r = Inr ()"
  with res have "q1 = Inr ()" "h' = h4" using rs by (auto simp: on_error_def split: sum.splits)
  then show "ho_files h' ?A = Some new \<and> ho_files h' ?B = Some old \<and> ho_files h' ?F \<noteq> None"
    using target(2) files h2 h4 keep1 [of ?B] keep1 [of ?F] ne by simp
qed

text \<open>
  From the host on which the candidate holds its content: what the agent's binary, the backup and
  the flag are afterwards.
\<close>

lemma install_candidate_files:
  assumes run: "install_candidate (restartReachAgent env goos uid) e st opt (candidate_path e opt) v h = (r, h')"
    and d: "distinct (update_paths e st opt)"
    and old: "ho_files h (is_AgentPath st) = Some old" and cand: "ho_files h (candidate_path e opt) = Some new"
  shows "ho_files h' (is_AgentPath st) \<in> {Some old, Some new}"
    and "r = Inr () \<Longrightarrow> ho_files h' (is_AgentPath st) = Some new \<and>
           ho_files h' (backup_path (ue_id e) st) = Some old \<and> ho_files h' (confirm_flag st) \<noteq> None"
proof -
  let ?A = "is_AgentPath st" let ?B = "backup_path (ue_id e) st" let ?F = "confirm_flag st"
  let ?C = "candidate_path e opt"
  have ne: "?A \<noteq> ?B" "?A \<noteq> ?F" "?B \<noteq> ?F" "?B \<noteq> ?C" "?F \<noteq> ?C" using d by (auto simp: update_paths_def)
  define body where "body = ''backup='' @ ?B @ [nl] @ ''installed_at='' @ ue_now e @ [nl] @ ''candidate_version='' @ v @ [nl]"
  define m where "m = lift_host (os_call [''MkdirAll'', path_join [is_DataDir st, ''update-backups'']] id)"
  define c where "c = on_error (\<lambda>err. ''backup current binary: '' @ err) (copyFile ?A ?B)"
  define f where "f = on_error (\<lambda>err. ''write confirmation flag: '' @ err) (lift_host (write_file ?F body))"
  define s where "s = swap_in (restartReachAgent env goos uid) e st opt ?C"
  have run': "hbind m (\<lambda>_. hbind c (\<lambda>_. hbind f (\<lambda>_. s))) h = (r, h')"
    using run by (simp add: install_candidate_def Let_def m_def c_def f_def s_def body_def)
  have fm: "only_files (\<lambda>_. False) m" unfolding m_def by (intro file_frames) simp
  have fc: "only_files (\<lambda>x. x = ?B) c" unfolding c_def by (intro file_frames) simp
  have ff: "only_files (\<lambda>x. x = ?F) f" unfolding f_def by (intro file_frames) simp
  have main: "ho_files h' ?A \<in> {Some old, Some new} \<and> (r = Inr () \<longrightarrow> ho_files h' ?A = Some new \<and>
           ho_files h' ?B = Some old \<and> ho_files h' ?F \<noteq> None)"
  using run'
  proof (cases rule: hbind_cases)
    case (fails er)
    then show ?thesis using only_filesD [OF fm fails(1), of ?A] old by simp
  next
    case (goes a1 h1)
    have 1: "ho_files h1 x = ho_files h x" for x using only_filesD [OF fm goes(1)] by simp
    from goes(2) show ?thesis
    proof (cases rule: hbind_cases)
      case (fails er)
      then show ?thesis using only_filesD [OF fc fails(1), of ?A] old 1 ne by simp
    next
      case (goes a2 h2)
      have 2: "ho_files h2 x = ho_files h x" if "x \<noteq> ?B" for x using only_filesD [OF fc goes(1)] 1 that by simp
      have backup: "ho_files h2 ?B = Some old"
        using copy_Inr [OF goes(1) [unfolded c_def on_error_Inr]] 1 old by auto
      from goes(2) show ?thesis
      proof (cases rule: hbind_cases)
        case (fails er)
        then show ?thesis using only_filesD [OF ff fails(1), of ?A] old 2 ne by simp
      next
        case (goes a3 h3)
        have 3: "ho_files h3 = (ho_files h2)(?F \<mapsto> body)"
          using goes(1) unfolding f_def on_error_Inr lift_host_Inr by (rule write_file_ok)
        have "ho_files h3 ?A = Some old" "ho_files h3 ?C = Some new" "ho_files h3 ?B = Some old" "ho_files h3 ?F \<noteq> None"
          using 2 backup 3 old cand ne by auto
        from swap_in_files [OF goes(2) [unfolded s_def] d this] show ?thesis by simp
      qed
    qed
  qed
  show "ho_files h' ?A \<in> {Some old, Some new}" using main by simp
  show "ho_files h' ?A = Some new \<and> ho_files h' ?B = Some old \<and> ho_files h' ?F \<noteq> None" if "r = Inr ()"
    using main that by simp
qed

end
