(* ===== verification/UpdateWp.thy ===== *)
theory UpdateWp
  imports UpdateInstall
begin

text \<open>
  What an update does on a host on which every system call and command succeeds: \<open>wp f P fs\<close> says
  that \<open>f\<close>, started on such a host with the files \<open>fs\<close>, returns a value and leaves files for which
  \<open>P\<close> holds. One rule per operation, from the last step of a routine backwards.
\<close>

definition calm :: "host \<Rightarrow> bool" where
  "calm h \<longleftrightarrow> (\<forall>log a. fst (ho_answer h log a))"

definition wp :: "'a hosted \<Rightarrow> ('a \<Rightarrow> (string \<rightharpoonup> string) \<Rightarrow> bool) \<Rightarrow> (string \<rightharpoonup> string) \<Rightarrow> bool" where
  "wp f P fs \<longleftrightarrow> (\<forall>h. calm h \<longrightarrow> ho_files h = fs \<longrightarrow> (\<exists>a k. f h = (Inr a, k) \<and> calm k \<and> P a (ho_files k)))"

named_theorems wp_rules \<open>weakest preconditions of the host operations\<close>

lemma wpI: "(\<And>h. calm h \<Longrightarrow> ho_files h = fs \<Longrightarrow> \<exists>a k. f h = (Inr a, k) \<and> calm k \<and> P a (ho_files k)) \<Longrightarrow> wp f P fs"
  by (simp add: wp_def)

lemma wpE:
  assumes "wp f P fs" "calm h" "ho_files h = fs"
  obtains a k where "f h = (Inr a, k)" "calm k" "P a (ho_files k)"
  using assms unfolding wp_def by blast

lemma calm_do: "calm h \<Longrightarrow> \<exists>out k. host_do a h = ((True, out), k) \<and> calm k \<and> ho_files k = ho_files h"
  unfolding calm_def host_do_def by (cases "ho_answer h (ho_log h) a") (auto, metis fst_conv)

lemma calm_call: "calm h \<Longrightarrow> \<exists>k. os_call a f h = (None, f k) \<and> calm k \<and> ho_files k = ho_files h"
  using calm_do [of h a] by (auto simp: os_call_def)

lemma calm_files [simp]: "calm (h\<lparr>ho_files := fs\<rparr>) = calm h"
  by (simp add: calm_def)

lemma wp_bind [wp_rules]: "wp f (\<lambda>a. wp (g a) P) fs \<Longrightarrow> wp (hbind f g) P fs"
  unfolding wp_def hbind_def by fastforce

lemma wp_call:
  assumes "\<And>h. calm (g h) = calm h" and "\<And>h. ho_files (g h) = G (ho_files h)" and "P () (G fs)"
  shows "wp (lift_host (os_call a g)) P fs"
proof (rule wpI)
  fix h assume h: "calm h" "ho_files h = fs"
  obtain k where k: "os_call a g h = (None, g k)" "calm k" "ho_files k = fs"
    using calm_call [OF h(1), of a g] h(2) by metis
  then show "\<exists>u k. lift_host (os_call a g) h = (Inr u, k) \<and> calm k \<and> P u (ho_files k)"
    using assms by (simp add: lift_host_def)
qed

lemma wp_id [wp_rules]: "P () fs \<Longrightarrow> wp (lift_host (os_call a id)) P fs"
  by (rule wp_call [where G = "\<lambda>fs. fs"]) simp_all

lemma wp_put [wp_rules]:
  "P () (fs(p \<mapsto> c)) \<Longrightarrow> wp (lift_host (os_call a (\<lambda>h. h\<lparr>ho_files := (ho_files h)(p \<mapsto> c)\<rparr>))) P fs"
  by (rule wp_call [where G = "\<lambda>fs. fs(p \<mapsto> c)"]) simp_all

lemma wp_write [wp_rules]: "P () (fs(p \<mapsto> c)) \<Longrightarrow> wp (lift_host (write_file p c)) P fs"
  unfolding write_file_def by (rule wp_put)

lemma wp_rename [wp_rules]: "P () (fs(d := fs s, s := None)) \<Longrightarrow> wp (lift_host (rename_file s d)) P fs"
  unfolding rename_file_def by (rule wp_call [where G = "\<lambda>fs. fs(d := fs s, s := None)"]) simp_all

lemma wp_read: "fs p = Some c \<Longrightarrow> P c fs \<Longrightarrow> wp (read_file p) P fs"
  by (auto simp: wp_def read_file_def)

lemma wp_ret [wp_rules]: "P a fs \<Longrightarrow> wp (hret a) P fs"
  by (simp add: wp_def hret_def)

lemma wp_on_error [wp_rules]: "wp f P fs \<Longrightarrow> wp (on_error g f) P fs"
  unfolding wp_def on_error_def by fastforce

lemma wp_copy: "fs src = Some c \<Longrightarrow> P () (fs(dst \<mapsto> c)) \<Longrightarrow> wp (copyFile src dst) P fs"
  unfolding copyFile_def by (intro wp_rules wp_read [where c = c]) (simp_all add: fun_upd_upd)

lemma wp_install:
  assumes "fs src = Some c" and "fs dst \<noteq> None" and "install_temp fresh dst \<noteq> src" and "install_temp fresh dst \<noteq> dst"
    and post: "P () (fs(dst \<mapsto> c, install_temp fresh dst := None))"
  shows "wp (atomicInstallBinary fresh src dst) P fs"
proof (rule wpI)
  fix h assume h: "calm h" "ho_files h = fs"
  let ?t = "install_temp fresh dst"
  have "wp (install_steps ?t src dst) (\<lambda>_ fs'. fs' = fs(dst \<mapsto> c, ?t := None)) fs"
    unfolding install_steps_def 
    by (intro wp_rules wp_read [where c = c]) (use assms(1,3,4) in \<open>auto simp: fun_eq_iff\<close>)
  from this h obtain u k where k: "install_steps ?t src dst h = (Inr u, k)" "calm k"
    "ho_files k = fs(dst \<mapsto> c, ?t := None)" by (rule wpE)
  have sync: "wp (lift_host (os_call [''SyncDir'', path_dir dst] id)) P (fs(dst \<mapsto> c, ?t := None))"
    using post by (rule wp_id)
  obtain v m where m: "lift_host (os_call [''SyncDir'', path_dir dst] id) k = (Inr v, m)" "calm m"
    "P v (ho_files m)"
    using wpE [OF sync k(2,3)] by blast
  show "\<exists>a k. atomicInstallBinary fresh src dst h = (Inr a, k) \<and> calm k \<and> P a (ho_files k)"
    using h assms(2) k m by (simp add: atomicInstallBinary_def)
qed

lemma wp_download:
  assumes "ue_fetch e url = Inr (status, body)" and "status div 100 = 2" and "int (length body) \<le> n"
    and "P () (fs(path \<mapsto> body))"
  shows "wp (lift_host (downloadFile e url path n)) P fs"
proof -
  have t: "take (nat (n + 1)) body = body" using assms(3) by simp
  have "downloadFile e url path n h = (case write_file path body h of (Some err, h') \<Rightarrow> (Some err, h')
      | (None, h') \<Rightarrow> os_call [''Sync'', path] id h')" for h
    unfolding downloadFile_def assms(1) sum.case prod.case t using assms(2,3)
    by (simp split: prod.split option.split)
  then have "lift_host (downloadFile e url path n) =
      hbind (lift_host (write_file path body)) (\<lambda>_. lift_host (os_call [''Sync'', path] id))"
    by (auto simp: fun_eq_iff hbind_def lift_host_def split: prod.split option.split)
  then show ?thesis using assms(4) by (simp only:) (intro wp_rules)
qed

lemma wp_restart_with: "P () fs \<Longrightarrow> wp (restart_with program args f) P fs"
proof (rule wpI)
  fix h assume P: "P () fs" and h: "calm h" "ho_files h = fs"
  obtain o1 k1 where 1: "host_do [''LookPath'', program] h = ((True, o1), k1)" "calm k1" "ho_files k1 = fs"
    using calm_do [OF h(1)] h(2) by metis
  obtain o2 k2 where 2: "host_do (program # args) k1 = ((True, o2), k2)" "calm k2" "ho_files k2 = fs"
    using calm_do [OF 1(2)] 1(3) by metis
  show "\<exists>a k. restart_with program args f h = (Inr a, k) \<and> calm k \<and> P a (ho_files k)"
    using P 1 2 by (simp add: restart_with_def)
qed

lemma wp_restart [wp_rules]: "P () fs \<Longrightarrow> wp (restartReachAgent env goos uid st) P fs"
  unfolding restartReachAgent_def restartLaunchdAgent_def by (simp add: wp_restart_with)

lemma wp_watcher [wp_rules]: "P () fs \<Longrightarrow> wp (startRollbackWatcher st flag backup log after) P fs"
  unfolding startRollbackWatcher_def by (intro wp_rules)

lemma wp_preflight:
  "fs path = Some c \<Longrightarrow> ue_version e c = Inr out \<Longrightarrow> trim_space out = v \<Longrightarrow> v \<noteq> [] \<Longrightarrow> P v fs \<Longrightarrow>
   wp (preflightAgentBinary e path) P fs"
  by (auto simp: wp_def preflightAgentBinary_def hbind_def read_file_def)

subsection \<open>An honest release\<close>

text \<open>A release as the hub serves it: a signed manifest that lists what is downloaded.\<close>

definition honest_release :: "update_env \<Rightarrow> string list \<Rightarrow> string \<Rightarrow> string \<Rightarrow> string \<Rightarrow> string \<Rightarrow> bool" where
  "honest_release e keys base version asset content \<longleftrightarrow>
     (\<exists>m sig mf a out. ue_fetch e (base @ ''/manifest.json'') = Inr (200, m) \<and> length m \<le> 1048576 \<and>
        ue_fetch e (base @ ''/manifest.json.minisig'') = Inr (200, sig) \<and> length sig \<le> 16384 \<and>
        verifyReleaseManifestSignature e keys m sig = None \<and> parseReleaseManifest e m version asset = Inr (mf, a) \<and>
        ue_fetch e (base @ ''/'' @ asset) = Inr (200, content) \<and> int (length content) = ra_Size a \<and>
        ra_Size a \<le> 134217728 \<and> equal_fold (ue_sha256_hex e content) (ra_SHA256 a) \<and>
        ue_version e content = Inr out \<and> trim_space out = version)"

lemma update_file_names: "distinct (update_files e)"
  by (simp add: update_files_def manifest_path_def signature_path_def download_path_def)


lemma wp_manifest:
  assumes "ue_fetch e (base @ ''/manifest.json'') = Inr (200, m)" and "length m \<le> 1048576"
    and "ue_fetch e (base @ ''/manifest.json.minisig'') = Inr (200, sig)" and "length sig \<le> 16384"
    and "verifyReleaseManifestSignature e keys m sig = None" and "parseReleaseManifest e m version asset = Inr ma"
    and post: "P ma (\<lambda>f. if f = manifest_path e \<or> f = signature_path e then None else fs f)"
  shows "wp (downloadAndVerifyReleaseManifest e keys base version asset) P fs"
proof (rule wpI)
  fix h assume h: "calm h" "ho_files h = fs"
  have ne: "manifest_path e \<noteq> signature_path e" using update_file_names [of e] by (simp add: update_files_def)
  let ?fs = "fs(manifest_path e \<mapsto> m, signature_path e \<mapsto> sig)"
  have "wp (fetch_manifest e keys base version asset) (\<lambda>r fs'. r = ma \<and> fs' = ?fs) fs"
    unfolding fetch_manifest_def
    by (intro wp_bind wp_id wp_download [OF assms(1)] wp_download [OF assms(3)]
        wp_read [where c = m] wp_read [where c = sig])
      (use assms(2,4,5,6) ne in \<open>simp_all add: wp_def\<close>)
  from this h obtain k where k: "fetch_manifest e keys base version asset h = (Inr ma, k)" "calm k" "ho_files k = ?fs"
    by (rule wpE) simp
  let ?p = "\<lambda>f. f = manifest_path e \<or> f = signature_path e"
  have "ho_files (drop_files ?p k) = (\<lambda>f. if ?p f then None else fs f)"
    using k(3) by (auto simp: drop_files_def fun_eq_iff)
  moreover have "calm (drop_files ?p k)" using k(2) by (simp add: drop_files_def)
  ultimately show "\<exists>a k. downloadAndVerifyReleaseManifest e keys base version asset h = (Inr a, k) \<and> calm k \<and> P a (ho_files k)"
    using k(1) post by (simp add: downloadAndVerifyReleaseManifest_def)
qed

lemma wp_fetch:
  assumes honest: "honest_release e keys (base_url url version) version asset content"
    and post: "\<And>fs'. (\<And>x. x \<notin> set (update_files e) \<Longrightarrow> fs' x = fs x) \<Longrightarrow> fs' (download_path e) = Some content \<Longrightarrow>
                 P (download_path e) fs'"
  shows "wp (downloadAgentCandidate e keys url version asset) P fs"
proof (rule wpI)
  fix h assume h: "calm h" "ho_files h = fs"
  obtain m sig mf a out where r: "ue_fetch e (base_url url version @ ''/manifest.json'') = Inr (200, m)" "length m \<le> 1048576"
    "ue_fetch e (base_url url version @ ''/manifest.json.minisig'') = Inr (200, sig)" "length sig \<le> 16384"
    "verifyReleaseManifestSignature e keys m sig = None" "parseReleaseManifest e m version asset = Inr (mf, a)"
    and d: "ue_fetch e (base_url url version @ ''/'' @ asset) = Inr (200, content)" "int (length content) = ra_Size a"
    "ra_Size a \<le> 134217728" "equal_fold (ue_sha256_hex e content) (ra_SHA256 a)"
    using honest unfolding honest_release_def by blast
  have big: "int (length content) \<le> maxDownloadBytes (ra_Size a)" using d(2,3) by (simp add: maxDownloadBytes_def)
  have check: "wp (verifyFileSHA256 e (download_path e) (snd (mf, a))) Q fs'"
    if "fs' (download_path e) = Some content" "Q (ue_sha256_hex e content) fs'" for Q fs'
    using that d(2,4) by (auto simp: wp_def verifyFileSHA256_def)
  have "wp (fetch_candidate e keys url version asset) P fs"
    unfolding fetch_candidate_def
    by (intro wp_bind wp_id wp_manifest [OF r] wp_download [OF d(1)] wp_on_error check wp_ret post)
      (use big in \<open>auto simp: update_files_def\<close>)
  from this h obtain p k where "fetch_candidate e keys url version asset h = (Inr p, k)" "calm k" "P p (ho_files k)"
    by (rule wpE)
  then show "\<exists>a k. downloadAgentCandidate e keys url version asset h = (Inr a, k) \<and> calm k \<and> P a (ho_files k)"
    by (simp add: downloadAgentCandidate_def)
qed


lemma wp_swap_in:
  assumes d: "distinct (update_paths e st opt)"
    and files: "fs (is_AgentPath st) \<noteq> None" "fs (candidate_path e opt) = Some new"
    and post: "\<And>fs'. fs' (is_AgentPath st) = Some new \<Longrightarrow>
                 (\<And>x. x \<noteq> is_AgentPath st \<Longrightarrow> x \<noteq> install_temp (ue_fresh e) (is_AgentPath st) \<Longrightarrow> fs' x = fs x) \<Longrightarrow> P () fs'"
  shows "wp (swap_in (restartReachAgent env goos uid) e st opt (candidate_path e opt)) P fs"
proof (rule wpI)
  fix h assume h: "calm h" "ho_files h = fs"
  let ?A = "is_AgentPath st" let ?T = "install_temp (ue_fresh e) ?A"
  let ?fs = "fs(?A \<mapsto> new, ?T := None)"
  have ne: "?T \<noteq> ?A" "?T \<noteq> candidate_path e opt" using d by (auto simp: update_paths_def)
  have P: "P () ?fs" by (rule post) (use ne in auto)
  have i: "wp (atomicInstallBinary (ue_fresh e) (candidate_path e opt) ?A) (\<lambda>_ fs'. fs' = ?fs) fs"
    by (rule wp_install [OF files(2,1) ne(2,1)]) simp
  obtain k where k: "atomicInstallBinary (ue_fresh e) (candidate_path e opt) ?A h = (Inr (), k)" "calm k" "ho_files k = ?fs"
    using wpE [OF i h] by auto
  define log where "log = path_join [is_DataDir st, ''update-rollback-'' @ ue_id e @ ''.log'']"
  have w: "wp (startRollbackWatcher st (confirm_flag st) (backup_path (ue_id e) st) log (uo_RollbackAfter opt))
      (\<lambda>_ fs'. fs' = ?fs) ?fs" by (rule wp_watcher) simp
  obtain m where m: "startRollbackWatcher st (confirm_flag st) (backup_path (ue_id e) st) log (uo_RollbackAfter opt) k = (Inr (), m)"
    "calm m" "ho_files m = ?fs" using wpE [OF w k(2,3)] by auto
  define msg where "msg = (\<lambda>err. ''restart after update failed; rollback watcher remains armed: '' @ err)"
  have r: "wp (on_error msg (restartReachAgent env goos uid st)) P ?fs" by (intro wp_on_error wp_restart P)
  show "\<exists>a k. swap_in (restartReachAgent env goos uid) e st opt (candidate_path e opt) h = (Inr a, k) \<and> calm k \<and> P a (ho_files k)"
    using wpE [OF r m(2,3)]
    unfolding swap_in_def Let_def log_def [symmetric] k(1) m(1) prod.case sum.case msg_def [symmetric] by metis
qed

lemma wp_install_candidate:
  assumes d: "distinct (update_paths e st opt)"
    and files: "fs (is_AgentPath st) = Some old" "fs (candidate_path e opt) = Some new"
    and post: "\<And>fs'. fs' (is_AgentPath st) = Some new \<Longrightarrow> fs' (backup_path (ue_id e) st) = Some old \<Longrightarrow>
                 fs' (confirm_flag st) \<noteq> None \<Longrightarrow> P () fs'"
  shows "wp (install_candidate (restartReachAgent env goos uid) e st opt (candidate_path e opt) v) P fs"
proof -
  have ne: "is_AgentPath st \<noteq> backup_path (ue_id e) st" "is_AgentPath st \<noteq> confirm_flag st"
    "candidate_path e opt \<noteq> backup_path (ue_id e) st" "candidate_path e opt \<noteq> confirm_flag st"
    "backup_path (ue_id e) st \<noteq> confirm_flag st"
    "backup_path (ue_id e) st \<noteq> install_temp (ue_fresh e) (is_AgentPath st)"
    "confirm_flag st \<noteq> install_temp (ue_fresh e) (is_AgentPath st)"
    using d by (auto simp: update_paths_def)
  show ?thesis
    unfolding install_candidate_def Let_def
    by (intro wp_bind wp_id wp_on_error wp_copy [where c = old] wp_write wp_swap_in [OF d] post) (use files ne in auto)
qed

lemma wp_perform:
  assumes honest: "honest_release e keys (base_url (uo_APIURL opt) (uo_Version opt)) (uo_Version opt) asset content"
    and go: "ue_goos e = ''linux'' \<or> ue_goos e = ''darwin''" "is_InstallMode st = ''system'' \<longrightarrow> ue_root e"
      "uo_APIURL opt \<noteq> []" "uo_CandidatePath opt = []" "uo_Version opt \<noteq> []"
      "detectAgentAsset (ue_goos e) (ue_arch e) uname = Inr asset"
    and d: "distinct (update_paths e st opt)" "is_AgentPath st \<notin> set (update_files e)"
    and old: "fs (is_AgentPath st) = Some old"
  shows "wp (performBinaryUpdate (restartReachAgent env goos uid) e keys uname cfg_url st opt)
    (\<lambda>_ fs'. fs' (is_AgentPath st) = Some content \<and> fs' (backup_path (ue_id e) st) = Some old \<and> fs' (confirm_flag st) \<noteq> None) fs"
proof (rule wpI)
  fix h assume h: "calm h" "ho_files h = fs"
  have cp: "candidate_path e opt = download_path e" using go(4) by (simp add: candidate_path_def)
  obtain out where out: "ue_version e content = Inr out" "trim_space out = uo_Version opt"
    using honest unfolding honest_release_def by blast
  define msg where "msg v = ''candidate version mismatch: binary reports '' @ go_quote v @ '' but requested '' @ go_quote (uo_Version opt)" for v
  have ob: "wp (downloadAgentCandidate e keys (uo_APIURL opt) (uo_Version opt) asset)
      (\<lambda>c fs'. c = download_path e \<and> fs' c = Some content \<and> fs' (is_AgentPath st) = Some old) fs"
    by (rule wp_fetch [OF honest]) (use d(2) old in auto)
  obtain h1 where h1: "downloadAgentCandidate e keys (uo_APIURL opt) (uo_Version opt) asset h = (Inr (download_path e), h1)"
    "calm h1" "ho_files h1 (download_path e) = Some content" "ho_files h1 (is_AgentPath st) = Some old"
    using wpE [OF ob h] by metis
  let ?Q = "\<lambda>_ fs'. fs' (is_AgentPath st) = Some content \<and> fs' (backup_path (ue_id e) st) = Some old \<and> fs' (confirm_flag st) \<noteq> None"
  have rest: "wp (hbind (preflightAgentBinary e (download_path e)) (\<lambda>v.
                     if v \<noteq> uo_Version opt then hfail (msg v)
                     else install_candidate (restartReachAgent env goos uid) e st opt (download_path e) v)) ?Q (ho_files h1)"
    by (intro wp_bind wp_preflight [where c = content and out = out and v = "uo_Version opt"])
      (use h1(3) out go(5) wp_install_candidate [OF d(1) h1(4) h1(3) [folded cp], unfolded cp] in simp_all)
  obtain h2 where h2: "hbind (preflightAgentBinary e (download_path e)) (\<lambda>v.
                     if v \<noteq> uo_Version opt then hfail (msg v)
                     else install_candidate (restartReachAgent env goos uid) e st opt (download_path e) v) h1 = (Inr (), h2)"
    "calm h2" "?Q () (ho_files h2)" by (rule wpE [OF rest h1(2) refl]) auto
  have ne: "is_AgentPath st \<noteq> download_path e" "backup_path (ue_id e) st \<noteq> download_path e" "confirm_flag st \<noteq> download_path e"
    using d(1) by (auto simp: update_paths_def cp)
  have run: "performBinaryUpdate (restartReachAgent env goos uid) e keys uname cfg_url st opt h =
      (Inr (), drop_files (\<lambda>f. f = download_path e) h2)"
    unfolding performBinaryUpdate_def Let_def obtain_candidate_def msg_def [symmetric]
    using go h1(1) h2(1) by auto
  have "calm (drop_files (\<lambda>f. f = download_path e) h2)" using h2(2) by (simp add: drop_files_def)
  then show "\<exists>a k. performBinaryUpdate (restartReachAgent env goos uid) e keys uname cfg_url st opt h = (Inr a, k) \<and>
      calm k \<and> ?Q a (ho_files k)"
    using run h2(3) ne by (simp add: drop_files_def)
qed

end
