(* ===== verification/UpdateProps.thy ===== *)
theory UpdateProps
  imports UpdateWp
begin

text \<open>Properties of the agent's update of its own binary.\<close>

subsection \<open>The whole update\<close>

lemma preflight_Inr:
  "preflightAgentBinary e path h = (Inr v, h') \<Longrightarrow>
   \<exists>c out. ho_files h path = Some c \<and> ue_version e c = Inr out \<and> trim_space out = v \<and> h' = h"
  unfolding preflightAgentBinary_def by (elim hbindE) (auto simp: read_file_Inr split: sum.splits if_splits)

lemma only_preflight [file_frames]: "only_files p (preflightAgentBinary e path)"
  unfolding preflightAgentBinary_def
  by (intro file_frames) (auto simp: only_files_def split: sum.split)

lemma early_exit:
  assumes "(if b then (Inl x, h) else y) = (r, h')"
  obtains "r = Inl x \<and> h' = h" | "y = (r, h')"
  using assms by (cases b) auto

text \<open>An update ends before it has a candidate, or continues with a checked one.\<close>

lemma perform_cases:
  assumes "performBinaryUpdate restart e keys uname cfg_url st opt h = (r, h')"
  obtains (early) er where "r = Inl er" "h' = h"
  | (none) api asset er where "r = Inl er" "obtain_candidate e keys api opt asset h = (Inl er, h')"
  | (tried) api asset h1 h2 where "detectAgentAsset (ue_goos e) (ue_arch e) uname = Inr asset"
      "obtain_candidate e keys api opt asset h = (Inr (candidate_path e opt), h1)"
      "hbind (preflightAgentBinary e (candidate_path e opt)) (\<lambda>v.
         if v \<noteq> uo_Version opt then
           hfail (''candidate version mismatch: binary reports '' @ go_quote v @ '' but requested '' @ go_quote (uo_Version opt))
         else install_candidate restart e st opt (candidate_path e opt) v) h1 = (r, h2)"
      "h' = (if uo_CandidatePath opt = [] then drop_files (\<lambda>f. f = candidate_path e opt) h2 else h2)"
proof -
  define try_it where "try_it = (\<lambda>c. hbind (preflightAgentBinary e c) (\<lambda>v.
         if v \<noteq> uo_Version opt then
           hfail (''candidate version mismatch: binary reports '' @ go_quote v @ '' but requested '' @ go_quote (uo_Version opt))
         else install_candidate restart e st opt c v))"
  define api where "api = (if uo_APIURL opt \<noteq> [] then uo_APIURL opt else case cfg_url of None \<Rightarrow> [] | Some u \<Rightarrow> u)"
  have "(\<exists>er. r = Inl er \<and> h' = h) \<or> (\<exists>asset. detectAgentAsset (ue_goos e) (ue_arch e) uname = Inr asset \<and>
     (r, h') = (case obtain_candidate e keys api opt asset h of
               (Inl err, h1) \<Rightarrow> (Inl err, h1)
             | (Inr c, h1) \<Rightarrow> (case try_it c h1 of (r, h2) \<Rightarrow>
                 (r, if uo_CandidatePath opt = [] then drop_files (\<lambda>f. f = c) h2 else h2))))"
    using assms unfolding performBinaryUpdate_def Let_def api_def [symmetric] try_it_def
    by (elim early_exit; cases "detectAgentAsset (ue_goos e) (ue_arch e) uname"; simp only: sum.case; fastforce)
  then consider er where "r = Inl er" "h' = h" | asset where "detectAgentAsset (ue_goos e) (ue_arch e) uname = Inr asset"
     "(r, h') = (case obtain_candidate e keys api opt asset h of
               (Inl err, h1) \<Rightarrow> (Inl err, h1)
             | (Inr c, h1) \<Rightarrow> (case try_it c h1 of (r, h2) \<Rightarrow>
                 (r, if uo_CandidatePath opt = [] then drop_files (\<lambda>f. f = c) h2 else h2)))" by blast
  then show thesis
  proof cases
    case 1 then show thesis by (rule early)
  next
    case (2 asset)
    obtain q h1 where q: "obtain_candidate e keys api opt asset h = (q, h1)"
      by (cases "obtain_candidate e keys api opt asset h")
    show thesis
    proof (cases q)
      case (Inl er)
      with 2(2) q have "r = Inl er" "h' = h1" by simp_all
      with q Inl show thesis by (intro none) simp_all
    next
      case (Inr c)
      then have c: "c = candidate_path e opt" using obtain_Inr q by blast
      obtain p h2 where t: "try_it c h1 = (p, h2)" by (cases "try_it c h1")
      have "r = p" "h' = (if uo_CandidatePath opt = [] then drop_files (\<lambda>f. f = c) h2 else h2)"
        using 2(2) q Inr t by simp_all
      then show thesis using tried [OF 2(1)] q Inr t c unfolding try_it_def by blast
    qed
  qed
qed

lemma perform_effect:
  assumes run: "performBinaryUpdate (restartReachAgent env (ue_goos e) uid) e keys uname cfg_url st opt h = (r, h')"
    and d: "distinct (update_paths e st opt)" and apart: "is_AgentPath st \<notin> set (update_files e)"
    and old: "ho_files h (is_AgentPath st) = Some old"
  shows "ho_files h' (is_AgentPath st) = Some old \<and> r \<noteq> Inr () \<or>
    (\<exists>asset new out. detectAgentAsset (ue_goos e) (ue_arch e) uname = Inr asset \<and>
       verified e keys (uo_Version opt) asset new \<and> ue_version e new = Inr out \<and> trim_space out = uo_Version opt \<and>
       ho_files h' (is_AgentPath st) \<in> {Some old, Some new} \<and>
       (r = Inr () \<longrightarrow> ho_files h' (is_AgentPath st) = Some new \<and>
          ho_files h' (backup_path (ue_id e) st) = Some old \<and> ho_files h' (confirm_flag st) \<noteq> None))"
    (is "?kept \<or> ?changed")
  using run
proof (cases rule: perform_cases)
  case (early er) then show ?thesis using old by simp
next
  case (none api asset er)
  have "ho_files h' (is_AgentPath st) = ho_files h (is_AgentPath st)"
    by (rule only_filesD [OF only_obtain [where p = "\<lambda>x. x \<in> set (update_files e)"] none(2)]) (use apart in auto)
  then show ?thesis using none(1) old by simp
next
  case (tried api asset h1 h2)
  let ?A = "is_AgentPath st" let ?C = "candidate_path e opt"
  have A1: "ho_files h1 ?A = Some old"
    using only_filesD [OF only_obtain [where p = "\<lambda>x. x \<in> set (update_files e)"] tried(2), of ?A] apart old by simp
  obtain new where new: "ho_files h1 ?C = Some new" "verified e keys (uo_Version opt) asset new"
    using obtain_Inr [OF tried(2)] by blast
  have ne: "?A \<noteq> ?C" "backup_path (ue_id e) st \<noteq> ?C" "confirm_flag st \<noteq> ?C" using d by (auto simp: update_paths_def)
  have h': "ho_files h' x = ho_files h2 x" if "x \<noteq> ?C" for x
    using tried(4) that by (cases "uo_CandidatePath opt = []") (simp_all add: drop_files_def)
  from tried(3) show ?thesis
  proof (cases rule: hbind_cases)
    case (fails er)
    have "ho_files h2 ?A = ho_files h1 ?A"
      using only_filesD [OF only_preflight [where p = "\<lambda>_. False"] fails(1)] by simp
    then show ?thesis using fails(2) A1 h' [OF ne(1)] by simp
  next
    case (goes v k)
    obtain out where out: "ue_version e new = Inr out" "trim_space out = v" and k: "k = h1"
      using preflight_Inr [OF goes(1)] new(1) by auto
    show ?thesis
    proof (cases "v = uo_Version opt")
      case False
      with goes(2) have "h2 = h1" "r \<noteq> Inr ()" by (auto simp: hfail_def k)
      then show ?thesis using A1 h' [OF ne(1)] by simp
    next
      case True
      with goes(2) have run2: "install_candidate (restartReachAgent env (ue_goos e) uid) e st opt ?C v h1 = (r, h2)"
        by (simp add: k)
      note files = install_candidate_files [OF run2 d A1 new(1)]
      have ?changed
        using tried(1) new(2) out True files h' [OF ne(1)] h' [OF ne(2)] h' [OF ne(3)] by auto
      then show ?thesis ..
    qed
  qed
qed

text \<open>C22: The agent's binary is never replaced by anything but a binary that a release manifest, signed
  with one of the keys, lists for this machine's platform under the requested version, whose size
  and hash are the listed ones and which itself reports that version. Every other outcome, and
  every failure of a step, leaves the old binary in place.\<close>

theorem update_installs_verified:
  assumes "performBinaryUpdate (restartReachAgent env (ue_goos e) uid) e keys uname cfg_url st opt h = (r, h')"
    and "distinct (update_paths e st opt)" and "is_AgentPath st \<notin> set (update_files e)"
    and "ho_files h (is_AgentPath st) = Some old" and "ho_files h' (is_AgentPath st) \<noteq> Some old"
  shows "\<exists>asset new out. detectAgentAsset (ue_goos e) (ue_arch e) uname = Inr asset \<and>
    ho_files h' (is_AgentPath st) = Some new \<and> verified e keys (uo_Version opt) asset new \<and>
    ue_version e new = Inr out \<and> trim_space out = uo_Version opt"
  using perform_effect [OF assms(1-4)] assms(5) by auto

text \<open>A host on which everything succeeds, and an update on it.\<close>

definition example_asset :: releaseAsset where
  "example_asset = \<lparr>ra_SHA256 = replicate 64 CHR ''a'', ra_Size = 3\<rparr>"

definition example_release :: "string \<Rightarrow> string \<Rightarrow> update_env" where
  "example_release v stamp = \<lparr>ue_fetch = (\<lambda>_. Inr (200, ''new'')), ue_verify = (\<lambda>_ _ _. True), ue_key_error = (\<lambda>_. None),
     ue_decode = (\<lambda>_. Inr \<lparr>rm_Schema = 1, rm_Project = ''reach-agent'', rm_Version = v, rm_CreatedAt = [],
                          rm_Assets = [''reach-agent_linux_amd64'' \<mapsto> example_asset]\<rparr>),
     ue_sha256_hex = (\<lambda>_. replicate 64 CHR ''a''), ue_version = (\<lambda>_. Inr v), ue_fresh = ''1'', ue_id = stamp, ue_now = stamp,
     ue_root = False, ue_goos = ''linux'', ue_arch = ''amd64''\<rparr>"

definition example_install :: reachInstallState where
  "example_install = \<lparr>is_EnvPath = ''/e'', is_AgentPath = ''/b/agent'', is_DataDir = ''/d'', is_InstallMode = ''user'',
     is_ConfigPath = ''/c'', is_PIDFile = ''/d/pid'', is_LogPath = ''/d/log''\<rparr>"

definition example_machine :: host where
  "example_machine = \<lparr>ho_files = [''/b/agent'' \<mapsto> ''old''], ho_log = [], ho_answer = (\<lambda>_ _. (True, [])),
     ho_listening = (\<lambda>_. False), ho_json = (\<lambda>_. None)\<rparr>"

definition example_options :: "string \<Rightarrow> update_options" where
  "example_options v = \<lparr>uo_Version = v, uo_APIURL = ''u'', uo_CandidatePath = [], uo_RollbackAfter = ''5m''\<rparr>"

definition example_restart :: "reachInstallState \<Rightarrow> unit hosted" where
  "example_restart = restartReachAgent \<lparr>ae_config = [], ae_home = [], ae_root = False, ae_cwd = ''/'', ae_is_file = (\<lambda>_. False)\<rparr> ''linux'' ''1''"

definition example_update :: "string \<Rightarrow> string \<Rightarrow> host \<Rightarrow> (string + unit) \<times> host" where
  "example_update v stamp =
     performBinaryUpdate example_restart (example_release v stamp) releaseManifestPublicKeys None None example_install (example_options v)"

lemma example_restart_eq:
  "example_restart = restartReachAgent \<lparr>ae_config = [], ae_home = [], ae_root = False, ae_cwd = ''/'', ae_is_file = (\<lambda>_. False)\<rparr>
     (ue_goos (example_release v stamp)) ''1''"
  by (simp add: example_restart_def example_release_def)

lemma example_paths: "is_AgentPath example_install = ''/b/agent''" "confirm_flag example_install = ''/d/update-confirm-required''"
  "backup_path ''S'' example_install = ''/d/update-backups/reach-agent.backup.S''"
  "backup_path ''T'' example_install = ''/d/update-backups/reach-agent.backup.T''"
  by code_simp+

lemma example_distinct:
  "distinct (update_paths (example_release v ''S'') example_install (example_options v))"
  "distinct (update_paths (example_release v ''T'') example_install (example_options v))"
  "is_AgentPath example_install \<notin> set (update_files (example_release v stamp))"
  by (simp_all add: example_release_def example_options_def update_paths_def candidate_path_def install_temp_def
      update_files_def manifest_path_def signature_path_def download_path_def example_install_def) code_simp+

lemma example_honest:
  assumes "v = ''2'' \<or> v = ''3''"
  shows "honest_release (example_release v stamp) releaseManifestPublicKeys url v ''reach-agent_linux_amd64'' ''new''"
proof -
  have t: "trim_space v = v" using assms by (elim disjE; simp only:; code_simp)
  have k: "map (\<lambda>k. trim_space k = []) releaseManifestPublicKeys = [False]" by code_simp
  have ver: "verifyReleaseManifestSignature (example_release v stamp) releaseManifestPublicKeys ''new'' ''new'' = None"
  proof -
    obtain z where z: "releaseManifestPublicKeys = [z]" "trim_space z \<noteq> []" using k by auto
    have "ue_key_error (example_release v stamp) = (\<lambda>_. None)" "ue_verify (example_release v stamp) = (\<lambda>_ _ _. True)"
      by (simp_all add: example_release_def)
    then show ?thesis unfolding verifyReleaseManifestSignature_def z(1) using z(2) by (simp add: Let_def)
  qed
  have ok: "validateReleaseAsset ''reach-agent_linux_amd64'' example_asset = None"
    "equal_fold (replicate 64 CHR ''a'') (ra_SHA256 example_asset)" "ra_Size example_asset = 3" by code_simp+
  obtain mf where mf: "parseReleaseManifest (example_release v stamp) ''new'' v ''reach-agent_linux_amd64'' = Inr (mf, example_asset)"
    using ok(1) by (simp add: parseReleaseManifest_def example_release_def releaseManifestProject_def)
  have e: "ue_fetch (example_release v stamp) = (\<lambda>_. Inr (200, ''new''))" "ue_version (example_release v stamp) ''new'' = Inr v"
    "ue_sha256_hex (example_release v stamp) = (\<lambda>_. replicate 64 CHR ''a'')"
    by (simp_all add: example_release_def)
  show ?thesis unfolding honest_release_def e
    by (intro exI [of _ "''new''"] exI [of _ mf] exI [of _ example_asset] exI [of _ v])
      (use t ver ok(2,3) mf e(2) in simp)
qed


text \<open>On a machine on which every system call succeeds, a release as the hub serves it is
  installed: the update returns without error, the agent's file holds the downloaded binary, the
  backup the old one, and the flag that asks for a confirmation is set.\<close>

theorem honest_release_installed:
  assumes "honest_release e keys (base_url (uo_APIURL opt) (uo_Version opt)) (uo_Version opt) asset content"
    and "ue_goos e = ''linux'' \<or> ue_goos e = ''darwin''" and "is_InstallMode st = ''system'' \<longrightarrow> ue_root e"
    and "uo_APIURL opt \<noteq> []" "uo_CandidatePath opt = []" "uo_Version opt \<noteq> []"
    and "detectAgentAsset (ue_goos e) (ue_arch e) uname = Inr asset"
    and "distinct (update_paths e st opt)" "is_AgentPath st \<notin> set (update_files e)"
    and "ho_files h (is_AgentPath st) = Some old" and "calm h"
  shows "\<exists>h'. performBinaryUpdate (restartReachAgent env (ue_goos e) uid) e keys uname cfg_url st opt h = (Inr (), h') \<and>
    ho_files h' (is_AgentPath st) = Some content \<and> ho_files h' (backup_path (ue_id e) st) = Some old \<and>
    ho_files h' (confirm_flag st) \<noteq> None"
proof -
  have "wp (performBinaryUpdate (restartReachAgent env (ue_goos e) uid) e keys uname cfg_url st opt)
      (\<lambda>_ fs'. fs' (is_AgentPath st) = Some content \<and> fs' (backup_path (ue_id e) st) = Some old \<and>
        fs' (confirm_flag st) \<noteq> None) (ho_files h)" by (rule wp_perform [OF assms(1-9)]) (rule assms(10))
  from this assms(11) refl show ?thesis by (rule wpE) auto
qed

theorem honest_release_installed_witness:
  "\<exists>h'. example_update ''2'' ''T'' example_machine = (Inr (), h') \<and> ho_files h' ''/b/agent'' = Some ''new''"
proof -
  have asset: "detectAgentAsset (ue_goos (example_release ''2'' ''T'')) (ue_arch (example_release ''2'' ''T'')) None
      = Inr ''reach-agent_linux_amd64''" by code_simp
  have c: "calm example_machine" by (simp add: calm_def example_machine_def)
  have sys: "is_InstallMode example_install = ''system'' \<longrightarrow> ue_root (example_release ''2'' ''T'')" by (simp add: example_install_def)
  have opt: "uo_APIURL (example_options ''2'') \<noteq> []" "uo_CandidatePath (example_options ''2'') = []"
    "uo_Version (example_options ''2'') \<noteq> []" "uo_Version (example_options ''2'') = ''2''" by (simp_all add: example_options_def)
  have os: "ue_goos (example_release ''2'' ''T'') = ''linux'' \<or> ue_goos (example_release ''2'' ''T'') = ''darwin''"
    by (simp add: example_release_def)
  have hon: "honest_release (example_release ''2'' ''T'') releaseManifestPublicKeys
      (base_url (uo_APIURL (example_options ''2'')) (uo_Version (example_options ''2''))) (uo_Version (example_options ''2''))
      ''reach-agent_linux_amd64'' ''new''"
    unfolding opt(4) by (rule example_honest) simp
  have old: "ho_files example_machine (is_AgentPath example_install) = Some ''old''" by code_simp
  from honest_release_installed [OF hon os sys opt(1-3) asset example_distinct(2,3) old c]
  show ?thesis unfolding example_update_def example_restart_eq [of "''2''" "''T''"] example_paths by blast
qed

text \<open>The same update in facts for the other examples.\<close>

lemma example_update_files:
  assumes v: "v = ''2'' \<or> v = ''3''" and s: "stamp = ''S'' \<or> stamp = ''T''"
    and h: "calm h" "ho_files h (is_AgentPath example_install) = Some old"
  obtains h' where "example_update v stamp h = (Inr (), h')" "calm h'"
    "ho_files h' (is_AgentPath example_install) = Some ''new''"
    "ho_files h' (backup_path stamp example_install) = Some old" "ho_files h' (confirm_flag example_install) \<noteq> None"
proof -
  let ?e = "example_release v stamp"
  have id: "ue_id ?e = stamp" by (simp add: example_release_def)
  have asset: "detectAgentAsset (ue_goos ?e) (ue_arch ?e) None = Inr ''reach-agent_linux_amd64''"
    unfolding example_release_def update_env.simps by code_simp
  have sys: "is_InstallMode example_install = ''system'' \<longrightarrow> ue_root ?e" by (simp add: example_install_def)
  have opt: "uo_APIURL (example_options v) \<noteq> []" "uo_CandidatePath (example_options v) = []"
    "uo_Version (example_options v) \<noteq> []" "uo_Version (example_options v) = v" using v by (auto simp: example_options_def)
  have os: "ue_goos ?e = ''linux'' \<or> ue_goos ?e = ''darwin''" by (simp add: example_release_def)
  have hon: "honest_release ?e releaseManifestPublicKeys
      (base_url (uo_APIURL (example_options v)) (uo_Version (example_options v))) (uo_Version (example_options v))
      ''reach-agent_linux_amd64'' ''new''"
    unfolding opt(4) by (rule example_honest [OF v])
  have d: "distinct (update_paths ?e example_install (example_options v))" using s example_distinct(1,2) by (elim disjE) simp_all
  have "wp (example_update v stamp)
      (\<lambda>_ fs'. fs' (is_AgentPath example_install) = Some ''new'' \<and> fs' (backup_path (ue_id ?e) example_install) = Some old \<and>
        fs' (confirm_flag example_install) \<noteq> None) (ho_files h)"
    unfolding example_update_def [abs_def] example_restart_eq [of v stamp]
    by (rule wp_perform [OF hon os sys opt(1-3) asset d example_distinct(3)]) (rule h(2))
  from this h(1) refl show thesis by (rule wpE) (use that id in auto)
qed


lemma confirm_done:
  "confirmUpdate st h = (Inr (), h') \<Longrightarrow> ho_files h' (confirm_flag st) = None \<and> only_files (\<lambda>x. x = confirm_flag st) (confirmUpdate st)"
proof -
  assume c: "confirmUpdate st h = (Inr (), h')"
  have "ho_files h' (confirm_flag st) = None"
    using c by (auto simp: confirmUpdate_def lift_host_Inr unlink_file_def split: if_splits dest!: os_call_ok)
  moreover have "only_files (\<lambda>x. x = confirm_flag st) (lift_host (unlink_file (confirm_flag st)))" by (intro file_frames) simp
  then have "only_files (\<lambda>x. x = confirm_flag st) (confirmUpdate st)"
    by (simp add: only_files_def confirmUpdate_def)
  ultimately show ?thesis by simp
qed


lemma watcher_restores:
  assumes run: "rollback_watcher_fires (restartReachAgent env goos uid) fresh flag backup st h = (Inr (), h')"
    and flag: "ho_files h flag \<noteq> None" "ho_files h backup = Some old"
    and d: "distinct [is_AgentPath st, backup, flag, install_temp fresh (is_AgentPath st), path_join [is_DataDir st, ''reach-agent.pid'']]"
  shows "ho_files h' (is_AgentPath st) = Some old"
proof -
  let ?A = "is_AgentPath st" let ?T = "install_temp fresh ?A"
  define st' where "st' = st\<lparr>is_PIDFile := path_join [is_DataDir st, ''reach-agent.pid''], is_LogPath := path_join [is_DataDir st, ''agent.log'']\<rparr>"
  define msg where "msg = (\<lambda>e. ''rollback restored binary but restart failed: '' @ e)"
  from run flag obtain u k where
    i: "restoreBinary fresh backup ?A h = (Inr u, k)"
    and r: "restartReachAgent env goos uid st' (silently (unlink_file flag) k) = (Inr (), h')"
    unfolding rollback_watcher_fires_def st'_def [symmetric] msg_def [symmetric]
    by (auto simp: hbind_Inr on_error_Inr split: if_splits)
  have k: "ho_files k ?A = Some old"
    using install_target(2) [OF i [unfolded restoreBinary_def]] d flag(2) by auto
  have s: "ho_files (silently (unlink_file flag) k) ?A = ho_files k ?A"
    by (rule silently_files [where p = "\<lambda>x. x = flag"]) (use d in \<open>auto intro: only_remove\<close>)
  have "pid_file st' = path_join [is_DataDir st, ''reach-agent.pid'']" by (simp add: pid_file_def or_else_def st'_def)
  then have "ho_files h' ?A = ho_files (silently (unlink_file flag) k) ?A"
    by (intro only_filesD [OF only_restart [where p = "\<lambda>x. x = pid_file st'"] r]) (use d in auto)
  with k s show ?thesis by simp
qed

theorem update_installs_verified_witness:
  "\<exists>h' new. example_update ''2'' ''T'' example_machine = (Inr (), h') \<and> ho_files h' ''/b/agent'' = Some new \<and> new \<noteq> ''old'' \<and>
     verified (example_release ''2'' ''T'') releaseManifestPublicKeys ''2'' ''reach-agent_linux_amd64'' new"
proof -
  let ?e = "example_release ''2'' ''T''"
  have c: "calm example_machine" by (simp add: calm_def example_machine_def)
  have old: "ho_files example_machine (is_AgentPath example_install) = Some ''old''" by code_simp
  obtain h' where h': "example_update ''2'' ''T'' example_machine = (Inr (), h')" "ho_files h' (is_AgentPath example_install) = Some ''new''"
    by (rule example_update_files [of "''2''" "''T''", OF _ _ c old]) simp_all
  have changed: "ho_files h' (is_AgentPath example_install) \<noteq> Some ''old''" using h'(2) by simp
  have asset: "detectAgentAsset (ue_goos ?e) (ue_arch ?e) None = Inr ''reach-agent_linux_amd64''" by code_simp
  have version: "uo_Version (example_options ''2'') = ''2''" by (simp add: example_options_def)
  have "verified ?e releaseManifestPublicKeys ''2'' ''reach-agent_linux_amd64'' ''new''"
    using update_installs_verified [OF h'(1) [unfolded example_update_def example_restart_eq [of "''2''" "''T''"]]
        example_distinct(2,3) old changed] asset h'(2) unfolding version by (elim exE conjE) (metis Inr_inject option.inject)
  with h' show ?thesis unfolding example_paths by (intro exI [of _ h'] exI [of _ "''new''"]) simp
qed



lemma wp_watcher_fires:
  assumes "fs flag \<noteq> None" "fs backup = Some old" "fs (is_AgentPath st) \<noteq> None"
    and "distinct [[], is_AgentPath st, backup, flag, install_temp fresh (is_AgentPath st)]"
  shows "wp (rollback_watcher_fires (restartReachAgent env goos uid) fresh flag backup st) (\<lambda>_ _. True) fs"
proof (rule wpI)
  fix h assume h: "calm h" "ho_files h = fs"
  have i: "wp (atomicInstallBinary fresh backup (is_AgentPath st)) (\<lambda>_ _. True) fs"
    by (rule wp_install [OF assms(2,3)]) (use assms(4) in auto)
  obtain u k where k: "atomicInstallBinary fresh backup (is_AgentPath st) h = (Inr u, k)" "calm k" using wpE [OF i h] by blast
  have c: "calm (silently (unlink_file flag) k)"
    using k(2) calm_call [OF k(2), of "[''Remove'', flag]" "\<lambda>h. h\<lparr>ho_files := (ho_files h)(flag := None)\<rparr>"]
    by (auto simp: silently_def unlink_file_def)
  define msg where "msg = (\<lambda>e. ''rollback restored binary but restart failed: '' @ e)"
  define st' where "st' = st\<lparr>is_PIDFile := path_join [is_DataDir st, ''reach-agent.pid''], is_LogPath := path_join [is_DataDir st, ''agent.log'']\<rparr>"
  have r: "wp (on_error msg (restartReachAgent env goos uid st')) (\<lambda>_ _. True) (ho_files (silently (unlink_file flag) k))"
    by (intro wp_on_error wp_restart) simp
  obtain v m where m: "on_error msg (restartReachAgent env goos uid st') (silently (unlink_file flag) k) = (Inr v, m)" "calm m"
    using wpE [OF r c refl] by blast
  have "rollback_watcher_fires (restartReachAgent env goos uid) fresh flag backup st h = (Inr v, m)"
    unfolding rollback_watcher_fires_def restoreBinary_def hbind_def k(1) st'_def [symmetric] msg_def [symmetric]
    using m(1) assms(1,4) h(2) by auto
  with m(2) show "\<exists>a k. rollback_watcher_fires (restartReachAgent env goos uid) fresh flag backup st h = (Inr a, k) \<and> calm k \<and> True"
    by blast
qed

lemma wp_confirm: "fs (confirm_flag st) \<noteq> None \<Longrightarrow> wp (confirmUpdate st) (\<lambda>_ fs'. fs' = fs(confirm_flag st := None)) fs"
proof (rule wpI)
  fix h assume f: "fs (confirm_flag st) \<noteq> None" and h: "calm h" "ho_files h = fs"
  then show "\<exists>a k. confirmUpdate st h = (Inr a, k) \<and> calm k \<and> ho_files k = fs(confirm_flag st := None)"
    using calm_call [OF h(1), of "[''Remove'', confirm_flag st]" "\<lambda>h. h\<lparr>ho_files := (ho_files h)(confirm_flag st := None)\<rparr>"]
    by (auto simp: confirmUpdate_def lift_host_def unlink_file_def)
qed


text \<open>The files an update writes.\<close>

lemma only_swap_in [file_frames]:
  assumes p: "p (is_AgentPath st)" "p (install_temp (ue_fresh e) (is_AgentPath st))" "p (confirm_flag st)" "p (pid_file st)"
  shows "only_files p (swap_in (restartReachAgent env goos uid) e st opt c)"
  unfolding only_files_def
proof (intro allI impI)
  fix h x assume x: "\<not> p x"
  define log where "log = path_join [is_DataDir st, ''update-rollback-'' @ ue_id e @ ''.log'']"
  define msg where "msg = (\<lambda>err. ''restart after update failed; rollback watcher remains armed: '' @ err)"
  define msg2 where "msg2 = (\<lambda>err. ''start rollback watcher failed; restored backup: '' @ err)"
  have inst: "only_files p (atomicInstallBinary (ue_fresh e) s (is_AgentPath st))" for s by (intro file_frames p)
  have rem: "ho_files (silently (unlink_file (confirm_flag st)) k) x = ho_files k x" for k
    by (rule silently_files [OF only_remove [where p = p, OF p(3)] x])
  have rs: "only_files p (on_error msg (restartReachAgent env goos uid st))" by (intro file_frames only_restart p)
  obtain q1 h1 where q1: "atomicInstallBinary (ue_fresh e) c (is_AgentPath st) h = (q1, h1)"
    by (cases "atomicInstallBinary (ue_fresh e) c (is_AgentPath st) h")
  obtain q2 h2 where q2: "startRollbackWatcher st (confirm_flag st) (backup_path (ue_id e) st) log (uo_RollbackAfter opt) h1 = (q2, h2)"
    by (cases "startRollbackWatcher st (confirm_flag st) (backup_path (ue_id e) st) log (uo_RollbackAfter opt) h1")
  have eq: "swap_in (restartReachAgent env goos uid) e st opt c h =
      (case q1 of Inl err \<Rightarrow> (Inl err, silently (unlink_file (confirm_flag st)) h1)
       | Inr _ \<Rightarrow> (case q2 of
            Inl err \<Rightarrow> (Inl (msg2 err), silently (unlink_file (confirm_flag st))
              (snd (restoreBinary (ue_fresh e) (backup_path (ue_id e) st) (is_AgentPath st) h2)))
          | Inr _ \<Rightarrow> on_error msg (restartReachAgent env goos uid st) h2))"
    unfolding swap_in_def Let_def log_def [symmetric] q1 prod.case msg_def msg2_def
    by (cases q1; cases q2; simp only: sum.case prod.case q2)
  show "ho_files (snd (swap_in (restartReachAgent env goos uid) e st opt c h)) x = ho_files h x"
    unfolding eq
    using only_filesD [OF inst q1 x] only_filesD [OF watcher_files q2, of p x] x inst rs rem
    by (cases q1; cases q2) (simp_all add: restoreBinary_def only_files_def)
qed

lemma only_install_candidate [file_frames]:
  assumes p: "p (is_AgentPath st)" "p (install_temp (ue_fresh e) (is_AgentPath st))" "p (confirm_flag st)" "p (pid_file st)"
    "p (backup_path (ue_id e) st)"
  shows "only_files p (install_candidate (restartReachAgent env goos uid) e st opt c v)"
  unfolding install_candidate_def Let_def by (intro file_frames p) simp

lemma perform_frame:
  assumes run: "performBinaryUpdate (restartReachAgent env goos uid) e keys uname cfg_url st opt h = (r, h')"
    and x: "x \<notin> set (update_paths e st opt) \<union> set (update_files e)"
  shows "ho_files h' x = ho_files h x"
  using run
proof (cases rule: perform_cases)
  case (none api asset er)
  show ?thesis
    by (rule only_filesD [OF only_obtain [where p = "\<lambda>x. x \<in> set (update_files e)"] none(2)]) (use x in auto)
next
  case (tried api asset h1 h2)
  let ?p = "\<lambda>x. x \<in> set (update_paths e st opt)"
  define msg where "msg = (\<lambda>v. ''candidate version mismatch: binary reports '' @ go_quote v @ '' but requested '' @ go_quote (uo_Version opt))"
  have 1: "ho_files h1 x = ho_files h x"
    by (rule only_filesD [OF only_obtain [where p = "\<lambda>x. x \<in> set (update_files e)"] tried(2)]) (use x in auto)
  have o: "only_files ?p (hbind (preflightAgentBinary e (candidate_path e opt)) (\<lambda>v.
         if v \<noteq> uo_Version opt then hfail (msg v)
         else install_candidate (restartReachAgent env goos uid) e st opt (candidate_path e opt) v))"
    by (intro file_frames) (simp_all add: update_paths_def)
  have 2: "ho_files h2 x = ho_files h1 x"
    by (rule only_filesD [OF o [unfolded msg_def] tried(3)]) (use x in auto)
  have "x \<noteq> candidate_path e opt" using x by (auto simp: update_paths_def)
  then show ?thesis using 1 2 tried(4) by (cases "uo_CandidatePath opt = []") (simp_all add: drop_files_def)
qed simp

text \<open>The flag is shared by all updates: after an update that was confirmed, and a second update within
  the first one's rollback time, the first watcher fires and, without any error, puts back the
  binary from before both updates.\<close>

theorem stale_watcher_rolls_back:
  assumes "performBinaryUpdate (restartReachAgent env (ue_goos e1) uid) e1 keys uname cfg_url st opt1 h0 = (Inr (), h1)"
    and "distinct (update_paths e1 st opt1)" "is_AgentPath st \<notin> set (update_files e1)" "ho_files h0 (is_AgentPath st) = Some old"
    and "confirmUpdate st h1 = (Inr (), h2)"
    and second: "performBinaryUpdate (restartReachAgent env (ue_goos e2) uid) e2 keys uname cfg_url st opt2 h2 = (Inr (), h3)"
    and d2: "distinct (update_paths e2 st opt2)" "is_AgentPath st \<notin> set (update_files e2)"
    and kept: "backup_path (ue_id e1) st \<notin> set (update_paths e2 st opt2) \<union> set (update_files e2)"
    and "rollback_watcher_fires (restartReachAgent env goos uid) fresh (confirm_flag st) (backup_path (ue_id e1) st) st h3 = (Inr (), h4)"
    and "distinct [[], is_AgentPath st, backup_path (ue_id e1) st, confirm_flag st, install_temp fresh (is_AgentPath st),
                   path_join [is_DataDir st, ''reach-agent.pid'']]"
  shows "ho_files h4 (is_AgentPath st) = Some old"
proof -
  let ?A = "is_AgentPath st" let ?B = "backup_path (ue_id e1) st" let ?F = "confirm_flag st"
  obtain new where one: "ho_files h1 ?A = Some new" "ho_files h1 ?B = Some old"
    using perform_effect [OF assms(1-4)] by auto
  have c: "ho_files h2 x = ho_files h1 x" if "x \<noteq> ?F" for x
    using only_filesD [where p = "\<lambda>x. x = ?F", OF conjunct2 [OF confirm_done [OF assms(5)]] assms(5)] that by blast
  have ne: "?A \<noteq> ?F" "?B \<noteq> ?F" using assms(11) by auto
  have A2: "ho_files h2 ?A = Some new" using c [OF ne(1)] one by simp
  have "ho_files h3 ?F \<noteq> None" using perform_effect [OF second d2 A2] by auto
  moreover have "ho_files h3 ?B = Some old" using perform_frame [OF second kept] c [OF ne(2)] one(2) by simp
  ultimately show ?thesis using watcher_restores [OF assms(10)] assms(11) by simp
qed

theorem stale_watcher_rolls_back_witness:
  "\<exists>h1 h2 h3 h4. example_update ''2'' ''S'' example_machine = (Inr (), h1) \<and> confirmUpdate example_install h1 = (Inr (), h2) \<and>
     example_update ''3'' ''T'' h2 = (Inr (), h3) \<and>
     rollback_watcher_fires example_restart ''9'' (confirm_flag example_install) (backup_path ''S'' example_install)
       example_install h3 = (Inr (), h4) \<and> ho_files h4 ''/b/agent'' = Some ''old''"
proof -
  let ?i = "example_install"
  have c: "calm example_machine" by (simp add: calm_def example_machine_def)
  have old: "ho_files example_machine (is_AgentPath ?i) = Some ''old''" by code_simp
  have id: "ue_id (example_release ''2'' ''S'') = ''S''" "ue_id (example_release ''3'' ''T'') = ''T''"
    by (simp_all add: example_release_def)
  have ne: "is_AgentPath ?i \<noteq> confirm_flag ?i" by code_simp
  obtain h1 where h1: "example_update ''2'' ''S'' example_machine = (Inr (), h1)" "calm h1" "ho_files h1 (is_AgentPath ?i) = Some ''new''"
    "ho_files h1 (backup_path ''S'' ?i) = Some ''old''" "ho_files h1 (confirm_flag ?i) \<noteq> None"
    by (rule example_update_files [of "''2''" "''S''", OF _ _ c old]) simp_all
  obtain u h2 where h2: "confirmUpdate ?i h1 = (Inr u, h2)" "calm h2" "ho_files h2 = (ho_files h1)(confirm_flag ?i := None)"
    by (rule wpE [OF wp_confirm [where fs = "ho_files h1", OF h1(5)] h1(2) refl]) blast
  have A2: "ho_files h2 (is_AgentPath ?i) = Some ''new''" using h2(3) h1(3) ne by simp
  obtain h3 where h3: "example_update ''3'' ''T'' h2 = (Inr (), h3)" "calm h3" "ho_files h3 (is_AgentPath ?i) = Some ''new''"
    "ho_files h3 (confirm_flag ?i) \<noteq> None"
    by (rule example_update_files [of "''3''" "''T''", OF _ _ h2(2) A2]) simp_all
  have kept: "backup_path ''S'' ?i \<notin> set (update_paths (example_release ''3'' ''T'') ?i (example_options ''3''))
      \<union> set (update_files (example_release ''3'' ''T''))"
    by (simp add: example_release_def example_options_def update_paths_def candidate_path_def install_temp_def
      update_files_def manifest_path_def signature_path_def download_path_def example_install_def) code_simp
  note run1 = h1(1) [unfolded example_update_def example_restart_eq [of "''2''" "''S''"]]
  note run3 = h3(1) [unfolded example_update_def example_restart_eq [of "''3''" "''T''"]]
  have d: "distinct [[], is_AgentPath ?i, backup_path ''S'' ?i, confirm_flag ?i, install_temp ''9'' (is_AgentPath ?i)]"
    "distinct [[], is_AgentPath ?i, backup_path (ue_id (example_release ''2'' ''S'')) ?i, confirm_flag ?i,
       install_temp ''9'' (is_AgentPath ?i), path_join [is_DataDir ?i, ''reach-agent.pid'']]" unfolding id by code_simp+
  have B2: "ho_files h2 (backup_path ''S'' ?i) = Some ''old''" using h2(3) h1(4) d(1) by auto
  have B3: "ho_files h3 (backup_path ''S'' ?i) = Some ''old''" using perform_frame [OF run3 kept] B2 by simp
  have A3: "ho_files h3 (is_AgentPath ?i) \<noteq> None" using h3(3) by simp
  obtain v h4 where h4: "rollback_watcher_fires example_restart ''9'' (confirm_flag ?i) (backup_path ''S'' ?i) ?i h3 = (Inr v, h4)"
    using wpE [OF wp_watcher_fires [where fs = "ho_files h3", OF h3(4) B3 A3 d(1)] h3(2) refl] unfolding example_restart_def by blast
  have "ho_files h4 (is_AgentPath ?i) = Some ''old''"
    by (rule stale_watcher_rolls_back [OF run1 example_distinct(1,3) old _ run3 example_distinct(2,3) _ _ d(2)])
      (use h2(1) kept h4 in \<open>simp_all add: id example_restart_def\<close>)
  then show ?thesis using h1(1) h2(1) h3(1) h4 unfolding example_paths by auto
qed

end
