(* ===== verification/AgentConfig.thy ===== *)
theory AgentConfig
  imports UpdateRun HostKeys
begin

text \<open>
  The configuration of the agent (\<open>cmd/reach-agent/main.go\<close>: the structs, \<open>defaultConfig\<close>,
  \<open>LoadConfig\<close>, \<open>validateConfig\<close>). The YAML decoder is a parameter; it fills in a configuration
  that holds the defaults. \<open>envd k d\<close> is \<open>envDefault\<close> in the process's environment. Durations are
  nanoseconds; the text of the error for a bad duration leaves out which part of it is bad.
\<close>

record TunnelConfig =
  tu_HubHost :: string
  tu_HubSSHPort :: int
  tu_TunnelUser :: string
  tu_RemotePort :: int
  tu_LocalHost :: string
  tu_LocalPort :: int
  tu_KeyPath :: string
  tu_KnownHosts :: string
  tu_SSHCompat :: SSHCompatConfig
  tu_LogPath :: string
  tu_RestartMin :: string
  tu_RestartMax :: string
  tu_restartMinDur :: int
  tu_restartMaxDur :: int

record LocalSSHConfig =
  ls_Host :: string
  ls_Port :: int
  ls_Manage :: bool
  ls_ServiceNames :: "string list"
  ls_UserSSHD :: bool
  ls_InternalSSHD :: bool
  ls_SSHDBinary :: string
  ls_SSHDConfig :: string
  ls_SSHDLog :: string
  ls_AuthFile :: string
  ls_HostKeyPath :: string
  ls_TargetUser :: string
  ls_ClientOptions :: "string list"
  ls_ProbeInterval :: string
  ls_probeDur :: int

record WebSocketTransport =
  wt_Enabled :: bool
  wt_Carrier :: string
  wt_URL :: string
  wt_PathPrefix :: string
  wt_WSTunnelPath :: string

record TransportConfig =
  tp_Mode :: string
  tp_ProbeHost :: string
  tp_ProbePort :: int
  tp_WebSocket :: WebSocketTransport

record HeartbeatConfig =
  he_Enabled :: bool
  he_APIURL :: string
  he_Token :: string
  he_Interval :: string
  he_interval :: int

record InstallConfig =
  ic_Mode :: string
  ic_ConfigDir :: string
  ic_DataDir :: string
  ic_AgentPath :: string
  ic_PersistenceBackend :: string
  ic_PersistenceQuality :: string
  ic_PersistenceRebootSafe :: bool

record AgentConfig =
  ac_MachineID :: string
  ac_Slug :: string
  ac_Tunnel :: TunnelConfig
  ac_LocalSSH :: LocalSSHConfig
  ac_Transport :: TransportConfig
  ac_Heartbeat :: HeartbeatConfig
  ac_Install :: InstallConfig
  ac_AllowSelfUpdate :: bool
  ac_ProcessTitle :: string
  ac_ProcessTitles :: "string list"
  ac_RotateInterval :: string
  ac_rotateDur :: int

definition no_ssh_compat :: SSHCompatConfig where
  "no_ssh_compat = \<lparr>sc_ClientVersion = [], sc_TunnelKeyType = [], sc_UserSSHDHostKeyType = [],
     sc_TunnelOptions = [], sc_ClientOptions = [], sc_SupportedAuthorizedKeyTypes = []\<rparr>"

definition defaultConfig :: "(string \<Rightarrow> string \<Rightarrow> string) \<Rightarrow> AgentConfig" where
  "defaultConfig envd =
     (let hubHost = envd ''REACH_HUB_HOST'' ''your-server-ip'' in
      \<lparr>ac_MachineID = [], ac_Slug = [],
       ac_Tunnel = \<lparr>tu_HubHost = hubHost, tu_HubSSHPort = 443, tu_TunnelUser = [], tu_RemotePort = 0,
         tu_LocalHost = ''127.0.0.1'', tu_LocalPort = 22, tu_KeyPath = ''/var/lib/reach/tunnel_key'',
         tu_KnownHosts = ''/etc/reach/known_hosts'', tu_SSHCompat = no_ssh_compat,
         tu_LogPath = ''/var/lib/reach/tunnel.log'', tu_RestartMin = ''5s'', tu_RestartMax = ''2m'',
         tu_restartMinDur = 0, tu_restartMaxDur = 0\<rparr>,
       ac_LocalSSH = \<lparr>ls_Host = ''127.0.0.1'', ls_Port = 22, ls_Manage = True, ls_ServiceNames = [''ssh'', ''sshd''],
         ls_UserSSHD = False, ls_InternalSSHD = False, ls_SSHDBinary = [], ls_SSHDConfig = [], ls_SSHDLog = [],
         ls_AuthFile = [], ls_HostKeyPath = [], ls_TargetUser = [], ls_ClientOptions = [], ls_ProbeInterval = ''15s'',
         ls_probeDur = 0\<rparr>,
       ac_Transport = \<lparr>tp_Mode = ''auto'', tp_ProbeHost = hubHost, tp_ProbePort = 443,
         tp_WebSocket = \<lparr>wt_Enabled = False, wt_Carrier = [], wt_URL = [], wt_PathPrefix = [], wt_WSTunnelPath = []\<rparr>\<rparr>,
       ac_Heartbeat = \<lparr>he_Enabled = False, he_APIURL = [], he_Token = [], he_Interval = ''30s'', he_interval = 0\<rparr>,
       ac_Install = \<lparr>ic_Mode = [], ic_ConfigDir = [], ic_DataDir = [], ic_AgentPath = [], ic_PersistenceBackend = [],
         ic_PersistenceQuality = [], ic_PersistenceRebootSafe = False\<rparr>,
       ac_AllowSelfUpdate = False, ac_ProcessTitle = defaultProcessTitle, ac_ProcessTitles = [],
       ac_RotateInterval = ''5s'', ac_rotateDur = 0\<rparr>)"

subsection \<open>Loading\<close>

definition or_port :: "int \<Rightarrow> int \<Rightarrow> int" where
  "or_port n d = (if n = 0 then d else n)"

definition tunnel_defaults :: "string \<Rightarrow> TunnelConfig \<Rightarrow> TunnelConfig" where
  "tunnel_defaults hub t = t\<lparr>tu_HubHost := or_else (tu_HubHost t) hub, tu_HubSSHPort := or_port (tu_HubSSHPort t) 443,
     tu_LocalHost := or_else (tu_LocalHost t) ''127.0.0.1'', tu_LocalPort := or_port (tu_LocalPort t) 22,
     tu_RestartMin := or_else (tu_RestartMin t) ''5s'', tu_RestartMax := or_else (tu_RestartMax t) ''2m''\<rparr>"

definition local_defaults :: "TunnelConfig \<Rightarrow> LocalSSHConfig \<Rightarrow> LocalSSHConfig" where
  "local_defaults t s = s\<lparr>ls_Host := or_else (ls_Host s) ''127.0.0.1'', ls_Port := or_port (ls_Port s) (tu_LocalPort t),
     ls_ServiceNames := (if ls_ServiceNames s = [] then [''ssh'', ''sshd''] else ls_ServiceNames s),
     ls_ProbeInterval := or_else (ls_ProbeInterval s) ''15s''\<rparr>"

definition transport_defaults :: "TunnelConfig \<Rightarrow> TransportConfig \<Rightarrow> TransportConfig" where
  "transport_defaults t p = p\<lparr>tp_Mode := or_else (tp_Mode p) ''auto'',
     tp_ProbeHost := or_else (tp_ProbeHost p) (tu_HubHost t), tp_ProbePort := or_port (tp_ProbePort p) (tu_HubSSHPort t),
     tp_WebSocket := (let w = tp_WebSocket p in
       if wt_Enabled w \<and> wt_Carrier w = [] then w\<lparr>wt_Carrier := ''reach''\<rparr> else w)\<rparr>"

definition with_defaults :: "(string \<Rightarrow> string \<Rightarrow> string) \<Rightarrow> AgentConfig \<Rightarrow> AgentConfig" where
  "with_defaults envd c =
     (let t = tunnel_defaults (envd ''REACH_HUB_HOST'' ''your-server-ip'') (ac_Tunnel c);
          h = ac_Heartbeat c
      in c\<lparr>ac_Tunnel := t, ac_LocalSSH := local_defaults t (ac_LocalSSH c),
           ac_Transport := transport_defaults t (ac_Transport c),
           ac_Heartbeat := h\<lparr>he_Interval := or_else (he_Interval h) ''30s''\<rparr>,
           ac_RotateInterval := or_else (ac_RotateInterval c) ''5s''\<rparr>)"

definition duration_of :: "string \<Rightarrow> string \<Rightarrow> string + int" where
  "duration_of what s =
     (case parse_duration s of None \<Rightarrow> Inl (what @ '': time: invalid duration '' @ go_quote s) | Some d \<Rightarrow> Inr d)"

definition validateConfig :: "AgentConfig \<Rightarrow> string option" where
  "validateConfig c =
     (let t = ac_Tunnel c; p = ac_Transport c; w = tp_WebSocket p;
          missing = (if tu_HubHost t = [] then [''tunnel.hub_host''] else [])
                  @ (if tu_TunnelUser t = [] then [''tunnel.tunnel_user''] else [])
                  @ (if tu_RemotePort t = 0 then [''tunnel.remote_port''] else [])
                  @ (if tu_KeyPath t = [] then [''tunnel.key_path''] else [])
                  @ (if tu_KnownHosts t = [] then [''tunnel.known_hosts''] else []);
          carrier = or_else (wt_Carrier w) ''reach''
      in if missing \<noteq> [] then Some (''missing required config: '' @ join '', '' missing)
         else if tp_Mode p \<notin> {''auto'', ''direct'', ''websocket''} then
           Some ''transport.mode must be auto, direct, or websocket''
         else if tp_Mode p \<noteq> ''direct'' \<and> wt_Enabled w then
           (if wt_URL w = [] \<or> wt_PathPrefix w = [] then
              Some ''transport.websocket url and path_prefix are required when enabled''
            else if carrier = ''wstunnel'' \<and> wt_WSTunnelPath w = [] then
              Some ''transport.websocket.wstunnel_path is required for wstunnel carrier''
            else if carrier \<noteq> ''reach'' \<and> carrier \<noteq> ''wstunnel'' then
              Some ''transport.websocket.carrier must be reach or wstunnel''
            else None)
         else None)"

definition parse_durations :: "AgentConfig \<Rightarrow> string + AgentConfig" where
  "parse_durations c =
     andThen (duration_of ''tunnel.restart_min'' (tu_RestartMin (ac_Tunnel c))) (\<lambda>mn.
     andThen (duration_of ''tunnel.restart_max'' (tu_RestartMax (ac_Tunnel c))) (\<lambda>mx.
     andThen (duration_of ''local_ssh.probe_interval'' (ls_ProbeInterval (ac_LocalSSH c))) (\<lambda>pr.
     andThen (duration_of ''heartbeat.interval'' (he_Interval (ac_Heartbeat c))) (\<lambda>hb.
     andThen (duration_of ''rotate_interval'' (ac_RotateInterval c)) (\<lambda>ro.
       Inr (c\<lparr>ac_Tunnel := (ac_Tunnel c)\<lparr>tu_restartMinDur := mn, tu_restartMaxDur := mx\<rparr>,
              ac_LocalSSH := (ac_LocalSSH c)\<lparr>ls_probeDur := pr\<rparr>,
              ac_Heartbeat := (ac_Heartbeat c)\<lparr>he_interval := hb\<rparr>, ac_rotateDur := ro\<rparr>))))))"

definition LoadConfig ::
  "(string \<Rightarrow> string \<Rightarrow> string) \<Rightarrow> (string \<Rightarrow> AgentConfig \<Rightarrow> string + AgentConfig) \<Rightarrow> (string \<rightharpoonup> string) \<Rightarrow> string
   \<Rightarrow> string + AgentConfig" where
  "LoadConfig envd unmarshal files path =
     (case files path of
        None \<Rightarrow> Inl (not_found ''open'' path)
      | Some b \<Rightarrow>
          andThen (unmarshal b (defaultConfig envd)) (\<lambda>c0.
          andThen (parse_durations (with_defaults envd c0)) (\<lambda>c.
            case validateConfig c of Some e \<Rightarrow> Inl e | None \<Rightarrow> Inr c)))"

definition tunnel_of :: "AgentConfig \<Rightarrow> tunnel_target" where
  "tunnel_of c =
     (let t = ac_Tunnel c in
      \<lparr>tt_hub_host = tu_HubHost t, tt_hub_ssh_port = tu_HubSSHPort t, tt_user = tu_TunnelUser t,
       tt_key_path = tu_KeyPath t, tt_known_hosts = tu_KnownHosts t, tt_options = sc_TunnelOptions (tu_SSHCompat t)\<rparr>)"

definition carrier_of :: "AgentConfig \<Rightarrow> ws_settings" where
  "carrier_of c =
     (let w = tp_WebSocket (ac_Transport c)
      in ws_settings.make (wt_Enabled w) (wt_Carrier w) (wt_URL w) (wt_PathPrefix w))"

subsection \<open>What a loaded configuration has\<close>

lemma with_defaults_fields [simp]:
  "ac_MachineID (with_defaults envd c) = ac_MachineID c" "ac_Install (with_defaults envd c) = ac_Install c"
  "ac_Tunnel (with_defaults envd c) = tunnel_defaults (envd ''REACH_HUB_HOST'' ''your-server-ip'') (ac_Tunnel c)"
  "ac_Transport (with_defaults envd c) =
     transport_defaults (tunnel_defaults (envd ''REACH_HUB_HOST'' ''your-server-ip'') (ac_Tunnel c)) (ac_Transport c)"
  "ac_LocalSSH (with_defaults envd c) =
     local_defaults (tunnel_defaults (envd ''REACH_HUB_HOST'' ''your-server-ip'') (ac_Tunnel c)) (ac_LocalSSH c)"
  by (simp_all add: with_defaults_def Let_def)

end
