(* ===== verification/AgentDaemon.thy ===== *)
theory AgentDaemon
  imports AgentConfig Models Base64
begin

text \<open>
  The daemon of the agent (\<open>cmd/reach-agent/main.go\<close>, \<open>openEmbeddedTunnel\<close> of \<open>embedded_ssh.go\<close>): the
  state it keeps, its heartbeats, the commands it executes, the tunnel and its restarts, and the
  loop that handles one event after the other. The machine is the host of \<open>World\<close>. What answers a
  heartbeat is a function of all requests made so far; an answer may fail to come. Every operation
  takes the time at which it runs. The tunnel's goroutine shows up as the event \<open>TunnelDone\<close>.
\<close>

subsection \<open>State\<close>

record RuntimeStatus =
  rs_Transport :: string
  rs_TransportState :: string
  rs_LocalSSH :: AgentComponentStatus
  rs_Tunnel :: AgentTunnelStatus
  rs_Persistence :: AgentPersistenceStatus
  rs_LastError :: string
  rs_CheckedAt :: string

datatype http_reply = NoAnswer string | Answer nat string

record agent_world =
  aw_goos :: string
  aw_root :: bool
  aw_home :: string
  aw_exe :: string
  aw_pid :: int
  aw_version :: string
  aw_stamp :: string                                              \<comment> \<open>the time, as in log file names\<close>
  aw_net :: "AgentHeartbeat list \<Rightarrow> AgentHeartbeat \<Rightarrow> http_reply"       \<comment> \<open>the answer to a POST\<close>
  aw_url_error :: "string \<Rightarrow> string option"                        \<comment> \<open>\<open>http.NewRequest\<close>\<close>
  aw_decode :: "string \<Rightarrow> string + HeartbeatResponse"             \<comment> \<open>\<open>json.Unmarshal\<close>\<close>
  aw_payload :: "json \<Rightarrow> string + string \<times> string"              \<comment> \<open>\<open>json.Unmarshal\<close>: version, API URL\<close>
  aw_cancelled :: "AgentHeartbeat list \<Rightarrow> bool"                    \<comment> \<open>\<open>ctx.Err()\<close> after these requests\<close>
  aw_parse_private :: "string \<Rightarrow> string option"
  aw_load_hosts :: "string \<Rightarrow> string option"
  aw_parse_key :: "string \<Rightarrow> string + string"
  aw_sha256 :: "string \<Rightarrow> string"
  aw_start_platform :: "host \<Rightarrow> string option \<times> host"            \<comment> \<open>Windows, and the system's sshd on macOS\<close>

text \<open>
  \<open>da_tunnel\<close> says that \<open>tunnelCancel\<close> and \<open>tunnelDone\<close> are set. \<open>da_sent\<close> is not part of the program:
  the requests made, each with whether a tunnel was open then.
\<close>

record daemon =
  da_cfg :: AgentConfig
  da_status :: RuntimeStatus
  da_service_ensured :: bool
  da_tunnel :: bool
  da_backoff :: int
  da_started_at :: instant
  da_desired :: DesiredAgentConfig
  da_pending :: "AgentCommandResult list"
  da_applied :: int
  da_stopping :: bool
  da_update_confirmed :: bool
  da_titles :: "title_state option"
  da_host :: host
  da_sent :: "(AgentHeartbeat \<times> bool) list"

definition localSSHMode :: "AgentConfig \<Rightarrow> string" where
  "localSSHMode c = (if ls_InternalSSHD (ac_LocalSSH c) then ''internal-sshd''
                     else if ls_UserSSHD (ac_LocalSSH c) then ''user-sshd'' else ''system-existing'')"

definition no_desired :: DesiredAgentConfig where
  "no_desired = \<lparr>dc_tunnel_enabled = False, dc_hub_host = [], dc_hub_ssh_port = 0, dc_remote_port = 0, dc_tunnel_user = [],
     dc_transport_policy = [], dc_admin_keys_generation = 0, dc_admin_pubkeys = [], dc_process_title_config = None\<rparr>"

definition NewDaemon :: "AgentConfig \<Rightarrow> title_state option \<Rightarrow> host \<Rightarrow> daemon" where
  "NewDaemon c titles h =
     \<lparr>da_cfg = c,
      da_status = \<lparr>rs_Transport = ''unknown'', rs_TransportState = [],
        rs_LocalSSH = \<lparr>cs_state = ''unknown'', cs_host = ls_Host (ac_LocalSSH c), cs_port = ls_Port (ac_LocalSSH c),
                       cs_mode = localSSHMode c, cs_error = []\<rparr>,
        rs_Tunnel = \<lparr>ts_state = ''stopped'', ts_remote_port = tu_RemotePort (ac_Tunnel c), ts_pid = 0, ts_transport = [],
                     ts_connected_since = [], ts_error = []\<rparr>,
        rs_Persistence = \<lparr>ps_backend = first_non_empty [ic_PersistenceBackend (ac_Install c), ''unknown''],
                          ps_quality = first_non_empty [ic_PersistenceQuality (ac_Install c), ''unknown''],
                          ps_reboot_safe = ic_PersistenceRebootSafe (ac_Install c), ps_notes = []\<rparr>,
        rs_LastError = [], rs_CheckedAt = []\<rparr>,
      da_service_ensured = False, da_tunnel = False, da_backoff = 0, da_started_at = 0, da_desired = no_desired,
      da_pending = [], da_applied = 0, da_stopping = False, da_update_confirmed = False, da_titles = titles,
      da_host = h, da_sent = []\<rparr>"

definition setLocalSSH :: "instant \<Rightarrow> string \<Rightarrow> string \<Rightarrow> daemon \<Rightarrow> daemon" where
  "setLocalSSH now state err d =
     d\<lparr>da_status := (da_status d)\<lparr>rs_LocalSSH := \<lparr>cs_state = state, cs_host = ls_Host (ac_LocalSSH (da_cfg d)),
          cs_port = ls_Port (ac_LocalSSH (da_cfg d)), cs_mode = localSSHMode (da_cfg d), cs_error = err\<rparr>,
        rs_CheckedAt := fmt now\<rparr>\<rparr>"

definition setTransport :: "instant \<Rightarrow> string \<Rightarrow> string \<Rightarrow> daemon \<Rightarrow> daemon" where
  "setTransport now nm state d =
     d\<lparr>da_status := (da_status d)\<lparr>rs_Transport := nm, rs_TransportState := state, rs_CheckedAt := fmt now\<rparr>\<rparr>"

definition setTunnel :: "instant \<Rightarrow> string \<Rightarrow> int \<Rightarrow> string \<Rightarrow> string \<Rightarrow> daemon \<Rightarrow> daemon" where
  "setTunnel now state pid transport err d =
     (let since = ts_connected_since (rs_Tunnel (da_status d));
          since = (if state = ''connected'' \<and> since = [] then fmt now else since);
          since = (if state \<noteq> ''connected'' then [] else since)
      in d\<lparr>da_status := (da_status d)\<lparr>rs_Tunnel := \<lparr>ts_state = state, ts_remote_port = tu_RemotePort (ac_Tunnel (da_cfg d)),
             ts_pid = pid, ts_transport = transport, ts_connected_since = since, ts_error = err\<rparr>,
           rs_CheckedAt := fmt now\<rparr>\<rparr>)"

definition setLastError :: "instant \<Rightarrow> string \<Rightarrow> daemon \<Rightarrow> daemon" where
  "setLastError now err d = d\<lparr>da_status := (da_status d)\<lparr>rs_LastError := err, rs_CheckedAt := fmt now\<rparr>\<rparr>"

text \<open>What \<open>check\<close> prints of the daemon, and what a heartbeat is built from.\<close>

definition snapshot :: "instant \<Rightarrow> daemon \<Rightarrow> RuntimeStatus" where
  "snapshot now d = (let st = da_status d in if rs_CheckedAt st = [] then st\<lparr>rs_CheckedAt := fmt now\<rparr> else st)"

definition at_host :: "(host \<Rightarrow> 'r \<times> host) \<Rightarrow> daemon \<Rightarrow> 'r \<times> daemon" where
  "at_host f d = (case f (da_host d) of (r, h) \<Rightarrow> (r, d\<lparr>da_host := h\<rparr>))"

subsection \<open>Keys\<close>

definition key_marker :: "AgentConfig \<Rightarrow> string" where
  "key_marker c = '' reach:'' @ ac_MachineID c"

definition kept_key_lines :: "string \<Rightarrow> string \<Rightarrow> string list" where
  "kept_key_lines marker text =
     filter (\<lambda>line. \<not> (trim_space line = [] \<or> contains line marker)) (split_on nl text)"

definition admin_key_line :: "AgentConfig \<Rightarrow> DesiredPubkey \<Rightarrow> string list" where
  "admin_key_line c k =
     (let pub = trim_space (dp_public_key k);
          fs = GoStrings.fields pub;
          supported = (if ls_InternalSSHD (ac_LocalSSH c) then internalSSHDSupportedKeyTypes
                       else sc_SupportedAuthorizedKeyTypes (tu_SSHCompat (ac_Tunnel c)))
      in if pub = [] then []
         else if supported \<noteq> [] \<and> (fs = [] \<or> \<not> keyTypeSupported (hd fs) supported) then []
         else if ls_InternalSSHD (ac_LocalSSH c) then [pub @ key_marker c]
         else [''from=\"127.0.0.1,::1\",no-agent-forwarding,no-X11-forwarding,no-port-forwarding '' @ pub @ key_marker c])"

definition wanted_key_lines :: "AgentConfig \<Rightarrow> DesiredPubkey list \<Rightarrow> bool \<Rightarrow> string \<Rightarrow> string list" where
  "wanted_key_lines c keys enabled text =
     kept_key_lines (key_marker c) text @ (if enabled then concat (map (admin_key_line c) keys) else [])"

definition syncKeys :: "AgentConfig \<Rightarrow> DesiredPubkey list \<Rightarrow> bool \<Rightarrow> host \<Rightarrow> string option \<times> host" where
  "syncKeys c keys enabled h =
     (let auth = ls_AuthFile (ac_LocalSSH c);
          text = (case ho_files h auth of None \<Rightarrow> [] | Some b \<Rightarrow> b)
      in if auth = [] then (None, h)
         else case os_call [''MkdirAll'', path_dir auth] id h of
             (Some e, h1) \<Rightarrow> (Some e, h1)
           | (None, h1) \<Rightarrow> write_file auth (join [nl] (wanted_key_lines c keys enabled text) @ [nl]) h1)"

fun fingerprint_of :: "(string \<Rightarrow> string) \<Rightarrow> string list \<Rightarrow> string" where
  "fingerprint_of sha (p # q # rest) =
     (if has_prefix p ''ssh-'' then ''SHA256:'' @ take 16 (b64_encode std_alphabet (sha (p @ '' '' @ q)))
      else fingerprint_of sha (q # rest))"
| "fingerprint_of sha _ = []"

definition publicKeyFingerprint :: "(string \<Rightarrow> string) \<Rightarrow> string \<Rightarrow> string" where
  "publicKeyFingerprint sha line = fingerprint_of sha (GoStrings.fields line)"

definition installedKeyFingerprints :: "(string \<Rightarrow> string) \<Rightarrow> AgentConfig \<Rightarrow> (string \<rightharpoonup> string) \<Rightarrow> string list" where
  "installedKeyFingerprints sha c files =
     (let auth = ls_AuthFile (ac_LocalSSH c) in
      if auth = [] then []
      else case files auth of None \<Rightarrow> []
        | Some b \<Rightarrow> map (publicKeyFingerprint sha) (filter (\<lambda>line. contains line (key_marker c)) (split_on nl b)))"

subsection \<open>Heartbeats\<close>

definition canSelfUpdate :: "agent_world \<Rightarrow> AgentConfig \<Rightarrow> bool" where
  "canSelfUpdate a c \<longleftrightarrow> ac_AllowSelfUpdate c \<and> aw_goos a = ''linux'' \<and> ic_AgentPath (ac_Install c) \<noteq> [] \<and>
     ic_DataDir (ac_Install c) \<noteq> [] \<and> (ic_Mode (ac_Install c) = ''system'' \<longrightarrow> aw_root a)"

definition ssh_caps :: "AgentConfig \<Rightarrow> SSHCompatStatus" where
  "ssh_caps c =
     (let s = tu_SSHCompat (ac_Tunnel c) in
      \<lparr>sc_client_version = sc_ClientVersion s, sc_tunnel_key_type = sc_TunnelKeyType s,
       sc_user_sshd_host_key_type = sc_UserSSHDHostKeyType s, sc_tunnel_options = sc_TunnelOptions s,
       sc_client_options = ls_ClientOptions (ac_LocalSSH c), sc_authorized_key_types = sc_SupportedAuthorizedKeyTypes s\<rparr>)"

definition no_component :: AgentComponentStatus where
  "no_component = \<lparr>cs_state = [], cs_host = [], cs_port = 0, cs_mode = [], cs_error = []\<rparr>"

definition no_tunnel_status :: AgentTunnelStatus where
  "no_tunnel_status = \<lparr>ts_state = [], ts_remote_port = 0, ts_pid = 0, ts_transport = [], ts_connected_since = [], ts_error = []\<rparr>"

definition heartbeat_of :: "agent_world \<Rightarrow> AgentCommandResult list \<Rightarrow> AgentShutdown option \<Rightarrow> daemon \<Rightarrow> AgentHeartbeat" where
  "heartbeat_of a results shutdown d =
     (let c = da_cfg d; st = da_status d in
      \<lparr>hb_machine_id = ac_MachineID c, hb_install_id = [], hb_slug = ac_Slug c, hb_agent_version = aw_version a,
       hb_capabilities = \<lparr>cap_commands = [''start_tunnel'', ''stop_tunnel'', ''sync_keys'', ''uninstall'', ''update_agent''],
         cap_transports = [''direct'', ''websocket''], cap_manage_local_sshd = ls_Manage (ac_LocalSSH c),
         cap_self_update = canSelfUpdate a c, cap_ssh = ssh_caps c\<rparr>,
       hb_applied_generation = da_applied d,
       hb_observed = \<lparr>os_agent_state = ''running'', os_local_ssh = rs_LocalSSH st, os_tunnel = rs_Tunnel st,
         os_persistence = rs_Persistence st,
         os_keys = \<lparr>ks_fingerprints = installedKeyFingerprints (aw_sha256 a) c (ho_files (da_host d)), ks_generation = 0\<rparr>\<rparr>,
       hb_command_results = results, hb_shutdown = shutdown, hb_transport = [], hb_transport_state = [],
       hb_local_ssh = no_component, hb_tunnel = no_tunnel_status, hb_last_error = rs_LastError st,
       hb_checked_at = []\<rparr>)"

text \<open>The attempts at one heartbeat, at most as many as the first argument says.\<close>

fun post_attempts :: "agent_world \<Rightarrow> bool \<Rightarrow> nat \<Rightarrow> AgentHeartbeat \<Rightarrow> daemon \<Rightarrow> (string + HeartbeatResponse) \<times> daemon" where
  "post_attempts a background 0 hb d = (Inl ''heartbeat failed'', d)"
| "post_attempts a background (Suc n) hb d =
     (let reply = aw_net a (map fst (da_sent d)) hb;
          d = d\<lparr>da_sent := da_sent d @ [(hb, da_tunnel d)]\<rparr>;
          again = (\<lambda>err.
            if \<not> background \<and> aw_cancelled a (map fst (da_sent d)) then (Inl ''context canceled'', d)
            else if n = 0 then (Inl (''heartbeat failed after 3 attempts: '' @ err), d)
            else post_attempts a background n hb d)
      in case reply of
           NoAnswer err \<Rightarrow> again err
         | Answer status body \<Rightarrow>
             let b = take 1048576 body;
                 err = ''heartbeat status='' @ show_nat status @ '' body='' @ trim_space b
             in if status div 100 = 2 then (aw_decode a b, d)
                else if status < 500 \<and> status \<noteq> 429 then (Inl err, d)
                else again err)"

definition sendHeartbeat :: "agent_world \<Rightarrow> bool \<Rightarrow> AgentShutdown option \<Rightarrow> daemon \<Rightarrow> (string + HeartbeatResponse) \<times> daemon" where
  "sendHeartbeat a background shutdown d =
     (let h = ac_Heartbeat (da_cfg d);
          url = trim_right_chars (he_APIURL h) ''/'' @ ''/api/client/agent/heartbeat''
      in if \<not> he_Enabled h \<or> he_APIURL h = [] \<or> he_Token h = [] then (Inl ''heartbeat disabled'', d)
         else let hb = heartbeat_of a (da_pending d) shutdown d; d = d\<lparr>da_pending := []\<rparr>
         in case aw_url_error a url of
              Some e \<Rightarrow> (Inl e, d)
            | None \<Rightarrow> post_attempts a background 3 hb d)"

definition queueResult :: "AgentCommandResult \<Rightarrow> daemon \<Rightarrow> daemon" where
  "queueResult r d = d\<lparr>da_pending := da_pending d @ [r]\<rparr>"

subsection \<open>The local SSH server\<close>

definition probeSSH :: "string \<Rightarrow> int \<Rightarrow> int \<Rightarrow> host \<Rightarrow> string option \<times> host" where
  "probeSSH target port seconds h =
     (case host_do [''LookPath'', ''ssh-keyscan''] h of
        ((True, _), h1) \<Rightarrow>
          (case host_do [''ssh-keyscan'', ''-T'', show_int seconds, ''-p'', show_int port, target] h1 of
             ((True, out), h2) \<Rightarrow>
               (if contains out ''ssh-'' then None else Some ''ssh-keyscan found no ssh host key'', h2)
           | ((False, out), h2) \<Rightarrow> (Some (''ssh-keyscan failed: exit status 1: '' @ trim_space out), h2))
      | ((False, _), h1) \<Rightarrow>
          (case host_do [''dial'', join_host_port target (show_int port)] h1 of
             ((True, _), h2) \<Rightarrow> (None, h2) | ((False, out), h2) \<Rightarrow> (Some out, h2)))"

fun try_commands :: "string list list \<Rightarrow> host \<Rightarrow> bool \<times> host" where
  "try_commands [] h = (False, h)"
| "try_commands (c # cs) h =
     (case host_do c h of ((True, _), h1) \<Rightarrow> (True, h1) | ((False, _), h1) \<Rightarrow> try_commands cs h1)"

definition startInternalSSHD :: "agent_world \<Rightarrow> AgentConfig \<Rightarrow> host \<Rightarrow> string option \<times> host" where
  "startInternalSSHD a c h =
     (let self = or_else (ic_AgentPath (ac_Install c)) (aw_exe a);
          ls = ac_LocalSSH c;
          log = first_non_empty [ls_SSHDLog ls, tu_LogPath (ac_Tunnel c) @ ''.internal-sshd.log'']
      in if ls_Port ls = 0 \<or> ls_AuthFile ls = [] \<or> ls_HostKeyPath ls = [] then
           (Some ''internal-sshd not fully configured'', h)
         else case os_call [''OpenAppend'', log] id h of
             (Some e, h1) \<Rightarrow> (Some e, h1)
           | (None, h1) \<Rightarrow>
               os_call [''Start'', self, ''internal-sshd'', ''--port'', show_int (ls_Port ls), ''--auth-file'', ls_AuthFile ls,
                        ''--host-key'', ls_HostKeyPath ls] id h1)"

definition startUserSSHD :: "AgentConfig \<Rightarrow> host \<Rightarrow> string option \<times> host" where
  "startUserSSHD c h =
     (let ls = ac_LocalSSH c;
          (bin, h1) = (if ls_SSHDBinary ls \<noteq> [] then (ls_SSHDBinary ls, h)
            else case host_do [''LookPath'', ''sshd''] h of
                ((True, out), h1) \<Rightarrow> (out, h1)
              | ((False, _), h1) \<Rightarrow>
                  (case List.find (\<lambda>p. ho_files h1 p \<noteq> None) [''/usr/sbin/sshd'', ''/usr/local/sbin/sshd''] of
                     None \<Rightarrow> [] | Some p \<Rightarrow> p, h1));
          log = first_non_empty [ls_SSHDLog ls, tu_LogPath (ac_Tunnel c) @ ''.user-sshd.log'']
      in if bin = [] \<or> ls_SSHDConfig ls = [] then (Some ''user sshd binary/config not configured'', h1)
         else case os_call [''OpenAppend'', log] id h1 of
             (Some e, h2) \<Rightarrow> (Some e, h2)
           | (None, h2) \<Rightarrow> os_call [''Start'', bin, ''-D'', ''-e'', ''-f'', ls_SSHDConfig ls] id h2)"

definition startLocalSSH :: "agent_world \<Rightarrow> AgentConfig \<Rightarrow> host \<Rightarrow> string option \<times> host" where
  "startLocalSSH a c h =
     (let names = ls_ServiceNames (ac_LocalSSH c);
          by_service = (\<lambda>h. case try_commands (map (\<lambda>svc. [''service'', svc, ''start'']) names) h of
              (True, h1) \<Rightarrow> (None, h1) | (False, h1) \<Rightarrow> (Some ''could not start local ssh service'', h1))
      in if aw_goos a = ''windows'' then aw_start_platform a h
         else if ls_InternalSSHD (ac_LocalSSH c) then startInternalSSHD a c h
         else if ls_UserSSHD (ac_LocalSSH c) then startUserSSHD c h
         else if aw_goos a = ''darwin'' then aw_start_platform a h
         else case host_do [''LookPath'', ''systemctl''] h of
             ((False, _), h1) \<Rightarrow> by_service h1
           | ((True, _), h1) \<Rightarrow>
               (case try_commands (map (\<lambda>svc. [''systemctl'', ''enable'', ''--now'', svc]) (filter (\<lambda>s. s \<noteq> []) names)) h1 of
                  (True, h2) \<Rightarrow> (None, h2) | (False, h2) \<Rightarrow> by_service h2))"

definition checkLocalSSH :: "agent_world \<Rightarrow> instant \<Rightarrow> daemon \<Rightarrow> string option \<times> daemon" where
  "checkLocalSSH a now d =
     (let c = da_cfg d; ls = ac_LocalSSH c in
      case at_host (probeSSH (ls_Host ls) (ls_Port ls) 3) d of
        (None, d1) \<Rightarrow>
          (let d2 = (if ls_Manage ls \<and> \<not> da_service_ensured d1 then
                       (case at_host (startLocalSSH a c) d1 of
                          (None, d2) \<Rightarrow> d2\<lparr>da_service_ensured := True\<rparr> | (Some _, d2) \<Rightarrow> d2)
                     else d1)
           in (None, setLocalSSH now ''healthy'' [] d2))
      | (Some _, d1) \<Rightarrow>
          if \<not> ls_Manage ls then
            (let e = ''ssh probe failed on '' @ ls_Host ls @ '':'' @ show_int (ls_Port ls)
             in (Some e, setLocalSSH now ''down'' e d1))
          else case at_host (startLocalSSH a c) d1 of
              (Some e, d2) \<Rightarrow> (Some e, setLocalSSH now ''down'' e d2)
            | (None, d2) \<Rightarrow>
                (case at_host (probeSSH (ls_Host ls) (ls_Port ls) 5) d2 of
                   (Some e, d3) \<Rightarrow>
                     (let e' = ''local ssh still down after start attempt: '' @ e in (Some e', setLocalSSH now ''down'' e' d3))
                 | (None, d3) \<Rightarrow> (None, setLocalSSH now ''healthy'' [] d3)))"

subsection \<open>The tunnel\<close>

definition selectTransport :: "instant \<Rightarrow> daemon \<Rightarrow> string \<times> daemon" where
  "selectTransport now d =
     (let p = ac_Transport (da_cfg d);
          policy = dc_transport_policy (da_desired d);
          mode = (if policy \<noteq> [] then policy else tp_Mode p);
          ws = wt_Enabled (tp_WebSocket p)
      in if mode = ''direct'' then (''direct'', setTransport now ''direct'' ''selected'' d)
         else if mode = ''websocket'' then
           (if ws then (''websocket'', setTransport now ''websocket'' ''selected'' d)
            else ([], setTransport now ''websocket'' ''unavailable'' d))
         else case at_host (host_do [''dial'', join_host_port (tp_ProbeHost p) (show_int (tp_ProbePort p))]) d of
             ((True, _), d1) \<Rightarrow> (''direct'', setTransport now ''direct'' ''probe-ok'' d1)
           | ((False, _), d1) \<Rightarrow>
               if ws then (''websocket'', setTransport now ''websocket'' ''fallback'' d1)
               else ([], setTransport now ''none'' ''unavailable'' d1))"

text \<open>\<open>openEmbeddedTunnel\<close>; a connection that was made is closed when a later step fails.\<close>

definition openEmbeddedTunnel :: "agent_world \<Rightarrow> AgentConfig \<Rightarrow> string \<Rightarrow> host \<Rightarrow> string option \<times> host" where
  "openEmbeddedTunnel a c transport h =
     (case transportDialer (tunnel_of c) (carrier_of c) transport of
        Inl e \<Rightarrow> (Some e, h)
      | Inr plan \<Rightarrow>
          (case os_call (case plan of DialTCP addr \<Rightarrow> [''dial'', addr] | DialCarrier u p \<Rightarrow> [''dial-ws'', u, p]) id h of
             (Some e, h1) \<Rightarrow> (Some e, h1)
           | (None, h1) \<Rightarrow>
               let closed = (\<lambda>e h. (Some e, snd (host_do [''close''] h)));
                   addr = ''127.0.0.1:'' @ show_int (tu_RemotePort (ac_Tunnel c))
               in case sshClientConfig (ho_files h1) (aw_parse_private a) (aw_load_hosts a) (aw_parse_key a) (tunnel_of c) of
                    Inl e \<Rightarrow> closed e h1
                  | Inr cc \<Rightarrow>
                      (case os_call [''ssh'', host_key_name (tunnel_of c), cc_user cc] id h1 of
                         (Some e, h2) \<Rightarrow> closed e h2
                       | (None, h2) \<Rightarrow>
                           (case os_call [''listen'', addr] id h2 of
                              (Some e, h3) \<Rightarrow> closed (''remote listen '' @ addr @ '' failed: '' @ e) h3
                            | (None, h3) \<Rightarrow>
                                (None, if tu_LogPath (ac_Tunnel c) = [] then h3
                                       else snd (os_call [''OpenAppend'', tu_LogPath (ac_Tunnel c)] id h3))))))"

definition startTunnel :: "agent_world \<Rightarrow> instant \<Rightarrow> string \<Rightarrow> daemon \<Rightarrow> string option \<times> daemon" where
  "startTunnel a now transport d =
     (case at_host (openEmbeddedTunnel a (da_cfg d) transport) d of
        (Some e, d1) \<Rightarrow> (Some e, setTunnel now ''failed'' 0 transport e d1)
      | (None, d1) \<Rightarrow>
          (None, (setTunnel now ''connected'' (aw_pid a) transport [] (setTransport now transport ''healthy'' d1))
                   \<lparr>da_tunnel := True, da_started_at := now, da_stopping := False\<rparr>))"

definition clearTunnelState :: "daemon \<Rightarrow> daemon" where
  "clearTunnelState d = d\<lparr>da_tunnel := False, da_started_at := 0, da_stopping := False\<rparr>"

text \<open>\<open>stopTunnelProcess\<close> waits for the tunnel's goroutine, at most five seconds.\<close>

definition stopTunnelProcess :: "daemon \<Rightarrow> daemon" where
  "stopTunnelProcess d =
     clearTunnelState ((if da_tunnel d then snd (at_host (host_do [''cancel-tunnel'']) d) else d)\<lparr>da_stopping := True\<rparr>)"

definition nextBackoff :: "int \<Rightarrow> int \<Rightarrow> int" where
  "nextBackoff cur mx =
     (let cur = (if cur \<le> 0 then 5 * GoTime.second else cur); n = wrap64 (cur * 2) in if mx < n then mx else n)"

definition nextTunnelRestartDelay :: "bool \<Rightarrow> daemon \<Rightarrow> int \<times> daemon" where
  "nextTunnelRestartDelay longlived d =
     (let t = ac_Tunnel (da_cfg d);
          mn = (if tu_restartMinDur t \<le> 0 then 5 * GoTime.second else tu_restartMinDur t);
          mx = (if tu_restartMaxDur t < mn then mn else tu_restartMaxDur t);
          b = (if longlived \<or> da_backoff d \<le> 0 then mn else nextBackoff (da_backoff d) mx)
      in (b, d\<lparr>da_backoff := b\<rparr>))"

definition resetTunnelRestartDelay :: "daemon \<Rightarrow> daemon" where
  "resetTunnelRestartDelay d = d\<lparr>da_backoff := 0\<rparr>"

definition shutdown :: "agent_world \<Rightarrow> string \<Rightarrow> bool \<Rightarrow> daemon \<Rightarrow> daemon" where
  "shutdown a reason remove d =
     snd (sendHeartbeat a True (Some \<lparr>sd_reason = reason, sd_remove_files = remove\<rparr>) (stopTunnelProcess d))"

subsection \<open>Commands\<close>

definition command_result :: "string \<Rightarrow> string option \<Rightarrow> AgentCommandResult" where
  "command_result cid err =
     (case err of None \<Rightarrow> \<lparr>cr_command_id = cid, cr_status = ''acked'', cr_message = []\<rparr>
      | Some e \<Rightarrow> \<lparr>cr_command_id = cid, cr_status = ''failed'', cr_message = e\<rparr>)"

definition raise_generation :: "int \<Rightarrow> daemon \<Rightarrow> daemon" where
  "raise_generation g d = (if da_applied d < g then d\<lparr>da_applied := g\<rparr> else d)"

definition start_tunnel_command :: "agent_world \<Rightarrow> instant \<Rightarrow> daemon \<Rightarrow> string option \<times> daemon" where
  "start_tunnel_command a now d =
     (case checkLocalSSH a now d of
        (Some e, d1) \<Rightarrow> (Some e, d1)
      | (None, d1) \<Rightarrow>
          if da_tunnel d1 then (None, d1)
          else case selectTransport now d1 of (tr, d2) \<Rightarrow>
            if tr = [] then (Some ''no usable transport'', d2) else startTunnel a now tr d2)"

text \<open>The worker of an update is the detached one: the arguments hold no \<open>--foreground\<close>.\<close>

definition update_command_args :: "string \<Rightarrow> string \<Rightarrow> string list" where
  "update_command_args v url = [''--version'', v] @ (if url = [] then [] else [''--api-url'', url])"

definition update_agent_command :: "agent_world \<Rightarrow> json option \<Rightarrow> daemon \<Rightarrow> (string + string) \<times> daemon" where
  "update_agent_command a payload d =
     (if \<not> canSelfUpdate a (da_cfg d) then (Inl ''self-update is not enabled on this agent'', d)
      else case (case payload of None \<Rightarrow> Inr ([], []) | Some j \<Rightarrow> aw_payload a j) of
          Inl e \<Rightarrow> (Inl (''invalid update payload: '' @ e), d)
        | Inr (v, url) \<Rightarrow>
            let v = trim_space v; url = trim_space url in
            if v = [] then (Inl ''update payload missing version'', d)
            else (case loadReachInstallState (aw_home a) (ho_files (da_host d)) [] of
                Inl e \<Rightarrow> (Inl e, d)
              | Inr st \<Rightarrow>
                  (case at_host (startDetachedUpdateWorker (aw_exe a) (aw_stamp a) st (update_command_args v url)) d of
                     (Inl e, d1) \<Rightarrow> (Inl e, d1)
                   | (Inr _, d1) \<Rightarrow> (Inr (''started detached agent update to '' @ v), d1))))"

definition report_result :: "agent_world \<Rightarrow> AgentCommandResult \<Rightarrow> daemon \<Rightarrow> daemon" where
  "report_result a r d = snd (sendHeartbeat a False None (queueResult r d))"

definition stop_tunnel :: "instant \<Rightarrow> daemon \<Rightarrow> daemon" where
  "stop_tunnel now d = setTunnel now ''stopped'' 0 [] [] (resetTunnelRestartDelay (stopTunnelProcess d))"

definition applyCommand :: "agent_world \<Rightarrow> instant \<Rightarrow> AgentCommandDelivery \<Rightarrow> daemon \<Rightarrow> daemon" where
  "applyCommand a now c d =
     (if cd_type c = ''start_tunnel'' then
        (case start_tunnel_command a now d of (e, d1) \<Rightarrow>
           report_result a (command_result (cd_id c) e) (raise_generation (cd_generation c) d1))
      else if cd_type c = ''stop_tunnel'' then
        report_result a (command_result (cd_id c) None) (raise_generation (cd_generation c) (stop_tunnel now d))
      else if cd_type c = ''sync_keys'' then
        (case at_host (syncKeys (da_cfg d) (dc_admin_pubkeys (da_desired d)) (dc_tunnel_enabled (da_desired d))) d of
           (Some e, d1) \<Rightarrow> report_result a (command_result (cd_id c) (Some e)) d1
         | (None, d1) \<Rightarrow> report_result a (command_result (cd_id c) None) (raise_generation (cd_generation c) d1))
      else if cd_type c = ''uninstall'' then
        (let d1 = snd (sendHeartbeat a False (Some \<lparr>sd_reason = ''server_uninstall'', sd_remove_files = True\<rparr>) d);
             d2 = report_result a ((command_result (cd_id c) None)\<lparr>cr_message := ''starting uninstall''\<rparr>) d1
         in snd (at_host (host_do [''uninstall'', ''--mode'', first_non_empty [ic_Mode (ac_Install (da_cfg d)), ''auto''], ''--yes'']) d2))
      else if cd_type c = ''update_agent'' then
        (case update_agent_command a (cd_payload c) d of
           (Inl e, d1) \<Rightarrow> report_result a (command_result (cd_id c) (Some e)) d1
         | (Inr msg, d1) \<Rightarrow> report_result a ((command_result (cd_id c) None)\<lparr>cr_message := msg\<rparr>) d1)
      else report_result a (command_result (cd_id c) (Some ''unknown command'')) d)"

subsection \<open>Reconciliation\<close>

definition applyDesiredProcessTitle :: "ProcessTitleConfig option \<Rightarrow> daemon \<Rightarrow> daemon" where
  "applyDesiredProcessTitle p d =
     (case da_titles d of None \<Rightarrow> d
      | Some t \<Rightarrow>
          d\<lparr>da_titles := Some (Update (settingsFromDesiredProcessTitleConfig p (ac_ProcessTitle (da_cfg d))
                                 (ac_ProcessTitles (da_cfg d)) (ac_rotateDur (da_cfg d))) t)\<rparr>)"

definition confirmPendingUpdateAfterHeartbeat :: "agent_world \<Rightarrow> daemon \<Rightarrow> daemon" where
  "confirmPendingUpdateAfterHeartbeat a d =
     (if da_update_confirmed d \<or> \<not> canSelfUpdate a (da_cfg d) then d
      else let d = d\<lparr>da_update_confirmed := True\<rparr>
      in case loadReachInstallState (aw_home a) (ho_files (da_host d)) [] of
           Inl e \<Rightarrow> d
         | Inr st \<Rightarrow> if ho_files (da_host d) (confirm_flag st) = None then d else snd (at_host (confirmUpdate st) d))"

definition set_interval :: "int \<Rightarrow> daemon \<Rightarrow> daemon" where
  "set_interval secs d =
     (if 0 < secs then d\<lparr>da_cfg := (da_cfg d)\<lparr>ac_Heartbeat := (ac_Heartbeat (da_cfg d))\<lparr>he_interval := secs * GoTime.second\<rparr>\<rparr>\<rparr>
      else d)"

definition reconcile :: "agent_world \<Rightarrow> instant \<Rightarrow> daemon \<Rightarrow> daemon" where
  "reconcile a now d0 =
     (case sendHeartbeat a False None d0 of
        (Inl e, d) \<Rightarrow> d
      | (Inr resp, d) \<Rightarrow>
          let d = applyDesiredProcessTitle (dc_process_title_config (hr_desired_config resp))
                    (d\<lparr>da_desired := hr_desired_config resp\<rparr>);
              d = set_interval (hp_next_interval_seconds (hr_heartbeat resp)) d;
              d = confirmPendingUpdateAfterHeartbeat a d;
              d = fold (applyCommand a now) (hr_commands resp) d
          in if hr_desired_state resp = ''active'' \<and> dc_tunnel_enabled (hr_desired_config resp) then
               (if da_tunnel d then d
                else case checkLocalSSH a now d of
                    (Some e, d1) \<Rightarrow> d1
                  | (None, d1) \<Rightarrow>
                      (case selectTransport now d1 of (tr, d2) \<Rightarrow>
                         if tr = [] then setLastError now ''no usable transport'' d2
                         else (case startTunnel a now tr d2 of
                                 (Some e, d3) \<Rightarrow> setLastError now e d3 | (None, d3) \<Rightarrow> d3)))
             else stop_tunnel now d)"

subsection \<open>The loop\<close>

text \<open>
  \<open>Run\<close>: what happens before the loop, and one event. The end of a tunnel is an event only while one
  is open; its goroutine gives its error, and whether the process is being cancelled meanwhile. The
  ticks come at the intervals of the start. A heartbeat interval that is not positive panics.
\<close>

datatype event = Cancelled | TunnelDone "string option" bool | Probe | Tick

definition run_start :: "agent_world \<Rightarrow> instant \<Rightarrow> daemon \<Rightarrow> string + daemon" where
  "run_start a now d =
     (if he_interval (ac_Heartbeat (da_cfg d)) \<le> 0 \<or> ls_probeDur (ac_LocalSSH (da_cfg d)) \<le> 0 then
        Inl ''panic: non-positive interval for NewTicker''
      else Inr (reconcile a now (snd (checkLocalSSH a now d))))"

definition tunnel_done :: "agent_world \<Rightarrow> instant \<Rightarrow> string option \<Rightarrow> bool \<Rightarrow> daemon \<Rightarrow> daemon" where
  "tunnel_done a now err cancelled d =
     (let wasStopping = da_stopping d;
          longlived = 2 * GoTime.minute \<le> now - da_started_at d;
          d1 = (case err of
                  Some e \<Rightarrow> if wasStopping then setTunnel now ''stopped'' 0 [] [] d
                            else setLastError now e (setTunnel now ''failed'' 0 [] e d)
                | None \<Rightarrow> setTunnel now ''stopped'' 0 [] [] d);
          d2 = clearTunnelState d1;
          d3 = (if err \<noteq> None \<and> \<not> wasStopping \<and> \<not> cancelled then snd (nextTunnelRestartDelay longlived d2) else d2)
      in reconcile a now d3)"

definition handle_event :: "agent_world \<Rightarrow> instant \<times> event \<Rightarrow> daemon \<Rightarrow> daemon" where
  "handle_event a ev d =
     (case ev of
        (now, Cancelled) \<Rightarrow> shutdown a ''signal'' False d
      | (now, TunnelDone err cancelled) \<Rightarrow> if da_tunnel d then tunnel_done a now err cancelled d else d
      | (now, Probe) \<Rightarrow> snd (checkLocalSSH a now d)
      | (now, Tick) \<Rightarrow> reconcile a now d)"

definition run_events :: "agent_world \<Rightarrow> (instant \<times> event) list \<Rightarrow> daemon \<Rightarrow> daemon" where
  "run_events a evs d = fold (handle_event a) evs d"

end
