(* ===== verification/DaemonFacts.thy ===== *)
theory DaemonFacts
  imports AgentDaemon
begin

text \<open>
  The invariant of the daemon: what it reports about its tunnel is true, and the generations it
  reports never fall. Every operation keeps it, whatever the machine and the hub answer. An
  operation that leaves the \<open>core\<close> of the state alone keeps everything that is said about it.
\<close>

definition core :: "daemon \<Rightarrow> bool \<times> string \<times> (AgentHeartbeat \<times> bool) list \<times> int" where
  "core d = (da_tunnel d, ts_state (rs_Tunnel (da_status d)), da_sent d, da_applied d)"

named_theorems core_simps \<open>operations that leave the core of the daemon alone\<close>

definition connected :: "string \<Rightarrow> bool" where "connected s \<longleftrightarrow> s = ''connected''"

definition reported :: "AgentHeartbeat \<Rightarrow> string" where
  "reported hb = ts_state (os_tunnel (hb_observed hb))"

definition truthful :: "(AgentHeartbeat \<times> bool) list \<Rightarrow> bool" where
  "truthful sent \<longleftrightarrow> (\<forall>(hb, open_now) \<in> set sent. connected (reported hb) = open_now)"

definition generations :: "(AgentHeartbeat \<times> bool) list \<Rightarrow> int list" where
  "generations sent = map (\<lambda>x. hb_applied_generation (fst x)) sent"

definition daemon_inv :: "daemon \<Rightarrow> bool" where
  "daemon_inv d \<longleftrightarrow> connected (ts_state (rs_Tunnel (da_status d))) = da_tunnel d \<and> truthful (da_sent d) \<and>
     sorted (generations (da_sent d)) \<and> (\<forall>g \<in> set (generations (da_sent d)). g \<le> da_applied d)"

lemma inv_core: "core d' = core d \<Longrightarrow> daemon_inv d' = daemon_inv d"
  by (simp add: core_def daemon_inv_def)

lemma inv_same: "daemon_inv d \<Longrightarrow> core d' = core d \<Longrightarrow> daemon_inv d'"
  by (simp add: core_def daemon_inv_def)

lemma core_tunnel: "core d' = core d \<Longrightarrow> da_tunnel d' = da_tunnel d"
  by (simp add: core_def)

lemma core_host [core_simps]: "core (snd (at_host f d)) = core d"
  by (cases "f (da_host d)") (simp add: core_def at_host_def)

lemma core_host_eq: "at_host f d = (r, d') \<Longrightarrow> core d' = core d"
  using core_host [of f d] by simp

lemma core_set [core_simps]:
  "core (setLocalSSH now s e d) = core d" "core (setTransport now n s d) = core d" "core (setLastError now e d) = core d"
  "core (queueResult r d) = core d" "core (d\<lparr>da_service_ensured := b\<rparr>) = core d" "core (d\<lparr>da_backoff := i\<rparr>) = core d"
  "core (d\<lparr>da_pending := rs\<rparr>) = core d" "core (d\<lparr>da_desired := de\<rparr>) = core d" "core (d\<lparr>da_titles := ti\<rparr>) = core d"
  "core (d\<lparr>da_update_confirmed := b\<rparr>) = core d" "core (d\<lparr>da_cfg := c\<rparr>) = core d" "core (resetTunnelRestartDelay d) = core d"
  "core (d\<lparr>da_stopping := b\<rparr>) = core d" "core (d\<lparr>da_started_at := t\<rparr>) = core d"
  by (simp_all add: core_def setLocalSSH_def setTransport_def setLastError_def queueResult_def resetTunnelRestartDelay_def)

lemma core_check: "checkLocalSSH a now d = (r, d') \<Longrightarrow> core d' = core d"
  unfolding checkLocalSSH_def Let_def
  by (auto simp: core_simps split: prod.splits option.splits if_splits dest!: core_host_eq)

lemma core_select: "selectTransport now d = (tr, d') \<Longrightarrow> core d' = core d"
  unfolding selectTransport_def Let_def
  by (auto simp: core_simps split: prod.splits if_splits bool.splits dest!: core_host_eq)

lemma core_delay [core_simps]: "core (snd (nextTunnelRestartDelay s d)) = core d"
  by (simp add: nextTunnelRestartDelay_def Let_def core_simps)

lemma core_titles [core_simps]: "core (applyDesiredProcessTitle p d) = core d"
  by (simp add: applyDesiredProcessTitle_def core_simps split: option.split)

lemma core_interval [core_simps]: "core (set_interval n d) = core d"
  by (simp add: set_interval_def core_simps)

lemma core_confirm [core_simps]: "core (confirmPendingUpdateAfterHeartbeat a d) = core d"
  by (auto simp: confirmPendingUpdateAfterHeartbeat_def Let_def core_simps split: sum.split)

subsection \<open>The invariant\<close>

lemma inv_new: "daemon_inv (NewDaemon c t h)"
  by (simp add: NewDaemon_def daemon_inv_def connected_def truthful_def generations_def)

lemma inv_send_one:
  assumes "daemon_inv d" "reported hb = ts_state (rs_Tunnel (da_status d))" "hb_applied_generation hb = da_applied d"
  shows "daemon_inv (d\<lparr>da_sent := da_sent d @ [(hb, da_tunnel d)]\<rparr>)"
  using assms by (auto simp: daemon_inv_def truthful_def generations_def sorted_append)

lemma inv_post:
  "daemon_inv d \<Longrightarrow> reported hb = ts_state (rs_Tunnel (da_status d)) \<Longrightarrow> hb_applied_generation hb = da_applied d \<Longrightarrow>
   daemon_inv (snd (post_attempts a bg n hb d))"
proof (induction a bg n hb d rule: post_attempts.induct)
  case (2 a bg n hb d)
  let ?d = "d\<lparr>da_sent := da_sent d @ [(hb, da_tunnel d)]\<rparr>"
  have i: "daemon_inv ?d" using 2(2-4) by (rule inv_send_one)
  have again: "n \<noteq> 0 \<Longrightarrow> \<not> (\<not> bg \<and> aw_cancelled a (map fst (da_sent ?d))) \<Longrightarrow> daemon_inv (snd (post_attempts a bg n hb ?d))"
    by (rule 2(1)) (use 2(2-4) i in auto)
  show ?case
    using i again by (cases bg) (auto simp: Let_def split: http_reply.split)
qed simp

lemma reported_heartbeat [simp]:
  "reported (heartbeat_of a rs sd d) = ts_state (rs_Tunnel (da_status d))" "hb_applied_generation (heartbeat_of a rs sd d) = da_applied d"
  by (simp_all add: heartbeat_of_def reported_def Let_def)

lemma inv_sendHeartbeat: "daemon_inv d \<Longrightarrow> daemon_inv (snd (sendHeartbeat a bg sd d))"
proof -
  assume i: "daemon_inv d"
  have "daemon_inv (d\<lparr>da_pending := []\<rparr>)" using i core_set(7) by (rule inv_same)
  then have "daemon_inv (snd (post_attempts a bg 3 (heartbeat_of a (da_pending d) sd d) (d\<lparr>da_pending := []\<rparr>)))"
    by (rule inv_post) simp_all
  then show ?thesis using i \<open>daemon_inv (d\<lparr>da_pending := []\<rparr>)\<close>
    by (simp add: sendHeartbeat_def Let_def split: option.split)
qed

text \<open>The operations that do change the core.\<close>

lemma core_setTunnel: "core (setTunnel now s p t e d) = (da_tunnel d, s, da_sent d, da_applied d)"
  by (simp add: core_def setTunnel_def Let_def)

lemma inv_of_core:
  "core d = (t, s, sent, g) \<Longrightarrow> daemon_inv d \<longleftrightarrow> connected s = t \<and> truthful sent \<and> sorted (generations sent) \<and>
     (\<forall>x \<in> set (generations sent). x \<le> g)"
  by (auto simp: core_def daemon_inv_def)

lemma core_startTunnel:
  "startTunnel a now tr d = (e, d') \<Longrightarrow>
   core d' = (if e = None then (True, ''connected'', da_sent d, da_applied d) else (da_tunnel d, ''failed'', da_sent d, da_applied d))"
proof -
  assume r: "startTunnel a now tr d = (e, d')"
  obtain q d1 where o: "at_host (openEmbeddedTunnel a (da_cfg d) tr) d = (q, d1)"
    by (cases "at_host (openEmbeddedTunnel a (da_cfg d) tr) d")
  have c: "da_tunnel d1 = da_tunnel d" "da_sent d1 = da_sent d" "da_applied d1 = da_applied d"
    using core_host_eq [OF o] by (simp_all add: core_def)
  show ?thesis
  proof (cases q)
    case None
    then have "e = None" "d' = (setTunnel now ''connected'' (aw_pid a) tr [] (setTransport now tr ''healthy'' d1))
                   \<lparr>da_tunnel := True, da_started_at := now, da_stopping := False\<rparr>"
      using r unfolding startTunnel_def o by auto
    then show ?thesis using c by (simp add: core_def setTunnel_def setTransport_def Let_def)
  next
    case (Some er)
    then have "e = Some er" "d' = setTunnel now ''failed'' 0 tr er d1" using r unfolding startTunnel_def o by auto
    then show ?thesis using c by (simp add: core_setTunnel)
  qed
qed

lemma inv_startTunnel: "daemon_inv d \<Longrightarrow> \<not> da_tunnel d \<Longrightarrow> startTunnel a now tr d = (e, d') \<Longrightarrow> daemon_inv d'"
  using core_startTunnel [of a now tr d e d'] by (cases e) (auto simp: core_def daemon_inv_def connected_def)

lemma at_host_fields [simp]: "da_sent (snd (at_host f d)) = da_sent d" "da_applied (snd (at_host f d)) = da_applied d"
  "da_tunnel (snd (at_host f d)) = da_tunnel d"
  using core_host [of f d] by (simp_all add: core_def)

lemma core_stop: "core (stop_tunnel now d) = (False, ''stopped'', da_sent d, da_applied d)"
  unfolding stop_tunnel_def core_setTunnel by (simp add: stopTunnelProcess_def clearTunnelState_def resetTunnelRestartDelay_def)

lemma inv_stop: "daemon_inv d \<Longrightarrow> daemon_inv (stop_tunnel now d)"
  unfolding inv_of_core [OF core_stop] by (auto simp: daemon_inv_def connected_def)

lemma inv_raise: "daemon_inv d \<Longrightarrow> daemon_inv (raise_generation g d)"
  by (auto simp: raise_generation_def daemon_inv_def)

lemma inv_report: "daemon_inv d \<Longrightarrow> daemon_inv (report_result a r d)"
  unfolding report_result_def by (rule inv_sendHeartbeat) (simp add: inv_core [OF core_set(4)])

lemma inv_open:
  assumes "daemon_inv d" "\<not> da_tunnel d" and "selectTransport now d = (tr, d')" "startTunnel a now tr d' = (e, d'')"
  shows "daemon_inv d''"
proof -
  have c: "core d' = core d" using core_select assms(3) by blast
  show ?thesis
    by (rule inv_startTunnel [OF inv_same [OF assms(1) c] _ assms(4)]) (use assms(2) core_tunnel [OF c] in simp)
qed

lemma inv_start_command: "daemon_inv d \<Longrightarrow> daemon_inv (snd (start_tunnel_command a now d))"
proof -
  assume i: "daemon_inv d"
  obtain r d1 where c: "checkLocalSSH a now d = (r, d1)" by (cases "checkLocalSSH a now d")
  have i1: "daemon_inv d1" using i core_check [OF c] by (rule inv_same)
  obtain tr d2 where s: "selectTransport now d1 = (tr, d2)" by (cases "selectTransport now d1")
  have i2: "daemon_inv d2" using i1 core_select [OF s] by (rule inv_same)
  obtain e d3 where o: "startTunnel a now tr d2 = (e, d3)" by (cases "startTunnel a now tr d2")
  show ?thesis
    unfolding start_tunnel_command_def c s o prod.case
    using i1 i2 inv_open [OF i1 _ s o]
    by (auto split: option.split)
qed

lemma inv_host_eq: "daemon_inv d \<Longrightarrow> at_host f d = (r, d') \<Longrightarrow> daemon_inv d'"
  by (rule inv_same [OF _ core_host_eq])

lemma inv_update: "daemon_inv d \<Longrightarrow> daemon_inv (snd (update_agent_command a p d))"
  unfolding update_agent_command_def Let_def
  by (auto split: option.split sum.split prod.split dest: inv_host_eq)

lemma inv_applyCommand:
  assumes i: "daemon_inv d" shows "daemon_inv (applyCommand a now c d)"
proof -
  have "daemon_inv (report_result a r (raise_generation g (snd (start_tunnel_command a now d))))" for r g
    by (intro inv_report inv_raise inv_start_command i)
  moreover have "daemon_inv (report_result a r (raise_generation g (stop_tunnel now d)))" for r g
    by (intro inv_report inv_raise inv_stop i)
  moreover have "daemon_inv (report_result a r (raise_generation g (snd (at_host f d))))" "daemon_inv (report_result a r (snd (at_host f d)))"
    for r g and f :: "host \<Rightarrow> string option \<times> host"
    by (intro inv_report inv_raise; simp add: inv_core [OF core_host] i)+
  moreover have "daemon_inv (snd (at_host f (report_result a r (snd (sendHeartbeat a False sd d)))))" for r sd and f :: "host \<Rightarrow> (bool \<times> string) \<times> host"
    unfolding inv_core [OF core_host] by (intro inv_report inv_sendHeartbeat i)
  moreover have "daemon_inv (report_result a r (snd (update_agent_command a p d)))" for r p
    by (intro inv_report inv_update i)
  moreover have "daemon_inv (report_result a r d)" for r by (intro inv_report i)
  ultimately show ?thesis
    unfolding applyCommand_def Let_def case_prod_unfold
    by (auto simp only: split: if_split option.split sum.split)
qed

lemma inv_fold: "daemon_inv d \<Longrightarrow> daemon_inv (fold (applyCommand a now) cs d)"
  by (induction cs arbitrary: d) (simp_all add: inv_applyCommand)


lemma inv_reconcile:
  assumes "daemon_inv d" shows "daemon_inv (reconcile a now d)"
proof -
  obtain q d1 where s: "sendHeartbeat a False None d = (q, d1)" by (cases "sendHeartbeat a False None d")
  have i1: "daemon_inv d1" using inv_sendHeartbeat [OF assms, of a False None] s by simp
  show ?thesis
  proof (cases q)
    case (Inl e) then show ?thesis using i1 s by (simp add: reconcile_def)
  next
    case (Inr resp)
    define d2 where "d2 = fold (applyCommand a now) (hr_commands resp) (confirmPendingUpdateAfterHeartbeat a
       (set_interval (hp_next_interval_seconds (hr_heartbeat resp))
         (applyDesiredProcessTitle (dc_process_title_config (hr_desired_config resp)) (d1\<lparr>da_desired := hr_desired_config resp\<rparr>))))"
    have i2: "daemon_inv d2"
      unfolding d2_def by (intro inv_fold) (simp add: inv_core [OF core_confirm] inv_core [OF core_interval]
          inv_core [OF core_titles] inv_core [OF core_set(8)] i1)
    obtain e d3 where c: "checkLocalSSH a now d2 = (e, d3)" by (cases "checkLocalSSH a now d2")
    have i3: "daemon_inv d3" "da_tunnel d3 = da_tunnel d2"
      using inv_same [OF i2 core_check [OF c]] core_tunnel [OF core_check [OF c]] by simp_all
    obtain tr d4 where t: "selectTransport now d3 = (tr, d4)" by (cases "selectTransport now d3")
    have i4: "daemon_inv d4" using i3(1) core_select [OF t] by (rule inv_same)
    obtain e' d5 where o: "startTunnel a now tr d4 = (e', d5)" by (cases "startTunnel a now tr d4")
    have rec: "reconcile a now d =
       (if hr_desired_state resp = ''active'' \<and> dc_tunnel_enabled (hr_desired_config resp) then
          (if da_tunnel d2 then d2
           else case e of Some e \<Rightarrow> d3 | None \<Rightarrow>
             if tr = [] then setLastError now ''no usable transport'' d4
             else case e' of Some e \<Rightarrow> setLastError now e d5 | None \<Rightarrow> d5)
        else stop_tunnel now d2)"
      unfolding reconcile_def s Inr prod.case sum.case Let_def d2_def [symmetric] c t o by (rule refl)
    show ?thesis
      unfolding rec using i2 i3 i4 inv_open [OF i3(1) _ t o] inv_stop [OF i2]
      by (cases "da_tunnel d2"; cases e; cases e'; cases "tr = []"; simp only: option.case if_True if_False
          inv_core [OF core_set(3)] not_False_eq_True split: if_split) auto
  qed
qed

lemma inv_event:
  assumes "daemon_inv d" "snd ev \<noteq> Cancelled" shows "daemon_inv (handle_event a ev d)"
proof (cases ev)
  case (Pair now e)
  show ?thesis
  proof (cases e)
    case (TunnelDone err cancelled)
    define d1 where "d1 = (case err of
                  Some e \<Rightarrow> if da_stopping d then setTunnel now ''stopped'' 0 [] [] d
                            else setLastError now e (setTunnel now ''failed'' 0 [] e d)
                | None \<Rightarrow> setTunnel now ''stopped'' 0 [] [] d)"
    have c1: "\<exists>s. core d1 = (da_tunnel d, s, da_sent d, da_applied d) \<and> \<not> connected s"
      unfolding d1_def by (auto simp: core_setTunnel core_simps connected_def split: option.split)
    then obtain s where s: "core (clearTunnelState d1) = (False, s, da_sent d, da_applied d)" "\<not> connected s"
      by (auto simp: core_def clearTunnelState_def)
    have i1: "daemon_inv (clearTunnelState d1)" unfolding inv_of_core [OF s(1)] using assms(1) s(2) by (simp add: daemon_inv_def)
    have i2: "daemon_inv (snd (nextTunnelRestartDelay b (clearTunnelState d1)))" for b
      using i1 inv_core [OF core_delay] by simp
    show ?thesis
      using Pair TunnelDone i1 i2 assms(1)
      by (simp add: handle_event_def tunnel_done_def Let_def d1_def [symmetric] inv_reconcile)
  next
    case Probe
    obtain r d' where c: "checkLocalSSH a now d = (r, d')" by (cases "checkLocalSSH a now d")
    then show ?thesis using Pair Probe inv_core [OF core_check [OF c]] assms(1) by (simp add: handle_event_def)
  next
    case Tick then show ?thesis using Pair by (simp add: handle_event_def inv_reconcile assms(1))
  qed (use assms(2) Pair in simp)
qed

lemma inv_run: "daemon_inv d \<Longrightarrow> \<forall>ev \<in> set evs. snd ev \<noteq> Cancelled \<Longrightarrow> daemon_inv (run_events a evs d)"
  unfolding run_events_def by (induction evs arbitrary: d) (simp_all add: inv_event)

end
