(* ===== verification/DaemonProps.thy ===== *)
theory DaemonProps
  imports DaemonFacts UpdateFacts
begin

text \<open>Properties of the agent's daemon.\<close>




definition example_config :: AgentConfig where
  "example_config =
     (let d = defaultConfig (\<lambda>_ d. d) in
      d\<lparr>ac_MachineID := ''m'', ac_Tunnel := (ac_Tunnel d)\<lparr>tu_HubHost := ''hub'', tu_TunnelUser := ''u'', tu_RemotePort := 9200,
          tu_restartMinDur := 5 * GoTime.second, tu_restartMaxDur := 2 * GoTime.minute\<rparr>,
        ac_LocalSSH := (ac_LocalSSH d)\<lparr>ls_probeDur := GoTime.second, ls_AuthFile := ''/a/keys''\<rparr>,
        ac_Heartbeat := \<lparr>he_Enabled = True, he_APIURL = ''u'', he_Token = ''t'', he_Interval = ''30s'', he_interval = GoTime.second\<rparr>\<rparr>)"

definition example_box :: host where
  "example_box = \<lparr>ho_files = [''/var/lib/reach/tunnel_key'' \<mapsto> ''k'', ''/etc/reach/known_hosts'' \<mapsto> ''[hub]:443 ssh-ed25519 A''],
     ho_log = [], ho_answer = (\<lambda>_ _. (True, ''ssh-'')), ho_listening = (\<lambda>_. False), ho_json = (\<lambda>_. None)\<rparr>"



subsection \<open>Restarts of the tunnel\<close>

definition min_delay :: "daemon \<Rightarrow> int" where
  "min_delay d = (let m = tu_restartMinDur (ac_Tunnel (da_cfg d)) in if m \<le> 0 then 5 * GoTime.second else m)"

definition max_delay :: "daemon \<Rightarrow> int" where
  "max_delay d = max (min_delay d) (tu_restartMaxDur (ac_Tunnel (da_cfg d)))"

definition failures :: "nat \<Rightarrow> daemon \<Rightarrow> daemon" where
  "failures k d = ((\<lambda>d. snd (nextTunnelRestartDelay False d)) ^^ k) d"

lemma min_delay_pos: "0 < min_delay d"
  by (simp add: min_delay_def Let_def GoTime.second_def)

lemma wrap64_id: "- 9223372036854775808 \<le> n \<Longrightarrow> n < 9223372036854775808 \<Longrightarrow> wrap64 n = n"
  by (simp add: wrap64_def)

lemma delay_eq: "nextTunnelRestartDelay longlived d =
    (let b = (if longlived \<or> da_backoff d \<le> 0 then min_delay d else nextBackoff (da_backoff d) (max_delay d)) in (b, d\<lparr>da_backoff := b\<rparr>))"
  by (simp add: nextTunnelRestartDelay_def min_delay_def max_delay_def Let_def max_def)

lemma failures_cfg: "da_cfg (failures k d) = da_cfg d"
  by (induction k) (simp_all add: failures_def delay_eq Let_def)

lemma failures_delays: "min_delay (failures k d) = min_delay d" "max_delay (failures k d) = max_delay d"
  by (simp_all add: min_delay_def max_delay_def failures_cfg)

lemma failures_backoff:
  assumes "da_backoff d \<le> 0" and "max_delay d < 4611686018427387904"
  shows "da_backoff (failures (Suc k) d) = min (min_delay d * 2 ^ k) (max_delay d)"
proof (induction k)
  case 0
  show ?case using assms(1) by (simp add: failures_def delay_eq Let_def max_delay_def)
next
  case (Suc k)
  let ?b = "da_backoff (failures (Suc k) d)"
  have pos: "0 < min_delay d * 2 ^ k" "0 < max_delay d" using min_delay_pos [of d] by (simp_all add: max_delay_def)
  then have b: "0 < ?b" "?b \<le> max_delay d" using Suc by auto
  have "failures (Suc (Suc k)) d = snd (nextTunnelRestartDelay False (failures (Suc k) d))" by (simp add: failures_def)
  then have "da_backoff (failures (Suc (Suc k)) d) = nextBackoff ?b (max_delay d)"
    using b(1) by (simp only: delay_eq Let_def failures_delays) simp
  also have "\<dots> = min (?b * 2) (max_delay d)"
  proof -
    have "wrap64 (?b * 2) = ?b * 2" using b assms(2) by (intro wrap64_id) auto
    then show ?thesis using b(1) by (simp add: nextBackoff_def Let_def min_def)
  qed
  also have "\<dots> = min (min_delay d * 2 ^ Suc k) (max_delay d)"
    using Suc pos by (simp add: min_def)
  finally show ?case .
qed

text \<open>After a start or a reset, the k-th failure in a row (from 0) is followed by a wait of the minimal delay
  times 2 to the k, capped at the maximal delay; a tunnel that lived for two minutes starts over.
  The bound keeps the doubling inside 64 bits.\<close>

theorem restart_delays:
  assumes "da_backoff d \<le> 0" and "max_delay d < 4611686018427387904"
  shows "fst (nextTunnelRestartDelay False (failures k d)) = min (min_delay d * 2 ^ k) (max_delay d) \<and>
    fst (nextTunnelRestartDelay True (failures k d)) = min_delay d"
proof -
  have "fst (nextTunnelRestartDelay False (failures k d)) = da_backoff (failures (Suc k) d)"
    by (simp add: failures_def delay_eq Let_def)
  then show ?thesis using failures_backoff [OF assms] failures_delays(1) [of k d] by (simp add: delay_eq Let_def)
qed

theorem restart_delays_witness:
  "fst (nextTunnelRestartDelay False (failures 2 (NewDaemon example_config None example_box))) = 20000000000"
proof -
  have "da_backoff (NewDaemon example_config None example_box) \<le> 0"
    "max_delay (NewDaemon example_config None example_box) < 4611686018427387904"
    "min_delay (NewDaemon example_config None example_box) = 5000000000"
    "max_delay (NewDaemon example_config None example_box) = 120000000000" by code_simp+
  then show ?thesis using restart_delays [of "NewDaemon example_config None example_box" 2] by simp
qed


subsection \<open>Keys\<close>















subsection \<open>What the agent loses or misreports\<close>

text \<open>The results of executed commands are taken out of the queue before they are sent: when a heartbeat
  fails they are in no later one.\<close>

lemma post_attempts_pending: "da_pending (snd (post_attempts a bg n hb d)) = da_pending d"
proof (induction a bg n hb d rule: post_attempts.induct)
  case (2 a bg n hb d)
  then show ?case by (cases bg) (auto simp: Let_def split: http_reply.split)
qed simp

theorem failed_heartbeat_loses_results:
  assumes "he_Enabled (ac_Heartbeat (da_cfg d))" "he_APIURL (ac_Heartbeat (da_cfg d)) \<noteq> []"
    "he_Token (ac_Heartbeat (da_cfg d)) \<noteq> []"
  shows "da_pending (snd (sendHeartbeat a bg sd (queueResult r d))) = []"
  using assms by (simp add: sendHeartbeat_def Let_def queueResult_def post_attempts_pending split: option.split)

text \<open>The heartbeat that announces the end of the process follows the end of the tunnel, but reports the
  state the tunnel had before.\<close>

lemma post_attempts_sent:
  "aw_net a (map fst (da_sent d)) hb = Answer 200 b \<Longrightarrow>
   da_sent (snd (post_attempts a bg (Suc n) hb d)) = da_sent d @ [(hb, da_tunnel d)]"
  by (simp add: Let_def)

theorem shutdown_reports_closed_tunnel:
  assumes "he_Enabled (ac_Heartbeat (da_cfg d))" "he_APIURL (ac_Heartbeat (da_cfg d)) \<noteq> []"
    "he_Token (ac_Heartbeat (da_cfg d)) \<noteq> []" "\<And>u. aw_url_error a u = None" "\<And>sent hb. aw_net a sent hb = Answer 200 b"
    and "ts_state (rs_Tunnel (da_status d)) = ''connected''"
  shows "\<exists>hb. da_sent (shutdown a reason remove d) = da_sent d @ [(hb, False)] \<and>
    ts_state (os_tunnel (hb_observed hb)) = ''connected''"
proof -
  let ?d = "stopTunnelProcess d"
  have cfg: "da_cfg ?d = da_cfg d" "da_status ?d = da_status d" "da_tunnel ?d = False" "da_sent ?d = da_sent d"
    by (simp_all add: stopTunnelProcess_def clearTunnelState_def at_host_def split: prod.split)
  let ?hb = "heartbeat_of a (da_pending ?d) (Some \<lparr>sd_reason = reason, sd_remove_files = remove\<rparr>) ?d"
  have "da_sent (shutdown a reason remove d) = da_sent d @ [(?hb, False)]"
    using assms(1-5) cfg post_attempts_sent [of a "?d\<lparr>da_pending := []\<rparr>" ?hb b True 2]
    by (simp add: shutdown_def sendHeartbeat_def Let_def numeral_3_eq_3 del: post_attempts.simps)
  moreover have "reported ?hb = ''connected''" using cfg(2) assms(6) by simp
  ultimately show ?thesis unfolding reported_def by blast
qed

text \<open>The fingerprints the agent reports are never those the hub sends for the same keys: they start with
  \<open>SHA256:\<close>, and the hub's are 16 characters of another alphabet.\<close>

lemma fingerprint_of_cases: "fingerprint_of sha ps = [] \<or> CHR '':'' \<in> set (fingerprint_of sha ps)"
  by (induction sha ps rule: fingerprint_of.induct) auto

theorem fingerprints_never_match:
  assumes "l_sha256 l key \<noteq> []"
  shows "publicKeyFingerprint sha line \<noteq> Fingerprint l key"
proof -
  have "CHR '':'' \<notin> set url_alphabet" by (simp add: url_alphabet_def)
  then have "CHR '':'' \<notin> set (b64_encode url_alphabet (l_sha256 l key))" using b64_encode_chars [of url_alphabet] by auto
  then have "CHR '':'' \<notin> set (Fingerprint l key)" unfolding Fingerprint_def by (meson in_set_takeD)
  moreover have "Fingerprint l key \<noteq> []"
  proof -
    obtain x xs where "l_sha256 l key = x # xs" using assms by (cases "l_sha256 l key") auto
    then have "b64_encode url_alphabet (l_sha256 l key) \<noteq> []"
      by (cases xs; cases "tl xs") (auto simp: b64_encode_def)
    then show ?thesis by (simp add: Fingerprint_def)
  qed
  ultimately show ?thesis unfolding publicKeyFingerprint_def using fingerprint_of_cases by metis
qed

end
