(* ===== verification/MacAgent.thy ===== *)
theory MacAgent
  imports UpdateFacts ApiAuth
begin

text \<open>
  The agent on the operator's machine (\<open>cmd/reach-mac-agent/main.go\<close>): it keeps a local copy of the
  hub's SSH configuration and an \<open>Include\<close> line for it, woken by the hub's event stream. What
  answers a request is a function of the requests made so far; an answer's body may break off. A
  file of the host may exist and not be readable. The YAML and JSON decoders are parameters.
  A write that fails leaves the temporary file empty.
\<close>

record MacConfig =
  mc_APIURL :: string
  mc_Token :: string
  mc_TokenFile :: string
  mc_OutFile :: string
  mc_SSHConfigFile :: string
  mc_InstallInclude :: bool

record mac_request =
  mq_method :: string
  mq_url :: string
  mq_headers :: "(string \<times> string) list"
  mq_body :: "(string \<times> string) list"

text \<open>A status, the bytes of the body that arrived, and the error that ended it.\<close>

datatype mac_reply = MacFailed string | MacReply nat string "string option"

record mac_env =
  me_home :: "string option"                                     \<comment> \<open>\<open>os.UserHomeDir\<close>\<close>
  me_hostname :: string                                          \<comment> \<open>empty when it cannot be found out\<close>
  me_getenv :: "string \<Rightarrow> string"
  me_unreadable :: "string \<Rightarrow> bool"
  me_fresh :: string                                             \<comment> \<open>the suffix of a temporary file\<close>
  me_url_error :: "string \<Rightarrow> string option"                       \<comment> \<open>\<open>http.NewRequest\<close>\<close>
  me_net :: "mac_request list \<Rightarrow> mac_request \<Rightarrow> mac_reply"
  me_cancelled :: "mac_request list \<Rightarrow> bool"                      \<comment> \<open>\<open>ctx.Err()\<close> after these requests\<close>
  me_token_of :: "string \<Rightarrow> string + string"                      \<comment> \<open>\<open>json.Unmarshal\<close>\<close>
  me_yaml :: "string \<Rightarrow> MacConfig \<Rightarrow> string + MacConfig"           \<comment> \<open>\<open>yaml.Unmarshal\<close>\<close>

record mac_state =
  ms_cfg :: MacConfig
  ms_last_id :: string
  ms_host :: host
  ms_sent :: "mac_request list"

subsection \<open>Files\<close>

definition mac_expandHome :: "mac_env \<Rightarrow> string \<Rightarrow> string" where
  "mac_expandHome e path =
     (if has_prefix path ''~/'' then
        (case me_home e of Some home \<Rightarrow> path_join [home, trim_prefix path ''~/''] | None \<Rightarrow> path)
      else path)"

text \<open>\<open>os.ReadFile\<close>; the error says whether the file does not exist.\<close>

definition mac_read :: "mac_env \<Rightarrow> string \<Rightarrow> host \<Rightarrow> bool \<times> string + string" where
  "mac_read e path h =
     (case ho_files h path of
        None \<Rightarrow> Inl (True, not_found ''open'' path)
      | Some c \<Rightarrow> if me_unreadable e path then Inl (False, ''open '' @ path @ '': permission denied'') else Inr c)"

definition mac_temp :: "mac_env \<Rightarrow> string \<Rightarrow> string" where
  "mac_temp e path = path_join [path_dir path, ''.tmp-'' @ me_fresh e]"

definition write_steps :: "string \<Rightarrow> string \<Rightarrow> string \<Rightarrow> host \<Rightarrow> string option \<times> host" where
  "write_steps tmp path content =
     and_then (os_call [''Write'', tmp] (\<lambda>h. h\<lparr>ho_files := (ho_files h)(tmp \<mapsto> content)\<rparr>))
    (and_then (os_call [''Chmod'', tmp, ''0600''] id)
    (and_then (os_call [''Close'', tmp] id)
              (rename_file tmp path)))"

definition writeAtomic :: "mac_env \<Rightarrow> string \<Rightarrow> string \<Rightarrow> host \<Rightarrow> string option \<times> host" where
  "writeAtomic e path0 content h =
     (let path = mac_expandHome e path0; tmp = mac_temp e path in
      case os_call [''MkdirAll'', path_dir path] id h of
        (Some err, h1) \<Rightarrow> (Some err, h1)
      | (None, h1) \<Rightarrow>
          case os_call [''CreateTemp'', tmp] (\<lambda>h. h\<lparr>ho_files := (ho_files h)(tmp \<mapsto> [])\<rparr>) h1 of
            (Some err, h2) \<Rightarrow> (Some err, h2)
          | (None, h2) \<Rightarrow>
              case write_steps tmp path content h2 of
                (r, h3) \<Rightarrow> (r, silently (unlink_file tmp) h3))"

subsection \<open>The line in the SSH configuration\<close>

definition include_line :: "string \<Rightarrow> string" where
  "include_line includePath = ''Include '' @ includePath"

definition is_our_include :: "mac_env \<Rightarrow> string \<Rightarrow> string \<Rightarrow> bool" where
  "is_our_include e includePath existing =
     (let trimmed = trim_space existing; inc = trim_space (trim_prefix trimmed ''Include '')
      in has_prefix trimmed ''Include '' \<and>
         (mac_expandHome e inc = includePath \<or> inc = ''~/.ssh/reach-tunnels.conf''))"

fun include_loop :: "(string \<Rightarrow> bool) \<Rightarrow> string \<Rightarrow> bool \<Rightarrow> string list \<Rightarrow> bool \<times> string list" where
  "include_loop ours line found [] = (found, [])"
| "include_loop ours line found (existing # rest) =
     (if ours existing then
        (case include_loop ours line True rest of (f, out) \<Rightarrow> (f, if found then out else line # out))
      else (case include_loop ours line found rest of (f, out) \<Rightarrow> (f, existing # out)))"

definition each_line :: "string list \<Rightarrow> string" where
  "each_line ls = concat (map (\<lambda>l. l @ [nl]) ls)"

definition include_text :: "mac_env \<Rightarrow> string \<Rightarrow> string \<Rightarrow> string" where
  "include_text e includePath b =
     (let line = include_line includePath in
      case include_loop (is_our_include e includePath) line False (split_on nl b) of
        (found, out) \<Rightarrow>
          if found then trim_right_of (\<lambda>c. c = nl) (each_line out)
          else each_line out @ (if b \<noteq> [] \<and> \<not> has_suffix b [nl] then [nl] else []) @ [nl] @ line @ [nl])"

text \<open>A file that cannot be read counts as empty.\<close>

definition ensureInclude :: "mac_env \<Rightarrow> string \<Rightarrow> string \<Rightarrow> host \<Rightarrow> string option \<times> host" where
  "ensureInclude e configPath0 includePath0 h =
     (let configPath = mac_expandHome e configPath0; includePath = mac_expandHome e includePath0 in
      case os_call [''MkdirAll'', path_dir configPath] id h of
        (Some err, h1) \<Rightarrow> (Some err, h1)
      | (None, h1) \<Rightarrow>
          (let b = (case mac_read e configPath h1 of Inr c \<Rightarrow> c | Inl _ \<Rightarrow> [])
           in writeAtomic e configPath (include_text e includePath b) h1))"

subsection \<open>Configuration\<close>

definition mac_envDefault :: "mac_env \<Rightarrow> string \<Rightarrow> string \<Rightarrow> string" where
  "mac_envDefault e k d = (if me_getenv e k \<noteq> [] then me_getenv e k else d)"

definition mac_defaultConfig :: "mac_env \<Rightarrow> MacConfig" where
  "mac_defaultConfig e =
     (let home = (case me_home e of Some h \<Rightarrow> h | None \<Rightarrow> []) in
      \<lparr>mc_APIURL = mac_envDefault e ''REACH_API_URL'' ''https://tunnels.your-domain.example'', mc_Token = [],
       mc_TokenFile = path_join [home, ''.config/reach/admin-token''], mc_OutFile = path_join [home, ''.ssh/reach-tunnels.conf''],
       mc_SSHConfigFile = path_join [home, ''.ssh/config''], mc_InstallInclude = True\<rparr>)"

definition mac_defaultConfigPath :: "mac_env \<Rightarrow> string" where
  "mac_defaultConfigPath e =
     path_join [case me_home e of Some h \<Rightarrow> h | None \<Rightarrow> [], ''.config/reach/mac-agent.yaml'']"

definition mac_loadConfig :: "mac_env \<Rightarrow> string \<Rightarrow> host \<Rightarrow> string + MacConfig" where
  "mac_loadConfig e path0 h =
     (let path = mac_expandHome e path0 in
      case mac_read e path h of
        Inl (notExist, err) \<Rightarrow> if notExist then Inr (mac_defaultConfig e) else Inl err
      | Inr b \<Rightarrow>
          (case me_yaml e b (mac_defaultConfig e) of
             Inl err \<Rightarrow> Inl err
           | Inr c0 \<Rightarrow>
               let c = c0\<lparr>mc_TokenFile := mac_expandHome e (mc_TokenFile c0), mc_OutFile := mac_expandHome e (mc_OutFile c0),
                          mc_SSHConfigFile := mac_expandHome e (mc_SSHConfigFile c0)\<rparr>;
                   c = (if mc_APIURL c = [] then
                          c\<lparr>mc_APIURL := mac_envDefault e ''REACH_API_URL'' ''https://tunnels.your-domain.example''\<rparr> else c)
               in if mc_OutFile c = [] \<or> mc_SSHConfigFile c = [] then Inl ''out_file and ssh_config_file are required''
                  else if mc_Token c = [] \<and> mc_TokenFile c = [] then Inl ''token or token_file is required''
                  else Inr c))"

definition mac_token :: "mac_env \<Rightarrow> MacConfig \<Rightarrow> host \<Rightarrow> string" where
  "mac_token e c h =
     (case (if mc_TokenFile c = [] then None else Some (mac_read e (mac_expandHome e (mc_TokenFile c)) h)) of
        Some (Inr b) \<Rightarrow> trim_space b
      | _ \<Rightarrow> mc_Token c)"

subsection \<open>Requests\<close>

definition mac_url :: "MacConfig \<Rightarrow> string \<Rightarrow> string" where
  "mac_url c path = trim_right_chars (mc_APIURL c) ''/'' @ path"

text \<open>Building the request may fail; then nothing is sent.\<close>

definition mac_do :: "mac_env \<Rightarrow> mac_request \<Rightarrow> mac_state \<Rightarrow> mac_reply \<times> mac_state" where
  "mac_do e r s =
     (case me_url_error e (mq_url r) of
        Some err \<Rightarrow> (MacFailed err, s)
      | None \<Rightarrow> (me_net e (ms_sent s) r, s\<lparr>ms_sent := ms_sent s @ [r]\<rparr>))"

definition mac_get :: "mac_env \<Rightarrow> string \<Rightarrow> (string \<times> string) list \<Rightarrow> mac_state \<Rightarrow> mac_request" where
  "mac_get e path headers s =
     \<lparr>mq_method = ''GET'', mq_url = mac_url (ms_cfg s) path,
      mq_headers = headers @ [(''Authorization'', ''Bearer '' @ mac_token e (ms_cfg s) (ms_host s))], mq_body = []\<rparr>"

definition mac_host :: "(host \<Rightarrow> 'r \<times> host) \<Rightarrow> mac_state \<Rightarrow> 'r \<times> mac_state" where
  "mac_host f s = (case f (ms_host s) of (r, h) \<Rightarrow> (r, s\<lparr>ms_host := h\<rparr>))"

text \<open>The first 2 MiB of the body count, and an error that ends the body is ignored.\<close>

definition sync_files :: "mac_env \<Rightarrow> MacConfig \<Rightarrow> string \<Rightarrow> host \<Rightarrow> string option \<times> host" where
  "sync_files e c body =
     and_then (writeAtomic e (mc_OutFile c) body)
       (if mc_InstallInclude c then ensureInclude e (mc_SSHConfigFile c) (mc_OutFile c) else fail_with None)"

definition Sync :: "mac_env \<Rightarrow> mac_state \<Rightarrow> string option \<times> mac_state" where
  "Sync e s =
     (case mac_do e (mac_get e ''/api/admin/ssh-config'' [] s) s of
        (MacFailed err, s1) \<Rightarrow> (Some err, s1)
      | (MacReply status body _, s1) \<Rightarrow>
          (let body = take 2097152 body in
           if status div 100 \<noteq> 2 then
             (Some (''ssh-config returned '' @ show_nat status @ '': '' @ trim_space body), s1)
           else mac_host (sync_files e (ms_cfg s1) body) s1))"

definition service_label :: "mac_env \<Rightarrow> string" where
  "service_label e = take 64 (''reach-mac-agent'' @ (if me_hostname e \<noteq> [] then '':'' @ me_hostname e else []))"

definition ensureServiceToken :: "mac_env \<Rightarrow> mac_state \<Rightarrow> mac_state" where
  "ensureServiceToken e s =
     (let tok = mac_token e (ms_cfg s) (ms_host s) in
      if tok = [] \<or> has_prefix tok ''sat_'' \<or> mc_TokenFile (ms_cfg s) = [] then s
      else case mac_do e \<lparr>mq_method = ''POST'', mq_url = mac_url (ms_cfg s) ''/api/admin/service-tokens'',
                   mq_headers = [(''Content-Type'', ''application/json''), (''Authorization'', ''Bearer '' @ tok)],
                   mq_body = [(''label'', service_label e), (''role'', ''mac-agent'')]\<rparr> s of
          (MacFailed _, s1) \<Rightarrow> s1
        | (MacReply status body _, s1) \<Rightarrow>
            if status div 100 \<noteq> 2 then s1
            else case me_token_of e (take 1048576 body) of
                Inl _ \<Rightarrow> s1
              | Inr t \<Rightarrow>
                  if t = [] then s1
                  else case mac_host (writeAtomic e (mc_TokenFile (ms_cfg s1)) (t @ [nl])) s1 of
                      (Some _, s2) \<Rightarrow> s2
                    | (None, s2) \<Rightarrow> s2\<lparr>ms_cfg := (ms_cfg s2)\<lparr>mc_Token := []\<rparr>\<rparr>)"

subsection \<open>The event stream\<close>

record SseEvent =
  se_ID :: string
  se_Type :: string
  se_Data :: string

text \<open>The event being read and its data lines so far.\<close>

type_synonym sse_partial = "SseEvent \<times> string list"

definition no_event :: sse_partial where
  "no_event = (\<lparr>se_ID = [], se_Type = [], se_Data = []\<rparr>, [])"

definition sse_line :: "sse_partial \<Rightarrow> string \<Rightarrow> sse_partial \<times> SseEvent option" where
  "sse_line p line =
     (case p of (ev, ds) \<Rightarrow>
        if line = [] then
          (no_event,
           if se_Type ev \<noteq> [] \<or> ds \<noteq> [] then
             Some (ev\<lparr>se_Data := join [nl] ds, se_Type := (if se_Type ev = [] then ''message'' else se_Type ev)\<rparr>)
           else None)
        else if has_prefix line '':'' then (p, None)
        else case cut (CHR '':'') line of
            None \<Rightarrow> (p, None)
          | Some (k, v0) \<Rightarrow>
              (let v = trim_prefix v0 '' '' in
               ((if k = ''id'' then (ev\<lparr>se_ID := v\<rparr>, ds)
                 else if k = ''event'' then (ev\<lparr>se_Type := v\<rparr>, ds)
                 else if k = ''data'' then (ev, ds @ [v])
                 else p), None)))"

text \<open>The loop over the lines; \<open>stop\<close> is the context's end, \<open>f\<close> the callback.\<close>

fun sse_loop :: "('s \<Rightarrow> bool) \<Rightarrow> (SseEvent \<Rightarrow> 's \<Rightarrow> 's) \<Rightarrow> sse_partial \<Rightarrow> string list \<Rightarrow> 's \<Rightarrow> bool \<times> 's" where
  "sse_loop stop f p [] s = (False, s)"
| "sse_loop stop f p (l # ls) s =
     (if stop s then (True, s)
      else case sse_line p l of
          (p', None) \<Rightarrow> sse_loop stop f p' ls s
        | (p', Some ev) \<Rightarrow> sse_loop stop f p' ls (f ev s))"

definition parseSSE ::
  "('s \<Rightarrow> bool) \<Rightarrow> (SseEvent \<Rightarrow> 's \<Rightarrow> 's) \<Rightarrow> string \<Rightarrow> string option \<Rightarrow> 's \<Rightarrow> string option \<times> 's" where
  "parseSSE stop f body broken s =
     (case scan_lines body of (ls, too_long) \<Rightarrow>
        case sse_loop stop f no_event ls s of
          (True, s') \<Rightarrow> (Some ''context canceled'', s')
        | (False, s') \<Rightarrow> (if too_long then Some ''bufio.Scanner: token too long'' else broken, s'))"

definition stateDir :: "mac_env \<Rightarrow> MacConfig \<Rightarrow> string" where
  "stateDir e c = path_join [path_dir (mac_expandHome e (mc_OutFile c)), ''.reach-state'']"

definition last_id_path :: "mac_env \<Rightarrow> MacConfig \<Rightarrow> string" where
  "last_id_path e c = path_join [stateDir e c, ''last-event-id'']"

definition readLastEventID :: "mac_env \<Rightarrow> MacConfig \<Rightarrow> host \<Rightarrow> string" where
  "readLastEventID e c h = (case mac_read e (last_id_path e c) h of Inl _ \<Rightarrow> [] | Inr b \<Rightarrow> trim_space b)"

definition writeLastEventID :: "mac_env \<Rightarrow> MacConfig \<Rightarrow> string \<Rightarrow> host \<Rightarrow> host" where
  "writeLastEventID e c i h =
     silently (write_file (last_id_path e c) (i @ [nl])) (silently (os_call [''MkdirAll'', stateDir e c] id) h)"

definition sync_events :: "string list" where
  "sync_events = [''ssh_config.changed'', ''machine.created'', ''machine.desired_changed'', ''machine.observed_changed'',
     ''machine.online'', ''machine.degraded'', ''machine.offline'', ''machine.gone'', ''machine.disabled'',
     ''machine.enabled'', ''machine.retiring'', ''machine.retired'']"

definition on_event :: "mac_env \<Rightarrow> SseEvent \<Rightarrow> mac_state \<Rightarrow> mac_state" where
  "on_event e ev s0 =
     (let s = (if se_ID ev \<noteq> [] \<and> se_ID ev \<noteq> ''0'' then
                 s0\<lparr>ms_last_id := se_ID ev, ms_host := writeLastEventID e (ms_cfg s0) (se_ID ev) (ms_host s0)\<rparr>
               else s0)
      in if se_Type ev \<in> set sync_events then snd (Sync e s) else s)"

definition mac_stream :: "mac_env \<Rightarrow> mac_state \<Rightarrow> string option \<times> mac_state" where
  "mac_stream e s =
     (case mac_do e (mac_get e ''/api/admin/events''
              ([(''Accept'', ''text/event-stream'')] @ (if ms_last_id s \<noteq> [] then [(''Last-Event-ID'', ms_last_id s)] else [])) s) s of
        (MacFailed err, s1) \<Rightarrow> (Some err, s1)
      | (MacReply status body broken, s1) \<Rightarrow>
          if status div 100 \<noteq> 2 then
            (Some (''events returned '' @ show_nat status @ '': '' @ trim_space (take 2048 body)), s1)
          else parseSSE (\<lambda>s. me_cancelled e (ms_sent s)) (on_event e) body broken s1)"

subsection \<open>The loop\<close>

text \<open>One round of \<open>Run\<close>: what it waits afterwards (nothing when it was cancelled) and the next delay.\<close>

definition mac_round :: "mac_env \<Rightarrow> int \<times> mac_state \<Rightarrow> int option \<times> int \<times> mac_state" where
  "mac_round e = (\<lambda>(backoff, s).
     case Sync e s of (r, s1) \<Rightarrow>
       (let b = (if r = None then GoTime.second else backoff) in
        case mac_stream e s1 of (_, s2) \<Rightarrow>
          if me_cancelled e (ms_sent s2) then (None, b, s2)
          else (Some b, (if b < 30 * GoTime.second then 2 * b else b), s2)))"

text \<open>At most so many rounds: the waits between them and the state after them.\<close>

fun mac_rounds :: "mac_env \<Rightarrow> nat \<Rightarrow> int \<times> mac_state \<Rightarrow> int list \<times> int \<times> mac_state" where
  "mac_rounds e 0 x = ([], x)"
| "mac_rounds e (Suc n) x =
     (if me_cancelled e (ms_sent (snd x)) then ([], x)
      else case mac_round e x of
          (None, x') \<Rightarrow> ([], x')
        | (Some w, x') \<Rightarrow> (case mac_rounds e n x' of (ws, y) \<Rightarrow> (w # ws, y)))"

definition mac_start :: "mac_env \<Rightarrow> mac_state \<Rightarrow> int \<times> mac_state" where
  "mac_start e s = (GoTime.second, s\<lparr>ms_last_id := readLastEventID e (ms_cfg s) (ms_host s)\<rparr>)"

text \<open>\<open>run\<close> with its flags: \<open>--once\<close> synchronises once, otherwise the loop runs, here for at most \<open>n\<close> rounds.\<close>

definition mac_run :: "mac_env \<Rightarrow> nat \<Rightarrow> string \<Rightarrow> bool \<Rightarrow> host \<Rightarrow> string + string option \<times> mac_state" where
  "mac_run e n cfgPath once h =
     (case mac_loadConfig e cfgPath h of
        Inl err \<Rightarrow> Inl err
      | Inr c \<Rightarrow>
          (let s = ensureServiceToken e \<lparr>ms_cfg = c, ms_last_id = [], ms_host = h, ms_sent = []\<rparr>
           in Inr (if once then Sync e s
                   else case mac_rounds e n (mac_start e s) of
                       (_, _, s') \<Rightarrow> (if me_cancelled e (ms_sent s') then Some ''context canceled'' else None, s'))))"

end
