(* ===== verification/MacFacts.thy ===== *)
theory MacFacts
  imports MacAgent
begin

text \<open>
  What the operator's agent does to its files: a file is replaced as a whole or not at all
  (\<open>writeAtomic_target\<close>), and what \<open>include_text\<close> makes of an SSH configuration, line by line.
\<close>

subsection \<open>Replacing a file\<close>

lemma and_then_call:
  assumes "and_then (os_call a f) g h = (r, h')"
  obtains (failed) err where "r = Some err" "ho_files h' = ho_files h"
  | (went_on) k where "ho_files k = ho_files h" "g (f k) = (r, h')"
proof -
  obtain ok out k where d: "host_do a h = ((ok, out), k)" by (metis surj_pair)
  show thesis
    using assms d host_do_files_eq [OF d] that
    by (cases ok) (auto simp: and_then_def os_call_def)
qed

lemma write_steps_target:
  assumes "write_steps tmp path c h = (r, h')" and "tmp \<noteq> path"
  shows "(r = None \<and> ho_files h' path = Some c) \<or> (r \<noteq> None \<and> ho_files h' path = ho_files h path)"
  using assms unfolding write_steps_def
  by (elim and_then_call; simp add: rename_file_def) (auto elim!: os_call_cases)

lemma write_steps_frame:
  assumes "write_steps tmp path c h = (r, h')" and "x \<noteq> tmp" "x \<noteq> path"
  shows "ho_files h' x = ho_files h x"
  using assms unfolding write_steps_def
  by (elim and_then_call; simp add: rename_file_def) (auto elim!: os_call_cases)

lemma writeAtomic_steps:
  assumes "writeAtomic e p c h = (r, h')"
  defines "path \<equiv> mac_expandHome e p"
  defines "tmp \<equiv> mac_temp e path"
  obtains (failed) err where "r = Some err" "ho_files h' = ho_files h"
  | (written) k k' where "ho_files k = (ho_files h)(tmp \<mapsto> [])" "write_steps tmp path c k = (r, k')"
      "h' = silently (unlink_file tmp) k'"
proof -
  obtain q1 k1 where 1: "os_call [''MkdirAll'', path_dir path] id h = (q1, k1)" by (rule prod.exhaust)
  have f1: "ho_files k1 = ho_files h" using os_call_id [of _ h] 1 by (metis snd_conv)
  obtain q2 k2 where 2: "os_call [''CreateTemp'', tmp] (\<lambda>h. h\<lparr>ho_files := (ho_files h)(tmp \<mapsto> [])\<rparr>) k1 = (q2, k2)"
    by (rule prod.exhaust)
  obtain q3 k3 where 3: "write_steps tmp path c k2 = (q3, k3)" by (rule prod.exhaust)
  have f2: "q2 = None \<Longrightarrow> ho_files k2 = (ho_files h)(tmp \<mapsto> [])" "q2 = Some err \<Longrightarrow> ho_files k2 = ho_files h" for err
    using 2 f1 by (auto elim!: os_call_cases)
  have run: "writeAtomic e p c h = (case q1 of Some err \<Rightarrow> (Some err, k1) | None \<Rightarrow> (case q2 of Some err \<Rightarrow> (Some err, k2)
      | None \<Rightarrow> (q3, silently (unlink_file tmp) k3)))"
    unfolding writeAtomic_def Let_def path_def [symmetric] tmp_def [symmetric] using 1 2 3 by (simp split: option.split)
  show thesis
  proof (cases q1)
    case (Some err)
    then show thesis using run assms(1) f1 failed by simp
  next
    case q1: None
    show thesis
    proof (cases q2)
      case (Some err)
      then show thesis using run assms(1) q1 f2(2) failed by simp
    next
      case None
      then have "r = q3" "h' = silently (unlink_file tmp) k3" using run assms(1) q1 by simp_all
      then show thesis using written [OF f2(1)] None 3 by simp
    qed
  qed
qed

lemma unlink_frame: "x \<noteq> tmp \<Longrightarrow> ho_files (silently (unlink_file tmp) h) x = ho_files h x"
  by (rule silently_files [where p = "\<lambda>y. y = tmp"]) (auto intro: only_remove)

lemma writeAtomic_target:
  assumes "writeAtomic e p c h = (r, h')" and "mac_temp e (mac_expandHome e p) \<noteq> mac_expandHome e p"
  shows "(r = None \<and> ho_files h' (mac_expandHome e p) = Some c) \<or>
    (r \<noteq> None \<and> ho_files h' (mac_expandHome e p) = ho_files h (mac_expandHome e p))"
  using assms(1)
proof (cases rule: writeAtomic_steps)
  case (written k k')
  then show ?thesis using write_steps_target [OF written(2) assms(2)] assms(2) by (simp add: unlink_frame)
qed simp

lemma only_writeAtomic [file_frames]:
  assumes "p (mac_expandHome e path)" "p (mac_temp e (mac_expandHome e path))"
  shows "only_files p (writeAtomic e path c)"
  unfolding only_files_def
proof (intro allI impI)
  fix h x assume "\<not> p x"
  then have "x \<noteq> mac_expandHome e path" "x \<noteq> mac_temp e (mac_expandHome e path)" using assms by auto
  moreover obtain r h' where w: "writeAtomic e path c h = (r, h')" by (rule prod.exhaust)
  ultimately show "ho_files (snd (writeAtomic e path c h)) x = ho_files h x"
    using w by (cases rule: writeAtomic_steps [OF w]) (auto simp: unlink_frame dest: write_steps_frame)
qed

lemma only_ensureInclude [file_frames]:
  assumes "p (mac_expandHome e (mac_expandHome e cp))" "p (mac_temp e (mac_expandHome e (mac_expandHome e cp)))"
  shows "only_files p (ensureInclude e cp ip)"
  unfolding only_files_def
proof (intro allI impI)
  fix h x assume x: "\<not> p x"
  obtain q k where q: "os_call [''MkdirAll'', path_dir (mac_expandHome e cp)] id h = (q, k)"
    by (cases "os_call [''MkdirAll'', path_dir (mac_expandHome e cp)] id h")
  have k: "ho_files k = ho_files h" using os_call_id [of _ h] q by (metis snd_conv)
  show "ho_files (snd (ensureInclude e cp ip h)) x = ho_files h x"
    using only_writeAtomic [of p e "mac_expandHome e cp", OF assms] x
    by (auto simp: ensureInclude_def Let_def q k only_files_def split: option.split)
qed

lemma only_sync_files:
  assumes "p (mac_expandHome e (mc_OutFile c))" "p (mac_temp e (mac_expandHome e (mc_OutFile c)))"
    and "mc_InstallInclude c \<longrightarrow> p (mac_expandHome e (mac_expandHome e (mc_SSHConfigFile c))) \<and>
       p (mac_temp e (mac_expandHome e (mac_expandHome e (mc_SSHConfigFile c))))"
  shows "only_files p (sync_files e c body)"
proof -
  have "only_files p (fail_with None)" by (simp add: only_files_def fail_with_def)
  then show ?thesis unfolding sync_files_def using assms
    by (intro only_and_then only_writeAtomic) (auto intro: only_ensureInclude)
qed

subsection \<open>Where every call succeeds\<close>

lemma tame_call: "ho_answer h = (\<lambda>_ _. (True, [])) \<Longrightarrow> os_call a f h = (None, f (h\<lparr>ho_log := ho_log h @ [a]\<rparr>))"
  by (simp add: os_call_def host_do_def)

lemma tame_write:
  assumes "ho_answer h = (\<lambda>_ _. (True, []))"
  shows "\<exists>h'. writeAtomic e p c h = (None, h') \<and> ho_answer h' = ho_answer h"
  using assms by (simp add: writeAtomic_def write_steps_def and_then_def rename_file_def silently_def unlink_file_def
      tame_call Let_def)

lemma tame_include:
  assumes "ho_answer h = (\<lambda>_ _. (True, []))"
  shows "\<exists>h'. ensureInclude e cp ip h = (None, h') \<and> ho_answer h' = ho_answer h"
  using assms tame_write [of "h\<lparr>ho_log := ho_log h @ [a]\<rparr>" for a]
  by (simp add: ensureInclude_def tame_call Let_def)

lemma tame_Sync:
  assumes "ho_answer (ms_host s) = (\<lambda>_ _. (True, []))" "me_url_error e = (\<lambda>_. None)"
    "me_net e (ms_sent s) (mac_get e ''/api/admin/ssh-config'' [] s) = MacReply status body broken" "status div 100 = 2"
  shows "\<exists>s'. Sync e s = (None, s') \<and> ho_answer (ms_host s') = ho_answer (ms_host s)"
proof -
  obtain h1 where 1: "writeAtomic e (mc_OutFile (ms_cfg s)) (take 2097152 body) (ms_host s) = (None, h1)"
    "ho_answer h1 = ho_answer (ms_host s)" using tame_write assms(1) by blast
  obtain h2 where 2: "(if mc_InstallInclude (ms_cfg s) then ensureInclude e (mc_SSHConfigFile (ms_cfg s)) (mc_OutFile (ms_cfg s))
      else fail_with None) h1 = (None, h2)" "ho_answer h2 = ho_answer h1"
    using tame_include [of h1 e "mc_SSHConfigFile (ms_cfg s)" "mc_OutFile (ms_cfg s)"] 1(2) assms(1)
    by (cases "mc_InstallInclude (ms_cfg s)") (auto simp: fail_with_def)
  have "sync_files e (ms_cfg s) (take 2097152 body) (ms_host s) = (None, h2)"
    using 1(1) 2(1) by (simp add: sync_files_def and_then_def)
  then show ?thesis using assms 1(2) 2(2) by (simp add: Sync_def mac_do_def mac_host_def Let_def)
qed

subsection \<open>The lines of the SSH configuration\<close>

lemma include_loop_spec:
  assumes "ours line"
  shows "include_loop ours line f ls = (f', out) \<Longrightarrow>
    f' = (f \<or> (\<exists>l \<in> set ls. ours l)) \<and>
    filter (\<lambda>l. \<not> ours l) out = filter (\<lambda>l. \<not> ours l) ls \<and>
    filter ours out = (if f' \<and> \<not> f then [line] else []) \<and> set out \<subseteq> insert line (set ls)"
proof (induction ls arbitrary: f f' out)
  case (Cons l ls)
  show ?case
  proof (cases "ours l")
    case True
    obtain out1 where "include_loop ours line True ls = (f', out1)" "out = (if f then out1 else line # out1)"
      using Cons.prems True by (auto split: prod.splits)
    with Cons.IH [of True f' out1] True assms show ?thesis by auto
  next
    case False
    obtain out1 where "include_loop ours line f ls = (f', out1)" "out = l # out1"
      using Cons.prems False by (auto split: prod.splits)
    with Cons.IH [of f f' out1] False show ?thesis by (auto split: if_splits)
  qed
qed auto

text \<open>A text with our line in it once is left as it is.\<close>

lemma include_loop_none: "\<forall>l \<in> set ls. \<not> ours l \<Longrightarrow> include_loop ours line f ls = (f, ls)"
  by (induction ls) auto

lemma include_loop_fix:
  "filter ours ls = [line] \<Longrightarrow> include_loop ours line False ls = (True, ls)"
proof (induction ls)
  case (Cons l ls)
  show ?case
  proof (cases "ours l")
    case True
    then have "l = line" "\<forall>l \<in> set ls. \<not> ours l" using Cons.prems by (auto simp: filter_empty_conv)
    then show ?thesis using True include_loop_none [of ls ours line True] by simp
  next
    case False
    then have "include_loop ours line False ls = (True, ls)" using Cons by simp
    then show ?thesis using False by simp
  qed
qed simp

definition strip_blank :: "string list \<Rightarrow> string list" where
  "strip_blank ls = rev (dropWhile (\<lambda>l. l = []) (rev ls))"

lemma each_line_snoc: "each_line (ls @ [x]) = each_line ls @ x @ [nl]"
  by (simp add: each_line_def)

lemma each_line_join: "ls \<noteq> [] \<Longrightarrow> each_line ls = join [nl] ls @ [nl]"
  by (induction "[nl]" ls rule: join.induct) (simp_all add: each_line_def)

lemma trim_each_line:
  "\<forall>l \<in> set ls. nl \<notin> set l \<Longrightarrow> trim_right_of (\<lambda>c. c = nl) (each_line ls) = join [nl] (strip_blank ls)"
proof (induction ls rule: rev_induct)
  case (snoc x ls)
  show ?case
  proof (cases "x = []")
    case True
    then have "trim_right_of (\<lambda>c. c = nl) (each_line (ls @ [x])) = trim_right_of (\<lambda>c. c = nl) (each_line ls)"
      by (simp add: each_line_snoc trim_right_of_def)
    then show ?thesis using snoc True by (simp add: strip_blank_def)
  next
    case False
    then have "last x \<noteq> nl" using snoc.prems by (metis UnCI last_in_set list.set_intros(1) set_append)
    then have "trim_right_of (\<lambda>c. c = nl) (each_line ls @ x @ [nl]) = each_line ls @ x"
      using False by (cases x rule: rev_cases) (simp_all add: trim_right_of_def)
    moreover have "each_line ls @ x = join [nl] (ls @ [x])"
      using each_line_join [of "ls @ [x]"] by (simp add: each_line_snoc)
    ultimately show ?thesis using False by (simp add: each_line_snoc strip_blank_def)
  qed
qed (simp add: each_line_def trim_right_of_def strip_blank_def)

lemma strip_blank_filter: "filter (\<lambda>l. l \<noteq> [] \<and> q l) (strip_blank ls) = filter (\<lambda>l. l \<noteq> [] \<and> q l) ls"
  by (induction ls rule: rev_induct) (simp_all add: strip_blank_def)

lemma strip_blank_last: "strip_blank ls \<noteq> [] \<Longrightarrow> last (strip_blank ls) \<noteq> []"
  unfolding strip_blank_def by (metis (mono_tags, lifting) hd_dropWhile last_rev rev_is_Nil_conv)

lemma strip_blank_idem: "ls = [] \<or> last ls \<noteq> [] \<Longrightarrow> strip_blank ls = ls"
  by (cases ls rule: rev_cases) (simp_all add: strip_blank_def)

end
