(* ===== verification/MacProps.thy ===== *)
theory MacProps
  imports MacFacts Examples
begin

text \<open>
  Properties of the operator's agent: it understands the hub's event stream (\<open>understands_hub\<close>), its
  copy of the SSH configuration is replaced as a whole (\<open>copy_replaced_whole\<close>), its line in the
  SSH configuration is there once and the other lines stay (\<open>include_once\<close>), its requests stay
  within its role (\<open>requests_within_role\<close>).
\<close>

subsection \<open>The lines of the hub's stream\<close>










lemma retry_lines: "''retry: 2000'' @ [nl, nl] = each_line [''retry: 2000'', []]"
  by (simp add: each_line_def)





subsection \<open>The parser on them\<close>











subsection \<open>The stream as the hub writes it\<close>














subsection \<open>The copy of the configuration\<close>

text \<open>A hub that answers with a small configuration and a stream of one event, twice.\<close>

definition example_mac :: mac_env where
  "example_mac = \<lparr>me_home = Some ''/h'', me_hostname = ''mac'', me_getenv = (\<lambda>_. []), me_unreadable = (\<lambda>_. False),
     me_fresh = ''7'', me_url_error = (\<lambda>_. None),
     me_net = (\<lambda>sent r. if has_suffix (mq_url r) ''/ssh-config'' then MacReply 200 ''Host box'' None
                         else MacReply 200 (writeSSE \<lparr>ev_id = ''5'', ev_type = ''machine.online'', ev_machine_id = [],
                                              ev_data = [], ev_created_at = []\<rparr>) None),
     me_cancelled = (\<lambda>sent. 5 \<le> length sent), me_token_of = (\<lambda>_. Inr ''sat_x''), me_yaml = (\<lambda>_ c. Inr c)\<rparr>"

definition example_mac_state :: mac_state where
  "example_mac_state = \<lparr>ms_cfg = mac_defaultConfig example_mac, ms_last_id = [], ms_host = example_host, ms_sent = []\<rparr>"



text \<open>An answer whose body breaks off counts as complete: the copy is replaced by the part that came.\<close>

theorem broken_body_copied:
  assumes "ho_answer (ms_host s) = (\<lambda>_ _. (True, []))" "me_url_error e = (\<lambda>_. None)"
    and net: "me_net e (ms_sent s) (mac_get e ''/api/admin/ssh-config'' [] s) = MacReply 200 body (Some ''unexpected EOF'')"
    and "\<not> mc_InstallInclude (ms_cfg s)"
    and ne: "mac_temp e (mac_expandHome e (mc_OutFile (ms_cfg s))) \<noteq> mac_expandHome e (mc_OutFile (ms_cfg s))"
  shows "\<exists>s'. Sync e s = (None, s') \<and> ho_files (ms_host s') (mac_expandHome e (mc_OutFile (ms_cfg s))) = Some (take 2097152 body)"
proof -
  obtain h where "writeAtomic e (mc_OutFile (ms_cfg s)) (take 2097152 body) (ms_host s) = (None, h)"
    using tame_write assms(1) by blast
  then show ?thesis using assms writeAtomic_target [OF _ ne, of "take 2097152 body" "ms_host s" None h]
    by (simp add: Sync_def mac_do_def mac_host_def sync_files_def and_then_def fail_with_def Let_def)
qed

subsection \<open>The line in the SSH configuration\<close>

definition plain_path :: "mac_env \<Rightarrow> string \<Rightarrow> bool" where
  "plain_path e p \<longleftrightarrow> p \<noteq> [] \<and> nl \<notin> set p \<and> trim_space p = p \<and> mac_expandHome e p = p"






text \<open>A configuration that exists and cannot be read is replaced by our line alone.\<close>

theorem unreadable_config_lost:
  assumes run: "ensureInclude e cp ip h = (None, h')" and unreadable: "me_unreadable e (mac_expandHome e cp)"
    and ip: "plain_path e ip" and cp: "mac_expandHome e (mac_expandHome e cp) = mac_expandHome e cp"
    and ne: "mac_temp e (mac_expandHome e cp) \<noteq> mac_expandHome e cp"
  shows "ho_files h' (mac_expandHome e cp) = Some ([nl, nl] @ include_line ip @ [nl])"
proof -
  obtain q k where q: "os_call [''MkdirAll'', path_dir (mac_expandHome e cp)] id h = (q, k)" by (rule prod.exhaust)
  have "\<exists>x. mac_read e (mac_expandHome e cp) k = Inl x"
    using unreadable by (cases "mac_read e (mac_expandHome e cp) k") (auto simp: mac_read_def split: option.splits)
  then obtain x where "mac_read e (mac_expandHome e cp) k = Inl x" by blast
  moreover have "include_text e ip [] = [nl, nl] @ include_line ip @ [nl]"
    by (simp add: include_text_def is_our_include_def has_prefix_def trim_space_def each_line_def)
  moreover have "mac_expandHome e ip = ip" using ip by (simp add: plain_path_def)
  ultimately have "writeAtomic e (mac_expandHome e cp) ([nl, nl] @ include_line ip @ [nl]) k = (None, h')"
    using run q by (cases q) (simp_all add: ensureInclude_def Let_def)
  then show ?thesis using writeAtomic_target [of e "mac_expandHome e cp"] ne unfolding cp by blast
qed

subsection \<open>The requests and the waits\<close>

definition role_request :: "MacConfig \<Rightarrow> mac_request \<Rightarrow> bool" where
  "role_request c r \<longleftrightarrow> mq_method r = ''GET'' \<and>
     (\<exists>path. mq_url r = mac_url c path \<and> adminRoleAllowed ''mac-agent'' path)"

definition within_role :: "mac_state \<Rightarrow> mac_state \<Rightarrow> bool" where
  "within_role s s' \<longleftrightarrow> ms_cfg s' = ms_cfg s \<and> (\<exists>rs. ms_sent s' = ms_sent s @ rs \<and> (\<forall>r \<in> set rs. role_request (ms_cfg s) r))"

lemma within_refl: "within_role s s"
  by (simp add: within_role_def)

lemma within_trans: "within_role s t \<Longrightarrow> within_role t u \<Longrightarrow> within_role s u"
  by (fastforce simp: within_role_def)

lemma within_same: "ms_cfg s' = ms_cfg s \<Longrightarrow> ms_sent s' = ms_sent s \<Longrightarrow> within_role s s'"
  by (simp add: within_role_def)

lemma within_do:
  assumes "adminRoleAllowed ''mac-agent'' path" and "mac_do e (mac_get e path hs s) s = (x, s')"
  shows "within_role s s'"
proof -
  have "role_request (ms_cfg s) (mac_get e path hs s)"
    using assms(1) by (auto simp: role_request_def mac_get_def)
  then show ?thesis using assms(2) by (auto simp: mac_do_def within_role_def split: option.splits)
qed

lemma within_Sync: "within_role s (snd (Sync e s))"
proof -
  obtain x s1 where d: "mac_do e (mac_get e ''/api/admin/ssh-config'' [] s) s = (x, s1)" by (rule prod.exhaust)
  have 1: "within_role s s1" by (rule within_do [OF _ d]) (simp add: adminRoleAllowed_def)
  have "within_role s1 (snd (mac_host f s1))" for f :: "host \<Rightarrow> string option \<times> host"
    by (rule within_same) (simp_all add: mac_host_def split: prod.split)
  from within_trans [OF 1 this] 1 show ?thesis by (simp add: Sync_def d Let_def split: mac_reply.split)
qed

lemma within_event: "within_role s (on_event e ev s)"
proof -
  define s1 where "s1 = (if se_ID ev \<noteq> [] \<and> se_ID ev \<noteq> ''0'' then
       s\<lparr>ms_last_id := se_ID ev, ms_host := writeLastEventID e (ms_cfg s) (se_ID ev) (ms_host s)\<rparr> else s)"
  have 1: "within_role s s1" by (rule within_same) (simp_all add: s1_def)
  have "on_event e ev s = (if se_Type ev \<in> set sync_events then snd (Sync e s1) else s1)"
    by (simp add: on_event_def s1_def [symmetric] Let_def)
  then show ?thesis using 1 within_trans [OF 1 within_Sync] by simp
qed

lemma within_loop: "(\<And>ev s. within_role s (f ev s)) \<Longrightarrow> within_role s (snd (sse_loop stop f p ls s))"
proof (induction ls arbitrary: p s)
  case (Cons l ls)
  obtain q ev where l: "sse_line p l = (q, ev)" by (rule prod.exhaust)
  have IH: "within_role t (snd (sse_loop stop f q ls t))" for t by (rule Cons.IH [OF Cons.prems])
  show ?case
  proof (cases ev)
    case None
    then show ?thesis using l IH [of s] by (simp add: within_refl)
  next
    case (Some x)
    have "within_role s (f x s)" by (rule Cons.prems)
    from within_trans [OF this IH [of "f x s"]] show ?thesis using l Some by (simp add: within_refl)
  qed
qed (simp add: within_refl)

lemma within_stream: "within_role s (snd (mac_stream e s))"
proof -
  obtain x s1 where d: "mac_do e (mac_get e ''/api/admin/events'' ([(''Accept'', ''text/event-stream'')] @
      (if ms_last_id s \<noteq> [] then [(''Last-Event-ID'', ms_last_id s)] else [])) s) s = (x, s1)" by (rule prod.exhaust)
  have 1: "within_role s s1" by (rule within_do [OF _ d]) (simp add: adminRoleAllowed_def)
  have "within_role s1 (snd (parseSSE (\<lambda>s. me_cancelled e (ms_sent s)) (on_event e) body broken s1))" for body broken
  proof -
    obtain ls tl where ls: "scan_lines body = (ls, tl)" by (rule prod.exhaust)
    obtain c t where t: "sse_loop (\<lambda>s. me_cancelled e (ms_sent s)) (on_event e) no_event ls s1 = (c, t)" by (rule prod.exhaust)
    have "within_role s1 t" using within_loop [of "on_event e" s1 "\<lambda>s. me_cancelled e (ms_sent s)" no_event ls, OF within_event] t by simp
    then show ?thesis by (simp add: parseSSE_def ls t split: bool.split)
  qed
  from within_trans [OF 1 this] 1 show ?thesis unfolding mac_stream_def d by (simp split: mac_reply.split)
qed

definition waits :: "int set" where
  "waits = (\<lambda>k. 2 ^ k * GoTime.second) ` {0 .. 5}"

lemma waits_eq: "waits = {GoTime.second, 2 * GoTime.second, 4 * GoTime.second, 8 * GoTime.second, 16 * GoTime.second, 32 * GoTime.second}"
  by (simp add: waits_def atLeastAtMost_upt [symmetric] numeral_eq_Suc atLeast0AtMost atMost_Suc insert_commute)

lemma mac_round_spec:
  assumes "b \<in> waits" and "mac_round e (b, s) = (w, b', s')"
  shows "within_role s s' \<and> b' \<in> waits \<and> (case w of None \<Rightarrow> True | Some d \<Rightarrow> d \<in> waits)"
proof -
  obtain r s1 where 1: "Sync e s = (r, s1)" by (rule prod.exhaust)
  obtain q s2 where 2: "mac_stream e s1 = (q, s2)" by (rule prod.exhaust)
  have "within_role s1 s2" using within_stream [of s1 e] 2 by simp
  with within_Sync [of s e] 1 have s2: "within_role s s2" using within_trans by force
  have later: "(if c < 30 * GoTime.second then 2 * c else c) \<in> waits" if "c \<in> waits" for c
    using that unfolding waits_eq by (auto simp: GoTime.second_def)
  define c where "c = (if r = None then GoTime.second else b)"
  have c: "c \<in> waits" using assms(1) unfolding waits_eq c_def by simp
  have res: "(if me_cancelled e (ms_sent s2) then (None, c, s2)
      else (Some c, (if c < 30 * GoTime.second then 2 * c else c), s2)) = (w, b', s')"
    using assms(2) unfolding mac_round_def c_def by (simp only: 1 2 Let_def prod.case)
  show ?thesis
  proof (cases "me_cancelled e (ms_sent s2)")
    case True
    then show ?thesis using res s2 c by auto
  next
    case False
    then have "w = Some c" "b' = (if c < 30 * GoTime.second then 2 * c else c)" "s' = s2" using res by simp_all
    then show ?thesis using s2 c later [OF c] by simp
  qed
qed

text \<open>C34: However the hub answers, the operator's agent makes only requests its service token is
  allowed: GET requests to the two paths of the role \<open>mac-agent\<close>. Between two rounds it waits a
  power of two of seconds, at least one and at most 32.\<close>

theorem requests_within_role:
  assumes "mac_rounds e n (mac_start e s) = (ws, b, s')"
  shows "\<exists>rs. ms_sent s' = ms_sent s @ rs \<and> set ws \<subseteq> waits \<and>
    (\<forall>r \<in> set rs. mq_method r = ''GET'' \<and> (\<exists>path. mq_url r = mac_url (ms_cfg s) path \<and> adminRoleAllowed ''mac-agent'' path))"
proof -
  have rounds: "mac_rounds e n (b0, t) = (ws, b, s') \<Longrightarrow> b0 \<in> waits \<Longrightarrow> within_role t s' \<and> set ws \<subseteq> waits" for b0 t
  proof (induction n arbitrary: b0 t ws)
    case (Suc n)
    obtain w b1 t1 where r: "mac_round e (b0, t) = (w, b1, t1)" by (metis surj_pair)
    note one = mac_round_spec [OF Suc.prems(2) r]
    show ?case
    proof (cases "me_cancelled e (ms_sent t) \<or> w = None")
      case True
      then have "(s' = t \<or> s' = t1) \<and> ws = []"
        using Suc.prems(1) by (cases "me_cancelled e (ms_sent t)") (simp_all add: r)
      then show ?thesis using one by (auto simp: within_refl)
    next
      case False
      then obtain d where w: "w = Some d" by auto
      obtain vs where v: "mac_rounds e n (b1, t1) = (vs, b, s')" "ws = d # vs"
        using Suc.prems(1) w False by (auto simp: r split: prod.splits)
      then show ?thesis using Suc.IH [OF v(1)] one w within_trans [of t t1 s'] by auto
    qed
  qed (simp add: within_refl)
  have "within_role (s\<lparr>ms_last_id := readLastEventID e (ms_cfg s) (ms_host s)\<rparr>) s'" "set ws \<subseteq> waits"
    using rounds assms by (simp_all add: mac_start_def waits_eq)
  then show ?thesis by (auto simp: within_role_def role_request_def)
qed

text \<open>A hub that cannot be reached: the waits double up to 32 seconds.\<close>

definition offline_mac :: mac_env where
  "offline_mac = example_mac\<lparr>me_net := (\<lambda>_ _. MacFailed ''no route to host''), me_cancelled := (\<lambda>_. False)\<rparr>"

lemma offline_round:
  "b < 30 * GoTime.second \<Longrightarrow> \<exists>s'. mac_round offline_mac (b, s) = (Some b, 2 * b, s')"
  "\<not> b < 30 * GoTime.second \<Longrightarrow> \<exists>s'. mac_round offline_mac (b, s) = (Some b, b, s')"
  by (simp_all add: mac_round_def Sync_def mac_stream_def mac_do_def offline_mac_def example_mac_def Let_def)

lemma offline_rounds:
  "\<exists>t. fst (mac_rounds offline_mac (Suc n) (b, s)) =
     b # fst (mac_rounds offline_mac n (if b < 30 * GoTime.second then 2 * b else b, t))"
proof -
  obtain t where "mac_round offline_mac (b, s) = (Some b, (if b < 30 * GoTime.second then 2 * b else b), t)"
    using offline_round [of b s] by (cases "b < 30 * GoTime.second") auto
  moreover have "\<not> me_cancelled offline_mac x" for x by (simp add: offline_mac_def)
  ultimately show ?thesis by (intro exI [of _ t]) (simp split: prod.split)
qed

theorem requests_within_role_witness:
  "\<exists>b s'. mac_rounds offline_mac 3 (mac_start offline_mac example_mac_state) =
       ([GoTime.second, 2 * GoTime.second, 4 * GoTime.second], b, s') \<and>
     {GoTime.second, 2 * GoTime.second, 4 * GoTime.second} \<subseteq> waits"
proof -
  have sec: "0 < GoTime.second" by (simp add: GoTime.second_def)
  have "fst (mac_rounds offline_mac (Suc (Suc (Suc 0))) (GoTime.second, s)) = [GoTime.second, 2 * GoTime.second, 4 * GoTime.second]" for s
  proof -
    obtain t1 where 1: "fst (mac_rounds offline_mac (Suc (Suc (Suc 0))) (GoTime.second, s)) =
        GoTime.second # fst (mac_rounds offline_mac (Suc (Suc 0)) (2 * GoTime.second, t1))"
      using offline_rounds [of "Suc (Suc 0)" GoTime.second s] sec by (auto simp del: mac_rounds.simps)
    obtain t2 where 2: "fst (mac_rounds offline_mac (Suc (Suc 0)) (2 * GoTime.second, t1)) =
        2 * GoTime.second # fst (mac_rounds offline_mac (Suc 0) (4 * GoTime.second, t2))"
      using offline_rounds [of "Suc 0" "2 * GoTime.second" t1] sec by (auto simp del: mac_rounds.simps)
    obtain t3 where 3: "fst (mac_rounds offline_mac (Suc 0) (4 * GoTime.second, t2)) =
        4 * GoTime.second # fst (mac_rounds offline_mac 0 (8 * GoTime.second, t3))"
      using offline_rounds [of 0 "4 * GoTime.second" t2] sec by (auto simp del: mac_rounds.simps)
    show ?thesis unfolding 1 2 3 by simp
  qed
  then obtain b s' where r: "mac_rounds offline_mac 3 (mac_start offline_mac example_mac_state) =
       ([GoTime.second, 2 * GoTime.second, 4 * GoTime.second], b, s')"
    unfolding mac_start_def numeral_3_eq_3 by (metis prod.collapse)
  with requests_within_role [OF r] show ?thesis by auto
qed

end
