(* ===== verification/InstallPlan.thy ===== *)
theory InstallPlan
  imports AgentDaemon
begin

text \<open>
  What an installation of the agent is made of (\<open>cmd/reach-agent/install.go\<close>): its options and their
  defaults, the local SSH server it plans, the keys it writes. The build is one for Linux or macOS;
  the branches for Windows call \<open>install_windows.go\<close> and are left out, in other builds they cannot
  be reached. A POST request is an action of the host whose answer depends on the actions before
  it; the JSON and YAML coders, the key generators and the archive reader are parameters. What is
  printed is left out.
\<close>

record installOptions =
  io_APIURL :: string
  io_Name :: string
  io_Token :: string
  io_TargetUser :: string
  io_Transport :: string
  io_Yes :: bool
  io_InstallMode :: string
  io_ConfigDir :: string
  io_DataDir :: string
  io_AgentPath :: string

record registerResponse =
  rg_Status :: string
  rg_RequestID :: string
  rg_ClientSecret :: string
  rg_SetupToken :: string
  rg_SetupTokenExpiresAt :: string

record machineInfo =
  pm_ID :: string
  pm_Slug :: string
  pm_ExpiresAt :: string

record tunnelInfo =
  pt_RemotePort :: int
  pt_UnixUser :: string

record hubInfo =
  ph_PublicHost :: string
  ph_SSHPort :: int
  ph_APIURL :: string

record websocketBinary =
  wb_URL :: string
  wb_SHA256 :: string

record websocketTunnelConfig =
  pw_Enabled :: bool
  pw_Carrier :: string
  pw_URL :: string
  pw_PathPrefix :: string
  pw_Binaries :: "string \<rightharpoonup> websocketBinary"

text \<open>An \<open>adminPubkey\<close> is its \<open>public_key\<close>.\<close>

record provisionResponse =
  pv_Machine :: machineInfo
  pv_Tunnel :: tunnelInfo
  pv_Hub :: hubInfo
  pv_AgentToken :: string
  pv_AdminPubkeys :: "string list"
  pv_HubHostKeys :: "string list"
  pv_LegacyHostKeys :: "string list"
  pv_WebSocket :: "websocketTunnelConfig option"

record localSSHPlan =
  lp_Mode :: string
  lp_LocalPort :: int
  lp_AuthFile :: string
  lp_UserSSHD :: bool
  lp_InternalSSHD :: bool
  lp_SSHDBinary :: string
  lp_SSHDConfig :: string
  lp_SSHDLog :: string
  lp_HostKeyPath :: string
  lp_HostKeyType :: string
  lp_ClientOptions :: "string list"

record install_world =
  iw_goos :: string
  iw_goarch :: string
  iw_root :: bool
  iw_uid :: string
  iw_getenv :: "string \<Rightarrow> string"
  iw_home :: "string option"                                        \<comment> \<open>\<open>os.UserHomeDir\<close>\<close>
  iw_hostname :: "string option"
  iw_exe :: "string option"                                         \<comment> \<open>\<open>os.Executable\<close>\<close>
  iw_lookup :: "string \<Rightarrow> (string \<times> string \<times> string) option"        \<comment> \<open>\<open>user.Lookup\<close>: home, uid, gid\<close>
  iw_agent :: agent_env
  iw_is_dir :: "string \<Rightarrow> bool"
  iw_url_error :: "string \<Rightarrow> string option"
  iw_net :: "string list list \<Rightarrow> string list \<Rightarrow> http_reply"
  iw_cancelled :: "string list list \<Rightarrow> bool"                         \<comment> \<open>\<open>ctx.Err()\<close> after these actions\<close>
  iw_register :: "string \<Rightarrow> registerResponse \<Rightarrow> string + registerResponse"  \<comment> \<open>\<open>json.Unmarshal\<close> into a value\<close>
  iw_provision :: "string \<Rightarrow> string + provisionResponse"
  iw_signer_line :: "string \<Rightarrow> string + string"
  iw_generate :: "string \<Rightarrow> string + string \<times> string"
  iw_new_host_key :: "string + string"
  iw_nanos :: nat
  iw_unix :: nat
  iw_yaml :: "AgentConfig \<Rightarrow> string + string"
  iw_sha256_hex :: "string \<Rightarrow> string"
  iw_archive :: "string \<Rightarrow> string + (string \<times> bool \<times> string) list \<times> string option"
                                          \<comment> \<open>the entries of an archive: name, regular, content; the error after them\<close>
  iw_ssh_version :: "string \<times> bool"
  iw_keygen :: "(string list \<Rightarrow> bool) option"
  iw_local_time :: string
  iw_prompt :: "string \<Rightarrow> string \<Rightarrow> string + string"                 \<comment> \<open>\<open>promptDefault\<close>\<close>

subsection \<open>Options\<close>

definition defaultInstallMode :: "install_world \<Rightarrow> string" where
  "defaultInstallMode i = (if iw_root i then ''system'' else ''user'')"

definition canManageSystemInstall :: "install_world \<Rightarrow> bool" where
  "canManageSystemInstall i = iw_root i"

definition applyModeDefaults :: "install_world \<Rightarrow> installOptions \<Rightarrow> installOptions" where
  "applyModeDefaults i opt =
     (if io_InstallMode opt = ''system'' then
        opt\<lparr>io_ConfigDir := or_else (io_ConfigDir opt) ''/etc/reach'', io_DataDir := or_else (io_DataDir opt) ''/var/lib/reach'',
            io_AgentPath := or_else (io_AgentPath opt) ''/opt/reach/reach-agent''\<rparr>
      else let home = (case iw_home i of Some h \<Rightarrow> h | None \<Rightarrow> []) in
        opt\<lparr>io_ConfigDir := or_else (io_ConfigDir opt) (path_join [home, ''.config'', ''reach'']),
            io_DataDir := or_else (io_DataDir opt) (path_join [home, ''.local'', ''share'', ''reach'']),
            io_AgentPath := or_else (io_AgentPath opt) (path_join [home, ''.local'', ''bin'', ''reach-agent''])\<rparr>)"

definition install_envDefault :: "install_world \<Rightarrow> string \<Rightarrow> string \<Rightarrow> string" where
  "install_envDefault i k d = or_else (iw_getenv i k) d"

text \<open>\<open>nonSlugRE.ReplaceAllString(s, "-")\<close>: every maximal run of other characters becomes one hyphen.\<close>

function collapse_runs :: "string \<Rightarrow> string" where
  "collapse_runs [] = []"
| "is_slug_alnum c \<Longrightarrow> collapse_runs (c # s) = c # collapse_runs s"
| "\<not> is_slug_alnum c \<Longrightarrow> collapse_runs (c # s) = CHR ''-'' # collapse_runs (dropWhile (\<lambda>c. \<not> is_slug_alnum c) s)"
  by (metis neq_Nil_conv) auto
termination
  by (relation "measure length") (auto simp: le_imp_less_Suc length_dropWhile_le)

lemma collapse_runs_code [code]:
  "collapse_runs [] = []"
  "collapse_runs (c # s) = (if is_slug_alnum c then c # collapse_runs s
     else CHR ''-'' # collapse_runs (dropWhile (\<lambda>c. \<not> is_slug_alnum c) s))"
  by simp_all

definition normalizeSlug :: "install_world \<Rightarrow> string \<Rightarrow> string" where
  "normalizeSlug i s0 =
     (let s = trim_chars (collapse_runs (to_lower (trim_space s0))) ''-'';
          s = (if 32 < length s then trim_chars (take 32 s) ''-'' else s);
          s = (if length s < 3 then ''box-'' @ s else s)
      in if length s < 3 then ''box-'' @ iw_goos i else s)"

definition hostnameDefault :: "install_world \<Rightarrow> string" where
  "hostnameDefault i =
     (case iw_hostname i of
        Some h \<Rightarrow> if h \<noteq> [] then normalizeSlug i h else iw_goos i
      | None \<Rightarrow> iw_goos i)"

text \<open>\<open>exec.Command(...).Output()\<close>.\<close>

definition command_output :: "string list \<Rightarrow> host \<Rightarrow> string option \<times> host" where
  "command_output c h = (case host_do c h of ((ok, out), h1) \<Rightarrow> (if ok then Some out else None, h1))"

definition currentUsername :: "install_world \<Rightarrow> host \<Rightarrow> string \<times> host" where
  "currentUsername i h =
     (if iw_getenv i ''USER'' \<noteq> [] then (iw_getenv i ''USER'', h)
      else case command_output [''id'', ''-un''] h of
          (Some out, h1) \<Rightarrow> (trim_space out, h1) | (None, h1) \<Rightarrow> ([], h1))"

definition defaultTargetUser :: "install_world \<Rightarrow> host \<Rightarrow> string \<times> host" where
  "defaultTargetUser i h =
     (let sudo = iw_getenv i ''SUDO_USER'' in
      if iw_root i \<and> sudo \<noteq> [] \<and> sudo \<noteq> ''root'' then (sudo, h)
      else case currentUsername i h of (u, h1) \<Rightarrow> (if u \<noteq> [] then u else ''root'', h1))"

definition validateTargetUserLocal :: "string \<Rightarrow> string option" where
  "validateTargetUserLocal s =
     (if s = [] \<or> 128 < length s \<or> has_prefix s ''-'' \<or> CHR '':'' \<in> set s \<or>
         contains_any s [CHR 0x00, CHR 0x0D, nl, CHR 0x09, CHR 0x20]
      then Some (''invalid target user '' @ go_quote s) else None)"

definition home_from_getent :: "string \<Rightarrow> string option" where
  "home_from_getent out =
     (let parts = split_on (CHR '':'') (trim_space out)
      in if 6 \<le> length parts \<and> parts ! 5 \<noteq> [] then Some (parts ! 5) else None)"

definition home_from_dscl :: "string \<Rightarrow> string option" where
  "home_from_dscl out =
     (case cut (CHR '':'') (trim_space out) of
        Some (_, home) \<Rightarrow> if trim_space home \<noteq> [] then Some (trim_space home) else None
      | None \<Rightarrow> None)"

definition asked_home :: "(string \<Rightarrow> string option) \<Rightarrow> string list \<Rightarrow> host \<Rightarrow> string option \<times> host" where
  "asked_home read c h =
     (case command_output c h of (None, h1) \<Rightarrow> (None, h1) | (Some out, h1) \<Rightarrow> (read out, h1))"

definition look_path :: "string \<Rightarrow> host \<Rightarrow> bool \<times> host" where
  "look_path program h = (case host_do [''LookPath'', program] h of ((ok, _), h1) \<Rightarrow> (ok, h1))"

definition userHome :: "install_world \<Rightarrow> string \<Rightarrow> string hosted" where
  "userHome i user h =
     (case (case iw_lookup i user of Some (home, _) \<Rightarrow> home | None \<Rightarrow> []) of
        c # cs \<Rightarrow> (Inr (c # cs), h)
      | [] \<Rightarrow>
          (case (if iw_goos i = ''darwin'' then
                   asked_home home_from_dscl [''dscl'', ''.'', ''-read'', ''/Users/'' @ user, ''NFSHomeDirectory''] h
                 else (None, h)) of
             (Some home, h1) \<Rightarrow> (Inr home, h1)
           | (None, h1) \<Rightarrow>
               (case (case look_path ''getent'' h1 of
                        (False, h2) \<Rightarrow> (None, h2)
                      | (True, h2) \<Rightarrow> asked_home home_from_getent [''getent'', ''passwd'', user] h2) of
                  (Some home, h2) \<Rightarrow> (Inr home, h2)
                | (None, h2) \<Rightarrow>
                    (case currentUsername i h2 of (me, h3) \<Rightarrow>
                       (case (if user = me then iw_home i else None) of
                          Some home \<Rightarrow>
                            if home \<noteq> [] then (Inr home, h3)
                            else (Inl (''could not determine home for user '' @ go_quote user), h3)
                        | None \<Rightarrow> (Inl (''could not determine home for user '' @ go_quote user), h3))))))"

subsection \<open>Starting the system's SSH server\<close>

definition startDarwinSystemSSHD :: "host \<Rightarrow> string option \<times> host" where
  "startDarwinSystemSSHD h =
     (case probeSSH ''127.0.0.1'' 22 3 h of
        (None, h1) \<Rightarrow> (None, h1)
      | (Some _, h1) \<Rightarrow>
          let attempt = (\<lambda>what c (as, h). case host_do c h of
                ((True, _), h') \<Rightarrow> (as, h') | ((False, out), h') \<Rightarrow> (as @ [what @ '': '' @ trim_space out], h'));
              x1 = (case look_path ''systemsetup'' h1 of
                      (False, h2) \<Rightarrow> ([], h2)
                    | (True, h2) \<Rightarrow> attempt ''systemsetup'' [''systemsetup'', ''-setremotelogin'', ''on''] ([], h2));
              x2 = (case look_path ''launchctl'' (snd x1) of
                      (False, h3) \<Rightarrow> (fst x1, h3)
                    | (True, h3) \<Rightarrow>
                        attempt ''launchctl kickstart'' [''launchctl'', ''kickstart'', ''-k'', ''system/com.openssh.sshd'']
                          (attempt ''launchctl enable'' [''launchctl'', ''enable'', ''system/com.openssh.sshd''] (fst x1, h3)))
          in case probeSSH ''127.0.0.1'' 22 5 (snd x2) of
               (None, h4) \<Rightarrow> (None, h4)
             | (Some _, h4) \<Rightarrow>
                 (Some (''could not enable macOS Remote Login on 127.0.0.1:22; admin/root and Full Disk Access may be required: ''
                        @ join ''; '' (if fst x2 = [] then [''no systemsetup/launchctl attempt output''] else fst x2)), h4))"

definition startSSHServices :: "install_world \<Rightarrow> host \<Rightarrow> string option \<times> host" where
  "startSSHServices i h =
     (if iw_goos i = ''darwin'' then startDarwinSystemSSHD h
      else let services = [''ssh'', ''sshd''];
               by_service = (\<lambda>h. case try_commands (map (\<lambda>svc. [''service'', svc, ''start'']) services) h of
                 (True, h1) \<Rightarrow> (None, h1) | (False, h1) \<Rightarrow> (Some ''could not start ssh/sshd service'', h1))
           in case look_path ''systemctl'' h of
                (False, h1) \<Rightarrow> by_service h1
              | (True, h1) \<Rightarrow>
                  (case try_commands (map (\<lambda>svc. [''systemctl'', ''enable'', ''--now'', svc]) services) h1 of
                     (True, h2) \<Rightarrow> (None, h2) | (False, h2) \<Rightarrow> by_service h2))"

definition ensureSystemSSHD :: "install_world \<Rightarrow> host \<Rightarrow> string option \<times> host" where
  "ensureSystemSSHD i h =
     (if iw_goos i = ''darwin'' then startDarwinSystemSSHD h
      else case startSSHServices i h of
          (None, h1) \<Rightarrow> (None, h1)
        | (Some _, h1) \<Rightarrow>
            (case look_path ''apt-get'' h1 of
               (False, h2) \<Rightarrow> startSSHServices i h2
             | (True, h2) \<Rightarrow>
                 (case host_do [''env'', ''DEBIAN_FRONTEND=noninteractive'', ''apt-get'', ''install'', ''-y'', ''openssh-server'']
                         (snd (host_do [''apt-get'', ''update''] h2)) of
                    ((False, out), h3) \<Rightarrow> (Some (''install openssh-server failed: exit status 1: '' @ trim_space out), h3)
                  | ((True, _), h3) \<Rightarrow> startSSHServices i h3)))"

definition sshServerBanner :: "string \<Rightarrow> int \<Rightarrow> host \<Rightarrow> string \<times> host" where
  "sshServerBanner target port h =
     (case host_do [''banner'', join_host_port target (show_int port)] h of
        ((True, line), h1) \<Rightarrow> (trim_space line, h1) | ((False, _), h1) \<Rightarrow> ([], h1))"

end
