(* ===== verification/InstallFiles.thy ===== *)
theory InstallFiles
  imports InstallPlan
begin

text \<open>
  The files an installation writes (\<open>cmd/reach-agent/install.go\<close>): the plan and configuration of the
  local SSH server, the tunnel key, the pinned host keys, the administrators' keys, the agent's
  configuration, the environment file and the information file. Permissions are not modelled.
\<close>

subsection \<open>The plan for the local SSH server\<close>

definition no_plan :: localSSHPlan where
  "no_plan = \<lparr>lp_Mode = [], lp_LocalPort = 0, lp_AuthFile = [], lp_UserSSHD = False, lp_InternalSSHD = False,
     lp_SSHDBinary = [], lp_SSHDConfig = [], lp_SSHDLog = [], lp_HostKeyPath = [], lp_HostKeyType = [], lp_ClientOptions = []\<rparr>"

definition findSSHD :: "install_world \<Rightarrow> host \<Rightarrow> string \<times> host" where
  "findSSHD i h =
     (case host_do [''LookPath'', ''sshd''] h of
        ((True, p), h1) \<Rightarrow> (p, h1)
      | ((False, _), h1) \<Rightarrow>
          (case List.find (\<lambda>p. file_exists p h1 \<and> \<not> iw_is_dir i p) [''/usr/sbin/sshd'', ''/usr/local/sbin/sshd''] of
             None \<Rightarrow> [] | Some p \<Rightarrow> p, h1))"

text \<open>The first port nothing listens on.\<close>

definition findFreePort :: "int \<Rightarrow> int \<Rightarrow> host \<Rightarrow> string + int" where
  "findFreePort lo hi h =
     (case List.find (\<lambda>p. \<not> ho_listening h p) [lo .. hi] of
        Some p \<Rightarrow> Inr p
      | None \<Rightarrow> Inl (''no free user sshd port in '' @ show_int lo @ ''-'' @ show_int hi))"

definition keyTypeFileStem :: "string \<Rightarrow> string" where
  "keyTypeFileStem t = (if t = ''ssh-ed25519'' then ''ed25519'' else if t = ''ecdsa-sha2-nistp256'' then ''ecdsa'' else ''rsa'')"

definition user_sshd_config :: "int \<Rightarrow> string \<Rightarrow> string \<Rightarrow> string \<Rightarrow> string" where
  "user_sshd_config port hostKey pidFile authFile =
     concat (map (\<lambda>l. l @ [nl])
       [''Port '' @ show_int port, ''ListenAddress 127.0.0.1'', ''HostKey '' @ hostKey, ''PidFile '' @ pidFile,
        ''AuthorizedKeysFile '' @ authFile, ''PasswordAuthentication no'', ''ChallengeResponseAuthentication no'',
        ''PubkeyAuthentication yes'', ''UsePAM no'', ''PermitRootLogin no'', ''AllowTcpForwarding no'', ''X11Forwarding no'',
        ''PermitTunnel no'', ''PrintLastLog no'', ''PrintMotd no'', ''PermitUserEnvironment no'', ''StrictModes no'',
        ''Subsystem sftp internal-sftp'', ''LogLevel VERBOSE''])"

definition prepareInternalSSHD :: "install_world \<Rightarrow> installOptions \<Rightarrow> localSSHPlan hosted" where
  "prepareInternalSSHD i opt h0 =
     (case findFreePort 22220 22320 h0 of
        Inl e \<Rightarrow> (Inl e, h0)
      | Inr port \<Rightarrow>
          let dir = path_join [io_DataDir opt, ''internal-sshd''];
              hostKey = path_join [dir, ''host_ed25519_key'']
          in hbind (lift_host (os_call [''MkdirAll'', dir] id)) (\<lambda>_.
             hbind (on_error (\<lambda>e. ''generate internal sshd host key failed: '' @ e)
               (lift_host (ensureInternalHostKey (iw_is_dir i) (iw_new_host_key i) (iw_nanos i) hostKey))) (\<lambda>_.
             hret (no_plan\<lparr>lp_Mode := ''internal-sshd'', lp_LocalPort := port, lp_AuthFile := path_join [dir, ''authorized_keys''],
               lp_InternalSSHD := True, lp_HostKeyPath := hostKey, lp_SSHDLog := path_join [dir, ''sshd.log'']\<rparr>))) h0)"

definition existing_sshd_plan :: "string \<Rightarrow> localSSHPlan hosted" where
  "existing_sshd_plan targetHome h =
     (case sshServerBanner ''127.0.0.1'' 22 h of (banner, h1) \<Rightarrow>
        (Inr (no_plan\<lparr>lp_Mode := ''system-existing'', lp_LocalPort := 22,
           lp_AuthFile := path_join [targetHome, ''.ssh'', ''authorized_keys''],
           lp_ClientOptions := clientOptionsForServerBanner banner []\<rparr>), h1))"

definition prepareUserSSHD :: "install_world \<Rightarrow> installOptions \<Rightarrow> SSHCompatConfig \<Rightarrow> string \<Rightarrow> localSSHPlan hosted" where
  "prepareUserSSHD i opt cc bin h0 =
     (case findFreePort 22220 22320 h0 of
        Inl e \<Rightarrow> (Inl e, h0)
      | Inr port \<Rightarrow>
          let dir = path_join [io_DataDir opt, ''user-sshd''];
              hostKeyType = or_else (sc_UserSSHDHostKeyType cc) ''ssh-rsa'';
              hostKey = path_join [dir, ''ssh_host_'' @ keyTypeFileStem hostKeyType @ ''_key''];
              authFile = path_join [dir, ''authorized_keys'']; cfgPath = path_join [dir, ''sshd_config'']
          in hbind (lift_host (os_call [''MkdirAll'', dir] id)) (\<lambda>_.
             hbind (\<lambda>h. if file_exists hostKey h then (Inr (), h)
               else on_error (\<lambda>e. ''generate user sshd host key failed: '' @ e)
                 (lift_host (generateSSHKey (iw_generate i) (iw_nanos i, iw_nanos i) hostKey hostKeyType
                    (''reach-user-sshd:'' @ normalizeSlug i (io_Name opt)))) h) (\<lambda>_.
             hbind (lift_host (write_file cfgPath (user_sshd_config port hostKey (path_join [dir, ''sshd.pid'']) authFile))) (\<lambda>_.
             hret (no_plan\<lparr>lp_Mode := ''user-sshd'', lp_LocalPort := port, lp_AuthFile := authFile, lp_UserSSHD := True,
               lp_SSHDBinary := bin, lp_SSHDConfig := cfgPath, lp_SSHDLog := path_join [dir, ''sshd.log''],
               lp_HostKeyType := hostKeyType,
               lp_ClientOptions := clientOptionsForServerBanner (sc_ClientVersion cc) hostKeyType\<rparr>)))) h0)"

definition prepareLocalSSH :: "install_world \<Rightarrow> installOptions \<Rightarrow> string \<Rightarrow> SSHCompatConfig \<Rightarrow> localSSHPlan hosted" where
  "prepareLocalSSH i opt targetHome cc =
     (if io_InstallMode opt = ''system'' then
        hbind (lift_host (ensureSystemSSHD i)) (\<lambda>_.
        hbind (on_error (\<lambda>e. ''local sshd did not answer on 127.0.0.1:22 after start/enable: '' @ e)
                 (lift_host (probeSSH ''127.0.0.1'' 22 5))) (\<lambda>_.
        existing_sshd_plan targetHome))
      else (\<lambda>h. case probeSSH ''127.0.0.1'' 22 3 h of
          (None, h1) \<Rightarrow> existing_sshd_plan targetHome h1
        | (Some _, h1) \<Rightarrow>
            (case findSSHD i h1 of (bin, h2) \<Rightarrow>
               if bin = [] then prepareInternalSSHD i opt h2 else prepareUserSSHD i opt cc bin h2)))"

subsection \<open>Keys\<close>

definition ensureTunnelKey :: "install_world \<Rightarrow> string \<Rightarrow> string \<Rightarrow> SSHCompatConfig \<Rightarrow> host \<Rightarrow> string option \<times> host" where
  "ensureTunnelKey i keyPath nm cc h =
     (let keyType = or_else (sc_TunnelKeyType cc) ''ssh-ed25519'';
          comment = ''reach:'' @ normalizeSlug i nm;
          fresh = generateSSHKey (iw_generate i) (iw_nanos i, iw_nanos i) keyPath keyType comment;
          backup = keyPath @ ''.invalid.'' @ show_nat (iw_unix i)
      in if file_exists keyPath h \<and> \<not> iw_is_dir i keyPath then
           (case ensurePublicKeyForPrivateKey (iw_signer_line i) (iw_nanos i) keyPath comment h of
              (None, h1) \<Rightarrow> (None, h1)
            | (Some _, h1) \<Rightarrow>
                fresh (silently (rename_file (keyPath @ ''.pub'') (backup @ ''.pub''))
                        (silently (rename_file keyPath backup) h1)))
         else fresh h)"

definition requiresKnownHostType :: "SSHCompatConfig \<Rightarrow> string \<Rightarrow> bool" where
  "requiresKnownHostType cc keyType \<longleftrightarrow>
     (\<exists>opt \<in> set (sc_TunnelOptions cc). has_prefix opt ''HostKeyAlgorithms='' \<and> contains opt keyType)"

definition knownHostsContainType :: "string list \<Rightarrow> string \<Rightarrow> bool" where
  "knownHostsContainType keys keyType \<longleftrightarrow> (\<exists>k \<in> set keys. keyType \<in> set (GoStrings.fields k))"

definition writeKnownHosts :: "string \<Rightarrow> string list \<Rightarrow> SSHCompatConfig \<Rightarrow> host \<Rightarrow> string option \<times> host" where
  "writeKnownHosts path keys cc =
     (if keys = [] then fail_with (Some ''API returned no hub_host_keys; refusing to install without host key pinning'')
      else if requiresKnownHostType cc ''ssh-rsa'' \<and> \<not> knownHostsContainType keys ''ssh-rsa'' then
        fail_with (Some (''local ssh requires ssh-rsa host keys, but API did not return a hub ssh-rsa host key; ''
                         @ ''update reachd hub_host_keys''))
      else and_then (os_call [''MkdirAll'', path_dir path] id) (write_file path (join [nl] keys @ [nl])))"

definition firstField :: "string \<Rightarrow> string" where
  "firstField s = (case GoStrings.fields s of [] \<Rightarrow> [] | f # _ \<Rightarrow> f)"

definition lookupUIDGID :: "install_world \<Rightarrow> string \<Rightarrow> host \<Rightarrow> (string \<times> string) option \<times> host" where
  "lookupUIDGID i user h =
     (case (case iw_lookup i user of
              Some (_, uid, gid) \<Rightarrow> if uid \<noteq> [] \<and> gid \<noteq> [] then Some (uid, gid) else None
            | None \<Rightarrow> None) of
        Some ids \<Rightarrow> (Some ids, h)
      | None \<Rightarrow>
          (case command_output [''id'', ''-u'', user] h of (u, h1) \<Rightarrow>
           case command_output [''id'', ''-g'', user] h1 of (g, h2) \<Rightarrow>
             (case (u, g) of (Some uid, Some gid) \<Rightarrow> Some (trim_space uid, trim_space gid) | _ \<Rightarrow> None, h2)))"

definition chownPathToUser :: "install_world \<Rightarrow> string \<Rightarrow> string \<Rightarrow> host \<Rightarrow> host" where
  "chownPathToUser i path user h =
     (case lookupUIDGID i user h of (ids, h1) \<Rightarrow>
        let owner = (case ids of
              Some (uid, gid) \<Rightarrow> if uid \<noteq> [] \<and> gid \<noteq> [] then uid @ '':'' @ gid else user @ '':'' @ user
            | None \<Rightarrow> user @ '':'' @ user)
        in snd (host_do [''chown'', ''-R'', owner, path] h1))"

definition applyAuthorizedKeysPermissions :: "install_world \<Rightarrow> string \<Rightarrow> string \<Rightarrow> bool \<Rightarrow> host \<Rightarrow> string option \<times> host" where
  "applyAuthorizedKeysPermissions i authFile user chownFiles h =
     (None, if chownFiles then chownPathToUser i (path_dir authFile) user h else h)"

text \<open>The lines for the administrators' keys; a key of an unsupported type is skipped.\<close>

definition install_key_line :: "string \<Rightarrow> string list \<Rightarrow> bool \<Rightarrow> string \<Rightarrow> string option" where
  "install_key_line marker supported bare key =
     (let pub = trim_space key; fs = GoStrings.fields pub
      in if pub = [] \<or> fs = [] \<or> \<not> keyTypeSupported (hd fs) supported then None
         else if bare then Some (pub @ '' '' @ marker)
         else Some (''from=\"127.0.0.1,::1\",no-agent-forwarding,no-X11-forwarding,no-port-forwarding '' @ pub @ '' '' @ marker))"

definition installAdminKeys ::
  "install_world \<Rightarrow> string \<Rightarrow> string \<Rightarrow> provisionResponse \<Rightarrow> bool \<Rightarrow> string list \<Rightarrow> bool \<Rightarrow> host \<Rightarrow> string option \<times> host" where
  "installAdminKeys i authFile user prov chownFiles supported bare =
     (if pv_AdminPubkeys prov = [] then fail_with (Some ''API returned no admin public keys'')
      else and_then (os_call [''MkdirAll'', path_dir authFile] id) (\<lambda>h.
        let marker = ''reach:'' @ pm_ID (pv_Machine prov);
            existing = (case ho_files h authFile of None \<Rightarrow> [] | Some b \<Rightarrow> kept_key_lines ('' '' @ marker) b);
            new = List.map_filter (install_key_line marker supported bare) (pv_AdminPubkeys prov)
        in if new = [] then
             (Some (''none of the admin public keys are supported by this '' @ (if bare then ''internal sshd'' else ''local sshd'')
                    @ ''; supported='' @ join '','' supported @ ''. ''
                    @ (if bare then ''Add an ed25519, ECDSA P-256, or RSA admin key''
                       else ''Add an ssh-rsa admin key for OpenSSH 5.x targets'')), h)
           else and_then (write_file authFile (concat (map (\<lambda>l. l @ [nl]) (existing @ new))))
                  (applyAuthorizedKeysPermissions i authFile user chownFiles) h))"

subsection \<open>The WebSocket carrier\<close>

definition runtimeArchKey :: "install_world \<Rightarrow> string" where
  "runtimeArchKey i =
     (let arch = iw_goarch i in
      if iw_goos i = ''darwin'' \<and> (arch = ''amd64'' \<or> arch = ''arm64'') then ''darwin_'' @ arch
      else if arch = ''arm'' then ''linux_armv7'' else ''linux_'' @ arch)"

definition download :: "install_world \<Rightarrow> string \<Rightarrow> string hosted" where
  "download i url h =
     (case iw_url_error i url of
        Some e \<Rightarrow> (Inl e, h)
      | None \<Rightarrow>
          (let a = [''GET'', url]; h1 = h\<lparr>ho_log := ho_log h @ [a]\<rparr> in
           case iw_net i (ho_log h) a of
             NoAnswer e \<Rightarrow> (Inl e, h1)
           | Answer status body \<Rightarrow>
               if status div 100 \<noteq> 2 then (Inl (''download '' @ url @ '' returned '' @ show_nat status), h1)
               else (Inr (take 67108864 body), h1)))"

definition extractTarGzFile :: "install_world \<Rightarrow> string \<Rightarrow> string \<Rightarrow> string + string" where
  "extractTarGzFile i content base =
     (case iw_archive i content of
        Inl e \<Rightarrow> Inl e
      | Inr (entries, broken) \<Rightarrow>
          (case List.find (\<lambda>(nm, regular, _). path_base nm = base \<and> regular) entries of
             Some (_, _, file) \<Rightarrow> Inr (take 67108864 file)
           | None \<Rightarrow> Inl (case broken of Some e \<Rightarrow> e | None \<Rightarrow> ''archive did not contain '' @ base)))"

definition installWSTunnel :: "install_world \<Rightarrow> string \<Rightarrow> websocketTunnelConfig \<Rightarrow> unit hosted" where
  "installWSTunnel i dest ws =
     (let key = runtimeArchKey i in
      case pw_Binaries ws key of
        None \<Rightarrow> hfail (''no wstunnel binary for '' @ key)
      | Some bin \<Rightarrow>
          hbind (download i (wb_URL bin)) (\<lambda>content.
            let got = iw_sha256_hex i content in
            if wb_SHA256 bin \<noteq> [] \<and> got \<noteq> wb_SHA256 bin then
              hfail (''wstunnel checksum mismatch: got '' @ got @ '' expected '' @ wb_SHA256 bin)
            else case extractTarGzFile i content ''wstunnel'' of
                Inl e \<Rightarrow> hfail e
              | Inr wst \<Rightarrow> lift_host (write_file dest wst)))"

subsection \<open>The agent's configuration\<close>

definition persistenceBackendName :: "install_world \<Rightarrow> string \<Rightarrow> string" where
  "persistenceBackendName i mode =
     (if iw_goos i = ''darwin'' then (if mode = ''system'' then ''launchd-daemon'' else ''launchd-agent'')
      else ''reach-agent-'' @ mode)"

definition persistenceServiceName :: "install_world \<Rightarrow> string \<Rightarrow> string" where
  "persistenceServiceName i mode = (if iw_goos i = ''darwin'' then launchdLabel else ''reach-agent.service'')"

definition buildAgentConfig ::
  "install_world \<Rightarrow> installOptions \<Rightarrow> provisionResponse \<Rightarrow> string \<Rightarrow> string \<Rightarrow> string \<Rightarrow> localSSHPlan \<Rightarrow> SSHCompatConfig \<Rightarrow> AgentConfig" where
  "buildAgentConfig i opt prov keyPath knownHosts wsPath plan cc =
     (let c = defaultConfig (install_envDefault i);
          tr = (ac_Transport c)\<lparr>tp_Mode := io_Transport opt, tp_ProbeHost := ph_PublicHost (pv_Hub prov),
                                tp_ProbePort := ph_SSHPort (pv_Hub prov)\<rparr>
      in c\<lparr>ac_MachineID := pm_ID (pv_Machine prov), ac_Slug := pm_Slug (pv_Machine prov),
           ac_Tunnel := (ac_Tunnel c)\<lparr>tu_HubHost := ph_PublicHost (pv_Hub prov), tu_HubSSHPort := ph_SSHPort (pv_Hub prov),
             tu_TunnelUser := pt_UnixUser (pv_Tunnel prov), tu_RemotePort := pt_RemotePort (pv_Tunnel prov),
             tu_LocalHost := ''127.0.0.1'', tu_LocalPort := lp_LocalPort plan, tu_KeyPath := keyPath,
             tu_KnownHosts := knownHosts, tu_SSHCompat := cc, tu_LogPath := path_join [io_DataDir opt, ''tunnel.log'']\<rparr>,
           ac_LocalSSH := (ac_LocalSSH c)\<lparr>ls_Host := ''127.0.0.1'', ls_Port := lp_LocalPort plan,
             ls_Manage := (io_InstallMode opt = ''system'' \<or> lp_UserSSHD plan \<or> lp_InternalSSHD plan),
             ls_UserSSHD := lp_UserSSHD plan, ls_InternalSSHD := lp_InternalSSHD plan, ls_SSHDBinary := lp_SSHDBinary plan,
             ls_SSHDConfig := lp_SSHDConfig plan, ls_SSHDLog := lp_SSHDLog plan, ls_AuthFile := lp_AuthFile plan,
             ls_HostKeyPath := lp_HostKeyPath plan, ls_TargetUser := io_TargetUser opt,
             ls_ClientOptions := lp_ClientOptions plan\<rparr>,
           ac_Install := \<lparr>ic_Mode = io_InstallMode opt, ic_ConfigDir = io_ConfigDir opt, ic_DataDir = io_DataDir opt,
             ic_AgentPath = io_AgentPath opt, ic_PersistenceBackend = persistenceBackendName i (io_InstallMode opt),
             ic_PersistenceQuality = ''unknown'',
             ic_PersistenceRebootSafe = (io_InstallMode opt = ''system'' \<or> iw_goos i = ''darwin'')\<rparr>,
           ac_AllowSelfUpdate := True,
           ac_Transport := (case pv_WebSocket prov of
               Some ws \<Rightarrow>
                 if pw_Enabled ws \<and> wsPath \<noteq> [] then
                   tr\<lparr>tp_WebSocket := \<lparr>wt_Enabled = True, wt_Carrier = first_non_empty [pw_Carrier ws, ''reach''],
                        wt_URL = pw_URL ws, wt_PathPrefix = pw_PathPrefix ws, wt_WSTunnelPath = wsPath\<rparr>\<rparr>
                 else tr
             | None \<Rightarrow> tr),
           ac_Heartbeat := (ac_Heartbeat c)\<lparr>he_Enabled := True, he_APIURL := io_APIURL opt, he_Token := pv_AgentToken prov\<rparr>\<rparr>)"

definition writeYAML0600 :: "install_world \<Rightarrow> string \<Rightarrow> AgentConfig \<Rightarrow> host \<Rightarrow> string option \<times> host" where
  "writeYAML0600 i path c h = (case iw_yaml i c of Inl e \<Rightarrow> (Some e, h) | Inr b \<Rightarrow> write_file path b h)"

subsection \<open>The environment file\<close>

definition env_pairs :: "install_world \<Rightarrow> installOptions \<Rightarrow> provisionResponse \<Rightarrow> string \<Rightarrow> localSSHPlan \<Rightarrow> (string \<times> string) list" where
  "env_pairs i opt prov cfgPath plan =
     [(''MACHINE_ID'', pm_ID (pv_Machine prov)), (''SLUG'', pm_Slug (pv_Machine prov)),
      (''REMOTE_PORT'', show_int (pt_RemotePort (pv_Tunnel prov))), (''TUNNEL_USER'', pt_UnixUser (pv_Tunnel prov)),
      (''TRANSPORT'', io_Transport opt), (''INSTALL_MODE'', io_InstallMode opt),
      (''SERVICE_NAME'', persistenceServiceName i (io_InstallMode opt)), (''CONFIG_DIR'', io_ConfigDir opt),
      (''DATA_DIR'', io_DataDir opt), (''AGENT_CONFIG'', cfgPath), (''AGENT_PATH'', io_AgentPath opt),
      (''PID_FILE'', path_join [io_DataDir opt, ''reach-agent.pid'']), (''TARGET_AUTH_FILE'', lp_AuthFile plan),
      (''LOCAL_SSH_MODE'', lp_Mode plan), (''LOCAL_FORWARD_PORT'', show_int (lp_LocalPort plan))]"

definition env_line :: "string \<times> string \<Rightarrow> string" where
  "env_line kv = fst kv @ ''='' @ [CHR 0x27] @ snd kv @ [CHR 0x27] @ [nl]"

definition writeInstallEnv :: "install_world \<Rightarrow> installOptions \<Rightarrow> provisionResponse \<Rightarrow> string \<Rightarrow> localSSHPlan \<Rightarrow> host \<Rightarrow> host" where
  "writeInstallEnv i opt prov cfgPath plan =
     silently (write_file (path_join [io_ConfigDir opt, ''install.env'']) (concat (map env_line (env_pairs i opt prov cfgPath plan))))"

end
