(* ===== verification/InstallService.thy ===== *)
theory InstallService
  imports InstallFiles
begin

text \<open>
  How the agent is kept running (\<open>cmd/reach-agent/install.go\<close>): systemd, launchd, cron, or a detached
  process for this boot; each with the text it installs and the fall-back to the next. And what an
  uninstallation undoes of it.
\<close>

subsection \<open>Commands as text\<close>

definition shellQuote :: "string \<Rightarrow> string" where
  "shellQuote s = [CHR 0x27] @ replace_char (CHR 0x27) [CHR 0x27, bslash, CHR 0x27, CHR 0x27] s @ [CHR 0x27]"

text \<open>\<open>commandPathQuote\<close> is the identity outside Windows.\<close>

definition agentCommand :: "agent_env \<Rightarrow> string \<Rightarrow> string \<Rightarrow> string" where
  "agentCommand env agentPath cfgPath =
     (if isDiscoverableAgentConfig env cfgPath then agentPath else agentPath @ '' run --config '' @ cfgPath)"

definition agentShellCommand :: "agent_env \<Rightarrow> string \<Rightarrow> string \<Rightarrow> string" where
  "agentShellCommand env agentPath cfgPath =
     (if isDiscoverableAgentConfig env cfgPath then shellQuote agentPath
      else shellQuote agentPath @ '' run --config '' @ shellQuote cfgPath)"

definition plist_escape_char :: "char \<Rightarrow> string" where
  "plist_escape_char c =
     (if c = CHR ''&'' then ''&amp;'' else if c = CHR ''<'' then ''&lt;'' else if c = CHR ''>'' then ''&gt;''
      else if c = dq then ''&quot;'' else if c = CHR 0x27 then ''&apos;'' else [c])"

definition plistEscape :: "string \<Rightarrow> string" where
  "plistEscape s = concat (map plist_escape_char s)"

definition plist_string :: "string \<Rightarrow> string" where
  "plist_string s = ''<string>'' @ plistEscape s @ ''</string>''"

definition launchdPlist :: "agent_env \<Rightarrow> string \<Rightarrow> string \<Rightarrow> string \<Rightarrow> string \<Rightarrow> string \<Rightarrow> string" where
  "launchdPlist env label agentPath cfgPath dataDir logPath =
     concat (map (\<lambda>l. l @ [nl])
       ([''<?xml version=\"1.0\" encoding=\"UTF-8\"?>'',
         ''<!DOCTYPE plist PUBLIC \"-//Apple//DTD PLIST 1.0//EN\" \"http://www.apple.com/DTDs/PropertyList-1.0.dtd\">'',
         ''<plist version=\"1.0\">'', ''<dict>'', ''  <key>Label</key>'', ''  '' @ plist_string label,
         ''  <key>ProgramArguments</key>'', ''  <array>''] @
        map (\<lambda>arg. ''    '' @ plist_string arg) (agentPath # agentCommandArgs env cfgPath) @
        [''  </array>'', ''  <key>RunAtLoad</key>'', ''  <true/>'', ''  <key>KeepAlive</key>'', ''  <true/>'',
         ''  <key>WorkingDirectory</key>'', ''  '' @ plist_string dataDir,
         ''  <key>StandardOutPath</key>'', ''  '' @ plist_string logPath,
         ''  <key>StandardErrorPath</key>'', ''  '' @ plist_string logPath, ''</dict>'', ''</plist>'']))"

text \<open>The unit of the system (\<open>network-online.target\<close> and \<open>multi-user.target\<close>) and that of a user.\<close>

definition systemd_unit :: "bool \<Rightarrow> string \<Rightarrow> string" where
  "systemd_unit system execStart =
     concat (map (\<lambda>l. l @ [nl])
       ([''[Unit]'', ''Description=Reach target agent''] @
        (if system then [''After=network-online.target'', ''Wants=network-online.target''] else [''After=default.target'']) @
        [[], ''[Service]'', ''Type=simple'', ''ExecStart='' @ execStart, ''Restart=always'', ''RestartSec=10'', [],
         ''[Install]'', if system then ''WantedBy=multi-user.target'' else ''WantedBy=default.target'']))"

subsection \<open>Installing a service\<close>

text \<open>A command whose failure is an error that names what was tried.\<close>

definition checked :: "string \<Rightarrow> string list \<Rightarrow> host \<Rightarrow> string option \<times> host" where
  "checked what c h =
     (case host_do c h of ((True, _), h1) \<Rightarrow> (None, h1)
      | ((False, out), h1) \<Rightarrow> (Some (what @ '' failed: exit status 1: '' @ trim_space out), h1))"

definition ignored :: "string list \<Rightarrow> host \<Rightarrow> host" where
  "ignored c h = snd (host_do c h)"

definition need_program :: "string \<Rightarrow> string \<Rightarrow> host \<Rightarrow> string option \<times> host" where
  "need_program program err h =
     (case look_path program h of (ok, h1) \<Rightarrow> (if ok then None else Some err, h1))"

definition lookup_error :: "string \<Rightarrow> string" where
  "lookup_error program = ''exec: '' @ go_quote program @ '': executable file not found in $PATH''"

definition bootstrapLaunchd :: "string \<Rightarrow> string \<Rightarrow> string \<Rightarrow> host \<Rightarrow> string option \<times> host" where
  "bootstrapLaunchd domain label plistPath =
     (let service = domain @ ''/'' @ label in
      and_then (need_program ''launchctl'' (lookup_error ''launchctl''))
     (and_then (\<lambda>h. (None, ignored [''launchctl'', ''bootout'', domain, plistPath] (ignored [''launchctl'', ''bootout'', service] h)))
     (and_then (checked (''launchctl bootstrap '' @ domain) [''launchctl'', ''bootstrap'', domain, plistPath])
     (and_then (checked (''launchctl enable '' @ service) [''launchctl'', ''enable'', service])
               (checked (''launchctl kickstart '' @ service) [''launchctl'', ''kickstart'', ''-k'', service])))))"

definition install_plist :: "install_world \<Rightarrow> string \<Rightarrow> string \<Rightarrow> string \<Rightarrow> string \<Rightarrow> string \<Rightarrow> host \<Rightarrow> string option \<times> host" where
  "install_plist i domain plistDir agentPath cfgPath dataDir =
     (let plistPath = path_join [plistDir, launchdLabel @ ''.plist'']; logPath = path_join [dataDir, ''agent.log''] in
      and_then (os_call [''MkdirAll'', plistDir] id)
     (and_then (os_call [''MkdirAll'', dataDir] id)
     (and_then (write_file plistPath (launchdPlist (iw_agent i) launchdLabel agentPath cfgPath dataDir logPath))
               (bootstrapLaunchd domain launchdLabel plistPath))))"

definition installLaunchAgent :: "install_world \<Rightarrow> string \<Rightarrow> string \<Rightarrow> string \<Rightarrow> host \<Rightarrow> string option \<times> host" where
  "installLaunchAgent i agentPath cfgPath dataDir =
     (case iw_home i of
        Some home \<Rightarrow>
          if home = [] then fail_with (Some ''could not determine home for LaunchAgent'')
          else install_plist i (''gui/'' @ iw_uid i) (path_join [home, ''Library'', ''LaunchAgents'']) agentPath cfgPath dataDir
      | None \<Rightarrow> fail_with (Some ''could not determine home for LaunchAgent''))"

definition installLaunchDaemon :: "install_world \<Rightarrow> string \<Rightarrow> string \<Rightarrow> string \<Rightarrow> host \<Rightarrow> string option \<times> host" where
  "installLaunchDaemon i agentPath cfgPath dataDir =
     (if \<not> iw_root i then fail_with (Some ''LaunchDaemon install needs root'')
      else install_plist i ''system'' ''/Library/LaunchDaemons'' agentPath cfgPath dataDir)"

definition installSystemdService :: "install_world \<Rightarrow> string \<Rightarrow> string \<Rightarrow> host \<Rightarrow> string option \<times> host" where
  "installSystemdService i agentPath cfgPath =
     and_then (need_program ''systemctl'' ''systemctl is required for reach-agent system service'')
    (and_then (write_file ''/etc/systemd/system/reach-agent.service'' (systemd_unit True (agentCommand (iw_agent i) agentPath cfgPath)))
    (and_then (\<lambda>h. (None, ignored [''systemctl'', ''disable'', ''--now'', ''reach-tunnel.service''] h))
    (and_then (checked ''systemctl daemon-reload'' [''systemctl'', ''daemon-reload''])
              (checked ''systemctl enable --now reach-agent'' [''systemctl'', ''enable'', ''--now'', ''reach-agent.service'']))))"

definition user_unit_dir :: "install_world \<Rightarrow> string" where
  "user_unit_dir i = path_join [case iw_home i of Some h \<Rightarrow> h | None \<Rightarrow> [], ''.config'', ''systemd'', ''user'']"

definition installUserSystemd :: "install_world \<Rightarrow> string \<Rightarrow> string \<Rightarrow> host \<Rightarrow> string option \<times> host" where
  "installUserSystemd i agentPath cfgPath =
     and_then (need_program ''systemctl'' (lookup_error ''systemctl''))
    (and_then (\<lambda>h. case host_do [''systemctl'', ''--user'', ''list-units''] h of ((ok, _), h1) \<Rightarrow> (if ok then None else Some ''exit status 1'', h1))
    (and_then (os_call [''MkdirAll'', user_unit_dir i] id)
    (and_then (write_file (path_join [user_unit_dir i, ''reach-agent.service'']) (systemd_unit False (agentCommand (iw_agent i) agentPath cfgPath)))
    (and_then (checked ''systemctl --user daemon-reload'' [''systemctl'', ''--user'', ''daemon-reload''])
    (and_then (checked ''systemctl --user enable --now'' [''systemctl'', ''--user'', ''enable'', ''--now'', ''reach-agent.service''])
      (\<lambda>h. case look_path ''loginctl'' h of
            (False, h1) \<Rightarrow> (None, h1)
          | (True, h1) \<Rightarrow> (case currentUsername i h1 of (me, h2) \<Rightarrow> (None, ignored [''loginctl'', ''enable-linger'', me] h2))))))))"

text \<open>The crontab goes to \<open>crontab -\<close> as its standard input, here its last argument.\<close>

definition cron_line :: "agent_env \<Rightarrow> string \<Rightarrow> string \<Rightarrow> string \<Rightarrow> string" where
  "cron_line env agentPath cfgPath logPath =
     ''@reboot sleep 20; '' @ agentShellCommand env agentPath cfgPath @ '' >> '' @ shellQuote logPath @ '' 2>&1''"

definition other_cron_lines :: "string \<Rightarrow> string list" where
  "other_cron_lines tab = filter (\<lambda>l. \<not> contains l ''reach-agent'' \<and> trim_space l \<noteq> []) (split_on nl tab)"

definition installCron :: "install_world \<Rightarrow> string \<Rightarrow> string \<Rightarrow> string \<Rightarrow> unit hosted" where
  "installCron i agentPath cfgPath dataDir =
     (let logPath = path_join [dataDir, ''agent.log''] in
      hbind (lift_host (need_program ''crontab'' (lookup_error ''crontab''))) (\<lambda>_ h.
        case command_output [''crontab'', ''-l''] h of (tab, h1) \<Rightarrow>
          hbind (lift_host (checked ''crontab install''
                  [''crontab'', ''-'', concat (map (\<lambda>l. l @ [nl])
                     ((case tab of None \<Rightarrow> [] | Some out \<Rightarrow> other_cron_lines out) @ [cron_line (iw_agent i) agentPath cfgPath logPath]))]))
                (\<lambda>_. startDetached (iw_agent i) agentPath cfgPath logPath (path_join [dataDir, ''reach-agent.pid''])) h1))"

text \<open>The first way that works, each with the name that is reported.\<close>

definition detached_agent :: "install_world \<Rightarrow> installOptions \<Rightarrow> string \<Rightarrow> string \<Rightarrow> string hosted" where
  "detached_agent i opt cfgPath scope =
     hbind (startDetached (iw_agent i) (io_AgentPath opt) cfgPath (path_join [io_DataDir opt, ''agent.log''])
              (path_join [io_DataDir opt, ''reach-agent.pid'']))
           (\<lambda>_. hret (''detached process for this '' @ scope @ '' only''))"

definition first_way :: "(unit hosted \<times> string) list \<Rightarrow> string hosted \<Rightarrow> string hosted" where
  "first_way ways fallback =
     foldr (\<lambda>(f, nm) g h. case f h of (Inr _, h1) \<Rightarrow> (Inr nm, h1) | (Inl _, h1) \<Rightarrow> g h1) ways fallback"

definition installPersistence :: "install_world \<Rightarrow> installOptions \<Rightarrow> string \<Rightarrow> string hosted" where
  "installPersistence i opt cfgPath =
     (let agent = io_AgentPath opt; dataDir = io_DataDir opt; system = (io_InstallMode opt = ''system'');
          home = (case iw_home i of Some h \<Rightarrow> h | None \<Rightarrow> [])
      in if iw_goos i = ''darwin'' then
           (if system then
              first_way [(lift_host (installLaunchDaemon i agent cfgPath dataDir),
                          ''/Library/LaunchDaemons/'' @ launchdLabel @ ''.plist'')] (detached_agent i opt cfgPath ''boot'')
            else first_way [(lift_host (installLaunchAgent i agent cfgPath dataDir),
                             path_join [home, ''Library'', ''LaunchAgents'', launchdLabel @ ''.plist''])]
                   (detached_agent i opt cfgPath ''login''))
         else if system then
           first_way [(lift_host (installSystemdService i agent cfgPath), ''/etc/systemd/system/reach-agent.service''),
                      (installCron i agent cfgPath dataDir, ''root crontab @reboot'')] (detached_agent i opt cfgPath ''boot'')
         else first_way [(lift_host (installUserSystemd i agent cfgPath),
                          path_join [home, ''.config'', ''systemd'', ''user'', ''reach-agent.service'']),
                         (installCron i agent cfgPath dataDir, ''user crontab @reboot'')] (detached_agent i opt cfgPath ''login''))"

subsection \<open>Undoing it\<close>

definition remove_path :: "string \<Rightarrow> host \<Rightarrow> host" where
  "remove_path p = silently (unlink_file p)"

definition stopLaunchd :: "install_world \<Rightarrow> installOptions \<Rightarrow> host \<Rightarrow> host" where
  "stopLaunchd i opt h =
     (case look_path ''launchctl'' h of
        (False, h1) \<Rightarrow> h1
      | (True, h1) \<Rightarrow>
          let label = or_else (env_value (readInstallEnv (ho_files h1) (path_join [io_ConfigDir opt, ''install.env''])) ''SERVICE_NAME'')
                        launchdLabel;
              system = (io_InstallMode opt = ''system'');
              service = (if system then ''system/'' else ''gui/'' @ iw_uid i @ ''/'') @ label;
              h2 = ignored [''launchctl'', ''disable'', service] (ignored [''launchctl'', ''bootout'', service] h1)
          in if system then remove_path (path_join [''/Library/LaunchDaemons'', label @ ''.plist'']) h2
             else (case iw_home i of
                 Some home \<Rightarrow>
                   if home \<noteq> [] then remove_path (path_join [home, ''Library'', ''LaunchAgents'', label @ ''.plist'']) h2 else h2
               | None \<Rightarrow> h2))"

definition removeReachCrontab :: "host \<Rightarrow> host" where
  "removeReachCrontab h =
     (case look_path ''crontab'' h of
        (False, h1) \<Rightarrow> h1
      | (True, h1) \<Rightarrow>
          (case command_output [''crontab'', ''-l''] h1 of
             (None, h2) \<Rightarrow> h2
           | (Some tab, h2) \<Rightarrow> ignored [''crontab'', ''-'', join [nl] (other_cron_lines tab) @ [nl]] h2))"

definition kill_agents :: "host \<Rightarrow> host" where
  "kill_agents h =
     ignored [''pkill'', ''-f'', ''user-sshd/sshd_config''] (ignored [''pkill'', ''-f'', ''reach-agent run --config''] h)"

definition stopPersistence :: "install_world \<Rightarrow> installOptions \<Rightarrow> host \<Rightarrow> host" where
  "stopPersistence i opt h =
     (if iw_goos i = ''darwin'' then kill_agents (removeReachCrontab (stopLaunchd i opt h))
      else if io_InstallMode opt = ''system'' then
        (let h1 = ignored [''systemctl'', ''disable'', ''--now'', ''reach-tunnel.service'']
                    (ignored [''systemctl'', ''disable'', ''--now'', ''reach-agent.service''] h);
             h2 = remove_path ''/etc/systemd/system/reach-tunnel.service'' (remove_path ''/etc/systemd/system/reach-agent.service'' h1)
         in kill_agents (ignored [''systemctl'', ''daemon-reload''] h2))
      else
        (let h1 = ignored [''systemctl'', ''--user'', ''disable'', ''--now'', ''reach-agent.service''] h;
             h2 = remove_path (path_join [user_unit_dir i, ''reach-agent.service'']) h1
         in kill_agents (removeReachCrontab (ignored [''systemctl'', ''--user'', ''daemon-reload''] h2))))"

text \<open>The lines that stay: those without the machine's marker that are not empty.\<close>

definition unmarked_lines :: "string \<Rightarrow> string \<Rightarrow> string list" where
  "unmarked_lines marker text = filter (\<lambda>l. \<not> contains l marker \<and> l \<noteq> []) (split_on nl text)"

definition removeAuthorizedKeyMarker :: "(string \<rightharpoonup> string) \<Rightarrow> host \<Rightarrow> host" where
  "removeAuthorizedKeyMarker env h =
     (let machineID = env_value env ''MACHINE_ID''; authFile = env_value env ''TARGET_AUTH_FILE'' in
      if machineID = [] \<or> authFile = [] then h
      else case ho_files h authFile of
          None \<Rightarrow> h
        | Some b \<Rightarrow> silently (write_file authFile (join [nl] (unmarked_lines ('' reach:'' @ machineID) b) @ [nl])) h)"

definition removePID :: "string \<Rightarrow> host \<Rightarrow> host" where
  "removePID path h =
     (if path = [] then h
      else remove_path path
        (case readPID (ho_files h) path of
           None \<Rightarrow> h
         | Some pid \<Rightarrow>
             (case processAlive pid h of
                (True, h1) \<Rightarrow> ignored [''signal'', show_int pid, ''TERM''] h1 | (False, h1) \<Rightarrow> h1)))"

definition isReachAgentBinaryName :: "string \<Rightarrow> bool" where
  "isReachAgentBinaryName nm \<longleftrightarrow> nm = ''reach-agent'' \<or> equal_fold nm ''reach-agent.exe''"

end
