(* ===== verification/InstallFlow.thy ===== *)
theory InstallFlow
  imports InstallService
begin

text \<open>
  The installation and the uninstallation as a whole (\<open>cmd/reach-agent/install.go\<close>): the requests to
  the hub, the wait for an operator's approval, the provisioning, and the two commands after their
  flags are parsed. The wait may last for ever; it gets a number of requests and a number of polls
  per request, and its result is None when they are used up.
\<close>

subsection \<open>Requests\<close>

text \<open>\<open>postJSON\<close>; \<open>decode\<close> reads the answer's body, at most 1 MiB of it. The payload is a Go map, which
  \<open>json.Marshal\<close> writes in the order of its keys: the lists below have that order.\<close>

definition postJSON ::
  "install_world \<Rightarrow> string \<Rightarrow> (string \<times> json) list \<Rightarrow> (string \<Rightarrow> string + 'a) \<Rightarrow> string \<Rightarrow> 'a hosted" where
  "postJSON i url payload decode bearer h =
     (case iw_url_error i url of
        Some e \<Rightarrow> (Inl e, h)
      | None \<Rightarrow>
          (let a = [''POST'', url, bearer, marshal (JObj payload)]; h1 = h\<lparr>ho_log := ho_log h @ [a]\<rparr> in
           case iw_net i (ho_log h) a of
             NoAnswer e \<Rightarrow> (Inl e, h1)
           | Answer status body0 \<Rightarrow>
               (let body = take 1048576 body0 in
                if status div 100 \<noteq> 2 then (Inl (url @ '' returned '' @ show_nat status @ '': '' @ trim_space body), h1)
                else (decode body, h1))))"

definition no_registration :: registerResponse where
  "no_registration = \<lparr>rg_Status = [], rg_RequestID = [], rg_ClientSecret = [], rg_SetupToken = [], rg_SetupTokenExpiresAt = []\<rparr>"

datatype poll_result = Decided "string + registerResponse" | Expired | Cancelled

text \<open>The polls of one request, three seconds apart; an answer is decoded over the one before.\<close>

fun poll_loop :: "install_world \<Rightarrow> string \<Rightarrow> string \<Rightarrow> nat \<Rightarrow> registerResponse \<Rightarrow> host \<Rightarrow> poll_result option \<times> host" where
  "poll_loop i api secret 0 reg h = (None, h)"
| "poll_loop i api secret (Suc n) reg h =
     (if iw_cancelled i (ho_log h) then (Some Cancelled, h)
      else case postJSON i (api @ ''/api/client/register/'' @ rg_RequestID reg @ ''/poll'') [(''client_secret'', JStr secret)]
             (\<lambda>b. iw_register i b reg) [] (ignored [''sleep'', ''3s''] h) of
          (Inl e, h1) \<Rightarrow> (Some (Decided (Inl e)), h1)
        | (Inr reg1, h1) \<Rightarrow>
            if rg_Status reg1 = ''approved'' then (Some (Decided (Inr reg1)), h1)
            else if rg_Status reg1 = ''pending'' then poll_loop i api secret n reg1 h1
            else if rg_Status reg1 = ''denied'' then (Some (Decided (Inl ''Reach request was denied'')), h1)
            else if rg_Status reg1 = ''expired'' then (Some Expired, h1)
            else (Some (Decided (Inl (''unexpected registration status '' @ go_quote (rg_Status reg1)))), h1))"

definition register_payload :: "installOptions \<Rightarrow> (string \<times> json) list" where
  "register_payload opt =
     [(''auth_code'', JStr (io_Token opt)), (''name'', JStr (io_Name opt)), (''target_user'', JStr (io_TargetUser opt))]"

fun registerAndWait ::
  "install_world \<Rightarrow> installOptions \<Rightarrow> nat \<Rightarrow> nat \<Rightarrow> host \<Rightarrow> (string + registerResponse) option \<times> host" where
  "registerAndWait i opt polls 0 h = (None, h)"
| "registerAndWait i opt polls (Suc n) h =
     (if iw_cancelled i (ho_log h) then (Some (Inl ''context canceled''), h)
      else case postJSON i (io_APIURL opt @ ''/api/client/register'') (register_payload opt)
             (\<lambda>b. iw_register i b no_registration) [] h of
          (Inl e, h1) \<Rightarrow> (Some (Inl e), h1)
        | (Inr reg, h1) \<Rightarrow>
            if rg_Status reg \<noteq> ''pending'' then (Some (Inr reg), h1)
            else (case poll_loop i (io_APIURL opt) (rg_ClientSecret reg) polls reg h1 of
                (None, h2) \<Rightarrow> (None, h2)
              | (Some (Decided r), h2) \<Rightarrow> (Some r, h2)
              | (Some Expired, h2) \<Rightarrow> registerAndWait i opt polls n h2
              | (Some Cancelled, h2) \<Rightarrow> registerAndWait i opt polls n h2))"

text \<open>\<open>distroString\<close>: the identifier and version of \<open>/etc/os-release\<close>.\<close>

definition distroString :: "install_world \<Rightarrow> (string \<rightharpoonup> string) \<Rightarrow> string" where
  "distroString i files =
     (case files ''/etc/os-release'' of
        None \<Rightarrow> iw_goos i
      | Some b \<Rightarrow>
          (let vals = fold (\<lambda>line m. case cut (CHR ''='') line of None \<Rightarrow> m | Some (k, v) \<Rightarrow> m(k \<mapsto> trim_chars v [dq]))
                        (split_on nl b) (\<lambda>_. None)
           in trim_space (env_value vals ''ID'' @ '' '' @ env_value vals ''VERSION_ID'')))"

definition provision_payload :: "install_world \<Rightarrow> installOptions \<Rightarrow> registerResponse \<Rightarrow> string \<Rightarrow> localSSHPlan \<Rightarrow> host \<Rightarrow> (string \<times> json) list" where
  "provision_payload i opt reg pubkey plan h =
     [(''arch'', JStr (iw_goarch i)), (''display_name'', JStr (io_Name opt)), (''distro'', JStr (distroString i (ho_files h))),
      (''local_port'', JNum (lp_LocalPort plan)), (''mode'', JStr (lp_Mode plan)),
      (''persistence'', JStr (''reach-agent-'' @ io_InstallMode opt)), (''pubkey'', JStr pubkey),
      (''request_id'', JStr (rg_RequestID reg)), (''setup_token'', JStr (rg_SetupToken reg)),
      (''slug'', JStr (normalizeSlug i (io_Name opt))), (''target_user'', JStr (io_TargetUser opt))]"

definition provision :: "install_world \<Rightarrow> installOptions \<Rightarrow> registerResponse \<Rightarrow> string \<Rightarrow> localSSHPlan \<Rightarrow> provisionResponse hosted" where
  "provision i opt reg pubkey plan h =
     (if rg_SetupToken reg = [] then (Inl ''registration did not return setup_token'', h)
      else postJSON i (io_APIURL opt @ ''/api/client/provision'') (provision_payload i opt reg pubkey plan h) (iw_provision i) [] h)"

subsection \<open>The information file\<close>

definition installActor :: "install_world \<Rightarrow> host \<Rightarrow> string \<times> host" where
  "installActor i h =
     (let sudo = iw_getenv i ''SUDO_USER'' in
      if sudo \<noteq> [] \<and> sudo \<noteq> ''root'' then (sudo @ '' via sudo'', h)
      else case currentUsername i h of (u, h1) \<Rightarrow> (if u \<noteq> [] then u else ''unknown'', h1))"

definition publicRepoURL :: string where "publicRepoURL = ''https://github.com/Yan-Yu-Lin/reach''"

definition info_lines ::
  "install_world \<Rightarrow> string \<Rightarrow> installOptions \<Rightarrow> provisionResponse \<Rightarrow> string \<Rightarrow> localSSHPlan \<Rightarrow> string \<Rightarrow> string \<Rightarrow> string list" where
  "info_lines i actor opt prov cfgPath plan wsPath backend =
     (let info = path_join [io_DataDir opt, ''REACH_INFO.txt'']; copy = path_join [io_ConfigDir opt, ''REACH_INFO.txt''];
          system = (io_InstallMode opt = ''system''); marker = ''reach:'' @ pm_ID (pv_Machine prov)
      in [''Reach target agent'', ''=================='', [], ''What this is:'',
          ''Reach is a self-hosted reverse SSH tunnel manager. This machine runs reach-agent,'',
          ''which opens an outbound tunnel to a Reach hub so an approved operator can SSH back'',
          ''to this machine through the hub.'', [], ''Who set it up:'', ''Installed by: '' @ actor,
          ''Installed at: '' @ iw_local_time i, [], ''Source code:'', publicRepoURL, [], ''Hub/API:'',
          ''API URL: '' @ io_APIURL opt, ''Hub SSH host: '' @ ph_PublicHost (pv_Hub prov),
          ''Hub SSH port: '' @ show_int (ph_SSHPort (pv_Hub prov)), [], ''Machine:'',
          ''Machine ID: '' @ pm_ID (pv_Machine prov), ''SSH alias: '' @ pm_Slug (pv_Machine prov),
          ''Target SSH user: '' @ io_TargetUser opt, ''Install mode: '' @ io_InstallMode opt,
          ''Transport: '' @ io_Transport opt, ''Local SSH mode: '' @ lp_Mode plan,
          ''Local SSH loopback port: '' @ show_int (lp_LocalPort plan),
          ''Assigned hub tunnel port: '' @ show_int (pt_RemotePort (pv_Tunnel prov)), [],
          ''Created/touched files and directories:'', ''Agent binary: '' @ io_AgentPath opt,
          ''Config directory: '' @ io_ConfigDir opt, ''Data directory: '' @ io_DataDir opt, ''Agent config: '' @ cfgPath,
          ''Install metadata: '' @ path_join [io_ConfigDir opt, ''install.env''], ''Transparency info: '' @ info] @
         (if copy \<noteq> info then [''Transparency info copy: '' @ copy] else []) @
         [''Pinned hub host keys: '' @ path_join [io_ConfigDir opt, ''known_hosts''],
          ''Tunnel private key: '' @ path_join [io_DataDir opt, ''tunnel_key''],
          ''Tunnel public key: '' @ path_join [io_DataDir opt, ''tunnel_key.pub''],
          ''Agent log: '' @ path_join [io_DataDir opt, ''agent.log''],
          ''Tunnel log: '' @ path_join [io_DataDir opt, ''tunnel.log''],
          ''PID file/fallback PID: '' @ path_join [io_DataDir opt, ''reach-agent.pid''],
          ''Authorized keys touched: '' @ lp_AuthFile plan, ''Authorized keys marker: '' @ marker] @
         (if lp_UserSSHD plan then [''User sshd config: '' @ lp_SSHDConfig plan, ''User sshd log: '' @ lp_SSHDLog plan] else []) @
         (if lp_InternalSSHD plan then [''Internal SSH server host key: '' @ lp_HostKeyPath plan,
                                        ''Internal SSH server log: '' @ lp_SSHDLog plan] else []) @
         (if wsPath \<noteq> [] \<and> wsPath \<noteq> io_AgentPath opt then [''WebSocket carrier binary: '' @ wsPath] else []) @
         [[], ''Persistence:'', ''Active persistence backend: '' @ backend, ''Service name: reach-agent.service''] @
         (if system then [''Systemd service path: /etc/systemd/system/reach-agent.service'',
                          ''Fallback persistence may use root crontab or a detached process.'']
          else [''User systemd service path: '' @ path_join [user_unit_dir i, ''reach-agent.service''],
                ''Fallback persistence may use user crontab or a detached process.'']) @
         [''Older reach-tunnel.service units are disabled/removed during install/uninstall.'', [], ''Uninstall:'',
          (if system then ''sudo '' @ io_AgentPath opt @ '' uninstall --mode system''
           else io_AgentPath opt @ '' uninstall --mode user''), [],
          ''Uninstall stops Reach services/processes, removes Reach-managed authorized_keys'',
          ''lines marked with '' @ marker @ '', removes local Reach config/data directories, removes the'',
          ''agent binary, and notifies the hub when possible.''])"

definition writeReachInfo ::
  "install_world \<Rightarrow> installOptions \<Rightarrow> provisionResponse \<Rightarrow> string \<Rightarrow> localSSHPlan \<Rightarrow> string \<Rightarrow> string \<Rightarrow> host \<Rightarrow> string option \<times> host" where
  "writeReachInfo i opt prov cfgPath plan wsPath backend h =
     (case installActor i h of (actor, h1) \<Rightarrow>
        let text = concat (map (\<lambda>l. l @ [nl]) (info_lines i actor opt prov cfgPath plan wsPath backend));
            write = (\<lambda>p h. case write_file p text h of
                (None, h') \<Rightarrow> ([], h') | (Some e, h') \<Rightarrow> ([''write '' @ p @ '': '' @ e], h'));
            (e1, h2) = write (path_join [io_DataDir opt, ''REACH_INFO.txt'']) h1;
            (e2, h3) = write (path_join [io_ConfigDir opt, ''REACH_INFO.txt'']) h2
        in (if e1 @ e2 = [] then None else Some (join [nl] (e1 @ e2)), h3))"

subsection \<open>The installation\<close>

text \<open>The options after their defaults, and what is refused before anything is done.\<close>

definition checked_options :: "install_world \<Rightarrow> installOptions \<Rightarrow> string + installOptions" where
  "checked_options i opt0 =
     (let opt = (if io_InstallMode opt0 = ''auto'' then opt0\<lparr>io_InstallMode := defaultInstallMode i\<rparr> else opt0) in
      if iw_goos i \<noteq> ''linux'' \<and> iw_goos i \<noteq> ''darwin'' then
        Inl (''reach-agent install currently supports Linux, macOS, and Windows only (got '' @ iw_goos i @ '')'')
      else if io_InstallMode opt = ''system'' \<and> \<not> canManageSystemInstall i then
        Inl ''system install needs root; use --mode user or rerun via sudo''
      else if io_InstallMode opt \<noteq> ''system'' \<and> io_InstallMode opt \<noteq> ''user'' then Inl ''--mode must be auto, system, or user''
      else if io_Transport opt \<notin> {''auto'', ''direct'', ''websocket''} then Inl ''--transport must be auto, direct, or websocket''
      else Inr (applyModeDefaults i opt))"

definition named_options :: "install_world \<Rightarrow> installOptions \<Rightarrow> installOptions hosted" where
  "named_options i opt h =
     (let opt1 = opt\<lparr>io_Name := or_else (io_Name opt) (hostnameDefault i)\<rparr>;
          (opt2, h1) = (if io_TargetUser opt1 \<noteq> [] then (opt1, h)
            else case defaultTargetUser i h of (u, h') \<Rightarrow> (opt1\<lparr>io_TargetUser := u\<rparr>, h'))
      in (if io_Yes opt then Inr opt2
          else andThen (iw_prompt i ''Machine name / SSH alias'' (io_Name opt2)) (\<lambda>nm.
               andThen (iw_prompt i ''Local user the operator should SSH as'' (io_TargetUser opt2)) (\<lambda>user.
               andThen (if io_Token opt2 \<noteq> [] then Inr (io_Token opt2)
                        else iw_prompt i ''Reach auth code (leave empty to request operator approval)'' []) (\<lambda>token.
                 Inr (opt2\<lparr>io_Name := nm, io_TargetUser := user, io_Token := token\<rparr>)))), h1))"

definition wanted_carrier :: "install_world \<Rightarrow> installOptions \<Rightarrow> provisionResponse \<Rightarrow> string hosted" where
  "wanted_carrier i opt prov h =
     (case (case pv_WebSocket prov of Some ws \<Rightarrow> if pw_Enabled ws \<and> io_Transport opt \<noteq> ''direct'' then Some ws else None
            | None \<Rightarrow> None) of
        None \<Rightarrow> (Inr [], h)
      | Some ws \<Rightarrow>
          if pw_Carrier ws = [] \<or> pw_Carrier ws = ''reach'' then
            (Inr (if file_exists (io_AgentPath opt) h \<and> \<not> iw_is_dir i (io_AgentPath opt) then io_AgentPath opt
                  else case iw_exe i of Some exe \<Rightarrow> exe | None \<Rightarrow> io_AgentPath opt), h)
          else if pw_Carrier ws = ''wstunnel'' then
            (let dest = path_join [io_DataDir opt, ''wstunnel''] in hbind (installWSTunnel i dest ws) (\<lambda>_. hret dest) h)
          else (Inl (''unsupported websocket carrier '' @ go_quote (pw_Carrier ws)), h))"

text \<open>What follows the provisioning: files, carrier, configuration, service, environment, information.\<close>

definition finish_install ::
  "install_world \<Rightarrow> installOptions \<Rightarrow> SSHCompatConfig \<Rightarrow> localSSHPlan \<Rightarrow> provisionResponse \<Rightarrow> unit hosted" where
  "finish_install i opt cc plan prov =
     (let keyPath = path_join [io_DataDir opt, ''tunnel_key'']; hosts = path_join [io_ConfigDir opt, ''known_hosts''];
          cfgPath = path_join [io_ConfigDir opt, ''agent.yaml''];
          hostKeys = (if pv_HubHostKeys prov = [] then pv_LegacyHostKeys prov else pv_HubHostKeys prov)
      in if pv_AgentToken prov = [] then hfail ''provision response did not include agent_token; update reachd first''
         else hbind (lift_host (writeKnownHosts hosts hostKeys cc)) (\<lambda>_.
              hbind (lift_host (installAdminKeys i (lp_AuthFile plan) (io_TargetUser opt) prov
                       (io_InstallMode opt = ''system'' \<and> lp_Mode plan \<noteq> ''user-sshd'')
                       (if lp_InternalSSHD plan then internalSSHDSupportedKeyTypes else sc_SupportedAuthorizedKeyTypes cc)
                       (lp_InternalSSHD plan))) (\<lambda>_.
              hbind (wanted_carrier i opt prov) (\<lambda>wsPath.
              hbind (lift_host (writeYAML0600 i cfgPath (buildAgentConfig i opt prov keyPath hosts wsPath plan cc))) (\<lambda>_.
              hbind (installPersistence i opt cfgPath) (\<lambda>backend h.
                (Inr (), silently (writeReachInfo i opt prov cfgPath plan wsPath backend)
                           (writeInstallEnv i opt prov cfgPath plan h))))))))"

definition prepare_install :: "install_world \<Rightarrow> installOptions \<Rightarrow> SSHCompatConfig \<Rightarrow> (installOptions \<times> localSSHPlan) hosted" where
  "prepare_install i opt0 cc =
     hbind (\<lambda>h. (checked_options i opt0, h)) (\<lambda>opt1.
     hbind (named_options i opt1) (\<lambda>opt.
     hbind (\<lambda>h. (case validateTargetUserLocal (io_TargetUser opt) of Some e \<Rightarrow> Inl e | None \<Rightarrow> Inr (), h)) (\<lambda>_.
     hbind (userHome i (io_TargetUser opt)) (\<lambda>home.
     hbind (\<lambda>h. if io_InstallMode opt = ''user'' then
                  (case currentUsername i h of (me, h1) \<Rightarrow>
                     if io_TargetUser opt \<noteq> me then
                       (case currentUsername i h1 of (me', h2) \<Rightarrow>
                          (Inl (''user-mode install can only configure the current user ('' @ me' @ ''), not '' @ io_TargetUser opt), h2))
                     else (Inr (), h1))
                else (Inr (), h)) (\<lambda>_.
     hbind (lift_host (os_call [''MkdirAll'', io_ConfigDir opt] id)) (\<lambda>_.
     hbind (lift_host (os_call [''MkdirAll'', io_DataDir opt] id)) (\<lambda>_.
     hbind (prepareLocalSSH i opt home cc) (\<lambda>plan.
     hret (opt, plan)))))))))"

text \<open>\<open>None\<close>: still waiting for the approval.\<close>

definition installCommand :: "install_world \<Rightarrow> nat \<Rightarrow> nat \<Rightarrow> installOptions \<Rightarrow> host \<Rightarrow> (string + unit) option \<times> host" where
  "installCommand i polls requests opt0 h =
     (let cc = detectSSHCompatibility (iw_ssh_version i) (iw_keygen i) in
      case prepare_install i opt0 cc h of
        (Inl e, h1) \<Rightarrow> (Some (Inl e), h1)
      | (Inr (opt, plan), h1) \<Rightarrow>
          (case registerAndWait i opt polls requests h1 of
             (None, h2) \<Rightarrow> (None, h2)
           | (Some (Inl e), h2) \<Rightarrow> (Some (Inl e), h2)
           | (Some (Inr reg), h2) \<Rightarrow>
               (let keyPath = path_join [io_DataDir opt, ''tunnel_key''] in
                case hbind (lift_host (ensureTunnelKey i keyPath (io_Name opt) cc)) (\<lambda>_.
                     hbind (read_file (keyPath @ ''.pub'')) (\<lambda>pub.
                     hbind (provision i opt reg (trim_space pub) plan) (finish_install i opt cc plan))) h2 of
                  (r, h3) \<Rightarrow> (Some r, h3))))"

subsection \<open>The uninstallation\<close>

definition sendUninstallIntent ::
  "install_world \<Rightarrow> (string \<Rightarrow> AgentConfig \<Rightarrow> string + AgentConfig) \<Rightarrow> installOptions \<Rightarrow> (string \<rightharpoonup> string) \<Rightarrow> string \<Rightarrow> bool \<Rightarrow> host \<Rightarrow> host" where
  "sendUninstallIntent i unmarshal opt env reason complete h =
     (let machineID = env_value env ''MACHINE_ID'';
          cfgPath = or_else (env_value env ''AGENT_CONFIG'') (path_join [io_ConfigDir opt, ''agent.yaml''])
      in if machineID = [] then h
         else case LoadConfig (install_envDefault i) unmarshal (ho_files h) cfgPath of
             Inl _ \<Rightarrow> h
           | Inr c \<Rightarrow>
               if he_APIURL (ac_Heartbeat c) = [] \<or> he_Token (ac_Heartbeat c) = [] then h
               else snd (postJSON i (trim_right_chars (he_APIURL (ac_Heartbeat c)) ''/'' @
                           (if complete then ''/api/client/agent/uninstall-complete'' else ''/api/client/agent/uninstall-intent''))
                           [(''machine_id'', JStr machineID), (''reason'', JStr reason)] (\<lambda>_. Inr ()) (he_Token (ac_Heartbeat c)) h))"

text \<open>\<open>os.RemoveAll\<close>: the path and everything below it.\<close>

definition below :: "string \<Rightarrow> string \<Rightarrow> bool" where
  "below dir p \<longleftrightarrow> p = dir \<or> has_prefix p (dir @ ''/'')"

definition remove_tree :: "string \<Rightarrow> host \<Rightarrow> host" where
  "remove_tree dir = silently (os_call [''RemoveAll'', dir] (drop_files (below dir)))"

definition uninstall_options :: "install_world \<Rightarrow> installOptions \<Rightarrow> (string \<rightharpoonup> string) \<Rightarrow> installOptions \<times> (string \<rightharpoonup> string)" where
  "uninstall_options i opt0 files =
     (let opt = applyModeDefaults i (if io_InstallMode opt0 = ''auto'' then opt0\<lparr>io_InstallMode := defaultInstallMode i\<rparr> else opt0);
          env = readInstallEnv files (path_join [io_ConfigDir opt, ''install.env'']);
          pick = (\<lambda>k d. case env k of Some v \<Rightarrow> v | None \<Rightarrow> d)
      in (opt\<lparr>io_ConfigDir := pick ''CONFIG_DIR'' (io_ConfigDir opt), io_DataDir := pick ''DATA_DIR'' (io_DataDir opt),
              io_AgentPath := pick ''AGENT_PATH'' (io_AgentPath opt)\<rparr>, env))"

definition remove_files :: "installOptions \<Rightarrow> host \<Rightarrow> host" where
  "remove_files opt h =
     (let h1 = (if io_DataDir opt \<noteq> [] then remove_tree (io_DataDir opt) h else h);
          h2 = (if io_ConfigDir opt \<noteq> [] then remove_tree (io_ConfigDir opt) h1 else h1)
      in if io_AgentPath opt \<noteq> [] \<and> isReachAgentBinaryName (path_base (io_AgentPath opt)) then remove_path (io_AgentPath opt) h2
         else h2)"

definition uninstallCommand ::
  "install_world \<Rightarrow> (string \<Rightarrow> AgentConfig \<Rightarrow> string + AgentConfig) \<Rightarrow> installOptions \<Rightarrow> unit hosted" where
  "uninstallCommand i unmarshal opt0 h =
     (case uninstall_options i opt0 (ho_files h) of (opt, env) \<Rightarrow>
        let answer = (if io_Yes opt0 then Inr ''y'' else iw_prompt i ''Remove local Reach files and services?'' ''N'') in
        if io_InstallMode opt = ''system'' \<and> \<not> canManageSystemInstall i then (Inl ''system uninstall needs root'', h)
        else case answer of
            Inl e \<Rightarrow> (Inl e, h)
          | Inr ans \<Rightarrow>
              if \<not> equal_fold ans ''y'' \<and> \<not> equal_fold ans ''yes'' then (Inl ''cancelled'', h)
              else
                (let h1 = sendUninstallIntent i unmarshal opt env ''user_uninstall'' False h;
                     h2 = removePID (env_value env ''PID_FILE'') (removeAuthorizedKeyMarker env (stopPersistence i opt h1));
                     h3 = sendUninstallIntent i unmarshal opt env ''user_uninstall_complete'' True h2
                 in (Inr (), remove_files opt h3)))"

end
