(* ===== verification/InstallFacts.thy ===== *)
theory InstallFacts
  imports InstallFlow UpdateInstall
begin

text \<open>
  Facts on installing and uninstalling the agent: which files each operation writes, what comes back
  from the environment file, and what the two copies of a routine have in common.
\<close>

subsection \<open>Slugs\<close>

lemma slug_chars_True: "slug_chars True s = slug_chars True (dropWhile (\<lambda>c. \<not> is_slug_alnum c) s)"
  by (induction s) auto

lemma slug_chars_alnum_start: "s = [] \<or> is_slug_alnum (hd s) \<Longrightarrow> slug_chars True s = slug_chars False s"
  by (cases s) auto

lemma collapse_slug: "collapse_runs s = slug_chars False s"
proof (induction s rule: collapse_runs.induct)
  case (3 c s)
  let ?d = "dropWhile (\<lambda>c. \<not> is_slug_alnum c) s"
  have "?d = [] \<or> is_slug_alnum (hd ?d)" using hd_dropWhile [of "\<lambda>c. \<not> is_slug_alnum c" s] by auto
  then show ?case using 3 slug_chars_True [of s] slug_chars_alnum_start [of ?d] by simp
qed auto

lemma box_long: "\<not> length (''box-'' @ s) < 3"
  by simp

subsection \<open>The environment file\<close>

definition plain_value :: "string \<Rightarrow> bool" where
  "plain_value v \<longleftrightarrow> nl \<notin> set v \<and> (v = [] \<or> hd v \<noteq> CHR 0x27 \<and> last v \<noteq> CHR 0x27)"

definition plain_key :: "string \<Rightarrow> bool" where
  "plain_key k \<longleftrightarrow> k \<noteq> [] \<and> (\<forall>c \<in> set k. \<not> is_space c \<and> c \<noteq> CHR ''='' \<and> c \<noteq> nl) \<and> hd k \<noteq> CHR ''#''"

lemma trim_quotes: "plain_value v \<Longrightarrow> trim_chars ([CHR 0x27] @ v @ [CHR 0x27]) [CHR 0x27] = v"
proof -
  assume v: "plain_value v"
  show ?thesis
  proof (cases "v = []")
    case False
    have h: "hd v \<noteq> CHR 0x27" "last v \<noteq> CHR 0x27" using v False by (simp_all add: plain_value_def)
    have "dropWhile (\<lambda>c. c = CHR 0x27) (v @ [CHR 0x27]) = v @ [CHR 0x27]"
      using False h(1) by (cases v) simp_all
    moreover have "dropWhile (\<lambda>c. c = CHR 0x27) (rev v) = rev v"
      using False h(2) by (cases v rule: rev_cases) simp_all
    ultimately show ?thesis
      using False by (simp add: trim_chars_def trim_of_def trim_left_of_def trim_right_of_def)
  qed (simp add: trim_chars_def trim_of_def trim_left_of_def trim_right_of_def)
qed

lemma cut_at: "c \<notin> set a \<Longrightarrow> cut c (a @ c # b) = Some (a, b)"
  by (induction a) auto

lemma quote_not_space: "\<not> is_space (CHR 0x27)"
  by (simp add: is_space_def)

lemma env_line_read:
  assumes k: "plain_key k" and v: "plain_value v"
  defines "l \<equiv> k @ ''='' @ [CHR 0x27] @ v @ [CHR 0x27]"
  shows "trim_space l = l" "\<not> has_prefix l ''#''" "cut (CHR ''='') l = Some (k, [CHR 0x27] @ v @ [CHR 0x27])"
    "trim_space ([CHR 0x27] @ v @ [CHR 0x27]) = [CHR 0x27] @ v @ [CHR 0x27]" "l \<noteq> []" "nl \<notin> set l"
proof -
  have "\<not> is_space (hd k)" using k by (cases k) (auto simp: plain_key_def)
  then show "trim_space l = l" unfolding trim_space_def l_def
    by (intro trim_of_id) (use k in \<open>simp add: plain_key_def quote_not_space hd_append\<close>)
  show "\<not> has_prefix l ''#''" using k by (cases k) (auto simp: plain_key_def l_def has_prefix_def)
  have "CHR ''='' \<notin> set k" using k by (auto simp: plain_key_def)
  then show "cut (CHR ''='') l = Some (k, [CHR 0x27] @ v @ [CHR 0x27])" by (simp add: l_def cut_at)
  show "trim_space ([CHR 0x27] @ v @ [CHR 0x27]) = [CHR 0x27] @ v @ [CHR 0x27]"
    unfolding trim_space_def by (intro trim_of_id) (simp add: quote_not_space)
  show "l \<noteq> []" by (simp add: l_def)
  have "nl \<notin> set k" "nl \<notin> set v" using k v by (auto simp: plain_key_def plain_value_def)
  then show "nl \<notin> set l" by (simp add: l_def nl_def)
qed

lemma plain_show_int: "plain_value (show_int n)"
proof -
  have d: "is_digit c" if "c \<in> set (show_nat m)" for c m
    using show_nat_digits [of m] that by (auto simp: list_all_iff)
  have ne: "show_nat m \<noteq> []" for m using show_nat_digits [of m] by simp
  have q: "CHR 0x27 \<notin> set (show_int n)"
    using d [of "CHR 0x27"] by (auto simp: show_int_def is_digit_def)
  then have "hd (show_int n) \<noteq> CHR 0x27 \<and> last (show_int n) \<noteq> CHR 0x27" if "show_int n \<noteq> []"
    using that by (metis hd_in_set last_in_set)
  then show ?thesis using show_int_no_nl by (auto simp: plain_value_def)
qed

definition env_step :: "string \<Rightarrow> (string \<rightharpoonup> string) \<Rightarrow> string \<rightharpoonup> string" where
  "env_step raw out =
     (let line = trim_space raw in
      if line = [] \<or> has_prefix line ''#'' then out
      else case cut (CHR ''='') line of
          None \<Rightarrow> out
        | Some (k, v) \<Rightarrow> out(k \<mapsto> trim_chars (trim_space v) [CHR 0x27]))"

lemma readInstallEnv_steps:
  "files p = Some b \<Longrightarrow> readInstallEnv files p = fold env_step (split_on nl b) (\<lambda>_. None)"
  by (simp add: readInstallEnv_def env_step_def [abs_def])

lemma env_step_line:
  assumes "plain_key k" "plain_value v"
  shows "env_step (k @ ''='' @ [CHR 0x27] @ v @ [CHR 0x27]) out = out(k \<mapsto> v)"
  using env_line_read [OF assms] trim_quotes [OF assms(2)] by (simp add: env_step_def)

lemma env_step_blank: "env_step [] out = out"
  by (simp add: env_step_def trim_space_def)

lemma read_env_text:
  assumes "\<forall>(k, v) \<in> set kvs. plain_key k \<and> plain_value v" and "distinct (map fst kvs)"
    and "files p = Some (concat (map env_line kvs))"
  shows "readInstallEnv files p = map_of kvs"
proof -
  let ?l = "\<lambda>kv. fst kv @ ''='' @ [CHR 0x27] @ snd kv @ [CHR 0x27]"
  have "\<forall>l \<in> set (map ?l kvs). nl \<notin> set l" using env_line_read(6) assms(1) by fastforce
  moreover have "concat (map env_line kvs) = concat (map (\<lambda>l. l @ [nl]) (map ?l kvs))"
    by (simp add: env_line_def [abs_def] comp_def)
  ultimately have split: "split_on nl (concat (map env_line kvs)) = map ?l kvs @ [[]]"
    by (simp only: split_ended_lines)
  have "fold env_step (map ?l kvs @ [[]]) m = m ++ map_of kvs" for m
    using assms(1,2)
  proof (induction kvs arbitrary: m)
    case (Cons kv kvs)
    have "env_step (?l kv) m = m(fst kv \<mapsto> snd kv)" using env_step_line Cons.prems by (auto simp: split_beta)
    then have "fold env_step (map ?l (kv # kvs) @ [[]]) m = m(fst kv \<mapsto> snd kv) ++ map_of kvs"
      using Cons by simp
    also have "\<dots> = m ++ map_of (kv # kvs)"
      using Cons.prems(2) by (auto simp: map_add_def fun_eq_iff map_of_eq_None_iff [symmetric] split: option.split)
    finally show ?case .
  qed (simp add: env_step_blank)
  from this [of Map.empty] show ?thesis using readInstallEnv_steps [where files = files and p = p] assms(3) split by simp
qed

lemma written_file:
  "fst (ho_answer h (ho_log h) [''WriteFile'', p]) \<Longrightarrow> ho_files (silently (write_file p c) h) = (ho_files h)(p \<mapsto> c)"
  by (cases "ho_answer h (ho_log h) [''WriteFile'', p]") (simp add: silently_def write_file_def os_call_def host_do_def)

subsection \<open>Operations that write no file\<close>

named_theorems quiet \<open>operations that write no file, with their result and the host after them\<close>

lemma quiet_do [quiet]: "host_do a h = (r, k) \<Longrightarrow> ho_files k = ho_files h"
  by (rule host_do_files_eq)

lemma quiet_output [quiet]: "command_output c h = (r, k) \<Longrightarrow> ho_files k = ho_files h"
  by (auto simp: command_output_def split: prod.splits dest: quiet)

lemma quiet_look [quiet]: "look_path p h = (r, k) \<Longrightarrow> ho_files k = ho_files h"
  by (auto simp: look_path_def split: prod.splits dest: quiet)

lemma quiet_ignored [simp]: "ho_files (ignored c h) = ho_files h"
  by (simp add: ignored_def)

lemma quiet_checked [quiet]: "checked w c h = (r, k) \<Longrightarrow> ho_files k = ho_files h"
  by (auto simp: checked_def split: prod.splits bool.splits dest: quiet)

lemma quiet_need [quiet]: "need_program p e h = (r, k) \<Longrightarrow> ho_files k = ho_files h"
  by (auto simp: need_program_def split: prod.splits dest: quiet)

lemma quiet_alive [quiet]: "processAlive pid h = (r, k) \<Longrightarrow> ho_files k = ho_files h"
  by (auto simp: processAlive_def split: prod.splits dest: quiet)

lemma quiet_me [quiet]: "currentUsername i h = (r, k) \<Longrightarrow> ho_files k = ho_files h"
  by (auto simp: currentUsername_def split: prod.splits option.splits if_splits dest: quiet)

lemma quiet_actor [quiet]: "installActor i h = (r, k) \<Longrightarrow> ho_files k = ho_files h"
  by (auto simp: installActor_def Let_def split: prod.splits if_splits dest: quiet)

lemma quiet_post [quiet]: "postJSON i url payload decode bearer h = (r, k) \<Longrightarrow> ho_files k = ho_files h"
  by (auto simp: postJSON_def Let_def split: option.splits http_reply.splits if_splits)

lemma quiet_get [quiet]: "download i url h = (r, k) \<Longrightarrow> ho_files k = ho_files h"
  by (auto simp: download_def Let_def split: option.splits http_reply.splits if_splits)

lemma quiet_snd_post: "ho_files (snd (postJSON i url payload decode bearer h)) = ho_files h"
  by (cases "postJSON i url payload decode bearer h") (simp add: quiet_post)

lemma quiet_intent [simp]: "ho_files (sendUninstallIntent i u opt env reason complete h) = ho_files h"
  by (simp add: sendUninstallIntent_def Let_def quiet_snd_post split: sum.split)

lemma quiet_kill [simp]: "ho_files (kill_agents h) = ho_files h"
  by (simp add: kill_agents_def)

lemma quiet_crontab [simp]: "ho_files (removeReachCrontab h) = ho_files h"
  by (auto simp: removeReachCrontab_def split: prod.split bool.split option.split dest!: quiet)

lemma quiet_ids [quiet]: "lookupUIDGID i user h = (r, k) \<Longrightarrow> ho_files k = ho_files h"
  by (auto simp: lookupUIDGID_def split: option.splits prod.splits dest!: quiet)

lemma quiet_chown [simp]: "ho_files (chownPathToUser i path user h) = ho_files h"
  by (auto simp: chownPathToUser_def Let_def split: prod.split dest: quiet)

subsection \<open>What an uninstallation touches\<close>

lemma remove_path_frame: "x \<noteq> p \<Longrightarrow> ho_files (remove_path p h) x = ho_files h x"
  unfolding remove_path_def by (rule silently_files [where p = "\<lambda>y. y = p"]) (auto intro: only_remove)

lemma remove_tree_frame: "\<not> below dir x \<Longrightarrow> ho_files (remove_tree dir h) x = ho_files h x"
  unfolding remove_tree_def
  by (rule silently_files [where p = "below dir"]) (auto intro!: only_os_call simp: drop_files_def)

text \<open>The files of the service that \<open>stopPersistence\<close> removes.\<close>

definition service_files :: "install_world \<Rightarrow> installOptions \<Rightarrow> (string \<rightharpoonup> string) \<Rightarrow> string set" where
  "service_files i opt files =
     (if iw_goos i = ''darwin'' then
        (let label = or_else (env_value (readInstallEnv files (path_join [io_ConfigDir opt, ''install.env''])) ''SERVICE_NAME'') launchdLabel
         in if io_InstallMode opt = ''system'' then {path_join [''/Library/LaunchDaemons'', label @ ''.plist'']}
            else (case iw_home i of Some home \<Rightarrow> {path_join [home, ''Library'', ''LaunchAgents'', label @ ''.plist'']} | None \<Rightarrow> {}))
      else if io_InstallMode opt = ''system'' then
        {''/etc/systemd/system/reach-agent.service'', ''/etc/systemd/system/reach-tunnel.service''}
      else {path_join [user_unit_dir i, ''reach-agent.service'']})"

lemma stopLaunchd_frame:
  assumes "iw_goos i = ''darwin''" "x \<notin> service_files i opt (ho_files h)"
  shows "ho_files (stopLaunchd i opt h) x = ho_files h x"
proof -
  obtain ok h1 where 1: "look_path ''launchctl'' h = (ok, h1)" by (rule prod.exhaust)
  have f: "ho_files h1 = ho_files h" by (rule quiet_look [OF 1])
  show ?thesis
  proof (cases "ok \<and> io_InstallMode opt = ''system''")
    case True
    then show ?thesis using assms
      by (simp add: stopLaunchd_def 1 f Let_def service_files_def remove_path_frame)
  next
    case False
    then show ?thesis using assms
      by (cases ok; cases "iw_home i") (auto simp: stopLaunchd_def 1 f Let_def service_files_def remove_path_frame)
  qed
qed

lemma stopPersistence_frame:
  assumes "x \<notin> service_files i opt (ho_files h)"
  shows "ho_files (stopPersistence i opt h) x = ho_files h x"
proof (cases "iw_goos i = ''darwin''")
  case True
  then show ?thesis using stopLaunchd_frame [OF True assms] by (simp add: stopPersistence_def)
next
  case False
  then show ?thesis using assms
    by (cases "io_InstallMode opt = ''system''") (simp_all add: stopPersistence_def Let_def service_files_def remove_path_frame)
qed

lemma removeMarker_frame:
  "x \<noteq> env_value env ''TARGET_AUTH_FILE'' \<Longrightarrow> ho_files (removeAuthorizedKeyMarker env h) x = ho_files h x"
  by (simp add: removeAuthorizedKeyMarker_def Let_def split: option.split)
    (auto intro: silently_files [where p = "\<lambda>y. y = env_value env ''TARGET_AUTH_FILE''"] only_write)

lemma removePID_frame: "x \<noteq> path \<Longrightarrow> ho_files (removePID path h) x = ho_files h x"
  by (auto simp: removePID_def remove_path_frame split: option.split prod.split bool.split dest: quiet)

definition uninstall_touches :: "install_world \<Rightarrow> installOptions \<Rightarrow> (string \<rightharpoonup> string) \<Rightarrow> (string \<rightharpoonup> string) \<Rightarrow> string \<Rightarrow> bool" where
  "uninstall_touches i opt env files x \<longleftrightarrow>
     io_DataDir opt \<noteq> [] \<and> below (io_DataDir opt) x \<or> io_ConfigDir opt \<noteq> [] \<and> below (io_ConfigDir opt) x \<or>
     x = io_AgentPath opt \<and> isReachAgentBinaryName (path_base x) \<or> x \<in> service_files i opt files \<or>
     x = env_value env ''TARGET_AUTH_FILE'' \<or> x = env_value env ''PID_FILE''"

lemma remove_files_frame:
  assumes "\<not> (io_DataDir opt \<noteq> [] \<and> below (io_DataDir opt) x)" "\<not> (io_ConfigDir opt \<noteq> [] \<and> below (io_ConfigDir opt) x)"
    "\<not> (x = io_AgentPath opt \<and> isReachAgentBinaryName (path_base x))"
  shows "ho_files (remove_files opt h) x = ho_files h x"
proof -
  define h1 where "h1 = (if io_DataDir opt \<noteq> [] then remove_tree (io_DataDir opt) h else h)"
  define h2 where "h2 = (if io_ConfigDir opt \<noteq> [] then remove_tree (io_ConfigDir opt) h1 else h1)"
  have "ho_files h1 x = ho_files h x" "ho_files h2 x = ho_files h1 x"
    using assms(1,2) by (auto simp: h1_def h2_def remove_tree_frame)
  moreover have "remove_files opt h = (if io_AgentPath opt \<noteq> [] \<and> isReachAgentBinaryName (path_base (io_AgentPath opt))
      then remove_path (io_AgentPath opt) h2 else h2)"
    by (simp add: remove_files_def h1_def h2_def Let_def)
  ultimately show ?thesis using assms(3) by (auto simp: remove_path_frame)
qed

lemma uninstall_frame:
  assumes run: "uninstallCommand i u opt0 h = (r, h')" and opts: "uninstall_options i opt0 (ho_files h) = (opt, env)"
    and x: "\<not> uninstall_touches i opt env (ho_files h) x"
  shows "ho_files h' x = ho_files h x"
proof -
  let ?h1 = "sendUninstallIntent i u opt env ''user_uninstall'' False h"
  let ?h2 = "removePID (env_value env ''PID_FILE'') (removeAuthorizedKeyMarker env (stopPersistence i opt ?h1))"
  let ?h3 = "sendUninstallIntent i u opt env ''user_uninstall_complete'' True ?h2"
  have t: "x \<notin> service_files i opt (ho_files ?h1)" "x \<noteq> env_value env ''TARGET_AUTH_FILE''" "x \<noteq> env_value env ''PID_FILE''"
    using x by (simp_all add: uninstall_touches_def)
  have "ho_files ?h2 x = ho_files (removeAuthorizedKeyMarker env (stopPersistence i opt ?h1)) x" by (rule removePID_frame [OF t(3)])
  also have "\<dots> = ho_files (stopPersistence i opt ?h1) x" by (rule removeMarker_frame [OF t(2)])
  also have "\<dots> = ho_files ?h1 x" by (rule stopPersistence_frame [OF t(1)])
  finally have "ho_files ?h3 x = ho_files h x" by simp
  moreover have "ho_files (remove_files opt ?h3) x = ho_files ?h3 x"
    by (rule remove_files_frame) (use x in \<open>auto simp: uninstall_touches_def\<close>)
  moreover have "h' = h \<or> h' = remove_files opt ?h3"
    using run opts by (auto simp: uninstallCommand_def Let_def split: if_splits sum.splits)
  ultimately show ?thesis by metis
qed

subsection \<open>What an installation writes\<close>

lemma only_quiet: "(\<And>h r k. f h = (r, k) \<Longrightarrow> ho_files k = ho_files h) \<Longrightarrow> only_files p f"
  unfolding only_files_def by (metis prod.collapse)

lemma only_fail [file_frames]: "only_files p (fail_with e)"
  by (rule only_quiet) (simp add: fail_with_def)

lemma only_steps [file_frames]:
  "only_files p (checked w c)" "only_files p (need_program q e)" "only_files p (download i url)"
  by (rule only_quiet, erule quiet)+

lemma only_ignored [file_frames]: "only_files p (\<lambda>h. (r, ignored c h))" "only_files p (\<lambda>h. (r, ignored c (ignored c' h)))"
  by (rule only_quiet, auto)+

lemma only_bootstrap [file_frames]: "only_files p (bootstrapLaunchd domain label path)"
  unfolding bootstrapLaunchd_def Let_def by (intro file_frames)

lemma only_plist [file_frames]:
  "p (path_join [dir, launchdLabel @ ''.plist'']) \<Longrightarrow> only_files p (install_plist i domain dir agent cfg dataDir)"
  unfolding install_plist_def Let_def by (intro file_frames) simp_all

lemma only_launchAgent [file_frames]:
  "(\<And>home. iw_home i = Some home \<Longrightarrow> p (path_join [path_join [home, ''Library'', ''LaunchAgents''], launchdLabel @ ''.plist''])) \<Longrightarrow>
   only_files p (installLaunchAgent i agent cfg dataDir)"
  unfolding installLaunchAgent_def by (cases "iw_home i") (auto intro!: file_frames)

lemma only_launchDaemon [file_frames]:
  "p (path_join [''/Library/LaunchDaemons'', launchdLabel @ ''.plist'']) \<Longrightarrow> only_files p (installLaunchDaemon i agent cfg dataDir)"
  unfolding installLaunchDaemon_def by (auto intro!: file_frames)

lemma only_systemd [file_frames]:
  "p ''/etc/systemd/system/reach-agent.service'' \<Longrightarrow> only_files p (installSystemdService i agent cfg)"
  unfolding installSystemdService_def by (intro file_frames)

lemma only_userSystemd [file_frames]:
  assumes "p (path_join [user_unit_dir i, ''reach-agent.service''])"
  shows "only_files p (installUserSystemd i agent cfg)"
proof -
  have list: "only_files p (\<lambda>h. case host_do c h of ((ok, _), h1) \<Rightarrow> (if ok then None else Some err, h1))" for c err
    by (rule only_quiet) (auto split: prod.splits dest: quiet)
  have linger: "only_files p (\<lambda>h. case look_path ''loginctl'' h of
            (False, h1) \<Rightarrow> (None, h1)
          | (True, h1) \<Rightarrow> (case currentUsername i h1 of (me, h2) \<Rightarrow> (None, ignored [''loginctl'', ''enable-linger'', me] h2)))"
    by (rule only_quiet) (auto split: prod.splits bool.splits dest!: quiet)
  show ?thesis unfolding installUserSystemd_def by (intro file_frames list linger assms) simp
qed

lemma only_cron [file_frames]:
  assumes "p (path_join [dataDir, ''reach-agent.pid''])"
  shows "only_files p (installCron i agent cfg dataDir)"
proof -
  have read: "only_files p (\<lambda>h. case command_output c h of (tab, h1) \<Rightarrow> f tab h1)" if "\<And>tab. only_files p (f tab)" for c f
    using that unfolding only_files_def by (auto split: prod.split dest: quiet)
  show ?thesis unfolding installCron_def Let_def by (intro file_frames read assms)
qed

lemma only_first_way [file_frames]:
  assumes "\<And>f nm. (f, nm) \<in> set ways \<Longrightarrow> only_files p f" and "only_files p g"
  shows "only_files p (first_way ways g)"
  using assms
proof (induction ways)
  case (Cons w ways)
  obtain f nm where w: "w = (f, nm)" by (cases w)
  have 1: "only_files p f" using Cons.prems(1) w by auto
  have 2: "only_files p (first_way ways g)" using Cons by auto
  show ?case unfolding only_files_def
  proof (intro allI impI)
    fix h x assume x: "\<not> p x"
    obtain r k where r: "f h = (r, k)" by (rule prod.exhaust)
    have "ho_files k x = ho_files h x" using only_filesD [OF 1 r x] .
    then show "ho_files (snd (first_way (w # ways) g h)) x = ho_files h x"
      using 2 x by (cases r) (auto simp: first_way_def w r only_files_def)
  qed
qed (simp add: first_way_def)

lemma only_detached [file_frames]:
  "p (path_join [io_DataDir opt, ''reach-agent.pid'']) \<Longrightarrow> only_files p (detached_agent i opt cfg scope)"
  unfolding detached_agent_def by (intro file_frames)

definition persistence_files :: "install_world \<Rightarrow> installOptions \<Rightarrow> string set" where
  "persistence_files i opt =
     {path_join [io_DataDir opt, ''reach-agent.pid''], path_join [''/Library/LaunchDaemons'', launchdLabel @ ''.plist''],
      ''/etc/systemd/system/reach-agent.service'', path_join [user_unit_dir i, ''reach-agent.service'']} \<union>
     {path_join [path_join [home, ''Library'', ''LaunchAgents''], launchdLabel @ ''.plist''] | home. iw_home i = Some home}"

lemma only_persistence [file_frames]:
  assumes "\<And>x. x \<in> persistence_files i opt \<Longrightarrow> p x"
  shows "only_files p (installPersistence i opt cfg)"
proof -
  have f: "p (path_join [io_DataDir opt, ''reach-agent.pid''])" "p (path_join [''/Library/LaunchDaemons'', launchdLabel @ ''.plist''])"
    "p ''/etc/systemd/system/reach-agent.service''" "p (path_join [user_unit_dir i, ''reach-agent.service''])"
    "\<And>home. iw_home i = Some home \<Longrightarrow> p (path_join [path_join [home, ''Library'', ''LaunchAgents''], launchdLabel @ ''.plist''])"
    using assms by (auto simp: persistence_files_def)
  have ways: "only_files p (lift_host (installLaunchDaemon i agent cfg dataDir))" "only_files p (lift_host (installLaunchAgent i agent cfg dataDir))"
    "only_files p (lift_host (installSystemdService i agent cfg))" "only_files p (lift_host (installUserSystemd i agent cfg))"
    "only_files p (installCron i agent cfg (io_DataDir opt))" for agent dataDir
    by (intro file_frames f; simp)+
  have d: "only_files p (detached_agent i opt cfg scope)" for scope by (intro file_frames f)
  show ?thesis unfolding installPersistence_def Let_def
    by (auto intro!: only_first_way d ways simp del: Un_iff)
qed

lemma only_keys [file_frames]:
  assumes "p auth"
  shows "only_files p (installAdminKeys i auth user prov chown supported bare)"
proof -
  have perms: "only_files p (applyAuthorizedKeysPermissions i auth user chown)"
    by (rule only_quiet) (auto simp: applyAuthorizedKeysPermissions_def)
  have "only_files p (\<lambda>h. if b then (Some e, h) else and_then (write_file auth (t h)) (applyAuthorizedKeysPermissions i auth user chown) h)"
    for b e t
    using only_and_then [OF only_write [of p auth, OF assms] perms] by (auto simp: only_files_def)
  then show ?thesis unfolding installAdminKeys_def Let_def
    by (auto intro!: file_frames)
qed

lemma only_carrier [file_frames]:
  assumes "p (path_join [io_DataDir opt, ''wstunnel''])"
  shows "only_files p (wanted_carrier i opt prov)"
proof -
  have w: "only_files p (installWSTunnel i (path_join [io_DataDir opt, ''wstunnel'']) ws)" for ws
    unfolding installWSTunnel_def Let_def using assms
    by (auto split: option.split sum.split intro!: file_frames)
  have "only_files p (hbind (installWSTunnel i (path_join [io_DataDir opt, ''wstunnel'']) ws) (\<lambda>_. hret (path_join [io_DataDir opt, ''wstunnel''])))" for ws
    by (intro file_frames w)
  then show ?thesis unfolding wanted_carrier_def only_files_def Let_def
    by (auto split: option.split if_split)
qed

lemma only_yaml [file_frames]: "p path \<Longrightarrow> only_files p (writeYAML0600 i path c)"
  using only_write [of p path] by (auto simp: writeYAML0600_def only_files_def split: sum.split)

end
