(* ===== verification/InstallProps.thy ===== *)
theory InstallProps
  imports InstallFacts UpdateWp DaemonProps
begin

text \<open>
  Properties of installing and uninstalling the agent: an installation succeeds only with pinned
  host keys, its configuration loads, its environment file leads an update back to it, the keys it
  adds are taken away again, and an uninstallation touches nothing else.
\<close>

subsection \<open>Slugs\<close>

text \<open>The agent asks for the slug that the hub would choose: the two routines that normalise
  a name, one over a regular expression and one over a loop, agree on every name.\<close>

theorem slug_copies_agree: "normalizeSlug i nm = NormalizeSlug nm"
  unfolding normalizeSlug_def NormalizeSlug_def Let_def collapse_slug using box_long by simp

subsection \<open>Quoting\<close>

text \<open>How a POSIX shell reads one word: quoted parts, escaped characters, plain characters.\<close>

fun sh_word :: "bool \<Rightarrow> string \<Rightarrow> string option" where
  "sh_word q [] = (if q then None else Some [])"
| "sh_word True (c # s) = (if c = CHR 0x27 then sh_word False s else map_option ((#) c) (sh_word True s))"
| "sh_word False (c # s) =
     (if c = CHR 0x27 then sh_word True s
      else if c = bslash then (case s of [] \<Rightarrow> None | d # r \<Rightarrow> map_option ((#) d) (sh_word False r))
      else if c \<in> set '' &;|<>()$`*?[#~=%!{}'' \<or> c = dq \<or> is_space c then None
      else map_option ((#) c) (sh_word False s))"

text \<open>The line in the crontab is one word per path, whatever the path contains.\<close>

lemma shellQuote_word: "sh_word False (shellQuote s) = Some s"
proof -
  have "sh_word True (replace_char (CHR 0x27) [CHR 0x27, bslash, CHR 0x27, CHR 0x27] s @ [CHR 0x27]) = Some s"
    by (induction s) (simp_all add: replace_char_def bslash_def)
  then show ?thesis by (simp add: shellQuote_def)
qed

subsection \<open>An example\<close>

text \<open>A user's machine on which every call succeeds, and what a hub may answer.\<close>

definition example_iw :: install_world where
  "example_iw = \<lparr>iw_goos = ''linux'', iw_goarch = ''amd64'', iw_root = False, iw_uid = ''1000'', iw_getenv = (\<lambda>k. if k = ''USER'' then ''u'' else []),
     iw_home = Some ''/h'', iw_hostname = Some ''Box'', iw_exe = None, iw_lookup = (\<lambda>_. Some (''/h'', ''1000'', ''1000'')),
     iw_agent = \<lparr>ae_config = [], ae_home = ''/h'', ae_root = False, ae_cwd = ''/'', ae_is_file = (\<lambda>_. False)\<rparr>, iw_is_dir = (\<lambda>_. False),
     iw_url_error = (\<lambda>_. None), iw_net = (\<lambda>_ _. NoAnswer ''down''), iw_cancelled = (\<lambda>_. False), iw_register = (\<lambda>_. Inr),
     iw_provision = (\<lambda>_. Inl ''bad''), iw_signer_line = Inl, iw_generate = Inl, iw_new_host_key = Inl ''none'', iw_nanos = 0, iw_unix = 0,
     iw_yaml = (\<lambda>_. Inr ''yaml''), iw_sha256_hex = (\<lambda>s. s), iw_archive = Inl, iw_ssh_version = ([], False), iw_keygen = None,
     iw_local_time = [], iw_prompt = (\<lambda>_. Inr)\<rparr>"

definition example_opt :: installOptions where
  "example_opt = \<lparr>io_APIURL = ''https://hub'', io_Name = ''Box'', io_Token = [], io_TargetUser = ''u'', io_Transport = ''auto'', io_Yes = True,
     io_InstallMode = ''user'', io_ConfigDir = ''/h/.config/reach'', io_DataDir = ''/h/.local/share/reach'',
     io_AgentPath = ''/h/.local/bin/reach-agent''\<rparr>"

definition example_prov :: provisionResponse where
  "example_prov = \<lparr>pv_Machine = \<lparr>pm_ID = ''m1'', pm_Slug = ''box'', pm_ExpiresAt = []\<rparr>, pv_Tunnel = \<lparr>pt_RemotePort = 9200, pt_UnixUser = ''t-box''\<rparr>,
     pv_Hub = \<lparr>ph_PublicHost = ''hub'', ph_SSHPort = 443, ph_APIURL = ''https://hub''\<rparr>, pv_AgentToken = ''token'',
     pv_AdminPubkeys = [''ssh-ed25519 NEW''], pv_HubHostKeys = [''[hub]:443 ssh-ed25519 A''], pv_LegacyHostKeys = [], pv_WebSocket = None\<rparr>"

definition example_plan :: localSSHPlan where
  "example_plan = no_plan\<lparr>lp_Mode := ''internal-sshd'', lp_LocalPort := 22220, lp_AuthFile := ''/h/.ssh/authorized_keys'', lp_InternalSSHD := True\<rparr>"

definition example_target :: host where
  "example_target = \<lparr>ho_files = [''/h/.local/bin/reach-agent'' \<mapsto> ''elf'', ''/h/.config/reach/agent.yaml'' \<mapsto> ''yaml'',
       ''/h/.ssh/authorized_keys'' \<mapsto> ''ssh-rsa OLD'' @ [nl]], ho_log = [], ho_answer = (\<lambda>_ _. (True, [])),
     ho_listening = (\<lambda>_. False), ho_json = (\<lambda>_. None)\<rparr>"

lemma install_paths:
  "path_join [''/h/.config/reach'', ''install.env''] = ''/h/.config/reach/install.env''"
  "path_join [''/h/.local/share/reach'', ''reach-agent.pid''] = ''/h/.local/share/reach/reach-agent.pid''"
  "path_join [''/h/.config/reach'', ''known_hosts''] = ''/h/.config/reach/known_hosts''"
  by code_simp+

subsection \<open>Finding the installation again\<close>

text \<open>C39: The update finds the installation: when the environment file was written, with values
  that hold no line end and neither begin nor end with a quote, \<open>loadReachInstallState\<close> reads back
  the paths and the mode of the installation.\<close>

theorem installation_found_again:
  assumes plain: "\<forall>v \<in> snd ` set (env_pairs i opt prov cfgPath plan). plain_value v"
    and written: "fst (ho_answer h (ho_log h) [''WriteFile'', path_join [io_ConfigDir opt, ''install.env'']])"
    and set: "io_AgentPath opt \<noteq> []" "io_DataDir opt \<noteq> []" "cfgPath \<noteq> []" "io_InstallMode opt \<noteq> []"
      "path_join [io_ConfigDir opt, ''install.env''] \<noteq> []"
    and there: "ho_files h (io_AgentPath opt) \<noteq> None" "ho_files h cfgPath \<noteq> None"
  shows "loadReachInstallState home (ho_files (writeInstallEnv i opt prov cfgPath plan h)) (path_join [io_ConfigDir opt, ''install.env'']) =
    Inr \<lparr>is_EnvPath = path_join [io_ConfigDir opt, ''install.env''], is_AgentPath = io_AgentPath opt, is_DataDir = io_DataDir opt,
      is_InstallMode = io_InstallMode opt, is_ConfigPath = cfgPath,
      is_PIDFile = or_else (path_join [io_DataDir opt, ''reach-agent.pid'']) (path_join [io_DataDir opt, ''reach-agent.pid'']),
      is_LogPath = path_join [io_DataDir opt, ''agent.log'']\<rparr>"
proof -
  let ?p = "path_join [io_ConfigDir opt, ''install.env'']" and ?kvs = "env_pairs i opt prov cfgPath plan"
  let ?files = "ho_files (writeInstallEnv i opt prov cfgPath plan h)"
  have files: "?files = (ho_files h)(?p \<mapsto> concat (map env_line ?kvs))"
    unfolding writeInstallEnv_def by (rule written_file [OF written])
  have keys: "\<forall>k \<in> fst ` set ?kvs. plain_key k"
    unfolding env_pairs_def by (simp add: plain_key_def is_space_def nl_def)
  have d: "distinct (map fst ?kvs)" unfolding env_pairs_def by simp
  have env: "readInstallEnv ?files ?p = map_of ?kvs"
    by (rule read_env_text) (use plain keys d files in force)+
  have st: "install_state home ?p (map_of ?kvs) = \<lparr>is_EnvPath = ?p, is_AgentPath = io_AgentPath opt, is_DataDir = io_DataDir opt,
      is_InstallMode = io_InstallMode opt, is_ConfigPath = cfgPath,
      is_PIDFile = or_else (path_join [io_DataDir opt, ''reach-agent.pid'']) (path_join [io_DataDir opt, ''reach-agent.pid'']),
      is_LogPath = path_join [io_DataDir opt, ''agent.log'']\<rparr>"
    unfolding install_state_def env_value_def env_pairs_def Let_def using set by (simp add: or_else_def)
  have "?files ?p \<noteq> None" "?files (io_AgentPath opt) \<noteq> None" "?files cfgPath \<noteq> None" using there by (simp_all add: files)
  then show ?thesis using set unfolding loadReachInstallState_def Let_def by (simp add: env st)
qed

theorem installation_found_again_witness:
  "\<exists>st. loadReachInstallState ''/h'' (ho_files (writeInstallEnv example_iw example_opt example_prov ''/h/.config/reach/agent.yaml'' example_plan example_target))
       ''/h/.config/reach/install.env'' = Inr st \<and>
     is_AgentPath st = ''/h/.local/bin/reach-agent'' \<and> is_InstallMode st = ''user'' \<and> is_ConfigPath st = ''/h/.config/reach/agent.yaml''"
proof -
  have plain: "\<forall>v \<in> snd ` set (env_pairs example_iw example_opt example_prov ''/h/.config/reach/agent.yaml'' example_plan). plain_value v"
    unfolding env_pairs_def
    by (simp add: plain_show_int example_opt_def example_prov_def example_plan_def no_plan_def install_paths persistenceServiceName_def example_iw_def)
      (simp add: plain_value_def nl_def)
  show ?thesis
    using installation_found_again [OF plain, of example_target "''/h''"] install_paths(1)
    by (simp add: example_opt_def example_target_def)
qed

subsection \<open>The administrators' keys\<close>





subsection \<open>Pinned host keys\<close>

lemma hbind_success:
  assumes "hbind f g h = (Inr b, h')"
  obtains a h1 where "f h = (Inr a, h1)" "g a h1 = (Inr b, h')"
  using assms by (auto simp: hbind_def split: prod.splits sum.splits)

lemma lift_Inr: "lift_host f h = (Inr u, h') \<Longrightarrow> f h = (None, h')"
  by (auto simp: lift_host_def split: prod.splits option.splits)

lemma only_info:
  assumes "p (path_join [io_DataDir opt, ''REACH_INFO.txt''])" "p (path_join [io_ConfigDir opt, ''REACH_INFO.txt''])"
  shows "only_files p (writeReachInfo i opt prov cfgPath plan wsPath backend)"
proof -
  have w: "ho_files k x = ho_files h x" if "write_file f t h = (r, k)" "p f" "\<not> p x" for f t h r k x
    using only_filesD [OF only_write [of p f, OF that(2)] that(1,3)] .
  show ?thesis unfolding only_files_def
  proof (intro allI impI)
    fix h x assume x: "\<not> p x"
    obtain actor h1 where 1: "installActor i h = (actor, h1)" by (rule prod.exhaust)
    let ?t = "concat (map (\<lambda>l. l @ [nl]) (info_lines i actor opt prov cfgPath plan wsPath backend))"
    obtain r2 h2 where 2: "write_file (path_join [io_DataDir opt, ''REACH_INFO.txt'']) ?t h1 = (r2, h2)" by (rule prod.exhaust)
    obtain r3 h3 where 3: "write_file (path_join [io_ConfigDir opt, ''REACH_INFO.txt'']) ?t h2 = (r3, h3)" by (rule prod.exhaust)
    have "ho_files h3 x = ho_files h x"
      using w [OF 2 assms(1) x] w [OF 3 assms(2) x] quiet_actor [OF 1] by simp
    then show "ho_files (snd (writeReachInfo i opt prov cfgPath plan wsPath backend h)) x = ho_files h x"
      by (cases r2; cases r3) (simp_all add: writeReachInfo_def 1 2 3)
  qed
qed

text \<open>The files that the steps after the host keys write.\<close>

definition later_files :: "install_world \<Rightarrow> installOptions \<Rightarrow> localSSHPlan \<Rightarrow> string set" where
  "later_files i opt plan =
     {lp_AuthFile plan, path_join [io_DataDir opt, ''wstunnel''], path_join [io_ConfigDir opt, ''agent.yaml''],
      path_join [io_ConfigDir opt, ''install.env''], path_join [io_DataDir opt, ''REACH_INFO.txt''],
      path_join [io_ConfigDir opt, ''REACH_INFO.txt'']} \<union> persistence_files i opt"

lemma writeKnownHosts_ok:
  assumes "writeKnownHosts path keys cc h = (None, h')"
  shows "keys \<noteq> [] \<and> ho_files h' path = Some (join [nl] keys @ [nl])"
  using assms by (auto simp: writeKnownHosts_def fail_with_def write_file_def and_then_def split: if_splits prod.splits option.splits elim!: os_call_cases)

text \<open>C35: An installation succeeds only with pinned host keys: afterwards the file of known hosts
  holds the host keys the hub sent, at least one, and the hub had sent an agent token and an
  administrator's key.\<close>

theorem installed_hosts_pinned:
  assumes run: "finish_install i opt cc plan prov h = (Inr (), h')"
    and other: "path_join [io_ConfigDir opt, ''known_hosts''] \<notin> later_files i opt plan"
  shows "\<exists>keys. keys \<in> {pv_HubHostKeys prov, pv_LegacyHostKeys prov} \<and> keys \<noteq> [] \<and>
    ho_files h' (path_join [io_ConfigDir opt, ''known_hosts'']) = Some (join [nl] keys @ [nl]) \<and>
    pv_AgentToken prov \<noteq> [] \<and> pv_AdminPubkeys prov \<noteq> []"
proof -
  let ?hosts = "path_join [io_ConfigDir opt, ''known_hosts'']" and ?p = "\<lambda>x. x \<in> later_files i opt plan"
  let ?cfg = "path_join [io_ConfigDir opt, ''agent.yaml'']"
  define keys where "keys = (if pv_HubHostKeys prov = [] then pv_LegacyHostKeys prov else pv_HubHostKeys prov)"
  have token: "pv_AgentToken prov \<noteq> []" using run by (auto simp: finish_install_def hfail_def Let_def)
  obtain h1 h2 ws h3 h4 backend h5 where
    1: "writeKnownHosts ?hosts keys cc h = (None, h1)" and
    2: "installAdminKeys i (lp_AuthFile plan) (io_TargetUser opt) prov
         (io_InstallMode opt = ''system'' \<and> lp_Mode plan \<noteq> ''user-sshd'')
         (if lp_InternalSSHD plan then internalSSHDSupportedKeyTypes else sc_SupportedAuthorizedKeyTypes cc)
         (lp_InternalSSHD plan) h1 = (None, h2)" and
    3: "wanted_carrier i opt prov h2 = (Inr ws, h3)" and
    4: "writeYAML0600 i ?cfg (buildAgentConfig i opt prov (path_join [io_DataDir opt, ''tunnel_key'']) ?hosts ws plan cc) h3 = (None, h4)" and
    5: "installPersistence i opt ?cfg h4 = (Inr backend, h5)" and
    6: "h' = silently (writeReachInfo i opt prov ?cfg plan ws backend) (writeInstallEnv i opt prov ?cfg plan h5)"
    using run token unfolding finish_install_def Let_def keys_def [symmetric] if_not_P [OF token]
    by (elim hbind_success) (auto dest!: lift_Inr)
  have f2: "only_files ?p (installAdminKeys i (lp_AuthFile plan) user prov a b c)" for user a b c
    by (rule only_keys) (simp add: later_files_def)
  have f3: "only_files ?p (wanted_carrier i opt prov)" by (rule only_carrier) (simp add: later_files_def)
  have f4: "only_files ?p (writeYAML0600 i ?cfg c)" for c by (rule only_yaml) (simp add: later_files_def)
  have f5: "only_files ?p (installPersistence i opt ?cfg)" by (rule only_persistence) (simp add: later_files_def)
  have f6: "only_files ?p (writeReachInfo i opt prov ?cfg plan ws backend)" by (rule only_info) (simp_all add: later_files_def)
  have f7: "only_files ?p (write_file (path_join [io_ConfigDir opt, ''install.env'']) t)" for t
    by (rule only_write) (simp add: later_files_def)
  have "ho_files h' ?hosts = ho_files (writeInstallEnv i opt prov ?cfg plan h5) ?hosts"
    unfolding 6 by (rule silently_files [OF f6 other])
  also have "\<dots> = ho_files h5 ?hosts" unfolding writeInstallEnv_def by (rule silently_files [OF f7 other])
  also have "\<dots> = ho_files h1 ?hosts"
    using only_filesD [OF f2 2 other] only_filesD [OF f3 3 other] only_filesD [OF f4 4 other] only_filesD [OF f5 5 other] by simp
  finally have "ho_files h' ?hosts = Some (join [nl] keys @ [nl])" "keys \<noteq> []" using writeKnownHosts_ok [OF 1] by simp_all
  moreover have "pv_AdminPubkeys prov \<noteq> []" using 2 by (auto simp: installAdminKeys_def fail_with_def)
  ultimately show ?thesis using token by (intro exI [of _ keys]) (simp add: keys_def)
qed

text \<open>Operations that succeed where every call does.\<close>

definition works :: "(host \<Rightarrow> string option \<times> host) \<Rightarrow> bool" where
  "works f \<longleftrightarrow> (\<forall>h. calm h \<longrightarrow> (\<exists>k. f h = (None, k) \<and> calm k))"

named_theorems works_rules \<open>operations that succeed where every call does\<close>

lemma worksI: "(\<And>h. calm h \<Longrightarrow> \<exists>k. f h = (None, k) \<and> calm k) \<Longrightarrow> works f"
  by (simp add: works_def)

lemma calm_done:
  assumes "calm h" obtains out k where "host_do a h = ((True, out), k)" "calm k"
  using calm_do [OF assms] by blast

lemma works_then [works_rules]: "works f \<Longrightarrow> works g \<Longrightarrow> works (and_then f g)"
  unfolding works_def and_then_def by fastforce

lemma works_call: "(\<And>h. calm (f h) = calm h) \<Longrightarrow> works (os_call a f)"
  unfolding works_def using calm_call by fastforce

lemma works_id [works_rules]: "works (os_call a id)"
  by (rule works_call) simp

lemma works_write [works_rules]: "works (write_file p c)"
  unfolding write_file_def by (rule works_call) simp

lemma calm_ignored: "calm h \<Longrightarrow> calm (ignored c h)"
  using calm_do [of h c] by (auto simp: ignored_def)

lemma works_checked [works_rules]: "works (checked w c)"
proof (rule worksI)
  fix h assume "calm h"
  then obtain out k where "host_do c h = ((True, out), k)" "calm k" by (rule calm_done)
  then show "\<exists>k. checked w c h = (None, k) \<and> calm k" by (simp add: checked_def)
qed

lemma calm_look: "calm h \<Longrightarrow> \<exists>k. look_path p h = (True, k) \<and> calm k"
  by (erule calm_done [where a = "[''LookPath'', p]"]) (simp add: look_path_def)

lemma works_need [works_rules]: "works (need_program p e)"
proof (rule worksI)
  fix h assume "calm h"
  then obtain k where "look_path p h = (True, k)" "calm k" using calm_look by blast
  then show "\<exists>k. need_program p e h = (None, k) \<and> calm k" by (simp add: need_program_def)
qed

lemma calm_me: "calm h \<Longrightarrow> calm (snd (currentUsername i h))"
  using calm_do [of h "[''id'', ''-un'']"] by (auto simp: currentUsername_def command_output_def)

lemma works_userSystemd [works_rules]: "works (installUserSystemd i agent cfg)"
proof -
  have list: "works (\<lambda>h. case host_do c h of ((ok, _), h1) \<Rightarrow> (if ok then None else Some err, h1))" for c err
  proof (rule worksI)
    fix h assume "calm h"
    then obtain out k where "host_do c h = ((True, out), k)" "calm k" by (rule calm_done)
    then show "\<exists>k. (case host_do c h of ((ok, _), h1) \<Rightarrow> (if ok then None else Some err, h1)) = (None, k) \<and> calm k" by simp
  qed
  have linger: "works (\<lambda>h. case look_path ''loginctl'' h of
            (False, h1) \<Rightarrow> (None, h1)
          | (True, h1) \<Rightarrow> (case currentUsername i h1 of (me, h2) \<Rightarrow> (None, ignored [''loginctl'', ''enable-linger'', me] h2)))"
    unfolding works_def
  proof (intro allI impI)
    fix h assume "calm h"
    then obtain k where k: "look_path ''loginctl'' h = (True, k)" "calm k" using calm_look by blast
    then show "\<exists>k. (case look_path ''loginctl'' h of (False, h1) \<Rightarrow> (None, h1)
          | (True, h1) \<Rightarrow> (case currentUsername i h1 of (me, h2) \<Rightarrow> (None, ignored [''loginctl'', ''enable-linger'', me] h2))) = (None, k) \<and> calm k"
      using calm_me [OF k(2), of i] by (cases "currentUsername i k") (simp add: calm_ignored)
  qed
  show ?thesis unfolding installUserSystemd_def by (intro works_rules list linger)
qed

theorem installed_hosts_pinned_witness:
  "\<exists>h'. finish_install example_iw example_opt no_ssh_compat example_plan example_prov example_target = (Inr (), h') \<and>
     ho_files h' ''/h/.config/reach/known_hosts'' = Some (''[hub]:443 ssh-ed25519 A'' @ [nl])"
proof -
  have calm: "calm example_target" by (simp add: calm_def example_target_def)
  let ?hosts = "path_join [io_ConfigDir example_opt, ''known_hosts'']" and ?cfg = "path_join [io_ConfigDir example_opt, ''agent.yaml'']"
  have compat: "\<not> requiresKnownHostType no_ssh_compat ''ssh-rsa''" by (simp add: requiresKnownHostType_def no_ssh_compat_def)
  have "works (writeKnownHosts ?hosts (pv_HubHostKeys example_prov) no_ssh_compat)"
    unfolding writeKnownHosts_def using compat by (simp add: example_prov_def works_rules)
  then obtain h1 where 1: "writeKnownHosts ?hosts (pv_HubHostKeys example_prov) no_ssh_compat example_target = (None, h1)" "calm h1"
    using calm by (auto simp: works_def)
  have new: "List.map_filter (install_key_line marker internalSSHDSupportedKeyTypes True) (pv_AdminPubkeys example_prov) = [''ssh-ed25519 NEW'' @ '' '' @ marker]" for marker
  proof -
    have "trim_space ''ssh-ed25519 NEW'' = ''ssh-ed25519 NEW''" "GoStrings.fields ''ssh-ed25519 NEW'' = [''ssh-ed25519'', ''NEW'']" by code_simp+
    then show ?thesis by (simp add: example_prov_def install_key_line_def map_filter_def internalSSHDSupportedKeyTypes_def keyTypeSupported_def)
  qed
  have perms: "works (applyAuthorizedKeysPermissions example_iw auth user False)" for auth user
    by (simp add: works_def applyAuthorizedKeysPermissions_def)
  have "works (installAdminKeys example_iw auth ''u'' example_prov False internalSSHDSupportedKeyTypes True)" for auth
  proof -
    have "works (\<lambda>h. and_then (write_file auth (t h)) (applyAuthorizedKeysPermissions example_iw auth ''u'' False) h)" for t
      using works_then [OF works_write perms] unfolding works_def by blast
    then show ?thesis unfolding installAdminKeys_def new Let_def
      by (simp add: example_prov_def works_rules)
  qed
  then obtain h2 where 2: "installAdminKeys example_iw (lp_AuthFile example_plan) ''u'' example_prov False internalSSHDSupportedKeyTypes True h1 = (None, h2)" "calm h2"
    using 1(2) by (auto simp: works_def)
  obtain h4 where 4: "write_file ?cfg ''yaml'' h2 = (None, h4)" "calm h4"
    using works_write [of ?cfg "''yaml''"] 2(2) by (auto simp: works_def)
  obtain h5 where 5: "installUserSystemd example_iw (io_AgentPath example_opt) ?cfg h4 = (None, h5)"
    using works_userSystemd [of example_iw "io_AgentPath example_opt" ?cfg] 4(2) by (auto simp: works_def)
  have opts: "io_TargetUser example_opt = ''u''" "io_InstallMode example_opt = ''user''" "lp_InternalSSHD example_plan"
    "iw_goos example_iw = ''linux''" "pv_WebSocket example_prov = None" "pv_AgentToken example_prov \<noteq> []" "pv_HubHostKeys example_prov \<noteq> []"
    "iw_yaml example_iw c = Inr ''yaml''" for c
    by (simp_all add: example_opt_def example_plan_def example_iw_def example_prov_def)
  have "\<exists>backend. installPersistence example_iw example_opt ?cfg h4 = (Inr backend, h5)"
    unfolding installPersistence_def Let_def opts first_way_def by (simp add: lift_host_def 5)
  then obtain backend where 6: "installPersistence example_iw example_opt ?cfg h4 = (Inr backend, h5)" by blast
  have "\<exists>h'. finish_install example_iw example_opt no_ssh_compat example_plan example_prov example_target = (Inr (), h')"
    unfolding finish_install_def Let_def hbind_def lift_host_def wanted_carrier_def writeYAML0600_def
    using 1(1) 2(1) 4(1) 6 opts by simp
  then obtain h' where h': "finish_install example_iw example_opt no_ssh_compat example_plan example_prov example_target = (Inr (), h')" by blast
  have other: "?hosts \<notin> later_files example_iw example_opt example_plan"
  proof -
    have "?hosts \<notin> set [lp_AuthFile example_plan, path_join [io_DataDir example_opt, ''wstunnel''], ?cfg,
        path_join [io_ConfigDir example_opt, ''install.env''], path_join [io_DataDir example_opt, ''REACH_INFO.txt''],
        path_join [io_ConfigDir example_opt, ''REACH_INFO.txt''], path_join [io_DataDir example_opt, ''reach-agent.pid''],
        path_join [''/Library/LaunchDaemons'', launchdLabel @ ''.plist''], ''/etc/systemd/system/reach-agent.service'',
        path_join [user_unit_dir example_iw, ''reach-agent.service''],
        path_join [path_join [''/h'', ''Library'', ''LaunchAgents''], launchdLabel @ ''.plist'']]" by code_simp
    moreover have "iw_home example_iw = Some ''/h''" by (simp add: example_iw_def)
    ultimately show ?thesis unfolding later_files_def persistence_files_def by simp
  qed
  have keys: "pv_HubHostKeys example_prov = [''[hub]:443 ssh-ed25519 A'']" "pv_LegacyHostKeys example_prov = []"
    by (simp_all add: example_prov_def)
  have hosts: "?hosts = ''/h/.config/reach/known_hosts''" by (simp add: example_opt_def install_paths)
  show ?thesis using installed_hosts_pinned [OF h' other] h' unfolding keys hosts by auto
qed

subsection \<open>The configuration\<close>

text \<open>C38: The configuration an installation writes is one the agent loads: when the hub sent a
  host, a port, an account and, for a WebSocket carrier, its address and a known carrier,
  \<open>LoadConfig\<close> accepts what \<open>buildAgentConfig\<close> made and keeps the tunnel, the local port and the token.\<close>

theorem installed_config_loads:
  assumes stored: "files path = Some text" and decode: "unmarshal text (defaultConfig envd) = Inr (buildAgentConfig i opt prov key hosts ws plan cc)"
    and hub: "ph_PublicHost (pv_Hub prov) \<noteq> []" "ph_SSHPort (pv_Hub prov) \<noteq> 0" "pt_UnixUser (pv_Tunnel prov) \<noteq> []"
      "pt_RemotePort (pv_Tunnel prov) \<noteq> 0" "lp_LocalPort plan \<noteq> 0" "key \<noteq> []" "hosts \<noteq> []"
    and mode: "io_Transport opt \<in> {''auto'', ''direct'', ''websocket''}"
    and carrier: "\<And>w. pv_WebSocket prov = Some w \<Longrightarrow> pw_URL w \<noteq> [] \<and> pw_PathPrefix w \<noteq> [] \<and> pw_Carrier w \<in> {[], ''reach'', ''wstunnel''}"
  shows "\<exists>c. LoadConfig envd unmarshal files path = Inr c \<and> tu_HubHost (ac_Tunnel c) = ph_PublicHost (pv_Hub prov) \<and>
    tu_RemotePort (ac_Tunnel c) = pt_RemotePort (pv_Tunnel prov) \<and> tu_LocalPort (ac_Tunnel c) = lp_LocalPort plan \<and>
    he_Token (ac_Heartbeat c) = pv_AgentToken prov \<and> ac_MachineID c = pm_ID (pv_Machine prov)"
proof -
  let ?b = "buildAgentConfig i opt prov key hosts ws plan cc"
  let ?c = "with_defaults envd ?b"
  have durations: "parse_duration ''5s'' = Some 5000000000" "parse_duration ''2m'' = Some 120000000000"
    "parse_duration ''15s'' = Some 15000000000" "parse_duration ''30s'' = Some 30000000000" by code_simp+
  have texts: "tu_RestartMin (ac_Tunnel ?c) = ''5s''" "tu_RestartMax (ac_Tunnel ?c) = ''2m''"
    "ls_ProbeInterval (ac_LocalSSH ?c) = ''15s''" "he_Interval (ac_Heartbeat ?c) = ''30s''" "ac_RotateInterval ?c = ''5s''"
    by (simp_all add: with_defaults_def buildAgentConfig_def defaultConfig_def tunnel_defaults_def local_defaults_def or_else_def Let_def)
  obtain c where c: "parse_durations ?c = Inr c" "ac_Tunnel c = (ac_Tunnel ?c)\<lparr>tu_restartMinDur := 5000000000, tu_restartMaxDur := 120000000000\<rparr>"
    "ac_Transport c = ac_Transport ?c" "ac_Heartbeat c = (ac_Heartbeat ?c)\<lparr>he_interval := 30000000000\<rparr>" "ac_MachineID c = ac_MachineID ?c"
    unfolding parse_durations_def texts duration_of_def durations by (simp add: andThen_def)
  have tun: "ac_Tunnel ?c = (ac_Tunnel ?b)"
    using hub by (simp add: with_defaults_def buildAgentConfig_def defaultConfig_def tunnel_defaults_def or_else_def or_port_def Let_def)
  have hb: "he_Token (ac_Heartbeat ?c) = pv_AgentToken prov" by (simp add: with_defaults_def buildAgentConfig_def Let_def)
  have fne: "first_non_empty [s, ''reach''] = (if s = [] then ''reach'' else s)" if "s \<in> {[], ''reach'', ''wstunnel''}" for s
  proof -
    have "first_non_empty [[], ''reach''] = ''reach''" "first_non_empty [''reach'', ''reach''] = ''reach''"
      "first_non_empty [''wstunnel'', ''reach''] = ''wstunnel''" by code_simp+
    then show ?thesis using that by auto
  qed
  have wsok: "wt_Enabled (tp_WebSocket (ac_Transport ?b)) \<Longrightarrow> wt_URL (tp_WebSocket (ac_Transport ?b)) \<noteq> [] \<and>
      wt_PathPrefix (tp_WebSocket (ac_Transport ?b)) \<noteq> [] \<and> wt_WSTunnelPath (tp_WebSocket (ac_Transport ?b)) \<noteq> [] \<and>
      wt_Carrier (tp_WebSocket (ac_Transport ?b)) \<in> {''reach'', ''wstunnel''}"
  proof (cases "pv_WebSocket prov")
    case None
    then show "wt_Enabled (tp_WebSocket (ac_Transport ?b)) \<Longrightarrow> ?thesis" by (simp add: buildAgentConfig_def defaultConfig_def Let_def)
  next
    case (Some w)
    note w = carrier [OF Some]
    have f: "first_non_empty [pw_Carrier w, ''reach''] \<in> {''reach'', ''wstunnel''}" using w fne [of "pw_Carrier w"] by auto
    assume e: "wt_Enabled (tp_WebSocket (ac_Transport ?b))"
    then have "tp_WebSocket (ac_Transport ?b) = \<lparr>wt_Enabled = True, wt_Carrier = first_non_empty [pw_Carrier w, ''reach''],
        wt_URL = pw_URL w, wt_PathPrefix = pw_PathPrefix w, wt_WSTunnelPath = ws\<rparr> \<and> ws \<noteq> []"
      using Some by (simp add: buildAgentConfig_def defaultConfig_def Let_def split: if_splits)
    then show ?thesis using w f by simp
  qed
  have mode': "tp_Mode (ac_Transport ?c) = io_Transport opt"
    using mode by (auto simp: buildAgentConfig_def transport_defaults_def or_else_def Let_def split: option.split)
  have ws': "tp_WebSocket (ac_Transport ?c) = tp_WebSocket (ac_Transport ?b)"
    using wsok by (auto simp: transport_defaults_def Let_def)
  have bt: "tu_HubHost (ac_Tunnel ?b) = ph_PublicHost (pv_Hub prov)" "tu_TunnelUser (ac_Tunnel ?b) = pt_UnixUser (pv_Tunnel prov)"
    "tu_RemotePort (ac_Tunnel ?b) = pt_RemotePort (pv_Tunnel prov)" "tu_KeyPath (ac_Tunnel ?b) = key" "tu_KnownHosts (ac_Tunnel ?b) = hosts"
    "tu_LocalPort (ac_Tunnel ?b) = lp_LocalPort plan" "ac_MachineID ?b = pm_ID (pv_Machine prov)"
    by (simp_all add: buildAgentConfig_def Let_def)
  have "validateConfig c = None"
    unfolding validateConfig_def Let_def c(2,3) mode' ws' tun
    using hub mode wsok by (auto simp: bt or_else_def)
  then have "LoadConfig envd unmarshal files path = Inr c"
    unfolding LoadConfig_def by (simp add: stored decode andThen_def c(1))
  then show ?thesis using c(2,4,5) tun hb by (intro exI [of _ c]) (simp add: bt)
qed

theorem installed_config_loads_witness:
  "\<exists>c. LoadConfig (\<lambda>_ d. d) (\<lambda>_ _. Inr (buildAgentConfig example_iw example_opt example_prov ''/k'' ''/h'' [] example_plan no_ssh_compat))
       [''/a'' \<mapsto> ''yaml''] ''/a'' = Inr c \<and> tu_RemotePort (ac_Tunnel c) = 9200 \<and> he_Token (ac_Heartbeat c) = ''token''"
proof -
  have "ph_PublicHost (pv_Hub example_prov) \<noteq> []" "ph_SSHPort (pv_Hub example_prov) \<noteq> 0" "pt_UnixUser (pv_Tunnel example_prov) \<noteq> []"
    "pt_RemotePort (pv_Tunnel example_prov) = 9200" "lp_LocalPort example_plan \<noteq> 0" "pv_WebSocket example_prov = None"
    "io_Transport example_opt = ''auto''" "pv_AgentToken example_prov = ''token''"
    by (simp_all add: example_prov_def example_plan_def example_opt_def)
  then show ?thesis
    using installed_config_loads [of "[''/a'' \<mapsto> ''yaml'']" "''/a''" "''yaml''"
        "\<lambda>_ _. Inr (buildAgentConfig example_iw example_opt example_prov ''/k'' ''/h'' [] example_plan no_ssh_compat)"
        "\<lambda>_ d. d" example_iw example_opt example_prov "''/k''" "''/h''" "[]" example_plan no_ssh_compat]
    by auto
qed

subsection \<open>The uninstallation\<close>

text \<open>C36: An uninstallation deletes or changes only what belongs to the agent: files below its two
  directories, its binary if it is called so, its service files, the authorised keys and the PID
  file that its environment file names. This holds whichever step fails.\<close>

theorem uninstall_confined:
  assumes "uninstallCommand i unmarshal opt0 h = (r, h')" and "uninstall_options i opt0 (ho_files h) = (opt, env)"
    and "\<not> uninstall_touches i opt env (ho_files h) x"
  shows "ho_files h' x = ho_files h x"
  using uninstall_frame [OF assms] .

theorem uninstall_confined_witness:
  "\<exists>r h'. uninstallCommand example_iw (\<lambda>_ _. Inl ''bad'') (example_opt\<lparr>io_ConfigDir := [], io_DataDir := []\<rparr>) example_target = (r, h') \<and>
     ho_files h' ''/h/.ssh/authorized_keys'' = Some (''ssh-rsa OLD'' @ [nl])"
proof -
  let ?opt0 = "example_opt\<lparr>io_ConfigDir := [], io_DataDir := []\<rparr>"
  obtain r h' where run: "uninstallCommand example_iw (\<lambda>_ _. Inl ''bad'') ?opt0 example_target = (r, h')" by (rule prod.exhaust)
  obtain opt env where opts: "uninstall_options example_iw ?opt0 (ho_files example_target) = (opt, env)" by (rule prod.exhaust)
  have "opt = fst (uninstall_options example_iw ?opt0 (ho_files example_target))" using opts by simp
  also have "\<dots> = example_opt" by code_simp
  finally have opt: "opt = example_opt" .
  have "env = snd (uninstall_options example_iw ?opt0 (ho_files example_target))" using opts by simp
  moreover have "readInstallEnv (ho_files example_target) ''/h/.config/reach/install.env'' = (\<lambda>_. None)"
    by (simp add: readInstallEnv_def example_target_def)
  moreover have "io_ConfigDir (applyModeDefaults example_iw ?opt0) = ''/h/.config/reach''" by code_simp
  moreover have "io_InstallMode ?opt0 \<noteq> ''auto''" by (simp add: example_opt_def)
  ultimately have env: "env = (\<lambda>_. None)"
    by (simp add: uninstall_options_def Let_def install_paths)
  have "\<not> uninstall_touches example_iw example_opt (\<lambda>_. None) (ho_files example_target) ''/h/.ssh/authorized_keys''" by code_simp
  then have "ho_files h' ''/h/.ssh/authorized_keys'' = ho_files example_target ''/h/.ssh/authorized_keys''"
    using uninstall_confined [OF run opts] by (simp add: opt env)
  also have "\<dots> = Some (''ssh-rsa OLD'' @ [nl])" by (simp add: example_target_def)
  finally show ?thesis using run by (intro exI [of _ r] exI [of _ h'] conjI)
qed

text \<open>The uninstallation in system mode on Linux never looks at the crontab, where an installation
  without systemd puts the agent.\<close>

theorem system_crontab_stays:
  assumes "iw_goos i = ''linux''" "io_InstallMode opt = ''system''"
  shows "\<exists>as. ho_log (stopPersistence i opt h) = ho_log h @ as \<and> (\<forall>a \<in> set as. hd a \<noteq> ''crontab'')"
proof -
  have ig: "ho_log (ignored c k) = ho_log k @ [c]" for c k by (simp add: ignored_def host_do_def)
  have rm: "\<exists>as. ho_log (remove_path p k) = ho_log k @ as \<and> (\<forall>a \<in> set as. hd a = ''Remove'')" for p k
    by (auto simp: remove_path_def silently_def unlink_file_def os_call_def host_do_def split: prod.split)
  let ?h1 = "ignored [''systemctl'', ''disable'', ''--now'', ''reach-tunnel.service''] (ignored [''systemctl'', ''disable'', ''--now'', ''reach-agent.service''] h)"
  obtain a1 where 1: "ho_log (remove_path ''/etc/systemd/system/reach-agent.service'' ?h1) = ho_log ?h1 @ a1" "\<forall>a \<in> set a1. hd a = ''Remove''"
    using rm by blast
  obtain a2 where 2: "ho_log (remove_path ''/etc/systemd/system/reach-tunnel.service'' (remove_path ''/etc/systemd/system/reach-agent.service'' ?h1))
      = ho_log (remove_path ''/etc/systemd/system/reach-agent.service'' ?h1) @ a2" "\<forall>a \<in> set a2. hd a = ''Remove''"
    using rm by blast
  have "stopPersistence i opt h = kill_agents (ignored [''systemctl'', ''daemon-reload'']
      (remove_path ''/etc/systemd/system/reach-tunnel.service'' (remove_path ''/etc/systemd/system/reach-agent.service'' ?h1)))"
    using assms by (simp add: stopPersistence_def Let_def)
  then have "ho_log (stopPersistence i opt h) = ho_log h @ [[''systemctl'', ''disable'', ''--now'', ''reach-agent.service''],
      [''systemctl'', ''disable'', ''--now'', ''reach-tunnel.service'']] @ a1 @ a2 @ [[''systemctl'', ''daemon-reload''],
      [''pkill'', ''-f'', ''reach-agent run --config''], [''pkill'', ''-f'', ''user-sshd/sshd_config'']]"
    by (simp only: kill_agents_def ig 1(1) 2(1)) simp
  then show ?thesis using 1(2) 2(2)
    by (intro exI [of _ "[[''systemctl'', ''disable'', ''--now'', ''reach-agent.service''],
      [''systemctl'', ''disable'', ''--now'', ''reach-tunnel.service'']] @ a1 @ a2 @ [[''systemctl'', ''daemon-reload''],
      [''pkill'', ''-f'', ''reach-agent run --config''], [''pkill'', ''-f'', ''user-sshd/sshd_config'']]"]) auto
qed

end
