(* ===== verification/HubConfig.thy ===== *)
theory HubConfig
  imports World
begin

text \<open>
  The configuration of the hub (\<open>config.go\<close>): its defaults, how \<open>LoadConfig\<close> completes what a file
  says, and what it refuses; and the notification of a pending request that it may ask for
  (\<open>notifications.go\<close>). Reading YAML into the structure is a parameter, given the structure to
  start from. \<open>LogLevel\<close> and the labels of the first administrator are read by no one and left out.
\<close>

subsection \<open>Defaults\<close>

definition hub_envDefault :: "(string \<Rightarrow> string) \<Rightarrow> string \<Rightarrow> string \<Rightarrow> string" where
  "hub_envDefault getenv name d = or_else (getenv name) d"

definition hub_DefaultConfig :: "(string \<Rightarrow> string) \<Rightarrow> Config" where
  "hub_DefaultConfig getenv =
     \<lparr>cfg_listen_addr = ''127.0.0.1:9300'', cfg_db_path = ''/var/lib/reach/reach.db'', cfg_allowed_origins = [],
      cfg_god_code_hash = [], cfg_jwt_secret = [], cfg_admin_jwt_ttl = 365 * 24 * hour, cfg_request_ttl = 30 * minute,
      cfg_setup_token_ttl = 15 * minute, cfg_health_interval = 45 * second, cfg_maintenance_interval = 10 * minute,
      cfg_offline_after = 5 * minute, cfg_default_expiry = 0, cfg_sshd_config_dir = ''/etc/ssh/sshd_config.d'',
      cfg_tunnel_home_base = ''/var/lib'', cfg_ssh_service_name = ''ssh'', cfg_hub_host_keys = [], cfg_deprecated_host_keys = [],
      cfg_websocket_tunnel = \<lparr>ws_enabled = False, ws_carrier = [], ws_url = [], ws_path_prefix = [], ws_binaries = []\<rparr>,
      cfg_agent_updates = \<lparr>au_enabled = True, au_latest_version = [],
        au_manifest_path = ''/var/lib/reach/downloads/reach-agent/latest.json'', au_api_url = []\<rparr>,
      cfg_notifications = \<lparr>nc_enabled = False, nc_webhook_url = [], nc_webhook_headers = []\<rparr>,
      cfg_initial_admin = \<lparr>ia_username = hub_envDefault getenv ''REACH_INITIAL_ADMIN_USERNAME'' ''admin'',
        ia_password_hash = [], ia_public_keys = []\<rparr>,
      cfg_default_hub = \<lparr>hc_id = hub_envDefault getenv ''REACH_HUB_ID'' ''primary'',
        hc_name = hub_envDefault getenv ''REACH_HUB_NAME'' ''Primary Hub'',
        hc_public_host = hub_envDefault getenv ''REACH_HUB_HOST'' ''your-server-ip'', hc_ssh_port = 443,
        hc_proxyjump_alias = hub_envDefault getenv ''REACH_PROXYJUMP_ALIAS'' ''reach-hub'',
        hc_api_url = hub_envDefault getenv ''REACH_API_URL'' ''https://tunnels.your-domain.example'',
        hc_port_start = 9200, hc_port_end = 9499\<rparr>,
      cfg_provisioning_enabled = True\<rparr>"

subsection \<open>Completing and checking a configuration\<close>

definition or_zero :: "int \<Rightarrow> int \<Rightarrow> int" where
  "or_zero n d = (if n = 0 then d else n)"

definition complete_hub :: "(string \<Rightarrow> string) \<Rightarrow> HubConfig \<Rightarrow> HubConfig" where
  "complete_hub getenv h0 =
     (let h1 = (if hc_id h0 = [] then cfg_default_hub (hub_DefaultConfig getenv) else h0);
          h2 = (if hc_port_start h1 = 0 \<or> hc_port_end h1 = 0 then h1\<lparr>hc_port_start := 9200, hc_port_end := 9499\<rparr> else h1)
      in h2\<lparr>hc_ssh_port := or_zero (hc_ssh_port h2) 443\<rparr>)"

definition complete_websocket :: "WebSocketTunnelConfig \<Rightarrow> WebSocketTunnelConfig" where
  "complete_websocket w = (if ws_enabled w then w\<lparr>ws_carrier := or_else (ws_carrier w) ''reach''\<rparr> else w)"

definition complete_config :: "(string \<Rightarrow> string) \<Rightarrow> Config \<Rightarrow> Config" where
  "complete_config getenv c =
     c\<lparr>cfg_listen_addr := or_else (cfg_listen_addr c) ''127.0.0.1:9300'',
       cfg_db_path := or_else (cfg_db_path c) ''/var/lib/reach/reach.db'',
       cfg_sshd_config_dir := or_else (cfg_sshd_config_dir c) ''/etc/ssh/sshd_config.d'',
       cfg_tunnel_home_base := or_else (cfg_tunnel_home_base c) ''/var/lib'',
       cfg_ssh_service_name := or_else (cfg_ssh_service_name c) ''ssh'',
       cfg_admin_jwt_ttl := or_zero (cfg_admin_jwt_ttl c) (365 * 24 * hour),
       cfg_request_ttl := or_zero (cfg_request_ttl c) (30 * minute),
       cfg_setup_token_ttl := or_zero (cfg_setup_token_ttl c) (15 * minute),
       cfg_health_interval := or_zero (cfg_health_interval c) (45 * second),
       cfg_maintenance_interval := or_zero (cfg_maintenance_interval c) (10 * minute),
       cfg_offline_after := or_zero (cfg_offline_after c) (5 * minute),
       cfg_agent_updates := (cfg_agent_updates c)\<lparr>au_manifest_path :=
         or_else (au_manifest_path (cfg_agent_updates c)) ''/var/lib/reach/downloads/reach-agent/latest.json''\<rparr>,
       cfg_default_hub := complete_hub getenv (cfg_default_hub c),
       cfg_initial_admin := (cfg_initial_admin c)\<lparr>ia_username :=
         or_else (ia_username (cfg_initial_admin c)) (hub_envDefault getenv ''REACH_INITIAL_ADMIN_USERNAME'' ''admin'')\<rparr>,
       cfg_hub_host_keys := (if cfg_hub_host_keys c = [] then cfg_deprecated_host_keys c else cfg_hub_host_keys c),
       cfg_websocket_tunnel := complete_websocket (cfg_websocket_tunnel c)\<rparr>"

text \<open>The first thing that is wrong with a completed configuration.\<close>

definition websocket_error :: "WebSocketTunnelConfig \<Rightarrow> string option" where
  "websocket_error w =
     (if \<not> ws_enabled w then None
      else if ws_url w = [] then Some ''websocket_tunnel.url is required when enabled''
      else if ws_path_prefix w = [] then Some ''websocket_tunnel.path_prefix is required when enabled''
      else if ws_carrier w = ''wstunnel'' \<and> ws_binaries w = [] then
        Some ''websocket_tunnel.binaries is required when carrier is wstunnel''
      else if ws_carrier w \<noteq> ''reach'' \<and> ws_carrier w \<noteq> ''wstunnel'' then
        Some ''websocket_tunnel.carrier must be reach or wstunnel''
      else None)"

definition config_error :: "Config \<Rightarrow> string option" where
  "config_error c =
     (if cfg_admin_jwt_ttl c < 0 then Some ''admin_jwt_ttl must not be negative''
      else case websocket_error (cfg_websocket_tunnel c) of Some e \<Rightarrow> Some e
      | None \<Rightarrow>
          if \<not> has_prefix (cfg_listen_addr c) ''127.0.0.1:'' \<and> \<not> has_prefix (cfg_listen_addr c) ''localhost:'' then
            Some (''listen_addr must bind localhost only, got '' @ go_quote (cfg_listen_addr c))
          else None)"

text \<open>A file is None where there is none, else the error of reading it or its content. The error
  results also carry a configuration, which no caller looks at.\<close>

type_synonym config_files = "string \<Rightarrow> (string + string) option"

definition hub_LoadConfig ::
  "(string \<Rightarrow> string) \<Rightarrow> (string \<Rightarrow> Config \<Rightarrow> string + Config) \<Rightarrow> config_files \<Rightarrow> string \<Rightarrow> string + Config" where
  "hub_LoadConfig getenv unmarshal files path =
     (case files (or_else path ''/etc/reach/config.yaml'') of
        None \<Rightarrow> Inr (hub_DefaultConfig getenv)
      | Some (Inl e) \<Rightarrow> Inl e
      | Some (Inr b) \<Rightarrow>
          andThen (unmarshal b (hub_DefaultConfig getenv)) (\<lambda>c.
            let c' = complete_config getenv c in
            case config_error c' of Some e \<Rightarrow> Inl e | None \<Rightarrow> Inr c'))"

subsection \<open>Notifications\<close>

text \<open>\<open>metadataString\<close>; \<open>sprint\<close> is \<open>fmt.Sprint\<close> of a value that is not a text.\<close>

definition metadataString :: "(json \<Rightarrow> string) \<Rightarrow> (string \<times> json) list \<Rightarrow> string \<Rightarrow> string" where
  "metadataString sprint metadata key =
     (case obj_get key metadata of
        None \<Rightarrow> []
      | Some JNull \<Rightarrow> []
      | Some (JStr s) \<Rightarrow> trim_space s
      | Some v \<Rightarrow> trim_space (sprint v))"

definition notification_lines :: "(json \<Rightarrow> string) \<Rightarrow> Config \<Rightarrow> string \<Rightarrow> string \<Rightarrow> (string \<times> json) list \<Rightarrow> string list" where
  "notification_lines sprint cfg requestID name metadata =
     (let field = (\<lambda>label key. let v = metadataString sprint metadata key in if v \<noteq> [] then [label @ v] else []);
          distro = metadataString sprint metadata ''distro''; arch = metadataString sprint metadata ''arch'';
          api = hc_api_url (cfg_default_hub cfg)
      in [''New Reach access request: '' @ first_non_empty [name, ''unknown''], ''Request: '' @ requestID] @
         field ''Source IP: '' ''source_ip'' @ field ''Target user: '' ''target_user'' @
         (if distro = [] then [] else if arch \<noteq> [] then [''Target: '' @ distro @ '' / '' @ arch] else [''Target: '' @ distro]) @
         (if api \<noteq> [] then [''Dashboard: '' @ trim_right_chars api ''/''] else []))"

text \<open>\<open>http.Header.Set\<close> writes a key in its canonical form: every part between hyphens begins with a
  capital letter and goes on in small ones; a key with a character that no header name has stays.\<close>

definition is_lower :: "char \<Rightarrow> bool" where "is_lower c \<longleftrightarrow> 97 \<le> ord c \<and> ord c \<le> 122"
definition is_upper :: "char \<Rightarrow> bool" where "is_upper c \<longleftrightarrow> 65 \<le> ord c \<and> ord c \<le> 90"

definition header_char :: "char \<Rightarrow> bool" where
  "header_char c \<longleftrightarrow> is_lower c \<or> is_upper c \<or> is_digit c \<or>
     c \<in> set [CHR ''!'', CHR ''#'', CHR ''$'', CHR ''%'', CHR ''&'', CHR 0x27, CHR ''*'', CHR ''+'', CHR ''-'', CHR ''.'',
              CHR ''^'', CHR ''_'', CHR 0x60, CHR ''|'', CHR ''~'']"

fun canonical_chars :: "bool \<Rightarrow> string \<Rightarrow> string" where
  "canonical_chars up [] = []"
| "canonical_chars up (c # s) =
     (if up \<and> is_lower c then char_of (ord c - 32) else if \<not> up \<and> is_upper c then char_of (ord c + 32) else c)
       # canonical_chars (c = CHR ''-'') s"

definition canonical_key :: "string \<Rightarrow> string" where
  "canonical_key k = (if list_all header_char k then canonical_chars True k else k)"

definition set_header :: "string \<Rightarrow> string \<Rightarrow> (string \<rightharpoonup> string) \<Rightarrow> (string \<rightharpoonup> string)" where
  "set_header k v h = h(canonical_key k \<mapsto> v)"

definition setHeaderIfMissing :: "string \<Rightarrow> string \<Rightarrow> (string \<rightharpoonup> string) \<Rightarrow> (string \<rightharpoonup> string)" where
  "setHeaderIfMissing k v h =
     (if (case h (canonical_key k) of None \<Rightarrow> [] | Some x \<Rightarrow> x) = [] then set_header k v h else h)"

definition notification_headers :: "Config \<Rightarrow> (string \<rightharpoonup> string)" where
  "notification_headers cfg =
     (let api = hc_api_url (cfg_default_hub cfg);
          h1 = setHeaderIfMissing ''Tags'' ''computer,warning'' (setHeaderIfMissing ''Priority'' ''high''
                 (setHeaderIfMissing ''Title'' ''Reach pending request'' (\<lambda>_. None)));
          h2 = (if api \<noteq> [] then setHeaderIfMissing ''Click'' (trim_right_chars api ''/'') h1 else h1)
      in fold (\<lambda>(k, v) h. if trim_space k \<noteq> [] then set_header k v h else h)
              (nc_webhook_headers (cfg_notifications cfg)) h2)"

record webhook =
  wh_url :: string
  wh_headers :: "string \<rightharpoonup> string"
  wh_body :: string

datatype webhook_reply = WebhookFailed string | WebhookStatus int string

text \<open>The request of \<open>sendPendingRequestWebhook\<close>, unless its address cannot be parsed, and what becomes
  of it; \<open>notifyPendingRequest\<close> sends it from a goroutine of its own and only logs an error.\<close>

definition pending_request_webhook ::
  "(json \<Rightarrow> string) \<Rightarrow> (string \<Rightarrow> string option) \<Rightarrow> Config \<Rightarrow> string \<Rightarrow> string \<Rightarrow> (string \<times> json) list \<Rightarrow> string + webhook" where
  "pending_request_webhook sprint url_error cfg requestID name metadata =
     (let url = nc_webhook_url (cfg_notifications cfg) in
      case url_error url of
        Some e \<Rightarrow> Inl e
      | None \<Rightarrow> Inr \<lparr>wh_url = url, wh_headers = notification_headers cfg,
          wh_body = concat (map (\<lambda>l. l @ [nl]) (notification_lines sprint cfg requestID name metadata))\<rparr>)"

definition sendPendingRequestWebhook ::
  "(json \<Rightarrow> string) \<Rightarrow> (string \<Rightarrow> string option) \<Rightarrow> (webhook \<Rightarrow> webhook_reply) \<Rightarrow> Config \<Rightarrow> string \<Rightarrow> string \<Rightarrow>
     (string \<times> json) list \<Rightarrow> string option" where
  "sendPendingRequestWebhook sprint url_error post cfg requestID name metadata =
     (case pending_request_webhook sprint url_error cfg requestID name metadata of
        Inl e \<Rightarrow> Some e
      | Inr r \<Rightarrow> (case post r of
            WebhookFailed e \<Rightarrow> Some e
          | WebhookStatus code status \<Rightarrow>
              if code < 200 \<or> 300 \<le> code then Some (''webhook returned '' @ status) else None))"

definition notifyPendingRequest ::
  "(json \<Rightarrow> string) \<Rightarrow> (string \<Rightarrow> string option) \<Rightarrow> (webhook \<Rightarrow> webhook_reply) \<Rightarrow> Config \<Rightarrow> string \<Rightarrow> string \<Rightarrow>
     (string \<times> json) list \<Rightarrow> string option" where
  "notifyPendingRequest sprint url_error post cfg requestID name metadata =
     (let n = cfg_notifications cfg in
      if \<not> nc_enabled n \<or> trim_space (nc_webhook_url n) = [] then None
      else map_option (\<lambda>e. ''pending request notification failed: '' @ e)
             (sendPendingRequestWebhook sprint url_error post cfg requestID name metadata))"

end
