(* ===== verification/HubCli.thy ===== *)
theory HubCli
  imports HubConfig ApiAdmin
begin

text \<open>
  The command line of the hub (\<open>cli.go\<close>). A command has its flags parsed; it loads the configuration,
  opens and migrates the database and calls the operations of the hub as the account \<open>cli\<close>. The
  world it acts on is its own process's: its database is the one the configuration names, and its
  broker has no subscribers, so what it changes is not streamed by a hub that is running. A command
  yields the lines it prints or an error.
\<close>

subsection \<open>Expiry\<close>

definition parseExpiry :: "string \<Rightarrow> int \<Rightarrow> instant \<Rightarrow> string + string" where
  "parseExpiry s def now =
     (if s = [] then (if def = 0 then Inr [] else Inr (fmt (now + def)))
      else if has_suffix s ''d'' then
        (case atoi (trim_suffix s ''d'') of
           None \<Rightarrow> Inl (''strconv.Atoi: parsing '' @ go_quote (trim_suffix s ''d'') @ '': invalid syntax'')
         | Some n \<Rightarrow> Inr (fmt (now + wrap64 (n * day))))
      else case parse_duration s of
          Some d \<Rightarrow> Inr (fmt (now + d))
        | None \<Rightarrow> (case parse_time s of
            None \<Rightarrow> Inl (''parsing time '' @ go_quote s @ '' as '' @ go_quote ''2006-01-02T15:04:05Z07:00'' @ '': cannot parse'')
          | Some _ \<Rightarrow> Inr s))"

definition firstUserID :: "db \<Rightarrow> string + string" where
  "firstUserID d =
     (case sort_key u_created_at (db_users d) of [] \<Rightarrow> Inl ''sql: no rows in result set'' | u # _ \<Rightarrow> Inr (u_id u))"

subsection \<open>Starting up\<close>

record cli_env =
  ce_getenv :: "string \<Rightarrow> string"
  ce_unmarshal :: "string \<Rightarrow> Config \<Rightarrow> string + Config"
  ce_files :: config_files
  ce_open :: "string \<Rightarrow> string option"        \<comment> \<open>the error of opening the database at this path\<close>

definition initApp :: "lib \<Rightarrow> cli_env \<Rightarrow> string \<Rightarrow> instant \<Rightarrow> world \<Rightarrow> (string + Config) \<times> world" where
  "initApp l e path now w =
     (case hub_LoadConfig (ce_getenv e) (ce_unmarshal e) (ce_files e) path of
        Inl err \<Rightarrow> (Inl err, w)
      | Inr cfg \<Rightarrow>
          (case ce_open e (cfg_db_path cfg) of
             Some err \<Rightarrow> (Inl err, w)
           | None \<Rightarrow>
               (case Migrate l cfg now (w_db w, w_rand w) of
                  (r, d, rnd) \<Rightarrow> (case r of Some err \<Rightarrow> Inl err | None \<Rightarrow> Inr cfg, w\<lparr>w_db := d, w_rand := rnd\<rparr>))))"

definition with_app :: "lib \<Rightarrow> cli_env \<Rightarrow> string \<Rightarrow> instant \<Rightarrow>
    (Config \<Rightarrow> world \<Rightarrow> (string + string list) \<times> world) \<Rightarrow> world \<Rightarrow> (string + string list) \<times> world" where
  "with_app l e path now f w = bindE (initApp l e path now) f w"

subsection \<open>Commands\<close>

record create_flags =
  fl_slug :: string
  fl_pubkey :: string
  fl_expires :: string
  fl_target_user :: string
  fl_display_name :: string
  fl_no_provision :: bool

text \<open>After its start a server answers requests and runs its two loops; these are the steps of the hub.\<close>

definition serveCommand :: "lib \<Rightarrow> cli_env \<Rightarrow> string \<Rightarrow> instant \<Rightarrow> world \<Rightarrow> (string + string list) \<times> world" where
  "serveCommand l e path now = with_app l e path now (\<lambda>cfg w.
     (if cfg_jwt_secret cfg = [] then Inl ''jwt_secret is required for API server'' else Inr [], w))"

definition read_text :: "config_files \<Rightarrow> string \<Rightarrow> string + string" where
  "read_text files p =
     (case files p of None \<Rightarrow> Inl (''open '' @ p @ '': no such file or directory'') | Some r \<Rightarrow> r)"

definition cliCreate :: "lib \<Rightarrow> cli_env \<Rightarrow> string \<Rightarrow> create_flags \<Rightarrow> instant \<Rightarrow> world \<Rightarrow> (string + string list) \<times> world" where
  "cliCreate l e path fl now w0 =
     (if fl_slug fl = [] \<or> fl_pubkey fl = [] then (Inl ''--slug and --pubkey are required'', w0)
      else with_app l e path now (\<lambda>cfg0 w.
        let cfg = (if fl_no_provision fl then cfg0\<lparr>cfg_provisioning_enabled := False\<rparr> else cfg0) in
        case andThen (read_text (ce_files e) (fl_pubkey fl)) (\<lambda>b.
             andThen (parseExpiry (fl_expires fl) (cfg_default_expiry cfg) now) (\<lambda>exp.
             andThen (firstUserID (w_db w)) (\<lambda>owner. Inr (b, exp, owner)))) of
          Inl err \<Rightarrow> (Inl err, w)
        | Inr (b, exp, owner) \<Rightarrow>
            (case CreateMachine l cfg
                    \<lparr>in_slug = fl_slug fl, in_display_name = fl_display_name fl, in_target_user = fl_target_user fl, in_mode = [],
                     in_local_port = 0, in_persistence = [], in_distro = [], in_arch = [], in_pubkey = trim_space b,
                     in_owner_user_id = owner, in_hub_id = [], in_expires_at = exp\<rparr> now w of
               (Inl err, w1) \<Rightarrow> (Inl err, w1)
             | (Inr res, w1) \<Rightarrow>
                 (Inr [''created '' @ m_slug (cm_machine res) @ '' port='' @ show_int (t_remote_port (cm_tunnel res)) @
                       '' unix_user='' @ t_unix_user (cm_tunnel res) @ '' machine_id='' @ m_id (cm_machine res)], w1))) w0)"

definition tab :: string where "tab = [CHR 0x09]"

definition list_lines :: "MachineWithTunnels list \<Rightarrow> string list" where
  "list_lines ms = concat (map (\<lambda>m. map (\<lambda>t.
     join tab [m_slug (mt_machine m), m_id (mt_machine m), m_status (mt_machine m), t_unix_user t,
               show_int (t_remote_port t), t_status t]) (mt_tunnels m)) ms)"

definition cliList :: "lib \<Rightarrow> cli_env \<Rightarrow> string \<Rightarrow> instant \<Rightarrow> world \<Rightarrow> (string + string list) \<times> world" where
  "cliList l e path now = with_app l e path now (\<lambda>cfg w. (Inr (list_lines (ListMachines cfg (w_host w) (w_db w))), w))"

definition cliMachineAction :: "lib \<Rightarrow> cli_env \<Rightarrow> string \<Rightarrow> string \<Rightarrow> string list \<Rightarrow> instant \<Rightarrow> world \<Rightarrow> (string + string list) \<times> world" where
  "cliMachineAction l e path action args now w0 =
     (case args of
        [ref] \<Rightarrow>
          with_app l e path now (\<lambda>cfg w.
            case (if action = ''disable'' then DisableMachine cfg ref ''cli'' now w else RemoveMachine cfg ref ''cli'' now w) of
              (Inl err, w1) \<Rightarrow> (Inl err, w1)
            | (Inr _, w1) \<Rightarrow> (Inr [action @ ''d '' @ ref], w1)) w0
      | _ \<Rightarrow> (Inl (''usage: '' @ action @ '' [--config path] <slug-or-id>''), w0))"

definition cliSSHConfig :: "lib \<Rightarrow> cli_env \<Rightarrow> string \<Rightarrow> instant \<Rightarrow> world \<Rightarrow> (string + string list) \<times> world" where
  "cliSSHConfig l e path now = with_app l e path now (\<lambda>cfg w.
     (map_sum id (\<lambda>out. [out]) (GenerateSSHConfig cfg (w_db w)), w))"

text \<open>How \<open>fmt\<close> prints a field of the report, which is a text, a number or a truth value.\<close>

fun report_text :: "json option \<Rightarrow> string" where
  "report_text (Some (JStr s)) = s"
| "report_text (Some (JNum n)) = show_int n"
| "report_text (Some (JBool b)) = (if b then ''true'' else ''false'')"
| "report_text _ = ''<nil>''"

definition health_line :: "(string \<times> json) list \<Rightarrow> string" where
  "health_line r =
     report_text (obj_get ''machine_id'' r) @ '' port='' @ report_text (obj_get ''port'' r) @
     '' ok='' @ report_text (obj_get ''ok'' r) @ '' '' @ report_text (obj_get ''detail'' r)"

definition cliHealth :: "lib \<Rightarrow> cli_env \<Rightarrow> string \<Rightarrow> instant \<Rightarrow> world \<Rightarrow> (string + string list) \<times> world" where
  "cliHealth l e path now = with_app l e path now (\<lambda>cfg w.
     (case RunHealthCheck cfg now w of (rep, w1) \<Rightarrow> (Inr (map health_line rep), w1)))"

definition cliHashSecret :: "lib \<Rightarrow> bool \<Rightarrow> string list \<Rightarrow> string + string \<Rightarrow> world \<Rightarrow> (string + string list) \<times> world" where
  "cliHashSecret l stdin args input w =
     (if args \<noteq> [] then (Inl ''usage: printf 'secret' | reachd hash-secret'', w)
      else if \<not> stdin then (Inl ''hash-secret only supports stdin to avoid leaking secrets in process listings'', w)
      else case input of
          Inl err \<Rightarrow> (Inl err, w)
        | Inr b \<Rightarrow>
            (let secret = trim_right_chars b [CHR 0x0D, nl] in
             if secret = [] then (Inl ''empty secret on stdin'', w)
             else case with_rand (HashSecret l secret) w of
                 (Inl err, w1) \<Rightarrow> (Inl err, w1) | (Inr h, w1) \<Rightarrow> (Inr [h], w1)))"

text \<open>\<open>ws-server\<close> runs the server of the carrier (\<open>WsHandshake\<close>), which has nothing to do with the database.
  The text that \<open>help\<close> prints is left out.\<close>

datatype cli_command =
    Serve
  | Create create_flags
  | ListAll
  | Disable "string list"
  | Remove "string list"
  | SSHConfig
  | Health
  | HashIt bool "string list" "string + string"
  | WsServer
  | Help
  | Unknown string

definition runCLI :: "lib \<Rightarrow> cli_env \<Rightarrow> string \<Rightarrow> cli_command \<Rightarrow> instant \<Rightarrow> world \<Rightarrow> (string + string list) \<times> world" where
  "runCLI l e path cmd now w =
     (case cmd of
        Serve \<Rightarrow> serveCommand l e path now w
      | Create fl \<Rightarrow> cliCreate l e path fl now w
      | ListAll \<Rightarrow> cliList l e path now w
      | Disable args \<Rightarrow> cliMachineAction l e path ''disable'' args now w
      | Remove args \<Rightarrow> cliMachineAction l e path ''remove'' args now w
      | SSHConfig \<Rightarrow> cliSSHConfig l e path now w
      | Health \<Rightarrow> cliHealth l e path now w
      | HashIt stdin args input \<Rightarrow> cliHashSecret l stdin args input w
      | WsServer \<Rightarrow> (Inr [], w)
      | Help \<Rightarrow> (Inr [], w)
      | Unknown c \<Rightarrow> (Inl (''unknown command '' @ go_quote c), w))"

end
