(* ===== verification/HubCliProps.thy ===== *)
theory HubCliProps
  imports HubCli HubRuns Examples
begin

text \<open>
  Properties of the hub's configuration and command line: what an accepted configuration guarantees,
  that every command keeps the integrity and the history of the database, and what \<open>parseExpiry\<close>
  makes of the texts it accepts.
\<close>

subsection \<open>The configuration\<close>

lemma default_accepted: "config_error (hub_DefaultConfig getenv) = None"
proof -
  have "has_prefix ''127.0.0.1:9300'' ''127.0.0.1:''" by code_simp
  then show ?thesis by (simp add: config_error_def websocket_error_def hub_DefaultConfig_def duration_defs)
qed

lemma or_zero_ne [simp]: "d \<noteq> 0 \<Longrightarrow> or_zero n d \<noteq> 0"
  by (simp add: or_zero_def)

lemma or_else_ne [simp]: "d \<noteq> [] \<Longrightarrow> or_else s d \<noteq> []"
  by (simp add: or_else_def)

text \<open>The fields that are never empty or zero.\<close>

definition completed :: "Config \<Rightarrow> bool" where
  "completed c \<longleftrightarrow> cfg_admin_jwt_ttl c \<noteq> 0 \<and> cfg_db_path c \<noteq> [] \<and> cfg_tunnel_home_base c \<noteq> [] \<and> cfg_sshd_config_dir c \<noteq> [] \<and>
    cfg_health_interval c \<noteq> 0 \<and> cfg_request_ttl c \<noteq> 0 \<and> cfg_setup_token_ttl c \<noteq> 0 \<and>
    hc_id (cfg_default_hub c) \<noteq> [] \<and> hc_ssh_port (cfg_default_hub c) \<noteq> 0 \<and>
    hc_port_start (cfg_default_hub c) \<noteq> 0 \<and> hc_port_end (cfg_default_hub c) \<noteq> 0"

lemma completed_default: "completed (hub_DefaultConfig getenv)"
  by (simp add: completed_def hub_DefaultConfig_def hub_envDefault_def duration_defs)

lemma completed_complete: "completed (complete_config getenv c)"
proof -
  have "hc_id (cfg_default_hub (hub_DefaultConfig getenv)) \<noteq> []" using completed_default by (simp add: completed_def)
  then have "hc_id (complete_hub getenv h) \<noteq> [] \<and> hc_ssh_port (complete_hub getenv h) \<noteq> 0 \<and>
    hc_port_start (complete_hub getenv h) \<noteq> 0 \<and> hc_port_end (complete_hub getenv h) \<noteq> 0" for h
    by (simp add: complete_hub_def Let_def)
  then show ?thesis by (simp add: completed_def complete_config_def duration_defs)
qed

lemma websocket_accepted:
  assumes "websocket_error w = None" "ws_enabled w"
  shows "ws_url w \<noteq> [] \<and> ws_path_prefix w \<noteq> [] \<and>
    (ws_carrier w = ''reach'' \<or> ws_carrier w = ''wstunnel'' \<and> ws_binaries w \<noteq> [])"
  using assms by (auto simp: websocket_error_def split: if_splits)

text \<open>C18: A configuration the hub starts with binds the local interface only, gives sessions a positive
  life, has ports, a hub, a database and intervals that are not zero, and a carrier it offers is a
  known one with an address. This holds whatever the file says, and when there is none.\<close>

theorem accepted_config_safe:
  assumes "hub_LoadConfig getenv unmarshal files path = Inr c"
  shows "(has_prefix (cfg_listen_addr c) ''127.0.0.1:'' \<or> has_prefix (cfg_listen_addr c) ''localhost:'') \<and>
    0 < cfg_admin_jwt_ttl c \<and> cfg_db_path c \<noteq> [] \<and> cfg_tunnel_home_base c \<noteq> [] \<and> cfg_sshd_config_dir c \<noteq> [] \<and>
    cfg_health_interval c \<noteq> 0 \<and> cfg_request_ttl c \<noteq> 0 \<and> cfg_setup_token_ttl c \<noteq> 0 \<and>
    hc_id (cfg_default_hub c) \<noteq> [] \<and> hc_ssh_port (cfg_default_hub c) \<noteq> 0 \<and>
    hc_port_start (cfg_default_hub c) \<noteq> 0 \<and> hc_port_end (cfg_default_hub c) \<noteq> 0 \<and>
    (ws_enabled (cfg_websocket_tunnel c) \<longrightarrow> ws_url (cfg_websocket_tunnel c) \<noteq> [] \<and> ws_path_prefix (cfg_websocket_tunnel c) \<noteq> [] \<and>
       (ws_carrier (cfg_websocket_tunnel c) = ''reach'' \<or>
        ws_carrier (cfg_websocket_tunnel c) = ''wstunnel'' \<and> ws_binaries (cfg_websocket_tunnel c) \<noteq> []))"
proof -
  obtain c0 where c: "c = c0" "config_error c0 = None" "c0 = hub_DefaultConfig getenv \<or> (\<exists>c1. c0 = complete_config getenv c1)"
    using assms default_accepted
    by (auto simp: hub_LoadConfig_def andThen_def Let_def split: option.splits sum.splits)
  have err: "\<not> cfg_admin_jwt_ttl c < 0" "websocket_error (cfg_websocket_tunnel c) = None"
    "has_prefix (cfg_listen_addr c) ''127.0.0.1:'' \<or> has_prefix (cfg_listen_addr c) ''localhost:''"
    using c(1,2) by (auto simp: config_error_def split: if_splits option.splits)
  have "completed c" using c completed_default completed_complete by auto
  with err websocket_accepted [OF err(2)] show ?thesis unfolding completed_def by simp
qed

text \<open>A file that switches the carrier on and leaves its kind open.\<close>

definition example_unmarshal :: "string \<Rightarrow> Config \<Rightarrow> string + Config" where
  "example_unmarshal _ c = Inr (c\<lparr>cfg_websocket_tunnel :=
     \<lparr>ws_enabled = True, ws_carrier = [], ws_url = ''wss://hub'', ws_path_prefix = ''p'', ws_binaries = []\<rparr>\<rparr>)"

lemma local_prefix: "has_prefix ''127.0.0.1:9300'' ''127.0.0.1:''"
  by code_simp

theorem accepted_config_safe_witness:
  "\<exists>c. hub_LoadConfig (\<lambda>_. []) example_unmarshal (\<lambda>_. Some (Inr [])) [] = Inr c \<and> 0 < cfg_admin_jwt_ttl c \<and>
     ws_enabled (cfg_websocket_tunnel c) \<and> ws_carrier (cfg_websocket_tunnel c) = ''reach'' \<and> hc_port_start (cfg_default_hub c) \<noteq> 0"
proof -
  obtain c where c: "hub_LoadConfig (\<lambda>_. []) example_unmarshal (\<lambda>_. Some (Inr [])) [] = Inr c"
      "ws_enabled (cfg_websocket_tunnel c)" "ws_binaries (cfg_websocket_tunnel c) = []"
    using local_prefix
    by (simp add: hub_LoadConfig_def example_unmarshal_def andThen_def Let_def config_error_def websocket_error_def
        complete_websocket_def complete_config_def hub_DefaultConfig_def or_else_def or_zero_def duration_defs)
  show ?thesis using accepted_config_safe [OF c(1)] c by blast
qed

text \<open>What the checks do not cover: a negative interval is accepted, with which \<open>time.NewTicker\<close> panics.\<close>

lemma negative_interval_accepted:
  "\<exists>c. hub_LoadConfig getenv (\<lambda>_ c. Inr (c\<lparr>cfg_health_interval := -1\<rparr>)) (\<lambda>_. Some (Inr [])) path = Inr c \<and> cfg_health_interval c < 0"
proof -
  have "has_prefix ''127.0.0.1:9300'' ''127.0.0.1:''" by code_simp
  then show ?thesis
    by (simp add: hub_LoadConfig_def andThen_def Let_def config_error_def websocket_error_def complete_websocket_def
        complete_config_def hub_DefaultConfig_def or_else_def or_zero_def duration_defs)
qed

subsection \<open>Starting up\<close>

text \<open>What a migration leaves as it is.\<close>

definition lasting :: "db \<Rightarrow> _" where
  "lasting d = (db_audit d, db_events d, map mr_id (db_machines d), db_requests d, db_service_tokens d)"

lemma lasting_update_machines: "(\<And>m. mr_id (f m) = mr_id m) \<Longrightarrow> lasting (update_machines p f d) = lasting d"
  by (simp add: lasting_def update_machines_def sql_update_key)

lemma lasting_update_tunnels: "lasting (update_tunnels p f d) = lasting d"
  by (simp add: lasting_def update_tunnels_def)

lemma lasting_seed_keys: "seed_keys l u now ks (d, r) = (e, d', r') \<Longrightarrow> lasting d' = lasting d"
  by (induction ks arbitrary: d r)
    (auto split: sum.splits prod.splits option.splits simp: insert_access_key_Some lasting_def)

lemma lasting_slugs: "release_slugs rows (d, r) = (e, d', r') \<Longrightarrow> lasting d' = lasting d"
  by (induction rows arbitrary: d r)
    (auto split: if_splits sum.splits prod.splits option.splits simp: update_machine_keys_Some lasting_update_machines)

lemma lasting_tunnels: "release_tunnels ts d = (e, d') \<Longrightarrow> lasting d' = lasting d"
  by (induction ts arbitrary: d)
    (auto simp: Let_def update_tunnel_keys_Some lasting_update_tunnels split: if_splits option.splits)

lemma lasting_seed: "seed l cfg now (d, r) = (e, d', r') \<Longrightarrow> lasting d' = lasting d"
proof -
  assume s: "seed l cfg now (d, r) = (e, d', r')"
  have h: "lasting (seed_hub h n x) = lasting x" for h n x by (simp add: seed_hub_def lasting_def)
  have u: "lasting x' = lasting x" if "insert_user us x = Some x'" for us x x' using that by (auto simp: insert_user_Some lasting_def)
  from s show ?thesis unfolding seed_def Let_def
    by (auto split: if_splits sum.splits prod.splits option.splits simp: h dest!: lasting_seed_keys u)
qed

lemma lasting_migrate:
  assumes "Migrate l cfg now (d, r) = (e, d', r')"
  shows "lasting d' = lasting d"
proof -
  obtain e1 d1 r1 where 1: "releaseRetiredSlugs (fill_machine_columns d, r) = (e1, d1, r1)" by (metis prod_cases3)
  obtain e2 d2 where 2: "releaseRetiredTunnels d1 = (e2, d2)" by fastforce
  have "lasting (fill_machine_columns d) = lasting d"
    unfolding fill_machine_columns_def Let_def by (simp add: lasting_update_machines)
  then have d1: "lasting d1 = lasting d" using 1 lasting_slugs by (fastforce simp: releaseRetiredSlugs_def)
  have d2: "lasting d2 = lasting d1"
    using 2 lasting_tunnels by (fastforce simp: releaseRetiredTunnels_def Let_def lasting_update_tunnels)
  then show ?thesis using assms 1 2 d1 d2 lasting_seed by (auto simp: Migrate_def split: option.splits)
qed

lemma quiet_Migrate: "Migrate l cfg now (d, r) = (e, d', r') \<Longrightarrow> quiet d d'"
  using lasting_migrate [of l cfg now d r e d' r'] Migrate_wf [of l cfg now d r e d' r']
  by (auto simp: quiet_def evolves_def lasting_def intro: tokens_keep_same)

lemma quiet_initApp: "initApp l e path now w = (r, w') \<Longrightarrow> quiet (w_db w) (w_db w')"
  unfolding initApp_def by (auto split: sum.splits option.splits prod.splits dest: quiet_Migrate)

text \<open>The commands that act on a started application.\<close>

lemma quiet_with_app:
  assumes "with_app l e path now f w = (r, w')"
    and "\<And>cfg w r w'. f cfg w = (r, w') \<Longrightarrow> quiet (w_db w) (w_db w')"
  shows "quiet (w_db w) (w_db w')"
proof -
  obtain q w1 where q: "initApp l e path now w = (q, w1)" by (rule prod.exhaust)
  show ?thesis
  proof (cases q)
    case (Inl x)
    then show ?thesis using assms(1) quiet_initApp [OF q] by (simp add: with_app_def bindE_def q)
  next
    case (Inr cfg)
    then have "f cfg w1 = (r, w')" using assms(1) by (simp add: with_app_def bindE_def q)
    then show ?thesis using quiet_trans [OF quiet_initApp [OF q] assms(2)] by blast
  qed
qed

text \<open>C19: Every command of the command line keeps the database: its integrity, the audit log and the
  event log, which only grow, the machines, none of which vanishes, the access requests and the
  restrictions of service tokens, whatever the configuration says and whichever step fails.\<close>

theorem command_line_keeps:
  assumes "runCLI l e path cmd now w = (r, w')"
  shows "(db_wf (w_db w) \<longrightarrow> db_wf (w_db w')) \<and> prefix (db_audit (w_db w)) (db_audit (w_db w')) \<and>
    prefix (db_events (w_db w)) (db_events (w_db w')) \<and>
    prefix (map mr_id (db_machines (w_db w))) (map mr_id (db_machines (w_db w'))) \<and>
    db_requests (w_db w') = db_requests (w_db w) \<and> (roles_restricted (w_db w) \<longrightarrow> roles_restricted (w_db w'))"
proof -
  have create: "quiet (w_db w) (w_db w')" if "cliCreate l e path fl now w = (r, w')" for fl
  proof (cases "fl_slug fl = [] \<or> fl_pubkey fl = []")
    case True
    then show ?thesis using that by (simp add: cliCreate_def)
  next
    case False
    show ?thesis
      by (rule quiet_with_app [OF that [unfolded cliCreate_def if_not_P [OF False]]])
        (auto simp: Let_def split: sum.splits prod.splits dest: quiet_CreateMachine [OF _ quiet_refl])
  qed
  have action: "quiet (w_db w) (w_db w')" if a: "cliMachineAction l e path act args now w = (r, w')" for act args
  proof (cases "\<exists>ref. args = [ref]")
    case True
    then obtain ref where ref: "args = [ref]" by blast
    have d: "quiet (w_db v) (w_db v')" if "DisableMachine cfg ref ''cli'' now v = (q, v')" for cfg v q v'
      using quiet_DisableMachine [OF quiet_refl, of v cfg ref "''cli''" now] that by simp
    have rm: "quiet (w_db v) (w_db v')" if "RemoveMachine cfg ref ''cli'' now v = (q, v')" for cfg v q v'
      using quiet_RemoveMachine [OF quiet_refl, of v cfg ref "''cli''" now] that by simp
    show ?thesis using a unfolding ref cliMachineAction_def list.case
      by (rule quiet_with_app) (auto split: sum.splits prod.splits if_splits dest: d rm)
  next
    case False
    then show ?thesis using a by (auto simp: cliMachineAction_def split: list.splits)
  qed
  have started: "quiet (w_db w) (w_db w')"
    if "with_app l e path now (\<lambda>cfg v. (f cfg v, v)) w = (r, w')" for f
    by (rule quiet_with_app [OF that]) auto
  have health: "quiet (w_db w) (w_db w')" if "cliHealth l e path now w = (r, w')"
    by (rule quiet_with_app [OF that [unfolded cliHealth_def]])
      (auto split: prod.splits dest: quiet_RunHealthCheck [OF _ quiet_refl])
  have hash: "quiet (w_db w) (w_db w')" if "cliHashSecret l stdin args input w = (r, w')" for stdin args input
    using that by (auto simp: cliHashSecret_def with_rand_def Let_def split: if_splits sum.splits prod.splits)
  have "quiet (w_db w) (w_db w')"
    using assms unfolding runCLI_def
    by (cases cmd)
      (simp_all add: create action health hash serveCommand_def cliList_def cliSSHConfig_def started)
  then show ?thesis by (simp add: quiet_def evolves_def tokens_keep_def)
qed

text \<open>The machine of the examples, its configuration file empty, every path of the database opens.\<close>

definition example_cli :: cli_env where
  "example_cli = \<lparr>ce_getenv = (\<lambda>_. []), ce_unmarshal = (\<lambda>_ _. Inr example_cfg), ce_files = (\<lambda>_. Some (Inr [])), ce_open = (\<lambda>_. None)\<rparr>"

theorem command_line_keeps_witness:
  "\<exists>r w'. runCLI example_lib example_cli [] (Disable [''box'']) 0 example_world = (r, w') \<and> db_wf (w_db w') \<and>
     prefix (db_audit (w_db example_world)) (db_audit (w_db w'))"
proof -
  obtain r w' where w': "runCLI example_lib example_cli [] (Disable [''box'']) 0 example_world = (r, w')" by (rule prod.exhaust)
  from command_line_keeps [OF w'] w' example_world_wf show ?thesis by blast
qed

subsection \<open>Expiry\<close>

text \<open>A number of days counts as written only up to 106751 of them: one more and the product of 64 bits is
  negative, so that the machine is born expired.\<close>

lemma day_count:
  assumes "atoi k = Some n" "\<bar>n\<bar> \<le> 106751"
  shows "parseExpiry (k @ ''d'') def now = Inr (fmt (now + n * day))"
proof -
  have "k @ ''d'' \<noteq> []" "has_suffix (k @ ''d'') ''d''" by (simp_all add: has_suffix_iff)
  moreover have "trim_suffix (k @ ''d'') ''d'' = k" by (rule trim_suffix_append)
  moreover have "wrap64 (n * day) = n * day"
    using assms(2) unfolding wrap64_def duration_defs by (subst mod_pos_pos_trivial) auto
  ultimately show ?thesis by (simp add: parseExpiry_def assms(1))
qed

lemma long_expiry_in_past: "\<exists>t. parseExpiry ''106752d'' def now = Inr (fmt t) \<and> t < now"
proof -
  have 1: "has_suffix ''106752d'' ''d''" "trim_suffix ''106752d'' ''d'' = ''106752''" by code_simp+
  have 2: "atoi ''106752'' = Some 106752"
    by (simp add: atoi_def read_nat_def read_digits_def is_digit_def digit_val_def min_int64_def max_int64_def Let_def)
  have "wrap64 (106752 * day) = - 9223371273709551616" by (simp add: wrap64_def duration_defs)
  with 1 2 have "parseExpiry ''106752d'' def now = Inr (fmt (now + - 9223371273709551616))" unfolding parseExpiry_def by (simp only:) simp
  moreover have "now + - 9223371273709551616 < now" by simp
  ultimately show ?thesis by blast
qed

text \<open>An instant with another zone is stored as it was written, and texts are compared: this one has been
  over for two hours when the hub's clock reads noon, and does not count as expired.\<close>

lemma zone_kept:
  "parseExpiry ''2030-01-01T00:00:00+14:00'' def now = Inr ''2030-01-01T00:00:00+14:00''"
  "parse_time ''2030-01-01T00:00:00+14:00'' = Some t \<Longrightarrow> parse_time ''2029-12-31T12:00:00Z'' = Some noon \<Longrightarrow> t = noon - 2 * hour"
  "\<not> ''2030-01-01T00:00:00+14:00'' < ''2029-12-31T12:00:00Z''"
proof -
  have 1: "\<not> has_suffix ''2030-01-01T00:00:00+14:00'' ''d''" "parse_duration ''2030-01-01T00:00:00+14:00'' = None"
    "parse_time ''2030-01-01T00:00:00+14:00'' = Some 1893405600000000000" "parse_time ''2029-12-31T12:00:00Z'' = Some 1893412800000000000"
    by code_simp+
  show "parseExpiry ''2030-01-01T00:00:00+14:00'' def now = Inr ''2030-01-01T00:00:00+14:00''"
    unfolding parseExpiry_def by (simp only: 1) simp
  show "parse_time ''2030-01-01T00:00:00+14:00'' = Some t \<Longrightarrow> parse_time ''2029-12-31T12:00:00Z'' = Some noon \<Longrightarrow> t = noon - 2 * hour"
    unfolding 1 by (simp add: duration_defs)
  show "\<not> ''2030-01-01T00:00:00+14:00'' < ''2029-12-31T12:00:00Z''" by code_simp
qed

subsection \<open>Notifications\<close>

text \<open>A name is trimmed but may contain line ends, so a client writes lines of its own into the message
  by which an operator decides.\<close>

lemma forged_line:
  assumes "register_checks b = None" "gb_name b = ''a'' @ [nl] @ ''Source IP: 10.0.0.1''"
  shows "\<exists>rest. concat (map (\<lambda>l. l @ [nl]) (notification_lines sprint cfg i (trim_space (gb_name b)) m)) =
    ''New Reach access request: a'' @ [nl] @ ''Source IP: 10.0.0.1'' @ [nl] @ rest"
proof -
  have "first_non_empty [trim_space (gb_name b), ''unknown''] = ''a'' @ [nl] @ ''Source IP: 10.0.0.1''"
    unfolding assms(2) by code_simp
  then show ?thesis by (simp add: notification_lines_def Let_def)
qed

text \<open>Two spellings of a header's name are one header.\<close>

lemma configured_header_wins:
  assumes "nc_webhook_headers (cfg_notifications cfg) = [(''priority'', v)]"
  shows "notification_headers cfg ''Priority'' = Some v"
proof -
  have "canonical_key ''priority'' = ''Priority''" "trim_space ''priority'' \<noteq> []" by code_simp+
  then show ?thesis by (simp add: notification_headers_def assms set_header_def Let_def)
qed

end
