(* ===== verification/ReleaseTool.thy ===== *)
theory ReleaseTool
  imports UpdateRun
begin

text \<open>
  The tool that publishes releases (\<open>cmd/reach-release/main.go\<close>): it writes the manifest of a directory
  of binaries, signs it, and makes the key pair for that. Its commands are given with their flags
  parsed; the hash, the JSON encoder, minisign and the random source are parameters. The struct of an
  asset is the agent's; file permissions are not modelled.
\<close>

record tool_manifest =
  tm_Schema :: int
  tm_Project :: string
  tm_Version :: string
  tm_GitCommit :: string
  tm_CreatedAt :: string
  tm_Assets :: "(string \<times> releaseAsset) list"

record release_env =
  rl_sha256_hex :: "string \<Rightarrow> string"
  rl_marshal :: "tool_manifest \<Rightarrow> string + string"            \<comment> \<open>\<open>json.MarshalIndent\<close>\<close>
  rl_private_key :: "string \<Rightarrow> string \<Rightarrow> string + string"       \<comment> \<open>the key in a file's text, given its password\<close>
  rl_sign :: "string \<Rightarrow> string \<Rightarrow> string \<Rightarrow> string \<Rightarrow> string"   \<comment> \<open>key, message, trusted and untrusted comment\<close>
  rl_generate :: "string + string \<times> string"                  \<comment> \<open>public and private key\<close>
  rl_random :: "string + string"                             \<comment> \<open>32 random bytes\<close>
  rl_private_text :: "string \<Rightarrow> string + string"
  rl_encrypt :: "string \<Rightarrow> string \<Rightarrow> string + string"
  rl_public_text :: "string \<Rightarrow> string + string"
  rl_getenv :: "string \<Rightarrow> string"
  rl_home :: "string option"
  rl_now :: instant

subsection \<open>The manifest\<close>

definition asset_names :: "string list" where
  "asset_names =
     [''reach-agent_linux_amd64'', ''reach-agent_linux_arm64'', ''reach-agent_linux_386'', ''reach-agent_linux_armv6'',
      ''reach-agent_linux_armv7'', ''reach-agent_darwin_amd64'', ''reach-agent_darwin_arm64'',
      ''reach-agent_windows_amd64.exe'', ''reach-agent_windows_arm64.exe'']"

fun collect_assets :: "release_env \<Rightarrow> (string \<rightharpoonup> string) \<Rightarrow> string \<Rightarrow> string list \<Rightarrow> string + (string \<times> releaseAsset) list" where
  "collect_assets rl files dir [] = Inr []"
| "collect_assets rl files dir (nm # nms) =
     (case files (path_join [dir, nm]) of
        None \<Rightarrow> Inl (not_found ''stat'' (path_join [dir, nm]))
      | Some b \<Rightarrow>
          andThen (collect_assets rl files dir nms) (\<lambda>rest.
            Inr ((nm, \<lparr>ra_SHA256 = rl_sha256_hex rl b, ra_Size = int (length b)\<rparr>) # rest)))"

definition release_of :: "release_env \<Rightarrow> string \<Rightarrow> string \<Rightarrow> (string \<times> releaseAsset) list \<Rightarrow> tool_manifest" where
  "release_of rl version commit assets =
     \<lparr>tm_Schema = 1, tm_Project = ''reach-agent'', tm_Version = version, tm_GitCommit = commit, tm_CreatedAt = fmt (rl_now rl),
      tm_Assets = assets\<rparr>"

definition manifestCommand :: "release_env \<Rightarrow> string \<Rightarrow> string \<Rightarrow> string \<Rightarrow> string \<Rightarrow> unit hosted" where
  "manifestCommand rl dir version commit out h =
     (if version = [] then (Inl ''--version is required'', h)
      else case andThen (collect_assets rl (ho_files h) dir asset_names) (\<lambda>assets. rl_marshal rl (release_of rl version commit assets)) of
          Inl e \<Rightarrow> (Inl e, h)
        | Inr b \<Rightarrow> lift_host (write_file (or_else out (path_join [dir, ''manifest.json''])) (b @ [nl])) h)"

subsection \<open>Signing\<close>

definition releaseKeyPassword :: "release_env \<Rightarrow> string \<Rightarrow> string \<Rightarrow> string hosted" where
  "releaseKeyPassword rl passwordFile passwordEnv =
     (if passwordFile \<noteq> [] then hbind (read_file passwordFile) (\<lambda>b. hret (trim_right_chars b [CHR 0x0D, nl]))
      else if passwordEnv \<noteq> [] then hret (rl_getenv rl passwordEnv)
      else hret [])"

definition defaultReleaseKeyPath :: "release_env \<Rightarrow> string" where
  "defaultReleaseKeyPath rl =
     (case rl_home rl of
        Some home \<Rightarrow> if home \<noteq> [] then path_join [home, ''.minisign'', ''reach-release.key''] else ''reach-release.key''
      | None \<Rightarrow> ''reach-release.key'')"

definition signature_comment :: "release_env \<Rightarrow> string \<Rightarrow> string \<Rightarrow> string" where
  "signature_comment rl comment manifest =
     or_else comment (''reach-agent release manifest sha256='' @ rl_sha256_hex rl manifest)"

definition signCommand :: "release_env \<Rightarrow> string \<Rightarrow> string \<Rightarrow> string \<Rightarrow> string \<Rightarrow> string \<Rightarrow> string \<Rightarrow> unit hosted" where
  "signCommand rl keyPath passwordFile passwordEnv manifestPath out comment =
     (if manifestPath = [] then hfail ''--manifest is required''
      else hbind (releaseKeyPassword rl passwordFile passwordEnv) (\<lambda>password.
           hbind (on_error (\<lambda>e. ''read private key: '' @ e)
             (hbind (read_file keyPath) (\<lambda>t h. (rl_private_key rl password t, h)))) (\<lambda>key.
           hbind (read_file manifestPath) (\<lambda>manifest.
             lift_host (write_file (or_else out (manifestPath @ ''.minisig''))
               (rl_sign rl key manifest (signature_comment rl comment manifest)
                  ''untrusted comment: Reach release manifest signature''))))))"

subsection \<open>Making a key pair\<close>

definition path_ext :: "string \<Rightarrow> string" where
  "path_ext p =
     (let parts = split_on (CHR ''.'') (last (split_on (CHR ''/'') p)) in
      if length parts \<le> 1 then [] else CHR ''.'' # last parts)"

definition public_path :: "string \<Rightarrow> string \<Rightarrow> string" where
  "public_path keyPath pub = or_else pub (trim_suffix keyPath (path_ext keyPath) @ ''.pub'')"

definition put_in_dir :: "string \<Rightarrow> string \<Rightarrow> host \<Rightarrow> string option \<times> host" where
  "put_in_dir p c = and_then (os_call [''MkdirAll'', path_dir p] id) (write_file p c)"

text \<open>The texts to write: the private key's, the public key's, and the password, empty if there is none.\<close>

definition key_texts :: "release_env \<Rightarrow> bool \<Rightarrow> string + string \<times> string \<times> string" where
  "key_texts rl with_password =
     andThen (rl_generate rl) (\<lambda>(pub, priv).
     andThen (if with_password then map_sum id (b64_encode std_alphabet) (rl_random rl) else Inr []) (\<lambda>password.
     andThen (rl_private_text rl priv) (\<lambda>plain.
     andThen (if password \<noteq> [] then rl_encrypt rl password priv else Inr plain) (\<lambda>priv_text.
     andThen (rl_public_text rl pub) (\<lambda>pub_text. Inr (priv_text, pub_text, password))))))"

definition keygenCommand :: "release_env \<Rightarrow> string \<Rightarrow> string \<Rightarrow> string \<Rightarrow> bool \<Rightarrow> unit hosted" where
  "keygenCommand rl keyPath pub passwordFile force h =
     (let pubPath = public_path keyPath pub in
      case List.find (\<lambda>p. p \<noteq> [] \<and> file_exists p h \<and> \<not> force) [keyPath, pubPath, passwordFile] of
        Some p \<Rightarrow> (Inl (p @ '' already exists; use --force to overwrite''), h)
      | None \<Rightarrow>
          (case key_texts rl (passwordFile \<noteq> []) of
             Inl e \<Rightarrow> (Inl e, h)
           | Inr (priv_text, pub_text, password) \<Rightarrow>
               lift_host (and_then (put_in_dir keyPath priv_text)
                 (and_then (put_in_dir pubPath pub_text)
                   (if passwordFile \<noteq> [] then put_in_dir passwordFile (password @ [nl]) else fail_with None))) h))"

datatype release_command =
    Manifest string string string string
  | Sign string string string string string string
  | Keygen string string string bool
  | Usage
  | NoSuch string

definition release_run :: "release_env \<Rightarrow> release_command \<Rightarrow> unit hosted" where
  "release_run rl cmd =
     (case cmd of
        Manifest dir version commit out \<Rightarrow> manifestCommand rl dir version commit out
      | Sign key pwFile pwEnv manifest out comment \<Rightarrow> signCommand rl key pwFile pwEnv manifest out comment
      | Keygen key pub pwFile force \<Rightarrow> keygenCommand rl key pub pwFile force
      | Usage \<Rightarrow> hret ()
      | NoSuch c \<Rightarrow> hfail (''unknown command '' @ go_quote c))"

end
