(* ===== verification/ReleaseProps.thy ===== *)
theory ReleaseProps
  imports ReleaseTool UpdateProps
begin

text \<open>
  What the release tool publishes the agents install: the manifest it writes lists every binary that an
  agent may ask for, with the hash and the size by which the agent checks it.
\<close>

lemma collected:
  "collect_assets rl files dir nms = Inr as \<Longrightarrow> nm \<in> set nms \<Longrightarrow>
     \<exists>b. files (path_join [dir, nm]) = Some b \<and> map_of as nm = Some \<lparr>ra_SHA256 = rl_sha256_hex rl b, ra_Size = int (length b)\<rparr>"
proof (induction nms arbitrary: as)
  case (Cons n nms)
  then show ?case by (cases "nm = n") (auto simp: andThen_def split: option.splits sum.splits)
qed simp

lemma asked_asset_listed: "agentAssetForOSArch goos arch = Inr asset \<Longrightarrow> asset \<in> set asset_names"
  unfolding agentAssetForOSArch_def Let_def asset_names_def by (auto split: if_splits)

lemma written_ok: "lift_host (write_file p c) h = (Inr (), h') \<Longrightarrow> ho_files h' = (ho_files h)(p \<mapsto> c)"
  by (cases "write_file p c h") (auto simp: lift_host_def write_file_def split: option.splits elim!: os_call_cases)

lemma manifest_written:
  assumes "manifestCommand rl dir version commit [] h = (Inr (), h1)"
  obtains as t where "collect_assets rl (ho_files h) dir asset_names = Inr as" "rl_marshal rl (release_of rl version commit as) = Inr t"
    "ho_files h1 = (ho_files h)(path_join [dir, ''manifest.json''] \<mapsto> t @ [nl])"
proof -
  have "\<exists>as t. collect_assets rl (ho_files h) dir asset_names = Inr as \<and> rl_marshal rl (release_of rl version commit as) = Inr t \<and>
     lift_host (write_file (path_join [dir, ''manifest.json'']) (t @ [nl])) h = (Inr (), h1)"
    using assms by (auto simp: manifestCommand_def or_else_def andThen_def split: if_splits sum.splits)
  then show ?thesis using that written_ok by blast
qed

lemma signature_written:
  assumes "signCommand rl keyPath pwFile pwEnv mpath [] comment h = (Inr (), h')" and "ho_files h mpath = Some m"
  obtains key pw c where "ho_files h keyPath \<noteq> None" "rl_private_key rl pw (the (ho_files h keyPath)) = Inr key"
    "ho_files h' = (ho_files h)(mpath @ ''.minisig'' \<mapsto> rl_sign rl key m c ''untrusted comment: Reach release manifest signature'')"
proof -
  obtain q h1 where q: "releaseKeyPassword rl pwFile pwEnv h = (q, h1)" by (rule prod.exhaust)
  have same: "h1 = h" using q
    by (auto simp: releaseKeyPassword_def hbind_def hret_def read_file_def split: if_splits option.splits)
  obtain pw where pw: "q = Inr pw"
    using assms(1) q by (cases q) (auto simp: signCommand_def hbind_def hfail_def split: if_splits)
  obtain t key c where "ho_files h keyPath = Some t" "rl_private_key rl pw t = Inr key"
     "lift_host (write_file (mpath @ ''.minisig'') (rl_sign rl key m c ''untrusted comment: Reach release manifest signature'')) h = (Inr (), h')"
    using assms by (auto simp: signCommand_def hbind_def hfail_def q pw same read_file_def on_error_def or_else_def
        split: if_splits option.splits sum.splits prod.splits)
  then show ?thesis by (intro that [of pw key c]) (auto dest: written_ok)
qed

lemma known_key_verifies:
  assumes "key \<in> set keys" "trim_space key \<noteq> []" "ue_key_error e (trim_space key) = None" "ue_verify e (trim_space key) msg sig"
  shows "verifyReleaseManifestSignature e keys msg sig = None"
proof -
  have "verify_keys e msg sig keys errs = None" for errs
    using assms(1) by (induction keys arbitrary: errs) (auto simp: Let_def assms(2-4) split: option.splits)
  then show ?thesis by (simp add: verifyReleaseManifestSignature_def)
qed

text \<open>The manifest as the agent reads it.\<close>

definition as_manifest :: "tool_manifest \<Rightarrow> releaseManifest" where
  "as_manifest m = \<lparr>rm_Schema = tm_Schema m, rm_Project = tm_Project m, rm_Version = tm_Version m, rm_CreatedAt = tm_CreatedAt m,
     rm_Assets = map_of (tm_Assets m)\<rparr>"

text \<open>What the agent fetches is what the directory holds.\<close>

definition publishes :: "update_env \<Rightarrow> string \<Rightarrow> string \<Rightarrow> (string \<rightharpoonup> string) \<Rightarrow> string \<Rightarrow> bool" where
  "publishes e base dir files asset \<longleftrightarrow>
     (\<forall>c. files (path_join [dir, ''manifest.json'']) = Some c \<longrightarrow> ue_fetch e (base @ ''/manifest.json'') = Inr (200, c) \<and> length c \<le> 1048576) \<and>
     (\<forall>c. files (path_join [dir, ''manifest.json''] @ ''.minisig'') = Some c \<longrightarrow>
        ue_fetch e (base @ ''/manifest.json.minisig'') = Inr (200, c) \<and> length c \<le> 16384) \<and>
     (\<forall>c. files (path_join [dir, asset]) = Some c \<longrightarrow> ue_fetch e (base @ ''/'' @ asset) = Inr (200, c))"

text \<open>The agent knows the public key of the pair that signed.\<close>

definition trusts :: "update_env \<Rightarrow> string list \<Rightarrow> release_env \<Rightarrow> string \<Rightarrow> bool" where
  "trusts e keys rl keyText \<longleftrightarrow>
     (\<forall>pw key. rl_private_key rl pw keyText = Inr key \<longrightarrow>
        (\<exists>pub \<in> set keys. trim_space pub \<noteq> [] \<and> ue_key_error e (trim_space pub) = None \<and>
           (\<forall>msg c u. ue_verify e (trim_space pub) msg (rl_sign rl key msg c u))))"

lemma released_honest:
  assumes made: "manifestCommand rl dir version commit [] h = (Inr (), h1)"
    and signed: "signCommand rl keyPath pwFile pwEnv (path_join [dir, ''manifest.json'']) [] comment h1 = (Inr (), h2)"
    and pub: "publishes e base dir (ho_files h2) asset" and trust: "trusts e keys rl (the (ho_files h1 keyPath))"
    and json: "\<And>as t. collect_assets rl (ho_files h) dir asset_names = Inr as \<Longrightarrow> rl_marshal rl (release_of rl version commit as) = Inr t \<Longrightarrow>
      ue_decode e (t @ [nl]) = Inr (as_manifest (release_of rl version commit as))"
    and sha: "ue_sha256_hex e = rl_sha256_hex rl" "\<And>c. length (rl_sha256_hex rl c) = 64 \<and> list_all is_hex (rl_sha256_hex rl c)"
    and asset: "asset \<in> set asset_names" "ho_files h (path_join [dir, asset]) = Some content"
    and fresh: "path_join [dir, asset] \<noteq> path_join [dir, ''manifest.json'']"
      "path_join [dir, asset] \<noteq> path_join [dir, ''manifest.json''] @ ''.minisig''"
    and sz: "content \<noteq> []" "length content \<le> 134217728"
    and ver: "ue_version e content = Inr out" "trim_space out = version"
  shows "honest_release e keys base version asset content"
proof -
  let ?m = "path_join [dir, ''manifest.json'']"
  obtain as t where 1: "collect_assets rl (ho_files h) dir asset_names = Inr as" "rl_marshal rl (release_of rl version commit as) = Inr t"
    "ho_files h1 = (ho_files h)(?m \<mapsto> t @ [nl])" by (rule manifest_written [OF made])
  have m1: "ho_files h1 ?m = Some (t @ [nl])" by (simp add: 1(3))
  obtain key pw c where 2: "rl_private_key rl pw (the (ho_files h1 keyPath)) = Inr key"
    "ho_files h2 = (ho_files h1)(?m @ ''.minisig'' \<mapsto> rl_sign rl key (t @ [nl]) c ''untrusted comment: Reach release manifest signature'')"
    by (rule signature_written [OF signed m1])
  let ?sig = "rl_sign rl key (t @ [nl]) c ''untrusted comment: Reach release manifest signature''"
  have files: "ho_files h2 ?m = Some (t @ [nl])" "ho_files h2 (?m @ ''.minisig'') = Some ?sig" "ho_files h2 (path_join [dir, asset]) = Some content"
    using m1 2(2) 1(3) fresh asset(2) by simp_all
  have v: "verifyReleaseManifestSignature e keys (t @ [nl]) ?sig = None"
    using trust 2(1) known_key_verifies unfolding trusts_def by blast
  let ?a = "\<lparr>ra_SHA256 = rl_sha256_hex rl content, ra_Size = int (length content)\<rparr>"
  have listed: "map_of as asset = Some ?a" using collected [OF 1(1) asset(1)] asset(2) by simp
  have "validateReleaseAsset asset ?a = None" using sha(2) [of content] sz(1) by (simp add: validateReleaseAsset_def)
  then have p: "parseReleaseManifest e (t @ [nl]) version asset = Inr (as_manifest (release_of rl version commit as), ?a)"
    using listed by (simp add: parseReleaseManifest_def json [OF 1(1,2)] as_manifest_def release_of_def releaseManifestProject_def)
  show ?thesis unfolding honest_release_def
    by (rule exI [of _ "t @ [nl]"], rule exI [of _ ?sig], rule exI, rule exI [of _ ?a], rule exI [of _ out])
      (use pub files v p sz ver in \<open>auto simp: publishes_def sha(1) equal_fold_def\<close>)
qed

text \<open>C23: What the release tool publishes the agents install. When its manifest and its signature of it
  succeed and the directory is served, an update on a machine of any platform that an agent knows,
  with every system call succeeding, returns without error: the agent's file holds the binary of the
  directory, the backup the old one, and the flag that asks for a confirmation is set. The tool and
  the agent are assumed to agree on SHA-256, on JSON for this manifest, and on the key pair.\<close>

theorem released_update_installed:
  assumes made: "manifestCommand rl dir (uo_Version opt) commit [] h = (Inr (), h1)"
    and signed: "signCommand rl keyPath pwFile pwEnv (path_join [dir, ''manifest.json'']) [] comment h1 = (Inr (), h2)"
    and pub: "publishes e (base_url (uo_APIURL opt) (uo_Version opt)) dir (ho_files h2) asset"
    and trust: "trusts e keys rl (the (ho_files h1 keyPath))"
    and json: "\<And>as t. collect_assets rl (ho_files h) dir asset_names = Inr as \<Longrightarrow> rl_marshal rl (release_of rl (uo_Version opt) commit as) = Inr t \<Longrightarrow>
      ue_decode e (t @ [nl]) = Inr (as_manifest (release_of rl (uo_Version opt) commit as))"
    and sha: "ue_sha256_hex e = rl_sha256_hex rl" "\<And>c. length (rl_sha256_hex rl c) = 64 \<and> list_all is_hex (rl_sha256_hex rl c)"
    and content: "ho_files h (path_join [dir, asset]) = Some content" "content \<noteq> []" "length content \<le> 134217728"
    and fresh: "path_join [dir, asset] \<noteq> path_join [dir, ''manifest.json'']"
      "path_join [dir, asset] \<noteq> path_join [dir, ''manifest.json''] @ ''.minisig''"
    and ver: "ue_version e content = Inr out" "trim_space out = uo_Version opt"
    and machine: "ue_goos e = ''linux'' \<or> ue_goos e = ''darwin''" "is_InstallMode st = ''system'' \<longrightarrow> ue_root e"
      "uo_APIURL opt \<noteq> []" "uo_CandidatePath opt = []" "uo_Version opt \<noteq> []" "detectAgentAsset (ue_goos e) (ue_arch e) uname = Inr asset"
      "distinct (update_paths e st opt)" "is_AgentPath st \<notin> set (update_files e)" "ho_files target (is_AgentPath st) = Some old" "calm target"
  shows "\<exists>t. performBinaryUpdate (restartReachAgent env (ue_goos e) uid) e keys uname cfg_url st opt target = (Inr (), t) \<and>
    ho_files t (is_AgentPath st) = Some content \<and> ho_files t (backup_path (ue_id e) st) = Some old \<and> ho_files t (confirm_flag st) \<noteq> None"
proof -
  have "asset \<in> set asset_names" using machine(6) asked_asset_listed by (auto simp: detectAgentAsset_def Let_def)
  from released_honest [OF made signed pub trust json sha this content(1) fresh content(2,3) ver]
  show ?thesis using honest_release_installed machine by blast
qed

text \<open>A directory in which every file has the same two bytes, a manifest included.\<close>

definition example_bytes :: string where "example_bytes = ''m'' @ [nl]"

definition example_tool :: release_env where
  "example_tool = \<lparr>rl_sha256_hex = (\<lambda>_. replicate 64 CHR ''a''), rl_marshal = (\<lambda>_. Inr ''m''), rl_private_key = (\<lambda>_ _. Inr ''k''),
     rl_sign = (\<lambda>_ _ _ _. example_bytes), rl_generate = Inl [], rl_random = Inl [], rl_private_text = Inl, rl_encrypt = (\<lambda>_. Inl),
     rl_public_text = Inl, rl_getenv = (\<lambda>_. []), rl_home = None, rl_now = 0\<rparr>"

definition example_dir :: host where
  "example_dir = \<lparr>ho_files = (\<lambda>_. Some example_bytes), ho_log = [], ho_answer = (\<lambda>_ _. (True, [])), ho_listening = (\<lambda>_. False),
     ho_json = (\<lambda>_. None)\<rparr>"

definition example_assets :: "(string \<times> releaseAsset) list" where
  "example_assets = map (\<lambda>n. (n, \<lparr>ra_SHA256 = replicate 64 CHR ''a'', ra_Size = 2\<rparr>)) asset_names"

definition example_agent :: update_env where
  "example_agent = (example_release ''2'' ''T'')\<lparr>ue_fetch := (\<lambda>_. Inr (200, example_bytes)),
     ue_decode := (\<lambda>_. Inr (as_manifest (release_of example_tool ''2'' [] example_assets)))\<rparr>"

lemma example_collected: "collect_assets example_tool (ho_files example_dir) ''/r'' asset_names = Inr example_assets"
proof -
  have "collect_assets example_tool (ho_files example_dir) ''/r'' nms
      = Inr (map (\<lambda>n. (n, \<lparr>ra_SHA256 = replicate 64 CHR ''a'', ra_Size = 2\<rparr>)) nms)" for nms
    by (induction nms) (simp_all add: example_dir_def example_tool_def example_bytes_def andThen_def)
  then show ?thesis by (simp add: example_assets_def)
qed

theorem released_update_installed_witness:
  "\<exists>h1 h2 t. manifestCommand example_tool ''/r'' ''2'' [] [] example_dir = (Inr (), h1) \<and>
     signCommand example_tool ''/k'' [] [] (path_join [''/r'', ''manifest.json'']) [] [] h1 = (Inr (), h2) \<and>
     performBinaryUpdate (restartReachAgent \<lparr>ae_config = [], ae_home = [], ae_root = False, ae_cwd = ''/'', ae_is_file = (\<lambda>_. False)\<rparr>
       (ue_goos example_agent) ''1'') example_agent releaseManifestPublicKeys None None example_install (example_options ''2'') example_machine
       = (Inr (), t) \<and> ho_files t ''/b/agent'' = Some example_bytes"
proof -
  let ?opt = "example_options ''2''" and ?asset = "''reach-agent_linux_amd64''"
  have opt: "uo_APIURL ?opt \<noteq> []" "uo_CandidatePath ?opt = []" "uo_Version ?opt \<noteq> []" "uo_Version ?opt = ''2''"
    by (simp_all add: example_options_def)
  have wrote: "\<exists>k. lift_host (write_file p example_bytes) h = (Inr (), k) \<and> ho_files k = (\<lambda>_. Some example_bytes) \<and>
      ho_answer k = (\<lambda>_ _. (True, []))"
    if "ho_files h = (\<lambda>_. Some example_bytes)" "ho_answer h = (\<lambda>_ _. (True, []))" for p h
    using that by (simp add: lift_host_def write_file_def os_call_def host_do_def fun_upd_idem)
  have d: "ho_files example_dir = (\<lambda>_. Some example_bytes)" "ho_answer example_dir = (\<lambda>_ _. (True, []))" by (simp_all add: example_dir_def)
  obtain h1 where h1: "lift_host (write_file (path_join [''/r'', ''manifest.json'']) example_bytes) example_dir = (Inr (), h1)"
      "ho_files h1 = (\<lambda>_. Some example_bytes)" "ho_answer h1 = (\<lambda>_ _. (True, []))" using wrote [OF d] by blast
  have made: "manifestCommand example_tool ''/r'' (uo_Version ?opt) [] [] example_dir = (Inr (), h1)"
    using h1(1) unfolding manifestCommand_def example_collected opt(4)
    by (simp add: andThen_def example_tool_def or_else_def example_bytes_def)
  obtain h2 where h2: "lift_host (write_file (path_join [''/r'', ''manifest.json''] @ ''.minisig'') example_bytes) h1 = (Inr (), h2)"
      "ho_files h2 = (\<lambda>_. Some example_bytes)" using wrote [OF h1(2,3)] by blast
  have ne: "path_join [''/r'', ''manifest.json''] \<noteq> []" by code_simp
  have signed: "signCommand example_tool ''/k'' [] [] (path_join [''/r'', ''manifest.json'']) [] [] h1 = (Inr (), h2)"
    using h2(1) h1(2) ne unfolding signCommand_def
    by (simp add: hbind_def releaseKeyPassword_def hret_def on_error_def read_file_def example_tool_def or_else_def)
  have keys: "\<exists>pub \<in> set releaseManifestPublicKeys. trim_space pub \<noteq> []" by code_simp
  have env: "ue_sha256_hex example_agent = rl_sha256_hex example_tool" "ue_version example_agent example_bytes = Inr ''2''"
    "ue_verify example_agent = (\<lambda>_ _ _. True)" "ue_key_error example_agent = (\<lambda>_. None)" "ue_goos example_agent = ''linux''"
    "ue_arch example_agent = ''amd64''" "ue_fetch example_agent = (\<lambda>_. Inr (200, example_bytes))"
    "update_paths example_agent example_install ?opt = update_paths (example_release ''2'' ''T'') example_install ?opt"
    "update_files example_agent = update_files (example_release ''2'' ''T'')"
    by (simp_all add: example_agent_def example_release_def example_tool_def update_paths_def update_files_def candidate_path_def
        install_temp_def manifest_path_def signature_path_def download_path_def)
  have pub: "publishes example_agent (base_url (uo_APIURL ?opt) (uo_Version ?opt)) ''/r'' (ho_files h2) ?asset"
    unfolding publishes_def h2(2) env(7) by (simp add: example_bytes_def)
  have trust: "trusts example_agent releaseManifestPublicKeys example_tool (the (ho_files h1 ''/k''))"
    unfolding trusts_def env(3,4) using keys by simp
  have json: "ue_decode example_agent (t @ [nl]) = Inr (as_manifest (release_of example_tool (uo_Version ?opt) [] as))"
    if "collect_assets example_tool (ho_files example_dir) ''/r'' asset_names = Inr as" for as t
    using that unfolding example_collected opt(4) by (simp add: example_agent_def)
  have hex: "length (rl_sha256_hex example_tool c) = 64 \<and> list_all is_hex (rl_sha256_hex example_tool c)" for c
    by (simp add: example_tool_def is_hex_def list_all_iff)
  have fresh: "path_join [''/r'', ?asset] \<noteq> path_join [''/r'', ''manifest.json'']"
    "path_join [''/r'', ?asset] \<noteq> path_join [''/r'', ''manifest.json''] @ ''.minisig''" by code_simp+
  have asset: "detectAgentAsset ''linux'' ''amd64'' None = Inr ?asset" "trim_space ''2'' = ''2''" by code_simp+
  have old: "ho_files example_machine (is_AgentPath example_install) = Some ''old''" by code_simp
  have c: "calm example_machine" by (simp add: calm_def example_machine_def)
  have sys: "is_InstallMode example_install = ''system'' \<longrightarrow> ue_root example_agent" by (simp add: example_install_def)
  have "\<exists>t. performBinaryUpdate (restartReachAgent \<lparr>ae_config = [], ae_home = [], ae_root = False, ae_cwd = ''/'', ae_is_file = (\<lambda>_. False)\<rparr>
       (ue_goos example_agent) ''1'') example_agent releaseManifestPublicKeys None None example_install ?opt example_machine = (Inr (), t) \<and>
     ho_files t (is_AgentPath example_install) = Some example_bytes \<and> ho_files t (backup_path (ue_id example_agent) example_install) = Some ''old'' \<and>
     ho_files t (confirm_flag example_install) \<noteq> None"
    by (rule released_update_installed [OF made signed pub trust json env(1) hex _ _ _ fresh env(2)])
      (use asset opt old c sys env d example_distinct in \<open>simp_all add: example_bytes_def\<close>)
  then show ?thesis using made signed unfolding opt(4) example_paths by blast
qed

text \<open>Without \<open>--force\<close> no file that exists is overwritten by a new key pair.\<close>

lemma keygen_overwrites_nothing:
  assumes run: "keygenCommand rl keyPath pub pwFile False h = (r, h')" and x: "ho_files h x \<noteq> None" "x \<noteq> []"
  shows "ho_files h' x = ho_files h x"
proof (cases "List.find (\<lambda>p. p \<noteq> [] \<and> file_exists p h \<and> \<not> False) [keyPath, public_path keyPath pub, pwFile]")
  case (Some p)
  then show ?thesis using run unfolding keygenCommand_def Let_def Some by simp
next
  case None
  let ?p = "\<lambda>y. y \<in> {keyPath, public_path keyPath pub, pwFile}"
  have nx: "\<not> ?p x"
  proof
    assume "?p x"
    then have "x \<in> set [keyPath, public_path keyPath pub, pwFile]" by simp
    moreover have "\<not> (\<exists>y. y \<in> set [keyPath, public_path keyPath pub, pwFile] \<and> y \<noteq> [] \<and> file_exists y h \<and> \<not> False)"
      using None by (simp only: find_None_iff not_False_eq_True)
    ultimately show False using x unfolding file_exists_def by blast
  qed
  have put: "only_files ?p (put_in_dir y c)" if "?p y" for y c
    unfolding put_in_dir_def by (intro file_frames that) simp
  have all: "only_files ?p (and_then (put_in_dir keyPath a) (and_then (put_in_dir (public_path keyPath pub) b)
      (if pwFile \<noteq> [] then put_in_dir pwFile c else fail_with None)))" for a b c
    by (intro file_frames put) (simp_all add: only_files_def fail_with_def put [unfolded only_files_def])
  show ?thesis
  proof (cases "key_texts rl (pwFile \<noteq> [])")
    case (Inl e)
    then show ?thesis using run unfolding keygenCommand_def Let_def None by simp
  next
    case (Inr t)
    obtain a b c where t: "t = (a, b, c)" by (cases t)
    obtain q k where q: "and_then (put_in_dir keyPath a) (and_then (put_in_dir (public_path keyPath pub) b)
      (if pwFile \<noteq> [] then put_in_dir pwFile (c @ [nl]) else fail_with None)) h = (q, k)" by (rule prod.exhaust)
    have "h' = k" using run q unfolding keygenCommand_def Let_def None Inr t
      by (auto simp: lift_host_def split: option.splits)
    then show ?thesis using only_filesD [OF all q nx] by simp
  qed
qed

end
