(* ===== verification/Spec2Isabelle.thy ===== *)
theory Spec2Isabelle
  imports SecurityProps RequestProps AuthProps MachineProps DesiredState HostProps CarrierProps SshProps TitleProps UpdateProps DaemonProps MacProps InstallProps HubCliProps ReleaseProps
begin

text \<open>
  A verification library of \<open>reach\<close>, a manager of reverse SSH tunnels. Paths below are relative to
  \<open>src/\<close>.

  \<^bold>\<open>The program.\<close> A hub (\<open>api.go\<close>, \<open>db.go\<close>, \<open>provisioner.go\<close> and the files beside them) keeps
  machines, tunnels, access requests and tokens in a SQLite database, makes a Unix account with one
  restricted key per machine on its own host, and answers clients, agents and administrators over
  HTTP. An agent (\<open>cmd/reach-agent\<close>) on each machine is installed with the hub's approval, holds the
  tunnel open, over SSH or over a WebSocket carrier (\<open>internal/wscarrier\<close>), reports by heartbeats,
  carries out commands, and updates its own binary. A third program (\<open>cmd/reach-mac-agent\<close>) keeps the
  hub's SSH configuration copied on the operator's machine and listens to the hub's event stream.
  They meet in five places, and the library follows each across both ends: heartbeats with their
  commands and results, frames on the carrier, server-sent events, slugs, and the manifests of releases,
  which a fourth program (\<open>cmd/reach-release\<close>) publishes.

  \<^bold>\<open>Foundations.\<close> Prelude has the collections of rules and the generic facts. GoStrings, GoTime,
  Rfc3339, Utf8, Json, Base64 and GoNet are the parts of Go's standard library the program uses.
  Text is a list of bytes, with \<open>nl\<close> and \<open>dq\<close> for the line end and the quote.

  \<^bold>\<open>The hub.\<close>
  \<^item> Security is \<open>security.go\<close>; Models is \<open>models.go\<close> and the structs of \<open>config.go\<close>.
  \<^item> Store is \<open>db.go\<close>: tables as lists of rows in the order of their insertion, NULL as None, the
    uniqueness and reference checks of the schema as errors of the inserts. StoreFacts has the
    integrity invariant \<open>db_wf\<close>.
  \<^item> Events is \<open>events.go\<close>, RateLimit is \<open>ratelimit.go\<close>, World is the state of the running hub:
    database, random draws, subscribers, clean-up times and the host. Every action on a host is
    logged and may fail, as an oracle over the log says; files change only when it succeeds.
  \<^item> Provisioner, MachineOps and Monitoring are \<open>provisioner.go\<close>; Updates is \<open>updates.go\<close>.
  \<^item> ApiAuth, ApiClient, ApiProvision, ApiAgent, ApiAdmin are the handlers of \<open>api.go\<close>, Server the
    routing and \<open>serve\<close>, one request from its arrival to its answer.
  \<^item> HubInvariant and HandlerFacts show that every operation keeps \<open>db_wf\<close> and the history; HubRuns
    has the step relation \<open>hub_step\<close>, whose steps are requests, probes, expiries and the events of streams, and
    lifts both to every reachable state. RequestLife has the edges of an access request's status.
    DesiredState refines \<open>SetDesiredState\<close> to an abstract life of a machine.
  \<^item> HubConfig is the rest of \<open>config.go\<close> and \<open>notifications.go\<close>, HubCli is \<open>cli.go\<close>; HubCliProps shows
    what an accepted configuration guarantees and that every command keeps the database.
  \<^item> SecurityProps, AuthProps, RequestProps, MachineProps and HostProps hold the properties, Examples
    a small hub for their witnesses.

  \<^bold>\<open>The carrier.\<close> WsFrames, WsCarrier and WsHandshake are \<open>internal/wscarrier/wscarrier.go\<close>: frames,
  the connection that reads and writes them, the upgrade on both sides. WsLink relates what is on the
  wire to what was sent; \<open>pump_step\<close> interleaves the two copying goroutines. CarrierProps has the
  properties.

  \<^bold>\<open>The agent.\<close>
  \<^item> HostKeys (\<open>hostkey_algorithms.go\<close>, \<open>embedded_ssh.go\<close>), SshCompat (\<open>ssh_compat.go\<close>,
    \<open>ssh_key_parse.go\<close>) and LocalSshd (\<open>internal_sshd.go\<close>) are its SSH support; SshProps.
  \<^item> ProcessTitle is \<open>process_title.go\<close> and its Linux part, the controller with its goroutine as
    \<open>title_step\<close>; TitleProps.
  \<^item> AgentConfig and AgentDaemon are \<open>main.go\<close>: one function per event of the loop. DaemonFacts has
    the invariant of its runs, DaemonProps the properties.
  \<^item> UpdateBinary and UpdateRun are \<open>update_binary.go\<close>. UpdateFacts and UpdateInstall say what each
    step may change whatever fails; UpdateWp what happens when nothing fails; UpdateProps.
  \<^item> InstallPlan, InstallFiles, InstallService and InstallFlow are \<open>install.go\<close> for Linux and macOS;
    InstallFacts says which files each operation may write, InstallProps has the properties.

  \<^bold>\<open>Releases.\<close> ReleaseTool is \<open>cmd/reach-release/main.go\<close>; ReleaseProps composes it with the update of
  the agent: what the tool publishes, the agent installs.

  \<^bold>\<open>The operator's agent.\<close> MacAgent is \<open>cmd/reach-mac-agent/main.go\<close>, MacFacts has its file
  operations, MacProps its properties, among them that its parser understands the hub's stream.

  \<^bold>\<open>Interfaces.\<close> The locale \<open>window_limiter\<close> states what a fixed-window limiter promises; its
  interpretations are the limiter in memory and the one in the database. \<open>shared_window_limiter\<close>
  extends it by an environment that leaves live buckets alone; registration and login, which share
  one table, are its interpretations.

  \<^bold>\<open>What is a parameter.\<close> Argon2, SHA-256, HMAC and random bytes, the parsers of SSH keys and of PEM,
  minisign, \<open>url.Parse\<close>, the JSON and YAML decoders into structs, archives, the network, the clock
  and the commands of the host. A theorem that relies on one of them states what it relies on, and
  its witness instantiates it. Texts of driver errors and of failed system calls are fixed.

  \<^bold>\<open>Time, loops and fuel.\<close> An operation sees one instant. \<open>retired_slug_loop\<close> makes 20 draws,
  \<open>poll_gone\<close> 20 polls, \<open>wait_gone\<close> 40, and a heartbeat 3 attempts (\<open>post_attempts\<close>), as the code has
  it. The parser of durations gets the length of its text, more than the components it can hold.
  \<open>mac_rounds\<close> takes the number of rounds. \<open>registerAndWait\<close> waits for an operator, possibly for
  ever: it takes numbers of requests and polls, and None means that it still waits.

  \<^bold>\<open>Errors\<close> are values: \<open>Inl\<close> a text, or Some of it, in the position where Go returns an error.
  Concurrency is a relation over whole critical sections (\<open>title_step\<close>, \<open>pump_step\<close>, \<open>hub_step\<close>) or
  a list of operations in any order; a transaction is one of them.

  \<^bold>\<open>Not modelled.\<close> \<open>main.go\<close> (calls the command line), \<open>install_windows.go\<close> and the branches that call
  it, the attributes of detached processes, the forwarding of connections and the keep-alive inside
  an open SSH tunnel, flags, prompts and what is printed, permissions of files,
  \<open>cmd/reach-ws-carrier\<close> (flags around the carrier), and the web front end.
\<close>

end
